(* ===== verification/LrWpan_Prelude.thy ===== *)
theory LrWpan_Prelude
  imports Main "HOL-Library.Word" "HOL-Library.Monad_Syntax"
begin

section \<open>Prelude: machine integers, packed bit fields, lists\<close>

text \<open>
  The types and lemmas every component shares. A C++ integer of width \<open>w\<close> is a
  \<open>w word\<close>; an operand of an arithmetic or shift operator is first promoted to \<open>int\<close>,
  which is \<open>cint\<close> here (32 bits, two's complement), and the result is cut back to the
  width of the variable it is stored in (\<open>ucast\<close>). A \<open>bool\<close> operand is promoted to 0 or 1
  (\<open>of_bool\<close>). The result type \<open>'a option\<close> has \<open>None\<close> for a run that the program does not
  survive: \<open>NS_ABORT_MSG\<close>, a failed \<open>NS_ASSERT\<close>, or an access outside an array or a buffer.

  Three collections carry the proofs: \<open>wire_simps\<close> (a sequence of writes is one write of
  the concatenated octets, a read consumes what was written), \<open>word_pack\<close> (packing and
  unpacking bit fields) and \<open>class_defs\<close> (the small setters and getters of the classes).
\<close>

unbundle bit_operations_syntax

named_theorems wire_simps "sequences of buffer reads and writes"
named_theorems word_pack "packed bit fields of a word"
named_theorems class_defs "definitions of small class operations"

type_synonym u8 = "8 word"
type_synonym u16 = "16 word"
type_synonym u32 = "32 word"
type_synonym u64 = "64 word"
type_synonym cint = "32 word"

subsection \<open>Bit fields\<close>

text \<open>
  \<open>putField v n m\<close> is the expression \<open>(v << n) & (m << n)\<close> on promoted operands,
  \<open>getField w n m\<close> is \<open>(w >> n) & m\<close>, and \<open>fits k x\<close> says that \<open>x\<close> is below \<open>2 ^ k\<close>,
  so that a field of \<open>k\<close> bits holds it.
\<close>

definition putField :: "'a::len word \<Rightarrow> nat \<Rightarrow> 'a word \<Rightarrow> 'a word" where
  "putField v n m = push_bit n v AND push_bit n m"

definition getField :: "'a::len word \<Rightarrow> nat \<Rightarrow> 'a word \<Rightarrow> 'a word" where
  "getField w n m = drop_bit n w AND m"

definition fits :: "nat \<Rightarrow> 'a::len word \<Rightarrow> bool" where
  "fits k x \<longleftrightarrow> take_bit k x = x"

lemma fits_iff: "fits k x \<longleftrightarrow> unat x < 2 ^ k"
  by (simp add: fits_def word_unat_eq_iff unsigned_take_bit_eq take_bit_nat_eq_self_iff)

lemma fits_bit: "fits k x \<Longrightarrow> bit x n \<Longrightarrow> n < k"
  by (metis bit_take_bit_iff fits_def)

lemma fitsI: "(\<And>n. bit x n \<Longrightarrow> n < k) \<Longrightarrow> fits k x"
  unfolding fits_def by (rule bit_eqI) (auto simp: bit_take_bit_iff)

lemma unat_ucast_up:
  fixes x :: "'a::len word"
  assumes "LENGTH('a) \<le> LENGTH('b)"
  shows "unat (ucast x :: 'b::len word) = unat x"
proof -
  have "(2 :: nat) ^ LENGTH('a) \<le> 2 ^ LENGTH('b)" using assms by (intro power_increasing) simp_all
  then have "unat x < 2 ^ LENGTH('b)" using unsigned_less [of x, where ?'a = nat] by (rule order.strict_trans2 [rotated])
  then show ?thesis by (simp add: unsigned_ucast_eq take_bit_nat_eq_self)
qed

lemma fits_take_bit [simp]: "fits k (take_bit k x)"
  by (simp add: fits_def)

lemma fits_length [simp]: "fits LENGTH('a) (x :: 'a::len word)"
  by (simp add: fits_iff unsigned_less)

lemma and_mask [word_pack]:
  "(x :: 'a::len word) AND 1 = take_bit 1 x"
  "x AND 3 = take_bit 2 x"
  "x AND 7 = take_bit 3 x"
  "x AND 15 = take_bit 4 x"
  "x AND 31 = take_bit 5 x"
  "x AND 127 = take_bit 7 x"
  "x AND 255 = take_bit 8 x"
  "x AND 1023 = take_bit 10 x"
  "x AND 2047 = take_bit 11 x"
  "x AND 65535 = take_bit 16 x"
  by (simp_all add: take_bit_eq_mask mask_eq_exp_minus_1)

lemma putField_and [word_pack]: "putField v n m = push_bit n (v AND m)"
  by (simp add: putField_def)

lemmas [word_pack] = getField_def bit_simps

lemma getField_1_nonzero: "getField w n 1 \<noteq> 0 \<longleftrightarrow> bit w n"
  by (simp add: getField_def bit_iff_odd_drop_bit and_one_eq odd_iff_mod_2_eq_one)

lemma getField_flag: "getField w n 1 = of_bool (bit w n)"
  by (simp add: getField_def bit_iff_odd_drop_bit and_one_eq mod_2_eq_odd)

lemma bit_putField_flag: "bit (putField v s 1) n \<longleftrightarrow> n = s \<and> s < LENGTH('a) \<and> bit (v :: 'a::len word) 0"
  by (auto simp: putField_def bit_simps)

lemma fits_1_flag: "fits 1 x \<Longrightarrow> of_bool (bit x 0) = x"
  by (rule bit_word_eqI) (auto simp: bit_simps dest: fits_bit)

lemma bit_of_bool_word [word_pack]: "bit (of_bool b :: 'a::len word) n \<longleftrightarrow> b \<and> n = 0"
  by (auto simp: bit_simps)

text \<open>The bits of one packed part, and a flag read back.\<close>

lemma bit_part:
  "bit (ucast (putField (ucast (v :: u8) :: cint) s 1) :: 'a::len word) n \<longleftrightarrow> n = s \<and> s < 32 \<and> s < LENGTH('a) \<and> bit v 0"
  "bit (ucast (putField (of_bool b :: cint) s 1) :: 'a::len word) n \<longleftrightarrow> n = s \<and> s < 32 \<and> s < LENGTH('a) \<and> b"
  "bit (ucast (putField (ucast v :: cint) s 3) :: 'a::len word) n \<longleftrightarrow>
     s \<le> n \<and> n < s + 2 \<and> n < 32 \<and> n < LENGTH('a) \<and> bit v (n - s)"
  "bit (ucast (putField (ucast v :: cint) s 7) :: 'a::len word) n \<longleftrightarrow>
     s \<le> n \<and> n < s + 3 \<and> n < 32 \<and> n < LENGTH('a) \<and> bit v (n - s)"
  "bit (ucast (putField (ucast v :: cint) s 15) :: 'a::len word) n \<longleftrightarrow>
     s \<le> n \<and> n < s + 4 \<and> n < 32 \<and> n < LENGTH('a) \<and> bit v (n - s)"
  "bit (ucast ((ucast v :: cint) AND 7) :: 'a::len word) n \<longleftrightarrow> n < 3 \<and> n < LENGTH('a) \<and> bit v n"
  "bit (ucast ((ucast v :: cint) AND 15) :: 'a::len word) n \<longleftrightarrow> n < 4 \<and> n < LENGTH('a) \<and> bit v n"
  by (auto simp: putField_and and_mask bit_simps bit_1_iff simp del: and_mask(1) bit_0 take_bit_of_1 and_one_eq one_and_eq)

lemma bit_part_in:
  "s + 1 \<le> LENGTH('a) \<Longrightarrow> s < 32 \<Longrightarrow> bit (ucast (putField (ucast (v :: u8) :: cint) s 1) :: 'a::len word) n \<longleftrightarrow> n = s \<and> bit v 0"
  "s + 1 \<le> LENGTH('a) \<Longrightarrow> s < 32 \<Longrightarrow> bit (ucast (putField (of_bool b :: cint) s 1) :: 'a::len word) n \<longleftrightarrow> n = s \<and> b"
  "s + 2 \<le> LENGTH('a) \<Longrightarrow> s < 31 \<Longrightarrow> bit (ucast (putField (ucast v :: cint) s 3) :: 'a::len word) n \<longleftrightarrow>
     s \<le> n \<and> n < s + 2 \<and> bit v (n - s)"
  "s + 3 \<le> LENGTH('a) \<Longrightarrow> s < 30 \<Longrightarrow> bit (ucast (putField (ucast v :: cint) s 7) :: 'a::len word) n \<longleftrightarrow>
     s \<le> n \<and> n < s + 3 \<and> bit v (n - s)"
  "s + 4 \<le> LENGTH('a) \<Longrightarrow> s < 29 \<Longrightarrow> bit (ucast (putField (ucast v :: cint) s 15) :: 'a::len word) n \<longleftrightarrow>
     s \<le> n \<and> n < s + 4 \<and> bit v (n - s)"
  "3 \<le> LENGTH('a) \<Longrightarrow> bit (ucast ((ucast v :: cint) AND 7) :: 'a::len word) n \<longleftrightarrow> n < 3 \<and> bit v n"
  "4 \<le> LENGTH('a) \<Longrightarrow> bit (ucast ((ucast v :: cint) AND 15) :: 'a::len word) n \<longleftrightarrow> n < 4 \<and> bit v n"
  unfolding bit_part by auto

lemma fits_fields [simp]:
  "fits 1 (of_bool b :: 'a::len word)"
  "fits 1 (ucast (getField w n 1) :: u8)"
  "fits 2 (ucast (getField w n 3) :: u8)"
  "fits 3 (ucast (getField w n 7) :: u8)"
proof -
  show flag: "fits 1 (of_bool b :: 'a::len word)" for b by (cases b) (simp_all add: fits_iff)
  show "fits 1 (ucast (getField w n 1) :: u8)"
    by (simp add: getField_flag fits_iff)
  show "fits 2 (ucast (getField w n 3) :: u8)" and "fits 3 (ucast (getField w n 7) :: u8)"
    by (rule fitsI, simp add: getField_def and_mask bit_simps)+
qed

lemma ucast_flag: "ucast (getField w n 1) = of_bool (bit w n)"
  by (simp add: getField_flag)

text \<open>The bit positions of an octet and of a 16-bit word, for case distinctions.\<close>

lemma bit_positions:
  "k < LENGTH(8) \<Longrightarrow> k \<in> {0,1,2,3,4,5,6,7}"
  "m < LENGTH(16) \<Longrightarrow> m \<in> {0,1,2,3,4,5,6,7,8,9,10,11,12,13,14,15}"
  by (auto simp: less_Suc_eq numeral_eq_Suc)

subsection \<open>Lists and loops\<close>

text \<open>
  \<open>firstN n xs\<close> is the part of an array that a loop \<open>for (j = 0; j < n; j++)\<close> visits; the
  loop leaves the array when \<open>n\<close> is larger than its length, which is \<open>None\<close>.
\<close>

definition firstN :: "nat \<Rightarrow> 'a list \<Rightarrow> 'a list option" where
  "firstN n xs = (if n \<le> length xs then Some (take n xs) else None)"

lemma firstN_all [simp]: "firstN (length xs) xs = Some xs"
  by (simp add: firstN_def)

lemma firstN_le: "n \<le> length xs \<Longrightarrow> firstN n xs = Some (take n xs)"
  by (simp add: firstN_def)

lemma find_SomeD: "find P xs = Some x \<Longrightarrow> x \<in> set xs \<and> P x"
  by (auto simp: find_Some_iff)

text \<open>\<open>std::vector::resize\<close>: cut at the end, or filled up with \<open>z\<close>.\<close>

definition resize :: "'a \<Rightarrow> nat \<Rightarrow> 'a list \<Rightarrow> 'a list" where
  "resize z n xs = take n xs @ replicate (n - length xs) z"

lemma length_resize [simp]: "length (resize z n xs) = n"
  by (simp add: resize_def)

lemma resize_length [simp]: "resize z (length xs) xs = xs"
  by (simp add: resize_def)

text \<open>The length \<open>ceil(n / 16.0)\<close> of a bitmap of \<open>n\<close> bits kept in 16-bit words.\<close>

definition words16 :: "nat \<Rightarrow> nat" where
  "words16 n = (n + 15) div 16"

lemma words16_enough: "p < n \<Longrightarrow> p div 16 < words16 n"
  by (simp add: words16_def)

lemma words16_tight: "16 * words16 n < n + 16"
  by (simp add: words16_def)

end
