(* ===== verification/Packet_Buffer.thy ===== *)
theory Packet_Buffer
  imports LrWpan_Prelude
begin

section \<open>Octet buffers, addresses and packets\<close>

text \<open>
  The part of \<open>network/model/buffer\<close>, \<open>network/model/packet\<close> and
  \<open>network/utils/address-utils\<close> that every header of the MAC layer is written with.
  An iterator is a zipper \<open>(d, r)\<close>: \<open>d\<close> holds the octets before the cursor, \<open>r\<close> those from
  the cursor to the end of the data, so the buffer's content is \<open>d @ r\<close> and the distance
  from an iterator at the start is \<open>length d\<close>. Writing replaces the octets after the
  cursor, reading moves over them; both are \<open>None\<close> when they leave the data (the iterator's
  assertions). The zero area of the buffer is a representation detail and is not modelled.
\<close>

type_synonym iter = "u8 list \<times> u8 list"

subsection \<open>Writing\<close>

definition WriteU8 :: "u8 \<Rightarrow> iter \<Rightarrow> iter option" where
  "WriteU8 b i = (case i of (d, r) \<Rightarrow> (case r of [] \<Rightarrow> None | _ # r' \<Rightarrow> Some (d @ [b], r')))"

definition WriteU16 :: "u16 \<Rightarrow> iter \<Rightarrow> iter option" where
  "WriteU16 v i = do {
     i \<leftarrow> WriteU8 (ucast (v AND 0xff)) i;
     let v = drop_bit 8 v;
     WriteU8 (ucast (v AND 0xff)) i }"

definition WriteU64 :: "u64 \<Rightarrow> iter \<Rightarrow> iter option" where
  "WriteU64 v i = do {
     i \<leftarrow> WriteU8 (ucast (v AND 0xff)) i; let v = drop_bit 8 v;
     i \<leftarrow> WriteU8 (ucast (v AND 0xff)) i; let v = drop_bit 8 v;
     i \<leftarrow> WriteU8 (ucast (v AND 0xff)) i; let v = drop_bit 8 v;
     i \<leftarrow> WriteU8 (ucast (v AND 0xff)) i; let v = drop_bit 8 v;
     i \<leftarrow> WriteU8 (ucast (v AND 0xff)) i; let v = drop_bit 8 v;
     i \<leftarrow> WriteU8 (ucast (v AND 0xff)) i; let v = drop_bit 8 v;
     i \<leftarrow> WriteU8 (ucast (v AND 0xff)) i; let v = drop_bit 8 v;
     WriteU8 (ucast (v AND 0xff)) i }"

definition WriteHtolsbU16 :: "u16 \<Rightarrow> iter \<Rightarrow> iter option" where
  "WriteHtolsbU16 v i = do {
     i \<leftarrow> WriteU8 (ucast (getField v 0 0xff)) i;
     WriteU8 (ucast (getField v 8 0xff)) i }"

definition WriteHtolsbU32 :: "u32 \<Rightarrow> iter \<Rightarrow> iter option" where
  "WriteHtolsbU32 v i = do {
     i \<leftarrow> WriteU8 (ucast (getField v 0 0xff)) i;
     i \<leftarrow> WriteU8 (ucast (getField v 8 0xff)) i;
     i \<leftarrow> WriteU8 (ucast (getField v 16 0xff)) i;
     WriteU8 (ucast (getField v 24 0xff)) i }"

definition WriteHtolsbU64 :: "u64 \<Rightarrow> iter \<Rightarrow> iter option" where
  "WriteHtolsbU64 v i = do {
     i \<leftarrow> WriteU8 (ucast (getField v 0 0xff)) i;
     i \<leftarrow> WriteU8 (ucast (getField v 8 0xff)) i;
     i \<leftarrow> WriteU8 (ucast (getField v 16 0xff)) i;
     i \<leftarrow> WriteU8 (ucast (getField v 24 0xff)) i;
     i \<leftarrow> WriteU8 (ucast (getField v 32 0xff)) i;
     i \<leftarrow> WriteU8 (ucast (getField v 40 0xff)) i;
     i \<leftarrow> WriteU8 (ucast (getField v 48 0xff)) i;
     WriteU8 (ucast (getField v 56 0xff)) i }"

text \<open>\<open>Write(buffer, size)\<close> copies \<open>size\<close> octets.\<close>

definition WriteBuf :: "u8 list \<Rightarrow> iter \<Rightarrow> iter option" where
  "WriteBuf bs i = (case i of (d, r) \<Rightarrow>
     if length bs \<le> length r then Some (d @ bs, drop (length bs) r) else None)"

subsection \<open>Reading\<close>

definition ReadU8 :: "iter \<Rightarrow> (u8 \<times> iter) option" where
  "ReadU8 i = (case i of (d, r) \<Rightarrow> (case r of [] \<Rightarrow> None | b # r' \<Rightarrow> Some (b, (d @ [b], r'))))"

definition ReadU16 :: "iter \<Rightarrow> (u16 \<times> iter) option" where
  "ReadU16 i = do {
     (byte0, i) \<leftarrow> ReadU8 i;
     (byte1, i) \<leftarrow> ReadU8 i;
     let data = ucast byte1; let data = push_bit 8 data; let data = data OR ucast byte0;
     Some (data, i) }"

definition ReadU64 :: "iter \<Rightarrow> (u64 \<times> iter) option" where
  "ReadU64 i = do {
     (byte0, i) \<leftarrow> ReadU8 i;
     (byte1, i) \<leftarrow> ReadU8 i;
     (byte2, i) \<leftarrow> ReadU8 i;
     (byte3, i) \<leftarrow> ReadU8 i;
     (byte4, i) \<leftarrow> ReadU8 i;
     (byte5, i) \<leftarrow> ReadU8 i;
     (byte6, i) \<leftarrow> ReadU8 i;
     (byte7, i) \<leftarrow> ReadU8 i;
     let data = ucast byte7;
     let data = push_bit 8 data; let data = data OR ucast byte6;
     let data = push_bit 8 data; let data = data OR ucast byte5;
     let data = push_bit 8 data; let data = data OR ucast byte4;
     let data = push_bit 8 data; let data = data OR ucast byte3;
     let data = push_bit 8 data; let data = data OR ucast byte2;
     let data = push_bit 8 data; let data = data OR ucast byte1;
     let data = push_bit 8 data; let data = data OR ucast byte0;
     Some (data, i) }"

definition ReadLsbtohU16 :: "iter \<Rightarrow> (u16 \<times> iter) option" where
  "ReadLsbtohU16 i = do {
     (byte0, i) \<leftarrow> ReadU8 i;
     (byte1, i) \<leftarrow> ReadU8 i;
     let data = ucast byte1; let data = push_bit 8 data; let data = data OR ucast byte0;
     Some (data, i) }"

definition ReadLsbtohU32 :: "iter \<Rightarrow> (u32 \<times> iter) option" where
  "ReadLsbtohU32 i = do {
     (byte0, i) \<leftarrow> ReadU8 i;
     (byte1, i) \<leftarrow> ReadU8 i;
     (byte2, i) \<leftarrow> ReadU8 i;
     (byte3, i) \<leftarrow> ReadU8 i;
     let data = ucast byte3;
     let data = push_bit 8 data; let data = data OR ucast byte2;
     let data = push_bit 8 data; let data = data OR ucast byte1;
     let data = push_bit 8 data; let data = data OR ucast byte0;
     Some (data, i) }"

definition ReadLsbtohU64 :: "iter \<Rightarrow> (u64 \<times> iter) option" where
  "ReadLsbtohU64 i = do {
     (byte0, i) \<leftarrow> ReadU8 i;
     (byte1, i) \<leftarrow> ReadU8 i;
     (byte2, i) \<leftarrow> ReadU8 i;
     (byte3, i) \<leftarrow> ReadU8 i;
     (byte4, i) \<leftarrow> ReadU8 i;
     (byte5, i) \<leftarrow> ReadU8 i;
     (byte6, i) \<leftarrow> ReadU8 i;
     (byte7, i) \<leftarrow> ReadU8 i;
     let data = ucast byte7;
     let data = push_bit 8 data; let data = data OR ucast byte6;
     let data = push_bit 8 data; let data = data OR ucast byte5;
     let data = push_bit 8 data; let data = data OR ucast byte4;
     let data = push_bit 8 data; let data = data OR ucast byte3;
     let data = push_bit 8 data; let data = data OR ucast byte2;
     let data = push_bit 8 data; let data = data OR ucast byte1;
     let data = push_bit 8 data; let data = data OR ucast byte0;
     Some (data, i) }"

text \<open>The distance of an iterator from an earlier one.\<close>

definition GetDistanceFrom :: "iter \<Rightarrow> iter \<Rightarrow> nat" where
  "GetDistanceFrom i start = nat \<bar>int (length (fst i)) - int (length (fst start))\<bar>"

definition Prev :: "nat \<Rightarrow> iter \<Rightarrow> iter option" where
  "Prev n i = (case i of (d, r) \<Rightarrow>
     if n \<le> length d then Some (take (length d - n) d, drop (length d - n) d @ r) else None)"

subsection \<open>Wire lemmas\<close>

text \<open>
  \<open>le16\<close>, \<open>le32\<close>, \<open>le64\<close> are the octets of an integer, least significant first. All the
  write operations are \<open>WriteBuf\<close> of such octets, and consecutive writes fuse.
\<close>

definition le16 :: "u16 \<Rightarrow> u8 list" where
  "le16 v = [ucast v, ucast (drop_bit 8 v)]"

definition le32 :: "u32 \<Rightarrow> u8 list" where
  "le32 v = [ucast v, ucast (drop_bit 8 v), ucast (drop_bit 16 v), ucast (drop_bit 24 v)]"

definition le64 :: "u64 \<Rightarrow> u8 list" where
  "le64 v = [ucast v, ucast (drop_bit 8 v), ucast (drop_bit 16 v), ucast (drop_bit 24 v),
     ucast (drop_bit 32 v), ucast (drop_bit 40 v), ucast (drop_bit 48 v), ucast (drop_bit 56 v)]"

lemma length_le [simp]: "length (le16 v) = 2" "length (le32 x) = 4" "length (le64 y) = 8"
  by (simp_all add: le16_def le32_def le64_def)

lemma ucast_take_bit_8 [simp]: "ucast (take_bit 8 (v :: 'a::len word)) = (ucast v :: u8)"
  by (rule bit_word_eqI) (simp add: bit_simps)

lemma WriteBuf_fuse [wire_simps]:
  "Option.bind (WriteBuf a i) (\<lambda>i. WriteBuf b i) = WriteBuf (a @ b) i"
  "Option.bind (WriteBuf a i) (\<lambda>i. Option.bind (WriteBuf b i) f) = Option.bind (WriteBuf (a @ b) i) f"
  "Option.bind (WriteBuf a i) Some = WriteBuf a i"
  by (auto simp: WriteBuf_def add.commute split: prod.splits)

lemma WriteBuf_nil [wire_simps]: "WriteBuf [] i = Some i"
  by (cases i) (simp add: WriteBuf_def)

lemma WriteU8_buf [wire_simps]: "WriteU8 b i = WriteBuf [b] i"
  by (auto simp: WriteU8_def WriteBuf_def Suc_le_length_iff split: prod.splits list.splits)

lemma WriteU16_buf [wire_simps]: "WriteU16 v i = WriteBuf (le16 v) i"
  by (simp add: WriteU16_def le16_def wire_simps and_mask)

lemma WriteU64_buf [wire_simps]: "WriteU64 v i = WriteBuf (le64 v) i"
  by (simp add: WriteU64_def le64_def wire_simps and_mask)

lemma WriteHtolsb_buf [wire_simps]:
  "WriteHtolsbU16 v i = WriteBuf (le16 v) i"
  "WriteHtolsbU32 x i = WriteBuf (le32 x) i"
  "WriteHtolsbU64 y i = WriteBuf (le64 y) i"
  by (simp_all add: WriteHtolsbU16_def WriteHtolsbU32_def WriteHtolsbU64_def
      le16_def le32_def le64_def wire_simps and_mask getField_def)

lemma ReadU8_cons [wire_simps]: "ReadU8 (d, b # r) = Some (b, (d @ [b], r))"
  by (simp add: ReadU8_def)

lemma ReadU8_nil [wire_simps]: "ReadU8 (d, []) = None"
  by (simp add: ReadU8_def)

lemma join16: "push_bit 8 (ucast (ucast (drop_bit 8 v) :: u8)) OR ucast (ucast v :: u8) = (v :: u16)"
  by (rule bit_word_eqI) (auto simp: bit_simps not_less)

lemma ReadU16_le [wire_simps]:
  "ReadU16 (d, le16 v @ r) = Some (v, (d @ le16 v, r))"
  "ReadLsbtohU16 (d, le16 v @ r) = Some (v, (d @ le16 v, r))"
  by (simp_all add: ReadU16_def ReadLsbtohU16_def le16_def wire_simps join16)

lemma join_octet:
  "push_bit 8 (drop_bit (n + 8) v) OR ucast (ucast (drop_bit n v) :: u8) = drop_bit n (v :: 'a::len word)"
  by (rule bit_word_eqI) (auto simp: bit_simps not_less algebra_simps dest: bit_imp_le_length)

lemmas join_octets = join_octet [of 0, simplified] join_octet [of 8, simplified]
  join_octet [of 16, simplified] join_octet [of 24, simplified] join_octet [of 32, simplified]
  join_octet [of 40, simplified] join_octet [of 48, simplified]

lemma top_octet:
  "ucast (ucast (drop_bit 24 v) :: u8) = drop_bit 24 (v :: u32)"
  "ucast (ucast (drop_bit 56 x) :: u8) = drop_bit 56 (x :: u64)"
  by (rule bit_word_eqI; auto simp: bit_simps dest: bit_imp_le_length)+

lemma ReadU32_le [wire_simps]: "ReadLsbtohU32 (d, le32 v @ r) = Some (v, (d @ le32 v, r))"
  by (simp only: ReadLsbtohU32_def le32_def wire_simps append.simps Let_def bind.bind_lunit
      option.simps prod.simps top_octet join_octets append_assoc)

lemma ReadU64_le [wire_simps]:
  "ReadU64 (d, le64 v @ r) = Some (v, (d @ le64 v, r))"
  "ReadLsbtohU64 (d, le64 v @ r) = Some (v, (d @ le64 v, r))"
  by (simp_all only: ReadU64_def ReadLsbtohU64_def le64_def wire_simps append.simps Let_def
      bind.bind_lunit option.simps prod.simps top_octet join_octets append_assoc)

subsection \<open>Loops of reads and writes\<close>

fun WriteAll :: "('a \<Rightarrow> iter \<Rightarrow> iter option) \<Rightarrow> 'a list \<Rightarrow> iter \<Rightarrow> iter option" where
  "WriteAll w [] i = Some i"
| "WriteAll w (x # xs) i = do { i \<leftarrow> w x i; WriteAll w xs i }"

fun ReadMany :: "nat \<Rightarrow> (iter \<Rightarrow> ('a \<times> iter) option) \<Rightarrow> iter \<Rightarrow> ('a list \<times> iter) option" where
  "ReadMany 0 rd i = Some ([], i)"
| "ReadMany (Suc n) rd i = do { (x, i) \<leftarrow> rd i; (xs, i) \<leftarrow> ReadMany n rd i; Some (x # xs, i) }"

lemma WriteAll_WriteBuf_fun:
  assumes "\<And>x. x \<in> set xs \<Longrightarrow> w x = WriteBuf (g x)"
  shows "WriteAll w xs = WriteBuf (concat (map g xs))"
  using assms
proof (induction xs)
  case Nil
  show ?case by (rule ext) (simp add: wire_simps)
next
  case (Cons x xs)
  have "WriteAll w xs = WriteBuf (concat (map g xs))" and "w x = WriteBuf (g x)"
    using Cons by simp_all
  then show ?case by (intro ext) (simp add: wire_simps)
qed

lemma WriteAll_WriteBuf:
  assumes "\<And>x i. x \<in> set xs \<Longrightarrow> w x i = WriteBuf (g x) i"
  shows "WriteAll w xs i = WriteBuf (concat (map g xs)) i"
  by (rule fun_cong [OF WriteAll_WriteBuf_fun]) (rule ext, rule assms)

lemma ReadMany_concat:
  "(\<And>x d r. x \<in> set xs \<Longrightarrow> rd (d, g x @ r) = Some (x, (d @ g x, r))) \<Longrightarrow>
   ReadMany (length xs) rd (d, concat (map g xs) @ r) = Some (xs, (d @ concat (map g xs), r))"
  by (induction xs arbitrary: d) simp_all

lemma WriteAll_octets [wire_simps]:
  "WriteAll WriteU8 bs i = WriteBuf bs i"
  "WriteAll WriteU16 vs i = WriteBuf (concat (map le16 vs)) i"
  "WriteAll WriteHtolsbU16 vs i = WriteBuf (concat (map le16 vs)) i"
  using WriteAll_WriteBuf [of bs WriteU8 "\<lambda>b. [b]" i]
  by (simp_all add: WriteU8_buf WriteU16_buf WriteHtolsb_buf WriteAll_WriteBuf)

lemma ReadMany_octets:
  "n = length bs \<Longrightarrow> ReadMany n ReadU8 (d, bs @ r) = Some (bs, (d @ bs, r))"
  using ReadMany_concat [of bs ReadU8 "\<lambda>b. [b]" d r] by (simp add: ReadU8_cons)

lemma ReadMany_le16:
  "n = length vs \<Longrightarrow> ReadMany n ReadU16 (d, concat (map le16 vs) @ r) = Some (vs, (d @ concat (map le16 vs), r))"
  "n = length vs \<Longrightarrow> ReadMany n ReadLsbtohU16 (d, concat (map le16 vs) @ r) = Some (vs, (d @ concat (map le16 vs), r))"
  by (simp_all add: ReadMany_concat ReadU16_le)

lemma length_concat_le16 [simp]: "length (concat (map le16 vs)) = 2 * length vs"
  by (induction vs) simp_all

subsection \<open>Addresses\<close>

text \<open>
  \<open>Mac8Address\<close>, \<open>Mac16Address\<close> and \<open>Mac64Address\<close> keep the octets of the address as they
  are stored (\<open>m_address[0]\<close> first). A short address is written with its second octet first.
\<close>

datatype mac8 = Mac8Address u8

datatype mac16 = Mac16Address u8 u8

datatype mac64 = Mac64Address u8 u8 u8 u8 u8 u8 u8 u8

fun WriteTo_Mac8 :: "mac8 \<Rightarrow> iter \<Rightarrow> iter option" where
  "WriteTo_Mac8 (Mac8Address a) i = WriteBuf [a] i"

fun WriteTo_Mac16 :: "mac16 \<Rightarrow> iter \<Rightarrow> iter option" where
  "WriteTo_Mac16 (Mac16Address a0 a1) i = do { i \<leftarrow> WriteBuf [a1] i; WriteBuf [a0] i }"

fun WriteTo_Mac64 :: "mac64 \<Rightarrow> iter \<Rightarrow> iter option" where
  "WriteTo_Mac64 (Mac64Address a0 a1 a2 a3 a4 a5 a6 a7) i = WriteBuf [a0, a1, a2, a3, a4, a5, a6, a7] i"

definition ReadFrom_Mac16 :: "iter \<Rightarrow> (mac16 \<times> iter) option" where
  "ReadFrom_Mac16 i = do {
     (a1, i) \<leftarrow> ReadU8 i;
     (a0, i) \<leftarrow> ReadU8 i;
     Some (Mac16Address a0 a1, i) }"

definition ReadFrom_Mac64 :: "iter \<Rightarrow> (mac64 \<times> iter) option" where
  "ReadFrom_Mac64 i = do {
     (a0, i) \<leftarrow> ReadU8 i;
     (a1, i) \<leftarrow> ReadU8 i;
     (a2, i) \<leftarrow> ReadU8 i;
     (a3, i) \<leftarrow> ReadU8 i;
     (a4, i) \<leftarrow> ReadU8 i;
     (a5, i) \<leftarrow> ReadU8 i;
     (a6, i) \<leftarrow> ReadU8 i;
     (a7, i) \<leftarrow> ReadU8 i;
     Some (Mac64Address a0 a1 a2 a3 a4 a5 a6 a7, i) }"

fun octets8 :: "mac8 \<Rightarrow> u8 list" where
  "octets8 (Mac8Address a) = [a]"

fun octets16 :: "mac16 \<Rightarrow> u8 list" where
  "octets16 (Mac16Address a0 a1) = [a1, a0]"

fun octets64 :: "mac64 \<Rightarrow> u8 list" where
  "octets64 (Mac64Address a0 a1 a2 a3 a4 a5 a6 a7) = [a0, a1, a2, a3, a4, a5, a6, a7]"

lemma length_octets [simp]:
  "length (octets8 x) = 1" "length (octets16 a) = 2" "length (octets64 b) = 8"
  by (cases x; cases a; cases b; simp)+

lemma WriteTo_octets [wire_simps]:
  "WriteTo_Mac8 x i = WriteBuf (octets8 x) i"
  "WriteTo_Mac16 a i = WriteBuf (octets16 a) i"
  "WriteTo_Mac64 b i = WriteBuf (octets64 b) i"
  by (cases x; cases a; cases b; simp add: wire_simps)+

lemma Write_fun [wire_simps]:
  "WriteU8 c = WriteBuf [c]" "WriteU16 v = WriteBuf (le16 v)" "WriteU64 z = WriteBuf (le64 z)" "WriteHtolsbU16 v = WriteBuf (le16 v)" "WriteHtolsbU32 w = WriteBuf (le32 w)"
  "WriteHtolsbU64 z = WriteBuf (le64 z)"
  "WriteTo_Mac8 x = WriteBuf (octets8 x)" "WriteTo_Mac16 a = WriteBuf (octets16 a)"
  "WriteTo_Mac64 b = WriteBuf (octets64 b)"
  by (rule ext, simp add: wire_simps)+

lemma ReadFrom_octets [wire_simps]:
  "ReadFrom_Mac16 (d, octets16 a @ r) = Some (a, (d @ octets16 a, r))"
  "ReadFrom_Mac64 (d, octets64 b @ r) = Some (b, (d @ octets64 b, r))"
  by (cases a; cases b; simp add: ReadFrom_Mac16_def ReadFrom_Mac64_def wire_simps)+

text \<open>Addresses are compared octet by octet (\<open>memcmp\<close>), the order the maps of the MAC use.\<close>

instantiation mac16 :: linorder
begin

fun less_eq_mac16 :: "mac16 \<Rightarrow> mac16 \<Rightarrow> bool" where
  "less_eq_mac16 (Mac16Address a0 a1) (Mac16Address b0 b1) \<longleftrightarrow> a0 < b0 \<or> a0 = b0 \<and> a1 \<le> b1"

definition less_mac16 :: "mac16 \<Rightarrow> mac16 \<Rightarrow> bool" where
  "less_mac16 a b \<longleftrightarrow> a \<le> b \<and> \<not> b \<le> a"

instance
proof
  fix x y z :: mac16
  show "x < y \<longleftrightarrow> x \<le> y \<and> \<not> y \<le> x" by (simp add: less_mac16_def)
  show "x \<le> x" by (cases x) simp
  show "x \<le> y \<Longrightarrow> y \<le> z \<Longrightarrow> x \<le> z" by (cases x; cases y; cases z) auto
  show "x \<le> y \<Longrightarrow> y \<le> x \<Longrightarrow> x = y" by (cases x; cases y) auto
  show "x \<le> y \<or> y \<le> x" by (cases x; cases y) auto
qed

end

subsection \<open>Packets\<close>

text \<open>
  A packet is the octets of its buffer; tags and metadata are not modelled. \<open>AddHeader\<close>
  opens \<open>GetSerializedSize()\<close> octets in front of the packet, whose content \<open>fresh\<close> is
  whatever the memory held, and lets the header write from there; a header that writes more
  than it announced overwrites the packet. \<open>RemoveHeader\<close> drops as many octets as
  \<open>Deserialize\<close> reports; \<open>PeekHeader\<close> keeps the buffer, with anything \<open>Deserialize\<close> wrote.
\<close>

type_synonym packet = "u8 list"

definition AddHeader :: "u8 list \<Rightarrow> ('h \<Rightarrow> iter \<Rightarrow> iter option) \<Rightarrow> 'h \<Rightarrow> packet \<Rightarrow> packet option" where
  "AddHeader fresh ser h p = do { (d, r) \<leftarrow> ser h ([], fresh @ p); Some (d @ r) }"

definition RemoveHeader :: "('h \<Rightarrow> iter \<Rightarrow> ('h \<times> iter) option) \<Rightarrow> 'h \<Rightarrow> packet \<Rightarrow> ('h \<times> nat \<times> packet) option" where
  "RemoveHeader deser h0 p = do {
     (h, i) \<leftarrow> deser h0 ([], p);
     let deserialized = GetDistanceFrom i ([], p);
     Some (h, deserialized, drop deserialized (fst i @ snd i)) }"

definition PeekHeader :: "('h \<Rightarrow> iter \<Rightarrow> ('h \<times> iter) option) \<Rightarrow> 'h \<Rightarrow> packet \<Rightarrow> ('h \<times> nat \<times> packet) option" where
  "PeekHeader deser h0 p = do {
     (h, i) \<leftarrow> deser h0 ([], p);
     Some (h, GetDistanceFrom i ([], p), fst i @ snd i) }"

definition AddTrailer :: "u8 list \<Rightarrow> ('t \<Rightarrow> iter \<Rightarrow> iter option) \<Rightarrow> 't \<Rightarrow> packet \<Rightarrow> packet option" where
  "AddTrailer fresh ser t p = do { (d, r) \<leftarrow> ser t (p @ fresh, []); Some (d @ r) }"

definition RemoveTrailer :: "('t \<Rightarrow> iter \<Rightarrow> ('t \<times> nat) option) \<Rightarrow> 't \<Rightarrow> packet \<Rightarrow> ('t \<times> nat \<times> packet) option" where
  "RemoveTrailer deser t0 p = do {
     (t, deserialized) \<leftarrow> deser t0 (p, []);
     Some (t, deserialized, take (length p - deserialized) p) }"

subsection \<open>The contract of a header\<close>

text \<open>
  What \<open>Packet\<close> relies on in a header: it announces the number of octets it writes, and
  reading them back into a receiving object \<open>h0\<close> that is \<open>ready\<close> gives \<open>rebuilt h0 h\<close> and
  stops right after them. \<open>wire\<close> is the header's format as an abstract list of octets,
  \<open>good\<close> the values the format can carry.
\<close>

locale header_codec =
  fixes sz :: "'h \<Rightarrow> nat"
    and wire :: "'h \<Rightarrow> u8 list"
    and ser :: "'h \<Rightarrow> iter \<Rightarrow> iter option"
    and deser :: "'h \<Rightarrow> iter \<Rightarrow> ('h \<times> iter) option"
    and good :: "'h \<Rightarrow> bool"
    and ready :: "'h \<Rightarrow> 'h \<Rightarrow> bool"
    and rebuilt :: "'h \<Rightarrow> 'h \<Rightarrow> 'h"
  assumes ser_wire: "good h \<Longrightarrow> ser h i = WriteBuf (wire h) i"
    and size_wire: "good h \<Longrightarrow> length (wire h) = sz h"
    and deser_wire: "good h \<Longrightarrow> ready h0 h \<Longrightarrow>
      deser h0 (d, wire h @ r) = Some (rebuilt h0 h, (d @ wire h, r))"
begin

lemma add_header:
  "good h \<Longrightarrow> length fresh = sz h \<Longrightarrow> AddHeader fresh ser h p = Some (wire h @ p)"
  by (simp add: AddHeader_def ser_wire WriteBuf_def size_wire)

lemma remove_header:
  "good h \<Longrightarrow> ready h0 h \<Longrightarrow> RemoveHeader deser h0 (wire h @ p) = Some (rebuilt h0 h, sz h, p)"
  using deser_wire [of h h0 "[]" p] by (simp add: RemoveHeader_def GetDistanceFrom_def size_wire)

lemma peek_header:
  "good h \<Longrightarrow> ready h0 h \<Longrightarrow> PeekHeader deser h0 (wire h @ p) = Some (rebuilt h0 h, sz h, wire h @ p)"
  using deser_wire [of h h0 "[]" p] by (simp add: PeekHeader_def GetDistanceFrom_def size_wire)

lemma add_then_remove:
  assumes "good h" and "ready h0 h" and "length fresh = sz h"
  shows "Option.bind (AddHeader fresh ser h p) (RemoveHeader deser h0) = Some (rebuilt h0 h, sz h, p)"
  using assms by (simp add: add_header remove_header)

text \<open>Written inside a larger object: the octets land at the cursor and nothing else changes.\<close>

lemma written_in_place:
  assumes "good h" and "ready h0 h" and "length old = sz h"
  shows "ser h (d, old @ r) = Some (d @ wire h, r)"
    and "deser h0 (d, wire h @ r) = Some (rebuilt h0 h, (d @ wire h, r))"
  using assms by (simp_all add: ser_wire WriteBuf_def size_wire deser_wire)

end

text \<open>A header whose every field travels: what is read is what was written.\<close>

locale lossless_codec = header_codec +
  assumes rebuilt_same: "good h \<Longrightarrow> ready h0 h \<Longrightarrow> rebuilt h0 h = h"
begin

lemma roundtrip:
  assumes "good h" and "ready h0 h" and "length fresh = sz h"
  shows "Option.bind (AddHeader fresh ser h p) (RemoveHeader deser h0) = Some (h, sz h, p)"
  using add_then_remove [OF assms] rebuilt_same [OF assms(1,2)] by simp

lemma wire_injective:
  assumes "good h" and "good h'" and "ready h0 h" and "ready h0 h'" and "wire h @ p = wire h' @ p'"
  shows "h = h' \<and> p = p'"
proof -
  have "RemoveHeader deser h0 (wire h @ p) = Some (h, sz h, p)"
    using assms(1,3) remove_header rebuilt_same by metis
  moreover have "RemoveHeader deser h0 (wire h' @ p') = Some (h', sz h', p')"
    using assms(2,4) remove_header rebuilt_same by metis
  ultimately have "Some (h, sz h, p) = Some (h', sz h', p')"
    unfolding assms(5) by (rule trans [OF sym])
  then show ?thesis by simp
qed

end

text \<open>Two headers stacked on a packet come off in the opposite order.\<close>

locale codec_stack =
  outer: header_codec sz1 wire1 ser1 deser1 good1 ready1 rebuilt1 +
  inner: header_codec sz2 wire2 ser2 deser2 good2 ready2 rebuilt2
  for sz1 :: "'a \<Rightarrow> nat" and wire1 ser1 deser1 good1 ready1 rebuilt1
    and sz2 :: "'b \<Rightarrow> nat" and wire2 ser2 deser2 good2 ready2 rebuilt2
begin

lemma stack_roundtrip:
  assumes "good1 a" and "ready1 a0 a" and "length fresh1 = sz1 a"
    and "good2 b" and "ready2 b0 b" and "length fresh2 = sz2 b"
  shows "do {
      p \<leftarrow> AddHeader fresh2 ser2 b p;
      p \<leftarrow> AddHeader fresh1 ser1 a p;
      (a', n, p) \<leftarrow> RemoveHeader deser1 a0 p;
      (b', m, p) \<leftarrow> RemoveHeader deser2 b0 p;
      Some (a', b', n + m, p) } = Some (rebuilt1 a0 a, rebuilt2 b0 b, sz1 a + sz2 b, p)"
proof -
  have "AddHeader fresh2 ser2 b p = Some (wire2 b @ p)"
    by (rule inner.add_header [OF assms(4,6)])
  moreover have "AddHeader fresh1 ser1 a (wire2 b @ p) = Some (wire1 a @ wire2 b @ p)"
    by (rule outer.add_header [OF assms(1,3)])
  moreover have "RemoveHeader deser1 a0 (wire1 a @ wire2 b @ p) = Some (rebuilt1 a0 a, sz1 a, wire2 b @ p)"
    by (rule outer.remove_header [OF assms(1,2)])
  moreover have "RemoveHeader deser2 b0 (wire2 b @ p) = Some (rebuilt2 b0 b, sz2 b, p)"
    by (rule inner.remove_header [OF assms(4,5)])
  ultimately show ?thesis by simp
qed

end

end
