(* ===== verification/Mac_Header.thy ===== *)
theory Mac_Header
  imports Packet_Buffer
begin

section \<open>The MAC header\<close>

text \<open>
  \<open>LrWpanMacHeader\<close> (\<open>lr-wpan-mac-header\<close>): frame control, sequence number, addressing fields
  and auxiliary security header. The object keeps every subfield in an integer of its own;
  \<open>GetFrameControl\<close> and \<open>GetSecControl\<close> pack them. What \<open>Serialize\<close> and \<open>Deserialize\<close> move
  depends on the addressing modes, on PAN identifier compression and on the key identifier mode.
\<close>

subsection \<open>State\<close>

datatype LrWpanMacType = LRWPAN_MAC_BEACON | LRWPAN_MAC_DATA | LRWPAN_MAC_ACKNOWLEDGMENT |
  LRWPAN_MAC_COMMAND | LRWPAN_MAC_LLDN | LRWPAN_MAC_MULTIPURPOSE | LRWPAN_MAC_RESERVED

text \<open>The integer values of the enumerators.\<close>

fun LrWpanMacType_val :: "LrWpanMacType \<Rightarrow> u8" where
  "LrWpanMacType_val LRWPAN_MAC_BEACON = 0"
| "LrWpanMacType_val LRWPAN_MAC_DATA = 1"
| "LrWpanMacType_val LRWPAN_MAC_ACKNOWLEDGMENT = 2"
| "LrWpanMacType_val LRWPAN_MAC_COMMAND = 3"
| "LrWpanMacType_val LRWPAN_MAC_LLDN = 4"
| "LrWpanMacType_val LRWPAN_MAC_MULTIPURPOSE = 5"
| "LrWpanMacType_val LRWPAN_MAC_RESERVED = 6"

abbreviation (input) NOADDR :: u8 where "NOADDR \<equiv> 0"
abbreviation (input) SIMPLEADDR :: u8 where "SIMPLEADDR \<equiv> 1"
abbreviation (input) SHORTADDR :: u8 where "SHORTADDR \<equiv> 2"
abbreviation (input) EXTADDR :: u8 where "EXTADDR \<equiv> 3"
abbreviation (input) IMPLICIT :: u8 where "IMPLICIT \<equiv> 0"
abbreviation (input) NOKEYSOURCE :: u8 where "NOKEYSOURCE \<equiv> 1"
abbreviation (input) SHORTKEYSOURCE :: u8 where "SHORTKEYSOURCE \<equiv> 2"
abbreviation (input) LONGKEYSOURCE :: u8 where "LONGKEYSOURCE \<equiv> 3"

text \<open>
  The two key sources are members of one union: \<open>m_auxKeyIdKeySrc\<close> is its storage, and the
  32-bit member is the low half of it (little endian).
\<close>

record LrWpanMacHeader =
  m_fctrlFrmType :: u8
  m_fctrlSecU :: u8
  m_fctrlFrmPending :: u8
  m_fctrlAckReq :: u8
  m_fctrlPanIdComp :: u8
  m_fctrlReserved :: u8
  m_fctrlSeqNumSup :: u8
  m_fctrlIEListPresent :: u8
  m_fctrlDstAddrMode :: u8
  m_fctrlFrmVer :: u8
  m_fctrlSrcAddrMode :: u8
  m_SeqNum :: u8
  m_addrDstPanId :: u16
  m_addrSimpleDstAddr :: mac8
  m_addrShortDstAddr :: mac16
  m_addrExtDstAddr :: mac64
  m_addrSrcPanId :: u16
  m_addrSimpleSrcAddr :: mac8
  m_addrShortSrcAddr :: mac16
  m_addrExtSrcAddr :: mac64
  m_auxFrmCntr :: u64
  m_secctrlSecLevel :: u8
  m_secctrlKeyIdMode :: u8
  m_sectrlFrmCntSup :: bool
  m_sectrlFrmCntSize :: bool
  m_secctrlReserved :: u8
  m_auxKeyIdKeySrc :: u64
  m_auxKeyIdKeyIndex :: u8

subsection \<open>Setters and getters\<close>

definition LrWpanMacHeader_SetType :: "LrWpanMacType \<Rightarrow> LrWpanMacHeader \<Rightarrow> LrWpanMacHeader" where
  [class_defs]: "LrWpanMacHeader_SetType wpanMacType f = f\<lparr>m_fctrlFrmType := LrWpanMacType_val wpanMacType\<rparr>"

definition LrWpanMacHeader_SetSecEnable :: "LrWpanMacHeader \<Rightarrow> LrWpanMacHeader" where
  [class_defs]: "LrWpanMacHeader_SetSecEnable f = f\<lparr>m_fctrlSecU := 1\<rparr>"

definition LrWpanMacHeader_SetSecDisable :: "LrWpanMacHeader \<Rightarrow> LrWpanMacHeader" where
  [class_defs]: "LrWpanMacHeader_SetSecDisable f = f\<lparr>m_fctrlSecU := 0\<rparr>"

definition LrWpanMacHeader_SetFrmPend :: "LrWpanMacHeader \<Rightarrow> LrWpanMacHeader" where
  [class_defs]: "LrWpanMacHeader_SetFrmPend f = f\<lparr>m_fctrlFrmPending := 1\<rparr>"

definition LrWpanMacHeader_SetNoFrmPend :: "LrWpanMacHeader \<Rightarrow> LrWpanMacHeader" where
  [class_defs]: "LrWpanMacHeader_SetNoFrmPend f = f\<lparr>m_fctrlFrmPending := 0\<rparr>"

definition LrWpanMacHeader_SetAckReq :: "LrWpanMacHeader \<Rightarrow> LrWpanMacHeader" where
  [class_defs]: "LrWpanMacHeader_SetAckReq f = f\<lparr>m_fctrlAckReq := 1\<rparr>"

definition LrWpanMacHeader_SetNoAckReq :: "LrWpanMacHeader \<Rightarrow> LrWpanMacHeader" where
  [class_defs]: "LrWpanMacHeader_SetNoAckReq f = f\<lparr>m_fctrlAckReq := 0\<rparr>"

definition LrWpanMacHeader_SetPanIdComp :: "LrWpanMacHeader \<Rightarrow> LrWpanMacHeader" where
  [class_defs]: "LrWpanMacHeader_SetPanIdComp f = f\<lparr>m_fctrlPanIdComp := 1\<rparr>"

definition LrWpanMacHeader_SetNoPanIdComp :: "LrWpanMacHeader \<Rightarrow> LrWpanMacHeader" where
  [class_defs]: "LrWpanMacHeader_SetNoPanIdComp f = f\<lparr>m_fctrlPanIdComp := 0\<rparr>"

definition LrWpanMacHeader_SetFrmCtrlRes :: "u8 \<Rightarrow> LrWpanMacHeader \<Rightarrow> LrWpanMacHeader" where
  [class_defs]: "LrWpanMacHeader_SetFrmCtrlRes res f = f\<lparr>m_fctrlReserved := res\<rparr>"

definition LrWpanMacHeader_SetSeqNumSup :: "LrWpanMacHeader \<Rightarrow> LrWpanMacHeader" where
  [class_defs]: "LrWpanMacHeader_SetSeqNumSup f = f\<lparr>m_fctrlSeqNumSup := 1\<rparr>"

definition LrWpanMacHeader_SetNoSeqNumSup :: "LrWpanMacHeader \<Rightarrow> LrWpanMacHeader" where
  [class_defs]: "LrWpanMacHeader_SetNoSeqNumSup f = f\<lparr>m_fctrlSeqNumSup := 0\<rparr>"

definition LrWpanMacHeader_SetIEListPresent :: "LrWpanMacHeader \<Rightarrow> LrWpanMacHeader" where
  [class_defs]: "LrWpanMacHeader_SetIEListPresent f = f\<lparr>m_fctrlIEListPresent := 1\<rparr>"

definition LrWpanMacHeader_SetNoIEListPresent :: "LrWpanMacHeader \<Rightarrow> LrWpanMacHeader" where
  [class_defs]: "LrWpanMacHeader_SetNoIEListPresent f = f\<lparr>m_fctrlIEListPresent := 0\<rparr>"

definition LrWpanMacHeader_SetDstAddrMode :: "u8 \<Rightarrow> LrWpanMacHeader \<Rightarrow> LrWpanMacHeader" where
  [class_defs]: "LrWpanMacHeader_SetDstAddrMode addrMode f = f\<lparr>m_fctrlDstAddrMode := addrMode\<rparr>"

definition LrWpanMacHeader_SetFrameVer :: "u8 \<Rightarrow> LrWpanMacHeader \<Rightarrow> LrWpanMacHeader" where
  [class_defs]: "LrWpanMacHeader_SetFrameVer ver f = f\<lparr>m_fctrlFrmVer := ver\<rparr>"

definition LrWpanMacHeader_SetSrcAddrMode :: "u8 \<Rightarrow> LrWpanMacHeader \<Rightarrow> LrWpanMacHeader" where
  [class_defs]: "LrWpanMacHeader_SetSrcAddrMode addrMode f = f\<lparr>m_fctrlSrcAddrMode := addrMode\<rparr>"

definition LrWpanMacHeader_SetSeqNum :: "u8 \<Rightarrow> LrWpanMacHeader \<Rightarrow> LrWpanMacHeader" where
  [class_defs]: "LrWpanMacHeader_SetSeqNum seqNum f = f\<lparr>m_SeqNum := seqNum\<rparr>"

definition LrWpanMacHeader_SetSrcAddrFields8 :: "u16 \<Rightarrow> mac8 \<Rightarrow> LrWpanMacHeader \<Rightarrow> LrWpanMacHeader" where
  [class_defs]: "LrWpanMacHeader_SetSrcAddrFields8 panId addr f = f\<lparr>m_addrSrcPanId := panId, m_addrSimpleSrcAddr := addr\<rparr>"

definition LrWpanMacHeader_SetSrcAddrFields16 :: "u16 \<Rightarrow> mac16 \<Rightarrow> LrWpanMacHeader \<Rightarrow> LrWpanMacHeader" where
  [class_defs]: "LrWpanMacHeader_SetSrcAddrFields16 panId addr f = f\<lparr>m_addrSrcPanId := panId, m_addrShortSrcAddr := addr\<rparr>"

definition LrWpanMacHeader_SetSrcAddrFields64 :: "u16 \<Rightarrow> mac64 \<Rightarrow> LrWpanMacHeader \<Rightarrow> LrWpanMacHeader" where
  [class_defs]: "LrWpanMacHeader_SetSrcAddrFields64 panId addr f = f\<lparr>m_addrSrcPanId := panId, m_addrExtSrcAddr := addr\<rparr>"

definition LrWpanMacHeader_SetDstAddrFields8 :: "u16 \<Rightarrow> mac8 \<Rightarrow> LrWpanMacHeader \<Rightarrow> LrWpanMacHeader" where
  [class_defs]: "LrWpanMacHeader_SetDstAddrFields8 panId addr f = f\<lparr>m_addrDstPanId := panId, m_addrSimpleDstAddr := addr\<rparr>"

definition LrWpanMacHeader_SetDstAddrFields16 :: "u16 \<Rightarrow> mac16 \<Rightarrow> LrWpanMacHeader \<Rightarrow> LrWpanMacHeader" where
  [class_defs]: "LrWpanMacHeader_SetDstAddrFields16 panId addr f = f\<lparr>m_addrDstPanId := panId, m_addrShortDstAddr := addr\<rparr>"

definition LrWpanMacHeader_SetDstAddrFields64 :: "u16 \<Rightarrow> mac64 \<Rightarrow> LrWpanMacHeader \<Rightarrow> LrWpanMacHeader" where
  [class_defs]: "LrWpanMacHeader_SetDstAddrFields64 panId addr f = f\<lparr>m_addrDstPanId := panId, m_addrExtDstAddr := addr\<rparr>"

definition LrWpanMacHeader_SetFrmCounter :: "u64 \<Rightarrow> LrWpanMacHeader \<Rightarrow> LrWpanMacHeader" where
  [class_defs]: "LrWpanMacHeader_SetFrmCounter frmCntr f = f\<lparr>m_auxFrmCntr := frmCntr\<rparr>"

definition LrWpanMacHeader_SetSecLevel :: "u8 \<Rightarrow> LrWpanMacHeader \<Rightarrow> LrWpanMacHeader" where
  [class_defs]: "LrWpanMacHeader_SetSecLevel secLevel f = f\<lparr>m_secctrlSecLevel := secLevel\<rparr>"

definition LrWpanMacHeader_SetKeyIdMode :: "u8 \<Rightarrow> LrWpanMacHeader \<Rightarrow> LrWpanMacHeader" where
  [class_defs]: "LrWpanMacHeader_SetKeyIdMode keyIdMode f = f\<lparr>m_secctrlKeyIdMode := keyIdMode\<rparr>"

definition LrWpanMacHeader_SetSecCtrlReserved :: "u8 \<Rightarrow> LrWpanMacHeader \<Rightarrow> LrWpanMacHeader" where
  [class_defs]: "LrWpanMacHeader_SetSecCtrlReserved res f = f\<lparr>m_secctrlReserved := res\<rparr>"

definition LrWpanMacHeader_SetKeyId :: "u8 \<Rightarrow> LrWpanMacHeader \<Rightarrow> LrWpanMacHeader" where
  [class_defs]: "LrWpanMacHeader_SetKeyId keyIndex f = f\<lparr>m_auxKeyIdKeyIndex := keyIndex\<rparr>"

text \<open>Storing into the 32-bit member leaves the upper half of the union alone.\<close>

definition LrWpanMacHeader_SetKeyId32 :: "u32 \<Rightarrow> u8 \<Rightarrow> LrWpanMacHeader \<Rightarrow> LrWpanMacHeader" where
  [class_defs]: "LrWpanMacHeader_SetKeyId32 keySrc keyIndex f = f\<lparr>m_auxKeyIdKeyIndex := keyIndex,
     m_auxKeyIdKeySrc := (m_auxKeyIdKeySrc f AND 0xFFFFFFFF00000000) OR ucast keySrc\<rparr>"

definition LrWpanMacHeader_SetKeyId64 :: "u64 \<Rightarrow> u8 \<Rightarrow> LrWpanMacHeader \<Rightarrow> LrWpanMacHeader" where
  [class_defs]: "LrWpanMacHeader_SetKeyId64 keySrc keyIndex f = f\<lparr>m_auxKeyIdKeyIndex := keyIndex, m_auxKeyIdKeySrc := keySrc\<rparr>"

definition LrWpanMacHeader_IsSecEnable :: "LrWpanMacHeader \<Rightarrow> bool" where
  [class_defs]: "LrWpanMacHeader_IsSecEnable f = (m_fctrlSecU f = 1)"

definition LrWpanMacHeader_IsFrmPend :: "LrWpanMacHeader \<Rightarrow> bool" where
  [class_defs]: "LrWpanMacHeader_IsFrmPend f = (m_fctrlFrmPending f = 1)"

definition LrWpanMacHeader_IsAckReq :: "LrWpanMacHeader \<Rightarrow> bool" where
  [class_defs]: "LrWpanMacHeader_IsAckReq f = (m_fctrlAckReq f = 1)"

definition LrWpanMacHeader_IsPanIdComp :: "LrWpanMacHeader \<Rightarrow> bool" where
  [class_defs]: "LrWpanMacHeader_IsPanIdComp f = (m_fctrlPanIdComp f = 1)"

definition LrWpanMacHeader_IsSeqNumSup :: "LrWpanMacHeader \<Rightarrow> bool" where
  [class_defs]: "LrWpanMacHeader_IsSeqNumSup f = (m_fctrlSeqNumSup f \<noteq> 0)"

definition LrWpanMacHeader_IsIEListPresent :: "LrWpanMacHeader \<Rightarrow> bool" where
  [class_defs]: "LrWpanMacHeader_IsIEListPresent f = (m_fctrlIEListPresent f \<noteq> 0)"

definition LrWpanMacHeader_GetFrmCtrlRes :: "LrWpanMacHeader \<Rightarrow> u8" where
  [class_defs]: "LrWpanMacHeader_GetFrmCtrlRes f = m_fctrlReserved f"

definition LrWpanMacHeader_GetDstAddrMode :: "LrWpanMacHeader \<Rightarrow> u8" where
  [class_defs]: "LrWpanMacHeader_GetDstAddrMode f = m_fctrlDstAddrMode f"

definition LrWpanMacHeader_GetFrameVer :: "LrWpanMacHeader \<Rightarrow> u8" where
  [class_defs]: "LrWpanMacHeader_GetFrameVer f = m_fctrlFrmVer f"

definition LrWpanMacHeader_GetSrcAddrMode :: "LrWpanMacHeader \<Rightarrow> u8" where
  [class_defs]: "LrWpanMacHeader_GetSrcAddrMode f = m_fctrlSrcAddrMode f"

definition LrWpanMacHeader_GetSeqNum :: "LrWpanMacHeader \<Rightarrow> u8" where
  [class_defs]: "LrWpanMacHeader_GetSeqNum f = m_SeqNum f"

definition LrWpanMacHeader_GetDstPanId :: "LrWpanMacHeader \<Rightarrow> u16" where
  [class_defs]: "LrWpanMacHeader_GetDstPanId f = m_addrDstPanId f"

definition LrWpanMacHeader_GetSimpleDstAddr :: "LrWpanMacHeader \<Rightarrow> mac8" where
  [class_defs]: "LrWpanMacHeader_GetSimpleDstAddr f = m_addrSimpleDstAddr f"

definition LrWpanMacHeader_GetShortDstAddr :: "LrWpanMacHeader \<Rightarrow> mac16" where
  [class_defs]: "LrWpanMacHeader_GetShortDstAddr f = m_addrShortDstAddr f"

definition LrWpanMacHeader_GetExtDstAddr :: "LrWpanMacHeader \<Rightarrow> mac64" where
  [class_defs]: "LrWpanMacHeader_GetExtDstAddr f = m_addrExtDstAddr f"

definition LrWpanMacHeader_GetSrcPanId :: "LrWpanMacHeader \<Rightarrow> u16" where
  [class_defs]: "LrWpanMacHeader_GetSrcPanId f = m_addrSrcPanId f"

definition LrWpanMacHeader_GetSimpleSrcAddr :: "LrWpanMacHeader \<Rightarrow> mac8" where
  [class_defs]: "LrWpanMacHeader_GetSimpleSrcAddr f = m_addrSimpleSrcAddr f"

definition LrWpanMacHeader_GetShortSrcAddr :: "LrWpanMacHeader \<Rightarrow> mac16" where
  [class_defs]: "LrWpanMacHeader_GetShortSrcAddr f = m_addrShortSrcAddr f"

definition LrWpanMacHeader_GetExtSrcAddr :: "LrWpanMacHeader \<Rightarrow> mac64" where
  [class_defs]: "LrWpanMacHeader_GetExtSrcAddr f = m_addrExtSrcAddr f"

definition LrWpanMacHeader_GetFrmCounter :: "LrWpanMacHeader \<Rightarrow> u64" where
  [class_defs]: "LrWpanMacHeader_GetFrmCounter f = m_auxFrmCntr f"

definition LrWpanMacHeader_GetSecLevel :: "LrWpanMacHeader \<Rightarrow> u8" where
  [class_defs]: "LrWpanMacHeader_GetSecLevel f = m_secctrlSecLevel f"

definition LrWpanMacHeader_GetKeyIdMode :: "LrWpanMacHeader \<Rightarrow> u8" where
  [class_defs]: "LrWpanMacHeader_GetKeyIdMode f = m_secctrlKeyIdMode f"

definition LrWpanMacHeader_GetFrmCntSup :: "LrWpanMacHeader \<Rightarrow> bool" where
  [class_defs]: "LrWpanMacHeader_GetFrmCntSup f = m_sectrlFrmCntSup f"

definition LrWpanMacHeader_GetFrmCntSize :: "LrWpanMacHeader \<Rightarrow> bool" where
  [class_defs]: "LrWpanMacHeader_GetFrmCntSize f = m_sectrlFrmCntSize f"

definition LrWpanMacHeader_GetSecCtrlReserved :: "LrWpanMacHeader \<Rightarrow> u8" where
  [class_defs]: "LrWpanMacHeader_GetSecCtrlReserved f = m_secctrlReserved f"

definition LrWpanMacHeader_GetKeyIdSrc32 :: "LrWpanMacHeader \<Rightarrow> u32" where
  [class_defs]: "LrWpanMacHeader_GetKeyIdSrc32 f = ucast (m_auxKeyIdKeySrc f)"

definition LrWpanMacHeader_GetKeyIdSrc64 :: "LrWpanMacHeader \<Rightarrow> u64" where
  [class_defs]: "LrWpanMacHeader_GetKeyIdSrc64 f = m_auxKeyIdKeySrc f"

definition LrWpanMacHeader_GetKeyIdIndex :: "LrWpanMacHeader \<Rightarrow> u8" where
  [class_defs]: "LrWpanMacHeader_GetKeyIdIndex f = m_auxKeyIdKeyIndex f"

definition LrWpanMacHeader_IsBeacon :: "LrWpanMacHeader \<Rightarrow> bool" where
  [class_defs]: "LrWpanMacHeader_IsBeacon f = (m_fctrlFrmType f = LrWpanMacType_val LRWPAN_MAC_BEACON)"

definition LrWpanMacHeader_IsData :: "LrWpanMacHeader \<Rightarrow> bool" where
  [class_defs]: "LrWpanMacHeader_IsData f = (m_fctrlFrmType f = LrWpanMacType_val LRWPAN_MAC_DATA)"

definition LrWpanMacHeader_IsAcknowledgment :: "LrWpanMacHeader \<Rightarrow> bool" where
  [class_defs]: "LrWpanMacHeader_IsAcknowledgment f = (m_fctrlFrmType f = LrWpanMacType_val LRWPAN_MAC_ACKNOWLEDGMENT)"

definition LrWpanMacHeader_IsCommand :: "LrWpanMacHeader \<Rightarrow> bool" where
  [class_defs]: "LrWpanMacHeader_IsCommand f = (m_fctrlFrmType f = LrWpanMacType_val LRWPAN_MAC_COMMAND)"

definition LrWpanMacHeader_IsLLDN :: "LrWpanMacHeader \<Rightarrow> bool" where
  [class_defs]: "LrWpanMacHeader_IsLLDN f = (m_fctrlFrmType f = LrWpanMacType_val LRWPAN_MAC_LLDN)"

definition LrWpanMacHeader_IsMultipurpose :: "LrWpanMacHeader \<Rightarrow> bool" where
  [class_defs]: "LrWpanMacHeader_IsMultipurpose f = (m_fctrlFrmType f = LrWpanMacType_val LRWPAN_MAC_MULTIPURPOSE)"

definition LrWpanMacHeader_GetType :: "LrWpanMacHeader \<Rightarrow> LrWpanMacType" where
  "LrWpanMacHeader_GetType f = (
     if m_fctrlFrmType f = 0 then LRWPAN_MAC_BEACON
     else if m_fctrlFrmType f = 1 then LRWPAN_MAC_DATA
     else if m_fctrlFrmType f = 2 then LRWPAN_MAC_ACKNOWLEDGMENT
     else if m_fctrlFrmType f = 3 then LRWPAN_MAC_COMMAND
     else if m_fctrlFrmType f = 4 then LRWPAN_MAC_LLDN
     else if m_fctrlFrmType f = 5 then LRWPAN_MAC_MULTIPURPOSE
     else LRWPAN_MAC_RESERVED)"

text \<open>The constructors; \<open>mem\<close> is what the fields they do not set held.\<close>

definition LrWpanMacHeader_new :: "LrWpanMacHeader \<Rightarrow> LrWpanMacHeader" where
  "LrWpanMacHeader_new mem = (
     let f = LrWpanMacHeader_SetType LRWPAN_MAC_DATA mem;
         f = LrWpanMacHeader_SetSecDisable f;
         f = LrWpanMacHeader_SetNoFrmPend f;
         f = LrWpanMacHeader_SetNoAckReq f;
         f = LrWpanMacHeader_SetNoPanIdComp f;
         f = LrWpanMacHeader_SetFrmCtrlRes 0 f;
         f = LrWpanMacHeader_SetNoSeqNumSup f;
         f = LrWpanMacHeader_SetNoIEListPresent f;
         f = LrWpanMacHeader_SetDstAddrMode NOADDR f;
         f = LrWpanMacHeader_SetSrcAddrMode NOADDR f
     in LrWpanMacHeader_SetFrameVer 2 f)"

definition LrWpanMacHeader_newTyped :: "LrWpanMacType \<Rightarrow> u8 \<Rightarrow> LrWpanMacHeader \<Rightarrow> LrWpanMacHeader" where
  "LrWpanMacHeader_newTyped wpanMacType seqNum mem = (
     let f = LrWpanMacHeader_SetType wpanMacType mem;
         f = LrWpanMacHeader_SetSeqNum seqNum f;
         f = LrWpanMacHeader_SetSecDisable f;
         f = LrWpanMacHeader_SetNoFrmPend f;
         f = LrWpanMacHeader_SetNoAckReq f;
         f = LrWpanMacHeader_SetNoPanIdComp f;
         f = LrWpanMacHeader_SetFrmCtrlRes 0 f;
         f = LrWpanMacHeader_SetNoSeqNumSup f;
         f = LrWpanMacHeader_SetNoIEListPresent f;
         f = LrWpanMacHeader_SetDstAddrMode NOADDR f;
         f = LrWpanMacHeader_SetSrcAddrMode NOADDR f
     in LrWpanMacHeader_SetFrameVer 1 f)"

subsection \<open>Frame control and security control\<close>

text \<open>Each part is computed on \<open>int\<close> and cut to the variable when it is stored.\<close>

definition LrWpanMacHeader_GetFrameControl :: "LrWpanMacHeader \<Rightarrow> u16" where
  "LrWpanMacHeader_GetFrameControl f = (
     let val = ucast ((ucast (m_fctrlFrmType f) :: cint) AND 0x07);
         val = val OR ucast (putField (ucast (m_fctrlSecU f) :: cint) 3 1);
         val = val OR ucast (putField (ucast (m_fctrlFrmPending f) :: cint) 4 1);
         val = val OR ucast (putField (ucast (m_fctrlAckReq f) :: cint) 5 1);
         val = val OR ucast (putField (ucast (m_fctrlPanIdComp f) :: cint) 6 1);
         val = val OR ucast (putField (ucast (m_fctrlReserved f) :: cint) 7 1);
         val = val OR ucast (putField (ucast (m_fctrlSeqNumSup f) :: cint) 8 1);
         val = val OR ucast (putField (ucast (m_fctrlIEListPresent f) :: cint) 9 1);
         val = val OR ucast (putField (ucast (m_fctrlDstAddrMode f) :: cint) 10 3);
         val = val OR ucast (putField (ucast (m_fctrlFrmVer f) :: cint) 12 3);
         val = val OR ucast (putField (ucast (m_fctrlSrcAddrMode f) :: cint) 14 3)
     in val)"

definition LrWpanMacHeader_SetFrameControl :: "u16 \<Rightarrow> LrWpanMacHeader \<Rightarrow> LrWpanMacHeader" where
  "LrWpanMacHeader_SetFrameControl frameControl f = f\<lparr>
     m_fctrlFrmType := ucast (getField frameControl 0 7),
     m_fctrlSecU := ucast (getField frameControl 3 1),
     m_fctrlFrmPending := ucast (getField frameControl 4 1),
     m_fctrlAckReq := ucast (getField frameControl 5 1),
     m_fctrlPanIdComp := ucast (getField frameControl 6 1),
     m_fctrlReserved := ucast (getField frameControl 7 1),
     m_fctrlSeqNumSup := ucast (getField frameControl 8 1),
     m_fctrlIEListPresent := ucast (getField frameControl 9 1),
     m_fctrlDstAddrMode := ucast (getField frameControl 10 3),
     m_fctrlFrmVer := ucast (getField frameControl 12 3),
     m_fctrlSrcAddrMode := ucast (getField frameControl 14 3)\<rparr>"

definition LrWpanMacHeader_GetSecControl :: "LrWpanMacHeader \<Rightarrow> u8" where
  "LrWpanMacHeader_GetSecControl f = (
     let val = ucast ((ucast (m_secctrlSecLevel f) :: cint) AND 7);
         val = val OR ucast (putField (ucast (m_secctrlKeyIdMode f) :: cint) 3 3);
         val = val OR ucast (putField (of_bool (m_sectrlFrmCntSup f) :: cint) 5 1);
         val = val OR ucast (putField (of_bool (m_sectrlFrmCntSize f) :: cint) 6 1);
         val = val OR ucast (putField (ucast (m_secctrlReserved f) :: cint) 7 1)
     in val)"

definition LrWpanMacHeader_SetSecControl :: "u8 \<Rightarrow> LrWpanMacHeader \<Rightarrow> LrWpanMacHeader" where
  "LrWpanMacHeader_SetSecControl secControl f = f\<lparr>
     m_secctrlSecLevel := getField secControl 0 7,
     m_secctrlKeyIdMode := getField secControl 3 3,
     m_sectrlFrmCntSup := (getField secControl 5 1 \<noteq> 0),
     m_sectrlFrmCntSize := (getField secControl 6 1 \<noteq> 0),
     m_secctrlReserved := getField secControl 7 1\<rparr>"

definition fctrl_ok :: "LrWpanMacHeader \<Rightarrow> bool" where
  "fctrl_ok f \<longleftrightarrow> fits 3 (m_fctrlFrmType f) \<and> fits 1 (m_fctrlSecU f) \<and> fits 1 (m_fctrlFrmPending f) \<and>
     fits 1 (m_fctrlAckReq f) \<and> fits 1 (m_fctrlPanIdComp f) \<and> fits 1 (m_fctrlReserved f) \<and>
     fits 1 (m_fctrlSeqNumSup f) \<and> fits 1 (m_fctrlIEListPresent f) \<and> fits 2 (m_fctrlDstAddrMode f) \<and>
     fits 2 (m_fctrlFrmVer f) \<and> fits 2 (m_fctrlSrcAddrMode f)"

definition sectrl_ok :: "LrWpanMacHeader \<Rightarrow> bool" where
  "sectrl_ok f \<longleftrightarrow> fits 3 (m_secctrlSecLevel f) \<and> fits 2 (m_secctrlKeyIdMode f) \<and> fits 1 (m_secctrlReserved f)"

text \<open>Reading a packed frame control into any object copies the eleven subfields into it.\<close>

definition fctrl_copy :: "LrWpanMacHeader \<Rightarrow> LrWpanMacHeader \<Rightarrow> LrWpanMacHeader" where
  "fctrl_copy f0 f = f0\<lparr>
     m_fctrlFrmType := m_fctrlFrmType f, m_fctrlSecU := m_fctrlSecU f,
     m_fctrlFrmPending := m_fctrlFrmPending f, m_fctrlAckReq := m_fctrlAckReq f,
     m_fctrlPanIdComp := m_fctrlPanIdComp f, m_fctrlReserved := m_fctrlReserved f,
     m_fctrlSeqNumSup := m_fctrlSeqNumSup f, m_fctrlIEListPresent := m_fctrlIEListPresent f,
     m_fctrlDstAddrMode := m_fctrlDstAddrMode f, m_fctrlFrmVer := m_fctrlFrmVer f,
     m_fctrlSrcAddrMode := m_fctrlSrcAddrMode f\<rparr>"

lemma bit_GetFrameControl:
  "bit (LrWpanMacHeader_GetFrameControl f) n \<longleftrightarrow>
     n < 3 \<and> bit (m_fctrlFrmType f) n \<or> n = 3 \<and> bit (m_fctrlSecU f) 0 \<or> n = 4 \<and> bit (m_fctrlFrmPending f) 0 \<or>
     n = 5 \<and> bit (m_fctrlAckReq f) 0 \<or> n = 6 \<and> bit (m_fctrlPanIdComp f) 0 \<or> n = 7 \<and> bit (m_fctrlReserved f) 0 \<or>
     n = 8 \<and> bit (m_fctrlSeqNumSup f) 0 \<or> n = 9 \<and> bit (m_fctrlIEListPresent f) 0 \<or>
     10 \<le> n \<and> n < 12 \<and> bit (m_fctrlDstAddrMode f) (n - 10) \<or>
     12 \<le> n \<and> n < 14 \<and> bit (m_fctrlFrmVer f) (n - 12) \<or>
     14 \<le> n \<and> n < 16 \<and> bit (m_fctrlSrcAddrMode f) (n - 14)"
  unfolding LrWpanMacHeader_GetFrameControl_def Let_def bit_or_iff by (simp add: bit_part_in disj_assoc)

lemma fctrl_flags:
  assumes "fctrl_ok f"
  shows "ucast (getField (LrWpanMacHeader_GetFrameControl f) 3 1) = m_fctrlSecU f"
    "ucast (getField (LrWpanMacHeader_GetFrameControl f) 4 1) = m_fctrlFrmPending f"
    "ucast (getField (LrWpanMacHeader_GetFrameControl f) 5 1) = m_fctrlAckReq f"
    "ucast (getField (LrWpanMacHeader_GetFrameControl f) 6 1) = m_fctrlPanIdComp f"
    "ucast (getField (LrWpanMacHeader_GetFrameControl f) 7 1) = m_fctrlReserved f"
    "ucast (getField (LrWpanMacHeader_GetFrameControl f) 8 1) = m_fctrlSeqNumSup f"
    "ucast (getField (LrWpanMacHeader_GetFrameControl f) 9 1) = m_fctrlIEListPresent f"
  using assms by (simp_all add: fctrl_ok_def ucast_flag bit_GetFrameControl fits_1_flag del: bit_0)

lemma fctrl_modes:
  assumes "fctrl_ok f"
  shows "ucast (getField (LrWpanMacHeader_GetFrameControl f) 0 7) = m_fctrlFrmType f"
    "ucast (getField (LrWpanMacHeader_GetFrameControl f) 10 3) = m_fctrlDstAddrMode f"
    "ucast (getField (LrWpanMacHeader_GetFrameControl f) 12 3) = m_fctrlFrmVer f"
    "ucast (getField (LrWpanMacHeader_GetFrameControl f) 14 3) = m_fctrlSrcAddrMode f"
proof -
  have "fits 3 (m_fctrlFrmType f)" "fits 2 (m_fctrlDstAddrMode f)" "fits 2 (m_fctrlFrmVer f)" "fits 2 (m_fctrlSrcAddrMode f)"
    using assms by (simp_all add: fctrl_ok_def)
  from this [THEN fits_bit] show
    "ucast (getField (LrWpanMacHeader_GetFrameControl f) 0 7) = m_fctrlFrmType f"
    "ucast (getField (LrWpanMacHeader_GetFrameControl f) 10 3) = m_fctrlDstAddrMode f"
    "ucast (getField (LrWpanMacHeader_GetFrameControl f) 12 3) = m_fctrlFrmVer f"
    "ucast (getField (LrWpanMacHeader_GetFrameControl f) 14 3) = m_fctrlSrcAddrMode f"
    by - (rule bit_word_eqI; fastforce simp: word_pack bit_GetFrameControl)+
qed

lemma SetFrameControl_Get: "fctrl_ok f \<Longrightarrow> LrWpanMacHeader_SetFrameControl (LrWpanMacHeader_GetFrameControl f) f0 = fctrl_copy f0 f"
  by (simp add: LrWpanMacHeader_SetFrameControl_def fctrl_copy_def fctrl_flags fctrl_modes)

text \<open>Unpacking loses nothing either: every 16-bit value is a frame control.\<close>

lemma GetFrameControl_Set: "LrWpanMacHeader_GetFrameControl (LrWpanMacHeader_SetFrameControl w f) = w"
proof (rule bit_word_eqI)
  fix n :: nat
  assume n: "n < LENGTH(16)"
  have flag: "bit (ucast (getField w k 1) :: u8) 0 \<longleftrightarrow> bit w k" for k
    by (simp add: ucast_flag)
  have mode: "bit (ucast (getField w k 3) :: u8) m \<longleftrightarrow> m < 2 \<and> bit w (k + m)"
    "bit (ucast (getField w k 7) :: u8) m \<longleftrightarrow> m < 3 \<and> bit w (k + m)" for k m
    by (auto simp: getField_def and_mask bit_simps)
  from bit_positions(2) [OF n] show "bit (LrWpanMacHeader_GetFrameControl (LrWpanMacHeader_SetFrameControl w f)) n = bit w n"
    unfolding bit_GetFrameControl LrWpanMacHeader_SetFrameControl_def
    by (elim insertE emptyE; simp add: flag mode del: bit_0 flip: numeral_2_eq_2)
qed

lemma fctrl_ok_Set: "fctrl_ok (LrWpanMacHeader_SetFrameControl w f)"
  by (simp add: fctrl_ok_def LrWpanMacHeader_SetFrameControl_def del: One_nat_def)

lemma bit_GetSecControl:
  "bit (LrWpanMacHeader_GetSecControl f) n \<longleftrightarrow>
     n < 3 \<and> bit (m_secctrlSecLevel f) n \<or> 3 \<le> n \<and> n < 5 \<and> bit (m_secctrlKeyIdMode f) (n - 3) \<or>
     n = 5 \<and> m_sectrlFrmCntSup f \<or> n = 6 \<and> m_sectrlFrmCntSize f \<or> n = 7 \<and> bit (m_secctrlReserved f) 0"
  unfolding LrWpanMacHeader_GetSecControl_def Let_def bit_or_iff by (simp add: bit_part_in disj_assoc)

lemma sectrl_fields:
  assumes "sectrl_ok f"
  shows "getField (LrWpanMacHeader_GetSecControl f) 0 7 = m_secctrlSecLevel f"
    "getField (LrWpanMacHeader_GetSecControl f) 3 3 = m_secctrlKeyIdMode f"
    "getField (LrWpanMacHeader_GetSecControl f) 5 1 \<noteq> 0 \<longleftrightarrow> m_sectrlFrmCntSup f"
    "getField (LrWpanMacHeader_GetSecControl f) 6 1 \<noteq> 0 \<longleftrightarrow> m_sectrlFrmCntSize f"
    "getField (LrWpanMacHeader_GetSecControl f) 7 1 = m_secctrlReserved f"
proof -
  have "fits 3 (m_secctrlSecLevel f)" "fits 2 (m_secctrlKeyIdMode f)" and r: "fits 1 (m_secctrlReserved f)"
    using assms by (simp_all add: sectrl_ok_def)
  from this(1,2) [THEN fits_bit] show "getField (LrWpanMacHeader_GetSecControl f) 0 7 = m_secctrlSecLevel f"
    and "getField (LrWpanMacHeader_GetSecControl f) 3 3 = m_secctrlKeyIdMode f"
    by - (rule bit_word_eqI; fastforce simp: word_pack bit_GetSecControl)+
  show "getField (LrWpanMacHeader_GetSecControl f) 5 1 \<noteq> 0 \<longleftrightarrow> m_sectrlFrmCntSup f"
    and "getField (LrWpanMacHeader_GetSecControl f) 6 1 \<noteq> 0 \<longleftrightarrow> m_sectrlFrmCntSize f"
    and "getField (LrWpanMacHeader_GetSecControl f) 7 1 = m_secctrlReserved f"
    using fits_1_flag [OF r] by (simp_all add: getField_1_nonzero getField_flag bit_GetSecControl del: bit_0)
qed

lemma SetSecControl_Get: "sectrl_ok f \<Longrightarrow> LrWpanMacHeader_SetSecControl (LrWpanMacHeader_GetSecControl f) f0 =
    f0\<lparr>m_secctrlSecLevel := m_secctrlSecLevel f, m_secctrlKeyIdMode := m_secctrlKeyIdMode f,
       m_sectrlFrmCntSup := m_sectrlFrmCntSup f, m_sectrlFrmCntSize := m_sectrlFrmCntSize f,
       m_secctrlReserved := m_secctrlReserved f\<rparr>"
  by (simp add: LrWpanMacHeader_SetSecControl_def sectrl_fields)

lemma GetType_SetType: "LrWpanMacHeader_GetType (LrWpanMacHeader_SetType t f) = t"
  by (cases t) (simp_all add: LrWpanMacHeader_GetType_def class_defs)

subsection \<open>Size\<close>

definition LrWpanMacHeader_GetSerializedSize :: "LrWpanMacHeader \<Rightarrow> nat" where
  "LrWpanMacHeader_GetSerializedSize f = (
     let size = 3;
         size = size + (if m_fctrlDstAddrMode f = NOADDR then 0
           else if m_fctrlDstAddrMode f = SIMPLEADDR then 3
           else if m_fctrlDstAddrMode f = SHORTADDR then 4
           else if m_fctrlDstAddrMode f = EXTADDR then 10 else 0);
         size = size + (if m_fctrlSrcAddrMode f = NOADDR then 0
           else if m_fctrlSrcAddrMode f = SIMPLEADDR then (if \<not> LrWpanMacHeader_IsPanIdComp f then 3 else 1)
           else if m_fctrlSrcAddrMode f = SHORTADDR then (if \<not> LrWpanMacHeader_IsPanIdComp f then 4 else 2)
           else if m_fctrlSrcAddrMode f = EXTADDR then (if \<not> LrWpanMacHeader_IsPanIdComp f then 10 else 8) else 0);
         size = (if LrWpanMacHeader_IsSecEnable f then
             let size = size + 1;
                 size = (if \<not> m_sectrlFrmCntSup f then (if m_sectrlFrmCntSize f then size + 5 else size + 4) else size)
             in size + (if m_secctrlKeyIdMode f = IMPLICIT then 0
               else if m_secctrlKeyIdMode f = NOKEYSOURCE then 1
               else if m_secctrlKeyIdMode f = SHORTKEYSOURCE then 5
               else if m_secctrlKeyIdMode f = LONGKEYSOURCE then 9 else 0)
           else size)
     in size)"

subsection \<open>Serialize\<close>

text \<open>
  \<open>Serialize\<close> in its four parts. A simple destination address is written through the generic
  \<open>Address\<close> (one octet); the simple source address is not written at all. With security the
  frame counter is always cut to four octets, whatever the security control says.
\<close>

definition LrWpanMacHeader_SerializeDst :: "LrWpanMacHeader \<Rightarrow> iter \<Rightarrow> iter option" where
  "LrWpanMacHeader_SerializeDst f i = (
     if m_fctrlDstAddrMode f = NOADDR then Some i
     else if m_fctrlDstAddrMode f = SIMPLEADDR then do {
       i \<leftarrow> WriteHtolsbU16 (LrWpanMacHeader_GetDstPanId f) i;
       WriteTo_Mac8 (m_addrSimpleDstAddr f) i }
     else if m_fctrlDstAddrMode f = SHORTADDR then do {
       i \<leftarrow> WriteHtolsbU16 (LrWpanMacHeader_GetDstPanId f) i;
       WriteTo_Mac16 (m_addrShortDstAddr f) i }
     else if m_fctrlDstAddrMode f = EXTADDR then do {
       i \<leftarrow> WriteHtolsbU16 (LrWpanMacHeader_GetDstPanId f) i;
       WriteTo_Mac64 (m_addrExtDstAddr f) i }
     else Some i)"

definition LrWpanMacHeader_SerializeSrc :: "LrWpanMacHeader \<Rightarrow> iter \<Rightarrow> iter option" where
  "LrWpanMacHeader_SerializeSrc f i = (
     if m_fctrlSrcAddrMode f = NOADDR then Some i
     else if m_fctrlSrcAddrMode f = SIMPLEADDR then
       (if \<not> LrWpanMacHeader_IsPanIdComp f then WriteHtolsbU16 (LrWpanMacHeader_GetSrcPanId f) i else Some i)
     else if m_fctrlSrcAddrMode f = SHORTADDR then do {
       i \<leftarrow> (if \<not> LrWpanMacHeader_IsPanIdComp f then WriteHtolsbU16 (LrWpanMacHeader_GetSrcPanId f) i else Some i);
       WriteTo_Mac16 (m_addrShortSrcAddr f) i }
     else if m_fctrlSrcAddrMode f = EXTADDR then do {
       i \<leftarrow> (if \<not> LrWpanMacHeader_IsPanIdComp f then WriteHtolsbU16 (LrWpanMacHeader_GetSrcPanId f) i else Some i);
       WriteTo_Mac64 (m_addrExtSrcAddr f) i }
     else Some i)"

definition LrWpanMacHeader_SerializeSec :: "LrWpanMacHeader \<Rightarrow> iter \<Rightarrow> iter option" where
  "LrWpanMacHeader_SerializeSec f i = (
     if LrWpanMacHeader_IsSecEnable f then do {
       i \<leftarrow> WriteU8 (LrWpanMacHeader_GetSecControl f) i;
       i \<leftarrow> WriteHtolsbU32 (ucast (LrWpanMacHeader_GetFrmCounter f)) i;
       if m_secctrlKeyIdMode f = IMPLICIT then Some i
       else if m_secctrlKeyIdMode f = NOKEYSOURCE then WriteU8 (LrWpanMacHeader_GetKeyIdIndex f) i
       else if m_secctrlKeyIdMode f = SHORTKEYSOURCE then do {
         i \<leftarrow> WriteHtolsbU32 (LrWpanMacHeader_GetKeyIdSrc32 f) i;
         WriteU8 (LrWpanMacHeader_GetKeyIdIndex f) i }
       else if m_secctrlKeyIdMode f = LONGKEYSOURCE then do {
         i \<leftarrow> WriteHtolsbU64 (LrWpanMacHeader_GetKeyIdSrc64 f) i;
         WriteU8 (LrWpanMacHeader_GetKeyIdIndex f) i }
       else Some i }
     else Some i)"

definition LrWpanMacHeader_Serialize :: "LrWpanMacHeader \<Rightarrow> iter \<Rightarrow> iter option" where
  "LrWpanMacHeader_Serialize f i = do {
     let frameControl = LrWpanMacHeader_GetFrameControl f;
     i \<leftarrow> WriteHtolsbU16 frameControl i;
     i \<leftarrow> WriteU8 (LrWpanMacHeader_GetSeqNum f) i;
     i \<leftarrow> LrWpanMacHeader_SerializeDst f i;
     i \<leftarrow> LrWpanMacHeader_SerializeSrc f i;
     LrWpanMacHeader_SerializeSec f i }"

subsection \<open>Deserialize\<close>

text \<open>
  For a simple destination address \<open>Deserialize\<close> writes the object's own PAN identifier into
  the buffer instead of reading one. \<open>SetKeyId(i.ReadLsbtohU32(), i.ReadU8())\<close> reads its two
  arguments in an order that C++ leaves to the compiler: \<open>rtl\<close> says that it goes from
  right to left, so that the key index is read first.
\<close>

definition LrWpanMacHeader_DeserializeDst :: "LrWpanMacHeader \<Rightarrow> iter \<Rightarrow> (LrWpanMacHeader \<times> iter) option" where
  "LrWpanMacHeader_DeserializeDst f i = (
     if m_fctrlDstAddrMode f = NOADDR then Some (f, i)
     else if m_fctrlDstAddrMode f = SIMPLEADDR then do {
       i \<leftarrow> WriteHtolsbU16 (LrWpanMacHeader_GetDstPanId f) i;
       Some (f, i) }
     else if m_fctrlDstAddrMode f = SHORTADDR then do {
       (pan, i) \<leftarrow> ReadLsbtohU16 i;
       (addr, i) \<leftarrow> ReadFrom_Mac16 i;
       Some (f\<lparr>m_addrDstPanId := pan, m_addrShortDstAddr := addr\<rparr>, i) }
     else if m_fctrlDstAddrMode f = EXTADDR then do {
       (pan, i) \<leftarrow> ReadLsbtohU16 i;
       (addr, i) \<leftarrow> ReadFrom_Mac64 i;
       Some (f\<lparr>m_addrDstPanId := pan, m_addrExtDstAddr := addr\<rparr>, i) }
     else Some (f, i))"

definition LrWpanMacHeader_DeserializeSrcPan :: "LrWpanMacHeader \<Rightarrow> iter \<Rightarrow> (LrWpanMacHeader \<times> iter) option" where
  "LrWpanMacHeader_DeserializeSrcPan f i = (
     if \<not> LrWpanMacHeader_IsPanIdComp f then do {
       (pan, i) \<leftarrow> ReadLsbtohU16 i;
       Some (f\<lparr>m_addrSrcPanId := pan\<rparr>, i) }
     else if m_fctrlDstAddrMode f > 0 then Some (f\<lparr>m_addrSrcPanId := m_addrDstPanId f\<rparr>, i)
     else Some (f, i))"

definition LrWpanMacHeader_DeserializeSrc :: "LrWpanMacHeader \<Rightarrow> iter \<Rightarrow> (LrWpanMacHeader \<times> iter) option" where
  "LrWpanMacHeader_DeserializeSrc f i = (
     if m_fctrlSrcAddrMode f = NOADDR then Some (f, i)
     else if m_fctrlSrcAddrMode f = SIMPLEADDR then LrWpanMacHeader_DeserializeSrcPan f i
     else if m_fctrlSrcAddrMode f = SHORTADDR then do {
       (f, i) \<leftarrow> LrWpanMacHeader_DeserializeSrcPan f i;
       (addr, i) \<leftarrow> ReadFrom_Mac16 i;
       Some (f\<lparr>m_addrShortSrcAddr := addr\<rparr>, i) }
     else if m_fctrlSrcAddrMode f = EXTADDR then do {
       (f, i) \<leftarrow> LrWpanMacHeader_DeserializeSrcPan f i;
       (addr, i) \<leftarrow> ReadFrom_Mac64 i;
       Some (f\<lparr>m_addrExtSrcAddr := addr\<rparr>, i) }
     else Some (f, i))"

definition ReadKey :: "bool \<Rightarrow> (iter \<Rightarrow> ('a \<times> iter) option) \<Rightarrow> iter \<Rightarrow> (('a \<times> u8) \<times> iter) option" where
  "ReadKey rtl rd i = (
     if rtl then do { (k, i) \<leftarrow> ReadU8 i; (s, i) \<leftarrow> rd i; Some ((s, k), i) }
     else do { (s, i) \<leftarrow> rd i; (k, i) \<leftarrow> ReadU8 i; Some ((s, k), i) })"

definition LrWpanMacHeader_DeserializeSec :: "bool \<Rightarrow> LrWpanMacHeader \<Rightarrow> iter \<Rightarrow> (LrWpanMacHeader \<times> iter) option" where
  "LrWpanMacHeader_DeserializeSec rtl f i = (
     if LrWpanMacHeader_IsSecEnable f then do {
       (c, i) \<leftarrow> ReadU8 i;
       let f = LrWpanMacHeader_SetSecControl c f;
       (n, i) \<leftarrow> ReadLsbtohU32 i;
       let f = LrWpanMacHeader_SetFrmCounter (ucast n) f;
       if m_secctrlKeyIdMode f = IMPLICIT then Some (f, i)
       else if m_secctrlKeyIdMode f = NOKEYSOURCE then do {
         (k, i) \<leftarrow> ReadU8 i;
         Some (LrWpanMacHeader_SetKeyId k f, i) }
       else if m_secctrlKeyIdMode f = SHORTKEYSOURCE then do {
         ((s, k), i) \<leftarrow> ReadKey rtl ReadLsbtohU32 i;
         Some (LrWpanMacHeader_SetKeyId32 s k f, i) }
       else if m_secctrlKeyIdMode f = LONGKEYSOURCE then do {
         ((s, k), i) \<leftarrow> ReadKey rtl ReadLsbtohU64 i;
         Some (LrWpanMacHeader_SetKeyId64 s k f, i) }
       else Some (f, i) }
     else Some (f, i))"

definition LrWpanMacHeader_Deserialize :: "bool \<Rightarrow> LrWpanMacHeader \<Rightarrow> iter \<Rightarrow> (LrWpanMacHeader \<times> iter) option" where
  "LrWpanMacHeader_Deserialize rtl f i = do {
     (frameControl, i) \<leftarrow> ReadLsbtohU16 i;
     let f = LrWpanMacHeader_SetFrameControl frameControl f;
     (n, i) \<leftarrow> ReadU8 i;
     let f = LrWpanMacHeader_SetSeqNum n f;
     (f, i) \<leftarrow> LrWpanMacHeader_DeserializeDst f i;
     (f, i) \<leftarrow> LrWpanMacHeader_DeserializeSrc f i;
     LrWpanMacHeader_DeserializeSec rtl f i }"

subsection \<open>The format\<close>

definition dst_wire :: "LrWpanMacHeader \<Rightarrow> u8 list" where
  "dst_wire f = (
     if m_fctrlDstAddrMode f = SHORTADDR then le16 (m_addrDstPanId f) @ octets16 (m_addrShortDstAddr f)
     else if m_fctrlDstAddrMode f = EXTADDR then le16 (m_addrDstPanId f) @ octets64 (m_addrExtDstAddr f)
     else [])"

definition src_wire :: "LrWpanMacHeader \<Rightarrow> u8 list" where
  "src_wire f = (if m_fctrlPanIdComp f = 1 \<or> m_fctrlSrcAddrMode f = 0 then [] else le16 (m_addrSrcPanId f)) @ (
     if m_fctrlSrcAddrMode f = SHORTADDR then octets16 (m_addrShortSrcAddr f)
     else if m_fctrlSrcAddrMode f = EXTADDR then octets64 (m_addrExtSrcAddr f)
     else [])"

definition key_wire :: "LrWpanMacHeader \<Rightarrow> u8 list" where
  "key_wire f = (
     if m_secctrlKeyIdMode f = NOKEYSOURCE then [m_auxKeyIdKeyIndex f]
     else if m_secctrlKeyIdMode f = SHORTKEYSOURCE then le32 (ucast (m_auxKeyIdKeySrc f)) @ [m_auxKeyIdKeyIndex f]
     else if m_secctrlKeyIdMode f = LONGKEYSOURCE then le64 (m_auxKeyIdKeySrc f) @ [m_auxKeyIdKeyIndex f]
     else [])"

definition sec_wire :: "LrWpanMacHeader \<Rightarrow> u8 list" where
  "sec_wire f = (if m_fctrlSecU f = 1 then
     [LrWpanMacHeader_GetSecControl f] @ le32 (ucast (m_auxFrmCntr f)) @ key_wire f else [])"

definition mac_wire :: "LrWpanMacHeader \<Rightarrow> u8 list" where
  "mac_wire f = le16 (LrWpanMacHeader_GetFrameControl f) @ [m_SeqNum f] @ dst_wire f @ src_wire f @ sec_wire f"

text \<open>
  The headers that travel: every subfield fits its bits, no simple address, and with security
  a frame counter of four octets that is not suppressed. A compiler that evaluates the
  arguments from right to left loses the headers with a key source.
\<close>

definition mac_ok :: "bool \<Rightarrow> LrWpanMacHeader \<Rightarrow> bool" where
  "mac_ok rtl f \<longleftrightarrow> fctrl_ok f \<and> m_fctrlDstAddrMode f \<noteq> SIMPLEADDR \<and> m_fctrlSrcAddrMode f \<noteq> SIMPLEADDR \<and>
     (m_fctrlSecU f = 1 \<longrightarrow> sectrl_ok f \<and> \<not> m_sectrlFrmCntSup f \<and> \<not> m_sectrlFrmCntSize f \<and>
       fits 32 (m_auxFrmCntr f) \<and> (rtl \<longrightarrow> m_secctrlKeyIdMode f = IMPLICIT \<or> m_secctrlKeyIdMode f = NOKEYSOURCE))"

text \<open>What the receiving object becomes: the fields that travelled, its own old ones elsewhere.\<close>

definition dst_rebuilt :: "LrWpanMacHeader \<Rightarrow> LrWpanMacHeader \<Rightarrow> LrWpanMacHeader" where
  "dst_rebuilt g f = (
     if m_fctrlDstAddrMode f = SHORTADDR then g\<lparr>m_addrDstPanId := m_addrDstPanId f, m_addrShortDstAddr := m_addrShortDstAddr f\<rparr>
     else if m_fctrlDstAddrMode f = EXTADDR then g\<lparr>m_addrDstPanId := m_addrDstPanId f, m_addrExtDstAddr := m_addrExtDstAddr f\<rparr>
     else g)"

definition srcpan_rebuilt :: "LrWpanMacHeader \<Rightarrow> LrWpanMacHeader \<Rightarrow> LrWpanMacHeader" where
  "srcpan_rebuilt g f = (
     if m_fctrlPanIdComp f \<noteq> 1 then g\<lparr>m_addrSrcPanId := m_addrSrcPanId f\<rparr>
     else if m_fctrlDstAddrMode f > 0 then g\<lparr>m_addrSrcPanId := m_addrDstPanId g\<rparr>
     else g)"

definition src_rebuilt :: "LrWpanMacHeader \<Rightarrow> LrWpanMacHeader \<Rightarrow> LrWpanMacHeader" where
  "src_rebuilt g f = (
     if m_fctrlSrcAddrMode f = SHORTADDR then (srcpan_rebuilt g f)\<lparr>m_addrShortSrcAddr := m_addrShortSrcAddr f\<rparr>
     else if m_fctrlSrcAddrMode f = EXTADDR then (srcpan_rebuilt g f)\<lparr>m_addrExtSrcAddr := m_addrExtSrcAddr f\<rparr>
     else g)"

definition key_rebuilt :: "LrWpanMacHeader \<Rightarrow> LrWpanMacHeader \<Rightarrow> LrWpanMacHeader" where
  "key_rebuilt g f = (
     if m_secctrlKeyIdMode f = NOKEYSOURCE then g\<lparr>m_auxKeyIdKeyIndex := m_auxKeyIdKeyIndex f\<rparr>
     else if m_secctrlKeyIdMode f = SHORTKEYSOURCE then
       LrWpanMacHeader_SetKeyId32 (ucast (m_auxKeyIdKeySrc f)) (m_auxKeyIdKeyIndex f) g
     else if m_secctrlKeyIdMode f = LONGKEYSOURCE then
       LrWpanMacHeader_SetKeyId64 (m_auxKeyIdKeySrc f) (m_auxKeyIdKeyIndex f) g
     else g)"

definition sec_rebuilt :: "LrWpanMacHeader \<Rightarrow> LrWpanMacHeader \<Rightarrow> LrWpanMacHeader" where
  "sec_rebuilt g f = (if m_fctrlSecU f = 1 then
     key_rebuilt (g\<lparr>m_secctrlSecLevel := m_secctrlSecLevel f, m_secctrlKeyIdMode := m_secctrlKeyIdMode f,
       m_sectrlFrmCntSup := m_sectrlFrmCntSup f, m_sectrlFrmCntSize := m_sectrlFrmCntSize f,
       m_secctrlReserved := m_secctrlReserved f, m_auxFrmCntr := m_auxFrmCntr f\<rparr>) f else g)"

definition mac_rebuilt :: "LrWpanMacHeader \<Rightarrow> LrWpanMacHeader \<Rightarrow> LrWpanMacHeader" where
  "mac_rebuilt f0 f = sec_rebuilt (src_rebuilt (dst_rebuilt ((fctrl_copy f0 f)\<lparr>m_SeqNum := m_SeqNum f\<rparr>) f) f) f"

lemma modes_exhaust: "fits 2 (x :: u8) \<Longrightarrow> x \<in> {0, 1, 2, 3}"
proof -
  assume "fits 2 x"
  then have "unat x < 4" by (simp add: fits_iff)
  then have "unat x \<in> {unat (0 :: u8), unat (1 :: u8), unat (2 :: u8), unat (3 :: u8)}" by simp presburger
  then show ?thesis by (auto simp only: insert_iff empty_iff word_unat_eq_iff)
qed

lemma mac_ok_modes:
  assumes "mac_ok rtl f"
  shows "m_fctrlDstAddrMode f \<in> {0, 2, 3}" and "m_fctrlSrcAddrMode f \<in> {0, 2, 3}"
    and "m_fctrlSecU f = 1 \<Longrightarrow> m_secctrlKeyIdMode f \<in> {0, 1, 2, 3}"
  using assms modes_exhaust [of "m_fctrlDstAddrMode f"] modes_exhaust [of "m_fctrlSrcAddrMode f"]
    modes_exhaust [of "m_secctrlKeyIdMode f"]
  by (auto simp: mac_ok_def fctrl_ok_def sectrl_ok_def)

text \<open>Each part alone: what it writes, how long that is, and what reading it back makes of \<open>g\<close>.\<close>

lemma Serialize_dst: "m_fctrlDstAddrMode f \<in> {0, 2, 3} \<Longrightarrow> LrWpanMacHeader_SerializeDst f i = WriteBuf (dst_wire f) i"
  by (elim insertE emptyE; simp add: LrWpanMacHeader_SerializeDst_def dst_wire_def LrWpanMacHeader_GetDstPanId_def wire_simps)

lemma Serialize_src: "m_fctrlSrcAddrMode f \<in> {0, 2, 3} \<Longrightarrow> LrWpanMacHeader_SerializeSrc f i = WriteBuf (src_wire f) i"
  by (elim insertE emptyE; simp add: LrWpanMacHeader_SerializeSrc_def src_wire_def LrWpanMacHeader_GetSrcPanId_def
      LrWpanMacHeader_IsPanIdComp_def wire_simps)

lemma Serialize_sec:
  "(m_fctrlSecU f = 1 \<Longrightarrow> m_secctrlKeyIdMode f \<in> {0, 1, 2, 3}) \<Longrightarrow>
   LrWpanMacHeader_SerializeSec f i = WriteBuf (sec_wire f) i"
proof (cases "m_fctrlSecU f = 1")
  case True
  assume "m_fctrlSecU f = 1 \<Longrightarrow> m_secctrlKeyIdMode f \<in> {0, 1, 2, 3}"
  from this [OF True] True show ?thesis
    by (elim insertE emptyE; simp add: LrWpanMacHeader_SerializeSec_def sec_wire_def
      key_wire_def LrWpanMacHeader_IsSecEnable_def LrWpanMacHeader_GetFrmCounter_def LrWpanMacHeader_GetKeyIdIndex_def
      LrWpanMacHeader_GetKeyIdSrc32_def LrWpanMacHeader_GetKeyIdSrc64_def wire_simps)
qed (simp add: LrWpanMacHeader_SerializeSec_def sec_wire_def LrWpanMacHeader_IsSecEnable_def wire_simps)

lemma Deserialize_dst:
  "m_fctrlDstAddrMode f \<in> {0, 2, 3} \<Longrightarrow> m_fctrlDstAddrMode g = m_fctrlDstAddrMode f \<Longrightarrow>
   LrWpanMacHeader_DeserializeDst g (d, dst_wire f @ r) = Some (dst_rebuilt g f, (d @ dst_wire f, r))"
  by (elim insertE emptyE; simp add: LrWpanMacHeader_DeserializeDst_def dst_wire_def dst_rebuilt_def wire_simps)

lemma Deserialize_srcpan:
  "m_fctrlPanIdComp g = m_fctrlPanIdComp f \<Longrightarrow> m_fctrlDstAddrMode g = m_fctrlDstAddrMode f \<Longrightarrow>
   LrWpanMacHeader_DeserializeSrcPan g (d, (if m_fctrlPanIdComp f = 1 then [] else le16 (m_addrSrcPanId f)) @ r) =
   Some (srcpan_rebuilt g f, (d @ (if m_fctrlPanIdComp f = 1 then [] else le16 (m_addrSrcPanId f)), r))"
  by (simp add: LrWpanMacHeader_DeserializeSrcPan_def LrWpanMacHeader_IsPanIdComp_def srcpan_rebuilt_def wire_simps)

lemma Deserialize_src:
  assumes "m_fctrlSrcAddrMode f \<in> {0, 2, 3}" and "m_fctrlSrcAddrMode g = m_fctrlSrcAddrMode f"
    and "m_fctrlPanIdComp g = m_fctrlPanIdComp f" and "m_fctrlDstAddrMode g = m_fctrlDstAddrMode f"
  shows "LrWpanMacHeader_DeserializeSrc g (d, src_wire f @ r) = Some (src_rebuilt g f, (d @ src_wire f, r))"
  using assms(1,2)
  by (elim insertE emptyE; simp add: LrWpanMacHeader_DeserializeSrc_def src_wire_def src_rebuilt_def
      Deserialize_srcpan [OF assms(3,4)] wire_simps del: if_image_distrib split del: if_split)

lemma frame_counter_back: "fits 32 (x :: u64) \<Longrightarrow> ucast (ucast x :: u32) = x"
  by (rule bit_word_eqI) (auto simp: bit_simps dest: fits_bit)

lemma Deserialize_sec:
  assumes ok: "mac_ok rtl f" and "m_fctrlSecU g = m_fctrlSecU f"
  shows "LrWpanMacHeader_DeserializeSec rtl g (d, sec_wire f @ r) = Some (sec_rebuilt g f, (d @ sec_wire f, r))"
proof (cases "m_fctrlSecU f = 1")
  case True
  then have s: "sectrl_ok f" "fits 32 (m_auxFrmCntr f)"
    and rtl: "rtl \<longrightarrow> m_secctrlKeyIdMode f = 0 \<or> m_secctrlKeyIdMode f = 1"
    using ok by (auto simp: mac_ok_def)
  from mac_ok_modes(3) [OF ok True] True assms(2) s(2) rtl show ?thesis
    by (cases rtl; elim insertE emptyE; simp add: LrWpanMacHeader_DeserializeSec_def LrWpanMacHeader_IsSecEnable_def sec_wire_def
        key_wire_def sec_rebuilt_def key_rebuilt_def ReadKey_def SetSecControl_Get [OF s(1)] frame_counter_back
        LrWpanMacHeader_SetFrmCounter_def LrWpanMacHeader_SetKeyId_def wire_simps)
next
  case False
  then show ?thesis
    using assms(2) by (simp add: LrWpanMacHeader_DeserializeSec_def LrWpanMacHeader_IsSecEnable_def sec_wire_def sec_rebuilt_def)
qed

lemma rebuilt_fctrl [simp]:
  "m_fctrlSrcAddrMode (dst_rebuilt g f) = m_fctrlSrcAddrMode g"
  "m_fctrlDstAddrMode (dst_rebuilt g f) = m_fctrlDstAddrMode g"
  "m_fctrlPanIdComp (dst_rebuilt g f) = m_fctrlPanIdComp g"
  "m_fctrlSecU (dst_rebuilt g f) = m_fctrlSecU g"
  "m_fctrlSecU (src_rebuilt g f) = m_fctrlSecU g"
  by (simp_all add: dst_rebuilt_def src_rebuilt_def srcpan_rebuilt_def)

lemma fctrl_copy_fields [simp]:
  "m_fctrlSrcAddrMode (fctrl_copy f0 f) = m_fctrlSrcAddrMode f"
  "m_fctrlDstAddrMode (fctrl_copy f0 f) = m_fctrlDstAddrMode f"
  "m_fctrlPanIdComp (fctrl_copy f0 f) = m_fctrlPanIdComp f"
  "m_fctrlSecU (fctrl_copy f0 f) = m_fctrlSecU f"
  by (simp_all add: fctrl_copy_def)

lemma mac_serialize: "mac_ok rtl f \<Longrightarrow> LrWpanMacHeader_Serialize f i = WriteBuf (mac_wire f) i"
  by (simp add: LrWpanMacHeader_Serialize_def mac_wire_def Serialize_dst [OF mac_ok_modes(1)]
      Serialize_src [OF mac_ok_modes(2)] Serialize_sec [OF mac_ok_modes(3)] LrWpanMacHeader_GetSeqNum_def wire_simps)

lemma mac_deserialize:
  assumes "mac_ok rtl f"
  shows "LrWpanMacHeader_Deserialize rtl f0 (d, mac_wire f @ r) = Some (mac_rebuilt f0 f, (d @ mac_wire f, r))"
proof -
  have "fctrl_ok f" using assms by (simp add: mac_ok_def)
  then show ?thesis
    by (simp add: LrWpanMacHeader_Deserialize_def mac_wire_def mac_rebuilt_def SetFrameControl_Get
        LrWpanMacHeader_SetSeqNum_def Deserialize_dst [OF mac_ok_modes(1) [OF assms]]
        Deserialize_src [OF mac_ok_modes(2) [OF assms]]
        Deserialize_sec [OF assms] wire_simps)
qed

lemma length_dst_wire: "m_fctrlDstAddrMode f \<in> {0, 2, 3} \<Longrightarrow> length (dst_wire f) =
    (if m_fctrlDstAddrMode f = 0 then 0 else if m_fctrlDstAddrMode f = 2 then 4 else 10)"
  by (elim insertE emptyE; simp add: dst_wire_def)

lemma length_src_wire: "m_fctrlSrcAddrMode f \<in> {0, 2, 3} \<Longrightarrow> length (src_wire f) =
    (if m_fctrlSrcAddrMode f = 0 then 0 else (if m_fctrlPanIdComp f = 1 then 0 else 2) +
       (if m_fctrlSrcAddrMode f = 2 then 2 else 8))"
  by (elim insertE emptyE; simp add: src_wire_def)

lemma length_sec_wire:
  "m_fctrlSecU f = 1 \<Longrightarrow> m_secctrlKeyIdMode f \<in> {0, 1, 2, 3} \<Longrightarrow> length (sec_wire f) =
    5 + (if m_secctrlKeyIdMode f = 0 then 0 else if m_secctrlKeyIdMode f = 1 then 1
         else if m_secctrlKeyIdMode f = 2 then 5 else 9)"
  "m_fctrlSecU f \<noteq> 1 \<Longrightarrow> length (sec_wire f) = 0"
  by (elim insertE emptyE; simp add: sec_wire_def key_wire_def) (simp add: sec_wire_def)

lemma length_mac_wire:
  assumes ok: "mac_ok rtl f"
  shows "length (mac_wire f) = LrWpanMacHeader_GetSerializedSize f"
proof -
  have d: "(if m_fctrlDstAddrMode f = NOADDR then 0 else if m_fctrlDstAddrMode f = SIMPLEADDR then 3
      else if m_fctrlDstAddrMode f = SHORTADDR then 4 else if m_fctrlDstAddrMode f = EXTADDR then 10 else 0) =
      length (dst_wire f)"
    using mac_ok_modes(1) [OF ok] by (elim insertE emptyE; simp add: length_dst_wire)
  have s: "(if m_fctrlSrcAddrMode f = NOADDR then 0
      else if m_fctrlSrcAddrMode f = SIMPLEADDR then (if \<not> LrWpanMacHeader_IsPanIdComp f then 3 else 1)
      else if m_fctrlSrcAddrMode f = SHORTADDR then (if \<not> LrWpanMacHeader_IsPanIdComp f then 4 else 2)
      else if m_fctrlSrcAddrMode f = EXTADDR then (if \<not> LrWpanMacHeader_IsPanIdComp f then 10 else 8) else 0) =
      length (src_wire f)"
    using mac_ok_modes(2) [OF ok] by (elim insertE emptyE; simp add: length_src_wire LrWpanMacHeader_IsPanIdComp_def)
  show ?thesis
  proof (cases "m_fctrlSecU f = 1")
    case True
    have "\<not> m_sectrlFrmCntSup f" "\<not> m_sectrlFrmCntSize f" using ok True by (simp_all add: mac_ok_def)
    then show ?thesis
      using mac_ok_modes(3) [OF ok True] True length_sec_wire(1) [OF True]
      unfolding LrWpanMacHeader_GetSerializedSize_def d s
      by (elim insertE emptyE; simp add: mac_wire_def LrWpanMacHeader_IsSecEnable_def)
  next
    case False
    then show ?thesis
      unfolding LrWpanMacHeader_GetSerializedSize_def d s
      by (simp add: mac_wire_def length_sec_wire LrWpanMacHeader_IsSecEnable_def)
  qed
qed

interpretation mac: header_codec LrWpanMacHeader_GetSerializedSize mac_wire LrWpanMacHeader_Serialize
  "LrWpanMacHeader_Deserialize rtl" "mac_ok rtl" "\<lambda>_ _. True" mac_rebuilt
  by unfold_locales (simp_all add: mac_serialize mac_deserialize length_mac_wire)

subsection \<open>What a receiver learns\<close>

text \<open>
  The abstract content of a header: the addresses by mode, and the security fields when they
  are present. It survives the trip exactly when an elided source PAN identifier can be
  recovered, that is, when there is a destination and both are in the same PAN.
\<close>

datatype mac_addr = AddrNone | AddrShort u16 mac16 | AddrExt u16 mac64

definition dst_addr :: "LrWpanMacHeader \<Rightarrow> mac_addr" where
  "dst_addr f = (
     if m_fctrlDstAddrMode f = SHORTADDR then AddrShort (m_addrDstPanId f) (m_addrShortDstAddr f)
     else if m_fctrlDstAddrMode f = EXTADDR then AddrExt (m_addrDstPanId f) (m_addrExtDstAddr f)
     else AddrNone)"

definition src_addr :: "LrWpanMacHeader \<Rightarrow> mac_addr" where
  "src_addr f = (
     if m_fctrlSrcAddrMode f = SHORTADDR then AddrShort (m_addrSrcPanId f) (m_addrShortSrcAddr f)
     else if m_fctrlSrcAddrMode f = EXTADDR then AddrExt (m_addrSrcPanId f) (m_addrExtSrcAddr f)
     else AddrNone)"

definition pan_consistent :: "LrWpanMacHeader \<Rightarrow> bool" where
  "pan_consistent f \<longleftrightarrow> (m_fctrlPanIdComp f = 1 \<and> m_fctrlSrcAddrMode f \<noteq> NOADDR \<longrightarrow>
     m_fctrlDstAddrMode f \<noteq> NOADDR \<and> m_addrSrcPanId f = m_addrDstPanId f)"

lemma key_rebuilt_keeps [simp]:
  "m_fctrlDstAddrMode (key_rebuilt g f) = m_fctrlDstAddrMode g" "m_fctrlSrcAddrMode (key_rebuilt g f) = m_fctrlSrcAddrMode g"
  "m_addrDstPanId (key_rebuilt g f) = m_addrDstPanId g" "m_addrSrcPanId (key_rebuilt g f) = m_addrSrcPanId g"
  "m_addrShortDstAddr (key_rebuilt g f) = m_addrShortDstAddr g" "m_addrShortSrcAddr (key_rebuilt g f) = m_addrShortSrcAddr g"
  "m_addrExtDstAddr (key_rebuilt g f) = m_addrExtDstAddr g" "m_addrExtSrcAddr (key_rebuilt g f) = m_addrExtSrcAddr g"
  "m_fctrlFrmType (key_rebuilt g f) = m_fctrlFrmType g" "m_SeqNum (key_rebuilt g f) = m_SeqNum g"
  by (simp_all add: key_rebuilt_def LrWpanMacHeader_SetKeyId32_def LrWpanMacHeader_SetKeyId64_def)

lemma sec_rebuilt_keeps [simp]:
  "dst_addr (sec_rebuilt g f) = dst_addr g" "src_addr (sec_rebuilt g f) = src_addr g"
  "m_fctrlFrmType (sec_rebuilt g f) = m_fctrlFrmType g" "m_SeqNum (sec_rebuilt g f) = m_SeqNum g"
  by (simp_all add: sec_rebuilt_def dst_addr_def src_addr_def)

lemma addr_rebuilt_keeps [simp]:
  "dst_addr (src_rebuilt g f) = dst_addr g"
  "m_fctrlFrmType (src_rebuilt g f) = m_fctrlFrmType g" "m_SeqNum (src_rebuilt g f) = m_SeqNum g"
  "m_fctrlFrmType (dst_rebuilt g f) = m_fctrlFrmType g" "m_SeqNum (dst_rebuilt g f) = m_SeqNum g"
  by (simp_all add: src_rebuilt_def srcpan_rebuilt_def dst_rebuilt_def dst_addr_def)

lemma dst_addr_rebuilt: "dst_addr (mac_rebuilt f0 f) = dst_addr f"
  by (simp add: mac_rebuilt_def) (simp add: dst_rebuilt_def dst_addr_def)

lemma src_addr_rebuilt:
  assumes "mac_ok rtl f" and "pan_consistent f"
  shows "src_addr (mac_rebuilt f0 f) = src_addr f"
proof -
  let ?g = "dst_rebuilt ((fctrl_copy f0 f)\<lparr>m_SeqNum := m_SeqNum f\<rparr>) f"
  have "m_addrDstPanId ?g = m_addrDstPanId f" if "m_fctrlDstAddrMode f \<noteq> 0"
    using that mac_ok_modes(1) [OF assms(1)] by (simp add: dst_rebuilt_def) auto
  then have pan: "m_addrSrcPanId (srcpan_rebuilt ?g f) = m_addrSrcPanId f" if "m_fctrlSrcAddrMode f \<noteq> 0"
    using that assms(2) by (simp add: srcpan_rebuilt_def pan_consistent_def word_gt_0)
  have mode: "m_fctrlSrcAddrMode (srcpan_rebuilt ?g f) = m_fctrlSrcAddrMode f"
    by (simp add: srcpan_rebuilt_def)
  show ?thesis
    unfolding mac_rebuilt_def sec_rebuilt_keeps
    using mac_ok_modes(2) [OF assms(1)] pan mode
    by (elim insertE emptyE; simp add: src_addr_def src_rebuilt_def)
qed

lemma type_rebuilt: "LrWpanMacHeader_GetType (mac_rebuilt f0 f) = LrWpanMacHeader_GetType f"
  "m_SeqNum (mac_rebuilt f0 f) = m_SeqNum f"
  by (simp_all add: mac_rebuilt_def LrWpanMacHeader_GetType_def) (simp_all add: fctrl_copy_def)

end
