(* ===== verification/Gts_Fields.thy ===== *)
theory Gts_Fields
  imports Packet_Buffer
begin

section \<open>Fields of the DSME-GTS commands\<close>

text \<open>
  The four fields of \<open>lr-wpan-mac-pl-headers\<close> that the commands of the slot negotiation are
  made of: the hopping sequence, the DSME-GTS management field, the slot allocation bitmap
  (SAB) specification and the link status list. Three of them do not carry enough to be read
  into any object: the locale instances name, as \<open>ready\<close>, what the receiver must have set up.
\<close>

subsection \<open>HoppingSequence\<close>

record HoppingSequence =
  m_len :: u8
  m_channelList :: "u16 list"

definition HoppingSequence_SetSequenceLength :: "u8 \<Rightarrow> HoppingSequence \<Rightarrow> HoppingSequence" where
  "HoppingSequence_SetSequenceLength len f = f\<lparr>m_channelList := resize 0 (unat len) (m_channelList f)\<rparr>"

definition HoppingSequence_GetChannel :: "nat \<Rightarrow> HoppingSequence \<Rightarrow> u16 option" where
  "HoppingSequence_GetChannel idx f = (if idx < length (m_channelList f) then Some (m_channelList f ! idx) else None)"

definition HoppingSequence_GetSerializedSize :: "HoppingSequence \<Rightarrow> nat" where
  "HoppingSequence_GetSerializedSize f = 2 * length (m_channelList f)"

definition HoppingSequence_Serialize :: "HoppingSequence \<Rightarrow> iter \<Rightarrow> iter option" where
  "HoppingSequence_Serialize f i = WriteAll WriteU16 (m_channelList f) i"

text \<open>As many channels are read as the receiving object already has.\<close>

definition HoppingSequence_Deserialize :: "HoppingSequence \<Rightarrow> iter \<Rightarrow> (HoppingSequence \<times> iter) option" where
  "HoppingSequence_Deserialize f i = do {
     (v, i) \<leftarrow> ReadMany (length (m_channelList f)) ReadU16 i;
     Some (f\<lparr>m_channelList := v\<rparr>, i) }"

definition hopseq_wire :: "HoppingSequence \<Rightarrow> u8 list" where
  "hopseq_wire f = concat (map le16 (m_channelList f))"

definition hopseq_ready :: "HoppingSequence \<Rightarrow> HoppingSequence \<Rightarrow> bool" where
  "hopseq_ready f0 f \<longleftrightarrow> length (m_channelList f0) = length (m_channelList f)"

definition hopseq_rebuilt :: "HoppingSequence \<Rightarrow> HoppingSequence \<Rightarrow> HoppingSequence" where
  "hopseq_rebuilt f0 f = f0\<lparr>m_channelList := m_channelList f\<rparr>"

lemma hopseq_wire_simps [wire_simps]:
  "HoppingSequence_Serialize f i = WriteBuf (hopseq_wire f) i"
  "hopseq_ready f0 f \<Longrightarrow> HoppingSequence_Deserialize f0 (d, hopseq_wire f @ r) = Some (hopseq_rebuilt f0 f, (d @ hopseq_wire f, r))"
  by (simp_all add: HoppingSequence_Serialize_def HoppingSequence_Deserialize_def hopseq_wire_def hopseq_ready_def
      hopseq_rebuilt_def wire_simps ReadMany_le16)

interpretation hopping_sequence: header_codec HoppingSequence_GetSerializedSize hopseq_wire HoppingSequence_Serialize
  HoppingSequence_Deserialize "\<lambda>_. True" hopseq_ready hopseq_rebuilt
  by unfold_locales (simp_all add: wire_simps HoppingSequence_GetSerializedSize_def hopseq_wire_def
      hopseq_wire_simps [unfolded hopseq_wire_def])

text \<open>An object on which \<open>SetSequenceLength\<close> was never called reads nothing.\<close>

lemma hopseq_unready:
  "m_channelList f0 = [] \<Longrightarrow> HoppingSequence_Deserialize f0 i = Some (f0, i)"
  by (simp add: HoppingSequence_Deserialize_def)

subsection \<open>DSMEGTSManagementField\<close>

record DSMEGTSManagementField =
  m_managementType :: u8
  m_direction :: bool
  m_prior_channel_access :: bool
  m_status :: u8

definition DSMEGTSManagementField_SetManagementType :: "u8 \<Rightarrow> DSMEGTSManagementField \<Rightarrow> DSMEGTSManagementField" where
  [class_defs]: "DSMEGTSManagementField_SetManagementType type f = f\<lparr>m_managementType := type\<rparr>"

definition DSMEGTSManagementField_SetRX :: "bool \<Rightarrow> DSMEGTSManagementField \<Rightarrow> DSMEGTSManagementField" where
  [class_defs]: "DSMEGTSManagementField_SetRX RX f = f\<lparr>m_direction := RX\<rparr>"

definition DSMEGTSManagementField_SetPrioritizedChannelAccess :: "bool \<Rightarrow> DSMEGTSManagementField \<Rightarrow> DSMEGTSManagementField" where
  [class_defs]: "DSMEGTSManagementField_SetPrioritizedChannelAccess high f = f\<lparr>m_prior_channel_access := high\<rparr>"

definition DSMEGTSManagementField_SetStatus :: "u8 \<Rightarrow> DSMEGTSManagementField \<Rightarrow> DSMEGTSManagementField" where
  [class_defs]: "DSMEGTSManagementField_SetStatus status f = f\<lparr>m_status := status\<rparr>"

definition DSMEGTSManagementField_GetManagementType :: "DSMEGTSManagementField \<Rightarrow> u8" where
  [class_defs]: "DSMEGTSManagementField_GetManagementType f = m_managementType f"

definition DSMEGTSManagementField_GetStatus :: "DSMEGTSManagementField \<Rightarrow> u8" where
  [class_defs]: "DSMEGTSManagementField_GetStatus f = m_status f"

definition DSMEGTSManagementField_IsDirectionRX :: "DSMEGTSManagementField \<Rightarrow> bool" where
  [class_defs]: "DSMEGTSManagementField_IsDirectionRX f = m_direction f"

definition DSMEGTSManagementField_IsHighPriority :: "DSMEGTSManagementField \<Rightarrow> bool" where
  [class_defs]: "DSMEGTSManagementField_IsHighPriority f = m_prior_channel_access f"

definition DSMEGTSManagementField_GetSerializedSize :: "DSMEGTSManagementField \<Rightarrow> nat" where
  "DSMEGTSManagementField_GetSerializedSize f = 1"

text \<open>The management type is not masked: a value above 7 reaches the flags.\<close>

definition DSMEGTSManagementField_GetDSMEGTSManagementField :: "DSMEGTSManagementField \<Rightarrow> u8" where
  "DSMEGTSManagementField_GetDSMEGTSManagementField f = (
     let managementField = m_managementType f;
         managementField = managementField OR ucast (putField (of_bool (m_direction f) :: cint) 3 1);
         managementField = managementField OR ucast (putField (of_bool (m_prior_channel_access f) :: cint) 4 1);
         managementField = managementField OR ucast (putField (ucast (m_status f) :: cint) 5 3)
     in managementField)"

definition DSMEGTSManagementField_Serialize :: "DSMEGTSManagementField \<Rightarrow> iter \<Rightarrow> iter option" where
  "DSMEGTSManagementField_Serialize f i = WriteU8 (DSMEGTSManagementField_GetDSMEGTSManagementField f) i"

definition DSMEGTSManagementField_Deserialize :: "DSMEGTSManagementField \<Rightarrow> iter \<Rightarrow> (DSMEGTSManagementField \<times> iter) option" where
  "DSMEGTSManagementField_Deserialize f i = do {
     (managementField, i) \<leftarrow> ReadU8 i;
     Some (f\<lparr>m_managementType := getField managementField 0 7,
       m_direction := (getField managementField 3 1 \<noteq> 0),
       m_prior_channel_access := (getField managementField 4 1 \<noteq> 0),
       m_status := getField managementField 5 3\<rparr>, i) }"

definition mgmt_ok :: "DSMEGTSManagementField \<Rightarrow> bool" where
  "mgmt_ok f \<longleftrightarrow> fits 3 (m_managementType f) \<and> fits 2 (m_status f)"

definition mgmt_wire :: "DSMEGTSManagementField \<Rightarrow> u8 list" where
  "mgmt_wire f = [DSMEGTSManagementField_GetDSMEGTSManagementField f]"

lemma bit_mgmt:
  assumes "mgmt_ok f"
  shows "bit (DSMEGTSManagementField_GetDSMEGTSManagementField f) n \<longleftrightarrow>
     n < 3 \<and> bit (m_managementType f) n \<or> n = 3 \<and> m_direction f \<or> n = 4 \<and> m_prior_channel_access f \<or>
     5 \<le> n \<and> n < 7 \<and> bit (m_status f) (n - 5)"
proof -
  have "bit (m_managementType f) n \<longleftrightarrow> n < 3 \<and> bit (m_managementType f) n"
    using assms by (auto simp: mgmt_ok_def dest: fits_bit)
  then show ?thesis
    unfolding DSMEGTSManagementField_GetDSMEGTSManagementField_def Let_def bit_or_iff by (simp add: bit_part_in disj_assoc)
qed

lemma mgmt_fields:
  assumes "mgmt_ok f"
  shows "getField (DSMEGTSManagementField_GetDSMEGTSManagementField f) 0 7 = m_managementType f"
    "getField (DSMEGTSManagementField_GetDSMEGTSManagementField f) 3 1 \<noteq> 0 \<longleftrightarrow> m_direction f"
    "getField (DSMEGTSManagementField_GetDSMEGTSManagementField f) 4 1 \<noteq> 0 \<longleftrightarrow> m_prior_channel_access f"
    "getField (DSMEGTSManagementField_GetDSMEGTSManagementField f) 5 3 = m_status f"
proof -
  have "fits 3 (m_managementType f)" "fits 2 (m_status f)" using assms by (simp_all add: mgmt_ok_def)
  from this [THEN fits_bit]
  show "getField (DSMEGTSManagementField_GetDSMEGTSManagementField f) 0 7 = m_managementType f"
    and "getField (DSMEGTSManagementField_GetDSMEGTSManagementField f) 5 3 = m_status f"
    by - (rule bit_word_eqI; fastforce simp: word_pack bit_mgmt [OF assms])+
  show "getField (DSMEGTSManagementField_GetDSMEGTSManagementField f) 3 1 \<noteq> 0 \<longleftrightarrow> m_direction f"
    and "getField (DSMEGTSManagementField_GetDSMEGTSManagementField f) 4 1 \<noteq> 0 \<longleftrightarrow> m_prior_channel_access f"
    by (simp_all add: getField_1_nonzero bit_mgmt [OF assms])
qed

lemma mgmt_wire_simps [wire_simps]:
  "DSMEGTSManagementField_Serialize f i = WriteBuf (mgmt_wire f) i"
  "mgmt_ok f \<Longrightarrow> DSMEGTSManagementField_Deserialize f0 (d, mgmt_wire f @ r) = Some (f, (d @ mgmt_wire f, r))"
  by (cases f; cases f0; simp add: DSMEGTSManagementField_Serialize_def DSMEGTSManagementField_Deserialize_def
      mgmt_wire_def mgmt_fields wire_simps)+

interpretation gts_management: lossless_codec DSMEGTSManagementField_GetSerializedSize mgmt_wire
  DSMEGTSManagementField_Serialize DSMEGTSManagementField_Deserialize mgmt_ok "\<lambda>_ _. True" "\<lambda>_ f. f"
  by unfold_locales (simp_all add: wire_simps DSMEGTSManagementField_GetSerializedSize_def mgmt_wire_def
      mgmt_wire_simps(2) [unfolded mgmt_wire_def, simplified])

subsection \<open>DSMESABSpecificationField\<close>

record DSMESABSpecificationField =
  m_capReduction :: bool
  m_dsmeSABSubBlkLen :: u8
  m_dsmeSABSubBlkIdx :: u16
  m_dsmeSABSubBlk :: "u16 list"
  m_dsmeSABSubBlkCapOff :: "u8 list"

definition DSMESABSpecificationField_setCAPReduction :: "bool \<Rightarrow> DSMESABSpecificationField \<Rightarrow> DSMESABSpecificationField" where
  [class_defs]: "DSMESABSpecificationField_setCAPReduction on f = f\<lparr>m_capReduction := on\<rparr>"

definition DSMESABSpecificationField_setSABSubBlkLen :: "u8 \<Rightarrow> DSMESABSpecificationField \<Rightarrow> DSMESABSpecificationField" where
  [class_defs]: "DSMESABSpecificationField_setSABSubBlkLen len f = f\<lparr>m_dsmeSABSubBlkLen := len\<rparr>"

definition DSMESABSpecificationField_setSABSubBlkIdx :: "u16 \<Rightarrow> DSMESABSpecificationField \<Rightarrow> DSMESABSpecificationField" where
  [class_defs]: "DSMESABSpecificationField_setSABSubBlkIdx idx f = f\<lparr>m_dsmeSABSubBlkIdx := idx\<rparr>"

definition DSMESABSpecificationField_setSABSubBlkU8 :: "u8 \<Rightarrow> DSMESABSpecificationField \<Rightarrow> DSMESABSpecificationField" where
  [class_defs]: "DSMESABSpecificationField_setSABSubBlkU8 subBlk f = f\<lparr>m_dsmeSABSubBlkCapOff := m_dsmeSABSubBlkCapOff f @ [subBlk]\<rparr>"

definition DSMESABSpecificationField_setSABSubBlkU16 :: "u16 \<Rightarrow> DSMESABSpecificationField \<Rightarrow> DSMESABSpecificationField" where
  [class_defs]: "DSMESABSpecificationField_setSABSubBlkU16 subBlk f = f\<lparr>m_dsmeSABSubBlk := m_dsmeSABSubBlk f @ [subBlk]\<rparr>"

definition DSMESABSpecificationField_setSABSubBlkVectorU8 :: "u8 list \<Rightarrow> DSMESABSpecificationField \<Rightarrow> DSMESABSpecificationField" where
  [class_defs]: "DSMESABSpecificationField_setSABSubBlkVectorU8 subBlk f = f\<lparr>m_dsmeSABSubBlkCapOff := subBlk\<rparr>"

definition DSMESABSpecificationField_setSABSubBlkVectorU16 :: "u16 list \<Rightarrow> DSMESABSpecificationField \<Rightarrow> DSMESABSpecificationField" where
  [class_defs]: "DSMESABSpecificationField_setSABSubBlkVectorU16 subBlk f = f\<lparr>m_dsmeSABSubBlk := subBlk\<rparr>"

definition DSMESABSpecificationField_isCAPReduction :: "DSMESABSpecificationField \<Rightarrow> bool" where
  [class_defs]: "DSMESABSpecificationField_isCAPReduction f = m_capReduction f"

definition DSMESABSpecificationField_GetSABSubBlkLen :: "DSMESABSpecificationField \<Rightarrow> u8" where
  [class_defs]: "DSMESABSpecificationField_GetSABSubBlkLen f = m_dsmeSABSubBlkLen f"

definition DSMESABSpecificationField_GetSABSubBlkIdx :: "DSMESABSpecificationField \<Rightarrow> u16" where
  [class_defs]: "DSMESABSpecificationField_GetSABSubBlkIdx f = m_dsmeSABSubBlkIdx f"

definition DSMESABSpecificationField_GetSABSubBlk :: "DSMESABSpecificationField \<Rightarrow> u16 list" where
  [class_defs]: "DSMESABSpecificationField_GetSABSubBlk f = m_dsmeSABSubBlk f"

definition DSMESABSpecificationField_GetSABSubBlkCapOff :: "DSMESABSpecificationField \<Rightarrow> u8 list" where
  [class_defs]: "DSMESABSpecificationField_GetSABSubBlkCapOff f = m_dsmeSABSubBlkCapOff f"

definition DSMESABSpecificationField_GetSerializedSize :: "DSMESABSpecificationField \<Rightarrow> nat" where
  "DSMESABSpecificationField_GetSerializedSize f = (
     if DSMESABSpecificationField_isCAPReduction f then 4 + unat (m_dsmeSABSubBlkLen f) * 2
     else 4 + unat (m_dsmeSABSubBlkLen f))"

definition DSMESABSpecificationField_Serialize :: "DSMESABSpecificationField \<Rightarrow> iter \<Rightarrow> iter option" where
  "DSMESABSpecificationField_Serialize f i = do {
     i \<leftarrow> WriteU8 (of_bool (m_capReduction f)) i;
     i \<leftarrow> WriteU8 (m_dsmeSABSubBlkLen f) i;
     i \<leftarrow> WriteU16 (m_dsmeSABSubBlkIdx f) i;
     if DSMESABSpecificationField_isCAPReduction f then do {
       blks \<leftarrow> firstN (unat (DSMESABSpecificationField_GetSABSubBlkLen f)) (m_dsmeSABSubBlk f);
       WriteAll WriteU16 blks i }
     else do {
       blks \<leftarrow> firstN (unat (DSMESABSpecificationField_GetSABSubBlkLen f)) (m_dsmeSABSubBlkCapOff f);
       WriteAll WriteU8 blks i } }"

text \<open>\<open>Deserialize\<close> appends to the sub-block vectors; it does not clear them.\<close>

definition DSMESABSpecificationField_Deserialize ::
  "DSMESABSpecificationField \<Rightarrow> iter \<Rightarrow> (DSMESABSpecificationField \<times> iter) option" where
  "DSMESABSpecificationField_Deserialize f i = do {
     (c, i) \<leftarrow> ReadU8 i;
     let f = DSMESABSpecificationField_setCAPReduction (c \<noteq> 0) f;
     (l, i) \<leftarrow> ReadU8 i;
     let f = DSMESABSpecificationField_setSABSubBlkLen l f;
     (x, i) \<leftarrow> ReadU16 i;
     let f = DSMESABSpecificationField_setSABSubBlkIdx x f;
     if DSMESABSpecificationField_isCAPReduction f then do {
       (v, i) \<leftarrow> ReadMany (unat (DSMESABSpecificationField_GetSABSubBlkLen f)) ReadU16 i;
       Some (f\<lparr>m_dsmeSABSubBlk := m_dsmeSABSubBlk f @ v\<rparr>, i) }
     else do {
       (v, i) \<leftarrow> ReadMany (unat (DSMESABSpecificationField_GetSABSubBlkLen f)) ReadU8 i;
       Some (f\<lparr>m_dsmeSABSubBlkCapOff := m_dsmeSABSubBlkCapOff f @ v\<rparr>, i) } }"

definition sab_ok :: "DSMESABSpecificationField \<Rightarrow> bool" where
  "sab_ok f \<longleftrightarrow> unat (m_dsmeSABSubBlkLen f) \<le>
     (if m_capReduction f then length (m_dsmeSABSubBlk f) else length (m_dsmeSABSubBlkCapOff f))"

definition sab_wire :: "DSMESABSpecificationField \<Rightarrow> u8 list" where
  "sab_wire f = [of_bool (m_capReduction f), m_dsmeSABSubBlkLen f] @ le16 (m_dsmeSABSubBlkIdx f) @
     (if m_capReduction f then concat (map le16 (take (unat (m_dsmeSABSubBlkLen f)) (m_dsmeSABSubBlk f)))
      else take (unat (m_dsmeSABSubBlkLen f)) (m_dsmeSABSubBlkCapOff f))"

definition sab_rebuilt :: "DSMESABSpecificationField \<Rightarrow> DSMESABSpecificationField \<Rightarrow> DSMESABSpecificationField" where
  "sab_rebuilt f0 f = (
     let g = f0\<lparr>m_capReduction := m_capReduction f, m_dsmeSABSubBlkLen := m_dsmeSABSubBlkLen f,
                m_dsmeSABSubBlkIdx := m_dsmeSABSubBlkIdx f\<rparr>
     in if m_capReduction f
        then g\<lparr>m_dsmeSABSubBlk := m_dsmeSABSubBlk f0 @ take (unat (m_dsmeSABSubBlkLen f)) (m_dsmeSABSubBlk f)\<rparr>
        else g\<lparr>m_dsmeSABSubBlkCapOff := m_dsmeSABSubBlkCapOff f0 @ take (unat (m_dsmeSABSubBlkLen f)) (m_dsmeSABSubBlkCapOff f)\<rparr>)"

lemma sab_serialize: "sab_ok f \<Longrightarrow> DSMESABSpecificationField_Serialize f i = WriteBuf (sab_wire f) i"
  by (cases "m_capReduction f")
    (simp_all add: DSMESABSpecificationField_Serialize_def sab_wire_def sab_ok_def class_defs firstN_le wire_simps)

lemma sab_deserialize:
  assumes "sab_ok f"
  shows "DSMESABSpecificationField_Deserialize f0 (d, sab_wire f @ r) = Some (sab_rebuilt f0 f, (d @ sab_wire f, r))"
proof (cases "m_capReduction f")
  case True
  then have "unat (m_dsmeSABSubBlkLen f) = length (take (unat (m_dsmeSABSubBlkLen f)) (m_dsmeSABSubBlk f))"
    using assms by (simp add: sab_ok_def)
  from ReadMany_le16(1) [OF this] True show ?thesis
    by (simp add: DSMESABSpecificationField_Deserialize_def sab_wire_def sab_rebuilt_def class_defs wire_simps)
next
  case False
  then have "unat (m_dsmeSABSubBlkLen f) = length (take (unat (m_dsmeSABSubBlkLen f)) (m_dsmeSABSubBlkCapOff f))"
    using assms by (simp add: sab_ok_def)
  from ReadMany_octets [OF this] False show ?thesis
    by (simp add: DSMESABSpecificationField_Deserialize_def sab_wire_def sab_rebuilt_def class_defs wire_simps)
qed

lemma length_sab_wire: "sab_ok f \<Longrightarrow> length (sab_wire f) = DSMESABSpecificationField_GetSerializedSize f"
  by (simp add: sab_wire_def sab_ok_def DSMESABSpecificationField_GetSerializedSize_def
      DSMESABSpecificationField_isCAPReduction_def split: if_splits)

interpretation sab: header_codec DSMESABSpecificationField_GetSerializedSize sab_wire
  DSMESABSpecificationField_Serialize DSMESABSpecificationField_Deserialize sab_ok "\<lambda>_ _. True" sab_rebuilt
  by unfold_locales (simp_all add: sab_serialize sab_deserialize length_sab_wire)

text \<open>The sub-blocks a receiver uses: the first \<open>GetSABSubBlkLen()\<close> entries of the vector of the mode.\<close>

definition sab_view :: "DSMESABSpecificationField \<Rightarrow> u16 list" where
  "sab_view f = (if m_capReduction f then take (unat (m_dsmeSABSubBlkLen f)) (m_dsmeSABSubBlk f)
     else map ucast (take (unat (m_dsmeSABSubBlkLen f)) (m_dsmeSABSubBlkCapOff f)))"

lemma sab_view_fresh:
  "m_dsmeSABSubBlk f0 = [] \<Longrightarrow> m_dsmeSABSubBlkCapOff f0 = [] \<Longrightarrow> sab_view (sab_rebuilt f0 f) = sab_view f"
  by (simp add: sab_view_def sab_rebuilt_def)

text \<open>Read a second time into the same object, the old sub-blocks still come first.\<close>

lemma sab_view_stale:
  assumes "sab_ok f0" and "m_capReduction f0 = m_capReduction f" and "m_dsmeSABSubBlkLen f0 = m_dsmeSABSubBlkLen f"
  shows "sab_view (sab_rebuilt f0 f) = sab_view f0"
  using assms by (auto simp: sab_view_def sab_rebuilt_def sab_ok_def)

subsection \<open>LinkStatusSpecificationField\<close>

record LinkStatusDescriptor =
  channel :: u8
  avgLQI :: u8
  avgRSSI :: u8

record LinkStatusSpecificationField =
  m_linkStatusDescriptorCnt :: u8
  m_linkStatusList :: "LinkStatusDescriptor list"

definition LinkStatusSpecificationField_SetLinkStatusDescriptorCnt ::
  "u8 \<Rightarrow> LinkStatusSpecificationField \<Rightarrow> LinkStatusSpecificationField" where
  "LinkStatusSpecificationField_SetLinkStatusDescriptorCnt count f = f\<lparr>m_linkStatusDescriptorCnt := count,
     m_linkStatusList := resize \<lparr>channel = 0, avgLQI = 0, avgRSSI = 0\<rparr> (unat count) (m_linkStatusList f)\<rparr>"

definition LinkStatusSpecificationField_GetLinkStatusDescriptorCnt :: "LinkStatusSpecificationField \<Rightarrow> u8" where
  [class_defs]: "LinkStatusSpecificationField_GetLinkStatusDescriptorCnt f = m_linkStatusDescriptorCnt f"

definition LinkStatusSpecificationField_GetLinkStatusList ::
  "LinkStatusSpecificationField \<Rightarrow> LinkStatusDescriptor list" where
  [class_defs]: "LinkStatusSpecificationField_GetLinkStatusList f = m_linkStatusList f"

definition LinkStatusSpecificationField_GetSerializedSize :: "LinkStatusSpecificationField \<Rightarrow> nat" where
  "LinkStatusSpecificationField_GetSerializedSize f = unat (m_linkStatusDescriptorCnt f) * 3"

definition WriteLinkStatus :: "LinkStatusDescriptor \<Rightarrow> iter \<Rightarrow> iter option" where
  "WriteLinkStatus l i = do { i \<leftarrow> WriteU8 (channel l) i; i \<leftarrow> WriteU8 (avgLQI l) i; WriteU8 (avgRSSI l) i }"

definition ReadLinkStatus :: "iter \<Rightarrow> (LinkStatusDescriptor \<times> iter) option" where
  "ReadLinkStatus i = do {
     (c, i) \<leftarrow> ReadU8 i; (q, i) \<leftarrow> ReadU8 i; (s, i) \<leftarrow> ReadU8 i;
     Some (\<lparr>channel = c, avgLQI = q, avgRSSI = s\<rparr>, i) }"

definition LinkStatusSpecificationField_Serialize :: "LinkStatusSpecificationField \<Rightarrow> iter \<Rightarrow> iter option" where
  "LinkStatusSpecificationField_Serialize f i = do {
     i \<leftarrow> WriteU8 (m_linkStatusDescriptorCnt f) i;
     ls \<leftarrow> firstN (unat (m_linkStatusDescriptorCnt f)) (m_linkStatusList f);
     WriteAll WriteLinkStatus ls i }"

text \<open>The entries are assigned in place: the list must already be long enough.\<close>

definition LinkStatusSpecificationField_Deserialize ::
  "LinkStatusSpecificationField \<Rightarrow> iter \<Rightarrow> (LinkStatusSpecificationField \<times> iter) option" where
  "LinkStatusSpecificationField_Deserialize f i = do {
     (n, i) \<leftarrow> ReadU8 i;
     if unat n \<le> length (m_linkStatusList f) then do {
       (v, i) \<leftarrow> ReadMany (unat n) ReadLinkStatus i;
       Some (f\<lparr>m_linkStatusDescriptorCnt := n, m_linkStatusList := v @ drop (unat n) (m_linkStatusList f)\<rparr>, i) }
     else None }"

definition link_octets :: "LinkStatusDescriptor \<Rightarrow> u8 list" where
  "link_octets l = [channel l, avgLQI l, avgRSSI l]"

definition link_wire :: "LinkStatusSpecificationField \<Rightarrow> u8 list" where
  "link_wire f = [m_linkStatusDescriptorCnt f] @ concat (map link_octets (m_linkStatusList f))"

definition link_ok :: "LinkStatusSpecificationField \<Rightarrow> bool" where
  "link_ok f \<longleftrightarrow> length (m_linkStatusList f) = unat (m_linkStatusDescriptorCnt f)"

lemma link_one [wire_simps]:
  "WriteLinkStatus l i = WriteBuf (link_octets l) i"
  "ReadLinkStatus (d, link_octets l @ r) = Some (l, (d @ link_octets l, r))"
  by (simp_all add: WriteLinkStatus_def ReadLinkStatus_def link_octets_def wire_simps)

lemma link_serialize: "link_ok f \<Longrightarrow> LinkStatusSpecificationField_Serialize f i = WriteBuf (link_wire f) i"
  using WriteAll_WriteBuf [where w = WriteLinkStatus and g = link_octets] link_one(1)
  by (simp add: LinkStatusSpecificationField_Serialize_def link_wire_def link_ok_def firstN_def wire_simps)

lemma link_deserialize:
  assumes "link_ok f" and "length (m_linkStatusList f0) = length (m_linkStatusList f)"
  shows "LinkStatusSpecificationField_Deserialize f0 (d, link_wire f @ r) = Some (f, (d @ link_wire f, r))"
  using ReadMany_concat [where rd = ReadLinkStatus and g = link_octets and xs = "m_linkStatusList f", OF link_one(2)] assms
  by (cases f; cases f0) (simp add: LinkStatusSpecificationField_Deserialize_def link_wire_def link_ok_def wire_simps)

text \<open>The count octet is missing from the announced size.\<close>

lemma link_size_short:
  assumes "link_ok f"
  shows "length (link_wire f) = LinkStatusSpecificationField_GetSerializedSize f + 1"
proof -
  have "length (concat (map link_octets ls)) = 3 * length ls" for ls
    by (induction ls) (simp_all add: link_octets_def)
  with assms show ?thesis by (simp add: link_wire_def LinkStatusSpecificationField_GetSerializedSize_def link_ok_def)
qed

end
