(* ===== verification/Superframe_Fields.thy ===== *)
theory Superframe_Fields
  imports Packet_Buffer
begin

section \<open>Superframe specification, DSME superframe specification, capability information\<close>

text \<open>
  The fields of \<open>lr-wpan-fields\<close> that are one packed integer: \<open>SuperframeField\<close> (two octets
  of every beacon), \<open>DsmeSuperFrameField\<close> (one octet of the DSME PAN descriptor) and
  \<open>CapabilityField\<close> (one octet of an association request). For each: the class as a record,
  every setter and getter, the packing and unpacking, \<open>Serialize\<close> and \<open>Deserialize\<close>; then
  the range invariant its setters keep, that unpacking inverts packing within the range, and
  the interpretation of the header contract.
\<close>

subsection \<open>SuperframeField\<close>

record SuperframeField =
  m_sspecBcnOrder :: u8
  m_sspecSprFrmOrder :: u8
  m_sspecFnlCapSlot :: u8
  m_sspecBatLifeExt :: bool
  m_sspecPanCoor :: bool
  m_sspecAssocPermit :: bool

definition SuperframeField_SetSuperframe :: "u16 \<Rightarrow> SuperframeField \<Rightarrow> SuperframeField" where
  "SuperframeField_SetSuperframe superFrmSpec f = (let w = ucast superFrmSpec :: cint in f\<lparr>
     m_sspecBcnOrder := ucast (w AND 0x0F),
     m_sspecSprFrmOrder := ucast (getField w 4 0x0F),
     m_sspecFnlCapSlot := ucast (getField w 8 0x0F),
     m_sspecBatLifeExt := getField w 12 0x01 \<noteq> 0,
     m_sspecPanCoor := getField w 14 0x01 \<noteq> 0,
     m_sspecAssocPermit := getField w 15 0x01 \<noteq> 0\<rparr>)"

definition SuperframeField_SetBeaconOrder :: "u8 \<Rightarrow> SuperframeField \<Rightarrow> SuperframeField option" where
  [class_defs]: "SuperframeField_SetBeaconOrder bcnOrder f =
     (if bcnOrder > 15 then None else Some (f\<lparr>m_sspecBcnOrder := bcnOrder\<rparr>))"

definition SuperframeField_SetSuperframeOrder :: "u8 \<Rightarrow> SuperframeField \<Rightarrow> SuperframeField option" where
  [class_defs]: "SuperframeField_SetSuperframeOrder frmOrder f =
     (if frmOrder > 15 then None else Some (f\<lparr>m_sspecSprFrmOrder := frmOrder\<rparr>))"

definition SuperframeField_SetFinalCapSlot :: "u8 \<Rightarrow> SuperframeField \<Rightarrow> SuperframeField option" where
  [class_defs]: "SuperframeField_SetFinalCapSlot capSlot f =
     (if capSlot > 15 then None else Some (f\<lparr>m_sspecFnlCapSlot := capSlot\<rparr>))"

definition SuperframeField_SetBattLifeExt :: "bool \<Rightarrow> SuperframeField \<Rightarrow> SuperframeField" where
  [class_defs]: "SuperframeField_SetBattLifeExt battLifeExt f = f\<lparr>m_sspecBatLifeExt := battLifeExt\<rparr>"

definition SuperframeField_SetPanCoor :: "bool \<Rightarrow> SuperframeField \<Rightarrow> SuperframeField" where
  [class_defs]: "SuperframeField_SetPanCoor panCoor f = f\<lparr>m_sspecPanCoor := panCoor\<rparr>"

definition SuperframeField_SetAssocPermit :: "bool \<Rightarrow> SuperframeField \<Rightarrow> SuperframeField" where
  [class_defs]: "SuperframeField_SetAssocPermit assocPermit f = f\<lparr>m_sspecAssocPermit := assocPermit\<rparr>"

text \<open>The constructor, run on an object \<open>mem\<close> whose members hold whatever the memory held.\<close>

definition SuperframeField_new :: "SuperframeField \<Rightarrow> SuperframeField option" where
  "SuperframeField_new mem = do {
     f \<leftarrow> SuperframeField_SetBeaconOrder 15 mem;
     f \<leftarrow> SuperframeField_SetSuperframeOrder 15 f;
     f \<leftarrow> SuperframeField_SetFinalCapSlot 0 f;
     let f = SuperframeField_SetBattLifeExt False f;
     let f = SuperframeField_SetPanCoor False f;
     Some (SuperframeField_SetAssocPermit False f) }"

definition SuperframeField_GetBeaconOrder :: "SuperframeField \<Rightarrow> u8" where
  [class_defs]: "SuperframeField_GetBeaconOrder f = m_sspecBcnOrder f"

definition SuperframeField_GetFrameOrder :: "SuperframeField \<Rightarrow> u8" where
  [class_defs]: "SuperframeField_GetFrameOrder f = m_sspecSprFrmOrder f"

definition SuperframeField_GetFinalCapSlot :: "SuperframeField \<Rightarrow> u8" where
  [class_defs]: "SuperframeField_GetFinalCapSlot f = m_sspecFnlCapSlot f"

definition SuperframeField_IsBattLifeExt :: "SuperframeField \<Rightarrow> bool" where
  [class_defs]: "SuperframeField_IsBattLifeExt f = m_sspecBatLifeExt f"

definition SuperframeField_IsPanCoor :: "SuperframeField \<Rightarrow> bool" where
  [class_defs]: "SuperframeField_IsPanCoor f = m_sspecPanCoor f"

definition SuperframeField_IsAssocPermit :: "SuperframeField \<Rightarrow> bool" where
  [class_defs]: "SuperframeField_IsAssocPermit f = m_sspecAssocPermit f"

definition SuperframeField_GetSuperframe :: "SuperframeField \<Rightarrow> u16" where
  "SuperframeField_GetSuperframe f = (
     let superframe = ucast ((ucast (m_sspecBcnOrder f) :: cint) AND 0x0F) :: u16;
         superframe = superframe OR ucast (putField (ucast (m_sspecSprFrmOrder f) :: cint) 4 0x0F);
         superframe = superframe OR ucast (putField (ucast (m_sspecFnlCapSlot f) :: cint) 8 0x0F);
         superframe = superframe OR ucast (putField (of_bool (m_sspecBatLifeExt f) :: cint) 12 0x01);
         superframe = superframe OR ucast (putField (of_bool (m_sspecPanCoor f) :: cint) 14 0x01);
         superframe = superframe OR ucast (putField (of_bool (m_sspecAssocPermit f) :: cint) 15 0x01)
     in superframe)"

definition SuperframeField_GetSerializedSize :: "SuperframeField \<Rightarrow> nat" where
  [class_defs]: "SuperframeField_GetSerializedSize f = 2"

definition SuperframeField_Serialize :: "SuperframeField \<Rightarrow> iter \<Rightarrow> iter option" where
  "SuperframeField_Serialize f i = WriteHtolsbU16 (SuperframeField_GetSuperframe f) i"

definition SuperframeField_Deserialize :: "SuperframeField \<Rightarrow> iter \<Rightarrow> (SuperframeField \<times> iter) option" where
  "SuperframeField_Deserialize f i = do {
     (superframe, i) \<leftarrow> ReadLsbtohU16 i;
     Some (SuperframeField_SetSuperframe superframe f, i) }"

text \<open>The range the setters enforce, which is what four bits hold.\<close>

definition superframe_ok :: "SuperframeField \<Rightarrow> bool" where
  "superframe_ok f \<longleftrightarrow> m_sspecBcnOrder f \<le> 15 \<and> m_sspecSprFrmOrder f \<le> 15 \<and> m_sspecFnlCapSlot f \<le> 15"

lemma le15_fits: "(x :: u8) \<le> 15 \<longleftrightarrow> fits 4 x"
  by (simp add: fits_iff word_le_nat_alt less_Suc_eq_le [of _ 15, simplified])

text \<open>Which bits each field is read from, and what the flag bits of the packed word are.\<close>

lemma SuperframeField_unpacked:
  "m_sspecBcnOrder (SuperframeField_SetSuperframe w f) = ucast (take_bit 4 w)"
  "m_sspecSprFrmOrder (SuperframeField_SetSuperframe w f) = ucast (take_bit 4 (drop_bit 4 w))"
  "m_sspecFnlCapSlot (SuperframeField_SetSuperframe w f) = ucast (take_bit 4 (drop_bit 8 w))"
  "m_sspecBatLifeExt (SuperframeField_SetSuperframe w f) = bit w 12"
  "m_sspecPanCoor (SuperframeField_SetSuperframe w f) = bit w 14"
  "m_sspecAssocPermit (SuperframeField_SetSuperframe w f) = bit w 15"
  by (simp_all add: SuperframeField_SetSuperframe_def Let_def getField_1_nonzero bit_ucast_iff)
    (rule bit_word_eqI; auto simp: word_pack dest: bit_imp_le_length)+

lemma SuperframeField_flags:
  "bit (SuperframeField_GetSuperframe f) 12 = m_sspecBatLifeExt f"
  "bit (SuperframeField_GetSuperframe f) 14 = m_sspecPanCoor f"
  "bit (SuperframeField_GetSuperframe f) 15 = m_sspecAssocPermit f"
  "\<not> bit (SuperframeField_GetSuperframe f) 13"
  by (simp_all add: SuperframeField_GetSuperframe_def Let_def word_pack)

lemma SuperframeField_orders:
  assumes "superframe_ok f"
  shows "ucast (take_bit 4 (SuperframeField_GetSuperframe f)) = m_sspecBcnOrder f"
    and "ucast (take_bit 4 (drop_bit 4 (SuperframeField_GetSuperframe f))) = m_sspecSprFrmOrder f"
    and "ucast (take_bit 4 (drop_bit 8 (SuperframeField_GetSuperframe f))) = m_sspecFnlCapSlot f"
  using assms unfolding superframe_ok_def le15_fits SuperframeField_GetSuperframe_def Let_def
  by (rule_tac [!] bit_word_eqI) (auto simp: word_pack dest: fits_bit)

lemma SuperframeField_unpack_pack:
  assumes "superframe_ok f"
  shows "SuperframeField_SetSuperframe (SuperframeField_GetSuperframe f) f0 = f"
  using assms
  by (intro SuperframeField.equality)
    (simp_all add: SuperframeField_unpacked SuperframeField_flags SuperframeField_orders)

text \<open>Unpacking then packing keeps every bit but the reserved one.\<close>

lemma SuperframeField_pack_unpack:
  "SuperframeField_GetSuperframe (SuperframeField_SetSuperframe w f) = unset_bit 13 w"
proof (rule bit_word_eqI)
  fix n assume "n < LENGTH(16)"
  from bit_positions(2) [OF this] show "bit (SuperframeField_GetSuperframe (SuperframeField_SetSuperframe w f)) n = bit (unset_bit 13 w) n"
    by (elim insertE emptyE; simp add: SuperframeField_GetSuperframe_def SuperframeField_unpacked Let_def word_pack)
qed

lemma SuperframeField_setters_ok:
  assumes "superframe_ok f"
  shows "SuperframeField_SetBeaconOrder v f = Some g \<Longrightarrow> superframe_ok g"
    and "SuperframeField_SetSuperframeOrder v f = Some g \<Longrightarrow> superframe_ok g"
    and "SuperframeField_SetFinalCapSlot v f = Some g \<Longrightarrow> superframe_ok g"
    and "superframe_ok (SuperframeField_SetBattLifeExt b f)"
    and "superframe_ok (SuperframeField_SetPanCoor b f)"
    and "superframe_ok (SuperframeField_SetAssocPermit b f)"
  using assms by (auto simp: class_defs superframe_ok_def split: if_splits)

lemma SuperframeField_SetSuperframe_ok: "superframe_ok (SuperframeField_SetSuperframe w f)"
  unfolding superframe_ok_def le15_fits fits_def SuperframeField_unpacked
  by (intro conjI bit_word_eqI) (auto simp: bit_simps)

lemma SuperframeField_new_defaults:
  "SuperframeField_new mem = Some \<lparr>m_sspecBcnOrder = 15, m_sspecSprFrmOrder = 15, m_sspecFnlCapSlot = 0,
     m_sspecBatLifeExt = False, m_sspecPanCoor = False, m_sspecAssocPermit = False\<rparr>"
  by (simp add: SuperframeField_new_def class_defs)

definition SuperframeField_wire :: "SuperframeField \<Rightarrow> u8 list" where
  "SuperframeField_wire f = le16 (SuperframeField_GetSuperframe f)"

lemma SuperframeField_wire_simps [wire_simps]:
  "SuperframeField_Serialize f i = WriteBuf (SuperframeField_wire f) i"
  "superframe_ok f \<Longrightarrow> SuperframeField_Deserialize f0 (d, SuperframeField_wire f @ r) =
     Some (f, (d @ SuperframeField_wire f, r))"
  by (simp_all add: SuperframeField_Serialize_def SuperframeField_Deserialize_def SuperframeField_wire_def
      wire_simps SuperframeField_unpack_pack)

lemma length_SuperframeField_wire [simp]: "length (SuperframeField_wire f) = 2"
  by (simp add: SuperframeField_wire_def)

interpretation superframe: lossless_codec SuperframeField_GetSerializedSize SuperframeField_wire
  SuperframeField_Serialize SuperframeField_Deserialize superframe_ok "\<lambda>_ _. True" "\<lambda>_ f. f"
  by unfold_locales (simp_all add: wire_simps SuperframeField_GetSerializedSize_def)

subsection \<open>DsmeSuperFrameField\<close>

record DsmeSuperFrameField =
  m_sspecMultiSuperframeOrder :: u8
  m_sspecChannelDiversityMode :: bool
  m_sspecGACKFlag :: bool
  m_sspecCAPReductionFlag :: bool
  m_sspecDeferredBcnFlag :: bool

definition DsmeSuperFrameField_SetDsmeSuperframe :: "u16 \<Rightarrow> DsmeSuperFrameField \<Rightarrow> DsmeSuperFrameField" where
  "DsmeSuperFrameField_SetDsmeSuperframe dsmeSuperFrm f = (let w = ucast dsmeSuperFrm :: cint in f\<lparr>
     m_sspecMultiSuperframeOrder := ucast (w AND 0x0F),
     m_sspecChannelDiversityMode := getField w 4 0x01 \<noteq> 0,
     m_sspecGACKFlag := getField w 5 0x01 \<noteq> 0,
     m_sspecCAPReductionFlag := getField w 6 0x01 \<noteq> 0,
     m_sspecDeferredBcnFlag := getField w 7 0x01 \<noteq> 0\<rparr>)"

definition DsmeSuperFrameField_SetMultiSuperframeOrder :: "u8 \<Rightarrow> DsmeSuperFrameField \<Rightarrow> DsmeSuperFrameField" where
  [class_defs]: "DsmeSuperFrameField_SetMultiSuperframeOrder multiBcnOrder f = f\<lparr>m_sspecMultiSuperframeOrder := multiBcnOrder\<rparr>"

definition DsmeSuperFrameField_SetChannelDiversityMode :: "bool \<Rightarrow> DsmeSuperFrameField \<Rightarrow> DsmeSuperFrameField" where
  [class_defs]: "DsmeSuperFrameField_SetChannelDiversityMode channelDiversityMode f = f\<lparr>m_sspecChannelDiversityMode := channelDiversityMode\<rparr>"

definition DsmeSuperFrameField_SetGACKFlag :: "bool \<Rightarrow> DsmeSuperFrameField \<Rightarrow> DsmeSuperFrameField" where
  [class_defs]: "DsmeSuperFrameField_SetGACKFlag gACKFlag f = f\<lparr>m_sspecGACKFlag := gACKFlag\<rparr>"

definition DsmeSuperFrameField_SetCAPReductionFlag :: "bool \<Rightarrow> DsmeSuperFrameField \<Rightarrow> DsmeSuperFrameField" where
  [class_defs]: "DsmeSuperFrameField_SetCAPReductionFlag cAPReduction f = f\<lparr>m_sspecCAPReductionFlag := cAPReduction\<rparr>"

definition DsmeSuperFrameField_SetDeferredBeaconFalg :: "bool \<Rightarrow> DsmeSuperFrameField \<Rightarrow> DsmeSuperFrameField" where
  [class_defs]: "DsmeSuperFrameField_SetDeferredBeaconFalg deferredBcnFlag f = f\<lparr>m_sspecDeferredBcnFlag := deferredBcnFlag\<rparr>"

definition DsmeSuperFrameField_new :: "DsmeSuperFrameField \<Rightarrow> DsmeSuperFrameField" where
  "DsmeSuperFrameField_new mem = (
     let f = DsmeSuperFrameField_SetMultiSuperframeOrder 14 mem;
         f = DsmeSuperFrameField_SetChannelDiversityMode False f;
         f = DsmeSuperFrameField_SetGACKFlag False f;
         f = DsmeSuperFrameField_SetCAPReductionFlag False f
     in DsmeSuperFrameField_SetDeferredBeaconFalg False f)"

definition DsmeSuperFrameField_GetDsmeSuperframe :: "DsmeSuperFrameField \<Rightarrow> u8" where
  "DsmeSuperFrameField_GetDsmeSuperframe f = (
     let superframe = ucast ((ucast (m_sspecMultiSuperframeOrder f) :: cint) AND 0x0F) :: u8;
         superframe = superframe OR ucast (putField (of_bool (m_sspecChannelDiversityMode f) :: cint) 4 0x01);
         superframe = superframe OR ucast (putField (of_bool (m_sspecGACKFlag f) :: cint) 5 0x01);
         superframe = superframe OR ucast (putField (of_bool (m_sspecCAPReductionFlag f) :: cint) 6 0x01);
         superframe = superframe OR ucast (putField (of_bool (m_sspecDeferredBcnFlag f) :: cint) 7 0x01)
     in superframe)"

definition DsmeSuperFrameField_GetMultiSuperframeOrder :: "DsmeSuperFrameField \<Rightarrow> u8" where
  [class_defs]: "DsmeSuperFrameField_GetMultiSuperframeOrder f = m_sspecMultiSuperframeOrder f"

definition DsmeSuperFrameField_GetChannelDiversityMode :: "DsmeSuperFrameField \<Rightarrow> bool" where
  [class_defs]: "DsmeSuperFrameField_GetChannelDiversityMode f = m_sspecChannelDiversityMode f"

definition DsmeSuperFrameField_GetGACKFlag :: "DsmeSuperFrameField \<Rightarrow> bool" where
  [class_defs]: "DsmeSuperFrameField_GetGACKFlag f = m_sspecGACKFlag f"

definition DsmeSuperFrameField_GetCAPReductionFlag :: "DsmeSuperFrameField \<Rightarrow> bool" where
  [class_defs]: "DsmeSuperFrameField_GetCAPReductionFlag f = m_sspecCAPReductionFlag f"

definition DsmeSuperFrameField_GetDeferredBeaconFalg :: "DsmeSuperFrameField \<Rightarrow> bool" where
  [class_defs]: "DsmeSuperFrameField_GetDeferredBeaconFalg f = m_sspecDeferredBcnFlag f"

definition DsmeSuperFrameField_GetSerializedSize :: "DsmeSuperFrameField \<Rightarrow> nat" where
  [class_defs]: "DsmeSuperFrameField_GetSerializedSize f = 1"

definition DsmeSuperFrameField_Serialize :: "DsmeSuperFrameField \<Rightarrow> iter \<Rightarrow> iter option" where
  "DsmeSuperFrameField_Serialize f i = WriteU8 (DsmeSuperFrameField_GetDsmeSuperframe f) i"

definition DsmeSuperFrameField_Deserialize :: "DsmeSuperFrameField \<Rightarrow> iter \<Rightarrow> (DsmeSuperFrameField \<times> iter) option" where
  "DsmeSuperFrameField_Deserialize f i = do {
     (superframe, i) \<leftarrow> ReadU8 i;
     Some (DsmeSuperFrameField_SetDsmeSuperframe (ucast superframe) f, i) }"

text \<open>
  No setter checks the multi-superframe order, but only four bits of it travel: a value above
  15 comes back reduced modulo 16.
\<close>

lemma DsmeSuperFrameField_unpacked:
  "m_sspecMultiSuperframeOrder (DsmeSuperFrameField_SetDsmeSuperframe w f) = ucast (take_bit 4 w)"
  "m_sspecChannelDiversityMode (DsmeSuperFrameField_SetDsmeSuperframe w f) = bit w 4"
  "m_sspecGACKFlag (DsmeSuperFrameField_SetDsmeSuperframe w f) = bit w 5"
  "m_sspecCAPReductionFlag (DsmeSuperFrameField_SetDsmeSuperframe w f) = bit w 6"
  "m_sspecDeferredBcnFlag (DsmeSuperFrameField_SetDsmeSuperframe w f) = bit w 7"
  by (simp_all add: DsmeSuperFrameField_SetDsmeSuperframe_def Let_def getField_1_nonzero bit_ucast_iff)
    (rule bit_word_eqI; auto simp: word_pack dest: bit_imp_le_length)

lemma DsmeSuperFrameField_flags:
  "bit (DsmeSuperFrameField_GetDsmeSuperframe f) 4 = m_sspecChannelDiversityMode f"
  "bit (DsmeSuperFrameField_GetDsmeSuperframe f) 5 = m_sspecGACKFlag f"
  "bit (DsmeSuperFrameField_GetDsmeSuperframe f) 6 = m_sspecCAPReductionFlag f"
  "bit (DsmeSuperFrameField_GetDsmeSuperframe f) 7 = m_sspecDeferredBcnFlag f"
  by (simp_all add: DsmeSuperFrameField_GetDsmeSuperframe_def Let_def word_pack)

lemma DsmeSuperFrameField_order:
  "take_bit 4 (DsmeSuperFrameField_GetDsmeSuperframe f) = take_bit 4 (m_sspecMultiSuperframeOrder f)"
  unfolding DsmeSuperFrameField_GetDsmeSuperframe_def Let_def
  by (rule bit_word_eqI) (auto simp: word_pack)

lemma DsmeSuperFrameField_unpack_pack:
  "DsmeSuperFrameField_SetDsmeSuperframe (ucast (DsmeSuperFrameField_GetDsmeSuperframe f)) f0 =
     f\<lparr>m_sspecMultiSuperframeOrder := take_bit 4 (m_sspecMultiSuperframeOrder f)\<rparr>"
proof -
  have "ucast (take_bit 4 (ucast x :: u16)) = take_bit 4 x" for x :: u8
    by (rule bit_word_eqI) (auto simp: bit_simps)
  then show ?thesis
    by (intro DsmeSuperFrameField.equality)
      (simp_all add: DsmeSuperFrameField_unpacked DsmeSuperFrameField_flags DsmeSuperFrameField_order bit_ucast_iff)
qed

definition DsmeSuperFrameField_wire :: "DsmeSuperFrameField \<Rightarrow> u8 list" where
  "DsmeSuperFrameField_wire f = [DsmeSuperFrameField_GetDsmeSuperframe f]"

definition dsme_superframe_ok :: "DsmeSuperFrameField \<Rightarrow> bool" where
  "dsme_superframe_ok f \<longleftrightarrow> m_sspecMultiSuperframeOrder f \<le> 15"

lemma DsmeSuperFrameField_wire_simps [wire_simps]:
  "DsmeSuperFrameField_Serialize f i = WriteBuf (DsmeSuperFrameField_wire f) i"
  "dsme_superframe_ok f \<Longrightarrow> DsmeSuperFrameField_Deserialize f0 (d, DsmeSuperFrameField_wire f @ r) =
     Some (f, (d @ DsmeSuperFrameField_wire f, r))"
  by (simp_all add: DsmeSuperFrameField_Serialize_def DsmeSuperFrameField_Deserialize_def
      DsmeSuperFrameField_wire_def wire_simps DsmeSuperFrameField_unpack_pack dsme_superframe_ok_def
      le15_fits fits_def)

lemma length_DsmeSuperFrameField_wire [simp]: "length (DsmeSuperFrameField_wire f) = 1"
  by (simp add: DsmeSuperFrameField_wire_def)

interpretation dsme_superframe: lossless_codec DsmeSuperFrameField_GetSerializedSize
  DsmeSuperFrameField_wire DsmeSuperFrameField_Serialize DsmeSuperFrameField_Deserialize
  dsme_superframe_ok "\<lambda>_ _. True" "\<lambda>_ f. f"
  by unfold_locales (simp_all add: wire_simps DsmeSuperFrameField_GetSerializedSize_def)

subsection \<open>CapabilityField\<close>

record CapabilityField =
  m_deviceType :: bool
  m_powerSource :: bool
  m_receiverOnWhenIdle :: bool
  m_associationType :: bool
  m_securityCap :: bool
  m_allocAddr :: bool

text \<open>The constructor leaves \<open>m_associationType\<close> as the memory held it.\<close>

definition CapabilityField_new :: "CapabilityField \<Rightarrow> CapabilityField" where
  "CapabilityField_new mem = mem\<lparr>m_deviceType := True, m_powerSource := False,
     m_receiverOnWhenIdle := True, m_securityCap := False, m_allocAddr := True\<rparr>"

definition CapabilityField_GetSerializedSize :: "CapabilityField \<Rightarrow> nat" where
  [class_defs]: "CapabilityField_GetSerializedSize f = 1"

definition capability_octet :: "CapabilityField \<Rightarrow> u8" where
  "capability_octet f = (
     let capability = 0 :: u8;
         capability = ucast (putField (of_bool (m_deviceType f) :: cint) 1 0x01);
         capability = capability OR ucast (putField (of_bool (m_powerSource f) :: cint) 2 0x01);
         capability = capability OR ucast (putField (of_bool (m_receiverOnWhenIdle f) :: cint) 3 0x01);
         capability = capability OR ucast (putField (of_bool (m_associationType f) :: cint) 4 0x01);
         capability = capability OR ucast (putField (of_bool (m_securityCap f) :: cint) 6 0x01);
         capability = capability OR ucast (putField (of_bool (m_allocAddr f) :: cint) 7 0x01)
     in capability)"

definition CapabilityField_Serialize :: "CapabilityField \<Rightarrow> iter \<Rightarrow> iter option" where
  "CapabilityField_Serialize f i = WriteU8 (capability_octet f) i"

definition CapabilityField_Deserialize :: "CapabilityField \<Rightarrow> iter \<Rightarrow> (CapabilityField \<times> iter) option" where
  "CapabilityField_Deserialize f i = do {
     (capability, i) \<leftarrow> ReadU8 i;
     let w = (ucast capability :: cint);
     Some (f\<lparr>
       m_deviceType := getField w 1 0x01 \<noteq> 0,
       m_powerSource := getField w 2 0x01 \<noteq> 0,
       m_receiverOnWhenIdle := getField w 3 0x01 \<noteq> 0,
       m_associationType := getField w 4 0x01 \<noteq> 0,
       m_securityCap := getField w 6 0x01 \<noteq> 0,
       m_allocAddr := getField w 7 0x01 \<noteq> 0\<rparr>, i) }"

definition CapabilityField_IsDeviceTypeFfd :: "CapabilityField \<Rightarrow> bool" where
  [class_defs]: "CapabilityField_IsDeviceTypeFfd f = m_deviceType f"

definition CapabilityField_IsPowSrcAvailable :: "CapabilityField \<Rightarrow> bool" where
  [class_defs]: "CapabilityField_IsPowSrcAvailable f = m_powerSource f"

definition CapabilityField_IsReceiverOnWhenIdle :: "CapabilityField \<Rightarrow> bool" where
  [class_defs]: "CapabilityField_IsReceiverOnWhenIdle f = m_receiverOnWhenIdle f"

definition CapabilityField_IsSecurityCapability :: "CapabilityField \<Rightarrow> bool" where
  [class_defs]: "CapabilityField_IsSecurityCapability f = m_securityCap f"

definition CapabilityField_IsShortAddrAllocOn :: "CapabilityField \<Rightarrow> bool" where
  [class_defs]: "CapabilityField_IsShortAddrAllocOn f = m_allocAddr f"

definition CapabilityField_IsFastAOn :: "CapabilityField \<Rightarrow> bool" where
  [class_defs]: "CapabilityField_IsFastAOn f = m_associationType f"

definition CapabilityField_SetFfdDevice :: "bool \<Rightarrow> CapabilityField \<Rightarrow> CapabilityField" where
  [class_defs]: "CapabilityField_SetFfdDevice devType f = f\<lparr>m_deviceType := devType\<rparr>"

definition CapabilityField_SetPowSrcAvailable :: "bool \<Rightarrow> CapabilityField \<Rightarrow> CapabilityField" where
  [class_defs]: "CapabilityField_SetPowSrcAvailable pow f = f\<lparr>m_powerSource := pow\<rparr>"

definition CapabilityField_SetRxOnWhenIdle :: "bool \<Rightarrow> CapabilityField \<Rightarrow> CapabilityField" where
  [class_defs]: "CapabilityField_SetRxOnWhenIdle rxIdle f = f\<lparr>m_receiverOnWhenIdle := rxIdle\<rparr>"

definition CapabilityField_SetSecurityCap :: "bool \<Rightarrow> CapabilityField \<Rightarrow> CapabilityField" where
  [class_defs]: "CapabilityField_SetSecurityCap sec f = f\<lparr>m_securityCap := sec\<rparr>"

definition CapabilityField_SetShortAddrAllocOn :: "bool \<Rightarrow> CapabilityField \<Rightarrow> CapabilityField" where
  [class_defs]: "CapabilityField_SetShortAddrAllocOn addrAlloc f = f\<lparr>m_allocAddr := addrAlloc\<rparr>"

definition CapabilityField_SetFastAOn :: "CapabilityField \<Rightarrow> CapabilityField" where
  [class_defs]: "CapabilityField_SetFastAOn f = f\<lparr>m_associationType := True\<rparr>"

definition CapabilityField_SetFastAOff :: "CapabilityField \<Rightarrow> CapabilityField" where
  [class_defs]: "CapabilityField_SetFastAOff f = f\<lparr>m_associationType := False\<rparr>"

lemma capability_flags:
  "bit (capability_octet f) 1 = m_deviceType f"
  "bit (capability_octet f) 2 = m_powerSource f"
  "bit (capability_octet f) 3 = m_receiverOnWhenIdle f"
  "bit (capability_octet f) 4 = m_associationType f"
  "bit (capability_octet f) 6 = m_securityCap f"
  "bit (capability_octet f) 7 = m_allocAddr f"
  by (simp_all add: capability_octet_def Let_def word_pack)

definition CapabilityField_wire :: "CapabilityField \<Rightarrow> u8 list" where
  "CapabilityField_wire f = [capability_octet f]"

lemma CapabilityField_wire_simps [wire_simps]:
  "CapabilityField_Serialize f i = WriteBuf (CapabilityField_wire f) i"
  "CapabilityField_Deserialize f0 (d, CapabilityField_wire f @ r) = Some (f, (d @ CapabilityField_wire f, r))"
  by (cases f; cases f0; simp add: CapabilityField_Serialize_def CapabilityField_Deserialize_def
      CapabilityField_wire_def wire_simps getField_1_nonzero bit_ucast_iff capability_flags
      capability_flags(1) [unfolded One_nat_def] Let_def)+

lemma length_CapabilityField_wire [simp]: "length (CapabilityField_wire f) = 1"
  by (simp add: CapabilityField_wire_def)

interpretation capability: lossless_codec CapabilityField_GetSerializedSize CapabilityField_wire
  CapabilityField_Serialize CapabilityField_Deserialize "\<lambda>_. True" "\<lambda>_ _. True" "\<lambda>_ f. f"
  by unfold_locales (simp_all add: wire_simps CapabilityField_GetSerializedSize_def)

end
