(* ===== verification/Address_Fields.thy ===== *)
theory Address_Fields
  imports Superframe_Fields
begin

section \<open>GTS fields and pending address fields\<close>

text \<open>
  The two variable-length fields of a beacon (\<open>lr-wpan-fields\<close>): \<open>GtsFields\<close> (a count, the
  direction mask and up to seven GTS descriptors) and \<open>PendingAddrFields\<close> (the counts and
  lists of the short and extended addresses data is pending for). A C++ array of seven
  elements is a list of length 7; a loop that would leave it is \<open>None\<close>.
\<close>

subsection \<open>GtsFields\<close>

record gtsDescriptor =
  m_gtsDescDevShortAddr :: mac16
  m_gtsDescStartSlot :: u8
  m_gtsDescLength :: u8

record GtsFields =
  m_gtsSpecDescCount :: u8
  m_gtsSpecPermit :: u8
  m_gtsDirMask :: u8
  m_gtsList :: "gtsDescriptor list"

definition GtsFields_new :: "GtsFields \<Rightarrow> GtsFields" where
  "GtsFields_new mem = mem\<lparr>m_gtsSpecDescCount := 0, m_gtsSpecPermit := 0, m_gtsDirMask := 0\<rparr>"

definition GtsFields_GetGtsSpecField :: "GtsFields \<Rightarrow> u8" where
  "GtsFields_GetGtsSpecField f = (
     let gtsSpecField = ucast ((ucast (m_gtsSpecDescCount f) :: cint) AND 0x07) :: u8
     in gtsSpecField OR ucast (putField (ucast (m_gtsSpecPermit f) :: cint) 7 0x01))"

definition GtsFields_GetGtsDirectionField :: "GtsFields \<Rightarrow> u8" where
  "GtsFields_GetGtsDirectionField f = ucast ((ucast (m_gtsDirMask f) :: cint) AND 0x7F)"

definition GtsFields_SetGtsSpecField :: "u8 \<Rightarrow> GtsFields \<Rightarrow> GtsFields" where
  "GtsFields_SetGtsSpecField gtsSpec f = (let w = ucast gtsSpec :: cint in f\<lparr>
     m_gtsSpecDescCount := ucast (w AND 0x07),
     m_gtsSpecPermit := ucast (getField w 7 0x01)\<rparr>)"

definition GtsFields_SetGtsDirectionField :: "u8 \<Rightarrow> GtsFields \<Rightarrow> GtsFields" where
  "GtsFields_SetGtsDirectionField gtsDir f = f\<lparr>m_gtsDirMask := ucast ((ucast gtsDir :: cint) AND 0x7F)\<rparr>"

definition GtsFields_GetGtsPermit :: "GtsFields \<Rightarrow> bool" where
  [class_defs]: "GtsFields_GetGtsPermit f \<longleftrightarrow> m_gtsSpecPermit f \<noteq> 0"

definition GtsFields_GetSerializedSize :: "GtsFields \<Rightarrow> nat" where
  "GtsFields_GetSerializedSize f = (
     let size = 1
     in if m_gtsSpecDescCount f > 0 then size + 1 + unat (m_gtsSpecDescCount f) * 3 else size)"

text \<open>The octet that holds a descriptor's starting slot and length.\<close>

definition gts_start_and_length :: "gtsDescriptor \<Rightarrow> u8" where
  "gts_start_and_length g =
     ucast (((ucast (m_gtsDescStartSlot g) :: cint) AND 0x0F) OR ((ucast (m_gtsDescLength g) :: cint) AND 0xF0))"

definition gtsDescriptor_write :: "gtsDescriptor \<Rightarrow> iter \<Rightarrow> iter option" where
  "gtsDescriptor_write g i = do {
     i \<leftarrow> WriteTo_Mac16 (m_gtsDescDevShortAddr g) i;
     WriteU8 (gts_start_and_length g) i }"

definition gtsDescriptor_read :: "iter \<Rightarrow> (gtsDescriptor \<times> iter) option" where
  "gtsDescriptor_read i = do {
     (addr, i) \<leftarrow> ReadFrom_Mac16 i;
     (b, i) \<leftarrow> ReadU8 i;
     let w = (ucast b :: cint);
     Some (\<lparr>m_gtsDescDevShortAddr = addr, m_gtsDescStartSlot = ucast (w AND 0x0F),
            m_gtsDescLength = ucast (getField w 4 0x0F)\<rparr>, i) }"

definition GtsFields_Serialize :: "GtsFields \<Rightarrow> iter \<Rightarrow> iter option" where
  "GtsFields_Serialize f i = do {
     i \<leftarrow> WriteU8 (GtsFields_GetGtsSpecField f) i;
     if m_gtsSpecDescCount f > 0 then do {
       i \<leftarrow> WriteU8 (GtsFields_GetGtsDirectionField f) i;
       descs \<leftarrow> firstN (unat (m_gtsSpecDescCount f)) (m_gtsList f);
       WriteAll gtsDescriptor_write descs i }
     else Some i }"

definition GtsFields_Deserialize :: "GtsFields \<Rightarrow> iter \<Rightarrow> (GtsFields \<times> iter) option" where
  "GtsFields_Deserialize f i = do {
     (gtsSpecField, i) \<leftarrow> ReadU8 i;
     let f = GtsFields_SetGtsSpecField gtsSpecField f;
     if m_gtsSpecDescCount f > 0 then do {
       (gtsDirectionField, i) \<leftarrow> ReadU8 i;
       let f = GtsFields_SetGtsDirectionField gtsDirectionField f;
       let n = unat (m_gtsSpecDescCount f);
       (descs, i) \<leftarrow> ReadMany n gtsDescriptor_read i;
       Some (f\<lparr>m_gtsList := descs @ drop n (m_gtsList f)\<rparr>, i) }
     else Some (f, i) }"

text \<open>
  The array has seven elements and the counts are within their bit fields. The written
  length nibble is the upper half of \<open>m_gtsDescLength\<close>, the read one is put in the lower
  half: \<open>gts_read_back\<close> is what arrives.
\<close>

definition gts_ok :: "GtsFields \<Rightarrow> bool" where
  "gts_ok f \<longleftrightarrow> fits 3 (m_gtsSpecDescCount f) \<and> fits 1 (m_gtsSpecPermit f) \<and> fits 7 (m_gtsDirMask f)
     \<and> length (m_gtsList f) = 7"

definition gts_read_back :: "gtsDescriptor \<Rightarrow> gtsDescriptor" where
  "gts_read_back g = g\<lparr>m_gtsDescStartSlot := take_bit 4 (m_gtsDescStartSlot g),
     m_gtsDescLength := drop_bit 4 (m_gtsDescLength g)\<rparr>"

lemma gts_start_and_length_nibbles:
  "ucast (take_bit 4 (ucast (gts_start_and_length g) :: cint)) = take_bit 4 (m_gtsDescStartSlot g)"
  "ucast (take_bit 4 (drop_bit 4 (ucast (gts_start_and_length g) :: cint))) = drop_bit 4 (m_gtsDescLength g)"
proof -
  have F0: "(0xF0 :: cint) = push_bit 4 (mask 4)"
    by (simp add: mask_eq_exp_minus_1)
  show "ucast (take_bit 4 (ucast (gts_start_and_length g) :: cint)) = take_bit 4 (m_gtsDescStartSlot g)"
    unfolding gts_start_and_length_def F0 by (rule bit_word_eqI) (auto simp: word_pack)
  show "ucast (take_bit 4 (drop_bit 4 (ucast (gts_start_and_length g) :: cint))) = drop_bit 4 (m_gtsDescLength g)"
    unfolding gts_start_and_length_def F0
    by (rule bit_word_eqI) (auto simp: word_pack dest: bit_imp_le_length)
qed

definition gtsDescriptor_wire :: "gtsDescriptor \<Rightarrow> u8 list" where
  "gtsDescriptor_wire g = octets16 (m_gtsDescDevShortAddr g) @ [gts_start_and_length g]"

lemma gtsDescriptor_wire_simps [wire_simps]:
  "gtsDescriptor_write g i = WriteBuf (gtsDescriptor_wire g) i"
  "gtsDescriptor_read (d, gtsDescriptor_wire g @ r) = Some (gts_read_back g, (d @ gtsDescriptor_wire g, r))"
proof -
  show "gtsDescriptor_write g i = WriteBuf (gtsDescriptor_wire g) i"
    by (simp add: gtsDescriptor_write_def gtsDescriptor_wire_def wire_simps)
  show "gtsDescriptor_read (d, gtsDescriptor_wire g @ r) = Some (gts_read_back g, (d @ gtsDescriptor_wire g, r))"
    by (simp add: gtsDescriptor_read_def gtsDescriptor_wire_def gts_read_back_def wire_simps Let_def
        getField_def and_mask gts_start_and_length_nibbles gtsDescriptor.defs)
qed

definition GtsFields_wire :: "GtsFields \<Rightarrow> u8 list" where
  "GtsFields_wire f = GtsFields_GetGtsSpecField f # (if m_gtsSpecDescCount f = 0 then []
     else GtsFields_GetGtsDirectionField f #
       concat (map gtsDescriptor_wire (take (unat (m_gtsSpecDescCount f)) (m_gtsList f))))"

definition gts_rebuilt :: "GtsFields \<Rightarrow> GtsFields \<Rightarrow> GtsFields" where
  "gts_rebuilt f0 f = (let n = unat (m_gtsSpecDescCount f) in
     \<lparr>m_gtsSpecDescCount = m_gtsSpecDescCount f, m_gtsSpecPermit = m_gtsSpecPermit f,
      m_gtsDirMask = (if n = 0 then m_gtsDirMask f0 else m_gtsDirMask f),
      m_gtsList = map gts_read_back (take n (m_gtsList f)) @ drop n (m_gtsList f0)\<rparr>)"

lemma gts_spec_field:
  assumes "fits 3 (m_gtsSpecDescCount f)" and "fits 1 (m_gtsSpecPermit f)"
  shows "GtsFields_SetGtsSpecField (GtsFields_GetGtsSpecField f) f0 =
    f0\<lparr>m_gtsSpecDescCount := m_gtsSpecDescCount f, m_gtsSpecPermit := m_gtsSpecPermit f\<rparr>"
proof -
  let ?w = "ucast (GtsFields_GetGtsSpecField f) :: cint"
  have "ucast (?w AND 0x07) = m_gtsSpecDescCount f"
    unfolding GtsFields_GetGtsSpecField_def Let_def
    by (rule bit_word_eqI) (use assms in \<open>auto simp: word_pack dest: fits_bit\<close>)
  moreover have "bit ?w 7 \<longleftrightarrow> bit (m_gtsSpecPermit f) 0"
    unfolding GtsFields_GetGtsSpecField_def Let_def by (simp add: bit_putField_flag bit_simps and_mask)
  then have "ucast (getField ?w 7 0x01) = m_gtsSpecPermit f"
    using fits_1_flag [OF assms(2)]
    by (cases "bit (m_gtsSpecPermit f) 0") (auto simp: getField_flag)
  ultimately show ?thesis by (simp add: GtsFields_SetGtsSpecField_def Let_def)
qed

lemma gts_direction_field:
  "fits 7 (m_gtsDirMask f) \<Longrightarrow>
   GtsFields_SetGtsDirectionField (GtsFields_GetGtsDirectionField f) f0 = f0\<lparr>m_gtsDirMask := m_gtsDirMask f\<rparr>"
proof -
  assume fit: "fits 7 (m_gtsDirMask f)"
  have "ucast ((ucast (ucast ((ucast (m_gtsDirMask f) :: cint) AND 0x7F) :: u8) :: cint) AND 0x7F) = m_gtsDirMask f"
    by (rule bit_word_eqI) (use fit in \<open>auto simp: word_pack dest: fits_bit\<close>)
  then show ?thesis
    by (simp only: GtsFields_SetGtsDirectionField_def GtsFields_GetGtsDirectionField_def)
qed

lemma gts_count: "gts_ok f \<Longrightarrow> unat (m_gtsSpecDescCount f) \<le> 7"
  by (simp add: gts_ok_def fits_iff)

lemma ReadMany_gts:
  "n = length gs \<Longrightarrow> ReadMany n gtsDescriptor_read (d, concat (map gtsDescriptor_wire gs) @ r) =
     Some (map gts_read_back gs, (d @ concat (map gtsDescriptor_wire gs), r))"
  by (induction gs arbitrary: d n) (simp_all add: wire_simps)

lemma length_gts_wire:
  "length (concat (map gtsDescriptor_wire gs)) = 3 * length gs"
  by (induction gs) (simp_all add: gtsDescriptor_wire_def)

lemma GtsFields_wire_simps [wire_simps]:
  "gts_ok f \<Longrightarrow> GtsFields_Serialize f i = WriteBuf (GtsFields_wire f) i"
  "gts_ok f \<Longrightarrow> GtsFields_Deserialize f0 (d, GtsFields_wire f @ r) =
     Some (gts_rebuilt f0 f, (d @ GtsFields_wire f, r))"
proof -
  assume ok: "gts_ok f"
  then have fit: "fits 3 (m_gtsSpecDescCount f)" "fits 1 (m_gtsSpecPermit f)" "fits 7 (m_gtsDirMask f)"
    and n: "unat (m_gtsSpecDescCount f) \<le> length (m_gtsList f)"
    using gts_count [OF ok] by (simp_all add: gts_ok_def)
  show "GtsFields_Serialize f i = WriteBuf (GtsFields_wire f) i"
    using n by (simp add: GtsFields_Serialize_def GtsFields_wire_def wire_simps firstN_le
        WriteAll_WriteBuf [where g = gtsDescriptor_wire] word_neq_0_conv [symmetric])
  show "GtsFields_Deserialize f0 (d, GtsFields_wire f @ r) = Some (gts_rebuilt f0 f, (d @ GtsFields_wire f, r))"
    using n by (cases f0) (simp add: GtsFields_Deserialize_def GtsFields_wire_def wire_simps ReadMany_gts
        gts_spec_field [OF fit(1,2)] gts_direction_field [OF fit(3)] gts_rebuilt_def Let_def
        word_neq_0_conv [symmetric] GtsFields.defs unat_eq_zero)
qed

lemma length_GtsFields_wire:
  "gts_ok f \<Longrightarrow> length (GtsFields_wire f) = GtsFields_GetSerializedSize f"
  using gts_count [of f]
  by (simp add: GtsFields_wire_def GtsFields_GetSerializedSize_def length_gts_wire gts_ok_def
      word_neq_0_conv [symmetric])

interpretation gts: header_codec GtsFields_GetSerializedSize GtsFields_wire GtsFields_Serialize
  GtsFields_Deserialize gts_ok "\<lambda>_ _. True" gts_rebuilt
  by unfold_locales (simp_all add: wire_simps length_GtsFields_wire)

lemma GtsFields_new_ok:
  "length (m_gtsList mem) = 7 \<Longrightarrow> gts_ok (GtsFields_new mem)"
  by (simp add: gts_ok_def GtsFields_new_def fits_def)

text \<open>A descriptor that has been received once loses its length when it is sent on.\<close>

lemma gts_read_back_twice:
  "m_gtsDescLength (gts_read_back (gts_read_back g)) = 0"
  by (simp add: gts_read_back_def drop_bit_drop_bit)

subsection \<open>PendingAddrFields\<close>

record PendingAddrFields =
  m_pndAddrSpecNumShortAddr :: u8
  m_pndAddrSpecNumExtAddr :: u8
  m_shortAddrList :: "mac16 list"
  m_extAddrList :: "mac64 list"

definition PendingAddrFields_new :: "PendingAddrFields \<Rightarrow> PendingAddrFields" where
  "PendingAddrFields_new mem = mem\<lparr>m_pndAddrSpecNumShortAddr := 0, m_pndAddrSpecNumExtAddr := 0\<rparr>"

definition PendingAddrFields_GetNumShortAddr :: "PendingAddrFields \<Rightarrow> u8" where
  [class_defs]: "PendingAddrFields_GetNumShortAddr f = m_pndAddrSpecNumShortAddr f"

definition PendingAddrFields_GetNumExtAddr :: "PendingAddrFields \<Rightarrow> u8" where
  [class_defs]: "PendingAddrFields_GetNumExtAddr f = m_pndAddrSpecNumExtAddr f"

definition PendingAddrFields_GetPndAddrSpecField :: "PendingAddrFields \<Rightarrow> u8" where
  "PendingAddrFields_GetPndAddrSpecField f = (
     let pndAddrSpecField = ucast ((ucast (m_pndAddrSpecNumShortAddr f) :: cint) AND 0x07) :: u8
     in pndAddrSpecField OR ucast (putField (ucast (m_pndAddrSpecNumExtAddr f) :: cint) 4 0x07))"

definition setAt :: "nat \<Rightarrow> 'a \<Rightarrow> 'a list \<Rightarrow> 'a list option" where
  "setAt k x xs = (if k < length xs then Some (xs[k := x]) else None)"

definition PendingAddrFields_AddShort :: "mac16 \<Rightarrow> PendingAddrFields \<Rightarrow> PendingAddrFields option" where
  "PendingAddrFields_AddShort shortAddr f = (
     let totalPendAddr = m_pndAddrSpecNumShortAddr f + m_pndAddrSpecNumExtAddr f in
     if totalPendAddr = 7 then Some f
     else do {
       xs \<leftarrow> setAt (unat (m_pndAddrSpecNumShortAddr f)) shortAddr (m_shortAddrList f);
       Some (f\<lparr>m_shortAddrList := xs, m_pndAddrSpecNumShortAddr := m_pndAddrSpecNumShortAddr f + 1\<rparr>) })"

definition PendingAddrFields_AddExt :: "mac64 \<Rightarrow> PendingAddrFields \<Rightarrow> PendingAddrFields option" where
  "PendingAddrFields_AddExt extAddr f = (
     let totalPendAddr = m_pndAddrSpecNumShortAddr f + m_pndAddrSpecNumExtAddr f in
     if totalPendAddr = 7 then Some f
     else do {
       xs \<leftarrow> setAt (unat (m_pndAddrSpecNumExtAddr f)) extAddr (m_extAddrList f);
       Some (f\<lparr>m_extAddrList := xs, m_pndAddrSpecNumExtAddr := m_pndAddrSpecNumExtAddr f + 1\<rparr>) })"

text \<open>The search loop of \<open>SearchAddress\<close>: the first \<open>n\<close> elements, stopping at a hit.\<close>

fun searchFirst :: "nat \<Rightarrow> 'a \<Rightarrow> 'a list \<Rightarrow> bool option" where
  "searchFirst 0 a xs = Some False"
| "searchFirst (Suc n) a [] = None"
| "searchFirst (Suc n) a (x # xs) = (if a = x then Some True else searchFirst n a xs)"

definition PendingAddrFields_SearchShort :: "mac16 \<Rightarrow> PendingAddrFields \<Rightarrow> bool option" where
  "PendingAddrFields_SearchShort shortAddr f =
     searchFirst (unat (m_pndAddrSpecNumShortAddr f)) shortAddr (m_shortAddrList f)"

definition PendingAddrFields_SearchExt :: "mac64 \<Rightarrow> PendingAddrFields \<Rightarrow> bool option" where
  "PendingAddrFields_SearchExt extAddr f =
     searchFirst (unat (m_pndAddrSpecNumExtAddr f)) extAddr (m_extAddrList f)"

definition PendingAddrFields_SetNumOfShortAdrr :: "u8 \<Rightarrow> PendingAddrFields \<Rightarrow> PendingAddrFields" where
  [class_defs]: "PendingAddrFields_SetNumOfShortAdrr num f = f\<lparr>m_pndAddrSpecNumShortAddr := num\<rparr>"

definition PendingAddrFields_SetNumOfExtAdrr :: "u8 \<Rightarrow> PendingAddrFields \<Rightarrow> PendingAddrFields" where
  [class_defs]: "PendingAddrFields_SetNumOfExtAdrr num f = f\<lparr>m_pndAddrSpecNumExtAddr := num\<rparr>"

definition PendingAddrFields_SetPndAddrSpecField :: "u8 \<Rightarrow> PendingAddrFields \<Rightarrow> PendingAddrFields" where
  "PendingAddrFields_SetPndAddrSpecField pndAddrSpecField f = (let w = ucast pndAddrSpecField :: cint in f\<lparr>
     m_pndAddrSpecNumShortAddr := ucast (w AND 0x07),
     m_pndAddrSpecNumExtAddr := ucast (getField w 4 0x07)\<rparr>)"

definition PendingAddrFields_GetSerializedSize :: "PendingAddrFields \<Rightarrow> nat" where
  "PendingAddrFields_GetSerializedSize f = (
     let size = 1;
         size = size + unat (m_pndAddrSpecNumShortAddr f) * 2;
         size = size + unat (m_pndAddrSpecNumExtAddr f) * 8
     in size)"

definition PendingAddrFields_Serialize :: "PendingAddrFields \<Rightarrow> iter \<Rightarrow> iter option" where
  "PendingAddrFields_Serialize f i = do {
     i \<leftarrow> WriteU8 (PendingAddrFields_GetPndAddrSpecField f) i;
     shorts \<leftarrow> firstN (unat (m_pndAddrSpecNumShortAddr f)) (m_shortAddrList f);
     i \<leftarrow> WriteAll WriteTo_Mac16 shorts i;
     exts \<leftarrow> firstN (unat (m_pndAddrSpecNumExtAddr f)) (m_extAddrList f);
     WriteAll WriteTo_Mac64 exts i }"

definition PendingAddrFields_Deserialize :: "PendingAddrFields \<Rightarrow> iter \<Rightarrow> (PendingAddrFields \<times> iter) option" where
  "PendingAddrFields_Deserialize f i = do {
     (pndAddrSpecField, i) \<leftarrow> ReadU8 i;
     let f = PendingAddrFields_SetPndAddrSpecField pndAddrSpecField f;
     let n = unat (m_pndAddrSpecNumShortAddr f);
     (shorts, i) \<leftarrow> ReadMany n ReadFrom_Mac16 i;
     let f = f\<lparr>m_shortAddrList := shorts @ drop n (m_shortAddrList f)\<rparr>;
     let k = unat (m_pndAddrSpecNumExtAddr f);
     (exts, i) \<leftarrow> ReadMany k ReadFrom_Mac64 i;
     Some (f\<lparr>m_extAddrList := exts @ drop k (m_extAddrList f)\<rparr>, i) }"

text \<open>
  The invariant the additions keep: arrays of seven, at most seven addresses altogether. The
  addresses that are pending are the first ones of each array.
\<close>

definition pending_ok :: "PendingAddrFields \<Rightarrow> bool" where
  "pending_ok f \<longleftrightarrow> length (m_shortAddrList f) = 7 \<and> length (m_extAddrList f) = 7 \<and>
     unat (m_pndAddrSpecNumShortAddr f) + unat (m_pndAddrSpecNumExtAddr f) \<le> 7"

definition pending_shorts :: "PendingAddrFields \<Rightarrow> mac16 list" where
  "pending_shorts f = take (unat (m_pndAddrSpecNumShortAddr f)) (m_shortAddrList f)"

definition pending_exts :: "PendingAddrFields \<Rightarrow> mac64 list" where
  "pending_exts f = take (unat (m_pndAddrSpecNumExtAddr f)) (m_extAddrList f)"

lemma searchFirst_set: "n \<le> length xs \<Longrightarrow> searchFirst n a xs = Some (a \<in> set (take n xs))"
  by (induction n a xs rule: searchFirst.induct) auto

lemma PendingAddrFields_Search:
  assumes "pending_ok f"
  shows "PendingAddrFields_SearchShort a f = Some (a \<in> set (pending_shorts f))"
    and "PendingAddrFields_SearchExt b f = Some (b \<in> set (pending_exts f))"
  using assms by (simp_all add: PendingAddrFields_SearchShort_def PendingAddrFields_SearchExt_def
      pending_shorts_def pending_exts_def pending_ok_def searchFirst_set)

lemma pending_total:
  assumes "pending_ok f"
  shows "m_pndAddrSpecNumShortAddr f + m_pndAddrSpecNumExtAddr f = 7 \<longleftrightarrow>
    unat (m_pndAddrSpecNumShortAddr f) + unat (m_pndAddrSpecNumExtAddr f) = 7"
  using assms by (simp add: pending_ok_def word_unat_eq_iff unat_word_ariths)

lemma unat_add_1: "unat (x :: u8) < 255 \<Longrightarrow> unat (x + 1) = unat x + 1"
  by (simp add: unat_word_ariths)

lemma PendingAddrFields_AddShort_spec:
  assumes "pending_ok f"
  shows "\<exists>g. PendingAddrFields_AddShort a f = Some g \<and> pending_ok g \<and> pending_exts g = pending_exts f \<and>
    pending_shorts g = (if length (pending_shorts f) + length (pending_exts f) = 7 then pending_shorts f
      else pending_shorts f @ [a])"
proof -
  have len: "length (pending_shorts f) = unat (m_pndAddrSpecNumShortAddr f)"
    "length (pending_exts f) = unat (m_pndAddrSpecNumExtAddr f)"
    using assms by (auto simp: pending_ok_def pending_shorts_def pending_exts_def)
  show ?thesis
  proof (cases "unat (m_pndAddrSpecNumShortAddr f) + unat (m_pndAddrSpecNumExtAddr f) = 7")
    case True
    then show ?thesis
      using assms by (simp add: PendingAddrFields_AddShort_def pending_total len)
  next
    case False
    then show ?thesis
      using assms len by (auto simp: PendingAddrFields_AddShort_def pending_total setAt_def pending_ok_def
          pending_shorts_def pending_exts_def unat_add_1 take_Suc_conv_app_nth)
  qed
qed

lemma PendingAddrFields_AddExt_spec:
  assumes "pending_ok f"
  shows "\<exists>g. PendingAddrFields_AddExt b f = Some g \<and> pending_ok g \<and> pending_shorts g = pending_shorts f \<and>
    pending_exts g = (if length (pending_shorts f) + length (pending_exts f) = 7 then pending_exts f
      else pending_exts f @ [b])"
proof -
  have len: "length (pending_shorts f) = unat (m_pndAddrSpecNumShortAddr f)"
    "length (pending_exts f) = unat (m_pndAddrSpecNumExtAddr f)"
    using assms by (auto simp: pending_ok_def pending_shorts_def pending_exts_def)
  show ?thesis
  proof (cases "unat (m_pndAddrSpecNumShortAddr f) + unat (m_pndAddrSpecNumExtAddr f) = 7")
    case True
    then show ?thesis
      using assms by (simp add: PendingAddrFields_AddExt_def pending_total len)
  next
    case False
    then show ?thesis
      using assms len by (auto simp: PendingAddrFields_AddExt_def pending_total setAt_def pending_ok_def
          pending_shorts_def pending_exts_def unat_add_1 take_Suc_conv_app_nth)
  qed
qed

definition PendingAddrFields_wire :: "PendingAddrFields \<Rightarrow> u8 list" where
  "PendingAddrFields_wire f = PendingAddrFields_GetPndAddrSpecField f #
     concat (map octets16 (pending_shorts f)) @ concat (map octets64 (pending_exts f))"

definition pending_rebuilt :: "PendingAddrFields \<Rightarrow> PendingAddrFields \<Rightarrow> PendingAddrFields" where
  "pending_rebuilt f0 f =
     \<lparr>m_pndAddrSpecNumShortAddr = m_pndAddrSpecNumShortAddr f,
      m_pndAddrSpecNumExtAddr = m_pndAddrSpecNumExtAddr f,
      m_shortAddrList = pending_shorts f @ drop (length (pending_shorts f)) (m_shortAddrList f0),
      m_extAddrList = pending_exts f @ drop (length (pending_exts f)) (m_extAddrList f0)\<rparr>"

lemma length_concat_octets [simp]:
  "length (concat (map octets16 xs)) = 2 * length xs" "length (concat (map octets64 ys)) = 8 * length ys"
  by (induction xs; simp) (induction ys; simp)

lemma pending_spec_field:
  assumes "pending_ok f"
  shows "PendingAddrFields_SetPndAddrSpecField (PendingAddrFields_GetPndAddrSpecField f) f0 =
    f0\<lparr>m_pndAddrSpecNumShortAddr := m_pndAddrSpecNumShortAddr f, m_pndAddrSpecNumExtAddr := m_pndAddrSpecNumExtAddr f\<rparr>"
proof -
  have fit: "fits 3 (m_pndAddrSpecNumShortAddr f)" "fits 3 (m_pndAddrSpecNumExtAddr f)"
    using assms by (simp_all add: pending_ok_def fits_iff)
  let ?w = "ucast (PendingAddrFields_GetPndAddrSpecField f) :: cint"
  have "ucast (?w AND 0x07) = m_pndAddrSpecNumShortAddr f"
    unfolding PendingAddrFields_GetPndAddrSpecField_def Let_def
    by (rule bit_word_eqI) (use fit in \<open>auto simp: word_pack dest: fits_bit\<close>)
  moreover have "ucast (getField ?w 4 0x07) = m_pndAddrSpecNumExtAddr f"
    unfolding PendingAddrFields_GetPndAddrSpecField_def Let_def
    by (rule bit_word_eqI) (use fit in \<open>auto simp: word_pack dest: fits_bit\<close>)
  ultimately show ?thesis by (simp add: PendingAddrFields_SetPndAddrSpecField_def Let_def)
qed

lemma PendingAddrFields_wire_simps [wire_simps]:
  "pending_ok f \<Longrightarrow> PendingAddrFields_Serialize f i = WriteBuf (PendingAddrFields_wire f) i"
  "pending_ok f \<Longrightarrow> PendingAddrFields_Deserialize f0 (d, PendingAddrFields_wire f @ r) =
     Some (pending_rebuilt f0 f, (d @ PendingAddrFields_wire f, r))"
proof -
  assume ok: "pending_ok f"
  then have len: "unat (m_pndAddrSpecNumShortAddr f) = length (pending_shorts f)"
    "unat (m_pndAddrSpecNumExtAddr f) = length (pending_exts f)"
    by (auto simp: pending_ok_def pending_shorts_def pending_exts_def)
  show "PendingAddrFields_Serialize f i = WriteBuf (PendingAddrFields_wire f) i"
    using ok by (simp add: PendingAddrFields_Serialize_def PendingAddrFields_wire_def pending_shorts_def
        pending_exts_def pending_ok_def firstN_le wire_simps WriteAll_WriteBuf [where g = octets16]
        WriteAll_WriteBuf [where g = octets64])
  show "PendingAddrFields_Deserialize f0 (d, PendingAddrFields_wire f @ r) =
      Some (pending_rebuilt f0 f, (d @ PendingAddrFields_wire f, r))"
    by (cases f0) (simp add: PendingAddrFields_Deserialize_def PendingAddrFields_wire_def pending_rebuilt_def
        wire_simps pending_spec_field [OF ok] Let_def len ReadMany_concat [where g = octets16]
        ReadMany_concat [where g = octets64] PendingAddrFields.defs)
qed

lemma length_PendingAddrFields_wire:
  "pending_ok f \<Longrightarrow> length (PendingAddrFields_wire f) = PendingAddrFields_GetSerializedSize f"
  by (simp add: PendingAddrFields_wire_def PendingAddrFields_GetSerializedSize_def pending_ok_def
      pending_shorts_def pending_exts_def)

interpretation pending: header_codec PendingAddrFields_GetSerializedSize PendingAddrFields_wire
  PendingAddrFields_Serialize PendingAddrFields_Deserialize pending_ok "\<lambda>_ _. True" pending_rebuilt
  by unfold_locales (simp_all add: wire_simps length_PendingAddrFields_wire)

lemma pending_rebuilt_view:
  assumes "pending_ok f"
  shows "pending_shorts (pending_rebuilt f0 f) = pending_shorts f"
    and "pending_exts (pending_rebuilt f0 f) = pending_exts f"
    and "length (m_shortAddrList f0) = 7 \<Longrightarrow> length (m_extAddrList f0) = 7 \<Longrightarrow> pending_ok (pending_rebuilt f0 f)"
  using assms by (auto simp: pending_rebuilt_def pending_shorts_def pending_exts_def pending_ok_def)

end
