(* ===== verification/Dsme_Fields.thy ===== *)
theory Dsme_Fields
  imports Address_Fields
begin

section \<open>Time synchronisation, beacon bitmap, channel hopping and group acknowledgement fields\<close>

text \<open>
  The remaining fields of the DSME PAN descriptor (\<open>lr-wpan-fields\<close>). The beacon bitmap and
  the channel offset bitmap are sets of positions kept in 16-bit words; the locale \<open>slot_set\<close>
  is the contract that the beacon scheduling and the channel selection rely on, and both
  classes are instances of it.
\<close>

subsection \<open>Sets of positions in 16-bit words\<close>

text \<open>\<open>v[p / 16] |= 1 << (p % 16)\<close>, which leaves the vector when \<open>p\<close> is too large.\<close>

definition setBit16 :: "nat \<Rightarrow> u16 list \<Rightarrow> u16 list option" where
  "setBit16 p v = (let idx = p div 16 in
     if idx < length v then Some (v[idx := v ! idx OR ucast (push_bit (p mod 16) 1 :: cint)]) else None)"

definition testBit16 :: "u16 list \<Rightarrow> nat \<Rightarrow> bool" where
  "testBit16 v p \<longleftrightarrow> p div 16 < length v \<and> bit (v ! (p div 16)) (p mod 16)"

lemma setBit16_some: "p < 16 * length v \<Longrightarrow> \<exists>w. setBit16 p v = Some w \<and> length w = length v"
  by (simp add: setBit16_def Let_def div_less_iff_less_mult mult.commute)

lemma setBit16_none: "16 * length v \<le> p \<Longrightarrow> setBit16 p v = None"
  by (simp add: setBit16_def Let_def not_less less_eq_div_iff_mult_less_eq mult.commute)

lemma testBit16_set:
  assumes "setBit16 p v = Some w"
  shows "testBit16 w q \<longleftrightarrow> q = p \<or> testBit16 v q"
proof -
  from assms have len: "p div 16 < length v"
    and w: "w = v[p div 16 := v ! (p div 16) OR ucast (push_bit (p mod 16) 1 :: cint)]"
    by (auto simp: setBit16_def Let_def split: if_splits)
  have split: "q = p \<longleftrightarrow> q div 16 = p div 16 \<and> q mod 16 = p mod 16"
    by (metis div_mult_mod_eq)
  show ?thesis
    unfolding testBit16_def w split using len
    by (cases "q div 16 = p div 16") (auto simp: bit_simps)
qed

lemma testBit16_zeros [simp]: "\<not> testBit16 (replicate n 0) p"
  by (simp add: testBit16_def)

definition or16 :: "u16 list \<Rightarrow> u16 list \<Rightarrow> u16 list" where
  "or16 v w = map2 (OR) v w"

lemma testBit16_or: "length v = length w \<Longrightarrow> testBit16 (or16 v w) p \<longleftrightarrow> testBit16 v p \<or> testBit16 w p"
  by (auto simp: testBit16_def or16_def bit_simps)

text \<open>
  The contract: clearing leaves no position, marking a position below the capacity adds
  exactly that one, a position above it is not accepted.
\<close>

locale slot_set =
  fixes ok :: "'s \<Rightarrow> bool"
    and capacity :: "'s \<Rightarrow> nat"
    and clear :: "'s \<Rightarrow> 's"
    and mark :: "nat \<Rightarrow> 's \<Rightarrow> 's option"
    and marked :: "'s \<Rightarrow> nat \<Rightarrow> bool"
  assumes clear_ok: "ok (clear s)"
    and clear_capacity: "ok s \<Longrightarrow> capacity (clear s) = capacity s"
    and clear_marked: "\<not> marked (clear s) q"
    and mark_some: "ok s \<Longrightarrow> p < capacity s \<Longrightarrow> \<exists>t. mark p s = Some t"
    and mark_none: "ok s \<Longrightarrow> capacity s \<le> p \<Longrightarrow> mark p s = None"
    and mark_ok: "ok s \<Longrightarrow> mark p s = Some t \<Longrightarrow> ok t \<and> capacity t = capacity s"
    and mark_marked: "ok s \<Longrightarrow> mark p s = Some t \<Longrightarrow> marked t q \<longleftrightarrow> q = p \<or> marked s q"
begin

fun markAll :: "nat list \<Rightarrow> 's \<Rightarrow> 's option" where
  "markAll [] s = Some s"
| "markAll (p # ps) s = Option.bind (mark p s) (markAll ps)"

lemma markAll_total: "ok s \<Longrightarrow> \<forall>p \<in> set ps. p < capacity s \<Longrightarrow> \<exists>t. markAll ps s = Some t"
proof (induction ps arbitrary: s)
  case (Cons p ps)
  then obtain t where t: "mark p s = Some t" using mark_some by fastforce
  with Cons show ?case using mark_ok [OF Cons.prems(1) t] by simp
qed simp

lemma markAll_marked: "ok s \<Longrightarrow> markAll ps s = Some t \<Longrightarrow> ok t \<and> (marked t q \<longleftrightarrow> q \<in> set ps \<or> marked s q)"
proof (induction ps arbitrary: s)
  case (Cons p ps)
  then obtain u where u: "mark p s = Some u" and rest: "markAll ps u = Some t"
    by (auto split: bind_splits)
  from mark_ok [OF Cons.prems(1) u] have "ok u" by simp
  from Cons.IH [OF this rest] mark_marked [OF Cons.prems(1) u, of q] show ?case by auto
qed simp

lemma markAll_from_clear:
  assumes "ok s" and "\<forall>p \<in> set ps. p < capacity s"
  shows "\<exists>t. markAll ps (clear s) = Some t \<and> (\<forall>q. marked t q \<longleftrightarrow> q \<in> set ps)"
proof -
  obtain t where t: "markAll ps (clear s) = Some t"
    using markAll_total [of "clear s" ps] clear_ok clear_capacity assms by auto
  with markAll_marked [OF clear_ok t] clear_marked show ?thesis by auto
qed

lemma mark_commutes:
  assumes "ok s" and "mark p s = Some t" and "mark q t = Some u" and "mark q s = Some t'" and "mark p t' = Some u'"
  shows "marked u r \<longleftrightarrow> marked u' r"
  using assms mark_marked mark_ok by metis

end

subsection \<open>TimeSync\<close>

record TimeSync =
  m_sspecBcnTimestamp :: u64
  m_sspecBcnOffsetTimestamp :: u16

definition TimeSync_SetBeaconTimeStamp :: "u64 \<Rightarrow> TimeSync \<Rightarrow> TimeSync" where
  [class_defs]: "TimeSync_SetBeaconTimeStamp bcnTimestamp f = f\<lparr>m_sspecBcnTimestamp := bcnTimestamp\<rparr>"

definition TimeSync_SetBeaconOffsetTimeStamp :: "u16 \<Rightarrow> TimeSync \<Rightarrow> TimeSync" where
  [class_defs]: "TimeSync_SetBeaconOffsetTimeStamp bcnOfsTimeStamp f = f\<lparr>m_sspecBcnOffsetTimestamp := bcnOfsTimeStamp\<rparr>"

definition TimeSync_new :: "TimeSync \<Rightarrow> TimeSync" where
  "TimeSync_new mem = TimeSync_SetBeaconTimeStamp 0 mem"

definition TimeSync_GetBeaconTimeStamp :: "TimeSync \<Rightarrow> u64" where
  [class_defs]: "TimeSync_GetBeaconTimeStamp f = m_sspecBcnTimestamp f"

definition TimeSync_GetBeaconOffsetTimeStamp :: "TimeSync \<Rightarrow> u16" where
  [class_defs]: "TimeSync_GetBeaconOffsetTimeStamp f = m_sspecBcnOffsetTimestamp f"

definition TimeSync_GetSerializedSize :: "TimeSync \<Rightarrow> nat" where
  [class_defs]: "TimeSync_GetSerializedSize f = 8"

definition TimeSync_Serialize :: "TimeSync \<Rightarrow> iter \<Rightarrow> iter option" where
  "TimeSync_Serialize f i = WriteHtolsbU64 (TimeSync_GetBeaconTimeStamp f) i"

definition TimeSync_Deserialize :: "TimeSync \<Rightarrow> iter \<Rightarrow> (TimeSync \<times> iter) option" where
  "TimeSync_Deserialize f i = do {
     (t, i) \<leftarrow> ReadLsbtohU64 i;
     Some (f\<lparr>m_sspecBcnTimestamp := t\<rparr>, i) }"

definition TimeSync_wire :: "TimeSync \<Rightarrow> u8 list" where
  "TimeSync_wire f = le64 (m_sspecBcnTimestamp f)"

text \<open>The offset does not travel: the receiver keeps its own.\<close>

definition timesync_rebuilt :: "TimeSync \<Rightarrow> TimeSync \<Rightarrow> TimeSync" where
  "timesync_rebuilt f0 f = f0\<lparr>m_sspecBcnTimestamp := m_sspecBcnTimestamp f\<rparr>"

lemma TimeSync_wire_simps [wire_simps]:
  "TimeSync_Serialize f i = WriteBuf (TimeSync_wire f) i"
  "TimeSync_Deserialize f0 (d, TimeSync_wire f @ r) = Some (timesync_rebuilt f0 f, (d @ TimeSync_wire f, r))"
  by (simp_all add: TimeSync_Serialize_def TimeSync_Deserialize_def TimeSync_wire_def timesync_rebuilt_def
      class_defs wire_simps)

lemma length_TimeSync_wire [simp]: "length (TimeSync_wire f) = 8"
  by (simp add: TimeSync_wire_def)

interpretation timesync: header_codec TimeSync_GetSerializedSize TimeSync_wire TimeSync_Serialize
  TimeSync_Deserialize "\<lambda>_. True" "\<lambda>_ _. True" timesync_rebuilt
  by unfold_locales (simp_all add: wire_simps TimeSync_GetSerializedSize_def)

subsection \<open>BeaconBitmap\<close>

record BeaconBitmap =
  m_sspecSDIndex :: u16
  m_sspecSDBitmapLen :: u16
  m_sspecSDBitmap :: "u16 list"

definition BeaconBitmap_SetSDIndex :: "u16 \<Rightarrow> BeaconBitmap \<Rightarrow> BeaconBitmap" where
  [class_defs]: "BeaconBitmap_SetSDIndex sdIndex f = f\<lparr>m_sspecSDIndex := sdIndex\<rparr>"

definition BeaconBitmap_SetBitmapLength :: "u16 \<Rightarrow> BeaconBitmap \<Rightarrow> BeaconBitmap" where
  [class_defs]: "BeaconBitmap_SetBitmapLength bitmapLen f = f\<lparr>m_sspecSDBitmapLen := bitmapLen\<rparr>"

definition BeaconBitmap_SetSDBitmap :: "u16 \<Rightarrow> BeaconBitmap \<Rightarrow> BeaconBitmap option" where
  "BeaconBitmap_SetSDBitmap position f = do {
     v \<leftarrow> setBit16 (unat position) (m_sspecSDBitmap f);
     Some (f\<lparr>m_sspecSDBitmap := v\<rparr>) }"

definition BeaconBitmap_SetSDBitmapVector :: "u16 list \<Rightarrow> BeaconBitmap \<Rightarrow> BeaconBitmap" where
  [class_defs]: "BeaconBitmap_SetSDBitmapVector sdBitmap f = f\<lparr>m_sspecSDBitmap := sdBitmap\<rparr>"

definition BeaconBitmap_ResetSDBitmap :: "BeaconBitmap \<Rightarrow> BeaconBitmap" where
  "BeaconBitmap_ResetSDBitmap f = (
     let len = words16 (unat (m_sspecSDBitmapLen f)) in f\<lparr>m_sspecSDBitmap := replicate len 0\<rparr>)"

definition BeaconBitmap_new :: "BeaconBitmap \<Rightarrow> BeaconBitmap" where
  "BeaconBitmap_new mem = BeaconBitmap_ResetSDBitmap (BeaconBitmap_SetBitmapLength 0 (BeaconBitmap_SetSDIndex 0 mem))"

definition BeaconBitmap_newLen :: "u16 \<Rightarrow> u16 \<Rightarrow> BeaconBitmap \<Rightarrow> BeaconBitmap" where
  "BeaconBitmap_newLen sdIndex bitmapLen mem =
     BeaconBitmap_ResetSDBitmap (BeaconBitmap_SetBitmapLength bitmapLen (BeaconBitmap_SetSDIndex sdIndex mem))"

definition BeaconBitmap_GetSDIndex :: "BeaconBitmap \<Rightarrow> u16" where
  [class_defs]: "BeaconBitmap_GetSDIndex f = m_sspecSDIndex f"

definition BeaconBitmap_GetSDBitmapLength :: "BeaconBitmap \<Rightarrow> u16" where
  [class_defs]: "BeaconBitmap_GetSDBitmapLength f = m_sspecSDBitmapLen f"

definition BeaconBitmap_GetSDBitmap :: "BeaconBitmap \<Rightarrow> u16 list" where
  [class_defs]: "BeaconBitmap_GetSDBitmap f = m_sspecSDBitmap f"

definition BeaconBitmap_GetSerializedSize :: "BeaconBitmap \<Rightarrow> nat" where
  "BeaconBitmap_GetSerializedSize f = (
     let size = 0; size = size + 2; size = size + 2; size = size + length (m_sspecSDBitmap f) * 2 in size)"

definition BeaconBitmap_Serialize :: "BeaconBitmap \<Rightarrow> iter \<Rightarrow> iter option" where
  "BeaconBitmap_Serialize f i = do {
     i \<leftarrow> WriteHtolsbU16 (BeaconBitmap_GetSDIndex f) i;
     i \<leftarrow> WriteHtolsbU16 (BeaconBitmap_GetSDBitmapLength f) i;
     WriteAll WriteHtolsbU16 (m_sspecSDBitmap f) i }"

definition BeaconBitmap_Deserialize :: "BeaconBitmap \<Rightarrow> iter \<Rightarrow> (BeaconBitmap \<times> iter) option" where
  "BeaconBitmap_Deserialize f i = do {
     (idx, i) \<leftarrow> ReadLsbtohU16 i;
     (len, i) \<leftarrow> ReadLsbtohU16 i;
     let f = BeaconBitmap_ResetSDBitmap (f\<lparr>m_sspecSDIndex := idx, m_sspecSDBitmapLen := len\<rparr>);
     (v, i) \<leftarrow> ReadMany (length (m_sspecSDBitmap f)) ReadLsbtohU16 i;
     Some (f\<lparr>m_sspecSDBitmap := v\<rparr>, i) }"

text \<open>
  \<open>operator|\<close>: the lengths are asserted to agree; the loop over the first bitmap leaves the
  second one, or the result, when they hold fewer words.
\<close>

definition BeaconBitmap_or :: "BeaconBitmap \<Rightarrow> BeaconBitmap \<Rightarrow> BeaconBitmap option" where
  "BeaconBitmap_or a b = (
     if BeaconBitmap_GetSDBitmapLength a \<noteq> BeaconBitmap_GetSDBitmapLength b then None
     else
       let result = BeaconBitmap_newLen 0 (BeaconBitmap_GetSDBitmapLength a)
             \<lparr>m_sspecSDIndex = 0, m_sspecSDBitmapLen = 0, m_sspecSDBitmap = []\<rparr>;
           sdBitmap1 = BeaconBitmap_GetSDBitmap a;
           sdBitmap2 = BeaconBitmap_GetSDBitmap b;
           n = length sdBitmap1;
           resultBitmap = replicate (words16 (unat (BeaconBitmap_GetSDBitmapLength a))) (0 :: u16)
       in if n \<le> length sdBitmap2 \<and> n \<le> length resultBitmap
          then Some (BeaconBitmap_SetSDBitmapVector (or16 sdBitmap1 sdBitmap2 @ drop n resultBitmap) result)
          else None)"

text \<open>The vector has a word for every sixteen positions of the announced length.\<close>

definition bitmap_ok :: "BeaconBitmap \<Rightarrow> bool" where
  "bitmap_ok f \<longleftrightarrow> length (m_sspecSDBitmap f) = words16 (unat (m_sspecSDBitmapLen f))"

definition sd_taken :: "BeaconBitmap \<Rightarrow> nat \<Rightarrow> bool" where
  "sd_taken f p \<longleftrightarrow> testBit16 (m_sspecSDBitmap f) p"

lemma bitmap_ok_new: "bitmap_ok (BeaconBitmap_newLen idx len mem)" "bitmap_ok (BeaconBitmap_new mem)"
  by (simp_all add: bitmap_ok_def BeaconBitmap_newLen_def BeaconBitmap_new_def BeaconBitmap_ResetSDBitmap_def
      class_defs Let_def)

interpretation beacon_slots: slot_set bitmap_ok "\<lambda>f. min 65536 (16 * words16 (unat (m_sspecSDBitmapLen f)))"
  BeaconBitmap_ResetSDBitmap "\<lambda>p f. if p < 65536 then BeaconBitmap_SetSDBitmap (of_nat p) f else None" sd_taken
proof unfold_locales
  fix s t :: BeaconBitmap and p q :: nat
  have p: "unat (of_nat p :: u16) = p" if "p < 65536"
    using that by (simp add: unat_of_nat)
  show "bitmap_ok (BeaconBitmap_ResetSDBitmap s)"
    by (simp add: bitmap_ok_def BeaconBitmap_ResetSDBitmap_def Let_def)
  show "min 65536 (16 * words16 (unat (m_sspecSDBitmapLen (BeaconBitmap_ResetSDBitmap s)))) =
      min 65536 (16 * words16 (unat (m_sspecSDBitmapLen s)))"
    by (simp add: BeaconBitmap_ResetSDBitmap_def Let_def)
  show "\<not> sd_taken (BeaconBitmap_ResetSDBitmap s) q"
    by (simp add: sd_taken_def BeaconBitmap_ResetSDBitmap_def Let_def)
  show "\<exists>t. (if p < 65536 then BeaconBitmap_SetSDBitmap (of_nat p) s else None) = Some t"
    if "bitmap_ok s" "p < min 65536 (16 * words16 (unat (m_sspecSDBitmapLen s)))"
    using that p setBit16_some [of p "m_sspecSDBitmap s"]
    by (auto simp: BeaconBitmap_SetSDBitmap_def bitmap_ok_def)
  show "(if p < 65536 then BeaconBitmap_SetSDBitmap (of_nat p) s else None) = None"
    if "bitmap_ok s" "min 65536 (16 * words16 (unat (m_sspecSDBitmapLen s))) \<le> p"
    using that p setBit16_none [of "m_sspecSDBitmap s" p]
    by (auto simp: BeaconBitmap_SetSDBitmap_def bitmap_ok_def)
  show "bitmap_ok t \<and> min 65536 (16 * words16 (unat (m_sspecSDBitmapLen t))) =
      min 65536 (16 * words16 (unat (m_sspecSDBitmapLen s)))"
    if "bitmap_ok s" "(if p < 65536 then BeaconBitmap_SetSDBitmap (of_nat p) s else None) = Some t"
    using that by (auto simp: BeaconBitmap_SetSDBitmap_def bitmap_ok_def setBit16_def Let_def
        split: if_splits bind_splits)
  show "sd_taken t q \<longleftrightarrow> q = p \<or> sd_taken s q"
    if "bitmap_ok s" "(if p < 65536 then BeaconBitmap_SetSDBitmap (of_nat p) s else None) = Some t"
    using that p by (auto simp: BeaconBitmap_SetSDBitmap_def sd_taken_def testBit16_set
        split: if_splits bind_splits)
qed

lemma BeaconBitmap_or_spec:
  assumes "bitmap_ok a" and "bitmap_ok b" and "m_sspecSDBitmapLen a = m_sspecSDBitmapLen b"
  shows "\<exists>c. BeaconBitmap_or a b = Some c \<and> bitmap_ok c \<and> m_sspecSDIndex c = 0 \<and>
    m_sspecSDBitmapLen c = m_sspecSDBitmapLen a \<and> (\<forall>p. sd_taken c p \<longleftrightarrow> sd_taken a p \<or> sd_taken b p)"
  using assms
  by (auto simp: BeaconBitmap_or_def BeaconBitmap_newLen_def BeaconBitmap_ResetSDBitmap_def class_defs Let_def
      bitmap_ok_def sd_taken_def testBit16_or) (simp_all add: or16_def)

definition BeaconBitmap_wire :: "BeaconBitmap \<Rightarrow> u8 list" where
  "BeaconBitmap_wire f = le16 (m_sspecSDIndex f) @ le16 (m_sspecSDBitmapLen f) @ concat (map le16 (m_sspecSDBitmap f))"

lemma BeaconBitmap_wire_simps [wire_simps]:
  "BeaconBitmap_Serialize f i = WriteBuf (BeaconBitmap_wire f) i"
  "bitmap_ok f \<Longrightarrow> BeaconBitmap_Deserialize f0 (d, BeaconBitmap_wire f @ r) = Some (f, (d @ BeaconBitmap_wire f, r))"
proof -
  show "BeaconBitmap_Serialize f i = WriteBuf (BeaconBitmap_wire f) i"
    by (simp add: BeaconBitmap_Serialize_def BeaconBitmap_wire_def class_defs wire_simps)
  show "bitmap_ok f \<Longrightarrow> BeaconBitmap_Deserialize f0 (d, BeaconBitmap_wire f @ r) = Some (f, (d @ BeaconBitmap_wire f, r))"
    by (cases f; cases f0) (simp add: BeaconBitmap_Deserialize_def BeaconBitmap_wire_def
        BeaconBitmap_ResetSDBitmap_def bitmap_ok_def Let_def wire_simps ReadMany_le16)
qed

lemma length_BeaconBitmap_wire: "length (BeaconBitmap_wire f) = BeaconBitmap_GetSerializedSize f"
  by (simp add: BeaconBitmap_wire_def BeaconBitmap_GetSerializedSize_def)

interpretation beacon_bitmap: lossless_codec BeaconBitmap_GetSerializedSize BeaconBitmap_wire
  BeaconBitmap_Serialize BeaconBitmap_Deserialize bitmap_ok "\<lambda>_ _. True" "\<lambda>_ f. f"
  by unfold_locales (simp_all add: wire_simps length_BeaconBitmap_wire)

subsection \<open>ChannelHopping\<close>

record ChannelHopping =
  m_sspecHoppingSequenceID :: u8
  m_sspecPANCoordBSN :: u8
  m_sspecChannelOfs :: u16
  m_sspecChannelOfsBitmapLen :: u8
  m_sspecChannelOfsBitmap :: "u16 list"

definition ChannelHopping_SetHoppingSequenceID :: "u8 \<Rightarrow> ChannelHopping \<Rightarrow> ChannelHopping" where
  [class_defs]: "ChannelHopping_SetHoppingSequenceID seqID f = f\<lparr>m_sspecHoppingSequenceID := seqID\<rparr>"

definition ChannelHopping_SetPANCoordinatorBSN :: "u8 \<Rightarrow> ChannelHopping \<Rightarrow> ChannelHopping" where
  [class_defs]: "ChannelHopping_SetPANCoordinatorBSN bcnSeqNum f = f\<lparr>m_sspecPANCoordBSN := bcnSeqNum\<rparr>"

definition ChannelHopping_SetChannelOffset :: "u16 \<Rightarrow> ChannelHopping \<Rightarrow> ChannelHopping" where
  [class_defs]: "ChannelHopping_SetChannelOffset ofs f = f\<lparr>m_sspecChannelOfs := ofs\<rparr>"

definition ChannelHopping_SetChannelOffsetBitmapLength :: "u8 \<Rightarrow> ChannelHopping \<Rightarrow> ChannelHopping" where
  [class_defs]: "ChannelHopping_SetChannelOffsetBitmapLength bitmapLen f = f\<lparr>m_sspecChannelOfsBitmapLen := bitmapLen\<rparr>"

definition ChannelHopping_SetChannelOffsetBitmapVector :: "u16 list \<Rightarrow> ChannelHopping \<Rightarrow> ChannelHopping" where
  [class_defs]: "ChannelHopping_SetChannelOffsetBitmapVector bitmap f = f\<lparr>m_sspecChannelOfsBitmap := bitmap\<rparr>"

definition ChannelHopping_SetChannelOffsetBitmap :: "u16 \<Rightarrow> ChannelHopping \<Rightarrow> ChannelHopping option" where
  "ChannelHopping_SetChannelOffsetBitmap position f = do {
     v \<leftarrow> setBit16 (unat position) (m_sspecChannelOfsBitmap f);
     Some (f\<lparr>m_sspecChannelOfsBitmap := v\<rparr>) }"

definition ChannelHopping_ResetChannelOffsetBitmap :: "ChannelHopping \<Rightarrow> ChannelHopping" where
  "ChannelHopping_ResetChannelOffsetBitmap f = (
     let len = words16 (unat (m_sspecChannelOfsBitmapLen f)) in f\<lparr>m_sspecChannelOfsBitmap := replicate len 0\<rparr>)"

definition ChannelHopping_new :: "ChannelHopping \<Rightarrow> ChannelHopping" where
  "ChannelHopping_new mem = (
     let f = ChannelHopping_SetHoppingSequenceID 0 mem;
         f = ChannelHopping_SetPANCoordinatorBSN 0 f;
         f = ChannelHopping_SetChannelOffset 0 f;
         f = ChannelHopping_SetChannelOffsetBitmapLength 16 f
     in ChannelHopping_ResetChannelOffsetBitmap f)"

definition ChannelHopping_GetHoppingSequenceID :: "ChannelHopping \<Rightarrow> u8" where
  [class_defs]: "ChannelHopping_GetHoppingSequenceID f = m_sspecHoppingSequenceID f"

definition ChannelHopping_GetPANCoordinatorBSN :: "ChannelHopping \<Rightarrow> u8" where
  [class_defs]: "ChannelHopping_GetPANCoordinatorBSN f = m_sspecPANCoordBSN f"

definition ChannelHopping_GetChannelOffset :: "ChannelHopping \<Rightarrow> u16" where
  [class_defs]: "ChannelHopping_GetChannelOffset f = m_sspecChannelOfs f"

definition ChannelHopping_GetChannelOffsetBitmapLength :: "ChannelHopping \<Rightarrow> u8" where
  [class_defs]: "ChannelHopping_GetChannelOffsetBitmapLength f = m_sspecChannelOfsBitmapLen f"

definition ChannelHopping_GetChannelOffsetBitmap :: "ChannelHopping \<Rightarrow> u16 list" where
  [class_defs]: "ChannelHopping_GetChannelOffsetBitmap f = m_sspecChannelOfsBitmap f"

definition ChannelHopping_GetSerializedSize :: "ChannelHopping \<Rightarrow> nat" where
  "ChannelHopping_GetSerializedSize f = (
     let size = 1; size = size + 1; size = size + 2; size = size + 1;
         size = size + length (m_sspecChannelOfsBitmap f) * 2 in size)"

text \<open>
  The loop counter of \<open>Serialize\<close> is a \<open>uint8_t\<close>: with more than 255 words it never reaches
  the end, and the writes run out of the buffer.
\<close>

definition ChannelHopping_Serialize :: "ChannelHopping \<Rightarrow> iter \<Rightarrow> iter option" where
  "ChannelHopping_Serialize f i = do {
     i \<leftarrow> WriteU8 (ChannelHopping_GetHoppingSequenceID f) i;
     i \<leftarrow> WriteU8 (ChannelHopping_GetPANCoordinatorBSN f) i;
     i \<leftarrow> WriteHtolsbU16 (ChannelHopping_GetChannelOffset f) i;
     i \<leftarrow> WriteU8 (ChannelHopping_GetChannelOffsetBitmapLength f) i;
     if length (m_sspecChannelOfsBitmap f) < 256 then WriteAll WriteHtolsbU16 (m_sspecChannelOfsBitmap f) i else None }"

definition ChannelHopping_Deserialize :: "ChannelHopping \<Rightarrow> iter \<Rightarrow> (ChannelHopping \<times> iter) option" where
  "ChannelHopping_Deserialize f i = do {
     (seqID, i) \<leftarrow> ReadU8 i;
     (bsn, i) \<leftarrow> ReadU8 i;
     (ofs, i) \<leftarrow> ReadLsbtohU16 i;
     (len, i) \<leftarrow> ReadU8 i;
     let f = ChannelHopping_ResetChannelOffsetBitmap (f\<lparr>m_sspecHoppingSequenceID := seqID,
       m_sspecPANCoordBSN := bsn, m_sspecChannelOfs := ofs, m_sspecChannelOfsBitmapLen := len\<rparr>);
     (v, i) \<leftarrow> ReadMany (length (m_sspecChannelOfsBitmap f)) ReadLsbtohU16 i;
     Some (f\<lparr>m_sspecChannelOfsBitmap := v\<rparr>, i) }"

definition hopping_ok :: "ChannelHopping \<Rightarrow> bool" where
  "hopping_ok f \<longleftrightarrow> length (m_sspecChannelOfsBitmap f) = words16 (unat (m_sspecChannelOfsBitmapLen f))"

definition ofs_taken :: "ChannelHopping \<Rightarrow> nat \<Rightarrow> bool" where
  "ofs_taken f p \<longleftrightarrow> testBit16 (m_sspecChannelOfsBitmap f) p"

lemma hopping_ok_new: "hopping_ok (ChannelHopping_new mem)"
  by (simp add: hopping_ok_def ChannelHopping_new_def ChannelHopping_ResetChannelOffsetBitmap_def class_defs Let_def)

lemma hopping_words: "words16 (unat (l :: u8)) \<le> 16"
  using unsigned_less [of l, where ?'a = nat] by (simp add: words16_def)

interpretation channel_offsets: slot_set hopping_ok "\<lambda>f. 16 * words16 (unat (m_sspecChannelOfsBitmapLen f))"
  ChannelHopping_ResetChannelOffsetBitmap
  "\<lambda>p f. if p < 65536 then ChannelHopping_SetChannelOffsetBitmap (of_nat p) f else None" ofs_taken
proof unfold_locales
  fix s t :: ChannelHopping and p q :: nat
  have p: "unat (of_nat p :: u16) = p" if "p < 65536"
    using that by (simp add: unat_of_nat)
  have le: "16 * words16 (unat (m_sspecChannelOfsBitmapLen s)) \<le> 256"
    using hopping_words [of "m_sspecChannelOfsBitmapLen s"] by simp
  show "hopping_ok (ChannelHopping_ResetChannelOffsetBitmap s)"
    by (simp add: hopping_ok_def ChannelHopping_ResetChannelOffsetBitmap_def Let_def)
  show "16 * words16 (unat (m_sspecChannelOfsBitmapLen (ChannelHopping_ResetChannelOffsetBitmap s))) =
      16 * words16 (unat (m_sspecChannelOfsBitmapLen s))"
    by (simp add: ChannelHopping_ResetChannelOffsetBitmap_def Let_def)
  show "\<not> ofs_taken (ChannelHopping_ResetChannelOffsetBitmap s) q"
    by (simp add: ofs_taken_def ChannelHopping_ResetChannelOffsetBitmap_def Let_def)
  show "\<exists>t. (if p < 65536 then ChannelHopping_SetChannelOffsetBitmap (of_nat p) s else None) = Some t"
    if "hopping_ok s" "p < 16 * words16 (unat (m_sspecChannelOfsBitmapLen s))"
    using that p le setBit16_some [of p "m_sspecChannelOfsBitmap s"]
    by (auto simp: ChannelHopping_SetChannelOffsetBitmap_def hopping_ok_def)
  show "(if p < 65536 then ChannelHopping_SetChannelOffsetBitmap (of_nat p) s else None) = None"
    if "hopping_ok s" "16 * words16 (unat (m_sspecChannelOfsBitmapLen s)) \<le> p"
    using that p setBit16_none [of "m_sspecChannelOfsBitmap s" p]
    by (auto simp: ChannelHopping_SetChannelOffsetBitmap_def hopping_ok_def)
  show "hopping_ok t \<and> 16 * words16 (unat (m_sspecChannelOfsBitmapLen t)) =
      16 * words16 (unat (m_sspecChannelOfsBitmapLen s))"
    if "hopping_ok s" "(if p < 65536 then ChannelHopping_SetChannelOffsetBitmap (of_nat p) s else None) = Some t"
    using that by (auto simp: ChannelHopping_SetChannelOffsetBitmap_def hopping_ok_def setBit16_def Let_def
        split: if_splits bind_splits)
  show "ofs_taken t q \<longleftrightarrow> q = p \<or> ofs_taken s q"
    if "hopping_ok s" "(if p < 65536 then ChannelHopping_SetChannelOffsetBitmap (of_nat p) s else None) = Some t"
    using that p by (auto simp: ChannelHopping_SetChannelOffsetBitmap_def ofs_taken_def testBit16_set
        split: if_splits bind_splits)
qed

definition ChannelHopping_wire :: "ChannelHopping \<Rightarrow> u8 list" where
  "ChannelHopping_wire f = [m_sspecHoppingSequenceID f, m_sspecPANCoordBSN f] @ le16 (m_sspecChannelOfs f) @
     [m_sspecChannelOfsBitmapLen f] @ concat (map le16 (m_sspecChannelOfsBitmap f))"

lemma ChannelHopping_wire_simps [wire_simps]:
  "hopping_ok f \<Longrightarrow> ChannelHopping_Serialize f i = WriteBuf (ChannelHopping_wire f) i"
  "hopping_ok f \<Longrightarrow> ChannelHopping_Deserialize f0 (d, ChannelHopping_wire f @ r) = Some (f, (d @ ChannelHopping_wire f, r))"
proof -
  assume ok: "hopping_ok f"
  have "length (m_sspecChannelOfsBitmap f) < 256"
    using ok hopping_words [of "m_sspecChannelOfsBitmapLen f"] by (simp add: hopping_ok_def)
  then show "ChannelHopping_Serialize f i = WriteBuf (ChannelHopping_wire f) i"
    by (simp add: ChannelHopping_Serialize_def ChannelHopping_wire_def class_defs wire_simps)
  show "ChannelHopping_Deserialize f0 (d, ChannelHopping_wire f @ r) = Some (f, (d @ ChannelHopping_wire f, r))"
    using ok by (cases f; cases f0) (simp add: ChannelHopping_Deserialize_def ChannelHopping_wire_def
        ChannelHopping_ResetChannelOffsetBitmap_def hopping_ok_def Let_def wire_simps ReadMany_le16)
qed

lemma length_ChannelHopping_wire: "length (ChannelHopping_wire f) = ChannelHopping_GetSerializedSize f"
  by (simp add: ChannelHopping_wire_def ChannelHopping_GetSerializedSize_def)

interpretation channel_hopping: lossless_codec ChannelHopping_GetSerializedSize ChannelHopping_wire
  ChannelHopping_Serialize ChannelHopping_Deserialize hopping_ok "\<lambda>_ _. True" "\<lambda>_ f. f"
  by unfold_locales (simp_all add: wire_simps length_ChannelHopping_wire)

subsection \<open>GroupACK\<close>

record GroupACK =
  m_sspecGACK1SuperfrmID :: u16
  m_sspecGACK1SlotID :: u8
  m_sspecGACK1ChannelID :: u8
  m_sspecGACK2SuperfrmID :: u16
  m_sspecGACK2SlotID :: u8
  m_sspecGACK2ChannelID :: u8

text \<open>The constructor leaves every field as the memory held it.\<close>

definition GroupACK_new :: "GroupACK \<Rightarrow> GroupACK" where
  "GroupACK_new mem = mem"

definition GroupACK_SetGACK1SuperframeID :: "u16 \<Rightarrow> GroupACK \<Rightarrow> GroupACK" where
  [class_defs]: "GroupACK_SetGACK1SuperframeID gack1superFrmID f = f\<lparr>m_sspecGACK1SuperfrmID := gack1superFrmID\<rparr>"

definition GroupACK_SetGACK1SlotID :: "u8 \<Rightarrow> GroupACK \<Rightarrow> GroupACK" where
  [class_defs]: "GroupACK_SetGACK1SlotID gack1SlotID f = f\<lparr>m_sspecGACK1SlotID := gack1SlotID\<rparr>"

definition GroupACK_SetGACK1ChannelID :: "u8 \<Rightarrow> GroupACK \<Rightarrow> GroupACK" where
  [class_defs]: "GroupACK_SetGACK1ChannelID gack1ChannelID f = f\<lparr>m_sspecGACK1ChannelID := gack1ChannelID\<rparr>"

definition GroupACK_SetGACK2SuperframeID :: "u16 \<Rightarrow> GroupACK \<Rightarrow> GroupACK" where
  [class_defs]: "GroupACK_SetGACK2SuperframeID gack2superFrmID f = f\<lparr>m_sspecGACK2SuperfrmID := gack2superFrmID\<rparr>"

definition GroupACK_SetGACK2SlotID :: "u16 \<Rightarrow> GroupACK \<Rightarrow> GroupACK" where
  [class_defs]: "GroupACK_SetGACK2SlotID gack2SlotID f = f\<lparr>m_sspecGACK2SlotID := ucast gack2SlotID\<rparr>"

definition GroupACK_SetGACK2ChannelID :: "u8 \<Rightarrow> GroupACK \<Rightarrow> GroupACK" where
  [class_defs]: "GroupACK_SetGACK2ChannelID gack2ChannelID f = f\<lparr>m_sspecGACK2ChannelID := gack2ChannelID\<rparr>"

definition GroupACK_GetGACK1SuperframeID :: "GroupACK \<Rightarrow> u16" where
  [class_defs]: "GroupACK_GetGACK1SuperframeID f = m_sspecGACK1SuperfrmID f"

definition GroupACK_GetGACK1SlotID :: "GroupACK \<Rightarrow> u8" where
  [class_defs]: "GroupACK_GetGACK1SlotID f = m_sspecGACK1SlotID f"

definition GroupACK_GetGACK1ChannelID :: "GroupACK \<Rightarrow> u8" where
  [class_defs]: "GroupACK_GetGACK1ChannelID f = m_sspecGACK1ChannelID f"

definition GroupACK_GetGACK2SuperframeID :: "GroupACK \<Rightarrow> u16" where
  [class_defs]: "GroupACK_GetGACK2SuperframeID f = m_sspecGACK2SuperfrmID f"

definition GroupACK_GetGACK2SlotID :: "GroupACK \<Rightarrow> u8" where
  [class_defs]: "GroupACK_GetGACK2SlotID f = m_sspecGACK2SlotID f"

definition GroupACK_GetGACK2ChannelID :: "GroupACK \<Rightarrow> u8" where
  [class_defs]: "GroupACK_GetGACK2ChannelID f = m_sspecGACK2ChannelID f"

definition GroupACK_GetSerializedSize :: "GroupACK \<Rightarrow> nat" where
  [class_defs]: "GroupACK_GetSerializedSize f = 8"

definition GroupACK_SetGroupAck :: "u64 \<Rightarrow> GroupACK \<Rightarrow> GroupACK" where
  "GroupACK_SetGroupAck groupAck f = f\<lparr>
     m_sspecGACK1SuperfrmID := ucast (getField groupAck 0 0xFFFF),
     m_sspecGACK1SlotID := ucast (getField groupAck 16 0x0F),
     m_sspecGACK1ChannelID := ucast (getField groupAck 20 0xFF),
     m_sspecGACK2SuperfrmID := ucast (getField groupAck 28 0xFFFF),
     m_sspecGACK2SlotID := ucast (getField groupAck 44 0x0F),
     m_sspecGACK2ChannelID := ucast (getField groupAck 48 0xFF)\<rparr>"

text \<open>The first three parts are computed on \<open>int\<close>, the last three on \<open>uint64_t\<close>.\<close>

definition GroupACK_GetGroupAck :: "GroupACK \<Rightarrow> u64" where
  "GroupACK_GetGroupAck f = (
     let groupAck = scast (putField (ucast (m_sspecGACK1SuperfrmID f) :: cint) 0 0xFFFF);
         groupAck = groupAck OR scast (putField (ucast (m_sspecGACK1SlotID f) :: cint) 16 0x0F);
         groupAck = groupAck OR scast (putField (ucast (m_sspecGACK1ChannelID f) :: cint) 20 0xFF);
         groupAck = groupAck OR putField (ucast (m_sspecGACK2SuperfrmID f)) 28 0xFFFF;
         groupAck = groupAck OR putField (ucast (m_sspecGACK2SlotID f)) 44 0x0F;
         groupAck = groupAck OR putField (ucast (m_sspecGACK2ChannelID f)) 48 0xFF
     in groupAck)"

definition GroupACK_Serialize :: "GroupACK \<Rightarrow> iter \<Rightarrow> iter option" where
  "GroupACK_Serialize f i = WriteHtolsbU64 (GroupACK_GetGroupAck f) i"

definition GroupACK_Deserialize :: "GroupACK \<Rightarrow> iter \<Rightarrow> (GroupACK \<times> iter) option" where
  "GroupACK_Deserialize f i = do { (groupAck, i) \<leftarrow> ReadLsbtohU64 i; Some (GroupACK_SetGroupAck groupAck f, i) }"

definition groupack_ok :: "GroupACK \<Rightarrow> bool" where
  "groupack_ok f \<longleftrightarrow> fits 4 (m_sspecGACK1SlotID f) \<and> fits 4 (m_sspecGACK2SlotID f)"

lemma groupack_unpack_pack:
  assumes "groupack_ok f"
  shows "GroupACK_SetGroupAck (GroupACK_GetGroupAck f) f0 = f"
proof -
  let ?w = "GroupACK_GetGroupAck f"
  have "fits 4 (m_sspecGACK1SlotID f)" "fits 4 (m_sspecGACK2SlotID f)"
    using assms by (simp_all add: groupack_ok_def)
  then have
    "ucast (getField ?w 0 0xFFFF) = m_sspecGACK1SuperfrmID f"
    "ucast (getField ?w 16 0x0F) = m_sspecGACK1SlotID f"
    "ucast (getField ?w 20 0xFF) = m_sspecGACK1ChannelID f"
    "ucast (getField ?w 28 0xFFFF) = m_sspecGACK2SuperfrmID f"
    "ucast (getField ?w 44 0x0F) = m_sspecGACK2SlotID f"
    "ucast (getField ?w 48 0xFF) = m_sspecGACK2ChannelID f"
    unfolding GroupACK_GetGroupAck_def Let_def
    by (safe intro!: bit_word_eqI; auto simp: word_pack dest: fits_bit bit_imp_le_length)+
  then show ?thesis by (cases f; cases f0) (simp add: GroupACK_SetGroupAck_def)
qed

definition GroupACK_wire :: "GroupACK \<Rightarrow> u8 list" where
  "GroupACK_wire f = le64 (GroupACK_GetGroupAck f)"

interpretation group_ack: lossless_codec GroupACK_GetSerializedSize GroupACK_wire GroupACK_Serialize
  GroupACK_Deserialize groupack_ok "\<lambda>_ _. True" "\<lambda>_ f. f"
  by unfold_locales (simp_all add: GroupACK_wire_def GroupACK_Serialize_def GroupACK_Deserialize_def
      GroupACK_GetSerializedSize_def wire_simps groupack_unpack_pack)

text \<open>The octet above bit 55 is always zero on the wire: seven octets carry the field.\<close>

lemma groupack_padding: "last (GroupACK_wire f) = 0"
  by (rule bit_word_eqI) (auto simp: GroupACK_wire_def le64_def GroupACK_GetGroupAck_def Let_def word_pack
      dest: bit_imp_le_length)

subsection \<open>EnhancedGroupACK\<close>

record EnhancedGroupACK =
  m_groupAckHashTableBitmap :: u64

definition EnhancedGroupACK_new :: "EnhancedGroupACK \<Rightarrow> EnhancedGroupACK" where
  [class_defs]: "EnhancedGroupACK_new mem = mem\<lparr>m_groupAckHashTableBitmap := 0\<rparr>"

text \<open>\<open>SetBit\<close> gets the bitmap by value and changes its own copy only.\<close>

definition EnhancedGroupACK_SetBit :: "u64 \<Rightarrow> nat \<Rightarrow> EnhancedGroupACK \<Rightarrow> EnhancedGroupACK" where
  "EnhancedGroupACK_SetBit bitmap bitLocation f = (
     let bitmap' = bitmap OR scast (push_bit bitLocation 1 :: cint) in f)"

definition EnhancedGroupACK_GetSerializedSize :: "EnhancedGroupACK \<Rightarrow> nat" where
  "EnhancedGroupACK_GetSerializedSize f = 16"

definition EnhancedGroupACK_GetHashTableBitmap :: "EnhancedGroupACK \<Rightarrow> u64" where
  [class_defs]: "EnhancedGroupACK_GetHashTableBitmap f = m_groupAckHashTableBitmap f"

definition EnhancedGroupACK_GetHashTableBitmapSize :: "EnhancedGroupACK \<Rightarrow> u16" where
  [class_defs]: "EnhancedGroupACK_GetHashTableBitmapSize f = 64"

definition EnhancedGroupACK_ResetHashTableBitmap :: "EnhancedGroupACK \<Rightarrow> EnhancedGroupACK" where
  [class_defs]: "EnhancedGroupACK_ResetHashTableBitmap f = f\<lparr>m_groupAckHashTableBitmap := 0\<rparr>"

definition EnhancedGroupACK_Serialize :: "EnhancedGroupACK \<Rightarrow> iter \<Rightarrow> iter option" where
  "EnhancedGroupACK_Serialize f i = WriteHtolsbU64 (EnhancedGroupACK_GetHashTableBitmap f) i"

definition EnhancedGroupACK_Deserialize :: "EnhancedGroupACK \<Rightarrow> iter \<Rightarrow> (EnhancedGroupACK \<times> iter) option" where
  "EnhancedGroupACK_Deserialize f i = do {
     (b, i) \<leftarrow> ReadLsbtohU64 i;
     Some (f\<lparr>m_groupAckHashTableBitmap := b\<rparr>, i) }"

lemma EnhancedGroupACK_wire_simps [wire_simps]:
  "EnhancedGroupACK_Serialize f i = WriteBuf (le64 (m_groupAckHashTableBitmap f)) i"
  "EnhancedGroupACK_Deserialize f0 (d, le64 (m_groupAckHashTableBitmap f) @ r) =
    Some (f, (d @ le64 (m_groupAckHashTableBitmap f), r))"
  by (simp_all add: EnhancedGroupACK_Serialize_def EnhancedGroupACK_Deserialize_def class_defs wire_simps)

text \<open>It announces 16 octets and writes 8: the eight octets it leaves stay in front of the packet.\<close>

lemma EnhancedGroupACK_leaves_octets:
  assumes "length fresh = EnhancedGroupACK_GetSerializedSize f"
  shows "Option.bind (AddHeader fresh EnhancedGroupACK_Serialize f p) (RemoveHeader EnhancedGroupACK_Deserialize f0) =
    Some (f, 8, drop 8 fresh @ p)"
  using assms EnhancedGroupACK_wire_simps(2) [of f0 "[]" f "drop 8 fresh @ p"]
  by (simp add: AddHeader_def RemoveHeader_def EnhancedGroupACK_GetSerializedSize_def
      EnhancedGroupACK_wire_simps(1) WriteBuf_def GetDistanceFrom_def)

end
