(* ===== verification/Information_Elements.thy ===== *)
theory Information_Elements
  imports Dsme_Fields
begin

section \<open>Information elements\<close>

text \<open>
  The information elements of \<open>lr-wpan-mac-pl-headers\<close>: the descriptors that announce a header
  element, a payload element and a nested element, the two list terminations, the DSME PAN
  descriptor of the enhanced beacons, which is seven fields in a row, and the enhanced beacon
  filter of a beacon request. Members that several of the classes name alike carry a prefix
  here. An enumerator is the integer it stands for: \<open>static_cast\<close> stores any integer.
\<close>

type_synonym HeaderElementIDs = u8
type_synonym PayloadIEGroupIDs = u8
type_synonym MLMEIESubID = u8

abbreviation (input) HEADERIE_DSME_PAN_DESCRIPTOR :: u8 where "HEADERIE_DSME_PAN_DESCRIPTOR \<equiv> 0x1c"
abbreviation (input) HEADERIE_GACK :: u8 where "HEADERIE_GACK \<equiv> 0x1f"
abbreviation (input) HEADERIE_LIST_TERMINATION_1 :: u8 where "HEADERIE_LIST_TERMINATION_1 \<equiv> 0x7e"
abbreviation (input) HEADERIE_ENHANCED_GACK :: u8 where "HEADERIE_ENHANCED_GACK \<equiv> 0x21"
abbreviation (input) HEADERIE_DSME_GTS_GACK :: u8 where "HEADERIE_DSME_GTS_GACK \<equiv> 0x22"
abbreviation (input) PAYLOADIE_MLME :: u8 where "PAYLOADIE_MLME \<equiv> 1"
abbreviation (input) PAYLOADIE_LIST_TERMINATION :: u8 where "PAYLOADIE_LIST_TERMINATION \<equiv> 0xf"
abbreviation (input) SUBID_EB_FILTER :: u8 where "SUBID_EB_FILTER \<equiv> 0x1e"

subsection \<open>HeaderIEDescriptor\<close>

record HeaderIEDescriptor =
  hie_length :: u8
  hie_elementId :: HeaderElementIDs
  hie_type :: bool

text \<open>The members with an initialiser get it; the element identifier keeps what the memory held.\<close>

definition HeaderIEDescriptor_new :: "HeaderIEDescriptor \<Rightarrow> HeaderIEDescriptor" where
  "HeaderIEDescriptor_new mem = mem\<lparr>hie_length := 0, hie_type := False\<rparr>"

definition HeaderIEDescriptor_newOf :: "u8 \<Rightarrow> HeaderElementIDs \<Rightarrow> bool \<Rightarrow> HeaderIEDescriptor" where
  "HeaderIEDescriptor_newOf len id' type = \<lparr>hie_length = len, hie_elementId = id', hie_type = type\<rparr>"

definition HeaderIEDescriptor_SetLength :: "u8 \<Rightarrow> HeaderIEDescriptor \<Rightarrow> HeaderIEDescriptor" where
  [class_defs]: "HeaderIEDescriptor_SetLength len f = f\<lparr>hie_length := len\<rparr>"

definition HeaderIEDescriptor_SetHeaderElementID :: "HeaderElementIDs \<Rightarrow> HeaderIEDescriptor \<Rightarrow> HeaderIEDescriptor" where
  [class_defs]: "HeaderIEDescriptor_SetHeaderElementID id' f = f\<lparr>hie_elementId := id'\<rparr>"

definition HeaderIEDescriptor_GetLength :: "HeaderIEDescriptor \<Rightarrow> u8" where
  [class_defs]: "HeaderIEDescriptor_GetLength f = hie_length f"

definition HeaderIEDescriptor_GetHeaderElementID :: "HeaderIEDescriptor \<Rightarrow> HeaderElementIDs" where
  [class_defs]: "HeaderIEDescriptor_GetHeaderElementID f = hie_elementId f"

definition HeaderIEDescriptor_GetType :: "HeaderIEDescriptor \<Rightarrow> bool" where
  [class_defs]: "HeaderIEDescriptor_GetType f = hie_type f"

definition HeaderIEDescriptor_GetDescriptor :: "HeaderIEDescriptor \<Rightarrow> u16" where
  "HeaderIEDescriptor_GetDescriptor f = (
     let descriptor = ucast ((ucast (hie_length f) :: cint) AND 0x7f);
         descriptor = descriptor OR ucast (putField (ucast (hie_elementId f) :: cint) 7 0xff);
         descriptor = descriptor OR ucast (putField (of_bool (hie_type f) :: cint) 15 1)
     in descriptor)"

definition HeaderIEDescriptor_SetDescriptor :: "u16 \<Rightarrow> HeaderIEDescriptor \<Rightarrow> HeaderIEDescriptor" where
  "HeaderIEDescriptor_SetDescriptor descriptor f = f\<lparr>
     hie_length := ucast (descriptor AND 0x7f),
     hie_elementId := ucast (getField descriptor 7 0xff),
     hie_type := (getField descriptor 15 1 \<noteq> 0)\<rparr>"

definition HeaderIEDescriptor_GetSerializedSize :: "HeaderIEDescriptor \<Rightarrow> nat" where
  "HeaderIEDescriptor_GetSerializedSize f = 2"

definition HeaderIEDescriptor_Serialize :: "HeaderIEDescriptor \<Rightarrow> iter \<Rightarrow> iter option" where
  "HeaderIEDescriptor_Serialize f i = WriteHtolsbU16 (HeaderIEDescriptor_GetDescriptor f) i"

definition HeaderIEDescriptor_Deserialize :: "HeaderIEDescriptor \<Rightarrow> iter \<Rightarrow> (HeaderIEDescriptor \<times> iter) option" where
  "HeaderIEDescriptor_Deserialize f i = do {
     (descriptor, i) \<leftarrow> ReadLsbtohU16 i;
     Some (HeaderIEDescriptor_SetDescriptor descriptor f, i) }"

definition hie_ok :: "HeaderIEDescriptor \<Rightarrow> bool" where
  "hie_ok f \<longleftrightarrow> fits 7 (hie_length f)"

definition hie_wire :: "HeaderIEDescriptor \<Rightarrow> u8 list" where
  "hie_wire f = le16 (HeaderIEDescriptor_GetDescriptor f)"

lemma bit_hie:
  "bit (HeaderIEDescriptor_GetDescriptor f) n \<longleftrightarrow>
     n < 7 \<and> bit (hie_length f) n \<or> 7 \<le> n \<and> n < 15 \<and> bit (hie_elementId f) (n - 7) \<or> n = 15 \<and> hie_type f"
proof -
  have "bit (ucast ((ucast (v :: u8) :: cint) AND 0x7f) :: u16) n \<longleftrightarrow> n < 7 \<and> bit v n"
    "bit (ucast (putField (ucast v :: cint) 7 0xff) :: u16) n \<longleftrightarrow> 7 \<le> n \<and> n < 15 \<and> bit v (n - 7)" for v
    by (auto simp: putField_and and_mask bit_simps)
  then show ?thesis
    unfolding HeaderIEDescriptor_GetDescriptor_def Let_def bit_or_iff by (simp add: bit_part_in disj_assoc)
qed

lemma hie_unpack_pack: "hie_ok f \<Longrightarrow> HeaderIEDescriptor_SetDescriptor (HeaderIEDescriptor_GetDescriptor f) f0 = f"
proof -
  assume "hie_ok f"
  then have "\<And>n. bit (hie_length f) n \<Longrightarrow> n < 7" unfolding hie_ok_def by (rule fits_bit)
  then have "ucast (HeaderIEDescriptor_GetDescriptor f AND 0x7f) = hie_length f"
    by - (rule bit_word_eqI; fastforce simp: and_mask bit_simps bit_hie)
  moreover have "ucast (getField (HeaderIEDescriptor_GetDescriptor f) 7 0xff) = hie_elementId f"
    by (rule bit_word_eqI) (simp add: getField_def and_mask bit_simps bit_hie)
  moreover have "getField (HeaderIEDescriptor_GetDescriptor f) 15 1 \<noteq> 0 \<longleftrightarrow> hie_type f"
    by (simp add: getField_1_nonzero bit_hie)
  ultimately show ?thesis by (cases f; cases f0) (simp add: HeaderIEDescriptor_SetDescriptor_def)
qed

lemma hie_wire_simps [wire_simps]:
  "HeaderIEDescriptor_Serialize f i = WriteBuf (hie_wire f) i"
  "hie_ok f \<Longrightarrow> HeaderIEDescriptor_Deserialize f0 (d, hie_wire f @ r) = Some (f, (d @ hie_wire f, r))"
  by (simp_all add: HeaderIEDescriptor_Serialize_def HeaderIEDescriptor_Deserialize_def hie_wire_def
      hie_unpack_pack wire_simps)

lemma length_hie_wire [simp]: "length (hie_wire f) = 2"
  by (simp add: hie_wire_def)

interpretation header_ie: lossless_codec HeaderIEDescriptor_GetSerializedSize hie_wire HeaderIEDescriptor_Serialize
  HeaderIEDescriptor_Deserialize hie_ok "\<lambda>_ _. True" "\<lambda>_ f. f"
  by unfold_locales (simp_all add: wire_simps HeaderIEDescriptor_GetSerializedSize_def)

subsection \<open>HeaderIETermination\<close>

record HeaderIETermination =
  hterm_descriptor :: HeaderIEDescriptor

definition HeaderIETermination_new :: "HeaderIETermination \<Rightarrow> HeaderIETermination" where
  "HeaderIETermination_new mem = mem\<lparr>hterm_descriptor := HeaderIEDescriptor_SetHeaderElementID HEADERIE_LIST_TERMINATION_1
     (HeaderIEDescriptor_SetLength 0 (HeaderIEDescriptor_new (hterm_descriptor mem)))\<rparr>"

definition HeaderIETermination_GetSerializedSize :: "HeaderIETermination \<Rightarrow> nat" where
  "HeaderIETermination_GetSerializedSize f = 2"

definition HeaderIETermination_Serialize :: "HeaderIETermination \<Rightarrow> iter \<Rightarrow> iter option" where
  "HeaderIETermination_Serialize f i = HeaderIEDescriptor_Serialize (hterm_descriptor f) i"

definition HeaderIETermination_Deserialize :: "HeaderIETermination \<Rightarrow> iter \<Rightarrow> (HeaderIETermination \<times> iter) option" where
  "HeaderIETermination_Deserialize f i = do {
     (g, i) \<leftarrow> HeaderIEDescriptor_Deserialize (hterm_descriptor f) i;
     Some (f\<lparr>hterm_descriptor := g\<rparr>, i) }"

definition hterm_wire :: "HeaderIETermination \<Rightarrow> u8 list" where
  "hterm_wire f = hie_wire (hterm_descriptor f)"

lemma hterm_wire_simps [wire_simps]:
  "HeaderIETermination_Serialize f i = WriteBuf (hterm_wire f) i"
  "hie_ok (hterm_descriptor f) \<Longrightarrow>
   HeaderIETermination_Deserialize f0 (d, hterm_wire f @ r) = Some (f, (d @ hterm_wire f, r))"
  by (simp_all add: HeaderIETermination_Serialize_def HeaderIETermination_Deserialize_def hterm_wire_def wire_simps)

interpretation header_termination: lossless_codec HeaderIETermination_GetSerializedSize hterm_wire
  HeaderIETermination_Serialize HeaderIETermination_Deserialize "\<lambda>f. hie_ok (hterm_descriptor f)" "\<lambda>_ _. True" "\<lambda>_ f. f"
  by unfold_locales (simp_all add: wire_simps HeaderIETermination_GetSerializedSize_def, simp add: hterm_wire_def)

subsection \<open>DsmePANDescriptorIE\<close>

record DsmePANDescriptorIE =
  pan_descriptor :: HeaderIEDescriptor
  pan_superframeField :: SuperframeField
  pan_pndAddrFields :: PendingAddrFields
  pan_dsmeSuperframeField :: DsmeSuperFrameField
  pan_timeSynField :: TimeSync
  pan_beaconBitmapField :: BeaconBitmap
  pan_channelHoppingField :: ChannelHopping
  pan_gack :: GroupACK

text \<open>The constructors run those of the members, of which that of \<open>SuperframeField\<close> may abort.\<close>

definition DsmePANDescriptorIE_members :: "DsmePANDescriptorIE \<Rightarrow> DsmePANDescriptorIE option" where
  "DsmePANDescriptorIE_members mem = do {
     sf \<leftarrow> SuperframeField_new (pan_superframeField mem);
     Some (mem\<lparr>pan_descriptor := HeaderIEDescriptor_new (pan_descriptor mem),
       pan_superframeField := sf,
       pan_pndAddrFields := PendingAddrFields_new (pan_pndAddrFields mem),
       pan_dsmeSuperframeField := DsmeSuperFrameField_new (pan_dsmeSuperframeField mem),
       pan_timeSynField := TimeSync_new (pan_timeSynField mem),
       pan_beaconBitmapField := BeaconBitmap_new (pan_beaconBitmapField mem),
       pan_channelHoppingField := ChannelHopping_new (pan_channelHoppingField mem),
       pan_gack := GroupACK_new (pan_gack mem)\<rparr>) }"

definition DsmePANDescriptorIE_SetHeaderIEDescriptor ::
  "u8 \<Rightarrow> HeaderElementIDs \<Rightarrow> DsmePANDescriptorIE \<Rightarrow> DsmePANDescriptorIE" where
  "DsmePANDescriptorIE_SetHeaderIEDescriptor len elementID f = f\<lparr>pan_descriptor :=
     HeaderIEDescriptor_SetHeaderElementID elementID (HeaderIEDescriptor_SetLength len (pan_descriptor f))\<rparr>"

definition DsmePANDescriptorIE_new :: "DsmePANDescriptorIE \<Rightarrow> DsmePANDescriptorIE option" where
  "DsmePANDescriptorIE_new mem = do {
     f \<leftarrow> DsmePANDescriptorIE_members mem;
     Some (f\<lparr>pan_descriptor := HeaderIEDescriptor_SetLength 0
       (HeaderIEDescriptor_SetHeaderElementID HEADERIE_DSME_PAN_DESCRIPTOR (pan_descriptor f))\<rparr>) }"

definition DsmePANDescriptorIE_newOf :: "u8 \<Rightarrow> HeaderElementIDs \<Rightarrow> DsmePANDescriptorIE \<Rightarrow> DsmePANDescriptorIE option" where
  "DsmePANDescriptorIE_newOf len elementID mem = do {
     f \<leftarrow> DsmePANDescriptorIE_members mem;
     Some (DsmePANDescriptorIE_SetHeaderIEDescriptor len elementID f) }"

definition DsmePANDescriptorIE_SetSuperframeField :: "SuperframeField \<Rightarrow> DsmePANDescriptorIE \<Rightarrow> DsmePANDescriptorIE" where
  [class_defs]: "DsmePANDescriptorIE_SetSuperframeField superframeField f = f\<lparr>pan_superframeField := superframeField\<rparr>"

definition DsmePANDescriptorIE_SetSuperframeFieldOf ::
  "u8 \<Rightarrow> u8 \<Rightarrow> u8 \<Rightarrow> bool \<Rightarrow> bool \<Rightarrow> bool \<Rightarrow> DsmePANDescriptorIE \<Rightarrow> DsmePANDescriptorIE option" where
  "DsmePANDescriptorIE_SetSuperframeFieldOf bcnOrder frmOrder capSlot battLifeExt panCoor assocPermit f = do {
     sf \<leftarrow> SuperframeField_SetBeaconOrder bcnOrder (pan_superframeField f);
     sf \<leftarrow> SuperframeField_SetSuperframeOrder frmOrder sf;
     sf \<leftarrow> SuperframeField_SetFinalCapSlot capSlot sf;
     let sf = SuperframeField_SetBattLifeExt battLifeExt sf;
     let sf = SuperframeField_SetPanCoor panCoor sf;
     let sf = SuperframeField_SetAssocPermit assocPermit sf;
     Some (f\<lparr>pan_superframeField := sf\<rparr>) }"

definition DsmePANDescriptorIE_SetPendingAddrFieldsOf :: "u8 \<Rightarrow> DsmePANDescriptorIE \<Rightarrow> DsmePANDescriptorIE" where
  "DsmePANDescriptorIE_SetPendingAddrFieldsOf pndAddrSpecField f =
     f\<lparr>pan_pndAddrFields := PendingAddrFields_SetPndAddrSpecField pndAddrSpecField (pan_pndAddrFields f)\<rparr>"

definition DsmePANDescriptorIE_SetPendingAddrFields :: "PendingAddrFields \<Rightarrow> DsmePANDescriptorIE \<Rightarrow> DsmePANDescriptorIE" where
  [class_defs]: "DsmePANDescriptorIE_SetPendingAddrFields pndAddrSpecField f = f\<lparr>pan_pndAddrFields := pndAddrSpecField\<rparr>"

definition DsmePANDescriptorIE_SetDsmeSuperFrameFieldPacked :: "u16 \<Rightarrow> DsmePANDescriptorIE \<Rightarrow> DsmePANDescriptorIE" where
  "DsmePANDescriptorIE_SetDsmeSuperFrameFieldPacked dsmeSuperFrm f =
     f\<lparr>pan_dsmeSuperframeField := DsmeSuperFrameField_SetDsmeSuperframe dsmeSuperFrm (pan_dsmeSuperframeField f)\<rparr>"

definition DsmePANDescriptorIE_SetDsmeSuperFrameFieldOf ::
  "u8 \<Rightarrow> bool \<Rightarrow> bool \<Rightarrow> bool \<Rightarrow> bool \<Rightarrow> DsmePANDescriptorIE \<Rightarrow> DsmePANDescriptorIE" where
  "DsmePANDescriptorIE_SetDsmeSuperFrameFieldOf multiBcnOrder channelDiversityMode gACKFlag cAPReduction deferredBcnFlag f = (
     let g = DsmeSuperFrameField_SetMultiSuperframeOrder multiBcnOrder (pan_dsmeSuperframeField f);
         g = DsmeSuperFrameField_SetChannelDiversityMode channelDiversityMode g;
         g = DsmeSuperFrameField_SetGACKFlag gACKFlag g;
         g = DsmeSuperFrameField_SetCAPReductionFlag cAPReduction g;
         g = DsmeSuperFrameField_SetDeferredBeaconFalg deferredBcnFlag g
     in f\<lparr>pan_dsmeSuperframeField := g\<rparr>)"

definition DsmePANDescriptorIE_SetDsmeSuperFrameField :: "DsmeSuperFrameField \<Rightarrow> DsmePANDescriptorIE \<Rightarrow> DsmePANDescriptorIE" where
  [class_defs]: "DsmePANDescriptorIE_SetDsmeSuperFrameField dsmeSuperFrm f = f\<lparr>pan_dsmeSuperframeField := dsmeSuperFrm\<rparr>"

definition DsmePANDescriptorIE_SetTimeSyncOf :: "u64 \<Rightarrow> u16 \<Rightarrow> DsmePANDescriptorIE \<Rightarrow> DsmePANDescriptorIE" where
  "DsmePANDescriptorIE_SetTimeSyncOf bcnTimestamp bcnOfsTimeStamp f =
     f\<lparr>pan_timeSynField := TimeSync_SetBeaconOffsetTimeStamp bcnOfsTimeStamp
       (TimeSync_SetBeaconTimeStamp bcnTimestamp (pan_timeSynField f))\<rparr>"

definition DsmePANDescriptorIE_SetTimeSync :: "TimeSync \<Rightarrow> DsmePANDescriptorIE \<Rightarrow> DsmePANDescriptorIE" where
  [class_defs]: "DsmePANDescriptorIE_SetTimeSync timeSynField f = f\<lparr>pan_timeSynField := timeSynField\<rparr>"

definition DsmePANDescriptorIE_SetBeaconBitmapOf :: "u16 \<Rightarrow> u16 \<Rightarrow> DsmePANDescriptorIE \<Rightarrow> DsmePANDescriptorIE" where
  "DsmePANDescriptorIE_SetBeaconBitmapOf sdIndex bitmapLen f =
     f\<lparr>pan_beaconBitmapField := BeaconBitmap_ResetSDBitmap (BeaconBitmap_SetBitmapLength bitmapLen
       (BeaconBitmap_SetSDIndex sdIndex (pan_beaconBitmapField f)))\<rparr>"

definition DsmePANDescriptorIE_SetBeaconBitmap :: "BeaconBitmap \<Rightarrow> DsmePANDescriptorIE \<Rightarrow> DsmePANDescriptorIE" where
  [class_defs]: "DsmePANDescriptorIE_SetBeaconBitmap beaconBitmapField f = f\<lparr>pan_beaconBitmapField := beaconBitmapField\<rparr>"

definition DsmePANDescriptorIE_SetChannelHopping :: "ChannelHopping \<Rightarrow> DsmePANDescriptorIE \<Rightarrow> DsmePANDescriptorIE" where
  [class_defs]: "DsmePANDescriptorIE_SetChannelHopping channelHoppingField f = f\<lparr>pan_channelHoppingField := channelHoppingField\<rparr>"

definition DsmePANDescriptorIE_SetChannelHoppingOf ::
  "u8 \<Rightarrow> u8 \<Rightarrow> u16 \<Rightarrow> u8 \<Rightarrow> DsmePANDescriptorIE \<Rightarrow> DsmePANDescriptorIE" where
  "DsmePANDescriptorIE_SetChannelHoppingOf seqID bcnSeqNum ofs bitmapLen f = (
     let g = ChannelHopping_SetHoppingSequenceID seqID (pan_channelHoppingField f);
         g = ChannelHopping_SetPANCoordinatorBSN bcnSeqNum g;
         g = ChannelHopping_SetChannelOffset ofs g;
         g = ChannelHopping_SetChannelOffsetBitmapLength bitmapLen g
     in f\<lparr>pan_channelHoppingField := ChannelHopping_ResetChannelOffsetBitmap g\<rparr>)"

definition DsmePANDescriptorIE_SetGroupACK :: "GroupACK \<Rightarrow> DsmePANDescriptorIE \<Rightarrow> DsmePANDescriptorIE" where
  [class_defs]: "DsmePANDescriptorIE_SetGroupACK gack f = f\<lparr>pan_gack := gack\<rparr>"

definition DsmePANDescriptorIE_SetGroupACKOf ::
  "u16 \<Rightarrow> u8 \<Rightarrow> u8 \<Rightarrow> u16 \<Rightarrow> u16 \<Rightarrow> u8 \<Rightarrow> DsmePANDescriptorIE \<Rightarrow> DsmePANDescriptorIE" where
  "DsmePANDescriptorIE_SetGroupACKOf gack1superFrmID gack1SlotID gack1ChannelID gack2superFrmID gack2SlotID gack2ChannelID f = (
     let g = GroupACK_SetGACK1SuperframeID gack1superFrmID (pan_gack f);
         g = GroupACK_SetGACK1SlotID gack1SlotID g;
         g = GroupACK_SetGACK1ChannelID gack1ChannelID g;
         g = GroupACK_SetGACK2SuperframeID gack2superFrmID g;
         g = GroupACK_SetGACK2SlotID gack2SlotID g;
         g = GroupACK_SetGACK2ChannelID gack2ChannelID g
     in f\<lparr>pan_gack := g\<rparr>)"

definition DsmePANDescriptorIE_GetHeaderIEDescriptor :: "DsmePANDescriptorIE \<Rightarrow> HeaderIEDescriptor" where
  [class_defs]: "DsmePANDescriptorIE_GetHeaderIEDescriptor f = pan_descriptor f"

definition DsmePANDescriptorIE_GetSuperframeField :: "DsmePANDescriptorIE \<Rightarrow> SuperframeField" where
  [class_defs]: "DsmePANDescriptorIE_GetSuperframeField f = pan_superframeField f"

definition DsmePANDescriptorIE_GetPendingAddrFields :: "DsmePANDescriptorIE \<Rightarrow> PendingAddrFields" where
  [class_defs]: "DsmePANDescriptorIE_GetPendingAddrFields f = pan_pndAddrFields f"

definition DsmePANDescriptorIE_GetDsmeSuperFrameField :: "DsmePANDescriptorIE \<Rightarrow> DsmeSuperFrameField" where
  [class_defs]: "DsmePANDescriptorIE_GetDsmeSuperFrameField f = pan_dsmeSuperframeField f"

definition DsmePANDescriptorIE_GetTimeSync :: "DsmePANDescriptorIE \<Rightarrow> TimeSync" where
  [class_defs]: "DsmePANDescriptorIE_GetTimeSync f = pan_timeSynField f"

definition DsmePANDescriptorIE_GetBeaconBitmap :: "DsmePANDescriptorIE \<Rightarrow> BeaconBitmap" where
  [class_defs]: "DsmePANDescriptorIE_GetBeaconBitmap f = pan_beaconBitmapField f"

definition DsmePANDescriptorIE_GetChannelHopping :: "DsmePANDescriptorIE \<Rightarrow> ChannelHopping" where
  [class_defs]: "DsmePANDescriptorIE_GetChannelHopping f = pan_channelHoppingField f"

definition DsmePANDescriptorIE_GetGroupACK :: "DsmePANDescriptorIE \<Rightarrow> GroupACK" where
  [class_defs]: "DsmePANDescriptorIE_GetGroupACK f = pan_gack f"

definition DsmePANDescriptorIE_GetSerializedSize :: "DsmePANDescriptorIE \<Rightarrow> nat" where
  "DsmePANDescriptorIE_GetSerializedSize f = (
     let size = 0;
         size = size + HeaderIEDescriptor_GetSerializedSize (pan_descriptor f);
         size = size + SuperframeField_GetSerializedSize (pan_superframeField f);
         size = size + PendingAddrFields_GetSerializedSize (pan_pndAddrFields f);
         size = size + DsmeSuperFrameField_GetSerializedSize (pan_dsmeSuperframeField f);
         size = size + TimeSync_GetSerializedSize (pan_timeSynField f);
         size = size + BeaconBitmap_GetSerializedSize (pan_beaconBitmapField f);
         size = size + ChannelHopping_GetSerializedSize (pan_channelHoppingField f);
         size = size + GroupACK_GetSerializedSize (pan_gack f)
     in size)"

definition DsmePANDescriptorIE_Serialize :: "DsmePANDescriptorIE \<Rightarrow> iter \<Rightarrow> iter option" where
  "DsmePANDescriptorIE_Serialize f i = do {
     i \<leftarrow> HeaderIEDescriptor_Serialize (pan_descriptor f) i;
     i \<leftarrow> SuperframeField_Serialize (pan_superframeField f) i;
     i \<leftarrow> PendingAddrFields_Serialize (pan_pndAddrFields f) i;
     i \<leftarrow> DsmeSuperFrameField_Serialize (pan_dsmeSuperframeField f) i;
     i \<leftarrow> TimeSync_Serialize (pan_timeSynField f) i;
     i \<leftarrow> BeaconBitmap_Serialize (pan_beaconBitmapField f) i;
     i \<leftarrow> ChannelHopping_Serialize (pan_channelHoppingField f) i;
     GroupACK_Serialize (pan_gack f) i }"

definition DsmePANDescriptorIE_Deserialize :: "DsmePANDescriptorIE \<Rightarrow> iter \<Rightarrow> (DsmePANDescriptorIE \<times> iter) option" where
  "DsmePANDescriptorIE_Deserialize f i = do {
     (x, i) \<leftarrow> HeaderIEDescriptor_Deserialize (pan_descriptor f) i;
     let f = f\<lparr>pan_descriptor := x\<rparr>;
     (x, i) \<leftarrow> SuperframeField_Deserialize (pan_superframeField f) i;
     let f = f\<lparr>pan_superframeField := x\<rparr>;
     (x, i) \<leftarrow> PendingAddrFields_Deserialize (pan_pndAddrFields f) i;
     let f = f\<lparr>pan_pndAddrFields := x\<rparr>;
     (x, i) \<leftarrow> DsmeSuperFrameField_Deserialize (pan_dsmeSuperframeField f) i;
     let f = f\<lparr>pan_dsmeSuperframeField := x\<rparr>;
     (x, i) \<leftarrow> TimeSync_Deserialize (pan_timeSynField f) i;
     let f = f\<lparr>pan_timeSynField := x\<rparr>;
     (x, i) \<leftarrow> BeaconBitmap_Deserialize (pan_beaconBitmapField f) i;
     let f = f\<lparr>pan_beaconBitmapField := x\<rparr>;
     (x, i) \<leftarrow> ChannelHopping_Deserialize (pan_channelHoppingField f) i;
     let f = f\<lparr>pan_channelHoppingField := x\<rparr>;
     (x, i) \<leftarrow> GroupACK_Deserialize (pan_gack f) i;
     Some (f\<lparr>pan_gack := x\<rparr>, i) }"

definition pan_ok :: "DsmePANDescriptorIE \<Rightarrow> bool" where
  "pan_ok f \<longleftrightarrow> hie_ok (pan_descriptor f) \<and> superframe_ok (pan_superframeField f) \<and>
     pending_ok (pan_pndAddrFields f) \<and> dsme_superframe_ok (pan_dsmeSuperframeField f) \<and>
     bitmap_ok (pan_beaconBitmapField f) \<and> hopping_ok (pan_channelHoppingField f) \<and> groupack_ok (pan_gack f)"

definition pan_wire :: "DsmePANDescriptorIE \<Rightarrow> u8 list" where
  "pan_wire f = hie_wire (pan_descriptor f) @ SuperframeField_wire (pan_superframeField f) @
     PendingAddrFields_wire (pan_pndAddrFields f) @ DsmeSuperFrameField_wire (pan_dsmeSuperframeField f) @
     TimeSync_wire (pan_timeSynField f) @ BeaconBitmap_wire (pan_beaconBitmapField f) @
     ChannelHopping_wire (pan_channelHoppingField f) @ GroupACK_wire (pan_gack f)"

text \<open>All but the unused entries of the address arrays and the beacon offset travel.\<close>

definition pan_rebuilt :: "DsmePANDescriptorIE \<Rightarrow> DsmePANDescriptorIE \<Rightarrow> DsmePANDescriptorIE" where
  "pan_rebuilt f0 f = f\<lparr>pan_pndAddrFields := pending_rebuilt (pan_pndAddrFields f0) (pan_pndAddrFields f),
     pan_timeSynField := timesync_rebuilt (pan_timeSynField f0) (pan_timeSynField f)\<rparr>"

lemma groupack_wire_simps [wire_simps]:
  "groupack_ok f \<Longrightarrow> GroupACK_Serialize f i = WriteBuf (GroupACK_wire f) i"
  "groupack_ok f \<Longrightarrow> GroupACK_Deserialize f0 (d, GroupACK_wire f @ r) = Some (f, (d @ GroupACK_wire f, r))"
  by (simp_all add: group_ack.ser_wire group_ack.deser_wire)

lemma pan_codec:
  assumes "pan_ok f"
  shows "DsmePANDescriptorIE_Serialize f i = WriteBuf (pan_wire f) i"
    and "length (pan_wire f) = DsmePANDescriptorIE_GetSerializedSize f"
    and "DsmePANDescriptorIE_Deserialize f0 (d, pan_wire f @ r) = Some (pan_rebuilt f0 f, (d @ pan_wire f, r))"
proof -
  from assms have ok: "hie_ok (pan_descriptor f)" "superframe_ok (pan_superframeField f)"
    "pending_ok (pan_pndAddrFields f)" "dsme_superframe_ok (pan_dsmeSuperframeField f)"
    "bitmap_ok (pan_beaconBitmapField f)" "hopping_ok (pan_channelHoppingField f)" "groupack_ok (pan_gack f)"
    by (simp_all add: pan_ok_def)
  show "DsmePANDescriptorIE_Serialize f i = WriteBuf (pan_wire f) i"
    using ok by (simp add: DsmePANDescriptorIE_Serialize_def pan_wire_def wire_simps)
  show "length (pan_wire f) = DsmePANDescriptorIE_GetSerializedSize f"
    using ok by (simp add: DsmePANDescriptorIE_GetSerializedSize_def pan_wire_def HeaderIEDescriptor_GetSerializedSize_def
        SuperframeField_GetSerializedSize_def DsmeSuperFrameField_GetSerializedSize_def TimeSync_GetSerializedSize_def
        pending.size_wire beacon_bitmap.size_wire channel_hopping.size_wire group_ack.size_wire)
  show "DsmePANDescriptorIE_Deserialize f0 (d, pan_wire f @ r) = Some (pan_rebuilt f0 f, (d @ pan_wire f, r))"
    using ok by (cases f; cases f0) (simp add: DsmePANDescriptorIE_Deserialize_def pan_wire_def pan_rebuilt_def wire_simps)
qed

interpretation pan_descriptor_ie: header_codec DsmePANDescriptorIE_GetSerializedSize pan_wire
  DsmePANDescriptorIE_Serialize DsmePANDescriptorIE_Deserialize pan_ok "\<lambda>_ _. True" pan_rebuilt
  by unfold_locales (simp_all add: pan_codec)

subsection \<open>PayloadIEDescriptor\<close>

record PayloadIEDescriptor =
  pie_length :: u16
  pie_elementId :: PayloadIEGroupIDs
  pie_type :: bool

definition PayloadIEDescriptor_new :: "PayloadIEDescriptor \<Rightarrow> PayloadIEDescriptor" where
  "PayloadIEDescriptor_new mem = mem\<lparr>pie_length := 0, pie_type := True\<rparr>"

definition PayloadIEDescriptor_newOf :: "u8 \<Rightarrow> PayloadIEGroupIDs \<Rightarrow> bool \<Rightarrow> PayloadIEDescriptor" where
  "PayloadIEDescriptor_newOf len id' type = \<lparr>pie_length = ucast len, pie_elementId = id', pie_type = type\<rparr>"

definition PayloadIEDescriptor_SetLength :: "u16 \<Rightarrow> PayloadIEDescriptor \<Rightarrow> PayloadIEDescriptor" where
  [class_defs]: "PayloadIEDescriptor_SetLength len f = f\<lparr>pie_length := len\<rparr>"

definition PayloadIEDescriptor_SetPayloadIEGroupID :: "PayloadIEGroupIDs \<Rightarrow> PayloadIEDescriptor \<Rightarrow> PayloadIEDescriptor" where
  [class_defs]: "PayloadIEDescriptor_SetPayloadIEGroupID id' f = f\<lparr>pie_elementId := id'\<rparr>"

definition PayloadIEDescriptor_GetLength :: "PayloadIEDescriptor \<Rightarrow> u16" where
  [class_defs]: "PayloadIEDescriptor_GetLength f = pie_length f"

definition PayloadIEDescriptor_GetPayloadIEGroupID :: "PayloadIEDescriptor \<Rightarrow> PayloadIEGroupIDs" where
  [class_defs]: "PayloadIEDescriptor_GetPayloadIEGroupID f = pie_elementId f"

definition PayloadIEDescriptor_GetType :: "PayloadIEDescriptor \<Rightarrow> bool" where
  [class_defs]: "PayloadIEDescriptor_GetType f = pie_type f"

text \<open>The length field has bits 0 to 10 in the standard; the mask keeps ten of them.\<close>

definition PayloadIEDescriptor_GetDescriptor :: "PayloadIEDescriptor \<Rightarrow> u16" where
  "PayloadIEDescriptor_GetDescriptor f = (
     let descriptor = ucast ((ucast (pie_length f) :: cint) AND 0x3ff);
         descriptor = descriptor OR ucast (putField (ucast (pie_elementId f) :: cint) 11 0xf);
         descriptor = descriptor OR ucast (putField (of_bool (pie_type f) :: cint) 15 1)
     in descriptor)"

definition PayloadIEDescriptor_SetDescriptor :: "u16 \<Rightarrow> PayloadIEDescriptor \<Rightarrow> PayloadIEDescriptor" where
  "PayloadIEDescriptor_SetDescriptor descriptor f = f\<lparr>
     pie_length := descriptor AND 0x3ff,
     pie_elementId := ucast (getField descriptor 11 0xf),
     pie_type := (getField descriptor 15 1 \<noteq> 0)\<rparr>"

definition PayloadIEDescriptor_GetSerializedSize :: "PayloadIEDescriptor \<Rightarrow> nat" where
  "PayloadIEDescriptor_GetSerializedSize f = 2"

definition PayloadIEDescriptor_Serialize :: "PayloadIEDescriptor \<Rightarrow> iter \<Rightarrow> iter option" where
  "PayloadIEDescriptor_Serialize f i = WriteHtolsbU16 (PayloadIEDescriptor_GetDescriptor f) i"

definition PayloadIEDescriptor_Deserialize :: "PayloadIEDescriptor \<Rightarrow> iter \<Rightarrow> (PayloadIEDescriptor \<times> iter) option" where
  "PayloadIEDescriptor_Deserialize f i = do {
     (descriptor, i) \<leftarrow> ReadLsbtohU16 i;
     Some (PayloadIEDescriptor_SetDescriptor descriptor f, i) }"

definition pie_ok :: "PayloadIEDescriptor \<Rightarrow> bool" where
  "pie_ok f \<longleftrightarrow> fits 10 (pie_length f) \<and> fits 4 (pie_elementId f)"

definition pie_wire :: "PayloadIEDescriptor \<Rightarrow> u8 list" where
  "pie_wire f = le16 (PayloadIEDescriptor_GetDescriptor f)"

lemma bit_pie:
  "bit (PayloadIEDescriptor_GetDescriptor f) n \<longleftrightarrow>
     n < 10 \<and> bit (pie_length f) n \<or> 11 \<le> n \<and> n < 15 \<and> bit (pie_elementId f) (n - 11) \<or> n = 15 \<and> pie_type f"
proof -
  have "bit (ucast ((ucast (v :: u16) :: cint) AND 0x3ff) :: u16) n \<longleftrightarrow> n < 10 \<and> bit v n" for v
    by (auto simp: and_mask bit_simps)
  then show ?thesis
    unfolding PayloadIEDescriptor_GetDescriptor_def Let_def bit_or_iff by (simp add: bit_part_in disj_assoc)
qed

text \<open>What arrives: the low ten bits of the length and the low four of the identifier.\<close>

lemma pie_unpack_pack:
  "PayloadIEDescriptor_SetDescriptor (PayloadIEDescriptor_GetDescriptor f) f0 =
   f\<lparr>pie_length := take_bit 10 (pie_length f), pie_elementId := take_bit 4 (pie_elementId f)\<rparr>"
proof -
  have "PayloadIEDescriptor_GetDescriptor f AND 0x3ff = take_bit 10 (pie_length f)"
    by (rule bit_word_eqI) (auto simp: and_mask bit_simps bit_pie)
  moreover have "ucast (getField (PayloadIEDescriptor_GetDescriptor f) 11 0xf) = take_bit 4 (pie_elementId f)"
    by (rule bit_word_eqI) (auto simp: getField_def and_mask bit_simps bit_pie)
  moreover have "getField (PayloadIEDescriptor_GetDescriptor f) 15 1 \<noteq> 0 \<longleftrightarrow> pie_type f"
    by (simp add: getField_1_nonzero bit_pie)
  ultimately show ?thesis by (cases f; cases f0) (simp add: PayloadIEDescriptor_SetDescriptor_def)
qed

lemma pie_wire_simps [wire_simps]:
  "PayloadIEDescriptor_Serialize f i = WriteBuf (pie_wire f) i"
  "pie_ok f \<Longrightarrow> PayloadIEDescriptor_Deserialize f0 (d, pie_wire f @ r) = Some (f, (d @ pie_wire f, r))"
  by (simp_all add: PayloadIEDescriptor_Serialize_def PayloadIEDescriptor_Deserialize_def pie_wire_def pie_ok_def
      fits_def pie_unpack_pack wire_simps)

lemma length_pie_wire [simp]: "length (pie_wire f) = 2"
  by (simp add: pie_wire_def)

interpretation payload_ie: lossless_codec PayloadIEDescriptor_GetSerializedSize pie_wire PayloadIEDescriptor_Serialize
  PayloadIEDescriptor_Deserialize pie_ok "\<lambda>_ _. True" "\<lambda>_ f. f"
  by unfold_locales (simp_all add: wire_simps PayloadIEDescriptor_GetSerializedSize_def)

subsection \<open>PayloadIETermination\<close>

record PayloadIETermination =
  pterm_descriptor :: PayloadIEDescriptor

definition PayloadIETermination_new :: "PayloadIETermination \<Rightarrow> PayloadIETermination" where
  "PayloadIETermination_new mem = mem\<lparr>pterm_descriptor := PayloadIEDescriptor_SetPayloadIEGroupID PAYLOADIE_LIST_TERMINATION
     (PayloadIEDescriptor_SetLength 0 (PayloadIEDescriptor_new (pterm_descriptor mem)))\<rparr>"

definition PayloadIETermination_GetSerializedSize :: "PayloadIETermination \<Rightarrow> nat" where
  "PayloadIETermination_GetSerializedSize f = PayloadIEDescriptor_GetSerializedSize (pterm_descriptor f)"

definition PayloadIETermination_Serialize :: "PayloadIETermination \<Rightarrow> iter \<Rightarrow> iter option" where
  "PayloadIETermination_Serialize f i = PayloadIEDescriptor_Serialize (pterm_descriptor f) i"

definition PayloadIETermination_Deserialize :: "PayloadIETermination \<Rightarrow> iter \<Rightarrow> (PayloadIETermination \<times> iter) option" where
  "PayloadIETermination_Deserialize f i = do {
     (g, i) \<leftarrow> PayloadIEDescriptor_Deserialize (pterm_descriptor f) i;
     Some (f\<lparr>pterm_descriptor := g\<rparr>, i) }"

definition pterm_wire :: "PayloadIETermination \<Rightarrow> u8 list" where
  "pterm_wire f = pie_wire (pterm_descriptor f)"

lemma pterm_wire_simps [wire_simps]:
  "PayloadIETermination_Serialize f i = WriteBuf (pterm_wire f) i"
  "pie_ok (pterm_descriptor f) \<Longrightarrow>
   PayloadIETermination_Deserialize f0 (d, pterm_wire f @ r) = Some (f, (d @ pterm_wire f, r))"
  by (simp_all add: PayloadIETermination_Serialize_def PayloadIETermination_Deserialize_def pterm_wire_def wire_simps)

interpretation payload_termination: lossless_codec PayloadIETermination_GetSerializedSize pterm_wire
  PayloadIETermination_Serialize PayloadIETermination_Deserialize "\<lambda>f. pie_ok (pterm_descriptor f)" "\<lambda>_ _. True" "\<lambda>_ f. f"
  by unfold_locales (simp_all add: wire_simps PayloadIETermination_GetSerializedSize_def
      PayloadIEDescriptor_GetSerializedSize_def, simp add: pterm_wire_def)

text \<open>
  The two terminations as their constructors make them are told apart by the highest bit of
  the descriptor, which is the type: 0 for a header element, 1 for a payload element.
\<close>

lemma terminations_differ:
  "hterm_wire (HeaderIETermination_new h) = [0, 0x3f]" "pterm_wire (PayloadIETermination_new p) = [0, 0xf8]"
proof -
  show "hterm_wire (HeaderIETermination_new h) = [0, 0x3f]"
    by (simp add: hterm_wire_def hie_wire_def HeaderIETermination_new_def HeaderIEDescriptor_new_def class_defs
        HeaderIEDescriptor_GetDescriptor_def putField_def le16_def)
  show "pterm_wire (PayloadIETermination_new p) = [0, 0xf8]"
    by (simp add: pterm_wire_def pie_wire_def PayloadIETermination_new_def PayloadIEDescriptor_new_def class_defs
        PayloadIEDescriptor_GetDescriptor_def putField_def le16_def)
qed

end
