(* ===== verification/Mac_Payloads.thy ===== *)
theory Mac_Payloads
  imports Gts_Fields Information_Elements
begin

section \<open>MAC payloads: beacons and commands\<close>

text \<open>
  \<open>BeaconPayloadHeader\<close>, \<open>CommandPayloadHeader\<close> and \<open>TestNewHeader\<close> of
  \<open>lr-wpan-mac-pl-headers\<close>. A command is one octet that names it followed by what the command
  carries; \<open>GetSerializedSize\<close>, \<open>Serialize\<close> and \<open>Deserialize\<close> are three switches over the
  name that have to agree. \<open>cmd_ok\<close> is where they do; the commands for which they do not
  (DSME information request, DSME information reply with a PAN descriptor) have lemmas of their own.
\<close>

subsection \<open>BeaconPayloadHeader\<close>

record BeaconPayloadHeader =
  bcn_superframeField :: SuperframeField
  bcn_gtsFields :: GtsFields
  bcn_pndAddrFields :: PendingAddrFields

definition BeaconPayloadHeader_new :: "BeaconPayloadHeader \<Rightarrow> BeaconPayloadHeader option" where
  "BeaconPayloadHeader_new mem = do {
     sf \<leftarrow> SuperframeField_new (bcn_superframeField mem);
     Some (mem\<lparr>bcn_superframeField := sf, bcn_gtsFields := GtsFields_new (bcn_gtsFields mem),
       bcn_pndAddrFields := PendingAddrFields_new (bcn_pndAddrFields mem)\<rparr>) }"

definition BeaconPayloadHeader_GetSerializedSize :: "BeaconPayloadHeader \<Rightarrow> nat" where
  "BeaconPayloadHeader_GetSerializedSize f = (
     let size = 0;
         size = size + SuperframeField_GetSerializedSize (bcn_superframeField f);
         size = size + GtsFields_GetSerializedSize (bcn_gtsFields f);
         size = size + PendingAddrFields_GetSerializedSize (bcn_pndAddrFields f)
     in size)"

definition BeaconPayloadHeader_Serialize :: "BeaconPayloadHeader \<Rightarrow> iter \<Rightarrow> iter option" where
  "BeaconPayloadHeader_Serialize f i = do {
     i \<leftarrow> SuperframeField_Serialize (bcn_superframeField f) i;
     i \<leftarrow> GtsFields_Serialize (bcn_gtsFields f) i;
     PendingAddrFields_Serialize (bcn_pndAddrFields f) i }"

definition BeaconPayloadHeader_Deserialize :: "BeaconPayloadHeader \<Rightarrow> iter \<Rightarrow> (BeaconPayloadHeader \<times> iter) option" where
  "BeaconPayloadHeader_Deserialize f i = do {
     (x, i) \<leftarrow> SuperframeField_Deserialize (bcn_superframeField f) i;
     let f = f\<lparr>bcn_superframeField := x\<rparr>;
     (x, i) \<leftarrow> GtsFields_Deserialize (bcn_gtsFields f) i;
     let f = f\<lparr>bcn_gtsFields := x\<rparr>;
     (x, i) \<leftarrow> PendingAddrFields_Deserialize (bcn_pndAddrFields f) i;
     Some (f\<lparr>bcn_pndAddrFields := x\<rparr>, i) }"

definition BeaconPayloadHeader_SetSuperframeSpecField :: "SuperframeField \<Rightarrow> BeaconPayloadHeader \<Rightarrow> BeaconPayloadHeader" where
  [class_defs]: "BeaconPayloadHeader_SetSuperframeSpecField sf f = f\<lparr>bcn_superframeField := sf\<rparr>"

definition BeaconPayloadHeader_SetGtsFields :: "GtsFields \<Rightarrow> BeaconPayloadHeader \<Rightarrow> BeaconPayloadHeader" where
  [class_defs]: "BeaconPayloadHeader_SetGtsFields gtsFields f = f\<lparr>bcn_gtsFields := gtsFields\<rparr>"

definition BeaconPayloadHeader_SetPndAddrFields :: "PendingAddrFields \<Rightarrow> BeaconPayloadHeader \<Rightarrow> BeaconPayloadHeader" where
  [class_defs]: "BeaconPayloadHeader_SetPndAddrFields pndAddrFields f = f\<lparr>bcn_pndAddrFields := pndAddrFields\<rparr>"

definition BeaconPayloadHeader_GetSuperframeSpecField :: "BeaconPayloadHeader \<Rightarrow> SuperframeField" where
  [class_defs]: "BeaconPayloadHeader_GetSuperframeSpecField f = bcn_superframeField f"

definition BeaconPayloadHeader_GetGtsFields :: "BeaconPayloadHeader \<Rightarrow> GtsFields" where
  [class_defs]: "BeaconPayloadHeader_GetGtsFields f = bcn_gtsFields f"

definition BeaconPayloadHeader_GetPndAddrFields :: "BeaconPayloadHeader \<Rightarrow> PendingAddrFields" where
  [class_defs]: "BeaconPayloadHeader_GetPndAddrFields f = bcn_pndAddrFields f"

definition beacon_ok :: "BeaconPayloadHeader \<Rightarrow> bool" where
  "beacon_ok f \<longleftrightarrow> superframe_ok (bcn_superframeField f) \<and> gts_ok (bcn_gtsFields f) \<and> pending_ok (bcn_pndAddrFields f)"

definition beacon_wire :: "BeaconPayloadHeader \<Rightarrow> u8 list" where
  "beacon_wire f = SuperframeField_wire (bcn_superframeField f) @ GtsFields_wire (bcn_gtsFields f) @
     PendingAddrFields_wire (bcn_pndAddrFields f)"

definition beacon_rebuilt :: "BeaconPayloadHeader \<Rightarrow> BeaconPayloadHeader \<Rightarrow> BeaconPayloadHeader" where
  "beacon_rebuilt f0 f = f\<lparr>bcn_gtsFields := gts_rebuilt (bcn_gtsFields f0) (bcn_gtsFields f),
     bcn_pndAddrFields := pending_rebuilt (bcn_pndAddrFields f0) (bcn_pndAddrFields f)\<rparr>"

lemma beacon_codec:
  assumes "beacon_ok f"
  shows "BeaconPayloadHeader_Serialize f i = WriteBuf (beacon_wire f) i"
    and "length (beacon_wire f) = BeaconPayloadHeader_GetSerializedSize f"
    and "BeaconPayloadHeader_Deserialize f0 (d, beacon_wire f @ r) = Some (beacon_rebuilt f0 f, (d @ beacon_wire f, r))"
proof -
  from assms have ok: "superframe_ok (bcn_superframeField f)" "gts_ok (bcn_gtsFields f)" "pending_ok (bcn_pndAddrFields f)"
    by (simp_all add: beacon_ok_def)
  then show "BeaconPayloadHeader_Serialize f i = WriteBuf (beacon_wire f) i"
    by (simp add: BeaconPayloadHeader_Serialize_def beacon_wire_def wire_simps)
  show "length (beacon_wire f) = BeaconPayloadHeader_GetSerializedSize f"
    using ok by (simp add: BeaconPayloadHeader_GetSerializedSize_def beacon_wire_def SuperframeField_GetSerializedSize_def
        gts.size_wire pending.size_wire)
  show "BeaconPayloadHeader_Deserialize f0 (d, beacon_wire f @ r) = Some (beacon_rebuilt f0 f, (d @ beacon_wire f, r))"
    using ok by (cases f; cases f0) (simp add: BeaconPayloadHeader_Deserialize_def beacon_wire_def beacon_rebuilt_def wire_simps)
qed

interpretation beacon: header_codec BeaconPayloadHeader_GetSerializedSize beacon_wire BeaconPayloadHeader_Serialize
  BeaconPayloadHeader_Deserialize beacon_ok "\<lambda>_ _. True" beacon_rebuilt
  by unfold_locales (simp_all add: beacon_codec)

subsection \<open>Commands: state\<close>

datatype MacCommand = ASSOCIATION_REQ | ASSOCIATION_RESP | DISASSOCIATION_NOTIF | DATA_REQ | PANID_CONFLICT |
  ORPHAN_NOTIF | BEACON_REQ | COOR_REALIGN | GTS_REQ | DSME_ASSOCIATION_REQ | DSME_ASSOCIATION_RESP |
  DSME_GTS_REQ | DSME_GTS_REPLY | DSME_GTS_NOTIFY | DSME_INFO_REQ | DSME_INFO_REPLY |
  DSME_BEACON_ALLOC_NOTIF | DSME_BEACON_COLLISION_NOTIF | DSME_LINK_STATUS_REPORT | CMD_RESERVED

fun MacCommand_val :: "MacCommand \<Rightarrow> u8" where
  "MacCommand_val ASSOCIATION_REQ = 0x01"
| "MacCommand_val ASSOCIATION_RESP = 0x02"
| "MacCommand_val DISASSOCIATION_NOTIF = 0x03"
| "MacCommand_val DATA_REQ = 0x04"
| "MacCommand_val PANID_CONFLICT = 0x05"
| "MacCommand_val ORPHAN_NOTIF = 0x06"
| "MacCommand_val BEACON_REQ = 0x07"
| "MacCommand_val COOR_REALIGN = 0x08"
| "MacCommand_val GTS_REQ = 0x09"
| "MacCommand_val DSME_ASSOCIATION_REQ = 0x13"
| "MacCommand_val DSME_ASSOCIATION_RESP = 0x14"
| "MacCommand_val DSME_GTS_REQ = 0x15"
| "MacCommand_val DSME_GTS_REPLY = 0x16"
| "MacCommand_val DSME_GTS_NOTIFY = 0x17"
| "MacCommand_val DSME_INFO_REQ = 0x18"
| "MacCommand_val DSME_INFO_REPLY = 0x19"
| "MacCommand_val DSME_BEACON_ALLOC_NOTIF = 0x1a"
| "MacCommand_val DSME_BEACON_COLLISION_NOTIF = 0x1b"
| "MacCommand_val DSME_LINK_STATUS_REPORT = 0x1c"
| "MacCommand_val CMD_RESERVED = 0xff"

text \<open>The identifier is the integer that was stored or read; the statuses are integers as well.\<close>

record CommandPayloadHeader =
  m_cmdFrameId :: u8
  m_capabilityInfo :: CapabilityField
  m_shortAddr :: mac16
  m_assocStatus :: u8
  m_disassociationReason :: u8
  m_panId :: u16
  m_coordShortAddr :: mac16
  m_channelNum :: u8
  m_channelPage :: u8
  m_hoppingSeqId :: u8
  m_channelOfs :: u16
  m_hoppingSeqLen :: u8
  m_hoppingSeq :: HoppingSequence
  m_dsmeGTSManagement :: DSMEGTSManagementField
  m_numOfSlot :: u8
  m_preferredSuperframeID :: u16
  m_preferredSlotID :: u8
  m_dsmeSABSpec :: DSMESABSpecificationField
  m_destAddr :: mac16
  m_infoType :: u8
  cmd_dsmeSABSubBlkLen :: u8
  cmd_dsmeSABSubBlkIdx :: u16
  m_timestamp :: u64
  m_superframeID :: u16
  m_slotID :: u8
  m_dsmePANDercriptorIE :: DsmePANDescriptorIE
  m_allocationBcnSDIndex :: u16
  m_collisionSDIndex :: u16
  m_dsmeLinkStatusSpecField :: LinkStatusSpecificationField
  m_allocationSequence :: u16

definition CommandPayloadHeader_SetCommandFrameType :: "MacCommand \<Rightarrow> CommandPayloadHeader \<Rightarrow> CommandPayloadHeader" where
  [class_defs]: "CommandPayloadHeader_SetCommandFrameType macCommand f = f\<lparr>m_cmdFrameId := MacCommand_val macCommand\<rparr>"

definition CommandPayloadHeader_GetCommandFrameType :: "CommandPayloadHeader \<Rightarrow> MacCommand" where
  "CommandPayloadHeader_GetCommandFrameType f = (
     if m_cmdFrameId f = 0x01 then ASSOCIATION_REQ
     else if m_cmdFrameId f = 0x02 then ASSOCIATION_RESP
     else if m_cmdFrameId f = 0x03 then DISASSOCIATION_NOTIF
     else if m_cmdFrameId f = 0x04 then DATA_REQ
     else if m_cmdFrameId f = 0x05 then PANID_CONFLICT
     else if m_cmdFrameId f = 0x06 then ORPHAN_NOTIF
     else if m_cmdFrameId f = 0x07 then BEACON_REQ
     else if m_cmdFrameId f = 0x08 then COOR_REALIGN
     else if m_cmdFrameId f = 0x09 then GTS_REQ
     else if m_cmdFrameId f = 0x13 then DSME_ASSOCIATION_REQ
     else if m_cmdFrameId f = 0x14 then DSME_ASSOCIATION_RESP
     else if m_cmdFrameId f = 0x15 then DSME_GTS_REQ
     else if m_cmdFrameId f = 0x16 then DSME_GTS_REPLY
     else if m_cmdFrameId f = 0x17 then DSME_GTS_NOTIFY
     else if m_cmdFrameId f = 0x18 then DSME_INFO_REQ
     else if m_cmdFrameId f = 0x19 then DSME_INFO_REPLY
     else if m_cmdFrameId f = 0x1a then DSME_BEACON_ALLOC_NOTIF
     else if m_cmdFrameId f = 0x1b then DSME_BEACON_COLLISION_NOTIF
     else if m_cmdFrameId f = 0x1c then DSME_LINK_STATUS_REPORT
     else CMD_RESERVED)"

lemma GetCommandFrameType_val:
  "m_cmdFrameId f = MacCommand_val c \<Longrightarrow> CommandPayloadHeader_GetCommandFrameType f = c"
  by (cases c) (simp_all add: CommandPayloadHeader_GetCommandFrameType_def)

lemma GetCommandFrameType_cong:
  "m_cmdFrameId f = m_cmdFrameId g \<Longrightarrow> CommandPayloadHeader_GetCommandFrameType f = CommandPayloadHeader_GetCommandFrameType g"
  by (simp add: CommandPayloadHeader_GetCommandFrameType_def)

text \<open>Construction: the members of class type are constructed, the others keep what the memory held.\<close>

definition CommandPayloadHeader_newOf :: "MacCommand \<Rightarrow> CommandPayloadHeader \<Rightarrow> CommandPayloadHeader option" where
  "CommandPayloadHeader_newOf macCmd mem = do {
     pan \<leftarrow> DsmePANDescriptorIE_new (m_dsmePANDercriptorIE mem);
     Some (CommandPayloadHeader_SetCommandFrameType macCmd (mem\<lparr>
       m_capabilityInfo := CapabilityField_new (m_capabilityInfo mem),
       m_shortAddr := Mac16Address 0 0, m_coordShortAddr := Mac16Address 0 0, m_destAddr := Mac16Address 0 0,
       m_hoppingSeq := (m_hoppingSeq mem)\<lparr>m_channelList := []\<rparr>,
       m_dsmeSABSpec := (m_dsmeSABSpec mem)\<lparr>m_dsmeSABSubBlk := [], m_dsmeSABSubBlkCapOff := []\<rparr>,
       m_dsmePANDercriptorIE := pan,
       m_dsmeLinkStatusSpecField := (m_dsmeLinkStatusSpecField mem)\<lparr>m_linkStatusList := []\<rparr>\<rparr>)) }"

definition CommandPayloadHeader_new :: "CommandPayloadHeader \<Rightarrow> CommandPayloadHeader option" where
  "CommandPayloadHeader_new mem = CommandPayloadHeader_newOf CMD_RESERVED mem"

subsection \<open>Commands: setters and getters\<close>

text \<open>Several members are guarded by an assertion on the command.\<close>

definition ifCommand :: "MacCommand list \<Rightarrow> CommandPayloadHeader \<Rightarrow> 'a \<Rightarrow> 'a option" where
  "ifCommand cs f x = (if m_cmdFrameId f \<in> set (map MacCommand_val cs) then Some x else None)"

definition CommandPayloadHeader_SetCapabilityField :: "CapabilityField \<Rightarrow> CommandPayloadHeader \<Rightarrow> CommandPayloadHeader option" where
  [class_defs]: "CommandPayloadHeader_SetCapabilityField cap f = ifCommand [ASSOCIATION_REQ, DSME_ASSOCIATION_REQ] f (f\<lparr>m_capabilityInfo := cap\<rparr>)"

definition CommandPayloadHeader_SetDisassociationReason :: "u8 \<Rightarrow> CommandPayloadHeader \<Rightarrow> CommandPayloadHeader option" where
  [class_defs]: "CommandPayloadHeader_SetDisassociationReason reason f = ifCommand [DISASSOCIATION_NOTIF] f (f\<lparr>m_disassociationReason := reason\<rparr>)"

definition CommandPayloadHeader_SetShortAddr :: "mac16 \<Rightarrow> CommandPayloadHeader \<Rightarrow> CommandPayloadHeader option" where
  [class_defs]: "CommandPayloadHeader_SetShortAddr shortAddr f = ifCommand [ASSOCIATION_RESP, DSME_ASSOCIATION_RESP, COOR_REALIGN] f (f\<lparr>m_shortAddr := shortAddr\<rparr>)"

definition CommandPayloadHeader_SetAssociationStatus :: "u8 \<Rightarrow> CommandPayloadHeader \<Rightarrow> CommandPayloadHeader option" where
  [class_defs]: "CommandPayloadHeader_SetAssociationStatus status f = ifCommand [ASSOCIATION_RESP, DSME_ASSOCIATION_RESP] f (f\<lparr>m_assocStatus := status\<rparr>)"

definition CommandPayloadHeader_GetDisassociationReason :: "CommandPayloadHeader \<Rightarrow> u8 option" where
  [class_defs]: "CommandPayloadHeader_GetDisassociationReason f = ifCommand [DISASSOCIATION_NOTIF] f (m_disassociationReason f)"

definition CommandPayloadHeader_GetShortAddr :: "CommandPayloadHeader \<Rightarrow> mac16 option" where
  [class_defs]: "CommandPayloadHeader_GetShortAddr f = ifCommand [ASSOCIATION_RESP, DSME_ASSOCIATION_RESP, COOR_REALIGN] f (m_shortAddr f)"

definition CommandPayloadHeader_GetAssociationStatus :: "CommandPayloadHeader \<Rightarrow> u8 option" where
  [class_defs]: "CommandPayloadHeader_GetAssociationStatus f = ifCommand [ASSOCIATION_RESP, DSME_ASSOCIATION_RESP] f (m_assocStatus f)"

definition CommandPayloadHeader_GetCapabilityField :: "CommandPayloadHeader \<Rightarrow> CapabilityField option" where
  [class_defs]: "CommandPayloadHeader_GetCapabilityField f = ifCommand [ASSOCIATION_REQ, DSME_ASSOCIATION_REQ] f (m_capabilityInfo f)"

definition CommandPayloadHeader_SetPanId :: "u16 \<Rightarrow> CommandPayloadHeader \<Rightarrow> CommandPayloadHeader" where
  [class_defs]: "CommandPayloadHeader_SetPanId id' f = f\<lparr>m_panId := id'\<rparr>"

definition CommandPayloadHeader_SetCoordinatorShortAddress :: "mac16 \<Rightarrow> CommandPayloadHeader \<Rightarrow> CommandPayloadHeader" where
  [class_defs]: "CommandPayloadHeader_SetCoordinatorShortAddress addr f = f\<lparr>m_coordShortAddr := addr\<rparr>"

definition CommandPayloadHeader_SetChannelNum :: "u16 \<Rightarrow> CommandPayloadHeader \<Rightarrow> CommandPayloadHeader" where
  [class_defs]: "CommandPayloadHeader_SetChannelNum num f = f\<lparr>m_channelNum := ucast num\<rparr>"

definition CommandPayloadHeader_SetChannelPage :: "u8 \<Rightarrow> CommandPayloadHeader \<Rightarrow> CommandPayloadHeader" where
  [class_defs]: "CommandPayloadHeader_SetChannelPage page f = f\<lparr>m_channelPage := page\<rparr>"

definition CommandPayloadHeader_SetHoppingSeqID :: "u8 \<Rightarrow> CommandPayloadHeader \<Rightarrow> CommandPayloadHeader" where
  [class_defs]: "CommandPayloadHeader_SetHoppingSeqID seqId f = f\<lparr>m_hoppingSeqId := seqId\<rparr>"

definition CommandPayloadHeader_SetChannelOfs :: "u16 \<Rightarrow> CommandPayloadHeader \<Rightarrow> CommandPayloadHeader" where
  [class_defs]: "CommandPayloadHeader_SetChannelOfs ofs f = f\<lparr>m_channelOfs := ofs\<rparr>"

definition CommandPayloadHeader_SetHoppingSeqLen :: "u8 \<Rightarrow> CommandPayloadHeader \<Rightarrow> CommandPayloadHeader" where
  [class_defs]: "CommandPayloadHeader_SetHoppingSeqLen len f = f\<lparr>m_hoppingSeqLen := len\<rparr>"

definition CommandPayloadHeader_SetHoppingSequnce :: "HoppingSequence \<Rightarrow> CommandPayloadHeader \<Rightarrow> CommandPayloadHeader" where
  [class_defs]: "CommandPayloadHeader_SetHoppingSequnce seq f = f\<lparr>m_hoppingSeq := seq\<rparr>"

definition CommandPayloadHeader_SetDsmeGtsManagementField :: "DSMEGTSManagementField \<Rightarrow> CommandPayloadHeader \<Rightarrow> CommandPayloadHeader" where
  [class_defs]: "CommandPayloadHeader_SetDsmeGtsManagementField field f = f\<lparr>m_dsmeGTSManagement := field\<rparr>"

definition CommandPayloadHeader_SetDsmeGtsNumOfSlot :: "u8 \<Rightarrow> CommandPayloadHeader \<Rightarrow> CommandPayloadHeader" where
  [class_defs]: "CommandPayloadHeader_SetDsmeGtsNumOfSlot num f = f\<lparr>m_numOfSlot := num\<rparr>"

definition CommandPayloadHeader_SetDsmeGtsPreferredSuperframeId :: "u16 \<Rightarrow> CommandPayloadHeader \<Rightarrow> CommandPayloadHeader" where
  [class_defs]: "CommandPayloadHeader_SetDsmeGtsPreferredSuperframeId superframeId f = f\<lparr>m_preferredSuperframeID := superframeId\<rparr>"

definition CommandPayloadHeader_SetDsmeGtsPreferredSlotId :: "u8 \<Rightarrow> CommandPayloadHeader \<Rightarrow> CommandPayloadHeader" where
  [class_defs]: "CommandPayloadHeader_SetDsmeGtsPreferredSlotId slotId f = f\<lparr>m_preferredSlotID := slotId\<rparr>"

definition CommandPayloadHeader_SetDsmeGtsSABSpec :: "DSMESABSpecificationField \<Rightarrow> CommandPayloadHeader \<Rightarrow> CommandPayloadHeader" where
  [class_defs]: "CommandPayloadHeader_SetDsmeGtsSABSpec spec f = f\<lparr>m_dsmeSABSpec := spec\<rparr>"

definition CommandPayloadHeader_SetDsmeGtsDestAddress :: "mac16 \<Rightarrow> CommandPayloadHeader \<Rightarrow> CommandPayloadHeader" where
  [class_defs]: "CommandPayloadHeader_SetDsmeGtsDestAddress addr f = f\<lparr>m_destAddr := addr\<rparr>"

definition CommandPayloadHeader_SetAllocationBcnSDIndex :: "u16 \<Rightarrow> CommandPayloadHeader \<Rightarrow> CommandPayloadHeader" where
  [class_defs]: "CommandPayloadHeader_SetAllocationBcnSDIndex idx f = f\<lparr>m_allocationBcnSDIndex := idx\<rparr>"

definition CommandPayloadHeader_SetCollisionBcnSDIndex :: "u16 \<Rightarrow> CommandPayloadHeader \<Rightarrow> CommandPayloadHeader" where
  [class_defs]: "CommandPayloadHeader_SetCollisionBcnSDIndex idx f = f\<lparr>m_collisionSDIndex := idx\<rparr>"

definition CommandPayloadHeader_SetDsmeInfoType :: "u8 \<Rightarrow> CommandPayloadHeader \<Rightarrow> CommandPayloadHeader" where
  [class_defs]: "CommandPayloadHeader_SetDsmeInfoType type f = f\<lparr>m_infoType := type\<rparr>"

definition CommandPayloadHeader_SetDsmeInfoSABSubBlkLen :: "u8 \<Rightarrow> CommandPayloadHeader \<Rightarrow> CommandPayloadHeader" where
  [class_defs]: "CommandPayloadHeader_SetDsmeInfoSABSubBlkLen len f = f\<lparr>cmd_dsmeSABSubBlkLen := len\<rparr>"

definition CommandPayloadHeader_SetDsmeInfoSABSubBlkIdx :: "u16 \<Rightarrow> CommandPayloadHeader \<Rightarrow> CommandPayloadHeader" where
  [class_defs]: "CommandPayloadHeader_SetDsmeInfoSABSubBlkIdx idx f = f\<lparr>cmd_dsmeSABSubBlkIdx := idx\<rparr>"

definition CommandPayloadHeader_SetDsmeInfoTimestamp :: "u64 \<Rightarrow> CommandPayloadHeader \<Rightarrow> CommandPayloadHeader" where
  [class_defs]: "CommandPayloadHeader_SetDsmeInfoTimestamp timestamp f = f\<lparr>m_timestamp := timestamp\<rparr>"

definition CommandPayloadHeader_SetDsmeInfoSuperframeID :: "u16 \<Rightarrow> CommandPayloadHeader \<Rightarrow> CommandPayloadHeader" where
  [class_defs]: "CommandPayloadHeader_SetDsmeInfoSuperframeID id' f = f\<lparr>m_superframeID := id'\<rparr>"

definition CommandPayloadHeader_SetDsmeInfoSlotID :: "u8 \<Rightarrow> CommandPayloadHeader \<Rightarrow> CommandPayloadHeader" where
  [class_defs]: "CommandPayloadHeader_SetDsmeInfoSlotID id' f = f\<lparr>m_slotID := id'\<rparr>"

definition CommandPayloadHeader_SetDsmeInfoPANDescriptor :: "DsmePANDescriptorIE \<Rightarrow> CommandPayloadHeader \<Rightarrow> CommandPayloadHeader" where
  [class_defs]: "CommandPayloadHeader_SetDsmeInfoPANDescriptor des f = f\<lparr>m_dsmePANDercriptorIE := des\<rparr>"

definition CommandPayloadHeader_SetEBSAllocationSeq :: "u16 \<Rightarrow> CommandPayloadHeader \<Rightarrow> CommandPayloadHeader" where
  [class_defs]: "CommandPayloadHeader_SetEBSAllocationSeq allocSeq f = f\<lparr>m_allocationSequence := allocSeq\<rparr>"

definition CommandPayloadHeader_GetPanId :: "CommandPayloadHeader \<Rightarrow> u16" where
  [class_defs]: "CommandPayloadHeader_GetPanId f = m_panId f"

definition CommandPayloadHeader_GetCoordinatorShortAddress :: "CommandPayloadHeader \<Rightarrow> mac16" where
  [class_defs]: "CommandPayloadHeader_GetCoordinatorShortAddress f = m_coordShortAddr f"

definition CommandPayloadHeader_GetChannelNum :: "CommandPayloadHeader \<Rightarrow> u16" where
  [class_defs]: "CommandPayloadHeader_GetChannelNum f = ucast (m_channelNum f)"

definition CommandPayloadHeader_GetChannelPage :: "CommandPayloadHeader \<Rightarrow> u8" where
  [class_defs]: "CommandPayloadHeader_GetChannelPage f = m_channelPage f"

definition CommandPayloadHeader_GetHoppingSeqID :: "CommandPayloadHeader \<Rightarrow> u8" where
  [class_defs]: "CommandPayloadHeader_GetHoppingSeqID f = m_hoppingSeqId f"

definition CommandPayloadHeader_GetChannelOfs :: "CommandPayloadHeader \<Rightarrow> u16" where
  [class_defs]: "CommandPayloadHeader_GetChannelOfs f = m_channelOfs f"

definition CommandPayloadHeader_GetHoppingSeqLen :: "CommandPayloadHeader \<Rightarrow> u8" where
  [class_defs]: "CommandPayloadHeader_GetHoppingSeqLen f = m_hoppingSeqLen f"

definition CommandPayloadHeader_GetHoppingSequnce :: "CommandPayloadHeader \<Rightarrow> HoppingSequence" where
  [class_defs]: "CommandPayloadHeader_GetHoppingSequnce f = m_hoppingSeq f"

definition CommandPayloadHeader_GetDsmeGtsManagementField :: "CommandPayloadHeader \<Rightarrow> DSMEGTSManagementField" where
  [class_defs]: "CommandPayloadHeader_GetDsmeGtsManagementField f = m_dsmeGTSManagement f"

definition CommandPayloadHeader_GetDsmeGtsNumOfSlot :: "CommandPayloadHeader \<Rightarrow> u8" where
  [class_defs]: "CommandPayloadHeader_GetDsmeGtsNumOfSlot f = m_numOfSlot f"

definition CommandPayloadHeader_GetDsmeGtsPreferredSuperframeId :: "CommandPayloadHeader \<Rightarrow> u16" where
  [class_defs]: "CommandPayloadHeader_GetDsmeGtsPreferredSuperframeId f = m_preferredSuperframeID f"

definition CommandPayloadHeader_GetDsmeGtsPreferredSlotId :: "CommandPayloadHeader \<Rightarrow> u8" where
  [class_defs]: "CommandPayloadHeader_GetDsmeGtsPreferredSlotId f = m_preferredSlotID f"

definition CommandPayloadHeader_GetDsmeGtsSABSpec :: "CommandPayloadHeader \<Rightarrow> DSMESABSpecificationField" where
  [class_defs]: "CommandPayloadHeader_GetDsmeGtsSABSpec f = m_dsmeSABSpec f"

definition CommandPayloadHeader_GetDsmeGtsDestAddress :: "CommandPayloadHeader \<Rightarrow> mac16" where
  [class_defs]: "CommandPayloadHeader_GetDsmeGtsDestAddress f = m_destAddr f"

definition CommandPayloadHeader_GetAllocationBcnSDIndex :: "CommandPayloadHeader \<Rightarrow> u16" where
  [class_defs]: "CommandPayloadHeader_GetAllocationBcnSDIndex f = m_allocationBcnSDIndex f"

definition CommandPayloadHeader_GetCollisionBcnSDIndex :: "CommandPayloadHeader \<Rightarrow> u16" where
  [class_defs]: "CommandPayloadHeader_GetCollisionBcnSDIndex f = m_collisionSDIndex f"

definition CommandPayloadHeader_GetDsmeInfoType :: "CommandPayloadHeader \<Rightarrow> u8" where
  [class_defs]: "CommandPayloadHeader_GetDsmeInfoType f = m_infoType f"

definition CommandPayloadHeader_GetDsmeInfoSABSubBlkLen :: "CommandPayloadHeader \<Rightarrow> u8" where
  [class_defs]: "CommandPayloadHeader_GetDsmeInfoSABSubBlkLen f = cmd_dsmeSABSubBlkLen f"

definition CommandPayloadHeader_GetDsmeInfoSABSubBlkIdx :: "CommandPayloadHeader \<Rightarrow> u16" where
  [class_defs]: "CommandPayloadHeader_GetDsmeInfoSABSubBlkIdx f = cmd_dsmeSABSubBlkIdx f"

definition CommandPayloadHeader_GetDsmeInfoTimestamp :: "CommandPayloadHeader \<Rightarrow> u64" where
  [class_defs]: "CommandPayloadHeader_GetDsmeInfoTimestamp f = m_timestamp f"

definition CommandPayloadHeader_GetDsmeInfoSuperframeID :: "CommandPayloadHeader \<Rightarrow> u16" where
  [class_defs]: "CommandPayloadHeader_GetDsmeInfoSuperframeID f = m_superframeID f"

definition CommandPayloadHeader_GetDsmeInfoSlotID :: "CommandPayloadHeader \<Rightarrow> u8" where
  [class_defs]: "CommandPayloadHeader_GetDsmeInfoSlotID f = m_slotID f"

definition CommandPayloadHeader_GetDsmeInfoPANDescriptor :: "CommandPayloadHeader \<Rightarrow> DsmePANDescriptorIE" where
  [class_defs]: "CommandPayloadHeader_GetDsmeInfoPANDescriptor f = m_dsmePANDercriptorIE f"

definition CommandPayloadHeader_GetEBSAllocationSeq :: "CommandPayloadHeader \<Rightarrow> u16" where
  [class_defs]: "CommandPayloadHeader_GetEBSAllocationSeq f = m_allocationSequence f"

text \<open>A channel number above 255 loses its upper octet in the object itself.\<close>

lemma channel_number_cut:
  "CommandPayloadHeader_GetChannelNum (CommandPayloadHeader_SetChannelNum n f) = take_bit 8 n"
  by (rule bit_word_eqI) (auto simp: CommandPayloadHeader_GetChannelNum_def CommandPayloadHeader_SetChannelNum_def bit_simps)

subsection \<open>Commands: the three switches\<close>

text \<open>
  The label that a switch over \<open>m_cmdFrameId\<close> takes is \<open>GetCommandFrameType\<close>; an integer that
  is no enumerator takes none, which is what \<open>CMD_RESERVED\<close> does. The ceiling in the size of a
  DSME association response is that of a quotient of integers.
\<close>

definition CommandPayloadHeader_GetSerializedSize :: "CommandPayloadHeader \<Rightarrow> nat" where
  "CommandPayloadHeader_GetSerializedSize f = (let size = 1 in
     case CommandPayloadHeader_GetCommandFrameType f of
       ASSOCIATION_REQ \<Rightarrow> size + CapabilityField_GetSerializedSize (m_capabilityInfo f)
     | ASSOCIATION_RESP \<Rightarrow> size + 3
     | DISASSOCIATION_NOTIF \<Rightarrow> size + 1
     | COOR_REALIGN \<Rightarrow> size + (2 + 2 + 1 + 2 + 1)
     | DSME_ASSOCIATION_REQ \<Rightarrow> size + (CapabilityField_GetSerializedSize (m_capabilityInfo f) + 1 + 2)
     | DSME_ASSOCIATION_RESP \<Rightarrow> size + (2 + 1 + 1 + unat (m_hoppingSeqLen f) div 8 + 2)
     | DSME_GTS_REQ \<Rightarrow>
         let size = size + DSMEGTSManagementField_GetSerializedSize (m_dsmeGTSManagement f);
             size = (if DSMEGTSManagementField_GetManagementType (m_dsmeGTSManagement f) = 1 then size + (1 + 2 + 1) else size)
         in size + DSMESABSpecificationField_GetSerializedSize (m_dsmeSABSpec f)
     | DSME_GTS_REPLY \<Rightarrow> size + (1 + 2 + 2 + DSMESABSpecificationField_GetSerializedSize (m_dsmeSABSpec f))
     | DSME_GTS_NOTIFY \<Rightarrow> size + (1 + 2 + 2 + DSMESABSpecificationField_GetSerializedSize (m_dsmeSABSpec f))
     | DSME_INFO_REQ \<Rightarrow> size + (1 + 1 + 2)
     | DSME_INFO_REPLY \<Rightarrow>
         let size = size + (1 + 8 + 2 + 1)
         in if m_infoType f = 1 then size + DSMESABSpecificationField_GetSerializedSize (m_dsmeSABSpec f)
            else if m_infoType f = 2 then size + DsmePANDescriptorIE_GetSerializedSize (m_dsmePANDercriptorIE f)
            else size
     | DSME_BEACON_ALLOC_NOTIF \<Rightarrow> size + 2
     | DSME_BEACON_COLLISION_NOTIF \<Rightarrow> size + 2
     | _ \<Rightarrow> size)"

text \<open>
  An iterator is passed by value to a nested \<open>Header\<close>: the nested header writes or reads from
  there, and the caller's own iterator \<open>i\<close> stays where it was.
\<close>

definition at_iter :: "iter \<Rightarrow> iter \<Rightarrow> iter" where
  "at_iter i j = (let b = fst j @ snd j; n = length (fst i) in (take n b, drop n b))"

definition CommandPayloadHeader_SerializeBody :: "CommandPayloadHeader \<Rightarrow> iter \<Rightarrow> iter option" where
  "CommandPayloadHeader_SerializeBody f i = (
     case CommandPayloadHeader_GetCommandFrameType f of
       ASSOCIATION_REQ \<Rightarrow> CapabilityField_Serialize (m_capabilityInfo f) i
     | ASSOCIATION_RESP \<Rightarrow> do {
         i \<leftarrow> WriteTo_Mac16 (m_shortAddr f) i;
         WriteU8 (m_assocStatus f) i }
     | DISASSOCIATION_NOTIF \<Rightarrow> WriteU8 (m_disassociationReason f) i
     | COOR_REALIGN \<Rightarrow> do {
         i \<leftarrow> WriteU16 (m_panId f) i;
         i \<leftarrow> WriteTo_Mac16 (m_coordShortAddr f) i;
         i \<leftarrow> WriteU8 (m_channelNum f) i;
         i \<leftarrow> WriteTo_Mac16 (m_shortAddr f) i;
         WriteU8 (m_channelPage f) i }
     | DSME_ASSOCIATION_REQ \<Rightarrow> do {
         i \<leftarrow> CapabilityField_Serialize (m_capabilityInfo f) i;
         i \<leftarrow> WriteU8 (m_hoppingSeqId f) i;
         WriteU16 (m_channelOfs f) i }
     | DSME_ASSOCIATION_RESP \<Rightarrow> do {
         i \<leftarrow> WriteTo_Mac16 (m_shortAddr f) i;
         i \<leftarrow> WriteU8 (m_assocStatus f) i;
         i \<leftarrow> WriteU8 (m_hoppingSeqLen f) i;
         i \<leftarrow> HoppingSequence_Serialize (m_hoppingSeq f) i;
         WriteU16 (m_allocationSequence f) i }
     | DSME_GTS_REQ \<Rightarrow> do {
         i \<leftarrow> DSMEGTSManagementField_Serialize (m_dsmeGTSManagement f) i;
         i \<leftarrow> (if DSMEGTSManagementField_GetManagementType (m_dsmeGTSManagement f) = 1 then do {
                i \<leftarrow> WriteU8 (m_numOfSlot f) i;
                i \<leftarrow> WriteU16 (m_preferredSuperframeID f) i;
                WriteU8 (m_preferredSlotID f) i }
              else Some i);
         DSMESABSpecificationField_Serialize (m_dsmeSABSpec f) i }
     | DSME_GTS_REPLY \<Rightarrow> do {
         i \<leftarrow> DSMEGTSManagementField_Serialize (m_dsmeGTSManagement f) i;
         i \<leftarrow> WriteTo_Mac16 (m_destAddr f) i;
         i \<leftarrow> WriteU16 (m_channelOfs f) i;
         DSMESABSpecificationField_Serialize (m_dsmeSABSpec f) i }
     | DSME_GTS_NOTIFY \<Rightarrow> do {
         i \<leftarrow> DSMEGTSManagementField_Serialize (m_dsmeGTSManagement f) i;
         i \<leftarrow> WriteTo_Mac16 (m_destAddr f) i;
         i \<leftarrow> WriteU16 (m_channelOfs f) i;
         DSMESABSpecificationField_Serialize (m_dsmeSABSpec f) i }
     | DSME_INFO_REQ \<Rightarrow> do {
         i \<leftarrow> WriteU8 (m_infoType f) i;
         i \<leftarrow> WriteU8 (cmd_dsmeSABSubBlkLen f) i;
         WriteU16 (cmd_dsmeSABSubBlkIdx f) i }
     | DSME_INFO_REPLY \<Rightarrow> do {
         i \<leftarrow> WriteU8 (m_infoType f) i;
         i \<leftarrow> WriteU64 (m_timestamp f) i;
         i \<leftarrow> WriteU16 (m_superframeID f) i;
         i \<leftarrow> WriteU8 (m_slotID f) i;
         if m_infoType f = 1 then DSMESABSpecificationField_Serialize (m_dsmeSABSpec f) i
         else if m_infoType f = 2 then do {
           j \<leftarrow> DsmePANDescriptorIE_Serialize (m_dsmePANDercriptorIE f) i;
           Some (at_iter i j) }
         else Some i }
     | DSME_BEACON_ALLOC_NOTIF \<Rightarrow> WriteU16 (m_allocationBcnSDIndex f) i
     | DSME_BEACON_COLLISION_NOTIF \<Rightarrow> WriteU16 (m_collisionSDIndex f) i
     | _ \<Rightarrow> Some i)"

definition CommandPayloadHeader_Serialize :: "CommandPayloadHeader \<Rightarrow> iter \<Rightarrow> iter option" where
  "CommandPayloadHeader_Serialize f i = do {
     i \<leftarrow> WriteU8 (m_cmdFrameId f) i;
     CommandPayloadHeader_SerializeBody f i }"

text \<open>The index of the SAB sub-block of an information request is written as two octets and read as one.\<close>

definition CommandPayloadHeader_DeserializeBody :: "CommandPayloadHeader \<Rightarrow> iter \<Rightarrow> (CommandPayloadHeader \<times> iter) option" where
  "CommandPayloadHeader_DeserializeBody f i = (
     case CommandPayloadHeader_GetCommandFrameType f of
       ASSOCIATION_REQ \<Rightarrow> do {
         (x, i) \<leftarrow> CapabilityField_Deserialize (m_capabilityInfo f) i;
         Some (f\<lparr>m_capabilityInfo := x\<rparr>, i) }
     | ASSOCIATION_RESP \<Rightarrow> do {
         (a, i) \<leftarrow> ReadFrom_Mac16 i;
         (s, i) \<leftarrow> ReadU8 i;
         Some (f\<lparr>m_shortAddr := a, m_assocStatus := s\<rparr>, i) }
     | DISASSOCIATION_NOTIF \<Rightarrow> do {
         (x, i) \<leftarrow> ReadU8 i;
         Some (f\<lparr>m_disassociationReason := x\<rparr>, i) }
     | COOR_REALIGN \<Rightarrow> do {
         (p, i) \<leftarrow> ReadU16 i;
         (c, i) \<leftarrow> ReadFrom_Mac16 i;
         (n, i) \<leftarrow> ReadU8 i;
         (a, i) \<leftarrow> ReadFrom_Mac16 i;
         (g, i) \<leftarrow> ReadU8 i;
         Some (f\<lparr>m_panId := p, m_coordShortAddr := c, m_channelNum := n, m_shortAddr := a, m_channelPage := g\<rparr>, i) }
     | DSME_ASSOCIATION_REQ \<Rightarrow> do {
         (x, i) \<leftarrow> CapabilityField_Deserialize (m_capabilityInfo f) i;
         (s, i) \<leftarrow> ReadU8 i;
         (c, i) \<leftarrow> ReadU16 i;
         Some (f\<lparr>m_capabilityInfo := x, m_hoppingSeqId := s, m_channelOfs := c\<rparr>, i) }
     | DSME_ASSOCIATION_RESP \<Rightarrow> do {
         (a, i) \<leftarrow> ReadFrom_Mac16 i;
         (s, i) \<leftarrow> ReadU8 i;
         (l, i) \<leftarrow> ReadU8 i;
         (h, i) \<leftarrow> HoppingSequence_Deserialize (m_hoppingSeq f) i;
         (q, i) \<leftarrow> ReadU16 i;
         Some (f\<lparr>m_shortAddr := a, m_assocStatus := s, m_hoppingSeqLen := l, m_hoppingSeq := h, m_allocationSequence := q\<rparr>, i) }
     | DSME_GTS_REQ \<Rightarrow> do {
         (g, i) \<leftarrow> DSMEGTSManagementField_Deserialize (m_dsmeGTSManagement f) i;
         let f = f\<lparr>m_dsmeGTSManagement := g\<rparr>;
         (f, i) \<leftarrow> (if DSMEGTSManagementField_GetManagementType g = 1 then do {
                (n, i) \<leftarrow> ReadU8 i;
                (s, i) \<leftarrow> ReadU16 i;
                (l, i) \<leftarrow> ReadU8 i;
                Some (f\<lparr>m_numOfSlot := n, m_preferredSuperframeID := s, m_preferredSlotID := l\<rparr>, i) }
              else Some (f, i));
         (b, i) \<leftarrow> DSMESABSpecificationField_Deserialize (m_dsmeSABSpec f) i;
         Some (f\<lparr>m_dsmeSABSpec := b\<rparr>, i) }
     | DSME_GTS_REPLY \<Rightarrow> do {
         (g, i) \<leftarrow> DSMEGTSManagementField_Deserialize (m_dsmeGTSManagement f) i;
         (a, i) \<leftarrow> ReadFrom_Mac16 i;
         (c, i) \<leftarrow> ReadU16 i;
         (b, i) \<leftarrow> DSMESABSpecificationField_Deserialize (m_dsmeSABSpec f) i;
         Some (f\<lparr>m_dsmeGTSManagement := g, m_destAddr := a, m_channelOfs := c, m_dsmeSABSpec := b\<rparr>, i) }
     | DSME_GTS_NOTIFY \<Rightarrow> do {
         (g, i) \<leftarrow> DSMEGTSManagementField_Deserialize (m_dsmeGTSManagement f) i;
         (a, i) \<leftarrow> ReadFrom_Mac16 i;
         (c, i) \<leftarrow> ReadU16 i;
         (b, i) \<leftarrow> DSMESABSpecificationField_Deserialize (m_dsmeSABSpec f) i;
         Some (f\<lparr>m_dsmeGTSManagement := g, m_destAddr := a, m_channelOfs := c, m_dsmeSABSpec := b\<rparr>, i) }
     | DSME_INFO_REQ \<Rightarrow> do {
         (t, i) \<leftarrow> ReadU8 i;
         (l, i) \<leftarrow> ReadU8 i;
         (x, i) \<leftarrow> ReadU8 i;
         Some (f\<lparr>m_infoType := t, cmd_dsmeSABSubBlkLen := l, cmd_dsmeSABSubBlkIdx := ucast x\<rparr>, i) }
     | DSME_INFO_REPLY \<Rightarrow> do {
         (t, i) \<leftarrow> ReadU8 i;
         (s, i) \<leftarrow> ReadU64 i;
         (p, i) \<leftarrow> ReadU16 i;
         (l, i) \<leftarrow> ReadU8 i;
         let f = f\<lparr>m_infoType := t, m_timestamp := s, m_superframeID := p, m_slotID := l\<rparr>;
         if m_infoType f = 1 then do {
           (b, i) \<leftarrow> DSMESABSpecificationField_Deserialize (m_dsmeSABSpec f) i;
           Some (f\<lparr>m_dsmeSABSpec := b\<rparr>, i) }
         else if m_infoType f = 2 then do {
           (e, j) \<leftarrow> DsmePANDescriptorIE_Deserialize (m_dsmePANDercriptorIE f) i;
           Some (f\<lparr>m_dsmePANDercriptorIE := e\<rparr>, at_iter i j) }
         else Some (f, i) }
     | DSME_BEACON_ALLOC_NOTIF \<Rightarrow> do {
         (x, i) \<leftarrow> ReadU16 i;
         Some (f\<lparr>m_allocationBcnSDIndex := x\<rparr>, i) }
     | DSME_BEACON_COLLISION_NOTIF \<Rightarrow> do {
         (x, i) \<leftarrow> ReadU16 i;
         Some (f\<lparr>m_collisionSDIndex := x\<rparr>, i) }
     | _ \<Rightarrow> Some (f, i))"

definition CommandPayloadHeader_Deserialize :: "CommandPayloadHeader \<Rightarrow> iter \<Rightarrow> (CommandPayloadHeader \<times> iter) option" where
  "CommandPayloadHeader_Deserialize f i = do {
     (c, i) \<leftarrow> ReadU8 i;
     CommandPayloadHeader_DeserializeBody (f\<lparr>m_cmdFrameId := c\<rparr>) i }"

subsection \<open>Commands: the format\<close>

definition cmd_body :: "CommandPayloadHeader \<Rightarrow> u8 list" where
  "cmd_body f = (case CommandPayloadHeader_GetCommandFrameType f of
       ASSOCIATION_REQ \<Rightarrow> CapabilityField_wire (m_capabilityInfo f)
     | ASSOCIATION_RESP \<Rightarrow> octets16 (m_shortAddr f) @ [m_assocStatus f]
     | DISASSOCIATION_NOTIF \<Rightarrow> [m_disassociationReason f]
     | COOR_REALIGN \<Rightarrow> le16 (m_panId f) @ octets16 (m_coordShortAddr f) @ [m_channelNum f] @ octets16 (m_shortAddr f) @ [m_channelPage f]
     | DSME_ASSOCIATION_REQ \<Rightarrow> CapabilityField_wire (m_capabilityInfo f) @ [m_hoppingSeqId f] @ le16 (m_channelOfs f)
     | DSME_ASSOCIATION_RESP \<Rightarrow> octets16 (m_shortAddr f) @ [m_assocStatus f, m_hoppingSeqLen f] @
         hopseq_wire (m_hoppingSeq f) @ le16 (m_allocationSequence f)
     | DSME_GTS_REQ \<Rightarrow> mgmt_wire (m_dsmeGTSManagement f) @
         (if m_managementType (m_dsmeGTSManagement f) = 1
          then [m_numOfSlot f] @ le16 (m_preferredSuperframeID f) @ [m_preferredSlotID f] else []) @
         sab_wire (m_dsmeSABSpec f)
     | DSME_GTS_REPLY \<Rightarrow> mgmt_wire (m_dsmeGTSManagement f) @ octets16 (m_destAddr f) @ le16 (m_channelOfs f) @ sab_wire (m_dsmeSABSpec f)
     | DSME_GTS_NOTIFY \<Rightarrow> mgmt_wire (m_dsmeGTSManagement f) @ octets16 (m_destAddr f) @ le16 (m_channelOfs f) @ sab_wire (m_dsmeSABSpec f)
     | DSME_INFO_REQ \<Rightarrow> [m_infoType f, cmd_dsmeSABSubBlkLen f] @ le16 (cmd_dsmeSABSubBlkIdx f)
     | DSME_INFO_REPLY \<Rightarrow> [m_infoType f] @ le64 (m_timestamp f) @ le16 (m_superframeID f) @ [m_slotID f] @
         (if m_infoType f = 1 then sab_wire (m_dsmeSABSpec f) else [])
     | DSME_BEACON_ALLOC_NOTIF \<Rightarrow> le16 (m_allocationBcnSDIndex f)
     | DSME_BEACON_COLLISION_NOTIF \<Rightarrow> le16 (m_collisionSDIndex f)
     | _ \<Rightarrow> [])"

definition cmd_wire :: "CommandPayloadHeader \<Rightarrow> u8 list" where
  "cmd_wire f = m_cmdFrameId f # cmd_body f"

text \<open>The commands on which the three switches agree.\<close>

definition cmd_ok :: "CommandPayloadHeader \<Rightarrow> bool" where
  "cmd_ok f \<longleftrightarrow> (case CommandPayloadHeader_GetCommandFrameType f of
       DSME_ASSOCIATION_RESP \<Rightarrow> 2 * length (m_channelList (m_hoppingSeq f)) = unat (m_hoppingSeqLen f) div 8
     | DSME_GTS_REQ \<Rightarrow> mgmt_ok (m_dsmeGTSManagement f) \<and> sab_ok (m_dsmeSABSpec f)
     | DSME_GTS_REPLY \<Rightarrow> mgmt_ok (m_dsmeGTSManagement f) \<and> sab_ok (m_dsmeSABSpec f)
     | DSME_GTS_NOTIFY \<Rightarrow> mgmt_ok (m_dsmeGTSManagement f) \<and> sab_ok (m_dsmeSABSpec f)
     | DSME_INFO_REQ \<Rightarrow> False
     | DSME_INFO_REPLY \<Rightarrow> m_infoType f = 1 \<and> sab_ok (m_dsmeSABSpec f) \<or> m_infoType f \<noteq> 1 \<and> m_infoType f \<noteq> 2
     | _ \<Rightarrow> True)"

definition cmd_ready :: "CommandPayloadHeader \<Rightarrow> CommandPayloadHeader \<Rightarrow> bool" where
  "cmd_ready f0 f \<longleftrightarrow> (CommandPayloadHeader_GetCommandFrameType f = DSME_ASSOCIATION_RESP \<longrightarrow>
     hopseq_ready (m_hoppingSeq f0) (m_hoppingSeq f))"

definition cmd_rebuilt :: "CommandPayloadHeader \<Rightarrow> CommandPayloadHeader \<Rightarrow> CommandPayloadHeader" where
  "cmd_rebuilt f0 f = (let g = f0\<lparr>m_cmdFrameId := m_cmdFrameId f\<rparr> in
     case CommandPayloadHeader_GetCommandFrameType f of
       ASSOCIATION_REQ \<Rightarrow> g\<lparr>m_capabilityInfo := m_capabilityInfo f\<rparr>
     | ASSOCIATION_RESP \<Rightarrow> g\<lparr>m_shortAddr := m_shortAddr f, m_assocStatus := m_assocStatus f\<rparr>
     | DISASSOCIATION_NOTIF \<Rightarrow> g\<lparr>m_disassociationReason := m_disassociationReason f\<rparr>
     | COOR_REALIGN \<Rightarrow> g\<lparr>m_panId := m_panId f, m_coordShortAddr := m_coordShortAddr f, m_channelNum := m_channelNum f,
         m_shortAddr := m_shortAddr f, m_channelPage := m_channelPage f\<rparr>
     | DSME_ASSOCIATION_REQ \<Rightarrow> g\<lparr>m_capabilityInfo := m_capabilityInfo f, m_hoppingSeqId := m_hoppingSeqId f, m_channelOfs := m_channelOfs f\<rparr>
     | DSME_ASSOCIATION_RESP \<Rightarrow> g\<lparr>m_shortAddr := m_shortAddr f, m_assocStatus := m_assocStatus f, m_hoppingSeqLen := m_hoppingSeqLen f,
         m_hoppingSeq := hopseq_rebuilt (m_hoppingSeq f0) (m_hoppingSeq f), m_allocationSequence := m_allocationSequence f\<rparr>
     | DSME_GTS_REQ \<Rightarrow>
         (if m_managementType (m_dsmeGTSManagement f) = 1
          then g\<lparr>m_numOfSlot := m_numOfSlot f, m_preferredSuperframeID := m_preferredSuperframeID f, m_preferredSlotID := m_preferredSlotID f\<rparr>
          else g)\<lparr>m_dsmeGTSManagement := m_dsmeGTSManagement f, m_dsmeSABSpec := sab_rebuilt (m_dsmeSABSpec f0) (m_dsmeSABSpec f)\<rparr>
     | DSME_GTS_REPLY \<Rightarrow> g\<lparr>m_dsmeGTSManagement := m_dsmeGTSManagement f, m_destAddr := m_destAddr f, m_channelOfs := m_channelOfs f,
         m_dsmeSABSpec := sab_rebuilt (m_dsmeSABSpec f0) (m_dsmeSABSpec f)\<rparr>
     | DSME_GTS_NOTIFY \<Rightarrow> g\<lparr>m_dsmeGTSManagement := m_dsmeGTSManagement f, m_destAddr := m_destAddr f, m_channelOfs := m_channelOfs f,
         m_dsmeSABSpec := sab_rebuilt (m_dsmeSABSpec f0) (m_dsmeSABSpec f)\<rparr>
     | DSME_INFO_REPLY \<Rightarrow>
         (let g = g\<lparr>m_infoType := m_infoType f, m_timestamp := m_timestamp f, m_superframeID := m_superframeID f, m_slotID := m_slotID f\<rparr>
          in if m_infoType f = 1 then g\<lparr>m_dsmeSABSpec := sab_rebuilt (m_dsmeSABSpec f0) (m_dsmeSABSpec f)\<rparr> else g)
     | DSME_BEACON_ALLOC_NOTIF \<Rightarrow> g\<lparr>m_allocationBcnSDIndex := m_allocationBcnSDIndex f\<rparr>
     | DSME_BEACON_COLLISION_NOTIF \<Rightarrow> g\<lparr>m_collisionSDIndex := m_collisionSDIndex f\<rparr>
     | _ \<Rightarrow> g)"

lemmas [wire_simps] = sab_serialize sab_deserialize

lemma fields_fun [wire_simps]:
  "sab_ok s \<Longrightarrow> DSMESABSpecificationField_Serialize s = WriteBuf (sab_wire s)"
  "HoppingSequence_Serialize h = WriteBuf (hopseq_wire h)"
  by (rule ext, simp add: wire_simps)+

lemma cmd_body_serialize:
  assumes "cmd_ok f"
  shows "CommandPayloadHeader_SerializeBody f i = WriteBuf (cmd_body f) i"
  using assms
  by (cases "CommandPayloadHeader_GetCommandFrameType f")
    (simp_all add: CommandPayloadHeader_SerializeBody_def cmd_body_def cmd_ok_def
      DSMEGTSManagementField_GetManagementType_def wire_simps, auto simp: wire_simps)

lemma cmd_body_size:
  assumes "cmd_ok f"
  shows "Suc (length (cmd_body f)) = CommandPayloadHeader_GetSerializedSize f"
  using assms
  by (cases "CommandPayloadHeader_GetCommandFrameType f")
    (simp_all add: CommandPayloadHeader_GetSerializedSize_def cmd_body_def cmd_ok_def Let_def mgmt_wire_def hopseq_wire_def
      DSMEGTSManagementField_GetManagementType_def CapabilityField_GetSerializedSize_def
      DSMEGTSManagementField_GetSerializedSize_def length_sab_wire, auto simp: length_sab_wire)

lemma cmd_body_deserialize:
  assumes "cmd_ok f" and "cmd_ready f0 f"
  shows "CommandPayloadHeader_DeserializeBody (f0\<lparr>m_cmdFrameId := m_cmdFrameId f\<rparr>) (d, cmd_body f @ r) =
    Some (cmd_rebuilt f0 f, (d @ cmd_body f, r))"
proof -
  have "CommandPayloadHeader_GetCommandFrameType (f0\<lparr>m_cmdFrameId := m_cmdFrameId f\<rparr>) = CommandPayloadHeader_GetCommandFrameType f"
    by (rule GetCommandFrameType_cong) simp
  with assms show ?thesis
    by (cases "CommandPayloadHeader_GetCommandFrameType f")
      (simp_all add: CommandPayloadHeader_DeserializeBody_def cmd_body_def cmd_ok_def cmd_ready_def cmd_rebuilt_def Let_def
        DSMEGTSManagementField_GetManagementType_def wire_simps, auto simp: wire_simps)
qed

interpretation command: header_codec CommandPayloadHeader_GetSerializedSize cmd_wire CommandPayloadHeader_Serialize
  CommandPayloadHeader_Deserialize cmd_ok cmd_ready cmd_rebuilt
proof
  fix f f0 :: CommandPayloadHeader and i :: iter and d r
  assume ok: "cmd_ok f"
  show "CommandPayloadHeader_Serialize f i = WriteBuf (cmd_wire f) i"
    by (simp add: CommandPayloadHeader_Serialize_def cmd_wire_def cmd_body_serialize [OF ok] wire_simps)
  show "length (cmd_wire f) = CommandPayloadHeader_GetSerializedSize f"
    by (simp add: cmd_wire_def cmd_body_size [OF ok])
  show "CommandPayloadHeader_Deserialize f0 (d, cmd_wire f @ r) = Some (cmd_rebuilt f0 f, (d @ cmd_wire f, r))"
    if "cmd_ready f0 f"
    by (simp add: CommandPayloadHeader_Deserialize_def cmd_wire_def cmd_body_deserialize [OF ok that] wire_simps)
qed

text \<open>An information request: four octets are reported, five were written.\<close>

lemma info_request_leftover:
  assumes "m_cmdFrameId f = MacCommand_val DSME_INFO_REQ" and "length fresh = CommandPayloadHeader_GetSerializedSize f"
  shows "Option.bind (AddHeader fresh CommandPayloadHeader_Serialize f p) (RemoveHeader CommandPayloadHeader_Deserialize f0) =
    Some (f0\<lparr>m_cmdFrameId := m_cmdFrameId f, m_infoType := m_infoType f, cmd_dsmeSABSubBlkLen := cmd_dsmeSABSubBlkLen f,
            cmd_dsmeSABSubBlkIdx := ucast (ucast (cmd_dsmeSABSubBlkIdx f) :: u8)\<rparr>,
          4, ucast (drop_bit 8 (cmd_dsmeSABSubBlkIdx f)) # p)"
proof -
  have t: "CommandPayloadHeader_GetCommandFrameType f = DSME_INFO_REQ"
    "CommandPayloadHeader_GetCommandFrameType (f0\<lparr>m_cmdFrameId := MacCommand_val DSME_INFO_REQ\<rparr>) = DSME_INFO_REQ"
    by (rule GetCommandFrameType_val, simp add: assms(1))+
  have "length fresh = 5" using assms(2) t(1) by (simp add: CommandPayloadHeader_GetSerializedSize_def)
  then show ?thesis
    using t assms(1) by (simp add: AddHeader_def RemoveHeader_def CommandPayloadHeader_Serialize_def CommandPayloadHeader_SerializeBody_def
        CommandPayloadHeader_Deserialize_def CommandPayloadHeader_DeserializeBody_def WriteBuf_def GetDistanceFrom_def le16_def wire_simps)
qed

text \<open>
  An information reply with a PAN descriptor: the descriptor is read, but the caller's iterator
  has not moved, so thirteen octets are reported and the descriptor stays in the packet.
\<close>

lemma info_reply_leftover:
  assumes "m_cmdFrameId f = MacCommand_val DSME_INFO_REPLY" and "m_infoType f = 2" and "pan_ok (m_dsmePANDercriptorIE f)"
    and "length fresh = CommandPayloadHeader_GetSerializedSize f"
  shows "Option.bind (AddHeader fresh CommandPayloadHeader_Serialize f p) (RemoveHeader CommandPayloadHeader_Deserialize f0) =
    Some (f0\<lparr>m_cmdFrameId := m_cmdFrameId f, m_infoType := m_infoType f, m_timestamp := m_timestamp f,
            m_superframeID := m_superframeID f, m_slotID := m_slotID f,
            m_dsmePANDercriptorIE := pan_rebuilt (m_dsmePANDercriptorIE f0) (m_dsmePANDercriptorIE f)\<rparr>,
          13, pan_wire (m_dsmePANDercriptorIE f) @ p)"
proof -
  let ?c = "MacCommand_val DSME_INFO_REPLY" and ?e = "m_dsmePANDercriptorIE f"
  let ?head = "[?c, 2] @ le64 (m_timestamp f) @ le16 (m_superframeID f) @ [m_slotID f]"
  have t: "CommandPayloadHeader_GetCommandFrameType f = DSME_INFO_REPLY"
    "CommandPayloadHeader_GetCommandFrameType (f0\<lparr>m_cmdFrameId := ?c\<rparr>) = DSME_INFO_REPLY"
    by (rule GetCommandFrameType_val, simp add: assms(1))+
  have len: "length fresh = 13 + length (pan_wire ?e)"
    using assms(2,4) t(1) pan_codec(2) [OF assms(3)] by (simp add: CommandPayloadHeader_GetSerializedSize_def)
  have head: "CommandPayloadHeader_Serialize f ([], fresh @ p) = Some (?head, pan_wire ?e @ p)"
    using t(1) assms(1-3) len by (simp add: CommandPayloadHeader_Serialize_def CommandPayloadHeader_SerializeBody_def pan_codec(1)
        at_iter_def WriteBuf_def wire_simps)
  have read: "CommandPayloadHeader_Deserialize f0 ([], ?head @ pan_wire ?e @ p) =
      Some (f0\<lparr>m_cmdFrameId := ?c, m_infoType := 2, m_timestamp := m_timestamp f, m_superframeID := m_superframeID f,
        m_slotID := m_slotID f, m_dsmePANDercriptorIE := pan_rebuilt (m_dsmePANDercriptorIE f0) ?e\<rparr>, (?head, pan_wire ?e @ p))"
    using t(2) pan_codec(3) [OF assms(3)]
    by (simp add: CommandPayloadHeader_Deserialize_def CommandPayloadHeader_DeserializeBody_def at_iter_def wire_simps)
  show ?thesis
    using head read assms(1,2) by (simp add: AddHeader_def RemoveHeader_def GetDistanceFrom_def)
qed

subsection \<open>TestNewHeader\<close>

record TestNewHeader =
  m_testData :: u16

definition TestNewHeader_SetData :: "u16 \<Rightarrow> TestNewHeader \<Rightarrow> TestNewHeader" where
  [class_defs]: "TestNewHeader_SetData data f = f\<lparr>m_testData := data\<rparr>"

definition TestNewHeader_GetData :: "TestNewHeader \<Rightarrow> u16" where
  [class_defs]: "TestNewHeader_GetData f = m_testData f"

definition TestNewHeader_GetSerializedSize :: "TestNewHeader \<Rightarrow> nat" where
  "TestNewHeader_GetSerializedSize f = 2"

definition TestNewHeader_Serialize :: "TestNewHeader \<Rightarrow> iter \<Rightarrow> iter option" where
  "TestNewHeader_Serialize f i = WriteHtolsbU16 (m_testData f) i"

definition TestNewHeader_Deserialize :: "TestNewHeader \<Rightarrow> iter \<Rightarrow> (TestNewHeader \<times> iter) option" where
  "TestNewHeader_Deserialize f i = do { (testData, i) \<leftarrow> ReadLsbtohU16 i; Some (TestNewHeader_SetData testData f, i) }"

interpretation test_header: lossless_codec TestNewHeader_GetSerializedSize "\<lambda>f. le16 (m_testData f)" TestNewHeader_Serialize
  TestNewHeader_Deserialize "\<lambda>_. True" "\<lambda>_ _. True" "\<lambda>_ f. f"
  by unfold_locales (simp_all add: TestNewHeader_GetSerializedSize_def TestNewHeader_Serialize_def TestNewHeader_Deserialize_def
      TestNewHeader_SetData_def wire_simps)

end
