(* ===== verification/Mac_Trailer.thy ===== *)
theory Mac_Trailer
  imports Packet_Buffer
begin

section \<open>The MAC trailer and its frame check sequence\<close>

text \<open>
  \<open>LrWpanMacTrailer\<close> (\<open>lr-wpan-mac-trailer\<close>): the two octets after the payload, which hold
  the CRC of the frame when the calculation is enabled. \<open>GenerateCrc16\<close> folds one octet at a
  time with shifts and exclusive ors; it is shown to be the bit-serial ITU-T CRC of the standard
  (generator \<open>x^16 + x^12 + x^5 + 1\<close>, least significant bit first), linear in the data, and
  to detect every error that stays within two adjacent octets.
\<close>

subsection \<open>Operations\<close>

record LrWpanMacTrailer =
  m_fcs :: u16
  m_calcFcs :: bool

definition LrWpanMacTrailer_new :: "LrWpanMacTrailer" where
  "LrWpanMacTrailer_new = \<lparr>m_fcs = 0, m_calcFcs = False\<rparr>"

definition LrWpanMacTrailer_GetSerializedSize :: "LrWpanMacTrailer \<Rightarrow> nat" where
  "LrWpanMacTrailer_GetSerializedSize f = 2"

definition LrWpanMacTrailer_Serialize :: "LrWpanMacTrailer \<Rightarrow> iter \<Rightarrow> iter option" where
  "LrWpanMacTrailer_Serialize f i = do { i \<leftarrow> Prev 2 i; WriteU16 (m_fcs f) i }"

definition LrWpanMacTrailer_Deserialize :: "LrWpanMacTrailer \<Rightarrow> iter \<Rightarrow> (LrWpanMacTrailer \<times> nat) option" where
  "LrWpanMacTrailer_Deserialize f i = do {
     i \<leftarrow> Prev 2 i;
     (v, i) \<leftarrow> ReadU16 i;
     Some (f\<lparr>m_fcs := v\<rparr>, 2) }"

definition LrWpanMacTrailer_GetFcs :: "LrWpanMacTrailer \<Rightarrow> u16" where
  "LrWpanMacTrailer_GetFcs f = m_fcs f"

text \<open>One round of the loop; every intermediate value is an \<open>int\<close>, cut to 16 bits when stored.\<close>

definition crc_round :: "u16 \<Rightarrow> u8 \<Rightarrow> u16" where
  "crc_round accumulator data = (
     let accumulator = accumulator XOR ucast data;
         accumulator = ucast (drop_bit 8 (ucast accumulator :: cint) OR push_bit 8 (ucast accumulator));
         accumulator = accumulator XOR ucast (push_bit 4 ((ucast accumulator :: cint) AND 0xff00));
         accumulator = accumulator XOR ucast (drop_bit 4 (drop_bit 8 (ucast accumulator :: cint)));
         accumulator = accumulator XOR ucast (drop_bit 5 ((ucast accumulator :: cint) AND 0xff00))
     in accumulator)"

fun crc_loop :: "u16 \<Rightarrow> u8 list \<Rightarrow> u16" where
  "crc_loop accumulator [] = accumulator"
| "crc_loop accumulator (data # rest) = crc_loop (crc_round accumulator data) rest"

definition LrWpanMacTrailer_GenerateCrc16 :: "u8 list \<Rightarrow> nat \<Rightarrow> u16 option" where
  "LrWpanMacTrailer_GenerateCrc16 data len = do { bs \<leftarrow> firstN len data; Some (crc_loop 0 bs) }"

text \<open>The packet's size is kept in a \<open>uint16_t\<close>, and that many octets are copied.\<close>

definition LrWpanMacTrailer_SetFcs :: "packet \<Rightarrow> LrWpanMacTrailer \<Rightarrow> LrWpanMacTrailer option" where
  "LrWpanMacTrailer_SetFcs p f = (
     if m_calcFcs f then
       let size = unat (of_nat (length p) :: u16); serial_packet = take size p
       in do { c \<leftarrow> LrWpanMacTrailer_GenerateCrc16 serial_packet size; Some (f\<lparr>m_fcs := c\<rparr>) }
     else Some f)"

definition LrWpanMacTrailer_CheckFcs :: "packet \<Rightarrow> LrWpanMacTrailer \<Rightarrow> bool option" where
  "LrWpanMacTrailer_CheckFcs p f = (
     if \<not> m_calcFcs f then Some True
     else
       let size = unat (of_nat (length p) :: u16); serial_packet = take size p
       in do { checkFcs \<leftarrow> LrWpanMacTrailer_GenerateCrc16 serial_packet size;
               Some (checkFcs = LrWpanMacTrailer_GetFcs f) })"

definition LrWpanMacTrailer_EnableFcs :: "bool \<Rightarrow> LrWpanMacTrailer \<Rightarrow> LrWpanMacTrailer" where
  "LrWpanMacTrailer_EnableFcs enable f = (
     let f = f\<lparr>m_calcFcs := enable\<rparr> in if \<not> enable then f\<lparr>m_fcs := 0\<rparr> else f)"

definition LrWpanMacTrailer_IsFcsEnabled :: "LrWpanMacTrailer \<Rightarrow> bool" where
  "LrWpanMacTrailer_IsFcsEnabled f = m_calcFcs f"

subsection \<open>Linear functions on words\<close>

text \<open>A function that commutes with exclusive or is determined by its values on single bits.\<close>

definition xor_linear :: "('a::len word \<Rightarrow> 'b::len word) \<Rightarrow> bool" where
  "xor_linear F \<longleftrightarrow> (\<forall>x y. F (x XOR y) = F x XOR F y)"

lemma xor_linearD: "xor_linear F \<Longrightarrow> F (x XOR y) = F x XOR F y"
  by (simp add: xor_linear_def)

lemma xor_linear_0: "xor_linear F \<Longrightarrow> F 0 = 0"
  using xor_linearD [of F 0 0] by simp

lemma xor_linear_comp: "xor_linear F \<Longrightarrow> xor_linear G \<Longrightarrow> xor_linear (\<lambda>x. F (G x))"
  by (simp add: xor_linear_def)

lemma xor_linear_add: "xor_linear G \<Longrightarrow> xor_linear (\<lambda>a. a XOR G a)"
  unfolding xor_linear_def by (metis xor.assoc xor.left_commute)

lemma xor_linear_ucast: "xor_linear (ucast :: 'a::len word \<Rightarrow> 'b::len word)"
  unfolding xor_linear_def by (intro allI bit_word_eqI) (auto simp: bit_simps)

lemma xor_linear_shift:
  "xor_linear (push_bit n :: 'a::len word \<Rightarrow> 'a word)" "xor_linear (drop_bit n :: 'a::len word \<Rightarrow> 'a word)"
  by (simp_all add: xor_linear_def push_bit_xor drop_bit_xor)

lemma xor_linear_mask: "xor_linear (\<lambda>a :: 'a::len word. a AND m)"
  unfolding xor_linear_def by (intro allI bit_word_eqI) (auto simp: bit_simps)

lemma xor_linear_funpow: "xor_linear (F :: 'a::len word \<Rightarrow> 'a word) \<Longrightarrow> xor_linear (F ^^ n)"
  by (induction n) (simp_all add: xor_linear_def)

lemma take_bit_Suc_xor:
  "take_bit (Suc k) x = take_bit k x XOR (if bit x k then push_bit k 1 else 0 :: 'a::len word)"
  by (rule bit_word_eqI) (auto simp: bit_simps less_Suc_eq)

lemma xor_linear_ext:
  fixes F G :: "'a::len word \<Rightarrow> 'b::len word"
  assumes F: "xor_linear F" and G: "xor_linear G"
    and basis: "\<And>k. k < LENGTH('a) \<Longrightarrow> F (push_bit k 1) = G (push_bit k 1)"
  shows "F x = G x"
proof -
  have "F (take_bit k x) = G (take_bit k x)" if "k \<le> LENGTH('a)" for k
    using that
  proof (induction k)
    case (Suc k)
    then show ?case
      using basis [of k] by (simp add: take_bit_Suc_xor xor_linearD [OF F] xor_linearD [OF G]
          xor_linear_0 [OF F] xor_linear_0 [OF G])
  qed (simp add: xor_linear_0 [OF F] xor_linear_0 [OF G])
  from this [of "LENGTH('a)"] show ?thesis by (simp add: take_bit_length_eq)
qed

subsection \<open>The bit-serial CRC\<close>

text \<open>The shift register of the standard: the low bit leaves, and the generator is added when it is set.\<close>

definition crc_bit :: "u16 \<Rightarrow> u16" where
  "crc_bit r = (if odd r then drop_bit 1 r XOR 0x8408 else drop_bit 1 r)"

definition crc_octet :: "u16 \<Rightarrow> u8 \<Rightarrow> u16" where
  "crc_octet r b = (crc_bit ^^ 8) (r XOR ucast b)"

definition crc_serial :: "u8 list \<Rightarrow> u16" where
  "crc_serial bs = foldl crc_octet 0 bs"

definition crc_core :: "u16 \<Rightarrow> u16" where
  "crc_core x = crc_round x 0"

lemma crc_round_core: "crc_round a b = crc_core (a XOR ucast b)"
  by (simp add: crc_core_def crc_round_def)

text \<open>The round is a chain of four linear stages.\<close>

definition crc_swap :: "u16 \<Rightarrow> u16" where
  "crc_swap a = ucast (drop_bit 8 (ucast a :: cint) OR push_bit 8 (ucast a))"

definition crc_mix1 :: "u16 \<Rightarrow> u16" where
  "crc_mix1 a = a XOR ucast (push_bit 4 ((ucast a :: cint) AND 0xff00))"

definition crc_mix2 :: "u16 \<Rightarrow> u16" where
  "crc_mix2 a = a XOR ucast (drop_bit 4 (drop_bit 8 (ucast a :: cint)))"

definition crc_mix3 :: "u16 \<Rightarrow> u16" where
  "crc_mix3 a = a XOR ucast (drop_bit 5 ((ucast a :: cint) AND 0xff00))"

lemma crc_core_stages: "crc_core x = crc_mix3 (crc_mix2 (crc_mix1 (crc_swap x)))"
  by (simp add: crc_core_def crc_round_def crc_swap_def crc_mix1_def crc_mix2_def crc_mix3_def Let_def)

lemma crc_stages_linear: "xor_linear crc_swap" "xor_linear crc_mix1" "xor_linear crc_mix2" "xor_linear crc_mix3"
proof -
  show "xor_linear crc_swap"
    unfolding xor_linear_def crc_swap_def
    by (intro allI bit_word_eqI) (auto simp: bit_simps dest: bit_imp_le_length)
  let ?u = "ucast :: u16 \<Rightarrow> cint"
  have "xor_linear (\<lambda>a. ucast (push_bit 4 (?u a AND 0xff00)) :: u16)"
    by (rule xor_linear_comp [OF xor_linear_ucast xor_linear_comp [OF xor_linear_shift(1)
        xor_linear_comp [OF xor_linear_mask xor_linear_ucast]]])
  from xor_linear_add [OF this] show "xor_linear crc_mix1" by (simp only: crc_mix1_def [abs_def])
  have "xor_linear (\<lambda>a. ucast (drop_bit 4 (drop_bit 8 (?u a))) :: u16)"
    by (rule xor_linear_comp [OF xor_linear_ucast xor_linear_comp [OF xor_linear_shift(2)
        xor_linear_comp [OF xor_linear_shift(2) xor_linear_ucast]]])
  from xor_linear_add [OF this] show "xor_linear crc_mix2" by (simp only: crc_mix2_def [abs_def])
  have "xor_linear (\<lambda>a. ucast (drop_bit 5 (?u a AND 0xff00)) :: u16)"
    by (rule xor_linear_comp [OF xor_linear_ucast xor_linear_comp [OF xor_linear_shift(2)
        xor_linear_comp [OF xor_linear_mask xor_linear_ucast]]])
  from xor_linear_add [OF this] show "xor_linear crc_mix3" by (simp only: crc_mix3_def [abs_def])
qed

lemma crc_core_linear: "xor_linear crc_core"
  unfolding crc_core_stages [abs_def]
  by (rule xor_linear_comp [OF crc_stages_linear(4) xor_linear_comp [OF crc_stages_linear(3)
      xor_linear_comp [OF crc_stages_linear(2,1)]]])

lemma crc_bit_linear: "xor_linear crc_bit"
  unfolding xor_linear_def crc_bit_def
proof (intro allI)
  fix x y :: u16
  have "odd (x XOR y) \<longleftrightarrow> odd x \<noteq> odd y" by (simp add: bit_xor_iff flip: bit_0)
  then show "(if odd (x XOR y) then drop_bit 1 (x XOR y) XOR 0x8408 else drop_bit 1 (x XOR y)) =
      (if odd x then drop_bit 1 x XOR 0x8408 else drop_bit 1 x) XOR (if odd y then drop_bit 1 y XOR 0x8408 else drop_bit 1 y)"
    by (simp add: drop_bit_xor ac_simps)
qed

lemma funpow8: "(f ^^ 8) x = f (f (f (f (f (f (f (f x)))))))"
  by (simp add: numeral_eq_Suc)

lemma crc_core_serial: "crc_core x = (crc_bit ^^ 8) x"
proof (rule xor_linear_ext [OF crc_core_linear xor_linear_funpow [OF crc_bit_linear]])
  fix k assume "k < LENGTH(16)"
  from bit_positions(2) [OF this] show "crc_core (push_bit k 1) = (crc_bit ^^ 8) (push_bit k 1)"
    by (elim insertE emptyE; simp add: funpow8 crc_bit_def crc_core_stages crc_swap_def crc_mix1_def crc_mix2_def
        crc_mix3_def)
qed

lemma crc_round_serial: "crc_round a b = crc_octet a b"
  by (simp add: crc_round_core crc_core_serial crc_octet_def)

lemma crc_loop_serial: "crc_loop a bs = foldl crc_octet a bs"
  by (induction bs arbitrary: a) (simp_all add: crc_round_serial)

lemma GenerateCrc16_serial: "LrWpanMacTrailer_GenerateCrc16 bs (length bs) = Some (crc_serial bs)"
  by (simp add: LrWpanMacTrailer_GenerateCrc16_def crc_loop_serial crc_serial_def)

subsection \<open>Linearity and error detection\<close>

lemma crc_octet_core: "crc_octet a b = crc_core (a XOR ucast b)"
  by (simp add: crc_octet_def crc_core_serial)

lemma ucast_xor: "(ucast (x XOR y) :: u16) = ucast x XOR ucast (y :: u8)"
  by (simp add: unsigned_xor_eq)

lemma crc_octet_linear: "crc_octet (a XOR a') (b XOR b') = crc_octet a b XOR crc_octet a' b'"
proof -
  have "(a XOR a') XOR (ucast b XOR ucast b') = (a XOR ucast b) XOR (a' XOR (ucast b' :: u16))"
    by (simp only: ac_simps)
  then show ?thesis by (simp only: crc_octet_core ucast_xor xor_linearD [OF crc_core_linear])
qed

definition xor_octets :: "u8 list \<Rightarrow> u8 list \<Rightarrow> u8 list" where
  "xor_octets xs es = map2 (XOR) xs es"

lemma foldl_crc_linear:
  "length xs = length es \<Longrightarrow>
   foldl crc_octet (a XOR e) (xor_octets xs es) = foldl crc_octet a xs XOR foldl crc_octet e es"
proof (induction xs arbitrary: a e es)
  case (Cons x xs)
  then show ?case by (cases es) (simp_all add: xor_octets_def crc_octet_linear)
qed (simp add: xor_octets_def)

lemma crc_serial_linear: "length xs = length es \<Longrightarrow> crc_serial (xor_octets xs es) = crc_serial xs XOR crc_serial es"
  using foldl_crc_linear [of xs es 0 0] by (simp add: crc_serial_def)

text \<open>A step never clears a nonzero register, so the CRC of an error pattern stays nonzero once it is.\<close>

lemma crc_bit_0_iff: "crc_bit x = 0 \<longleftrightarrow> x = 0"
proof
  assume zero: "crc_bit x = 0"
  have "\<not> bit (crc_bit x) 15" by (simp add: zero)
  moreover have "\<not> bit x 16" by (auto dest: bit_imp_le_length)
  ultimately have "even x" by (auto simp: crc_bit_def bit_xor_iff bit_drop_bit_eq split: if_splits)
  with zero have "drop_bit 1 x = 0" by (simp add: crc_bit_def)
  with \<open>even x\<close> show "x = 0"
    by (metis bits_ident even_iff_mod_2_eq_zero power_one_right push_bit_of_0 take_bit_eq_mod add_0)
qed (simp add: crc_bit_def)

lemma crc_core_0_iff: "crc_core x = 0 \<longleftrightarrow> x = 0"
  by (simp only: crc_core_serial funpow8 crc_bit_0_iff)

lemma foldl_crc_zeros: "foldl crc_octet a (replicate n 0) = 0 \<longleftrightarrow> a = 0"
  by (induction n arbitrary: a) (simp_all add: crc_octet_core crc_core_0_iff)

text \<open>Two octets in a row: the high octet of the register after the first one identifies it.\<close>

definition crc_high :: "u8 \<Rightarrow> u8" where
  "crc_high b = ucast (drop_bit 8 (crc_core (ucast b)))"

definition crc_high_back :: "u8 \<Rightarrow> u8" where
  "crc_high_back v = (let w = v XOR drop_bit 5 v in w XOR push_bit 4 w)"

lemma crc_high_back: "crc_high_back (crc_high b) = b"
proof (rule xor_linear_ext [where F = "\<lambda>b. crc_high_back (crc_high b)" and G = "\<lambda>b. b"])
  have "xor_linear (\<lambda>b :: u8. ucast (drop_bit 8 (crc_core (ucast b))) :: u8)"
    by (rule xor_linear_comp [OF xor_linear_ucast xor_linear_comp [OF xor_linear_shift(2)
        xor_linear_comp [OF crc_core_linear xor_linear_ucast]]])
  then have high: "xor_linear crc_high" by (simp only: crc_high_def [abs_def])
  have "xor_linear (\<lambda>w :: u8. w XOR push_bit 4 w)" "xor_linear (\<lambda>v :: u8. v XOR drop_bit 5 v)"
    by (rule xor_linear_add, rule xor_linear_shift)+
  from xor_linear_comp [OF this] have "xor_linear crc_high_back" by (simp only: crc_high_back_def [abs_def] Let_def)
  from xor_linear_comp [OF this high] show "xor_linear (\<lambda>b. crc_high_back (crc_high b))" .
  show "xor_linear (\<lambda>b :: u8. b)" by (simp add: xor_linear_def)
  fix k assume "k < LENGTH(8)"
  from bit_positions(1) [OF this] show "crc_high_back (crc_high (push_bit k 1)) = push_bit k 1"
    by (elim insertE emptyE; simp add: crc_high_back_def crc_high_def crc_core_stages crc_swap_def crc_mix1_def
        crc_mix2_def crc_mix3_def)
qed

lemma xor_eq_0_iff_word: "x XOR y = 0 \<longleftrightarrow> x = (y :: 'a::len word)"
  by (auto simp: bit_eq_iff bit_simps)

lemma two_octets_nonzero:
  assumes "crc_octet (crc_octet 0 b) c = 0"
  shows "b = 0 \<and> c = 0"
proof -
  have "crc_core (ucast b) XOR ucast c = 0"
    using assms by (simp add: crc_octet_core crc_core_0_iff)
  then have eq: "crc_core (ucast b) = (ucast c :: u16)"
    by (simp only: xor_eq_0_iff_word)
  have "crc_high b = 0"
    unfolding crc_high_def eq by (rule bit_word_eqI) (auto simp: bit_simps dest: bit_imp_le_length)
  then have "b = 0" using crc_high_back [of b] by (simp add: crc_high_back_def)
  with eq have "(ucast c :: u16) = 0" using xor_linear_0 [OF crc_core_linear] by simp
  moreover have "c = ucast (ucast c :: u16)" by (rule bit_word_eqI) (simp add: bit_simps)
  ultimately have "c = 0" by simp
  with \<open>b = 0\<close> show ?thesis ..
qed

text \<open>An error pattern that is zero but for two adjacent octets.\<close>

definition burst :: "u8 list \<Rightarrow> bool" where
  "burst es \<longleftrightarrow> (\<exists>m b c n. es = replicate m 0 @ [b, c] @ replicate n 0 \<and> (b \<noteq> 0 \<or> c \<noteq> 0))"

lemma crc_serial_burst:
  assumes "burst es"
  shows "crc_serial es \<noteq> 0"
proof -
  from assms obtain m b c n where es: "es = replicate m 0 @ [b, c] @ replicate n 0" and ne: "b \<noteq> 0 \<or> c \<noteq> 0"
    by (auto simp: burst_def)
  have "foldl crc_octet 0 (replicate m 0) = 0" by (simp add: foldl_crc_zeros)
  then have "crc_serial es = foldl crc_octet (crc_octet (crc_octet 0 b) c) (replicate n 0)"
    by (simp add: crc_serial_def es)
  then show ?thesis using ne two_octets_nonzero [of b c] by (auto simp: foldl_crc_zeros)
qed

text \<open>
  The octets of the frame check sequence continue the division: the register is zero after them
  exactly when they are the CRC of what came before. So every burst is noticed, wherever in the
  frame it is, also in the sequence itself or across its start.
\<close>

lemma crc_core_high: "crc_core (push_bit 8 (ucast (h :: u8))) = ucast h"
proof (rule xor_linear_ext [where F = "\<lambda>h :: u8. crc_core (push_bit 8 (ucast h))" and G = ucast])
  show "xor_linear (\<lambda>h :: u8. crc_core (push_bit 8 (ucast h)))"
    by (rule xor_linear_comp [OF crc_core_linear xor_linear_comp [OF xor_linear_shift(1) xor_linear_ucast]])
  show "xor_linear (ucast :: u8 \<Rightarrow> u16)" by (rule xor_linear_ucast)
  fix k assume "k < LENGTH(8)"
  from bit_positions(1) [OF this] show "crc_core (push_bit 8 (ucast (push_bit k 1 :: u8))) = ucast (push_bit k 1 :: u8)"
    by (elim insertE emptyE; simp add: crc_core_stages crc_swap_def crc_mix1_def crc_mix2_def crc_mix3_def)
qed

lemma crc_two_octets:
  "crc_octet (crc_octet r (ucast v)) (ucast (drop_bit 8 v)) = crc_core (crc_core (r XOR (v :: u16)))"
proof -
  let ?l = "ucast (ucast v :: u8) :: u16" and ?h = "ucast (ucast (drop_bit 8 v) :: u8) :: u16"
  have v: "r XOR ?l XOR push_bit 8 ?h = r XOR v"
    by (rule bit_word_eqI) (auto simp: bit_simps not_less dest: bit_imp_le_length)
  have "crc_core (r XOR v) = crc_core (r XOR ?l) XOR ?h"
    unfolding v [symmetric] by (simp add: xor_linearD [OF crc_core_linear] crc_core_high ac_simps)
  then show ?thesis by (simp add: crc_octet_core)
qed

lemma crc_serial_fcs: "crc_serial (p @ le16 v) = 0 \<longleftrightarrow> v = crc_serial p"
  by (simp add: crc_serial_def le16_def crc_two_octets crc_core_0_iff xor_eq_0_iff_word) auto

subsection \<open>The trailer on a packet\<close>

lemma CheckFcs_serial:
  "m_calcFcs f \<Longrightarrow> length p < 65536 \<Longrightarrow> LrWpanMacTrailer_CheckFcs p f = Some (crc_serial p = m_fcs f)"
  using GenerateCrc16_serial [of p]
  by (simp add: LrWpanMacTrailer_CheckFcs_def LrWpanMacTrailer_GetFcs_def unsigned_of_nat take_bit_nat_eq_self)

lemma SetFcs_serial:
  "m_calcFcs f \<Longrightarrow> length p < 65536 \<Longrightarrow> LrWpanMacTrailer_SetFcs p f = Some (f\<lparr>m_fcs := crc_serial p\<rparr>)"
  using GenerateCrc16_serial [of p]
  by (simp add: LrWpanMacTrailer_SetFcs_def unsigned_of_nat take_bit_nat_eq_self)

lemma Trailer_Serialize: "length old = 2 \<Longrightarrow> LrWpanMacTrailer_Serialize f (p @ old, r) = Some (p @ le16 (m_fcs f), r)"
  by (simp add: LrWpanMacTrailer_Serialize_def Prev_def wire_simps WriteBuf_def)

lemma Trailer_Deserialize:
  "LrWpanMacTrailer_Deserialize f (p @ le16 v, []) = Some (f\<lparr>m_fcs := v\<rparr>, 2)"
  using ReadU16_le(1) [of p v "[]"]
  by (simp add: LrWpanMacTrailer_Deserialize_def Prev_def)

lemma Trailer_add_remove:
  assumes "length fresh = LrWpanMacTrailer_GetSerializedSize f"
  shows "AddTrailer fresh LrWpanMacTrailer_Serialize f p = Some (p @ le16 (m_fcs f))"
    and "RemoveTrailer LrWpanMacTrailer_Deserialize f0 (p @ le16 v) = Some (f0\<lparr>m_fcs := v\<rparr>, 2, p)"
  using assms by (simp_all add: AddTrailer_def RemoveTrailer_def LrWpanMacTrailer_GetSerializedSize_def
      Trailer_Serialize Trailer_Deserialize)

end
