(* ===== verification/Group_Ack_Elements.thy ===== *)
theory Group_Ack_Elements
  imports Information_Elements
begin

section \<open>Group acknowledgement elements\<close>

text \<open>
  The header elements of \<open>lr-wpan-mac-pl-headers\<close> in which a coordinator acknowledges a whole
  group of slots at once: the 64-bit hash table bitmap of the enhanced group acknowledgement,
  the standard's group acknowledgement with its control octet, and the per-node bitmaps of the
  DSME-GTS group acknowledgement.
\<close>

subsection \<open>EnhancedGroupAckDescriptorIE\<close>

record EnhancedGroupAckDescriptorIE =
  egack_descriptor :: HeaderIEDescriptor
  egack_ieLength :: u32
  m_u8GroupAckBitmap :: u64

definition EnhancedGroupAckDescriptorIE_new :: "EnhancedGroupAckDescriptorIE \<Rightarrow> EnhancedGroupAckDescriptorIE" where
  "EnhancedGroupAckDescriptorIE_new mem =
     mem\<lparr>egack_descriptor := HeaderIEDescriptor_new (egack_descriptor mem), m_u8GroupAckBitmap := 0\<rparr>"

definition EnhancedGroupAckDescriptorIE_SetHeaderIEDescriptor :: "EnhancedGroupAckDescriptorIE \<Rightarrow> EnhancedGroupAckDescriptorIE" where
  "EnhancedGroupAckDescriptorIE_SetHeaderIEDescriptor f = f\<lparr>egack_descriptor :=
     HeaderIEDescriptor_SetHeaderElementID HEADERIE_ENHANCED_GACK
       (HeaderIEDescriptor_SetLength (ucast (egack_ieLength f)) (egack_descriptor f))\<rparr>"

definition EnhancedGroupAckDescriptorIE_SetIELength :: "u32 \<Rightarrow> EnhancedGroupAckDescriptorIE \<Rightarrow> EnhancedGroupAckDescriptorIE" where
  [class_defs]: "EnhancedGroupAckDescriptorIE_SetIELength length' f = f\<lparr>egack_ieLength := length'\<rparr>"

definition EnhancedGroupAckDescriptorIE_SetGroupAckBitmap :: "u64 \<Rightarrow> EnhancedGroupAckDescriptorIE \<Rightarrow> EnhancedGroupAckDescriptorIE" where
  [class_defs]: "EnhancedGroupAckDescriptorIE_SetGroupAckBitmap bitmap f = f\<lparr>m_u8GroupAckBitmap := bitmap\<rparr>"

definition EnhancedGroupAckDescriptorIE_GetIELength :: "EnhancedGroupAckDescriptorIE \<Rightarrow> u32" where
  [class_defs]: "EnhancedGroupAckDescriptorIE_GetIELength f = egack_ieLength f"

definition EnhancedGroupAckDescriptorIE_GetGroupAckBitmap :: "EnhancedGroupAckDescriptorIE \<Rightarrow> u64" where
  [class_defs]: "EnhancedGroupAckDescriptorIE_GetGroupAckBitmap f = m_u8GroupAckBitmap f"

definition EnhancedGroupAckDescriptorIE_GetSerializedSize :: "EnhancedGroupAckDescriptorIE \<Rightarrow> nat" where
  "EnhancedGroupAckDescriptorIE_GetSerializedSize f = unat (EnhancedGroupAckDescriptorIE_GetIELength f)"

definition EnhancedGroupAckDescriptorIE_Serialize :: "EnhancedGroupAckDescriptorIE \<Rightarrow> iter \<Rightarrow> iter option" where
  "EnhancedGroupAckDescriptorIE_Serialize f i = do {
     i \<leftarrow> HeaderIEDescriptor_Serialize (egack_descriptor f) i;
     WriteHtolsbU64 (m_u8GroupAckBitmap f) i }"

definition EnhancedGroupAckDescriptorIE_Deserialize ::
  "EnhancedGroupAckDescriptorIE \<Rightarrow> iter \<Rightarrow> (EnhancedGroupAckDescriptorIE \<times> iter) option" where
  "EnhancedGroupAckDescriptorIE_Deserialize f i = do {
     (x, i) \<leftarrow> HeaderIEDescriptor_Deserialize (egack_descriptor f) i;
     (b, i) \<leftarrow> ReadLsbtohU64 i;
     Some (f\<lparr>egack_descriptor := x, m_u8GroupAckBitmap := b\<rparr>, i) }"

definition egack_wire :: "EnhancedGroupAckDescriptorIE \<Rightarrow> u8 list" where
  "egack_wire f = hie_wire (egack_descriptor f) @ le64 (m_u8GroupAckBitmap f)"

definition egack_rebuilt :: "EnhancedGroupAckDescriptorIE \<Rightarrow> EnhancedGroupAckDescriptorIE \<Rightarrow> EnhancedGroupAckDescriptorIE" where
  "egack_rebuilt f0 f = f\<lparr>egack_ieLength := egack_ieLength f0\<rparr>"

lemma length_egack_wire [simp]: "length (egack_wire f) = 10"
  by (simp add: egack_wire_def)

lemma egack_wire_simps [wire_simps]:
  "EnhancedGroupAckDescriptorIE_Serialize f i = WriteBuf (egack_wire f) i"
  "hie_ok (egack_descriptor f) \<Longrightarrow> EnhancedGroupAckDescriptorIE_Deserialize f0 (d, egack_wire f @ r) =
     Some (egack_rebuilt f0 f, (d @ egack_wire f, r))"
  by (cases f; cases f0; simp add: EnhancedGroupAckDescriptorIE_Serialize_def EnhancedGroupAckDescriptorIE_Deserialize_def
      egack_wire_def egack_rebuilt_def wire_simps)+

text \<open>The element travels when the announced length counts its descriptor: ten octets.\<close>

interpretation enhanced_gack: header_codec EnhancedGroupAckDescriptorIE_GetSerializedSize egack_wire
  EnhancedGroupAckDescriptorIE_Serialize EnhancedGroupAckDescriptorIE_Deserialize
  "\<lambda>f. hie_ok (egack_descriptor f) \<and> egack_ieLength f = 10" "\<lambda>_ _. True" egack_rebuilt
  by unfold_locales (simp_all add: wire_simps EnhancedGroupAckDescriptorIE_GetSerializedSize_def
      EnhancedGroupAckDescriptorIE_GetIELength_def)

text \<open>
  With the length 8 that the MAC sets, eight octets are opened and ten are written: the last
  two octets of the bitmap replace the first two octets of whatever follows.
\<close>

lemma egack_overwrites:
  assumes "egack_ieLength f = 8" and "length fresh = EnhancedGroupAckDescriptorIE_GetSerializedSize f" and "2 \<le> length p"
  shows "AddHeader fresh EnhancedGroupAckDescriptorIE_Serialize f p = Some (egack_wire f @ drop 2 p)"
  using assms by (simp add: AddHeader_def wire_simps WriteBuf_def EnhancedGroupAckDescriptorIE_GetSerializedSize_def
      EnhancedGroupAckDescriptorIE_GetIELength_def)

subsection \<open>AckControl\<close>

record AckControl =
  m_payloadSize :: u8
  m_bitmapSize :: u8
  ackctrl_reserved :: u8

definition AckControl_new :: AckControl where
  "AckControl_new = \<lparr>m_payloadSize = 0, m_bitmapSize = 0, ackctrl_reserved = 0\<rparr>"

definition AckControl_SetAckCtrl :: "u8 \<Rightarrow> AckControl \<Rightarrow> AckControl" where
  "AckControl_SetAckCtrl ackCtrl f = f\<lparr>m_payloadSize := ackCtrl AND 7,
     m_bitmapSize := getField ackCtrl 3 3, ackctrl_reserved := getField ackCtrl 5 3\<rparr>"

definition AckControl_GetAckCtrl :: "AckControl \<Rightarrow> u8" where
  "AckControl_GetAckCtrl f = (
     let ackCtrl = ucast ((ucast (m_payloadSize f) :: cint) AND 7);
         ackCtrl = ackCtrl OR ucast (push_bit 3 (ucast (m_bitmapSize f) :: cint) AND 3);
         ackCtrl = ackCtrl OR ucast (push_bit 5 (ucast (ackctrl_reserved f) :: cint) AND 3)
     in ackCtrl)"

definition AckControl_SetPayloadSize :: "u8 \<Rightarrow> AckControl \<Rightarrow> AckControl" where
  [class_defs]: "AckControl_SetPayloadSize payloadSize f = f\<lparr>m_payloadSize := payloadSize\<rparr>"

definition AckControl_SetBitmapSize :: "u8 \<Rightarrow> AckControl \<Rightarrow> AckControl" where
  [class_defs]: "AckControl_SetBitmapSize bitmapSize f = f\<lparr>m_bitmapSize := bitmapSize\<rparr>"

definition AckControl_GetPayloadSize :: "AckControl \<Rightarrow> u8" where
  [class_defs]: "AckControl_GetPayloadSize f = m_payloadSize f"

definition AckControl_GetBitmapSize :: "AckControl \<Rightarrow> u8" where
  [class_defs]: "AckControl_GetBitmapSize f = m_bitmapSize f"

definition AckControl_Serialize :: "AckControl \<Rightarrow> iter \<Rightarrow> iter option" where
  "AckControl_Serialize f i = WriteU8 (AckControl_GetAckCtrl f) i"

definition AckControl_GetSerializedSize :: "AckControl \<Rightarrow> nat" where
  "AckControl_GetSerializedSize f = 1"

definition AckControl_Deserialize :: "AckControl \<Rightarrow> iter \<Rightarrow> (AckControl \<times> iter) option" where
  "AckControl_Deserialize f i = do { (ackCtrl, i) \<leftarrow> ReadU8 i; Some (AckControl_SetAckCtrl ackCtrl f, i) }"

text \<open>Only the payload size survives the masks, so that is all a receiver gets.\<close>

definition ackctrl_rebuilt :: "AckControl \<Rightarrow> AckControl \<Rightarrow> AckControl" where
  "ackctrl_rebuilt f0 f = f0\<lparr>m_payloadSize := take_bit 3 (m_payloadSize f), m_bitmapSize := 0, ackctrl_reserved := 0\<rparr>"

definition ackctrl_wire :: "AckControl \<Rightarrow> u8 list" where
  "ackctrl_wire f = [take_bit 3 (m_payloadSize f)]"

lemma ackctrl_octet: "AckControl_GetAckCtrl f = take_bit 3 (m_payloadSize f)"
proof -
  have z: "push_bit 3 (v :: cint) AND 3 = 0" "push_bit 5 v AND 3 = 0" for v
    by (rule bit_word_eqI; auto simp: and_mask bit_simps)+
  have "ucast ((ucast (m_payloadSize f) :: cint) AND 7) = take_bit 3 (m_payloadSize f)"
    by (rule bit_word_eqI) (auto simp: and_mask bit_simps)
  then show ?thesis by (simp add: AckControl_GetAckCtrl_def z)
qed

lemma ackctrl_read: "AckControl_SetAckCtrl (take_bit 3 v) f = f\<lparr>m_payloadSize := take_bit 3 v, m_bitmapSize := 0, ackctrl_reserved := 0\<rparr>"
proof -
  have "getField (take_bit 3 v) 3 3 = 0" "getField (take_bit 3 v) 5 3 = 0" for v :: u8
    by (rule bit_word_eqI; auto simp: getField_def and_mask bit_simps)+
  moreover have "take_bit 3 v AND 7 = take_bit 3 v" by (simp add: and_mask)
  ultimately show ?thesis by (simp add: AckControl_SetAckCtrl_def)
qed

lemma ackctrl_wire_simps [wire_simps]:
  "AckControl_Serialize f i = WriteBuf (ackctrl_wire f) i"
  "AckControl_Deserialize f0 (d, ackctrl_wire f @ r) = Some (ackctrl_rebuilt f0 f, (d @ ackctrl_wire f, r))"
  by (simp_all add: AckControl_Serialize_def AckControl_Deserialize_def ackctrl_wire_def ackctrl_rebuilt_def
      ackctrl_octet ackctrl_read wire_simps)

lemma length_ackctrl_wire [simp]: "length (ackctrl_wire f) = 1"
  by (simp add: ackctrl_wire_def)

interpretation ack_control: header_codec AckControl_GetSerializedSize ackctrl_wire AckControl_Serialize
  AckControl_Deserialize "\<lambda>_. True" "\<lambda>_ _. True" ackctrl_rebuilt
  by unfold_locales (simp_all add: wire_simps AckControl_GetSerializedSize_def)

subsection \<open>LegacyGroupAckIE\<close>

record LegacyGroupAckIE =
  lgack_descriptor :: HeaderIEDescriptor
  lgack_ieLength :: u32
  m_ackCtrl :: AckControl
  m_gackBitmap :: u16
  m_gackDevList :: u8
  m_gackIdx :: u16
  m_gtsDirections :: u8

definition LegacyGroupAckIE_new :: "LegacyGroupAckIE \<Rightarrow> LegacyGroupAckIE" where
  "LegacyGroupAckIE_new mem = mem\<lparr>lgack_descriptor := HeaderIEDescriptor_new (lgack_descriptor mem), m_ackCtrl := AckControl_new\<rparr>"

definition LegacyGroupAckIE_SetHeaderIEDescriptor :: "LegacyGroupAckIE \<Rightarrow> LegacyGroupAckIE" where
  "LegacyGroupAckIE_SetHeaderIEDescriptor f = f\<lparr>lgack_descriptor :=
     HeaderIEDescriptor_SetHeaderElementID HEADERIE_GACK
       (HeaderIEDescriptor_SetLength (ucast (lgack_ieLength f)) (lgack_descriptor f))\<rparr>"

text \<open>\<open>SetBitmap\<close>, \<open>ResetBitmap\<close> and \<open>SetGackIdx\<close> change their own copy of the argument.\<close>

definition LegacyGroupAckIE_SetBitmap :: "u8 \<Rightarrow> u8 \<Rightarrow> LegacyGroupAckIE \<Rightarrow> LegacyGroupAckIE" where
  "LegacyGroupAckIE_SetBitmap bitmap bitLocation f = (
     let bitmap' = bitmap OR ucast (push_bit (unat bitLocation) 1 :: cint) in f)"

definition LegacyGroupAckIE_ResetBitmap :: "u8 \<Rightarrow> LegacyGroupAckIE \<Rightarrow> LegacyGroupAckIE" where
  "LegacyGroupAckIE_ResetBitmap bitmap f = (let bitmap' = 0 :: u8 in f)"

definition LegacyGroupAckIE_SetGackIdx :: "u16 \<Rightarrow> u16 \<Rightarrow> u16 \<Rightarrow> LegacyGroupAckIE \<Rightarrow> LegacyGroupAckIE" where
  "LegacyGroupAckIE_SetGackIdx gackIdxBitmap startLocation value f = (
     let gackIdxBitmap' = gackIdxBitmap OR ucast (push_bit (unat startLocation) ((ucast value :: cint) AND 0x0F)) in f)"

definition LegacyGroupAckIE_GetGackIdx :: "u16 \<Rightarrow> u16 \<Rightarrow> u16" where
  "LegacyGroupAckIE_GetGackIdx gackIdxBitmap startLocation = (
     let value = 0 in value OR ucast (drop_bit (unat startLocation) (ucast gackIdxBitmap :: cint) AND 0x0F))"

definition LegacyGroupAckIE_SetIELength :: "u32 \<Rightarrow> LegacyGroupAckIE \<Rightarrow> LegacyGroupAckIE" where
  [class_defs]: "LegacyGroupAckIE_SetIELength length' f = f\<lparr>lgack_ieLength := length'\<rparr>"

definition LegacyGroupAckIE_SetGackBitmapField :: "u16 \<Rightarrow> LegacyGroupAckIE \<Rightarrow> LegacyGroupAckIE" where
  [class_defs]: "LegacyGroupAckIE_SetGackBitmapField gackBitmap f = f\<lparr>m_gackBitmap := gackBitmap\<rparr>"

definition LegacyGroupAckIE_SetGackDevListField :: "u8 \<Rightarrow> LegacyGroupAckIE \<Rightarrow> LegacyGroupAckIE" where
  [class_defs]: "LegacyGroupAckIE_SetGackDevListField gackDevList f = f\<lparr>m_gackDevList := gackDevList\<rparr>"

definition LegacyGroupAckIE_SetGackIdxBitmapField :: "u16 \<Rightarrow> LegacyGroupAckIE \<Rightarrow> LegacyGroupAckIE" where
  [class_defs]: "LegacyGroupAckIE_SetGackIdxBitmapField gackIdxBitmap f = f\<lparr>m_gackIdx := gackIdxBitmap\<rparr>"

definition LegacyGroupAckIE_SetGtsDirectionBitmapField :: "u8 \<Rightarrow> LegacyGroupAckIE \<Rightarrow> LegacyGroupAckIE" where
  [class_defs]: "LegacyGroupAckIE_SetGtsDirectionBitmapField gtsDirectionBitmap f = f\<lparr>m_gtsDirections := gtsDirectionBitmap\<rparr>"

definition LegacyGroupAckIE_GetGackBitmapField :: "LegacyGroupAckIE \<Rightarrow> u16" where
  [class_defs]: "LegacyGroupAckIE_GetGackBitmapField f = m_gackBitmap f"

definition LegacyGroupAckIE_GetGackDevListField :: "LegacyGroupAckIE \<Rightarrow> u8" where
  [class_defs]: "LegacyGroupAckIE_GetGackDevListField f = m_gackDevList f"

definition LegacyGroupAckIE_GetGackIdxBitmapField :: "LegacyGroupAckIE \<Rightarrow> u16" where
  [class_defs]: "LegacyGroupAckIE_GetGackIdxBitmapField f = m_gackIdx f"

definition LegacyGroupAckIE_GetGtsDirectionBitmapField :: "LegacyGroupAckIE \<Rightarrow> u8" where
  [class_defs]: "LegacyGroupAckIE_GetGtsDirectionBitmapField f = m_gtsDirections f"

definition LegacyGroupAckIE_GetSerializedSize :: "LegacyGroupAckIE \<Rightarrow> nat" where
  "LegacyGroupAckIE_GetSerializedSize f = (
     let size = 0; size = size + 1; size = size + 2; size = size + 1; size = size + 2; size = size + 1 in size)"

definition LegacyGroupAckIE_Serialize :: "LegacyGroupAckIE \<Rightarrow> iter \<Rightarrow> iter option" where
  "LegacyGroupAckIE_Serialize f i = do {
     i \<leftarrow> AckControl_Serialize (m_ackCtrl f) i;
     i \<leftarrow> WriteU16 (m_gackBitmap f) i;
     i \<leftarrow> WriteU8 (m_gackDevList f) i;
     i \<leftarrow> WriteU16 (m_gackIdx f) i;
     WriteU8 (m_gtsDirections f) i }"

definition LegacyGroupAckIE_Deserialize :: "LegacyGroupAckIE \<Rightarrow> iter \<Rightarrow> (LegacyGroupAckIE \<times> iter) option" where
  "LegacyGroupAckIE_Deserialize f i = do {
     (c, i) \<leftarrow> AckControl_Deserialize (m_ackCtrl f) i;
     (b, i) \<leftarrow> ReadU16 i;
     (l, i) \<leftarrow> ReadU8 i;
     (x, i) \<leftarrow> ReadU16 i;
     (g, i) \<leftarrow> ReadU8 i;
     Some (f\<lparr>m_ackCtrl := c, m_gackBitmap := b, m_gackDevList := l, m_gackIdx := x, m_gtsDirections := g\<rparr>, i) }"

definition lgack_wire :: "LegacyGroupAckIE \<Rightarrow> u8 list" where
  "lgack_wire f = ackctrl_wire (m_ackCtrl f) @ le16 (m_gackBitmap f) @ [m_gackDevList f] @ le16 (m_gackIdx f) @ [m_gtsDirections f]"

definition lgack_rebuilt :: "LegacyGroupAckIE \<Rightarrow> LegacyGroupAckIE \<Rightarrow> LegacyGroupAckIE" where
  "lgack_rebuilt f0 f = f0\<lparr>m_ackCtrl := ackctrl_rebuilt (m_ackCtrl f0) (m_ackCtrl f), m_gackBitmap := m_gackBitmap f,
     m_gackDevList := m_gackDevList f, m_gackIdx := m_gackIdx f, m_gtsDirections := m_gtsDirections f\<rparr>"

lemma lgack_wire_simps [wire_simps]:
  "LegacyGroupAckIE_Serialize f i = WriteBuf (lgack_wire f) i"
  "LegacyGroupAckIE_Deserialize f0 (d, lgack_wire f @ r) = Some (lgack_rebuilt f0 f, (d @ lgack_wire f, r))"
  by (simp_all add: LegacyGroupAckIE_Serialize_def LegacyGroupAckIE_Deserialize_def lgack_wire_def lgack_rebuilt_def wire_simps)

text \<open>The element is seven octets: the descriptor that would announce it is not written.\<close>

interpretation legacy_gack: header_codec LegacyGroupAckIE_GetSerializedSize lgack_wire LegacyGroupAckIE_Serialize
  LegacyGroupAckIE_Deserialize "\<lambda>_. True" "\<lambda>_ _. True" lgack_rebuilt
  by unfold_locales (simp_all add: wire_simps LegacyGroupAckIE_GetSerializedSize_def, simp add: lgack_wire_def)

subsection \<open>DsmeGtsGroupAckDescriptorIE\<close>

record DsmeGtsGackPayload =
  nodeAddr :: mac16
  bitmapLength :: u8
  sequenceNumber :: u8
  payload_bitmap :: "u8 list"

record DsmeGtsGroupAckDescriptorIE =
  dgack_descriptor :: HeaderIEDescriptor
  dgack_ieLength :: u32
  m_payloadsNumber :: u8
  m_payloads :: "DsmeGtsGackPayload list"

definition DsmeGtsGroupAckDescriptorIE_new :: "DsmeGtsGroupAckDescriptorIE \<Rightarrow> DsmeGtsGroupAckDescriptorIE" where
  "DsmeGtsGroupAckDescriptorIE_new mem =
     mem\<lparr>dgack_descriptor := HeaderIEDescriptor_new (dgack_descriptor mem), m_payloads := []\<rparr>"

definition DsmeGtsGroupAckDescriptorIE_SetHeaderIEDescriptor :: "DsmeGtsGroupAckDescriptorIE \<Rightarrow> DsmeGtsGroupAckDescriptorIE" where
  "DsmeGtsGroupAckDescriptorIE_SetHeaderIEDescriptor f = f\<lparr>dgack_descriptor :=
     HeaderIEDescriptor_SetHeaderElementID HEADERIE_DSME_GTS_GACK
       (HeaderIEDescriptor_SetLength (ucast (dgack_ieLength f)) (dgack_descriptor f))\<rparr>"

definition DsmeGtsGroupAckDescriptorIE_SetIELength :: "u32 \<Rightarrow> DsmeGtsGroupAckDescriptorIE \<Rightarrow> DsmeGtsGroupAckDescriptorIE" where
  [class_defs]: "DsmeGtsGroupAckDescriptorIE_SetIELength length' f = f\<lparr>dgack_ieLength := length'\<rparr>"

definition DsmeGtsGroupAckDescriptorIE_SetPayloadsNumber :: "u8 \<Rightarrow> DsmeGtsGroupAckDescriptorIE \<Rightarrow> DsmeGtsGroupAckDescriptorIE" where
  [class_defs]: "DsmeGtsGroupAckDescriptorIE_SetPayloadsNumber payloadNumber f = f\<lparr>m_payloadsNumber := payloadNumber\<rparr>"

definition DsmeGtsGroupAckDescriptorIE_SetDsmeGtsGackPayload :: "DsmeGtsGackPayload list \<Rightarrow> DsmeGtsGroupAckDescriptorIE \<Rightarrow> DsmeGtsGroupAckDescriptorIE" where
  [class_defs]: "DsmeGtsGroupAckDescriptorIE_SetDsmeGtsGackPayload payloads f = f\<lparr>m_payloads := payloads\<rparr>"

definition DsmeGtsGroupAckDescriptorIE_GetIELength :: "DsmeGtsGroupAckDescriptorIE \<Rightarrow> u32" where
  [class_defs]: "DsmeGtsGroupAckDescriptorIE_GetIELength f = dgack_ieLength f"

definition DsmeGtsGroupAckDescriptorIE_GetPayloadsNumber :: "DsmeGtsGroupAckDescriptorIE \<Rightarrow> u8" where
  [class_defs]: "DsmeGtsGroupAckDescriptorIE_GetPayloadsNumber f = m_payloadsNumber f"

definition DsmeGtsGroupAckDescriptorIE_GetDsmeGtsGackPayload :: "DsmeGtsGroupAckDescriptorIE \<Rightarrow> DsmeGtsGackPayload list" where
  [class_defs]: "DsmeGtsGroupAckDescriptorIE_GetDsmeGtsGackPayload f = m_payloads f"

definition DsmeGtsGackPayload_default :: DsmeGtsGackPayload where
  "DsmeGtsGackPayload_default = \<lparr>nodeAddr = Mac16Address 0 0, bitmapLength = 1, sequenceNumber = 0, payload_bitmap = []\<rparr>"

definition DsmeGtsGroupAckDescriptorIE_AdjustPayloadSize :: "DsmeGtsGroupAckDescriptorIE \<Rightarrow> DsmeGtsGroupAckDescriptorIE" where
  "DsmeGtsGroupAckDescriptorIE_AdjustPayloadSize f = f\<lparr>m_payloads :=
     resize DsmeGtsGackPayload_default (unat (DsmeGtsGroupAckDescriptorIE_GetPayloadsNumber f)) (m_payloads f)\<rparr>"

definition DsmeGtsGroupAckDescriptorIE_AdjustBitmapSize :: "DsmeGtsGackPayload \<Rightarrow> DsmeGtsGackPayload" where
  "DsmeGtsGroupAckDescriptorIE_AdjustBitmapSize gtsGackPayload = gtsGackPayload\<lparr>payload_bitmap :=
     resize 0 (unat (bitmapLength gtsGackPayload)) (payload_bitmap gtsGackPayload)\<rparr>"

fun gack_total :: "nat \<Rightarrow> DsmeGtsGackPayload list \<Rightarrow> nat" where
  "gack_total totalSize [] = totalSize"
| "gack_total totalSize (p # ps) = gack_total (totalSize + (2 + 1 + 1 + length (payload_bitmap p))) ps"

definition DsmeGtsGroupAckDescriptorIE_GetPayloadTotalSize :: "DsmeGtsGroupAckDescriptorIE \<Rightarrow> nat" where
  "DsmeGtsGroupAckDescriptorIE_GetPayloadTotalSize f = gack_total 0 (m_payloads f)"

definition DsmeGtsGroupAckDescriptorIE_GetSerializedSize :: "DsmeGtsGroupAckDescriptorIE \<Rightarrow> nat" where
  "DsmeGtsGroupAckDescriptorIE_GetSerializedSize f = (
     let size = 0; size = size + 1; size = size + DsmeGtsGroupAckDescriptorIE_GetPayloadTotalSize f in size)"

definition DsmeGtsGackPayload_write :: "DsmeGtsGackPayload \<Rightarrow> iter \<Rightarrow> iter option" where
  "DsmeGtsGackPayload_write p i = do {
     i \<leftarrow> WriteTo_Mac16 (nodeAddr p) i;
     i \<leftarrow> WriteU8 (bitmapLength p) i;
     i \<leftarrow> WriteU8 (sequenceNumber p) i;
     bs \<leftarrow> firstN (unat (bitmapLength p)) (payload_bitmap p);
     WriteAll WriteU8 bs i }"

definition DsmeGtsGackPayload_read :: "iter \<Rightarrow> (DsmeGtsGackPayload \<times> iter) option" where
  "DsmeGtsGackPayload_read i = do {
     (a, i) \<leftarrow> ReadFrom_Mac16 i;
     (l, i) \<leftarrow> ReadU8 i;
     (s, i) \<leftarrow> ReadU8 i;
     (bs, i) \<leftarrow> ReadMany (unat l) ReadU8 i;
     Some (\<lparr>nodeAddr = a, bitmapLength = l, sequenceNumber = s, payload_bitmap = bs\<rparr>, i) }"

definition DsmeGtsGroupAckDescriptorIE_Serialize :: "DsmeGtsGroupAckDescriptorIE \<Rightarrow> iter \<Rightarrow> iter option" where
  "DsmeGtsGroupAckDescriptorIE_Serialize f i = do {
     i \<leftarrow> WriteU8 (m_payloadsNumber f) i;
     ps \<leftarrow> firstN (unat (m_payloadsNumber f)) (m_payloads f);
     WriteAll DsmeGtsGackPayload_write ps i }"

text \<open>The payloads read are appended to those the object has.\<close>

definition DsmeGtsGroupAckDescriptorIE_Deserialize ::
  "DsmeGtsGroupAckDescriptorIE \<Rightarrow> iter \<Rightarrow> (DsmeGtsGroupAckDescriptorIE \<times> iter) option" where
  "DsmeGtsGroupAckDescriptorIE_Deserialize f i = do {
     (n, i) \<leftarrow> ReadU8 i;
     (ps, i) \<leftarrow> ReadMany (unat n) DsmeGtsGackPayload_read i;
     Some (f\<lparr>m_payloadsNumber := n, m_payloads := m_payloads f @ ps\<rparr>, i) }"

definition payload_ok :: "DsmeGtsGackPayload \<Rightarrow> bool" where
  "payload_ok p \<longleftrightarrow> length (payload_bitmap p) = unat (bitmapLength p)"

definition dgack_ok :: "DsmeGtsGroupAckDescriptorIE \<Rightarrow> bool" where
  "dgack_ok f \<longleftrightarrow> length (m_payloads f) = unat (m_payloadsNumber f) \<and> (\<forall>p \<in> set (m_payloads f). payload_ok p)"

definition payload_wire :: "DsmeGtsGackPayload \<Rightarrow> u8 list" where
  "payload_wire p = octets16 (nodeAddr p) @ [bitmapLength p, sequenceNumber p] @ payload_bitmap p"

definition dgack_wire :: "DsmeGtsGroupAckDescriptorIE \<Rightarrow> u8 list" where
  "dgack_wire f = [m_payloadsNumber f] @ concat (map payload_wire (m_payloads f))"

definition dgack_rebuilt :: "DsmeGtsGroupAckDescriptorIE \<Rightarrow> DsmeGtsGroupAckDescriptorIE \<Rightarrow> DsmeGtsGroupAckDescriptorIE" where
  "dgack_rebuilt f0 f = f0\<lparr>m_payloadsNumber := m_payloadsNumber f, m_payloads := m_payloads f0 @ m_payloads f\<rparr>"

lemma payload_wire_simps [wire_simps]:
  "payload_ok p \<Longrightarrow> DsmeGtsGackPayload_write p i = WriteBuf (payload_wire p) i"
  "payload_ok p \<Longrightarrow> DsmeGtsGackPayload_read (d, payload_wire p @ r) = Some (p, (d @ payload_wire p, r))"
proof -
  assume ok: "payload_ok p"
  then show "DsmeGtsGackPayload_write p i = WriteBuf (payload_wire p) i"
    by (simp add: DsmeGtsGackPayload_write_def payload_wire_def payload_ok_def firstN_def wire_simps)
  show "DsmeGtsGackPayload_read (d, payload_wire p @ r) = Some (p, (d @ payload_wire p, r))"
    using ok by (simp add: DsmeGtsGackPayload_read_def payload_wire_def payload_ok_def ReadMany_octets wire_simps)
qed

lemma gack_total_sum: "gack_total n ps = n + (\<Sum>p\<leftarrow>ps. 4 + length (payload_bitmap p))"
  by (induction ps arbitrary: n) simp_all

lemma length_payload_wires: "length (concat (map payload_wire ps)) = (\<Sum>p\<leftarrow>ps. 4 + length (payload_bitmap p))"
  by (induction ps) (simp_all add: payload_wire_def)

lemma dgack_codec:
  assumes "dgack_ok f"
  shows "DsmeGtsGroupAckDescriptorIE_Serialize f i = WriteBuf (dgack_wire f) i"
    and "length (dgack_wire f) = DsmeGtsGroupAckDescriptorIE_GetSerializedSize f"
    and "DsmeGtsGroupAckDescriptorIE_Deserialize f0 (d, dgack_wire f @ r) = Some (dgack_rebuilt f0 f, (d @ dgack_wire f, r))"
proof -
  from assms have n: "length (m_payloads f) = unat (m_payloadsNumber f)" and ok: "\<And>p. p \<in> set (m_payloads f) \<Longrightarrow> payload_ok p"
    by (auto simp: dgack_ok_def)
  have w: "WriteAll DsmeGtsGackPayload_write (m_payloads f) = WriteBuf (concat (map payload_wire (m_payloads f)))"
    by (rule WriteAll_WriteBuf_fun) (rule ext, rule payload_wire_simps(1), rule ok)
  show "DsmeGtsGroupAckDescriptorIE_Serialize f i = WriteBuf (dgack_wire f) i"
    using n by (simp add: DsmeGtsGroupAckDescriptorIE_Serialize_def dgack_wire_def firstN_def w wire_simps)
  show "length (dgack_wire f) = DsmeGtsGroupAckDescriptorIE_GetSerializedSize f"
    by (simp add: DsmeGtsGroupAckDescriptorIE_GetSerializedSize_def DsmeGtsGroupAckDescriptorIE_GetPayloadTotalSize_def
        dgack_wire_def gack_total_sum length_payload_wires)
  have "ReadMany (length (m_payloads f)) DsmeGtsGackPayload_read (d', concat (map payload_wire (m_payloads f)) @ r) =
      Some (m_payloads f, (d' @ concat (map payload_wire (m_payloads f)), r))" for d'
    by (rule ReadMany_concat) (rule payload_wire_simps(2), rule ok)
  then show "DsmeGtsGroupAckDescriptorIE_Deserialize f0 (d, dgack_wire f @ r) = Some (dgack_rebuilt f0 f, (d @ dgack_wire f, r))"
    by (simp add: DsmeGtsGroupAckDescriptorIE_Deserialize_def dgack_wire_def dgack_rebuilt_def n wire_simps)
qed

interpretation dsme_gts_gack: header_codec DsmeGtsGroupAckDescriptorIE_GetSerializedSize dgack_wire
  DsmeGtsGroupAckDescriptorIE_Serialize DsmeGtsGroupAckDescriptorIE_Deserialize dgack_ok "\<lambda>_ _. True" dgack_rebuilt
  by unfold_locales (simp_all add: dgack_codec)

text \<open>\<open>AdjustBitmapSize\<close> and \<open>AdjustPayloadSize\<close> establish the lengths that \<open>Serialize\<close> needs.\<close>

lemma AdjustBitmapSize_ok: "payload_ok (DsmeGtsGroupAckDescriptorIE_AdjustBitmapSize p)"
  by (simp add: payload_ok_def DsmeGtsGroupAckDescriptorIE_AdjustBitmapSize_def)

lemma AdjustPayloadSize_length:
  "length (m_payloads (DsmeGtsGroupAckDescriptorIE_AdjustPayloadSize f)) = unat (m_payloadsNumber f)"
  by (simp add: DsmeGtsGroupAckDescriptorIE_AdjustPayloadSize_def DsmeGtsGroupAckDescriptorIE_GetPayloadsNumber_def)

end
