(* ===== verification/Frames.thy ===== *)
theory Frames
  imports Mac_Header Mac_Payloads Mac_Trailer Group_Ack_Elements
begin

section \<open>Whole frames\<close>

text \<open>
  How \<open>lr-wpan-mac\<close> puts a frame together and takes it apart: the MAC header in front of the
  payload, the trailer with the frame check sequence behind it, and the group acknowledgement
  frames, which carry information elements between the header and the trailer. \<open>room n\<close> is the
  content of \<open>n\<close> octets that \<open>Packet\<close> has just opened.
\<close>

subsection \<open>Header and trailer\<close>

definition rooms :: "(nat \<Rightarrow> u8 list) \<Rightarrow> bool" where
  "rooms room \<longleftrightarrow> (\<forall>n. length (room n) = n)"

text \<open>The trailer of every transmitted frame; \<open>checksum\<close> is \<open>Node::ChecksumEnabled()\<close>.\<close>

definition LrWpanMac_AddTrailer :: "bool \<Rightarrow> (nat \<Rightarrow> u8 list) \<Rightarrow> packet \<Rightarrow> packet option" where
  "LrWpanMac_AddTrailer checksum room p = do {
     let macTrailer = LrWpanMacTrailer_new;
     macTrailer \<leftarrow> (if checksum then LrWpanMacTrailer_SetFcs p (LrWpanMacTrailer_EnableFcs True macTrailer)
                   else Some macTrailer);
     AddTrailer (room (LrWpanMacTrailer_GetSerializedSize macTrailer)) LrWpanMacTrailer_Serialize macTrailer p }"

definition LrWpanMac_AddFrame :: "bool \<Rightarrow> (nat \<Rightarrow> u8 list) \<Rightarrow> LrWpanMacHeader \<Rightarrow> packet \<Rightarrow> packet option" where
  "LrWpanMac_AddFrame checksum room macHdr p = do {
     p \<leftarrow> AddHeader (room (LrWpanMacHeader_GetSerializedSize macHdr)) LrWpanMacHeader_Serialize macHdr p;
     LrWpanMac_AddTrailer checksum room p }"

text \<open>Reception: \<open>Some None\<close> is a frame that the first level of filtering drops.\<close>

definition LrWpanMac_RemoveFrame :: "bool \<Rightarrow> bool \<Rightarrow> LrWpanMacHeader \<Rightarrow> packet \<Rightarrow> (LrWpanMacHeader \<times> packet) option option" where
  "LrWpanMac_RemoveFrame checksum rtl mem p = do {
     (receivedMacTrailer, n, p) \<leftarrow> RemoveTrailer LrWpanMacTrailer_Deserialize LrWpanMacTrailer_new p;
     let receivedMacTrailer = (if checksum then LrWpanMacTrailer_EnableFcs True receivedMacTrailer else receivedMacTrailer);
     ok \<leftarrow> LrWpanMacTrailer_CheckFcs p receivedMacTrailer;
     if \<not> ok then Some None
     else do {
       (receivedMacHdr, m, p) \<leftarrow> RemoveHeader (LrWpanMacHeader_Deserialize rtl) (LrWpanMacHeader_new mem) p;
       Some (Some (receivedMacHdr, p)) } }"

lemma AddTrailer_wire:
  assumes "rooms room" and "length p < 65536"
  shows "LrWpanMac_AddTrailer checksum room p = Some (p @ le16 (if checksum then crc_serial p else 0))"
proof -
  have two: "length (room (LrWpanMacTrailer_GetSerializedSize t)) = LrWpanMacTrailer_GetSerializedSize t" for t
    using assms(1) by (simp add: rooms_def)
  show ?thesis
    using SetFcs_serial [of "LrWpanMacTrailer_EnableFcs True LrWpanMacTrailer_new" p] assms(2)
    by (simp add: LrWpanMac_AddTrailer_def Trailer_add_remove(1) [OF two] LrWpanMacTrailer_EnableFcs_def LrWpanMacTrailer_new_def)
qed

lemma AddFrame_wire:
  assumes "rooms room" and "mac_ok rtl h" and "length (mac_wire h @ p) < 65536"
  shows "LrWpanMac_AddFrame checksum room h p =
    Some (mac_wire h @ p @ le16 (if checksum then crc_serial (mac_wire h @ p) else 0))"
  using mac.add_header [OF assms(2), of "room (LrWpanMacHeader_GetSerializedSize h)" p] assms(1)
    AddTrailer_wire [OF assms(1,3), of checksum]
  by (simp add: LrWpanMac_AddFrame_def rooms_def)

lemma RemoveFrame_trailer:
  assumes "length p < 65536"
  shows "LrWpanMac_RemoveFrame checksum rtl mem (p @ le16 v) = (
    if checksum \<and> v \<noteq> crc_serial p then Some None
    else do { (receivedMacHdr, m, p) \<leftarrow> RemoveHeader (LrWpanMacHeader_Deserialize rtl) (LrWpanMacHeader_new mem) p;
              Some (Some (receivedMacHdr, p)) })"
proof -
  have t: "RemoveTrailer LrWpanMacTrailer_Deserialize LrWpanMacTrailer_new (p @ le16 v) =
      Some (LrWpanMacTrailer_new\<lparr>m_fcs := v\<rparr>, 2, p)"
    by (rule Trailer_add_remove(2) [where fresh = "[0, 0]"]) (simp add: LrWpanMacTrailer_GetSerializedSize_def)
  have c: "LrWpanMacTrailer_CheckFcs p (LrWpanMacTrailer_EnableFcs True (LrWpanMacTrailer_new\<lparr>m_fcs := v\<rparr>)) = Some (crc_serial p = v)"
    using CheckFcs_serial [OF _ assms, of "LrWpanMacTrailer_EnableFcs True (LrWpanMacTrailer_new\<lparr>m_fcs := v\<rparr>)"]
    by (simp add: LrWpanMacTrailer_EnableFcs_def)
  have n: "LrWpanMacTrailer_CheckFcs p (LrWpanMacTrailer_new\<lparr>m_fcs := v\<rparr>) = Some True"
    by (simp add: LrWpanMacTrailer_CheckFcs_def LrWpanMacTrailer_new_def)
  show ?thesis by (cases checksum) (auto simp: LrWpanMac_RemoveFrame_def t c n)
qed

text \<open>A frame that arrives as it was sent is delivered with its header and its payload.\<close>

lemma frame_delivered:
  assumes "rooms room" and "mac_ok rtl h" and "length (mac_wire h @ p) < 65536"
  shows "do { q \<leftarrow> LrWpanMac_AddFrame checksum room h p; LrWpanMac_RemoveFrame checksum rtl mem q } =
    Some (Some (mac_rebuilt (LrWpanMacHeader_new mem) h, p))"
  using AddFrame_wire [OF assms, of checksum]
    RemoveFrame_trailer [OF assms(3), of checksum rtl mem "if checksum then crc_serial (mac_wire h @ p) else 0"]
    mac.remove_header [OF assms(2) TrueI, of "LrWpanMacHeader_new mem" p]
  by simp

text \<open>A frame in which a burst of at most two adjacent octets was hit is dropped.\<close>

lemma burst_noticed:
  assumes "crc_serial q = 0" and "length es = length q" and "burst es" and "xor_octets q es = p @ le16 v"
  shows "v \<noteq> crc_serial p"
proof
  assume "v = crc_serial p"
  then have "crc_serial (xor_octets q es) = 0" by (simp add: assms(4) crc_serial_fcs)
  then show False
    using crc_serial_linear [of q es] crc_serial_burst [OF assms(3)] assms(1,2) by simp
qed

lemma two_octets_le16: "\<exists>v. [a, b] = le16 v"
proof
  show "[a, b] = le16 (ucast a OR push_bit 8 (ucast b))"
  proof -
    have "\<not> bit a (8 + n)" for n using bit_imp_le_length [of a "8 + n"] by auto
    then show ?thesis unfolding le16_def by (auto intro!: bit_word_eqI simp: bit_simps)
  qed
qed

lemma ends_in_le16:
  assumes "2 \<le> length q"
  shows "\<exists>p v. q = p @ le16 v \<and> length p = length q - 2"
proof -
  have "length (drop (length q - 2) q) = 2" using assms by simp
  then obtain a b where "drop (length q - 2) q = [a, b]"
    by (cases "drop (length q - 2) q"; cases "tl (drop (length q - 2) q)") auto
  then have "q = take (length q - 2) q @ [a, b]" by (metis append_take_drop_id)
  moreover obtain v where "[a, b] = le16 v" using two_octets_le16 by blast
  ultimately show ?thesis by (intro exI [of _ "take (length q - 2) q"] exI [of _ v]) simp
qed

lemma frame_corrupted_dropped:
  assumes "rooms room" and "mac_ok rtl h" and "length (mac_wire h @ p) < 65536"
    and "LrWpanMac_AddFrame True room h p = Some q" and "length es = length q" and "burst es"
  shows "LrWpanMac_RemoveFrame True rtl mem (xor_octets q es) = Some None"
proof -
  have q: "q = (mac_wire h @ p) @ le16 (crc_serial (mac_wire h @ p))"
    using AddFrame_wire [OF assms(1-3), of True] assms(4) by simp
  then have zero: "crc_serial q = 0" by (simp only: crc_serial_fcs)
  have len: "length (xor_octets q es) = length q" using assms(5) by (simp add: xor_octets_def)
  obtain p' v where x: "xor_octets q es = p' @ le16 v" and p': "length p' = length q - 2"
    using ends_in_le16 [of "xor_octets q es"] len q by auto
  have "length p' < 65536" using assms(3) q p' by simp
  then show ?thesis
    using RemoveFrame_trailer [of p' True rtl mem v] burst_noticed [OF zero assms(5,6) x] by (simp add: x)
qed

subsection \<open>Commands and beacons in frames\<close>

interpretation command_frame: codec_stack LrWpanMacHeader_GetSerializedSize mac_wire LrWpanMacHeader_Serialize
  "LrWpanMacHeader_Deserialize rtl" "mac_ok rtl" "\<lambda>_ _. True" mac_rebuilt
  CommandPayloadHeader_GetSerializedSize cmd_wire CommandPayloadHeader_Serialize
  CommandPayloadHeader_Deserialize cmd_ok cmd_ready cmd_rebuilt
  by unfold_locales

interpretation beacon_frame: codec_stack LrWpanMacHeader_GetSerializedSize mac_wire LrWpanMacHeader_Serialize
  "LrWpanMacHeader_Deserialize rtl" "mac_ok rtl" "\<lambda>_ _. True" mac_rebuilt
  BeaconPayloadHeader_GetSerializedSize beacon_wire BeaconPayloadHeader_Serialize
  BeaconPayloadHeader_Deserialize beacon_ok "\<lambda>_ _. True" beacon_rebuilt
  by unfold_locales

text \<open>
  What a receiver has understood of a command is what it would send itself: a fresh receiving
  object, whose sub-block vectors are empty, writes the octets it was read from.
\<close>

definition cmd_fresh :: "CommandPayloadHeader \<Rightarrow> bool" where
  "cmd_fresh f \<longleftrightarrow> m_dsmeSABSubBlk (m_dsmeSABSpec f) = [] \<and> m_dsmeSABSubBlkCapOff (m_dsmeSABSpec f) = []"

lemma sab_resend:
  "m_dsmeSABSubBlk f0 = [] \<Longrightarrow> m_dsmeSABSubBlkCapOff f0 = [] \<Longrightarrow> sab_wire (sab_rebuilt f0 f) = sab_wire f"
  by (simp add: sab_wire_def sab_rebuilt_def)

lemma cmd_resend:
  assumes "cmd_ok f" and "cmd_fresh f0"
  shows "CommandPayloadHeader_GetCommandFrameType (cmd_rebuilt f0 f) = CommandPayloadHeader_GetCommandFrameType f"
    and "CommandPayloadHeader_Serialize (cmd_rebuilt f0 f) = CommandPayloadHeader_Serialize f"
proof -
  have id: "m_cmdFrameId (cmd_rebuilt f0 f) = m_cmdFrameId f"
    by (cases "CommandPayloadHeader_GetCommandFrameType f") (simp_all add: cmd_rebuilt_def Let_def)
  then show type: "CommandPayloadHeader_GetCommandFrameType (cmd_rebuilt f0 f) = CommandPayloadHeader_GetCommandFrameType f"
    by (rule GetCommandFrameType_cong)
  have ok: "cmd_ok (cmd_rebuilt f0 f)"
    using assms id type
    by (cases "CommandPayloadHeader_GetCommandFrameType f")
      (simp_all add: cmd_ok_def cmd_rebuilt_def Let_def sab_ok_def sab_rebuilt_def hopseq_rebuilt_def cmd_fresh_def, auto)
  have "cmd_wire (cmd_rebuilt f0 f) = cmd_wire f"
    using assms id type
    by (cases "CommandPayloadHeader_GetCommandFrameType f")
      (simp_all add: cmd_wire_def cmd_body_def cmd_ok_def cmd_fresh_def sab_resend cmd_rebuilt_def Let_def
        hopseq_rebuilt_def hopseq_wire_def)
  then show "CommandPayloadHeader_Serialize (cmd_rebuilt f0 f) = CommandPayloadHeader_Serialize f"
    by (intro ext) (simp add: command.ser_wire [OF ok] command.ser_wire [OF assms(1)])
qed

text \<open>An enhanced beacon: the DSME PAN descriptor between the header and the rest.\<close>

interpretation enhanced_beacon_frame: codec_stack LrWpanMacHeader_GetSerializedSize mac_wire LrWpanMacHeader_Serialize
  "LrWpanMacHeader_Deserialize rtl" "mac_ok rtl" "\<lambda>_ _. True" mac_rebuilt
  DsmePANDescriptorIE_GetSerializedSize pan_wire DsmePANDescriptorIE_Serialize
  DsmePANDescriptorIE_Deserialize pan_ok "\<lambda>_ _. True" pan_rebuilt
  by unfold_locales

end
