(* ===== verification/Eb_Filter.thy ===== *)
theory Eb_Filter
  imports Information_Elements
begin

section \<open>The enhanced beacon filter\<close>

text \<open>
  \<open>PayloadSubIEDescriptor\<close> and \<open>EBFilterIE\<close> of \<open>lr-wpan-mac-pl-headers\<close>: the element of an
  enhanced beacon request that says which coordinators should answer. \<open>GetEBFilterDescriptor\<close>
  masks each flag after shifting it, with the mask of the unshifted flag, so that only the
  permit-joining flag reaches the wire; the octets of the other filters are written all the same.
\<close>

subsection \<open>PayloadSubIEDescriptor\<close>

record PayloadSubIEDescriptor =
  sie_length :: u8
  sie_subId :: MLMEIESubID
  sie_type :: bool

definition PayloadSubIEDescriptor_SetLength :: "u8 \<Rightarrow> PayloadSubIEDescriptor \<Rightarrow> PayloadSubIEDescriptor" where
  [class_defs]: "PayloadSubIEDescriptor_SetLength len f = f\<lparr>sie_length := len\<rparr>"

definition PayloadSubIEDescriptor_SetMLMESubID :: "MLMEIESubID \<Rightarrow> PayloadSubIEDescriptor \<Rightarrow> PayloadSubIEDescriptor" where
  [class_defs]: "PayloadSubIEDescriptor_SetMLMESubID id' f = f\<lparr>sie_subId := id'\<rparr>"

definition PayloadSubIEDescriptor_SetType :: "bool \<Rightarrow> PayloadSubIEDescriptor \<Rightarrow> PayloadSubIEDescriptor" where
  [class_defs]: "PayloadSubIEDescriptor_SetType type f = f\<lparr>sie_type := type\<rparr>"

definition PayloadSubIEDescriptor_GetLength :: "PayloadSubIEDescriptor \<Rightarrow> u8" where
  [class_defs]: "PayloadSubIEDescriptor_GetLength f = sie_length f"

definition PayloadSubIEDescriptor_GetMLMESubID :: "PayloadSubIEDescriptor \<Rightarrow> MLMEIESubID" where
  [class_defs]: "PayloadSubIEDescriptor_GetMLMESubID f = sie_subId f"

definition PayloadSubIEDescriptor_GetType :: "PayloadSubIEDescriptor \<Rightarrow> bool" where
  [class_defs]: "PayloadSubIEDescriptor_GetType f = sie_type f"

definition PayloadSubIEDescriptor_new :: "PayloadSubIEDescriptor \<Rightarrow> PayloadSubIEDescriptor" where
  "PayloadSubIEDescriptor_new mem = PayloadSubIEDescriptor_SetType False mem"

definition PayloadSubIEDescriptor_GetDescriptor :: "PayloadSubIEDescriptor \<Rightarrow> u16" where
  "PayloadSubIEDescriptor_GetDescriptor f = (
     if PayloadSubIEDescriptor_GetType f then
       let descriptor = ucast ((ucast (sie_length f) :: cint) AND 0x7ff);
           descriptor = descriptor OR ucast (putField (ucast (sie_subId f) :: cint) 11 0xf);
           descriptor = descriptor OR ucast (putField (of_bool (sie_type f) :: cint) 15 1)
       in descriptor
     else
       let descriptor = ucast ((ucast (sie_length f) :: cint) AND 0xff);
           descriptor = descriptor OR ucast (putField (ucast (sie_subId f) :: cint) 8 0x7f);
           descriptor = descriptor OR ucast (putField (of_bool (sie_type f) :: cint) 15 1)
       in descriptor)"

definition PayloadSubIEDescriptor_SetDescriptor :: "u16 \<Rightarrow> PayloadSubIEDescriptor \<Rightarrow> PayloadSubIEDescriptor" where
  "PayloadSubIEDescriptor_SetDescriptor descriptor f = f\<lparr>
     sie_length := ucast (descriptor AND 0xff),
     sie_subId := ucast (getField descriptor 8 0x7f),
     sie_type := (getField descriptor 15 1 \<noteq> 0)\<rparr>"

definition PayloadSubIEDescriptor_GetSerializedSize :: "PayloadSubIEDescriptor \<Rightarrow> nat" where
  "PayloadSubIEDescriptor_GetSerializedSize f = 2"

definition PayloadSubIEDescriptor_Serialize :: "PayloadSubIEDescriptor \<Rightarrow> iter \<Rightarrow> iter option" where
  "PayloadSubIEDescriptor_Serialize f i = WriteHtolsbU16 (PayloadSubIEDescriptor_GetDescriptor f) i"

definition PayloadSubIEDescriptor_Deserialize ::
  "PayloadSubIEDescriptor \<Rightarrow> iter \<Rightarrow> (PayloadSubIEDescriptor \<times> iter) option" where
  "PayloadSubIEDescriptor_Deserialize f i = do {
     (descriptor, i) \<leftarrow> ReadLsbtohU16 i;
     Some (PayloadSubIEDescriptor_SetDescriptor descriptor f, i) }"

definition sie_ok :: "PayloadSubIEDescriptor \<Rightarrow> bool" where
  "sie_ok f \<longleftrightarrow> fits 7 (sie_subId f) \<and> \<not> sie_type f"

definition sie_wire :: "PayloadSubIEDescriptor \<Rightarrow> u8 list" where
  "sie_wire f = le16 (PayloadSubIEDescriptor_GetDescriptor f)"

lemma bit_sie:
  assumes "\<not> sie_type f"
  shows "bit (PayloadSubIEDescriptor_GetDescriptor f) n \<longleftrightarrow>
     n < 8 \<and> bit (sie_length f) n \<or> 8 \<le> n \<and> n < 15 \<and> bit (sie_subId f) (n - 8)"
proof -
  have "bit (ucast ((ucast (v :: u8) :: cint) AND 0xff) :: u16) n \<longleftrightarrow> n < 8 \<and> bit v n"
    "bit (ucast (putField (ucast v :: cint) 8 0x7f) :: u16) n \<longleftrightarrow> 8 \<le> n \<and> n < 15 \<and> bit v (n - 8)" for v
    by (auto simp: putField_and and_mask bit_simps)
  with assms show ?thesis
    by (simp add: PayloadSubIEDescriptor_GetDescriptor_def PayloadSubIEDescriptor_GetType_def bit_or_iff putField_def)
qed

lemma sie_unpack_pack: "sie_ok f \<Longrightarrow> PayloadSubIEDescriptor_SetDescriptor (PayloadSubIEDescriptor_GetDescriptor f) f0 = f"
proof -
  assume ok: "sie_ok f"
  then have t: "\<not> sie_type f" and fit: "\<And>n. bit (sie_subId f) n \<Longrightarrow> n < 7" unfolding sie_ok_def by (auto dest: fits_bit)
  have "ucast (PayloadSubIEDescriptor_GetDescriptor f AND 0xff) = sie_length f"
    by (rule bit_word_eqI) (auto simp: and_mask bit_simps bit_sie [OF t])
  moreover have "ucast (getField (PayloadSubIEDescriptor_GetDescriptor f) 8 0x7f) = sie_subId f"
    using fit by - (rule bit_word_eqI; fastforce simp: getField_def and_mask bit_simps bit_sie [OF t])
  moreover have "getField (PayloadSubIEDescriptor_GetDescriptor f) 15 1 = 0"
    by (simp add: getField_flag bit_sie [OF t])
  ultimately show ?thesis using t by (cases f; cases f0) (simp add: PayloadSubIEDescriptor_SetDescriptor_def)
qed

lemma sie_wire_simps [wire_simps]:
  "PayloadSubIEDescriptor_Serialize f i = WriteBuf (sie_wire f) i"
  "sie_ok f \<Longrightarrow> PayloadSubIEDescriptor_Deserialize f0 (d, sie_wire f @ r) = Some (f, (d @ sie_wire f, r))"
  by (simp_all add: PayloadSubIEDescriptor_Serialize_def PayloadSubIEDescriptor_Deserialize_def sie_wire_def
      sie_unpack_pack wire_simps)

lemma length_sie_wire [simp]: "length (sie_wire f) = 2"
  by (simp add: sie_wire_def)

interpretation payload_sub_ie: lossless_codec PayloadSubIEDescriptor_GetSerializedSize sie_wire
  PayloadSubIEDescriptor_Serialize PayloadSubIEDescriptor_Deserialize sie_ok "\<lambda>_ _. True" "\<lambda>_ f. f"
  by unfold_locales (simp_all add: wire_simps PayloadSubIEDescriptor_GetSerializedSize_def)

text \<open>The long form is written but never parsed: the low three bits of the length become the identifier's.\<close>

lemma sie_long_form:
  "\<exists>f. sie_type f \<and> sie_subId (PayloadSubIEDescriptor_SetDescriptor (PayloadSubIEDescriptor_GetDescriptor f) f0) \<noteq> sie_subId f"
proof -
  let ?f = "\<lparr>sie_length = 0, sie_subId = 1, sie_type = True\<rparr>"
  have "sie_subId (PayloadSubIEDescriptor_SetDescriptor (PayloadSubIEDescriptor_GetDescriptor ?f) f0) = 8"
    by (simp add: PayloadSubIEDescriptor_SetDescriptor_def PayloadSubIEDescriptor_GetDescriptor_def
        PayloadSubIEDescriptor_GetType_def putField_def getField_def)
  then show ?thesis by (intro exI [of _ ?f]) simp
qed

subsection \<open>EBFilterIE\<close>

record EBFilterIE =
  eb_descriptor :: PayloadIEDescriptor
  eb_subIEDescriptor :: PayloadSubIEDescriptor
  m_permitJoiningOn :: bool
  m_includeLinkQualityFilter :: bool
  m_includePercentFilter :: bool
  m_numOfEntriesInPIBIdList :: u8
  m_reserved :: u8
  m_linkQuality :: u8
  m_percentFilter :: u8
  m_PIBIdList :: "u8 list"

definition EBFilterIE_new :: "EBFilterIE \<Rightarrow> EBFilterIE" where
  "EBFilterIE_new mem = (
     let d = PayloadIEDescriptor_new (eb_descriptor mem);
         d = PayloadIEDescriptor_SetLength 0 d;
         d = PayloadIEDescriptor_SetPayloadIEGroupID PAYLOADIE_MLME d;
         s = PayloadSubIEDescriptor_new (eb_subIEDescriptor mem);
         s = PayloadSubIEDescriptor_SetLength 0 s;
         s = PayloadSubIEDescriptor_SetMLMESubID SUBID_EB_FILTER s;
         s = PayloadSubIEDescriptor_SetType False s
     in mem\<lparr>eb_descriptor := d, eb_subIEDescriptor := s, m_PIBIdList := []\<rparr>)"

definition EBFilterIE_SetOutterIEDescriptorLen :: "u16 \<Rightarrow> EBFilterIE \<Rightarrow> EBFilterIE" where
  [class_defs]: "EBFilterIE_SetOutterIEDescriptorLen len f = f\<lparr>eb_descriptor := PayloadIEDescriptor_SetLength len (eb_descriptor f)\<rparr>"

definition EBFilterIE_SetSubIEDescriptorLen :: "u8 \<Rightarrow> EBFilterIE \<Rightarrow> EBFilterIE" where
  [class_defs]: "EBFilterIE_SetSubIEDescriptorLen len f = f\<lparr>eb_subIEDescriptor := PayloadSubIEDescriptor_SetLength len (eb_subIEDescriptor f)\<rparr>"

definition EBFilterIE_SetEBFilterDescriptor :: "u8 \<Rightarrow> EBFilterIE \<Rightarrow> EBFilterIE" where
  "EBFilterIE_SetEBFilterDescriptor descriptor f = f\<lparr>
     m_permitJoiningOn := (descriptor AND 1 \<noteq> 0),
     m_includeLinkQualityFilter := (getField descriptor 1 1 \<noteq> 0),
     m_includePercentFilter := (getField descriptor 2 1 \<noteq> 0),
     m_numOfEntriesInPIBIdList := getField descriptor 3 3,
     m_reserved := getField descriptor 5 7\<rparr>"

definition EBFilterIE_SetPermitJoiningOn :: "EBFilterIE \<Rightarrow> EBFilterIE" where
  [class_defs]: "EBFilterIE_SetPermitJoiningOn f = f\<lparr>m_permitJoiningOn := True\<rparr>"

definition EBFilterIE_SetNoPermitJoiningOn :: "EBFilterIE \<Rightarrow> EBFilterIE" where
  [class_defs]: "EBFilterIE_SetNoPermitJoiningOn f = f\<lparr>m_permitJoiningOn := False\<rparr>"

definition EBFilterIE_SetIncludeLinkQualityFilter :: "EBFilterIE \<Rightarrow> EBFilterIE" where
  [class_defs]: "EBFilterIE_SetIncludeLinkQualityFilter f = f\<lparr>m_includeLinkQualityFilter := True\<rparr>"

definition EBFilterIE_SetNotIncludeLinkQualityFilter :: "EBFilterIE \<Rightarrow> EBFilterIE" where
  [class_defs]: "EBFilterIE_SetNotIncludeLinkQualityFilter f = f\<lparr>m_includeLinkQualityFilter := False\<rparr>"

definition EBFilterIE_SetIncludePercentFilter :: "EBFilterIE \<Rightarrow> EBFilterIE" where
  [class_defs]: "EBFilterIE_SetIncludePercentFilter f = f\<lparr>m_includePercentFilter := True\<rparr>"

definition EBFilterIE_SetNotIncludePercentFilter :: "EBFilterIE \<Rightarrow> EBFilterIE" where
  [class_defs]: "EBFilterIE_SetNotIncludePercentFilter f = f\<lparr>m_includePercentFilter := False\<rparr>"

definition EBFilterIE_SetNumOfEntriesInPIBIdList :: "u8 \<Rightarrow> EBFilterIE \<Rightarrow> EBFilterIE option" where
  [class_defs]: "EBFilterIE_SetNumOfEntriesInPIBIdList num f = (if num < 5 then Some (f\<lparr>m_numOfEntriesInPIBIdList := num\<rparr>) else None)"

definition EBFilterIE_AddPIBId :: "u8 \<Rightarrow> EBFilterIE \<Rightarrow> EBFilterIE option" where
  [class_defs]: "EBFilterIE_AddPIBId id' f = (
     if length (m_PIBIdList f) < 4 then Some (f\<lparr>m_PIBIdList := m_PIBIdList f @ [id']\<rparr>) else None)"

definition EBFilterIE_GetHeaderIEDescriptor :: "EBFilterIE \<Rightarrow> PayloadIEDescriptor" where
  [class_defs]: "EBFilterIE_GetHeaderIEDescriptor f = eb_descriptor f"

definition EBFilterIE_IsPermitJoiningOn :: "EBFilterIE \<Rightarrow> bool" where
  [class_defs]: "EBFilterIE_IsPermitJoiningOn f = m_permitJoiningOn f"

definition EBFilterIE_IsLinkQualityFilterIncluded :: "EBFilterIE \<Rightarrow> bool" where
  [class_defs]: "EBFilterIE_IsLinkQualityFilterIncluded f = m_includeLinkQualityFilter f"

definition EBFilterIE_IsPercentFilterIncluded :: "EBFilterIE \<Rightarrow> bool" where
  [class_defs]: "EBFilterIE_IsPercentFilterIncluded f = m_includePercentFilter f"

definition EBFilterIE_GetNumOfEntriesInPIBIdList :: "EBFilterIE \<Rightarrow> u8" where
  [class_defs]: "EBFilterIE_GetNumOfEntriesInPIBIdList f = m_numOfEntriesInPIBIdList f"

definition EBFilterIE_GetLinkQuality :: "EBFilterIE \<Rightarrow> u8" where
  [class_defs]: "EBFilterIE_GetLinkQuality f = m_linkQuality f"

definition EBFilterIE_GetPercentFilter :: "EBFilterIE \<Rightarrow> u8" where
  [class_defs]: "EBFilterIE_GetPercentFilter f = m_percentFilter f"

definition EBFilterIE_GetPIBIdList :: "EBFilterIE \<Rightarrow> u8 list" where
  [class_defs]: "EBFilterIE_GetPIBIdList f = m_PIBIdList f"

definition EBFilterIE_GetEBFilterDescriptor :: "EBFilterIE \<Rightarrow> u8" where
  "EBFilterIE_GetEBFilterDescriptor f = (
     let descriptor = ucast ((of_bool (m_permitJoiningOn f) :: cint) AND 1);
         descriptor = descriptor OR ucast (push_bit 1 (of_bool (m_includeLinkQualityFilter f) :: cint) AND 1);
         descriptor = descriptor OR ucast (push_bit 2 (of_bool (m_includePercentFilter f) :: cint) AND 1);
         descriptor = descriptor OR ucast (push_bit 3 (ucast (m_numOfEntriesInPIBIdList f) :: cint) AND 3);
         descriptor = descriptor OR ucast (push_bit 5 (ucast (m_reserved f) :: cint) AND 7)
     in descriptor)"

definition EBFilterIE_GetSerializedSize :: "EBFilterIE \<Rightarrow> nat" where
  "EBFilterIE_GetSerializedSize f = (
     let size = 0;
         size = size + PayloadIEDescriptor_GetSerializedSize (eb_descriptor f);
         size = size + PayloadSubIEDescriptor_GetSerializedSize (eb_subIEDescriptor f);
         size = size + 2;
         size = (if EBFilterIE_IsLinkQualityFilterIncluded f then size + 1 else size);
         size = (if EBFilterIE_IsPercentFilterIncluded f then size + 1 else size);
         size = (if EBFilterIE_GetNumOfEntriesInPIBIdList f \<noteq> 0 then size + unat (EBFilterIE_GetNumOfEntriesInPIBIdList f) else size)
     in size)"

definition EBFilterIE_Serialize :: "EBFilterIE \<Rightarrow> iter \<Rightarrow> iter option" where
  "EBFilterIE_Serialize f i = do {
     i \<leftarrow> PayloadIEDescriptor_Serialize (eb_descriptor f) i;
     i \<leftarrow> PayloadSubIEDescriptor_Serialize (eb_subIEDescriptor f) i;
     i \<leftarrow> WriteHtolsbU16 (ucast (EBFilterIE_GetEBFilterDescriptor f)) i;
     i \<leftarrow> (if EBFilterIE_IsLinkQualityFilterIncluded f then WriteU8 (EBFilterIE_GetLinkQuality f) i else Some i);
     i \<leftarrow> (if EBFilterIE_IsPercentFilterIncluded f then WriteU8 (EBFilterIE_GetPercentFilter f) i else Some i);
     if EBFilterIE_GetNumOfEntriesInPIBIdList f \<noteq> 0 then WriteAll WriteU8 (m_PIBIdList f) i else Some i }"

text \<open>
  The loop that reads the identifiers runs while its index is below the size of the list it
  appends to: it ends only where \<open>AddPIBId\<close> asserts that the list has fewer than four.
\<close>

function readPIBIds :: "nat \<Rightarrow> EBFilterIE \<Rightarrow> iter \<Rightarrow> (EBFilterIE \<times> iter) option" where
  "readPIBIds j f i = (
     if j < length (m_PIBIdList f) then
       (case ReadU8 i of None \<Rightarrow> None
        | Some (b, i) \<Rightarrow> (case EBFilterIE_AddPIBId b f of None \<Rightarrow> None | Some f \<Rightarrow> readPIBIds (j + 1) f i))
     else Some (f, i))"
  by pat_completeness auto

termination
  by (relation "measure (\<lambda>(j, f, i). 4 - length (m_PIBIdList f))") (auto simp: EBFilterIE_AddPIBId_def split: if_splits)

definition EBFilterIE_Deserialize :: "EBFilterIE \<Rightarrow> iter \<Rightarrow> (EBFilterIE \<times> iter) option" where
  "EBFilterIE_Deserialize f i = do {
     (x, i) \<leftarrow> PayloadIEDescriptor_Deserialize (eb_descriptor f) i;
     let f = f\<lparr>eb_descriptor := x\<rparr>;
     (x, i) \<leftarrow> PayloadSubIEDescriptor_Deserialize (eb_subIEDescriptor f) i;
     let f = f\<lparr>eb_subIEDescriptor := x\<rparr>;
     (descriptor, i) \<leftarrow> ReadLsbtohU16 i;
     let f = EBFilterIE_SetEBFilterDescriptor (ucast descriptor) f;
     (f, i) \<leftarrow> (if EBFilterIE_IsLinkQualityFilterIncluded f then do { (q, i) \<leftarrow> ReadU8 i; Some (f\<lparr>m_linkQuality := q\<rparr>, i) } else Some (f, i));
     (f, i) \<leftarrow> (if EBFilterIE_IsPercentFilterIncluded f then do { (q, i) \<leftarrow> ReadU8 i; Some (f\<lparr>m_percentFilter := q\<rparr>, i) } else Some (f, i));
     if EBFilterIE_GetNumOfEntriesInPIBIdList f \<noteq> 0 then readPIBIds 0 f i else Some (f, i) }"

text \<open>A nonempty list is never read to its end.\<close>

lemma readPIBIds_never_ends:
  "j < length (m_PIBIdList f) \<Longrightarrow> readPIBIds j f i = None"
proof (induction j f i rule: readPIBIds.induct)
  case (1 j f i)
  have "readPIBIds (j + 1) g i' = None" if "ReadU8 i = Some (b, i')" "EBFilterIE_AddPIBId b f = Some g" for b g i'
  proof (rule "1.IH" [OF "1.prems" that(1) refl that(2)])
    show "j + 1 < length (m_PIBIdList g)"
      using that(2) "1.prems" by (auto simp: EBFilterIE_AddPIBId_def split: if_splits)
  qed
  then show ?case
    using "1.prems" by (subst readPIBIds.simps) (auto simp del: readPIBIds.simps split: option.splits)
qed

declare readPIBIds.simps [simp del]

text \<open>The descriptor octet on the wire holds the permit-joining flag and nothing else of the three flags.\<close>

lemma eb_descriptor_octet: "EBFilterIE_GetEBFilterDescriptor f = of_bool (m_permitJoiningOn f)"
proof -
  have "push_bit 3 (v :: cint) AND 3 = 0" "push_bit 5 v AND 7 = 0" for v
    by (rule bit_word_eqI; auto simp: and_mask bit_simps)+
  then show ?thesis
    by (cases "m_permitJoiningOn f") (simp_all add: EBFilterIE_GetEBFilterDescriptor_def Let_def of_bool_def)
qed

definition eb_ok :: "EBFilterIE \<Rightarrow> bool" where
  "eb_ok f \<longleftrightarrow> pie_ok (eb_descriptor f) \<and> sie_ok (eb_subIEDescriptor f) \<and>
     (m_numOfEntriesInPIBIdList f = 0 \<or> length (m_PIBIdList f) = unat (m_numOfEntriesInPIBIdList f))"

definition eb_head :: "EBFilterIE \<Rightarrow> u8 list" where
  "eb_head f = pie_wire (eb_descriptor f) @ sie_wire (eb_subIEDescriptor f) @ le16 (of_bool (m_permitJoiningOn f))"

definition eb_filters :: "EBFilterIE \<Rightarrow> u8 list" where
  "eb_filters f = (if m_includeLinkQualityFilter f then [m_linkQuality f] else []) @
     (if m_includePercentFilter f then [m_percentFilter f] else []) @
     (if m_numOfEntriesInPIBIdList f \<noteq> 0 then m_PIBIdList f else [])"

definition eb_rebuilt :: "EBFilterIE \<Rightarrow> EBFilterIE \<Rightarrow> EBFilterIE" where
  "eb_rebuilt f0 f = f0\<lparr>eb_descriptor := eb_descriptor f, eb_subIEDescriptor := eb_subIEDescriptor f,
     m_permitJoiningOn := m_permitJoiningOn f, m_includeLinkQualityFilter := False, m_includePercentFilter := False,
     m_numOfEntriesInPIBIdList := 0, m_reserved := 0\<rparr>"

lemma eb_serialize: "EBFilterIE_Serialize f i = WriteBuf (eb_head f @ eb_filters f) i"
  by (simp add: EBFilterIE_Serialize_def eb_head_def eb_filters_def eb_descriptor_octet EBFilterIE_IsLinkQualityFilterIncluded_def
      EBFilterIE_IsPercentFilterIncluded_def EBFilterIE_GetNumOfEntriesInPIBIdList_def EBFilterIE_GetLinkQuality_def
      EBFilterIE_GetPercentFilter_def wire_simps)

lemma length_eb: "eb_ok f \<Longrightarrow> length (eb_head f @ eb_filters f) = EBFilterIE_GetSerializedSize f"
  by (auto simp: eb_head_def eb_filters_def eb_ok_def EBFilterIE_GetSerializedSize_def EBFilterIE_IsLinkQualityFilterIncluded_def
      EBFilterIE_IsPercentFilterIncluded_def EBFilterIE_GetNumOfEntriesInPIBIdList_def PayloadIEDescriptor_GetSerializedSize_def
      PayloadSubIEDescriptor_GetSerializedSize_def)

lemma eb_deserialize:
  assumes "eb_ok f"
  shows "EBFilterIE_Deserialize f0 (d, eb_head f @ r) = Some (eb_rebuilt f0 f, (d @ eb_head f, r))"
proof -
  have "EBFilterIE_SetEBFilterDescriptor 0 g = g\<lparr>m_permitJoiningOn := False, m_includeLinkQualityFilter := False,
      m_includePercentFilter := False, m_numOfEntriesInPIBIdList := 0, m_reserved := 0\<rparr>"
    "EBFilterIE_SetEBFilterDescriptor 1 g = g\<lparr>m_permitJoiningOn := True, m_includeLinkQualityFilter := False,
      m_includePercentFilter := False, m_numOfEntriesInPIBIdList := 0, m_reserved := 0\<rparr>" for g
    by (simp_all add: EBFilterIE_SetEBFilterDescriptor_def getField_def)
  with assms show ?thesis
    by (cases "m_permitJoiningOn f") (simp_all add: EBFilterIE_Deserialize_def eb_head_def eb_rebuilt_def eb_ok_def EBFilterIE_IsLinkQualityFilterIncluded_def
        EBFilterIE_IsPercentFilterIncluded_def EBFilterIE_GetNumOfEntriesInPIBIdList_def wire_simps)
qed

text \<open>Without filters the element travels; with any, its octets stay in front of the packet.\<close>

interpretation eb_filter: header_codec EBFilterIE_GetSerializedSize eb_head EBFilterIE_Serialize EBFilterIE_Deserialize
  "\<lambda>f. eb_ok f \<and> eb_filters f = []" "\<lambda>_ _. True" eb_rebuilt
  by unfold_locales (use length_eb in \<open>force simp: eb_serialize eb_deserialize\<close>)+

lemma eb_filters_left:
  assumes "eb_ok f" and "length fresh = EBFilterIE_GetSerializedSize f"
  shows "Option.bind (AddHeader fresh EBFilterIE_Serialize f p) (RemoveHeader EBFilterIE_Deserialize f0) =
    Some (eb_rebuilt f0 f, 6, eb_filters f @ p)"
  using assms eb_deserialize [OF assms(1), of f0 "[]" "eb_filters f @ p"] length_eb [OF assms(1)]
  by (simp add: AddHeader_def RemoveHeader_def eb_serialize WriteBuf_def GetDistanceFrom_def)
    (simp add: eb_head_def)

end
