(* ===== verification/Event_Queue.thy ===== *)
theory Event_Queue
  imports LrWpan_Prelude "HOL-Library.Product_Lexorder"
begin

section \<open>The event queue of the simulator\<close>

text \<open>
  The part of \<open>core/model/default-simulator-impl\<close>, \<open>map-scheduler\<close> and \<open>event-id\<close> that the
  CSMA-CA and the MAC are driven by. A queue is the sorted list of the scheduled events; a key is a
  time stamp in nanoseconds and a unique number, compared in this order. A cancelled event stays
  in the queue and does nothing when its turn comes. The unique number is unbounded here (32 bits
  in the code), and there is one context.
\<close>

subsection \<open>Events\<close>

type_synonym EventId = "nat \<times> nat"

record 'c Event =
  ev_key :: EventId
  ev_call :: 'c
  ev_cancel :: bool

record 'c Simulator =
  m_currentTs :: nat
  m_currentUid :: nat
  m_uid :: nat
  m_events :: "'c Event list"

text \<open>\<open>std::map::insert\<close>; the assertion is that the key is new.\<close>

fun MapScheduler_Insert :: "'c Event \<Rightarrow> 'c Event list \<Rightarrow> 'c Event list option" where
  "MapScheduler_Insert ev [] = Some [ev]"
| "MapScheduler_Insert ev (e # es) = (
     if ev_key ev < ev_key e then Some (ev # e # es)
     else if ev_key ev = ev_key e then None
     else do { es' \<leftarrow> MapScheduler_Insert ev es; Some (e # es') })"

definition MapScheduler_IsEmpty :: "'c Event list \<Rightarrow> bool" where
  "MapScheduler_IsEmpty es \<longleftrightarrow> es = []"

fun MapScheduler_RemoveNext :: "'c Event list \<Rightarrow> ('c Event \<times> 'c Event list) option" where
  "MapScheduler_RemoveNext [] = None"
| "MapScheduler_RemoveNext (e # es) = Some (e, es)"

text \<open>A simulator as it is constructed: no event, time zero, unique numbers from 4 (\<open>UID::VALID\<close>).\<close>

definition Simulator_new :: "'c Simulator" where
  "Simulator_new = \<lparr>m_currentTs = 0, m_currentUid = 0, m_uid = 4, m_events = []\<rparr>"

definition Simulator_Now :: "'c Simulator \<Rightarrow> int" where
  "Simulator_Now s = int (m_currentTs s)"

text \<open>\<open>Schedule\<close> asserts that the delay is not negative.\<close>

definition Simulator_Schedule :: "int \<Rightarrow> 'c \<Rightarrow> 'c Simulator \<Rightarrow> (EventId \<times> 'c Simulator) option" where
  "Simulator_Schedule delay call s = (
     if delay < 0 then None
     else do {
       let key = (nat (delay + Simulator_Now s), m_uid s);
       es \<leftarrow> MapScheduler_Insert \<lparr>ev_key = key, ev_call = call, ev_cancel = False\<rparr> (m_events s);
       Some (key, s\<lparr>m_uid := m_uid s + 1, m_events := es\<rparr>) })"

definition Simulator_ScheduleNow :: "'c \<Rightarrow> 'c Simulator \<Rightarrow> (EventId \<times> 'c Simulator) option" where
  "Simulator_ScheduleNow call s = Simulator_Schedule 0 call s"

text \<open>
  An identifier is expired when it is null, when its key is not after that of the event being
  run, or when its event was cancelled (or is not in the queue).
\<close>

definition Simulator_IsExpired :: "EventId option \<Rightarrow> 'c Simulator \<Rightarrow> bool" where
  "Simulator_IsExpired i s = (case i of
     None \<Rightarrow> True
   | Some (ts, uid) \<Rightarrow> ts < m_currentTs s \<or> ts = m_currentTs s \<and> uid \<le> m_currentUid s \<or>
       \<not> list_ex (\<lambda>e. ev_key e = (ts, uid) \<and> \<not> ev_cancel e) (m_events s))"

definition Simulator_Cancel :: "EventId option \<Rightarrow> 'c Simulator \<Rightarrow> 'c Simulator" where
  "Simulator_Cancel i s = (
     if Simulator_IsExpired i s then s
     else s\<lparr>m_events := map (\<lambda>e. if Some (ev_key e) = i then e\<lparr>ev_cancel := True\<rparr> else e) (m_events s)\<rparr>)"

definition Simulator_GetDelayLeft :: "EventId option \<Rightarrow> 'c Simulator \<Rightarrow> int" where
  "Simulator_GetDelayLeft i s = (
     if Simulator_IsExpired i s then 0 else int (fst (the i)) - int (m_currentTs s))"

text \<open>The result is the call to make, if the event was not cancelled; the queue must not be empty.\<close>

definition Simulator_ProcessOneEvent :: "'c Simulator \<Rightarrow> ('c option \<times> 'c Simulator) option" where
  "Simulator_ProcessOneEvent s = do {
     (next, es) \<leftarrow> MapScheduler_RemoveNext (m_events s);
     if m_currentTs s \<le> fst (ev_key next) then
       Some (if ev_cancel next then None else Some (ev_call next),
             s\<lparr>m_events := es, m_currentTs := fst (ev_key next), m_currentUid := snd (ev_key next)\<rparr>)
     else None }"

subsection \<open>Invariant\<close>

definition sim_ok :: "'c Simulator \<Rightarrow> bool" where
  "sim_ok s \<longleftrightarrow> sorted_wrt (<) (map ev_key (m_events s)) \<and> m_currentUid s < m_uid s \<and>
     (\<forall>e \<in> set (m_events s). (m_currentTs s, m_currentUid s) < ev_key e \<and> snd (ev_key e) < m_uid s)"

definition pending :: "'c Simulator \<Rightarrow> (EventId \<times> 'c) set" where
  "pending s = (\<lambda>e. (ev_key e, ev_call e)) ` {e \<in> set (m_events s). \<not> ev_cancel e}"

lemma Insert_spec:
  "sorted_wrt (<) (map ev_key es) \<Longrightarrow> ev_key ev \<notin> ev_key ` set es \<Longrightarrow>
   \<exists>es'. MapScheduler_Insert ev es = Some es' \<and> set es' = insert ev (set es) \<and> sorted_wrt (<) (map ev_key es')"
proof (induction es)
  case (Cons e es)
  then obtain es' where es': "MapScheduler_Insert ev es = Some es'" "set es' = insert ev (set es)"
    "sorted_wrt (<) (map ev_key es')" by auto
  show ?case
  proof (cases "ev_key ev < ev_key e")
    case True
    with Cons.prems(1) show ?thesis by (auto intro: less_trans)
  next
    case False
    with Cons.prems es' show ?thesis by (auto simp: not_less)
  qed
qed simp

lemma sim_ok_new: "sim_ok Simulator_new"
  by (simp add: sim_ok_def Simulator_new_def)

lemma Schedule_spec:
  assumes "sim_ok s" and "0 \<le> d"
  shows "\<exists>t. Simulator_Schedule d c s = Some ((nat (d + Simulator_Now s), m_uid s), t) \<and> sim_ok t \<and>
    m_currentTs t = m_currentTs s \<and> pending t = insert ((nat (d + Simulator_Now s), m_uid s), c) (pending s)"
proof -
  let ?k = "(nat (d + Simulator_Now s), m_uid s)" and ?e = "\<lparr>ev_key = (nat (d + Simulator_Now s), m_uid s), ev_call = c, ev_cancel = False\<rparr>"
  have new: "ev_key ?e \<notin> ev_key ` set (m_events s)"
    using assms(1) by (auto simp: sim_ok_def) (metis less_irrefl snd_conv)
  have sorted: "sorted_wrt (<) (map ev_key (m_events s))" using assms(1) by (simp add: sim_ok_def)
  from Insert_spec [OF sorted new] obtain es where
    es: "MapScheduler_Insert ?e (m_events s) = Some es" "set es = insert ?e (set (m_events s))" "sorted_wrt (<) (map ev_key es)"
    by blast
  have later: "(m_currentTs s, m_currentUid s) < ?k"
    using assms by (auto simp: sim_ok_def Simulator_Now_def less_prod_def nat_less_eq_zless)
  show ?thesis
  proof (intro exI conjI)
    show "Simulator_Schedule d c s = Some (?k, s\<lparr>m_uid := m_uid s + 1, m_events := es\<rparr>)"
      using es(1) assms(2) by (simp add: Simulator_Schedule_def)
    show "sim_ok (s\<lparr>m_uid := m_uid s + 1, m_events := es\<rparr>)"
      using es later assms(1) by (auto simp: sim_ok_def less_Suc_eq)
    have "{e \<in> set es. \<not> ev_cancel e} = insert ?e {e \<in> set (m_events s). \<not> ev_cancel e}"
      using es(2) by auto
    then show "pending (s\<lparr>m_uid := m_uid s + 1, m_events := es\<rparr>) = insert (?k, c) (pending s)"
      by (simp add: pending_def)
  qed simp
qed

lemma set_cancel: "set (map (\<lambda>e. if P e then f e else e) es) = f ` {e \<in> set es. P e} \<union> {e \<in> set es. \<not> P e}"
  by auto

lemma Cancel_spec:
  assumes "sim_ok s"
  shows "sim_ok (Simulator_Cancel i s) \<and> m_currentTs (Simulator_Cancel i s) = m_currentTs s \<and>
    pending (Simulator_Cancel i s) = {(k, c) \<in> pending s. Some k \<noteq> i}"
proof (cases "Simulator_IsExpired i s")
  case True
  have "Some k \<noteq> i" if "(k, c) \<in> pending s" for k c
  proof
    assume i: "Some k = i"
    from that obtain e where e: "e \<in> set (m_events s)" "ev_key e = k" "\<not> ev_cancel e" by (auto simp: pending_def)
    then have "(m_currentTs s, m_currentUid s) < k" using assms by (auto simp: sim_ok_def)
    with True e i [symmetric] show False
      by (cases k) (auto simp: Simulator_IsExpired_def list_ex_iff less_prod_def)
  qed
  then show ?thesis using True assms by (auto simp: Simulator_Cancel_def)
next
  case False
  let ?g = "\<lambda>e. if Some (ev_key e) = i then e\<lparr>ev_cancel := True\<rparr> else e"
  have key: "ev_key (?g e) = ev_key e" for e :: "'a Event" by simp
  have keys: "map ev_key (map ?g es) = map ev_key es" for es :: "'a Event list" by (simp add: comp_def)
  have "pending (Simulator_Cancel i s) = {(k, c) \<in> pending s. Some k \<noteq> i}"
    using False by (auto simp: Simulator_Cancel_def pending_def split: if_splits)
  moreover have "sim_ok (Simulator_Cancel i s)"
    using assms False unfolding sim_ok_def Simulator_Cancel_def by (simp add: keys del: map_map) (auto simp: key)
  ultimately show ?thesis using False by (simp add: Simulator_Cancel_def)
qed

lemma ProcessOneEvent_spec:
  assumes "sim_ok s" and "Simulator_ProcessOneEvent s = Some (r, t)"
  shows "sim_ok t" and "m_currentTs s \<le> m_currentTs t"
    and "pending t \<subseteq> pending s"
    and "r = Some c \<Longrightarrow> \<exists>k. (k, c) \<in> pending s \<and> pending t = pending s - {(k, c)} \<and> fst k = m_currentTs t"
    and "r = None \<Longrightarrow> pending t = pending s"
    and "(k, c') \<in> pending s \<Longrightarrow> m_currentTs t \<le> fst k"
proof -
  from assms(2) obtain e es where ev: "m_events s = e # es" and le: "m_currentTs s \<le> fst (ev_key e)"
    and r: "r = (if ev_cancel e then None else Some (ev_call e))"
    and t: "t = s\<lparr>m_events := es, m_currentTs := fst (ev_key e), m_currentUid := snd (ev_key e)\<rparr>"
    by (cases "m_events s") (auto simp: Simulator_ProcessOneEvent_def split: if_splits)
  have sorted: "\<forall>e' \<in> set es. ev_key e < ev_key e'" "sorted_wrt (<) (map ev_key es)"
    and uid: "snd (ev_key e) < m_uid s" "\<forall>e' \<in> set es. snd (ev_key e') < m_uid s"
    using assms(1) ev by (auto simp: sim_ok_def)
  show "sim_ok t" using sorted uid by (auto simp: t sim_ok_def)
  show "m_currentTs s \<le> m_currentTs t" using le by (simp add: t)
  show "pending t \<subseteq> pending s" by (auto simp: pending_def t ev)
  show "r = None \<Longrightarrow> pending t = pending s" by (auto simp: r t pending_def ev split: if_splits)
  show "\<exists>k. (k, c) \<in> pending s \<and> pending t = pending s - {(k, c)} \<and> fst k = m_currentTs t" if "r = Some c"
    using that sorted(1) by (intro exI [of _ "ev_key e"]) (auto simp: r t pending_def ev split: if_splits)
  show "m_currentTs t \<le> fst k" if "(k, c') \<in> pending s"
    using that sorted(1) by (fastforce simp: t pending_def ev less_prod_def)
qed

lemma ProcessOneEvent_total:
  "sim_ok s \<Longrightarrow> m_events s \<noteq> [] \<Longrightarrow> \<exists>r t. Simulator_ProcessOneEvent s = Some (r, t) \<and> length (m_events t) < length (m_events s)"
  by (cases "m_events s") (auto simp: sim_ok_def Simulator_ProcessOneEvent_def less_prod_def)

subsection \<open>The contract of the queue\<close>

text \<open>
  What the protocol code relies on: scheduling adds one event at the time asked for, cancelling
  takes the events of one identifier away, and running takes the event with the earliest time
  stamp, to which the clock moves.
\<close>

locale event_queue =
  fixes ok :: "'s \<Rightarrow> bool"
    and clock :: "'s \<Rightarrow> nat"
    and events :: "'s \<Rightarrow> (EventId \<times> 'c) set"
    and schedule :: "int \<Rightarrow> 'c \<Rightarrow> 's \<Rightarrow> (EventId \<times> 's) option"
    and cancel :: "EventId option \<Rightarrow> 's \<Rightarrow> 's"
    and run :: "'s \<Rightarrow> ('c option \<times> 's) option"
  assumes schedule_law: "ok s \<Longrightarrow> 0 \<le> d \<Longrightarrow> \<exists>k t. schedule d c s = Some (k, t) \<and> ok t \<and> clock t = clock s \<and>
      fst k = nat d + clock s \<and> events t = insert (k, c) (events s)"
    and cancel_law: "ok s \<Longrightarrow> ok (cancel i s) \<and> clock (cancel i s) = clock s \<and> events (cancel i s) = {(k, c) \<in> events s. Some k \<noteq> i}"
    and run_law: "ok s \<Longrightarrow> run s = Some (r, t) \<Longrightarrow> ok t \<and> clock s \<le> clock t \<and> (\<forall>(k, c) \<in> events s. clock t \<le> fst k) \<and>
      (case r of None \<Rightarrow> events t = events s
       | Some c \<Rightarrow> \<exists>k. (k, c) \<in> events s \<and> events t = events s - {(k, c)} \<and> fst k = clock t)"
begin

text \<open>\<open>n\<close> turns of the main loop, with the calls made.\<close>

fun turns :: "nat \<Rightarrow> 's \<Rightarrow> ('c list \<times> 's) option" where
  "turns 0 s = Some ([], s)"
| "turns (Suc n) s = (case run s of
     None \<Rightarrow> None
   | Some (r, t) \<Rightarrow> map_option (\<lambda>(cs, u). (case r of None \<Rightarrow> cs | Some c \<Rightarrow> c # cs, u)) (turns n t))"

lemma clock_monotone: "ok s \<Longrightarrow> turns n s = Some (cs, t) \<Longrightarrow> ok t \<and> clock s \<le> clock t"
proof (induction n arbitrary: s cs)
  case (Suc n)
  then obtain r u cs' where u: "run s = Some (r, u)" and rest: "turns n u = Some (cs', t)"
    by (auto split: option.splits)
  from run_law [OF Suc.prems(1) u] Suc.IH [OF _ rest] show ?case by auto
qed simp

text \<open>Only calls that were pending are made: a call whose every event was cancelled is not.\<close>

lemma calls_were_pending: "ok s \<Longrightarrow> turns n s = Some (cs, t) \<Longrightarrow> set cs \<subseteq> snd ` events s"
proof (induction n arbitrary: s cs)
  case (Suc n)
  then obtain r u cs' where u: "run s = Some (r, u)" and rest: "turns n u = Some (cs', t)"
    and cs: "cs = (case r of None \<Rightarrow> cs' | Some c \<Rightarrow> c # cs')"
    by (auto split: option.splits)
  from run_law [OF Suc.prems(1) u] have law: "ok u" "events u \<subseteq> events s" "\<forall>c. r = Some c \<longrightarrow> c \<in> snd ` events s"
    by (auto split: option.splits intro: image_eqI [rotated])
  then show ?case using Suc.IH [OF law(1) rest] by (fastforce simp: cs split: option.splits)
qed simp

lemma cancelled_not_made:
  assumes "ok s" and "turns n (cancel i s) = Some (cs, t)" and "\<And>k. (k, c) \<in> events s \<Longrightarrow> Some k = i"
  shows "c \<notin> set cs"
proof
  assume "c \<in> set cs"
  then have "c \<in> snd ` events (cancel i s)"
    using calls_were_pending [OF _ assms(2)] cancel_law [OF assms(1), of i] by blast
  then obtain k where "(k, c) \<in> events s" "Some k \<noteq> i"
    using cancel_law [OF assms(1), of i] by auto
  with assms(3) show False by blast
qed

end

interpretation simulator: event_queue sim_ok m_currentTs pending Simulator_Schedule Simulator_Cancel Simulator_ProcessOneEvent
proof
  fix s t :: "'a Simulator" and d c i r
  assume ok: "sim_ok s"
  show "\<exists>k t. Simulator_Schedule d c s = Some (k, t) \<and> sim_ok t \<and> m_currentTs t = m_currentTs s \<and>
      fst k = nat d + m_currentTs s \<and> pending t = insert (k, c) (pending s)" if "0 \<le> d"
    using Schedule_spec [OF ok that, of c] that by (auto simp: Simulator_Now_def nat_add_distrib)
  show "sim_ok (Simulator_Cancel i s) \<and> m_currentTs (Simulator_Cancel i s) = m_currentTs s \<and>
      pending (Simulator_Cancel i s) = {(k, c) \<in> pending s. Some k \<noteq> i}"
    by (rule Cancel_spec [OF ok])
  show "sim_ok t \<and> m_currentTs s \<le> m_currentTs t \<and> (\<forall>(k, c) \<in> pending s. m_currentTs t \<le> fst k) \<and>
      (case r of None \<Rightarrow> pending t = pending s
       | Some c \<Rightarrow> \<exists>k. (k, c) \<in> pending s \<and> pending t = pending s - {(k, c)} \<and> fst k = m_currentTs t)"
    if run: "Simulator_ProcessOneEvent s = Some (r, t)"
  proof (intro conjI)
    show "sim_ok t" "m_currentTs s \<le> m_currentTs t"
      by (rule ProcessOneEvent_spec(1,2) [OF ok run])+
    show "\<forall>(k, c) \<in> pending s. m_currentTs t \<le> fst k"
      using ProcessOneEvent_spec(6) [OF ok run] by blast
    show "case r of None \<Rightarrow> pending t = pending s
       | Some c \<Rightarrow> \<exists>k. (k, c) \<in> pending s \<and> pending t = pending s - {(k, c)} \<and> fst k = m_currentTs t"
      using ProcessOneEvent_spec(4,5) [OF ok run] by (simp split: option.split)
  qed
qed

end
