(* ===== verification/Csma_Ca.thy ===== *)
theory Csma_Ca
  imports Event_Queue
begin

section \<open>CSMA-CA\<close>

text \<open>
  \<open>LrWpanCsmaCa\<close> (\<open>lr-wpan-csmaca\<close>): the channel access algorithm as a state machine that
  is driven by the simulator's events and by the PHY's answers to clear channel assessments
  (CCA). The world is the object, the event queue, the calls made to the MAC and the PHY so
  far and whether the PHY has a CCA to answer; what the object reads from the MAC and the PHY is \<open>csma_mac\<close>. Times are integers of
  nanoseconds; the floating point conversions between times and symbols are the exact rational
  ones, which the symbol rates of the supported PHYs (divisors of a gigahertz) allow.
  A random draw is a parameter.
\<close>

subsection \<open>State\<close>

datatype LrWpanMacState = MAC_IDLE | MAC_CSMA | MAC_SENDING | MAC_ACK_PENDING | CHANNEL_ACCESS_FAILURE |
  CHANNEL_IDLE | SET_PHY_TX_ON | MAC_GTS | MAC_GTS_SENDING | MAC_INACTIVE | MAC_CSMA_DEFERRED

datatype csma_call = RandomBackoffDelay | RequestCCA | CanProceed | DeferCsmaTimeout

datatype csma_out = MacState LrWpanMacState | PlmeCcaRequest | CcaCancel | TransCost u32

record LrWpanCsmaCa =
  m_isSlotted :: bool
  m_NB :: u8
  m_CW :: u8
  m_BE :: u8
  m_macBattLifeExt :: bool
  m_macMinBE :: u8
  m_macMaxBE :: u8
  m_macMaxCSMABackoffs :: u8
  m_aUnitBackoffPeriod :: u64
  m_randomBackoffPeriodsLeft :: u64
  m_ccaRequestRunning :: bool
  m_coorDest :: bool
  m_incCsma :: bool
  m_randomBackoffEvent :: "EventId option"
  m_endCapEvent :: "EventId option"
  m_requestCcaEvent :: "EventId option"
  m_canProceedEvent :: "EventId option"
  m_lrWpanMacStateCallback :: bool
  m_lrWpanMacTransCostCallback :: bool

text \<open>The callbacks are only known to be set or null. What is read from the MAC and its PHY:\<close>

record csma_mac =
  symbolRate :: nat
  isCoord :: bool
  isIncomingSuperframe :: bool
  macBeaconTxTime :: int
  macBeaconRxTime :: int
  superframeDuration :: u32
  incomingSuperframeDuration :: u32
  fnlCapSlot :: u8
  incomingFnlCapSlot :: u8
  txPacketSymbols :: u64
  txAckReq :: bool
  macAckWaitDuration :: u64
  aTurnaroundTime :: u32
  ifsSize :: u32

record csma_world =
  csma :: LrWpanCsmaCa
  sim :: "csma_call Simulator"
  outs :: "csma_out list"
  phyCca :: bool

definition csma_upd :: "(LrWpanCsmaCa \<Rightarrow> LrWpanCsmaCa) \<Rightarrow> csma_world \<Rightarrow> csma_world" where
  [class_defs]: "csma_upd g w = w\<lparr>csma := g (csma w)\<rparr>"

definition csma_emit :: "csma_out \<Rightarrow> csma_world \<Rightarrow> csma_world" where
  [class_defs]: "csma_emit out w = w\<lparr>outs := outs w @ [out]\<rparr>"

text \<open>Schedule a call and hand its identifier to the update of the object.\<close>

definition csma_sched :: "int \<Rightarrow> csma_call \<Rightarrow> (EventId option \<Rightarrow> LrWpanCsmaCa \<Rightarrow> LrWpanCsmaCa) \<Rightarrow> csma_world \<Rightarrow> csma_world option" where
  "csma_sched d call store w = do {
     (k, s) \<leftarrow> Simulator_Schedule d call (sim w);
     Some (w\<lparr>sim := s, csma := store (Some k) (csma w)\<rparr>) }"

subsection \<open>Configuration\<close>

definition LrWpanCsmaCa_new :: LrWpanCsmaCa where
  "LrWpanCsmaCa_new = \<lparr>m_isSlotted = False, m_NB = 0, m_CW = 2, m_BE = 3, m_macBattLifeExt = False,
     m_macMinBE = 3, m_macMaxBE = 5, m_macMaxCSMABackoffs = 4, m_aUnitBackoffPeriod = 20,
     m_randomBackoffPeriodsLeft = 0, m_ccaRequestRunning = False, m_coorDest = False, m_incCsma = False,
     m_randomBackoffEvent = None, m_endCapEvent = None, m_requestCcaEvent = None, m_canProceedEvent = None,
     m_lrWpanMacStateCallback = False, m_lrWpanMacTransCostCallback = False\<rparr>"

definition LrWpanCsmaCa_SetSlottedCsmaCa :: "LrWpanCsmaCa \<Rightarrow> LrWpanCsmaCa" where
  [class_defs]: "LrWpanCsmaCa_SetSlottedCsmaCa f = f\<lparr>m_isSlotted := True\<rparr>"

definition LrWpanCsmaCa_SetUnSlottedCsmaCa :: "LrWpanCsmaCa \<Rightarrow> LrWpanCsmaCa" where
  [class_defs]: "LrWpanCsmaCa_SetUnSlottedCsmaCa f = f\<lparr>m_isSlotted := False\<rparr>"

definition LrWpanCsmaCa_IsSlottedCsmaCa :: "LrWpanCsmaCa \<Rightarrow> bool" where
  [class_defs]: "LrWpanCsmaCa_IsSlottedCsmaCa f = m_isSlotted f"

definition LrWpanCsmaCa_IsUnSlottedCsmaCa :: "LrWpanCsmaCa \<Rightarrow> bool" where
  [class_defs]: "LrWpanCsmaCa_IsUnSlottedCsmaCa f = (\<not> m_isSlotted f)"

definition LrWpanCsmaCa_SetMacMinBE :: "u8 \<Rightarrow> LrWpanCsmaCa \<Rightarrow> LrWpanCsmaCa option" where
  [class_defs]: "LrWpanCsmaCa_SetMacMinBE macMinBE f = (if macMinBE \<le> m_macMaxBE f then Some (f\<lparr>m_macMinBE := macMinBE\<rparr>) else None)"

definition LrWpanCsmaCa_SetMacMaxBE :: "u8 \<Rightarrow> LrWpanCsmaCa \<Rightarrow> LrWpanCsmaCa option" where
  [class_defs]: "LrWpanCsmaCa_SetMacMaxBE macMaxBE f = (if macMaxBE \<ge> 3 \<and> macMaxBE \<le> 8 then Some (f\<lparr>m_macMaxBE := macMaxBE\<rparr>) else None)"

definition LrWpanCsmaCa_SetMacMaxCSMABackoffs :: "u8 \<Rightarrow> LrWpanCsmaCa \<Rightarrow> LrWpanCsmaCa option" where
  [class_defs]: "LrWpanCsmaCa_SetMacMaxCSMABackoffs macMaxCSMABackoffs f = (if macMaxCSMABackoffs \<le> 5 then Some (f\<lparr>m_macMaxCSMABackoffs := macMaxCSMABackoffs\<rparr>) else None)"

definition LrWpanCsmaCa_SetUnitBackoffPeriod :: "u64 \<Rightarrow> LrWpanCsmaCa \<Rightarrow> LrWpanCsmaCa" where
  [class_defs]: "LrWpanCsmaCa_SetUnitBackoffPeriod unitBackoffPeriod f = f\<lparr>m_aUnitBackoffPeriod := unitBackoffPeriod\<rparr>"

definition LrWpanCsmaCa_SetBatteryLifeExtension :: "bool \<Rightarrow> LrWpanCsmaCa \<Rightarrow> LrWpanCsmaCa" where
  [class_defs]: "LrWpanCsmaCa_SetBatteryLifeExtension batteryLifeExtension f = f\<lparr>m_macBattLifeExt := batteryLifeExtension\<rparr>"

definition LrWpanCsmaCa_SetLrWpanMacTransCostCallback :: "bool \<Rightarrow> LrWpanCsmaCa \<Rightarrow> LrWpanCsmaCa" where
  [class_defs]: "LrWpanCsmaCa_SetLrWpanMacTransCostCallback c f = f\<lparr>m_lrWpanMacTransCostCallback := c\<rparr>"

definition LrWpanCsmaCa_SetLrWpanMacStateCallback :: "bool \<Rightarrow> LrWpanCsmaCa \<Rightarrow> LrWpanCsmaCa" where
  [class_defs]: "LrWpanCsmaCa_SetLrWpanMacStateCallback c f = f\<lparr>m_lrWpanMacStateCallback := c\<rparr>"

definition LrWpanCsmaCa_GetMacMinBE :: "LrWpanCsmaCa \<Rightarrow> u8" where
  [class_defs]: "LrWpanCsmaCa_GetMacMinBE f = m_macMinBE f"

definition LrWpanCsmaCa_GetMacMaxBE :: "LrWpanCsmaCa \<Rightarrow> u8" where
  [class_defs]: "LrWpanCsmaCa_GetMacMaxBE f = m_macMaxBE f"

definition LrWpanCsmaCa_GetMacMaxCSMABackoffs :: "LrWpanCsmaCa \<Rightarrow> u8" where
  [class_defs]: "LrWpanCsmaCa_GetMacMaxCSMABackoffs f = m_macMaxCSMABackoffs f"

definition LrWpanCsmaCa_GetUnitBackoffPeriod :: "LrWpanCsmaCa \<Rightarrow> u64" where
  [class_defs]: "LrWpanCsmaCa_GetUnitBackoffPeriod f = m_aUnitBackoffPeriod f"

definition LrWpanCsmaCa_GetNB :: "LrWpanCsmaCa \<Rightarrow> u8" where
  [class_defs]: "LrWpanCsmaCa_GetNB f = m_NB f"

definition LrWpanCsmaCa_GetBatteryLifeExtension :: "LrWpanCsmaCa \<Rightarrow> bool" where
  [class_defs]: "LrWpanCsmaCa_GetBatteryLifeExtension f = m_macBattLifeExt f"

subsection \<open>Times\<close>

text \<open>
  \<open>Seconds (n / rate)\<close> in nanoseconds, to the nearest one; and the number of whole symbols in a
  time, which is an unsigned integer and so undefined for a negative time.
\<close>

definition Seconds :: "int \<Rightarrow> nat \<Rightarrow> int" where
  "Seconds n rate = (2 * n * 10 ^ 9 + int rate) div (2 * int rate)"

definition toSymbols :: "int \<Rightarrow> nat \<Rightarrow> int option" where
  "toSymbols t rate = (if t < 0 then None else Some (t * int rate div 10 ^ 9))"

text \<open>
  \<open>GetTimeToNextSlot\<close>: a unit of zero would divide by zero. At a boundary the next one is a
  whole unit away.
\<close>

definition LrWpanCsmaCa_GetTimeToNextSlot :: "csma_mac \<Rightarrow> csma_world \<Rightarrow> int option" where
  "LrWpanCsmaCa_GetTimeToNextSlot mac w = do {
     let currentTime = Simulator_Now (sim w);
     let elapsedSuperframe = (if m_incCsma (csma w) then currentTime - macBeaconRxTime mac else currentTime - macBeaconTxTime mac);
     elapsedSuperframeSymbols \<leftarrow> toSymbols elapsedSuperframe (symbolRate mac);
     let unit = uint (m_aUnitBackoffPeriod (csma w));
     if unit = 0 then None
     else
       let symbolsToBoundary = unit - elapsedSuperframeSymbols mod unit;
           timeAtBoundary = Seconds (elapsedSuperframeSymbols + symbolsToBoundary) (symbolRate mac)
       in Some (timeAtBoundary - elapsedSuperframe) }"

definition LrWpanCsmaCa_GetTimeLeftInCap :: "csma_mac \<Rightarrow> csma_world \<Rightarrow> int" where
  "LrWpanCsmaCa_GetTimeLeftInCap mac w = (
     let currentTime = Simulator_Now (sim w);
         activeSlot = (if \<not> isCoord mac then ucast (incomingSuperframeDuration mac div 16) else ucast (superframeDuration mac div 16)) :: u64;
         capSymbols = (if \<not> isCoord mac then activeSlot * (ucast (incomingFnlCapSlot mac) + 1) else activeSlot * (ucast (fnlCapSlot mac) + 1));
         endCapTime = (if m_incCsma (csma w) then macBeaconRxTime mac + Seconds (uint capSymbols) (symbolRate mac)
                       else macBeaconTxTime mac + Seconds (uint capSymbols) (symbolRate mac))
     in endCapTime - currentTime)"

subsection \<open>The algorithm\<close>

definition LrWpanCsmaCa_Start :: "csma_mac \<Rightarrow> csma_world \<Rightarrow> csma_world option" where
  "LrWpanCsmaCa_Start mac w = (
     let w = csma_upd (\<lambda>f. f\<lparr>m_NB := 0\<rparr>) w in
     if LrWpanCsmaCa_IsSlottedCsmaCa (csma w) then do {
       let w = csma_upd (\<lambda>f. f\<lparr>m_CW := 1\<rparr>) w;
       let w = csma_upd (\<lambda>f. if m_macBattLifeExt f then f\<lparr>m_BE := min 2 (m_macMinBE f)\<rparr> else f\<lparr>m_BE := m_macMinBE f\<rparr>) w;
       let w = csma_upd (\<lambda>f. f\<lparr>m_incCsma := isIncomingSuperframe mac\<rparr>) w;
       backoffBoundary \<leftarrow> LrWpanCsmaCa_GetTimeToNextSlot mac w;
       csma_sched backoffBoundary RandomBackoffDelay (\<lambda>k f. f\<lparr>m_randomBackoffEvent := k\<rparr>) w }
     else do {
       let w = csma_upd (\<lambda>f. f\<lparr>m_BE := m_macMinBE f\<rparr>) w;
       csma_sched 0 RandomBackoffDelay (\<lambda>k f. f\<lparr>m_randomBackoffEvent := k\<rparr>) w })"

text \<open>The event of the end of the CAP is not among those cancelled.\<close>

definition LrWpanCsmaCa_Cancel :: "csma_world \<Rightarrow> csma_world" where
  "LrWpanCsmaCa_Cancel w = (
     let s = Simulator_Cancel (m_randomBackoffEvent (csma w)) (sim w);
         s = Simulator_Cancel (m_requestCcaEvent (csma w)) s;
         s = Simulator_Cancel (m_canProceedEvent (csma w)) s
     in csma_emit CcaCancel (w\<lparr>sim := s, phyCca := False\<rparr>))"

text \<open>
  \<open>draw\<close> is what \<open>(uint64_t)m_random->GetValue(0, 7)\<close> gives: a uniform value below 7, cut to
  an integer. The backoff exponent is not used.
\<close>

definition LrWpanCsmaCa_RandomBackoffDelay :: "csma_mac \<Rightarrow> u64 \<Rightarrow> csma_world \<Rightarrow> csma_world option" where
  "LrWpanCsmaCa_RandomBackoffDelay mac draw w = (
     let w = csma_upd (\<lambda>f. if m_randomBackoffPeriodsLeft f = 0 \<or> LrWpanCsmaCa_IsUnSlottedCsmaCa f
                 then f\<lparr>m_randomBackoffPeriodsLeft := draw\<rparr> else f) w;
         randomBackoff = Seconds (uint (m_randomBackoffPeriodsLeft (csma w) * LrWpanCsmaCa_GetUnitBackoffPeriod (csma w))) (symbolRate mac)
     in if LrWpanCsmaCa_IsUnSlottedCsmaCa (csma w)
        then csma_sched randomBackoff RequestCCA (\<lambda>k f. f\<lparr>m_requestCcaEvent := k\<rparr>) w
        else
          let timeLeftInCap = LrWpanCsmaCa_GetTimeLeftInCap mac w in
          if randomBackoff \<ge> timeLeftInCap then
            if timeLeftInCap < 0 \<or> m_aUnitBackoffPeriod (csma w) = 0 then None
            else
              let usedBackoffs = of_int (timeLeftInCap * int (symbolRate mac) div (10 ^ 9 * uint (m_aUnitBackoffPeriod (csma w))));
                  w = csma_upd (\<lambda>f. f\<lparr>m_randomBackoffPeriodsLeft := m_randomBackoffPeriodsLeft f - usedBackoffs\<rparr>) w
              in csma_sched timeLeftInCap DeferCsmaTimeout (\<lambda>k f. f\<lparr>m_endCapEvent := k\<rparr>) w
          else csma_sched randomBackoff CanProceed (\<lambda>k f. f\<lparr>m_canProceedEvent := k\<rparr>) w)"

text \<open>The symbols of the transaction, kept in 16 and 32 bits.\<close>

definition csma_transaction :: "csma_mac \<Rightarrow> LrWpanCsmaCa \<Rightarrow> u32" where
  "csma_transaction mac f = (
     let ccaSymbols = 0 + 8 * ucast (m_CW f) :: u16;
         transactionSymbols = ucast (ucast ccaSymbols + txPacketSymbols mac);
         transactionSymbols = (if txAckReq mac then ucast (ucast transactionSymbols + macAckWaitDuration mac)
                               else transactionSymbols + aTurnaroundTime mac * 2)
     in transactionSymbols + ifsSize mac)"

definition LrWpanCsmaCa_CanProceed :: "csma_mac \<Rightarrow> csma_world \<Rightarrow> csma_world option" where
  "LrWpanCsmaCa_CanProceed mac w = (
     let w = csma_upd (\<lambda>f. f\<lparr>m_randomBackoffPeriodsLeft := 0\<rparr>) w;
         timeLeftInCap = LrWpanCsmaCa_GetTimeLeftInCap mac w;
         transactionSymbols = csma_transaction mac (csma w);
         w = (if m_lrWpanMacTransCostCallback (csma w) then csma_emit (TransCost transactionSymbols) w else w);
         transactionTime = Seconds (uint transactionSymbols) (symbolRate mac)
     in if transactionTime > timeLeftInCap
        then csma_sched timeLeftInCap DeferCsmaTimeout (\<lambda>k f. f\<lparr>m_endCapEvent := k\<rparr>) w
        else csma_sched 0 RequestCCA (\<lambda>k f. f\<lparr>m_requestCcaEvent := k\<rparr>) w)"

definition LrWpanCsmaCa_RequestCCA :: "csma_world \<Rightarrow> csma_world" where
  "LrWpanCsmaCa_RequestCCA w = csma_emit PlmeCcaRequest (csma_upd (\<lambda>f. f\<lparr>m_ccaRequestRunning := True\<rparr>) (w\<lparr>phyCca := True\<rparr>))"

text \<open>The callback is called without a test for null here.\<close>

definition LrWpanCsmaCa_DeferCsmaTimeout :: "csma_world \<Rightarrow> csma_world option" where
  "LrWpanCsmaCa_DeferCsmaTimeout w = (
     if m_lrWpanMacStateCallback (csma w) then Some (csma_emit (MacState MAC_CSMA_DEFERRED) w) else None)"

definition csma_notify :: "LrWpanMacState \<Rightarrow> csma_world \<Rightarrow> csma_world" where
  "csma_notify st w = (if m_lrWpanMacStateCallback (csma w) then csma_emit (MacState st) w else w)"

text \<open>\<open>idle\<close> says that the status of the confirmation is \<open>IEEE_802_15_4_PHY_IDLE\<close>.\<close>

definition LrWpanCsmaCa_PlmeCcaConfirm :: "bool \<Rightarrow> csma_world \<Rightarrow> csma_world option" where
  "LrWpanCsmaCa_PlmeCcaConfirm idle w = (
     if m_ccaRequestRunning (csma w) then
       let w = csma_upd (\<lambda>f. f\<lparr>m_ccaRequestRunning := False\<rparr>) w in
       if idle then
         if LrWpanCsmaCa_IsSlottedCsmaCa (csma w) then
           let w = csma_upd (\<lambda>f. f\<lparr>m_CW := m_CW f - 1\<rparr>) w in
           if m_CW (csma w) = 0 then Some (csma_notify CHANNEL_IDLE w)
           else csma_sched 0 RequestCCA (\<lambda>k f. f\<lparr>m_requestCcaEvent := k\<rparr>) w
         else Some (csma_notify CHANNEL_IDLE w)
       else
         let w = (if LrWpanCsmaCa_IsSlottedCsmaCa (csma w) then csma_upd (\<lambda>f. f\<lparr>m_CW := 2\<rparr>) w else w);
             w = csma_upd (\<lambda>f. f\<lparr>m_BE := ucast (min (ucast (m_BE f) + 1 :: u16) (ucast (m_macMaxBE f)))\<rparr>) w;
             w = csma_upd (\<lambda>f. f\<lparr>m_NB := m_NB f + 1\<rparr>) w
         in if m_NB (csma w) > m_macMaxCSMABackoffs (csma w) then Some (csma_notify CHANNEL_ACCESS_FAILURE w)
            else csma_sched 0 RandomBackoffDelay (\<lambda>k f. f\<lparr>m_randomBackoffEvent := k\<rparr>) w
     else Some w)"

text \<open>One turn of the simulator: the earliest event, and the member function it calls.\<close>

definition csma_call_step :: "csma_mac \<Rightarrow> u64 \<Rightarrow> csma_call \<Rightarrow> csma_world \<Rightarrow> csma_world option" where
  "csma_call_step mac draw c w = (case c of
     RandomBackoffDelay \<Rightarrow> LrWpanCsmaCa_RandomBackoffDelay mac draw w
   | RequestCCA \<Rightarrow> Some (LrWpanCsmaCa_RequestCCA w)
   | CanProceed \<Rightarrow> LrWpanCsmaCa_CanProceed mac w
   | DeferCsmaTimeout \<Rightarrow> LrWpanCsmaCa_DeferCsmaTimeout w)"

definition csma_turn :: "csma_mac \<Rightarrow> u64 \<Rightarrow> csma_world \<Rightarrow> csma_world option" where
  "csma_turn mac draw w = do {
     (r, s) \<leftarrow> Simulator_ProcessOneEvent (sim w);
     case r of None \<Rightarrow> Some (w\<lparr>sim := s\<rparr>) | Some c \<Rightarrow> csma_call_step mac draw c (w\<lparr>sim := s\<rparr>) }"

end
