(* ===== verification/Csma_Contention.thy ===== *)
theory Csma_Contention
  imports Csma_Ca
begin

text \<open>
  What the CSMA-CA of Csma_Ca achieves: its waits end on slot boundaries, its assessments
  refine an abstract contention that is always decided, and at any moment at most one of
  its own events is due.
\<close>

subsection \<open>Lemmas on times\<close>

lemma Seconds_exact:
  assumes "0 < rate" and "rate dvd 10 ^ 9"
  shows "Seconds n rate = n * int (10 ^ 9 div rate)"
proof -
  obtain k where k: "(10 :: nat) ^ 9 = rate * k" using assms(2) unfolding dvd_def by blast
  have k': "(10 :: int) ^ 9 = int rate * int k" using arg_cong [OF k, of int] by simp
  have "2 * n * 10 ^ 9 + int rate = int rate + n * int k * (2 * int rate)"
    unfolding k' by (simp add: algebra_simps)
  then have "Seconds n rate = n * int k + int rate div (2 * int rate)"
    using assms(1) div_mult_self1 [of "2 * int rate" "int rate" "n * int k"] unfolding Seconds_def
    by (simp only: mult.assoc)
  moreover have "int rate div (2 * int rate) = 0" using assms(1) by simp
  ultimately show ?thesis using assms(1) unfolding k by simp
qed

lemma toSymbols_exact:
  assumes "0 < rate" and "rate dvd 10 ^ 9" and "0 \<le> t"
  shows "toSymbols t rate = Some (t div int (10 ^ 9 div rate))"
proof -
  obtain k where k: "(10 :: nat) ^ 9 = rate * k" using assms(2) unfolding dvd_def by blast
  have k': "(10 :: int) ^ 9 = int rate * int k" using arg_cong [OF k, of int] by simp
  have "t * int rate div (int rate * int k) = t div int k" using assms(1) by (simp add: mult.commute [of t])
  then show ?thesis using assms(1,3) unfolding toSymbols_def k' k by simp
qed

lemma symbol_pos: "0 < rate \<Longrightarrow> rate dvd 10 ^ 9 \<Longrightarrow> 0 < int (10 ^ 9 div rate)"
  using dvd_imp_le [of rate "10 ^ 9"] by (simp add: div_greater_zero_iff)

text \<open>The delay to the next slot ends on a boundary and is at most one unit.\<close>

lemma next_boundary:
  assumes "0 < k" and "0 < u" and "0 \<le> (e :: int)"
  shows "let q = e div k; d = (q + (u - q mod u)) * k - e in 0 < d \<and> d \<le> u * k \<and> (e + d) mod (u * k) = 0"
proof -
  let ?q = "e div k"
  have e: "?q * k + e mod k = e" by (rule div_mult_mod_eq)
  have "0 \<le> e mod k" "e mod k < k" using assms(1) by simp_all
  with e have q: "?q * k \<le> e" "e < (?q + 1) * k" unfolding distrib_right by linarith+
  have m: "0 \<le> ?q mod u" "?q mod u < u" using assms(2) by simp_all
  have b: "?q + (u - ?q mod u) = (?q div u + 1) * u"
    using div_mult_mod_eq [of ?q u] by (simp add: algebra_simps)
  have up: "(?q + 1) * k \<le> (?q + (u - ?q mod u)) * k"
    using m assms(1) by (intro mult_right_mono) auto
  have lo: "(?q + (u - ?q mod u)) * k \<le> ?q * k + u * k"
    using m assms(1) by (simp add: algebra_simps mult_left_mono)
  have "e + ((?q + (u - ?q mod u)) * k - e) = (?q div u + 1) * (u * k)"
    unfolding b by (simp add: algebra_simps)
  then have "(e + ((?q + (u - ?q mod u)) * k - e)) mod (u * k) = 0" by (simp only: mod_mult_self2_is_0)
  with q up lo show ?thesis unfolding Let_def by linarith
qed

subsection \<open>The abstract contention\<close>

text \<open>
  What the assessments decide, without timers: \<open>Contending n k\<close> has \<open>n\<close> further busy
  assessments to spare and needs \<open>k\<close> idle ones in a row.
\<close>

datatype contention = Contending nat nat | Won | Lost

fun cca_next :: "bool \<Rightarrow> bool \<Rightarrow> contention \<Rightarrow> contention" where
  "cca_next slotted idle (Contending n k) = (
     if idle then (if k \<le> 1 then Won else Contending n (k - 1))
     else if n = 0 then Lost else Contending (n - 1) (if slotted then 2 else 1))"
| "cca_next slotted idle c = c"

fun cca_run :: "bool \<Rightarrow> bool list \<Rightarrow> contention \<Rightarrow> contention" where
  "cca_run slotted [] c = c"
| "cca_run slotted (s # ss) c = cca_run slotted ss (cca_next slotted s c)"

lemma cca_run_done [simp]: "cca_run sl ss Won = Won" "cca_run sl ss Lost = Lost"
  by (induction ss) simp_all

text \<open>The contention is decided after at most twice as many assessments as busy ones are allowed.\<close>

lemma cca_run_decided:
  "1 \<le> k \<Longrightarrow> k \<le> 2 \<Longrightarrow> 2 * n + k \<le> length ss \<Longrightarrow> cca_run sl ss (Contending n k) \<in> {Won, Lost}"
proof (induction ss arbitrary: n k)
  case (Cons s ss)
  show ?case
  proof (cases s)
    case True
    then show ?thesis using Cons.prems Cons.IH [of "k - 1" n] by (cases "k \<le> 1") simp_all
  next
    case False
    show ?thesis
    proof (cases n)
      case 0
      then show ?thesis using False by simp
    next
      case (Suc n')
      have "cca_run sl ss (Contending n' (if sl then 2 else 1)) \<in> {Won, Lost}"
        using Cons.prems Suc by (intro Cons.IH) auto
      then show ?thesis using False Suc by simp
    qed
  qed
qed simp

lemma cca_run_lost: "cca_run sl ss (Contending n k) = Lost \<Longrightarrow> n < length (filter Not ss)"
proof (induction ss arbitrary: n k)
  case (Cons s ss)
  show ?case
  proof (cases s)
    case True
    then show ?thesis using Cons.prems Cons.IH [of n "k - 1"] by (simp split: if_splits)
  next
    case False
    then show ?thesis using Cons.prems Cons.IH [of "n - 1" "if sl then 2 else 1"] by (cases n) simp_all
  qed
qed simp

lemma cca_run_won_unslotted: "cca_run False ss (Contending n 1) = Won \<longleftrightarrow> True \<in> set (take (n + 1) ss)"
proof (induction ss arbitrary: n)
  case (Cons s ss)
  show ?case using Cons.IH [of "n - 1"] by (cases n; cases s) simp_all
qed simp

lemma cca_run_lost_unslotted:
  "cca_run False ss (Contending n 1) = Lost \<longleftrightarrow> n < length ss \<and> True \<notin> set (take (n + 1) ss)"
proof (induction ss arbitrary: n)
  case (Cons s ss)
  show ?case using Cons.IH [of "n - 1"] by (cases n; cases s) simp_all
qed simp

text \<open>With slots, after a busy assessment it takes two idle ones in a row to win.\<close>

lemma cca_run_snoc: "cca_run sl (ss @ [s]) c = cca_next sl s (cca_run sl ss c)"
  by (induction ss arbitrary: c) simp_all

lemma cca_next_contending:
  "cca_next sl s c = Contending n k \<Longrightarrow> \<exists>n' k'. c = Contending n' k' \<and>
     (if s then n = n' \<and> k = k' - 1 \<and> 1 < k' else 0 < n' \<and> n = n' - 1 \<and> k = (if sl then 2 else 1))"
  by (cases c) (auto split: if_splits)

lemma cca_run_won_slotted:
  assumes "cca_run True (ss @ [False, s, s']) c = Won" and "cca_run True (ss @ [False, s]) c \<noteq> Won"
  shows "s \<and> s'"
proof -
  let ?a = "cca_run True (ss @ [False]) c"
  have 1: "cca_run True (ss @ [False, s]) c = cca_next True s ?a"
    using cca_run_snoc [of True "ss @ [False]" s c] by simp
  have 2: "cca_run True (ss @ [False, s, s']) c = cca_next True s' (cca_next True s ?a)"
    using cca_run_snoc [of True "ss @ [False, s]" s' c] 1 by simp
  have a: "?a \<in> {Won, Lost} \<or> (\<exists>n. ?a = Contending n 2)"
    using cca_run_snoc [of True ss False c] by (cases "cca_run True ss c") auto
  show ?thesis using assms 1 2 a by (auto split: if_splits)
qed

subsection \<open>The assessments of the code refine the abstract contention\<close>

definition csma_abs :: "LrWpanCsmaCa \<Rightarrow> contention" where
  "csma_abs f = Contending (unat (m_macMaxCSMABackoffs f) - unat (m_NB f)) (if m_isSlotted f then unat (m_CW f) else 1)"

text \<open>The object may be assessed: it has backoffs left, and with slots a contention window to count down.\<close>

definition csma_ready :: "LrWpanCsmaCa \<Rightarrow> bool" where
  "csma_ready f \<longleftrightarrow> m_macMaxCSMABackoffs f \<le> 5 \<and> m_NB f \<le> m_macMaxCSMABackoffs f \<and> (m_isSlotted f \<longrightarrow> m_CW f \<in> {1, 2})"

lemma csma_sched_spec:
  assumes "sim_ok (sim w)" and "0 \<le> d"
  shows "\<exists>k s. csma_sched d c st w = Some (w\<lparr>sim := s, csma := st (Some k) (csma w)\<rparr>) \<and> sim_ok s \<and>
    m_currentTs s = m_currentTs (sim w) \<and> fst k = nat d + m_currentTs (sim w) \<and> pending s = insert (k, c) (pending (sim w))"
proof -
  obtain k s where s: "Simulator_Schedule d c (sim w) = Some (k, s)" "sim_ok s" "m_currentTs s = m_currentTs (sim w)"
    "fst k = nat d + m_currentTs (sim w)" "pending s = insert (k, c) (pending (sim w))"
    using simulator.schedule_law [OF assms, of c] by blast
  show ?thesis by (intro exI [of _ k] exI [of _ s]) (simp add: csma_sched_def s)
qed

lemma NB_step: "m \<le> 5 \<Longrightarrow> n \<le> m \<Longrightarrow> unat (n + 1 :: u8) = unat n + 1" for n m :: u8
proof -
  assume "m \<le> 5" "n \<le> m"
  then have "n \<le> 5" by (rule order_trans [rotated])
  then have "unat n \<le> 5" by (simp add: word_le_nat_alt)
  then show ?thesis by (simp add: unat_word_ariths)
qed

lemma csma_sched_Some:
  assumes "sim_ok (sim w)" and "csma_sched d c st w = Some w'"
  shows "0 \<le> d \<and> (\<exists>k s. w' = w\<lparr>sim := s, csma := st (Some k) (csma w)\<rparr> \<and> sim_ok s \<and>
    m_currentTs s = m_currentTs (sim w) \<and> fst k = nat d + m_currentTs (sim w) \<and> pending s = insert (k, c) (pending (sim w)))"
proof -
  have "0 \<le> d" using assms(2) by (auto simp: csma_sched_def Simulator_Schedule_def split: if_splits)
  with csma_sched_spec [OF assms(1) this, of c st] assms(2) show ?thesis by auto
qed

text \<open>
  A confirmation moves the contention on as the abstract one: won and lost are told to the MAC,
  and while the channel is contended one new event is due at once: after an idle assessment
  the next assessment, after a busy one a new backoff.
\<close>

lemma PlmeCcaConfirm_refines:
  assumes "sim_ok (sim w)" and "csma_ready (csma w)" and "m_ccaRequestRunning (csma w)" and "m_lrWpanMacStateCallback (csma w)"
  shows "\<exists>w'. LrWpanCsmaCa_PlmeCcaConfirm idle w = Some w' \<and> \<not> m_ccaRequestRunning (csma w') \<and>
    (case cca_next (m_isSlotted (csma w)) idle (csma_abs (csma w)) of
       Won \<Rightarrow> outs w' = outs w @ [MacState CHANNEL_IDLE] \<and> sim w' = sim w
     | Lost \<Rightarrow> outs w' = outs w @ [MacState CHANNEL_ACCESS_FAILURE] \<and> sim w' = sim w
     | Contending n k \<Rightarrow> csma_abs (csma w') = Contending n k \<and> csma_ready (csma w') \<and> outs w' = outs w \<and>
         (\<exists>i. fst i = m_currentTs (sim w) \<and>
              pending (sim w') = insert (i, if idle then RequestCCA else RandomBackoffDelay) (pending (sim w))))"
proof (cases idle)
  case True
  let ?f = "\<lambda>f. f\<lparr>m_ccaRequestRunning := False, m_CW := m_CW f - 1\<rparr>"
  show ?thesis
  proof (cases "m_isSlotted (csma w) \<and> m_CW (csma w) = 2")
    case slotted: True
    let ?w = "w\<lparr>csma := ?f (csma w)\<rparr>"
    obtain k s where s: "csma_sched 0 RequestCCA (\<lambda>k f. f\<lparr>m_requestCcaEvent := k\<rparr>) ?w =
        Some (?w\<lparr>sim := s, csma := (csma ?w)\<lparr>m_requestCcaEvent := Some k\<rparr>\<rparr>)"
      "fst k = m_currentTs (sim w)" "pending s = insert (k, RequestCCA) (pending (sim w))"
      using csma_sched_spec [of ?w 0 RequestCCA "\<lambda>k f. f\<lparr>m_requestCcaEvent := k\<rparr>"] assms(1) by auto
    show ?thesis using True slotted assms s
      by (auto simp: LrWpanCsmaCa_PlmeCcaConfirm_def class_defs csma_abs_def csma_ready_def) (metis prod.collapse)
  next
    case False
    then show ?thesis using True assms
      by (auto simp: LrWpanCsmaCa_PlmeCcaConfirm_def class_defs csma_abs_def csma_ready_def csma_notify_def)
  qed
next
  case False
  let ?f = "\<lambda>f. (if m_isSlotted f then f\<lparr>m_ccaRequestRunning := False, m_CW := 2\<rparr> else f\<lparr>m_ccaRequestRunning := False\<rparr>)
      \<lparr>m_BE := ucast (min (ucast (m_BE f) + 1 :: u16) (ucast (m_macMaxBE f))), m_NB := m_NB f + 1\<rparr>"
  have nb: "unat (m_NB (csma w) + 1) = unat (m_NB (csma w)) + 1" "m_NB (csma w) \<le> m_macMaxCSMABackoffs (csma w)"
    "m_macMaxCSMABackoffs (csma w) \<le> 5"
    using assms(2) NB_step [of "m_macMaxCSMABackoffs (csma w)" "m_NB (csma w)"] by (simp_all add: csma_ready_def)
  show ?thesis
  proof (cases "m_NB (csma w) = m_macMaxCSMABackoffs (csma w)")
    case True
    then have "m_macMaxCSMABackoffs (csma w) < m_NB (csma w) + 1" using nb by (simp add: word_less_nat_alt)
    then show ?thesis using True False assms
      by (cases "m_isSlotted (csma w)") (simp_all add: LrWpanCsmaCa_PlmeCcaConfirm_def class_defs csma_abs_def csma_notify_def)
  next
    case more: False
    let ?w = "w\<lparr>csma := ?f (csma w)\<rparr>"
    obtain k s where s: "csma_sched 0 RandomBackoffDelay (\<lambda>k f. f\<lparr>m_randomBackoffEvent := k\<rparr>) ?w =
        Some (?w\<lparr>sim := s, csma := (csma ?w)\<lparr>m_randomBackoffEvent := Some k\<rparr>\<rparr>)"
      "fst k = m_currentTs (sim w)" "pending s = insert (k, RandomBackoffDelay) (pending (sim w))"
      using csma_sched_spec [of ?w 0 RandomBackoffDelay "\<lambda>k f. f\<lparr>m_randomBackoffEvent := k\<rparr>"] assms(1) by auto
    have lt: "unat (m_NB (csma w)) < unat (m_macMaxCSMABackoffs (csma w))"
      using more nb(2) by (metis order_le_less word_less_nat_alt)
    have le: "\<not> m_macMaxCSMABackoffs (csma w) < m_NB (csma w) + 1" using lt nb(1) by (simp add: word_less_nat_alt)
    let ?v = "?w\<lparr>sim := s, csma := (csma ?w)\<lparr>m_randomBackoffEvent := Some k\<rparr>\<rparr>"
    have run: "LrWpanCsmaCa_PlmeCcaConfirm idle w = Some ?v"
      using False assms(3) le s(1) by (cases "m_isSlotted (csma w)") (simp_all add: LrWpanCsmaCa_PlmeCcaConfirm_def class_defs)
    have "\<not> m_ccaRequestRunning (csma ?v)" by simp
    moreover have "cca_next (m_isSlotted (csma w)) idle (csma_abs (csma w)) = csma_abs (csma ?v)"
      using False lt nb(1) by (simp add: csma_abs_def)
    moreover have "csma_ready (csma ?v)" using le nb by (simp add: csma_ready_def not_less)
    moreover have "outs ?v = outs w" by simp
    moreover have "\<exists>i. fst i = m_currentTs (sim w) \<and> pending (sim ?v) = insert (i, if idle then RequestCCA else RandomBackoffDelay) (pending (sim w))"
      using False s(2,3) by (intro exI [of _ k]) simp
    ultimately show ?thesis using run by (intro exI [of _ ?v]) (simp add: csma_abs_def)
  qed
qed

subsection \<open>Waits\<close>

text \<open>A start with slots leads to the next boundary of a backoff period of the superframe.\<close>

lemma GetTimeToNextSlot_boundary:
  assumes "0 < symbolRate mac" and "symbolRate mac dvd 10 ^ 9" and "m_aUnitBackoffPeriod (csma w) \<noteq> 0"
    and "e = Simulator_Now (sim w) - (if m_incCsma (csma w) then macBeaconRxTime mac else macBeaconTxTime mac)" and "0 \<le> e"
  shows "\<exists>d. LrWpanCsmaCa_GetTimeToNextSlot mac w = Some d \<and> 0 < d \<and>
    d \<le> uint (m_aUnitBackoffPeriod (csma w)) * int (10 ^ 9 div symbolRate mac) \<and>
    (e + d) mod (uint (m_aUnitBackoffPeriod (csma w)) * int (10 ^ 9 div symbolRate mac)) = 0"
proof -
  let ?k = "int (10 ^ 9 div symbolRate mac)" and ?u = "uint (m_aUnitBackoffPeriod (csma w))"
  have u: "0 < ?u" using assms(3) by (simp add: word_neq_0_conv word_less_def)
  have t: "toSymbols e (symbolRate mac) = Some (e div ?k)" by (rule toSymbols_exact [OF assms(1,2,5)])
  have sel: "(if m_incCsma (csma w) then Simulator_Now (sim w) - macBeaconRxTime mac else Simulator_Now (sim w) - macBeaconTxTime mac) = e"
    by (simp add: assms(4))
  have "LrWpanCsmaCa_GetTimeToNextSlot mac w = Some ((e div ?k + (?u - (e div ?k) mod ?u)) * ?k - e)"
    unfolding LrWpanCsmaCa_GetTimeToNextSlot_def Let_def sel t using u
    by (simp add: Seconds_exact [OF assms(1,2)])
  with next_boundary [OF symbol_pos [OF assms(1,2)] u assms(5)] show ?thesis by (simp add: Let_def)
qed

text \<open>
  With slots, a backoff that does not fit the rest of the CAP is deferred: the periods that
  fit are taken from it, never more than there are, and the next event is the end of the CAP.
\<close>

lemma backoff_time:
  assumes "0 < symbolRate mac" and "symbolRate mac dvd 10 ^ 9" and "p < 7" and "u < 2 ^ 32"
  shows "Seconds (uint (p * u :: u64)) (symbolRate mac) = uint p * (uint u * int (10 ^ 9 div symbolRate mac))"
proof -
  have "uint p < 7" "uint u < 2 ^ 32" using assms(3,4) by (simp_all add: word_less_def)
  then have "uint p * uint u < 7 * 2 ^ 32" by (intro mult_strict_mono) auto
  then have "uint (p * u) = uint p * uint u" by (intro iffD1 [OF uint_mult_lem]) simp
  then show ?thesis by (simp add: Seconds_exact [OF assms(1,2)] mult.assoc)
qed

lemma used_backoffs:
  assumes "0 < rate" and "rate dvd 10 ^ 9" and "p < (7 :: u64)" and "u \<noteq> 0" and "0 \<le> t"
    and "t \<le> uint p * (uint u * int (10 ^ 9 div rate))"
  shows "let used = of_int (t * int rate div (10 ^ 9 * uint u)) in
    used \<le> p \<and> uint used * (uint u * int (10 ^ 9 div rate)) \<le> t \<and> t < (uint used + 1) * (uint u * int (10 ^ 9 div rate))"
proof -
  let ?k = "int (10 ^ 9 div rate)"
  obtain k where k: "(10 :: nat) ^ 9 = rate * k" using assms(2) unfolding dvd_def by blast
  have kk: "?k = int k" unfolding k using assms(1) by simp
  have k0: "0 < int k" using symbol_pos [OF assms(1,2)] unfolding kk .
  have u0: "0 < uint u" using assms(4) by (simp add: word_neq_0_conv word_less_def)
  have "(10 :: int) ^ 9 = int rate * int k" using arg_cong [OF k, of int] by simp
  then have "t * int rate div (10 ^ 9 * uint u) = (t * int rate) div ((uint u * int k) * int rate)"
    by (simp only: mult.commute mult.left_commute)
  also have "\<dots> = t div (uint u * int k)" using assms(1) by simp
  finally have eq: "t * int rate div (10 ^ 9 * uint u) = t div (uint u * int k)" .
  define q where "q = t div (uint u * int k)"
  have pos: "0 < uint u * int k" using u0 k0 by simp
  have q0: "0 \<le> q" using assms(5) pos by (simp add: q_def pos_imp_zdiv_nonneg_iff)
  have qp: "q \<le> uint p" using zdiv_mono1 [OF assms(6) [unfolded kk] pos] nonzero_mult_div_cancel_right [of "uint u * int k" "uint p"] pos
    unfolding q_def by (simp only:)
  have "uint p < 7" using assms(3) by (simp add: word_less_def)
  then have uq: "uint (of_int q :: u64) = q" using q0 qp by (simp add: uint_word_of_int)
  have "q * (uint u * int k) \<le> t \<and> t < (q + 1) * (uint u * int k)"
    using div_mult_mod_eq [of t "uint u * int k"] pos_mod_bound [OF pos, of t] pos_mod_sign [OF pos, of t]
    unfolding q_def distrib_right by linarith
  then show ?thesis unfolding Let_def eq q_def [symmetric] kk using uq qp by (simp add: word_le_def)
qed

text \<open>The ranges of the parameters and of the periods that are left.\<close>

definition csma_bounds :: "LrWpanCsmaCa \<Rightarrow> bool" where
  "csma_bounds f \<longleftrightarrow> m_macMaxCSMABackoffs f \<le> 5 \<and> m_aUnitBackoffPeriod f \<noteq> 0 \<and> m_aUnitBackoffPeriod f < 2 ^ 32 \<and>
     m_randomBackoffPeriodsLeft f < 7"

text \<open>The periods a slotted backoff starts from: what was left of the last one, or a new draw.\<close>

definition backoff_periods :: "u64 \<Rightarrow> LrWpanCsmaCa \<Rightarrow> u64" where
  "backoff_periods draw f = (if m_randomBackoffPeriodsLeft f = 0 then draw else m_randomBackoffPeriodsLeft f)"

lemma GetTimeLeftInCap_periods:
  "LrWpanCsmaCa_GetTimeLeftInCap mac (csma_upd (\<lambda>f. f\<lparr>m_randomBackoffPeriodsLeft := p\<rparr>) w) = LrWpanCsmaCa_GetTimeLeftInCap mac w"
  by (simp add: LrWpanCsmaCa_GetTimeLeftInCap_def csma_upd_def)

lemma RandomBackoffDelay_defers:
  assumes "sim_ok (sim w)" and "0 < symbolRate mac" and "symbolRate mac dvd 10 ^ 9" and "m_isSlotted (csma w)"
    and "csma_bounds (csma w)" and "draw < 7"
    and "p = backoff_periods draw (csma w)" and "unit = uint (m_aUnitBackoffPeriod (csma w)) * int (10 ^ 9 div symbolRate mac)"
    and "t = LrWpanCsmaCa_GetTimeLeftInCap mac w" and "0 \<le> t" and "t \<le> uint p * unit"
  shows "\<exists>w' used. LrWpanCsmaCa_RandomBackoffDelay mac draw w = Some w' \<and>
    m_randomBackoffPeriodsLeft (csma w') = p - used \<and> used \<le> p \<and> uint used * unit \<le> t \<and> t < (uint used + 1) * unit \<and>
    (\<exists>i. fst i = nat t + m_currentTs (sim w) \<and> pending (sim w') = insert (i, DeferCsmaTimeout) (pending (sim w)))"
proof -
  let ?f = "csma w" and ?v = "csma_upd (\<lambda>f. f\<lparr>m_randomBackoffPeriodsLeft := p\<rparr>) w"
  define used :: u64 where "used = of_int (t * int (symbolRate mac) div (10 ^ 9 * uint (m_aUnitBackoffPeriod ?f)))"
  have u: "m_aUnitBackoffPeriod ?f \<noteq> 0" "m_aUnitBackoffPeriod ?f < 2 ^ 32" and p: "p < 7"
    using assms(5,6,7) by (simp_all add: csma_bounds_def backoff_periods_def)
  have start: "csma_upd (\<lambda>f. if m_randomBackoffPeriodsLeft f = 0 \<or> LrWpanCsmaCa_IsUnSlottedCsmaCa f
      then f\<lparr>m_randomBackoffPeriodsLeft := draw\<rparr> else f) w = ?v"
    using assms(4,7) by (cases w) (simp add: csma_upd_def backoff_periods_def LrWpanCsmaCa_IsUnSlottedCsmaCa_def)
  have late: "Seconds (uint (p * m_aUnitBackoffPeriod ?f)) (symbolRate mac) \<ge> t"
    using backoff_time [OF assms(2,3) p u(2)] assms(8,11) by simp
  have left: "LrWpanCsmaCa_GetTimeLeftInCap mac ?v = t" by (simp add: GetTimeLeftInCap_periods assms(9))
  let ?w1 = "csma_upd (\<lambda>f. f\<lparr>m_randomBackoffPeriodsLeft := p - used\<rparr>) ?v"
  obtain k s where s: "csma_sched t DeferCsmaTimeout (\<lambda>k f. f\<lparr>m_endCapEvent := k\<rparr>) ?w1 =
      Some (?w1\<lparr>sim := s, csma := (csma ?w1)\<lparr>m_endCapEvent := Some k\<rparr>\<rparr>)"
    "fst k = nat t + m_currentTs (sim w)" "pending s = insert (k, DeferCsmaTimeout) (pending (sim w))"
    using csma_sched_spec [of ?w1 t DeferCsmaTimeout "\<lambda>k f. f\<lparr>m_endCapEvent := k\<rparr>"] assms(1,10) by (auto simp: csma_upd_def)
  have run: "LrWpanCsmaCa_RandomBackoffDelay mac draw w = Some (?w1\<lparr>sim := s, csma := (csma ?w1)\<lparr>m_endCapEvent := Some k\<rparr>\<rparr>)"
    unfolding LrWpanCsmaCa_RandomBackoffDelay_def start Let_def left
    using late assms(4,10) u(1) s(1)
    by (simp add: LrWpanCsmaCa_IsUnSlottedCsmaCa_def LrWpanCsmaCa_GetUnitBackoffPeriod_def csma_upd_def used_def)
  have q: "used \<le> p \<and> uint used * unit \<le> t \<and> t < (uint used + 1) * unit"
    using used_backoffs [OF assms(2,3) p u(1) assms(10) assms(11) [unfolded assms(8)]] unfolding Let_def used_def assms(8) .
  have "\<exists>i. fst i = nat t + m_currentTs (sim w) \<and> pending s = insert (i, DeferCsmaTimeout) (pending (sim w))"
    by (intro exI [of _ k]) (simp add: s(2,3))
  with run q show ?thesis
    by (intro exI [of _ "?w1\<lparr>sim := s, csma := (csma ?w1)\<lparr>m_endCapEvent := Some k\<rparr>\<rparr>"] exI [of _ used]) (simp add: csma_upd_def)
qed

subsection \<open>All runs\<close>

text \<open>The events of the object that carry a contention on.\<close>

definition csma_live :: "csma_world \<Rightarrow> (EventId \<times> csma_call) set" where
  "csma_live w = {(k, c) \<in> pending (sim w). c \<noteq> DeferCsmaTimeout}"

text \<open>
  What may happen to the object: the MAC starts it when no contention is going on or cancels
  it, the simulator runs its next event, the PHY answers a CCA, or another component takes a
  turn of the simulator.
\<close>

inductive csma_step :: "csma_world \<Rightarrow> csma_world \<Rightarrow> bool" where
  start: "csma_live w = {} \<Longrightarrow> \<not> phyCca w \<Longrightarrow> LrWpanCsmaCa_Start mac w = Some w' \<Longrightarrow> csma_step w w'"
| cancel: "csma_step w (LrWpanCsmaCa_Cancel w)"
| turn: "0 < symbolRate mac \<Longrightarrow> symbolRate mac dvd 10 ^ 9 \<Longrightarrow> draw < 7 \<Longrightarrow> csma_turn mac draw w = Some w' \<Longrightarrow> csma_step w w'"
| confirm: "phyCca w \<Longrightarrow> LrWpanCsmaCa_PlmeCcaConfirm idle (w\<lparr>phyCca := False\<rparr>) = Some w' \<Longrightarrow> csma_step w w'"
| other: "sim_ok s \<Longrightarrow> m_currentTs (sim w) \<le> m_currentTs s \<Longrightarrow> pending s = pending (sim w) \<Longrightarrow> csma_step w (w\<lparr>sim := s\<rparr>)"

text \<open>
  The invariant: the live events are the ones the object holds the identifier of, there is at
  most one of them, and none while the PHY has a CCA to answer; then the object waits for the
  answer and is ready for it.
\<close>

definition csma_held :: "LrWpanCsmaCa \<Rightarrow> csma_call \<Rightarrow> EventId option" where
  "csma_held f c = (case c of RandomBackoffDelay \<Rightarrow> m_randomBackoffEvent f | RequestCCA \<Rightarrow> m_requestCcaEvent f
     | CanProceed \<Rightarrow> m_canProceedEvent f | DeferCsmaTimeout \<Rightarrow> m_endCapEvent f)"

definition csma_inv :: "csma_world \<Rightarrow> bool" where
  "csma_inv w \<longleftrightarrow> sim_ok (sim w) \<and> csma_bounds (csma w) \<and>
     (\<forall>(k, c) \<in> csma_live w. csma_held (csma w) c = Some k) \<and>
     (\<forall>p \<in> csma_live w. \<forall>q \<in> csma_live w. p = q) \<and>
     (phyCca w \<longrightarrow> csma_live w = {} \<and> m_ccaRequestRunning (csma w)) \<and>
     (phyCca w \<or> csma_live w \<noteq> {} \<longrightarrow> csma_ready (csma w))"

text \<open>Scheduling when nothing is live.\<close>

lemma csma_sched_inv:
  assumes "csma_sched d c (\<lambda>k f. st k f) w = Some w'" and "sim_ok (sim w)" and "csma_live w = {}" and "\<not> phyCca w"
    and "\<And>k. csma_bounds (st (Some k) (csma w))"
    and "\<And>k. c \<noteq> DeferCsmaTimeout \<Longrightarrow> csma_ready (st (Some k) (csma w)) \<and> csma_held (st (Some k) (csma w)) c = Some k"
  shows "csma_inv w'"
proof -
  obtain k s where w': "w' = w\<lparr>sim := s, csma := st (Some k) (csma w)\<rparr>" and s: "sim_ok s"
    "pending s = insert (k, c) (pending (sim w))"
    using csma_sched_Some [OF assms(2,1)] by blast
  have live: "csma_live w' = (if c = DeferCsmaTimeout then {} else {(k, c)})"
  proof -
    have "csma_live w' = {(k', c') \<in> insert (k, c) (pending (sim w)). c' \<noteq> DeferCsmaTimeout}" by (simp add: csma_live_def w' s(2))
    also have "\<dots> = {(k', c') \<in> {(k, c)}. c' \<noteq> DeferCsmaTimeout} \<union> csma_live w" unfolding csma_live_def by blast
    finally show ?thesis unfolding assms(3) by auto
  qed
  show ?thesis unfolding csma_inv_def live using assms(4,5,6) s(1) by (simp add: w')
qed

lemma Start_inv:
  assumes "csma_inv w" and "csma_live w = {}" and "\<not> phyCca w" and "LrWpanCsmaCa_Start mac w = Some w'"
  shows "csma_inv w'"
proof (cases "m_isSlotted (csma w)")
  case True
  define v where "v = csma_upd (\<lambda>f. f\<lparr>m_incCsma := isIncomingSuperframe mac\<rparr>)
     (csma_upd (\<lambda>f. if m_macBattLifeExt f then f\<lparr>m_BE := min 2 (m_macMinBE f)\<rparr> else f\<lparr>m_BE := m_macMinBE f\<rparr>)
     (csma_upd (\<lambda>f. f\<lparr>m_CW := 1\<rparr>) (csma_upd (\<lambda>f. f\<lparr>m_NB := 0\<rparr>) w)))"
  have "LrWpanCsmaCa_Start mac w = do {
      backoffBoundary \<leftarrow> LrWpanCsmaCa_GetTimeToNextSlot mac v;
      csma_sched backoffBoundary RandomBackoffDelay (\<lambda>k f. f\<lparr>m_randomBackoffEvent := k\<rparr>) v }"
    using True by (simp add: LrWpanCsmaCa_Start_def LrWpanCsmaCa_IsSlottedCsmaCa_def csma_upd_def v_def Let_def)
  with assms(4) obtain d where d: "csma_sched d RandomBackoffDelay (\<lambda>k f. f\<lparr>m_randomBackoffEvent := k\<rparr>) v = Some w'"
    by (auto split: bind_splits)
  have f: "csma_bounds (csma v) = csma_bounds (csma w)" "m_macMaxCSMABackoffs (csma v) = m_macMaxCSMABackoffs (csma w)"
    "m_NB (csma v) = 0" "m_CW (csma v) = 1" "sim v = sim w" "phyCca v = phyCca w"
    by (simp_all add: v_def csma_upd_def csma_bounds_def)
  show ?thesis using assms(1,2,3) f
    by (intro csma_sched_inv [OF d]) (simp_all add: csma_inv_def csma_bounds_def csma_ready_def csma_held_def csma_live_def)
next
  case False
  then show ?thesis using assms
    by (intro csma_sched_inv [where w = "csma_upd (\<lambda>f. f\<lparr>m_BE := m_macMinBE f\<rparr>) (csma_upd (\<lambda>f. f\<lparr>m_NB := 0\<rparr>) w)" and d = 0
          and c = RandomBackoffDelay and st = "\<lambda>k f. f\<lparr>m_randomBackoffEvent := k\<rparr>"])
      (simp_all add: LrWpanCsmaCa_Start_def class_defs Let_def csma_inv_def csma_bounds_def csma_ready_def csma_held_def csma_live_def)
qed

text \<open>\<open>Cancel\<close> leaves nothing live, but may leave the event of the end of the CAP.\<close>

lemma Cancel_pending:
  assumes "sim_ok (sim w)"
  shows "sim_ok (sim (LrWpanCsmaCa_Cancel w)) \<and> pending (sim (LrWpanCsmaCa_Cancel w)) =
    {(k, c) \<in> pending (sim w). Some k \<notin> {m_randomBackoffEvent (csma w), m_requestCcaEvent (csma w), m_canProceedEvent (csma w)}}"
proof -
  let ?s1 = "Simulator_Cancel (m_randomBackoffEvent (csma w)) (sim w)"
  let ?s2 = "Simulator_Cancel (m_requestCcaEvent (csma w)) ?s1"
  note c1 = simulator.cancel_law [OF assms, of "m_randomBackoffEvent (csma w)"]
  note c2 = simulator.cancel_law [of ?s1 "m_requestCcaEvent (csma w)", OF c1 [THEN conjunct1]]
  note c3 = simulator.cancel_law [of ?s2 "m_canProceedEvent (csma w)", OF c2 [THEN conjunct1]]
  show ?thesis using c1 c2 c3
    by (auto simp: LrWpanCsmaCa_Cancel_def Let_def csma_emit_def)
qed

lemma Cancel_live:
  assumes "csma_inv w"
  shows "csma_live (LrWpanCsmaCa_Cancel w) = {}"
proof -
  have held: "csma_held (csma w) c = Some k" if "(k, c) \<in> pending (sim w)" "c \<noteq> DeferCsmaTimeout" for k c
    using assms that unfolding csma_inv_def csma_live_def by blast
  have "Some k \<in> {m_randomBackoffEvent (csma w), m_requestCcaEvent (csma w), m_canProceedEvent (csma w)}"
    if "(k, c) \<in> pending (sim w)" "c \<noteq> DeferCsmaTimeout" for k c
    using held [OF that] that(2) by (cases c) (simp_all add: csma_held_def)
  moreover have "sim_ok (sim w)" using assms by (simp add: csma_inv_def)
  ultimately show ?thesis using Cancel_pending [of w] unfolding csma_live_def [of "LrWpanCsmaCa_Cancel w"] by blast
qed

lemma Cancel_inv: "csma_inv w \<Longrightarrow> csma_inv (LrWpanCsmaCa_Cancel w)"
  using Cancel_live [of w] Cancel_pending [of w]
  by (simp add: csma_inv_def) (simp add: LrWpanCsmaCa_Cancel_def Let_def csma_emit_def)

text \<open>A world in which the object's event has just been taken from the queue.\<close>

definition csma_quiet :: "csma_world \<Rightarrow> bool" where
  "csma_quiet v \<longleftrightarrow> sim_ok (sim v) \<and> csma_bounds (csma v) \<and> csma_ready (csma v) \<and> csma_live v = {} \<and> \<not> phyCca v"

lemma csma_quiet_sched:
  assumes "csma_sched d c (\<lambda>k f. st k f) (csma_upd g v) = Some w'" and "csma_quiet v"
    and "\<And>k. csma_bounds (st (Some k) (g (csma v)))"
    and "\<And>k. c \<noteq> DeferCsmaTimeout \<Longrightarrow> csma_ready (st (Some k) (g (csma v))) \<and> csma_held (st (Some k) (g (csma v))) c = Some k"
  shows "csma_inv w'"
  using assms by (intro csma_sched_inv [OF assms(1)]) (simp_all add: csma_quiet_def csma_upd_def csma_live_def)

lemma RandomBackoffDelay_inv:
  assumes "csma_quiet v" and "0 < symbolRate mac" and "symbolRate mac dvd 10 ^ 9" and "draw < 7"
    and "LrWpanCsmaCa_RandomBackoffDelay mac draw v = Some w'"
  shows "csma_inv w'"
proof -
  define g where "g = (\<lambda>f. if m_randomBackoffPeriodsLeft f = 0 \<or> LrWpanCsmaCa_IsUnSlottedCsmaCa f
                 then f\<lparr>m_randomBackoffPeriodsLeft := draw\<rparr> else f)"
  let ?p = "m_randomBackoffPeriodsLeft (g (csma v))" and ?u = "m_aUnitBackoffPeriod (csma v)"
  let ?t = "LrWpanCsmaCa_GetTimeLeftInCap mac (csma_upd g v)"
  have b: "csma_bounds (csma v)" "csma_ready (csma v)" using assms(1) by (simp_all add: csma_quiet_def)
  have g: "m_aUnitBackoffPeriod (g f) = m_aUnitBackoffPeriod f" "m_macMaxCSMABackoffs (g f) = m_macMaxCSMABackoffs f"
    "m_isSlotted (g f) = m_isSlotted f" "m_NB (g f) = m_NB f" "m_CW (g f) = m_CW f" for f
    by (simp_all add: g_def)
  have p: "?p < 7" using b(1) assms(4) by (simp add: g_def csma_bounds_def)
  have wait: "Seconds (uint (?p * ?u)) (symbolRate mac) = uint ?p * (uint ?u * int (10 ^ 9 div symbolRate mac))"
    using b(1) by (intro backoff_time [OF assms(2,3) p]) (simp add: csma_bounds_def)
  have bounds: "csma_bounds (g (csma v)\<lparr>m_randomBackoffPeriodsLeft := q\<rparr>)" if "q < 7" for q
    using b(1) that by (simp add: csma_bounds_def g)
  have ready: "csma_ready (g (csma v))" using b(2) by (simp add: csma_ready_def g)
  note R = assms(5) [unfolded LrWpanCsmaCa_RandomBackoffDelay_def Let_def g_def [symmetric]]
  consider (unslotted) "\<not> m_isSlotted (csma v)" | (late) "m_isSlotted (csma v)" "uint ?p * (uint ?u * int (10 ^ 9 div symbolRate mac)) \<ge> ?t"
    | (proceed) "m_isSlotted (csma v)" "\<not> uint ?p * (uint ?u * int (10 ^ 9 div symbolRate mac)) \<ge> ?t" by blast
  then show ?thesis
  proof cases
    case unslotted
    then obtain d where run: "csma_sched d RequestCCA (\<lambda>k f. f\<lparr>m_requestCcaEvent := k\<rparr>) (csma_upd g v) = Some w'"
      using R by (simp add: LrWpanCsmaCa_IsUnSlottedCsmaCa_def csma_upd_def g)
    show ?thesis using bounds [OF p] ready
      by (intro csma_quiet_sched [OF run assms(1)]) (simp_all add: csma_bounds_def csma_ready_def csma_held_def)
  next
    case proceed
    then obtain d where run: "csma_sched d CanProceed (\<lambda>k f. f\<lparr>m_canProceedEvent := k\<rparr>) (csma_upd g v) = Some w'"
      using R wait by (simp add: LrWpanCsmaCa_IsUnSlottedCsmaCa_def LrWpanCsmaCa_GetUnitBackoffPeriod_def csma_upd_def g)
    show ?thesis using bounds [OF p] ready
      by (intro csma_quiet_sched [OF run assms(1)]) (simp_all add: csma_bounds_def csma_ready_def csma_held_def)
  next
    case late
    define used where "used = (of_int (?t * int (symbolRate mac) div (10 ^ 9 * uint ?u)) :: u64)"
    have t0: "0 \<le> ?t" and run: "csma_sched ?t DeferCsmaTimeout (\<lambda>k f. f\<lparr>m_endCapEvent := k\<rparr>)
        (csma_upd (\<lambda>f. g f\<lparr>m_randomBackoffPeriodsLeft := m_randomBackoffPeriodsLeft (g f) - used\<rparr>) v) = Some w'"
      using R wait late by (simp_all add: LrWpanCsmaCa_IsUnSlottedCsmaCa_def LrWpanCsmaCa_GetUnitBackoffPeriod_def
          csma_upd_def g used_def split: if_splits)
    have "used \<le> ?p" using used_backoffs [OF assms(2,3) p _ t0 late(2)] b(1) by (simp add: Let_def used_def csma_bounds_def)
    then have "?p - used < 7" using p by (metis order_le_less_trans word_sub_le)
    with bounds [OF this] show ?thesis
      by (intro csma_quiet_sched [OF run assms(1)]) (simp_all add: csma_bounds_def)
  qed
qed

lemma CanProceed_inv:
  assumes "csma_quiet v" and "LrWpanCsmaCa_CanProceed mac v = Some w'"
  shows "csma_inv w'"
proof -
  define u where "u = csma_upd (\<lambda>f. f\<lparr>m_randomBackoffPeriodsLeft := 0\<rparr>) v"
  define x where "x = (if m_lrWpanMacTransCostCallback (csma u) then csma_emit (TransCost (csma_transaction mac (csma u))) u else u)"
  have x: "csma x = csma v\<lparr>m_randomBackoffPeriodsLeft := 0\<rparr>" "sim x = sim v" "phyCca x = phyCca v"
    by (simp_all add: x_def u_def csma_emit_def csma_upd_def)
  have quiet: "csma_quiet x" using assms(1) by (simp add: csma_quiet_def x csma_live_def csma_bounds_def csma_ready_def)
  have up: "csma_upd id x = x" by (simp add: csma_upd_def)
  from assms(2) obtain d where "csma_sched d DeferCsmaTimeout (\<lambda>k f. f\<lparr>m_endCapEvent := k\<rparr>) (csma_upd id x) = Some w' \<or>
      csma_sched 0 RequestCCA (\<lambda>k f. f\<lparr>m_requestCcaEvent := k\<rparr>) (csma_upd id x) = Some w'"
    unfolding LrWpanCsmaCa_CanProceed_def Let_def u_def [symmetric] x_def [symmetric] up by (auto split: if_splits)
  then show ?thesis
  proof
    assume run: "csma_sched d DeferCsmaTimeout (\<lambda>k f. f\<lparr>m_endCapEvent := k\<rparr>) (csma_upd id x) = Some w'"
    show ?thesis using quiet by (intro csma_quiet_sched [OF run quiet]) (simp_all add: csma_quiet_def csma_bounds_def)
  next
    assume run: "csma_sched 0 RequestCCA (\<lambda>k f. f\<lparr>m_requestCcaEvent := k\<rparr>) (csma_upd id x) = Some w'"
    show ?thesis using quiet
      by (intro csma_quiet_sched [OF run quiet]) (simp_all add: csma_quiet_def csma_bounds_def csma_ready_def csma_held_def)
  qed
qed

lemma RequestCCA_inv:
  assumes "csma_quiet v"
  shows "csma_inv (LrWpanCsmaCa_RequestCCA v)"
proof -
  have "csma_live (LrWpanCsmaCa_RequestCCA v) = {}"
    using assms by (simp add: csma_quiet_def csma_live_def LrWpanCsmaCa_RequestCCA_def class_defs)
  with assms show ?thesis unfolding csma_inv_def csma_quiet_def
    by (simp add: LrWpanCsmaCa_RequestCCA_def class_defs csma_bounds_def csma_ready_def)
qed

lemma csma_inv_emit: "csma_inv (csma_emit out w) = csma_inv w"
proof -
  have live: "csma_live (csma_emit out w) = csma_live w" by (simp add: csma_live_def csma_emit_def)
  show ?thesis unfolding csma_inv_def live by (simp add: csma_emit_def)
qed

text \<open>The event that is run is the only live one, or is the end of a CAP.\<close>

lemma run_event:
  assumes "csma_inv w" and "Simulator_ProcessOneEvent (sim w) = Some (Some c, s)"
  shows "if c = DeferCsmaTimeout then csma_inv (w\<lparr>sim := s\<rparr>) else csma_quiet (w\<lparr>sim := s\<rparr>)"
proof -
  obtain k where k: "sim_ok s" "(k, c) \<in> pending (sim w)" "pending s = pending (sim w) - {(k, c)}"
    using simulator.run_law [OF _ assms(2)] assms(1) by (auto simp: csma_inv_def)
  show ?thesis
  proof (cases "c = DeferCsmaTimeout")
    case True
    then have "csma_live (w\<lparr>sim := s\<rparr>) = csma_live w" using k(3) by (auto simp: csma_live_def)
    with True assms(1) k(1) show ?thesis by (simp add: csma_inv_def)
  next
    case False
    then have mem: "(k, c) \<in> csma_live w" using k(2) by (simp add: csma_live_def)
    have "csma_live (w\<lparr>sim := s\<rparr>) = csma_live w - {(k, c)}" using k(3) by (auto simp: csma_live_def)
    moreover have "csma_live w \<subseteq> {(k, c)}" using mem assms(1) by (auto simp: csma_inv_def)
    ultimately have "csma_live (w\<lparr>sim := s\<rparr>) = {}" by blast
    moreover have "csma_live w \<noteq> {}" using mem by blast
    ultimately show ?thesis using False assms(1) k(1) by (simp add: csma_inv_def csma_quiet_def)
  qed
qed

lemma turn_inv:
  assumes "csma_inv w" and "0 < symbolRate mac" and "symbolRate mac dvd 10 ^ 9" and "draw < 7" and "csma_turn mac draw w = Some w'"
  shows "csma_inv w'"
proof -
  obtain r s where rs: "Simulator_ProcessOneEvent (sim w) = Some (r, s)"
    using assms(5) by (auto simp: csma_turn_def split: bind_splits)
  show ?thesis
  proof (cases r)
    case None
    from None have "sim_ok s \<and> pending s = pending (sim w)" using simulator.run_law [OF _ rs] assms(1) by (simp add: csma_inv_def)
    moreover from this have live: "csma_live (w\<lparr>sim := s\<rparr>) = csma_live w" by (simp add: csma_live_def)
    moreover have "w' = w\<lparr>sim := s\<rparr>" using None rs assms(5) by (simp add: csma_turn_def)
    ultimately show ?thesis using assms(1) unfolding csma_inv_def by simp
  next
    case (Some c)
    then have step: "csma_call_step mac draw c (w\<lparr>sim := s\<rparr>) = Some w'" using rs assms(5) by (simp add: csma_turn_def)
    note ev = run_event [OF assms(1) rs [unfolded Some]]
    show ?thesis
    proof (cases c)
      case RandomBackoffDelay
      with step ev RandomBackoffDelay_inv [OF _ assms(2,3,4)] show ?thesis by (simp add: csma_call_step_def)
    next
      case RequestCCA
      with step ev RequestCCA_inv [of "w\<lparr>sim := s\<rparr>"] show ?thesis by (simp add: csma_call_step_def)
    next
      case CanProceed
      with step ev CanProceed_inv [of "w\<lparr>sim := s\<rparr>" mac w'] show ?thesis by (simp add: csma_call_step_def)
    next
      case DeferCsmaTimeout
      have "w' = csma_emit (MacState MAC_CSMA_DEFERRED) (w\<lparr>sim := s\<rparr>)"
        using DeferCsmaTimeout step by (simp add: csma_call_step_def LrWpanCsmaCa_DeferCsmaTimeout_def split: if_splits)
      then show ?thesis using DeferCsmaTimeout ev by (simp add: csma_inv_emit)
    qed
  qed
qed

lemma csma_inv_notify: "csma_inv (csma_notify st w) = csma_inv w"
  by (simp add: csma_notify_def csma_inv_emit)

lemma quiet_upd_inv:
  assumes "csma_quiet v" and "csma_bounds (g (csma v))"
  shows "csma_inv (csma_upd g v)"
proof -
  have "csma_live (csma_upd g v) = {}" using assms(1) by (simp add: csma_quiet_def csma_live_def csma_upd_def)
  with assms show ?thesis unfolding csma_inv_def csma_quiet_def by (simp add: csma_upd_def)
qed

lemma csma_upd_upd [simp]: "csma_upd g (csma_upd h v) = csma_upd (g \<circ> h) v"
  by (simp add: csma_upd_def)

lemma PlmeCcaConfirm_inv:
  assumes "csma_quiet v" and "m_ccaRequestRunning (csma v)" and "LrWpanCsmaCa_PlmeCcaConfirm idle v = Some w'"
  shows "csma_inv w'"
proof -
  let ?r = "\<lambda>f. f\<lparr>m_ccaRequestRunning := False\<rparr>" and ?be = "\<lambda>f. f\<lparr>m_BE := ucast (min (ucast (m_BE f) + 1 :: u16) (ucast (m_macMaxBE f)))\<rparr>"
  have q: "csma_bounds (csma v)" "csma_ready (csma v)" using assms(1) by (simp_all add: csma_quiet_def)
  note C = assms(2,3) [unfolded LrWpanCsmaCa_PlmeCcaConfirm_def Let_def]
  consider (idle2) "idle" "m_isSlotted (csma v)" "m_CW (csma v) = 2" | (idle1) "idle" "\<not> (m_isSlotted (csma v) \<and> m_CW (csma v) = 2)" | (busy) "\<not> idle"
    by blast
  then show ?thesis
  proof cases
    case idle2
    define g :: "LrWpanCsmaCa \<Rightarrow> LrWpanCsmaCa" where "g = (\<lambda>f. f\<lparr>m_CW := m_CW f - 1\<rparr>) \<circ> ?r"
    have run: "csma_sched 0 RequestCCA (\<lambda>k f. f\<lparr>m_requestCcaEvent := k\<rparr>) (csma_upd g v) = Some w'"
      using C idle2 by (simp add: LrWpanCsmaCa_IsSlottedCsmaCa_def csma_upd_def g_def)
    show ?thesis using q idle2
      by (intro csma_quiet_sched [OF run assms(1)]) (simp_all add: g_def csma_bounds_def csma_ready_def csma_held_def)
  next
    case idle1
    define g :: "LrWpanCsmaCa \<Rightarrow> LrWpanCsmaCa" where "g = (if m_isSlotted (csma v) then (\<lambda>f. f\<lparr>m_CW := m_CW f - 1\<rparr>) else id) \<circ> ?r"
    have "w' = csma_notify CHANNEL_IDLE (csma_upd g v)"
      using C idle1 q(2) by (cases "m_isSlotted (csma v)") (simp_all add: LrWpanCsmaCa_IsSlottedCsmaCa_def csma_upd_def g_def csma_ready_def)
    moreover have "csma_bounds (g (csma v))" using q(1) by (simp add: g_def csma_bounds_def)
    ultimately show ?thesis using quiet_upd_inv [OF assms(1)] by (simp add: csma_inv_notify)
  next
    case busy
    define g :: "LrWpanCsmaCa \<Rightarrow> LrWpanCsmaCa" where "g = (\<lambda>f. f\<lparr>m_NB := m_NB f + 1\<rparr>) \<circ> ?be \<circ> (if m_isSlotted (csma v) then (\<lambda>f. f\<lparr>m_CW := 2\<rparr>) else id) \<circ> ?r"
    have g: "csma_bounds (g (csma v))" "m_macMaxCSMABackoffs (g (csma v)) = m_macMaxCSMABackoffs (csma v)"
      "m_isSlotted (g (csma v)) = m_isSlotted (csma v)" "m_isSlotted (csma v) \<Longrightarrow> m_CW (g (csma v)) = 2"
      using q(1) by (simp_all add: g_def csma_bounds_def)
    have "LrWpanCsmaCa_PlmeCcaConfirm idle v = (if m_NB (csma (csma_upd g v)) > m_macMaxCSMABackoffs (csma (csma_upd g v))
        then Some (csma_notify CHANNEL_ACCESS_FAILURE (csma_upd g v))
        else csma_sched 0 RandomBackoffDelay (\<lambda>k f. f\<lparr>m_randomBackoffEvent := k\<rparr>) (csma_upd g v))"
      using assms(2) busy by (cases "m_isSlotted (csma v)")
        (simp_all add: LrWpanCsmaCa_PlmeCcaConfirm_def Let_def LrWpanCsmaCa_IsSlottedCsmaCa_def csma_upd_def g_def)
    note run = trans [OF this [symmetric] assms(3)]
    show ?thesis
    proof (cases "m_macMaxCSMABackoffs (csma (csma_upd g v)) < m_NB (csma (csma_upd g v))")
      case True
      with run g(1) quiet_upd_inv [OF assms(1), of g] show ?thesis by (auto simp: csma_inv_notify)
    next
      case False
      with run have run': "csma_sched 0 RandomBackoffDelay (\<lambda>k f. f\<lparr>m_randomBackoffEvent := k\<rparr>) (csma_upd g v) = Some w'" by simp
      have "m_NB (g (csma v)) \<le> m_macMaxCSMABackoffs (csma v)" using False g(2) by (simp add: csma_upd_def not_less)
      then show ?thesis using q(2) g
        by (intro csma_quiet_sched [OF run' assms(1)]) (auto simp: csma_bounds_def csma_ready_def csma_held_def)
    qed
  qed
qed

lemma csma_step_inv: "csma_step w w' \<Longrightarrow> csma_inv w \<Longrightarrow> csma_inv w'"
proof (induction rule: csma_step.induct)
  case (start w mac w')
  show ?case by (rule Start_inv [OF start(4) start(1,2,3)])
next
  case (cancel w)
  then show ?case by (rule Cancel_inv)
next
  case (turn mac draw w w')
  show ?case by (rule turn_inv [OF turn(5) turn(1,2,3,4)])
next
  case (confirm w idle w')
  have live: "csma_live (w\<lparr>phyCca := False\<rparr>) = csma_live w" by (simp add: csma_live_def)
  have "csma_quiet (w\<lparr>phyCca := False\<rparr>)" using confirm unfolding csma_inv_def csma_quiet_def live by simp
  moreover have "m_ccaRequestRunning (csma (w\<lparr>phyCca := False\<rparr>))" using confirm by (simp add: csma_inv_def)
  ultimately show ?case using confirm(2) by (rule PlmeCcaConfirm_inv)
next
  case (other s w)
  have live: "csma_live (w\<lparr>sim := s\<rparr>) = csma_live w" using other(3) by (simp add: csma_live_def)
  from other show ?case unfolding csma_inv_def live by simp
qed

text \<open>A new object in a simulator that has no event of it.\<close>

definition csma_start :: "csma_world \<Rightarrow> bool" where
  "csma_start w \<longleftrightarrow> sim_ok (sim w) \<and> pending (sim w) = {} \<and> \<not> phyCca w \<and> csma_bounds (csma w)"

inductive csma_reach :: "csma_world \<Rightarrow> csma_world \<Rightarrow> bool" for w0 where
  init: "csma_reach w0 w0"
| step: "csma_reach w0 w \<Longrightarrow> csma_step w w' \<Longrightarrow> csma_reach w0 w'"

lemma csma_start_inv: "csma_start w \<Longrightarrow> csma_inv w"
  by (simp add: csma_start_def csma_inv_def csma_live_def)

lemma csma_reach_inv: "csma_reach w0 w \<Longrightarrow> csma_start w0 \<Longrightarrow> csma_inv w"
  by (induction rule: csma_reach.induct) (auto intro: csma_start_inv csma_step_inv)

lemma csma_new_bounds: "csma_bounds LrWpanCsmaCa_new"
  by (simp add: csma_bounds_def LrWpanCsmaCa_new_def)

subsection \<open>A whole contention without slots\<close>

text \<open>
  One round: the backoff runs out, the CCA is requested, the PHY answers. The list gives the
  draw and the answer of each round; nothing happens after the contention is decided.
\<close>

fun csma_rounds :: "csma_mac \<Rightarrow> (u64 \<times> bool) list \<Rightarrow> csma_world \<Rightarrow> csma_world option" where
  "csma_rounds mac [] w = Some w"
| "csma_rounds mac ((draw, idle) # rs) w = (
     if m_events (sim w) = [] then Some w
     else do {
       w1 \<leftarrow> csma_turn mac draw w;
       w2 \<leftarrow> csma_turn mac draw w1;
       w3 \<leftarrow> LrWpanCsmaCa_PlmeCcaConfirm idle w2;
       csma_rounds mac rs w3 })"

text \<open>The rounds up to the first idle answer, and at most as many as allowed.\<close>

fun rounds_used :: "nat \<Rightarrow> (u64 \<times> bool) list \<Rightarrow> (u64 \<times> bool) list" where
  "rounds_used n [] = []"
| "rounds_used n ((d, idle) # rs) = (d, idle) # (if idle \<or> n = 0 then [] else rounds_used (n - 1) rs)"

text \<open>The object waits for the end of a backoff, which is the only event.\<close>

definition backing_off :: "csma_world \<Rightarrow> bool" where
  "backing_off w \<longleftrightarrow> sim_ok (sim w) \<and> (\<exists>u. m_events (sim w) =
      [\<lparr>ev_key = (m_currentTs (sim w), u), ev_call = RandomBackoffDelay, ev_cancel = False\<rparr>]) \<and>
     \<not> m_isSlotted (csma w) \<and> m_lrWpanMacStateCallback (csma w) \<and> csma_bounds (csma w) \<and> csma_ready (csma w)"

lemma one_event:
  "m_events s = [e] \<Longrightarrow> m_currentTs s \<le> fst (ev_key e) \<Longrightarrow> \<not> ev_cancel e \<Longrightarrow> Simulator_ProcessOneEvent s =
     Some (Some (ev_call e), s\<lparr>m_events := [], m_currentTs := fst (ev_key e), m_currentUid := snd (ev_key e)\<rparr>)"
  by (simp add: Simulator_ProcessOneEvent_def)

lemma schedule_alone:
  "0 \<le> d \<Longrightarrow> m_events s = [] \<Longrightarrow> Simulator_Schedule d c s = Some ((nat d + m_currentTs s, m_uid s),
     s\<lparr>m_uid := m_uid s + 1, m_events := [\<lparr>ev_key = (nat d + m_currentTs s, m_uid s), ev_call = c, ev_cancel = False\<rparr>]\<rparr>)"
  by (simp add: Simulator_Schedule_def Simulator_Now_def nat_add_distrib Let_def)

lemma backoff_turn:
  assumes "backing_off w" and "0 < symbolRate mac" and "symbolRate mac dvd 10 ^ 9" and "draw < 7"
  defines "wait \<equiv> nat (uint draw * (uint (m_aUnitBackoffPeriod (csma w)) * int (10 ^ 9 div symbolRate mac)))"
  shows "\<exists>k s. csma_turn mac draw w = Some (w\<lparr>sim := s, csma := csma w\<lparr>m_randomBackoffPeriodsLeft := draw, m_requestCcaEvent := Some k\<rparr>\<rparr>) \<and>
    m_events s = [\<lparr>ev_key = k, ev_call = RequestCCA, ev_cancel = False\<rparr>] \<and>
    m_currentTs s = m_currentTs (sim w) \<and> fst k = m_currentTs (sim w) + wait \<and> snd k < m_uid s"
proof -
  from assms(1) obtain u where ev: "m_events (sim w) = [\<lparr>ev_key = (m_currentTs (sim w), u), ev_call = RandomBackoffDelay, ev_cancel = False\<rparr>]"
    and un: "\<not> m_isSlotted (csma w)" and b: "csma_bounds (csma w)"
    by (auto simp: backing_off_def)
  define D where "D = uint draw * (uint (m_aUnitBackoffPeriod (csma w)) * int (10 ^ 9 div symbolRate mac))"
  have t: "Seconds (uint (draw * m_aUnitBackoffPeriod (csma w))) (symbolRate mac) = D"
    unfolding D_def using b by (intro backoff_time [OF assms(2,3,4)]) (simp add: csma_bounds_def)
  have pos: "0 \<le> D" unfolding D_def by (intro mult_nonneg_nonneg) simp_all
  have wait: "wait = nat D" by (simp only: wait_def D_def)
  define k where "k = (m_currentTs (sim w) + wait, m_uid (sim w))"
  define s where "s = (sim w)\<lparr>m_events := [\<lparr>ev_key = k, ev_call = RequestCCA, ev_cancel = False\<rparr>], m_currentUid := u, m_uid := m_uid (sim w) + 1\<rparr>"
  have "csma_turn mac draw w = Some (w\<lparr>sim := s, csma := csma w\<lparr>m_randomBackoffPeriodsLeft := draw, m_requestCcaEvent := Some k\<rparr>\<rparr>)"
    unfolding csma_turn_def one_event [OF ev, simplified]
    by (simp add: csma_call_step_def LrWpanCsmaCa_RandomBackoffDelay_def LrWpanCsmaCa_IsUnSlottedCsmaCa_def
        LrWpanCsmaCa_GetUnitBackoffPeriod_def csma_upd_def un t csma_sched_def schedule_alone [OF pos] Let_def
        s_def k_def wait add.commute)
  then show ?thesis by (intro exI [of _ k] exI [of _ s]) (simp add: s_def k_def)
qed

lemma request_turn:
  assumes "m_events (sim v) = [\<lparr>ev_key = k, ev_call = RequestCCA, ev_cancel = False\<rparr>]" and "m_currentTs (sim v) \<le> fst k"
  shows "\<exists>s. csma_turn mac draw v = Some (v\<lparr>sim := s, csma := csma v\<lparr>m_ccaRequestRunning := True\<rparr>, phyCca := True, outs := outs v @ [PlmeCcaRequest]\<rparr>) \<and>
    m_events s = [] \<and> m_currentTs s = fst k \<and> m_currentUid s = snd k \<and> m_uid s = m_uid (sim v)"
  unfolding csma_turn_def one_event [OF assms(1), simplified, OF assms(2)]
  by (intro exI [of _ "(sim v)\<lparr>m_events := [], m_currentTs := fst k, m_currentUid := snd k\<rparr>"])
    (simp add: csma_call_step_def LrWpanCsmaCa_RequestCCA_def class_defs)

text \<open>What a round does to the object and its world.\<close>

definition round_time :: "csma_mac \<Rightarrow> LrWpanCsmaCa \<Rightarrow> u64 \<Rightarrow> nat" where
  "round_time mac f draw = nat (uint draw * (uint (m_aUnitBackoffPeriod f) * int (10 ^ 9 div symbolRate mac)))"

lemma confirm_alone:
  assumes "m_ccaRequestRunning f" and "\<not> m_isSlotted f" and "m_lrWpanMacStateCallback f" and "csma_ready f" and "m_events s = []"
    and "csma_bounds f" and "f = csma v" and "s = sim v" and "sim_ok s"
  shows "\<exists>w3. LrWpanCsmaCa_PlmeCcaConfirm idle v = Some w3 \<and> m_currentTs (sim w3) = m_currentTs s \<and>
    (if idle then outs w3 = outs v @ [MacState CHANNEL_IDLE] \<and> m_events (sim w3) = []
     else if m_NB f = m_macMaxCSMABackoffs f then outs w3 = outs v @ [MacState CHANNEL_ACCESS_FAILURE] \<and> m_events (sim w3) = []
     else outs w3 = outs v \<and> backing_off w3 \<and> m_aUnitBackoffPeriod (csma w3) = m_aUnitBackoffPeriod f \<and>
       unat (m_macMaxCSMABackoffs (csma w3)) - unat (m_NB (csma w3)) = unat (m_macMaxCSMABackoffs f) - unat (m_NB f) - 1)"
proof (cases idle)
  case True
  then show ?thesis using assms
    by (simp add: LrWpanCsmaCa_PlmeCcaConfirm_def class_defs Let_def csma_notify_def)
next
  case False
  have nb: "unat (m_NB f + 1) = unat (m_NB f) + 1" "unat (m_NB f) \<le> unat (m_macMaxCSMABackoffs f)"
    using assms(4) NB_step [of "m_macMaxCSMABackoffs f" "m_NB f"] by (simp_all add: csma_ready_def word_le_nat_alt)
  show ?thesis
  proof (cases "m_NB f = m_macMaxCSMABackoffs f")
    case last: True
    then have "m_macMaxCSMABackoffs f < m_NB f + 1" using nb by (simp add: word_less_nat_alt)
    then show ?thesis using last False assms(1,2,3,5,7,8)
      by (simp add: LrWpanCsmaCa_PlmeCcaConfirm_def class_defs Let_def csma_notify_def)
  next
    case more: False
    then have "unat (m_NB f) < unat (m_macMaxCSMABackoffs f)" using nb(2) by (metis order_le_less word_unat_eq_iff)
    then have le: "\<not> m_macMaxCSMABackoffs f < m_NB f + 1" and le': "m_NB f + 1 \<le> m_macMaxCSMABackoffs f"
      using nb(1) by (simp_all add: word_less_nat_alt word_le_nat_alt)
    define g where "g = f\<lparr>m_ccaRequestRunning := False, m_BE := ucast (min (ucast (m_BE f) + 1 :: u16) (ucast (m_macMaxBE f))), m_NB := m_NB f + 1\<rparr>"
    define s' where "s' = s\<lparr>m_uid := m_uid s + 1, m_events := [\<lparr>ev_key = (m_currentTs s, m_uid s), ev_call = RandomBackoffDelay, ev_cancel = False\<rparr>]\<rparr>"
    let ?w3 = "v\<lparr>csma := g\<lparr>m_randomBackoffEvent := Some (m_currentTs s, m_uid s)\<rparr>, sim := s'\<rparr>"
    have run: "LrWpanCsmaCa_PlmeCcaConfirm idle v = Some ?w3"
      using False assms(1,2,5,7,8) le schedule_alone [of 0 s RandomBackoffDelay]
      by (simp add: LrWpanCsmaCa_PlmeCcaConfirm_def class_defs Let_def csma_sched_def g_def s'_def)
    have "sim_ok s'" using assms(5,9) by (simp add: sim_ok_def s'_def less_prod_def)
    then have "backing_off ?w3"
      using assms(2,3,4,6) le' by (simp add: backing_off_def s'_def g_def csma_bounds_def csma_ready_def)
    with run False more nb(1) show ?thesis by (intro exI [of _ ?w3]) (simp add: s'_def g_def)
  qed
qed

text \<open>The three steps of a round together.\<close>

lemma round_spec:
  assumes "backing_off w" and "0 < symbolRate mac" and "symbolRate mac dvd 10 ^ 9" and "draw < 7"
  shows "\<exists>w3. csma_rounds mac ((draw, idle) # rs) w = csma_rounds mac rs w3 \<and>
    m_currentTs (sim w3) = m_currentTs (sim w) + round_time mac (csma w) draw \<and>
    (if idle then outs w3 = outs w @ [PlmeCcaRequest, MacState CHANNEL_IDLE] \<and> m_events (sim w3) = []
     else if m_NB (csma w) = m_macMaxCSMABackoffs (csma w)
     then outs w3 = outs w @ [PlmeCcaRequest, MacState CHANNEL_ACCESS_FAILURE] \<and> m_events (sim w3) = []
     else outs w3 = outs w @ [PlmeCcaRequest] \<and> backing_off w3 \<and> m_aUnitBackoffPeriod (csma w3) = m_aUnitBackoffPeriod (csma w) \<and>
       unat (m_macMaxCSMABackoffs (csma w3)) - unat (m_NB (csma w3)) = unat (m_macMaxCSMABackoffs (csma w)) - unat (m_NB (csma w)) - 1)"
proof -
  obtain k s where k: "csma_turn mac draw w = Some (w\<lparr>sim := s, csma := csma w\<lparr>m_randomBackoffPeriodsLeft := draw, m_requestCcaEvent := Some k\<rparr>\<rparr>)"
    "m_events s = [\<lparr>ev_key = k, ev_call = RequestCCA, ev_cancel = False\<rparr>]" "m_currentTs s = m_currentTs (sim w)"
    "fst k = m_currentTs (sim w) + round_time mac (csma w) draw" "snd k < m_uid s"
    using backoff_turn [OF assms] unfolding round_time_def by blast
  let ?w1 = "w\<lparr>sim := s, csma := csma w\<lparr>m_randomBackoffPeriodsLeft := draw, m_requestCcaEvent := Some k\<rparr>\<rparr>"
  obtain s2 where s2: "csma_turn mac draw ?w1 = Some (?w1\<lparr>sim := s2, csma := csma ?w1\<lparr>m_ccaRequestRunning := True\<rparr>, phyCca := True, outs := outs ?w1 @ [PlmeCcaRequest]\<rparr>)"
    "m_events s2 = []" "m_currentTs s2 = fst k" "m_currentUid s2 = snd k" "m_uid s2 = m_uid s"
    using request_turn [of ?w1 k mac draw] k by auto
  define v where "v = ?w1\<lparr>sim := s2, csma := csma ?w1\<lparr>m_ccaRequestRunning := True\<rparr>, phyCca := True, outs := outs ?w1 @ [PlmeCcaRequest]\<rparr>"
  have b: "\<not> m_isSlotted (csma w)" "m_lrWpanMacStateCallback (csma w)" "csma_bounds (csma w)" "csma_ready (csma w)" "m_events (sim w) \<noteq> []"
    using assms(1) by (auto simp: backing_off_def)
  have fv: "m_ccaRequestRunning (csma v)" "\<not> m_isSlotted (csma v)" "m_lrWpanMacStateCallback (csma v)" "csma_ready (csma v)"
    "csma_bounds (csma v)" "m_NB (csma v) = m_NB (csma w)" "m_macMaxCSMABackoffs (csma v) = m_macMaxCSMABackoffs (csma w)"
    "m_aUnitBackoffPeriod (csma v) = m_aUnitBackoffPeriod (csma w)" "sim v = s2" "outs v = outs w @ [PlmeCcaRequest]"
    using b assms(4) by (simp_all add: v_def csma_ready_def csma_bounds_def)
  have "sim_ok s2" using s2 k(5) by (simp add: sim_ok_def)
  then obtain w3 where w3: "LrWpanCsmaCa_PlmeCcaConfirm idle v = Some w3" "m_currentTs (sim w3) = m_currentTs s2"
    "if idle then outs w3 = outs v @ [MacState CHANNEL_IDLE] \<and> m_events (sim w3) = []
     else if m_NB (csma v) = m_macMaxCSMABackoffs (csma v) then outs w3 = outs v @ [MacState CHANNEL_ACCESS_FAILURE] \<and> m_events (sim w3) = []
     else outs w3 = outs v \<and> backing_off w3 \<and> m_aUnitBackoffPeriod (csma w3) = m_aUnitBackoffPeriod (csma v) \<and>
       unat (m_macMaxCSMABackoffs (csma w3)) - unat (m_NB (csma w3)) = unat (m_macMaxCSMABackoffs (csma v)) - unat (m_NB (csma v)) - 1"
    using confirm_alone [OF fv(1-4) s2(2) fv(5) refl fv(9) [symmetric], of idle] by blast
  have "csma_rounds mac ((draw, idle) # rs) w = csma_rounds mac rs w3"
    using b(5) w3(1) by (simp add: k(1) s2(1) v_def)
  then show ?thesis using w3(2,3) s2(3) k(4) fv by (intro exI [of _ w3]) simp
qed

lemma csma_rounds_done: "m_events (sim w) = [] \<Longrightarrow> csma_rounds mac rs w = Some w"
  by (cases rs) auto

lemma rounds_decide:
  assumes "0 < symbolRate mac" and "symbolRate mac dvd 10 ^ 9"
  shows "backing_off w \<Longrightarrow> \<forall>(d, i) \<in> set rs. d < 7 \<Longrightarrow> n = unat (m_macMaxCSMABackoffs (csma w)) - unat (m_NB (csma w)) \<Longrightarrow>
    \<exists>w'. csma_rounds mac rs w = Some w' \<and>
      m_currentTs (sim w') = m_currentTs (sim w) + sum_list (map (\<lambda>r. round_time mac (csma w) (fst r)) (rounds_used n rs)) \<and>
      outs w' = outs w @ replicate (length (rounds_used n rs)) PlmeCcaRequest @
        (if True \<in> snd ` set (rounds_used n rs) then [MacState CHANNEL_IDLE]
         else if n < length rs then [MacState CHANNEL_ACCESS_FAILURE] else [])"
proof (induction rs arbitrary: w n)
  case Nil
  then show ?case by simp
next
  case (Cons r rs)
  obtain d idle where r: "r = (d, idle)" by (cases r)
  have d: "d < 7" using Cons.prems(2) r by simp
  from round_spec [OF Cons.prems(1) assms d, of idle rs] obtain w3 where w3:
    "csma_rounds mac ((d, idle) # rs) w = csma_rounds mac rs w3"
    "m_currentTs (sim w3) = m_currentTs (sim w) + round_time mac (csma w) d"
    "if idle then outs w3 = outs w @ [PlmeCcaRequest, MacState CHANNEL_IDLE] \<and> m_events (sim w3) = []
     else if m_NB (csma w) = m_macMaxCSMABackoffs (csma w)
     then outs w3 = outs w @ [PlmeCcaRequest, MacState CHANNEL_ACCESS_FAILURE] \<and> m_events (sim w3) = []
     else outs w3 = outs w @ [PlmeCcaRequest] \<and> backing_off w3 \<and> m_aUnitBackoffPeriod (csma w3) = m_aUnitBackoffPeriod (csma w) \<and>
       unat (m_macMaxCSMABackoffs (csma w3)) - unat (m_NB (csma w3)) = unat (m_macMaxCSMABackoffs (csma w)) - unat (m_NB (csma w)) - 1"
    by blast
  have n0: "m_NB (csma w) = m_macMaxCSMABackoffs (csma w) \<longleftrightarrow> n = 0"
    using Cons.prems(1,3) by (auto simp: backing_off_def csma_ready_def word_le_nat_alt word_unat_eq_iff)
  consider (idle) idle | (last) "\<not> idle" "n = 0" | (more) "\<not> idle" "n \<noteq> 0" by blast
  then show ?case
  proof cases
    case idle
    then show ?thesis using w3 csma_rounds_done [of w3 mac rs] by (simp add: r)
  next
    case last
    then show ?thesis using w3 n0 csma_rounds_done [of w3 mac rs] by (simp add: r)
  next
    case more
    then have m: "outs w3 = outs w @ [PlmeCcaRequest]" "backing_off w3" "m_aUnitBackoffPeriod (csma w3) = m_aUnitBackoffPeriod (csma w)"
      "n - 1 = unat (m_macMaxCSMABackoffs (csma w3)) - unat (m_NB (csma w3))"
      using w3(3) n0 Cons.prems(3) by simp_all
    have time: "round_time mac (csma w3) = round_time mac (csma w)" by (simp add: round_time_def fun_eq_iff m(3))
    have ds: "\<forall>(d, i) \<in> set rs. d < 7" using Cons.prems(2) by simp
    from Cons.IH [OF m(2) ds m(4)] obtain w' where w': "csma_rounds mac rs w3 = Some w'"
      "m_currentTs (sim w') = m_currentTs (sim w3) + sum_list (map (\<lambda>r. round_time mac (csma w) (fst r)) (rounds_used (n - 1) rs))"
      "outs w' = outs w3 @ replicate (length (rounds_used (n - 1) rs)) PlmeCcaRequest @
        (if True \<in> snd ` set (rounds_used (n - 1) rs) then [MacState CHANNEL_IDLE]
         else if n - 1 < length rs then [MacState CHANNEL_ACCESS_FAILURE] else [])"
      unfolding time by blast
    have "n - 1 < length rs \<longleftrightarrow> n < Suc (length rs)" using more(2) by auto
    with more w' w3(1,2) m(1) show ?thesis by (simp add: r)
  qed
qed

lemma rounds_used_bound: "length (rounds_used n rs) \<le> n + 1"
  by (induction n rs rule: rounds_used.induct) auto

end
