(* ===== verification/Group_Ack_Hash.thy ===== *)
theory Group_Ack_Hash
  imports Group_Ack_Elements
begin

section \<open>Group acknowledgements: keys, collection and verdict\<close>

text \<open>
  The part of \<open>LrWpanMac\<close> that acknowledges all the frames of a multi-superframe at once. With
  the enhanced policy the coordinator hashes the source and the sequence number of every frame
  it gets into a table of 64 bits and broadcasts the table; a device hashes its own frames again
  and looks for their bits. Collisions are probed quadratically. With the legacy policy the
  bits are the slots in which something was received. \<open>Hash64\<close>, the general hash function of
  the simulator's core, is an argument: everything here holds for every hash function. A shift
  by the width of the operand or more is \<open>None\<close>.
\<close>

subsection \<open>State\<close>

text \<open>The members of \<open>LrWpanMac\<close> that concern group acknowledgements.\<close>

record LrWpanGroupAck =
  m_enhancedGACKBitmap :: u64
  m_groupAckPktBuffer :: "u32 list"
  m_legacyGackBitmap :: u16
  m_legacyGackDevList :: u8
  m_legacyGackIdx :: u16
  m_legacyGackDirections :: u8
  m_legacyGackIndexCounter :: u32
  m_legacyGackGTSIdxBuffer :: "u32 list"

subsection \<open>Keys\<close>

text \<open>\<open>sprintf (addrBuf, "%d", v)\<close> into a buffer of twenty octets that were zero.\<close>

fun decimal :: "nat \<Rightarrow> u8 list" where
  "decimal n = (if n < 10 then [0x30 + of_nat n] else decimal (n div 10) @ [0x30 + of_nat (n mod 10)])"

definition sprintf_d :: "u32 \<Rightarrow> u8 list" where
  "sprintf_d v = (if sint v < 0 then 0x2d # decimal (nat (- sint v)) else decimal (nat (sint v)))"

definition addr_buf :: "u32 \<Rightarrow> u8 list" where
  "addr_buf v = take 20 (sprintf_d v @ replicate 20 0)"

text \<open>The number that is hashed: the short address as an integer plus the sequence number.\<close>

fun frame_number :: "mac16 \<Rightarrow> u32 \<Rightarrow> u32" where
  "frame_number (Mac16Address a0 a1) packetSeq = (push_bit 8 (ucast a0) OR ucast a1) + packetSeq"

definition LrWpanMac_IsHashTableKeyCollision :: "u64 \<Rightarrow> u32 \<Rightarrow> bool option" where
  "LrWpanMac_IsHashTableKeyCollision bitmap key = (
     if key < 64 then Some (bitmap AND push_bit (unat key) 1 \<noteq> 0) else None)"

partial_function (option) LrWpanMac_DoQuadraticProb :: "u64 \<Rightarrow> u32 \<Rightarrow> u32 \<Rightarrow> u32 option" where
  "LrWpanMac_DoQuadraticProb bitmap key count = (
     case LrWpanMac_IsHashTableKeyCollision bitmap key of
       None \<Rightarrow> None
     | Some taken \<Rightarrow>
         if \<not> taken then Some key
         else (let newKey = key + (count * count) in LrWpanMac_DoQuadraticProb bitmap newKey (count + 1)))"

definition LrWpanMac_CheckCollision :: "u64 \<Rightarrow> u32 \<Rightarrow> u32 option" where
  "LrWpanMac_CheckCollision bitmap key = do {
     taken \<leftarrow> LrWpanMac_IsHashTableKeyCollision bitmap key;
     if taken then LrWpanMac_DoQuadraticProb bitmap key 1 else Some key }"

definition LrWpanMac_GenerateHashTableKey :: "(u8 list \<Rightarrow> u64) \<Rightarrow> u64 \<Rightarrow> mac16 \<Rightarrow> u32 \<Rightarrow> u64 option" where
  "LrWpanMac_GenerateHashTableKey Hash64 bitmap devAddr packetSeq = do {
     let hashedValue = Hash64 (addr_buf (frame_number devAddr packetSeq));
     let hashTableKey = hashedValue mod 61;
     key \<leftarrow> LrWpanMac_CheckCollision bitmap (ucast hashTableKey);
     Some (ucast key) }"

subsection \<open>Enhanced group acknowledgement\<close>

text \<open>\<open>m_enhancedGACKBitmap |= ((uint64_t)1 << bitLocation)\<close>, for a frame received and for one sent.\<close>

definition LrWpanMac_MarkGroupAck :: "(u8 list \<Rightarrow> u64) \<Rightarrow> mac16 \<Rightarrow> u32 \<Rightarrow> LrWpanGroupAck \<Rightarrow> (u64 \<times> LrWpanGroupAck) option" where
  "LrWpanMac_MarkGroupAck Hash64 addr packetSeq m = do {
     bitLocation \<leftarrow> LrWpanMac_GenerateHashTableKey Hash64 (m_enhancedGACKBitmap m) addr packetSeq;
     Some (bitLocation, m\<lparr>m_enhancedGACKBitmap := m_enhancedGACKBitmap m OR push_bit (unat bitLocation) 1\<rparr>) }"

definition LrWpanMac_ResetEnhancedGroupAckBitmap :: "LrWpanGroupAck \<Rightarrow> LrWpanGroupAck" where
  [class_defs]: "LrWpanMac_ResetEnhancedGroupAckBitmap m = m\<lparr>m_enhancedGACKBitmap := 0\<rparr>"

definition LrWpanMac_ResetEnhancedGroupAckBuffer :: "LrWpanGroupAck \<Rightarrow> LrWpanGroupAck" where
  [class_defs]: "LrWpanMac_ResetEnhancedGroupAckBuffer m = m\<lparr>m_groupAckPktBuffer := []\<rparr>"

text \<open>
  The loop of a device over the frames it sent: the verdicts in their order, with the bits of
  the received bitmap that it has used taken away.
\<close>

fun LrWpanMac_VerifyGroupAck ::
  "(u8 list \<Rightarrow> u64) \<Rightarrow> mac16 \<Rightarrow> u32 list \<Rightarrow> u64 \<Rightarrow> LrWpanGroupAck \<Rightarrow> (bool list \<times> u64 \<times> LrWpanGroupAck) option" where
  "LrWpanMac_VerifyGroupAck Hash64 shortAddress [] received m = Some ([], received, m)"
| "LrWpanMac_VerifyGroupAck Hash64 shortAddress (packetSeq # rest) received m = do {
     (bitLocation, m) \<leftarrow> LrWpanMac_MarkGroupAck Hash64 shortAddress packetSeq m;
     let acked = received AND push_bit (unat bitLocation) 1 \<noteq> 0;
     let received = (if acked then received AND NOT (push_bit (unat bitLocation) 1) else received);
     (verdicts, received, m) \<leftarrow> LrWpanMac_VerifyGroupAck Hash64 shortAddress rest received m;
     Some (acked # verdicts, received, m) }"

text \<open>Handling of a received bitmap: nothing at all when it is zero.\<close>

definition LrWpanMac_ReceiveGroupAck ::
  "(u8 list \<Rightarrow> u64) \<Rightarrow> mac16 \<Rightarrow> u64 \<Rightarrow> LrWpanGroupAck \<Rightarrow> (bool list \<times> LrWpanGroupAck) option" where
  "LrWpanMac_ReceiveGroupAck Hash64 shortAddress bitmap m = (
     if bitmap = 0 then Some ([], m)
     else do {
       (verdicts, received, m) \<leftarrow> LrWpanMac_VerifyGroupAck Hash64 shortAddress (m_groupAckPktBuffer m) bitmap m;
       let m = LrWpanMac_ResetEnhancedGroupAckBitmap m;
       Some (verdicts, LrWpanMac_ResetEnhancedGroupAckBuffer m) })"

subsection \<open>Legacy group acknowledgement\<close>

text \<open>A frame received in the slot \<open>m_curGTSIdx\<close>; the shifted operands are integers of 32 bits.\<close>

definition shl32 :: "cint \<Rightarrow> nat \<Rightarrow> cint option" where
  "shl32 v n = (if n < 32 then Some (push_bit n v) else None)"

fun LrWpanMac_MarkLegacyGroupAck :: "mac16 \<Rightarrow> cint \<Rightarrow> LrWpanGroupAck \<Rightarrow> LrWpanGroupAck option" where
  "LrWpanMac_MarkLegacyGroupAck (Mac16Address a0 a1) curGTSIdx m = do {
     slot \<leftarrow> shl32 1 (unat curGTSIdx);
     let m = m\<lparr>m_legacyGackBitmap := m_legacyGackBitmap m OR ucast slot\<rparr>;
     dev \<leftarrow> shl32 1 (unat (push_bit 8 (ucast a0) OR ucast a1 :: cint));
     let m = m\<lparr>m_legacyGackDevList := m_legacyGackDevList m OR ucast dev\<rparr>;
     idx \<leftarrow> shl32 (curGTSIdx AND 0x0F) (unat (m_legacyGackIndexCounter m * 4));
     let m = m\<lparr>m_legacyGackIdx := m_legacyGackIdx m OR ucast idx\<rparr>;
     let m = m\<lparr>m_legacyGackIndexCounter := m_legacyGackIndexCounter m + 1\<rparr>;
     Some (m\<lparr>m_legacyGackDirections := 0\<rparr>) }"

definition LrWpanMac_ResetLegacyGroupAckBitmap :: "LrWpanGroupAck \<Rightarrow> LrWpanGroupAck" where
  [class_defs]: "LrWpanMac_ResetLegacyGroupAckBitmap m = m\<lparr>m_legacyGackBitmap := 0\<rparr>"

definition LrWpanMac_ResetLegacyGroupAckBuffer :: "LrWpanGroupAck \<Rightarrow> LrWpanGroupAck" where
  [class_defs]: "LrWpanMac_ResetLegacyGroupAckBuffer m = m\<lparr>m_legacyGackGTSIdxBuffer := []\<rparr>"

fun legacy_verdicts :: "u16 \<Rightarrow> u32 list \<Rightarrow> bool list option" where
  "legacy_verdicts bitmap [] = Some []"
| "legacy_verdicts bitmap (i # rest) = do {
     slot \<leftarrow> shl32 1 (unat i);
     vs \<leftarrow> legacy_verdicts bitmap rest;
     Some ((ucast bitmap AND slot \<noteq> 0) # vs) }"

definition LrWpanMac_ReceiveLegacyGroupAck :: "u16 \<Rightarrow> LrWpanGroupAck \<Rightarrow> (bool list \<times> LrWpanGroupAck) option" where
  "LrWpanMac_ReceiveLegacyGroupAck bitmap m = (
     if bitmap = 0 then Some ([], m)
     else do {
       verdicts \<leftarrow> legacy_verdicts bitmap (m_legacyGackGTSIdxBuffer m);
       Some (verdicts, LrWpanMac_ResetLegacyGroupAckBuffer m) })"

subsection \<open>The probes\<close>

text \<open>
  What the recursion amounts to: the positions \<open>key\<close>, \<open>key + 1\<close>, \<open>key + 5\<close>, ... (sums of squares)
  that are in the table, of which the first free one is taken; when all of them are taken the
  next one is outside the table.
\<close>

definition probes :: "nat \<Rightarrow> nat list" where
  "probes k = filter (\<lambda>p. p < 64) (map ((+) k) [0, 1, 5, 14, 30, 55])"

lemma and_bit: "(b :: 'a::len word) AND 2 ^ n = 0 \<longleftrightarrow> \<not> bit b n"
  by (simp add: bit_iff_and_push_bit_not_eq_0)

lemma collision_bit:
  "k < 64 \<Longrightarrow> LrWpanMac_IsHashTableKeyCollision b (of_nat k) = Some (bit b k)"
  "64 \<le> k \<Longrightarrow> k < 2 ^ 32 \<Longrightarrow> LrWpanMac_IsHashTableKeyCollision b (of_nat k) = None"
  by (simp_all add: LrWpanMac_IsHashTableKeyCollision_def and_bit word_less_nat_alt unat_of_nat)

lemma DoQuadraticProb_step:
  "k < 64 \<Longrightarrow> LrWpanMac_DoQuadraticProb b (of_nat k) c =
     (if bit b k then LrWpanMac_DoQuadraticProb b (of_nat k + c * c) (c + 1) else Some (of_nat k))"
  "64 \<le> k \<Longrightarrow> k < 2 ^ 32 \<Longrightarrow> LrWpanMac_DoQuadraticProb b (of_nat k) c = None"
  by (subst LrWpanMac_DoQuadraticProb.simps, simp add: collision_bit)+

lemma DoQuadraticProb_probes:
  assumes "k < 64"
  shows "LrWpanMac_DoQuadraticProb b (of_nat k) 1 = map_option of_nat (find (\<lambda>p. \<not> bit b p) (probes k))"
proof -
  define P where "P m c = LrWpanMac_DoQuadraticProb b (of_nat m) (of_nat c)" for m c :: nat
  have step: "P m c = (if 64 \<le> m then None else if bit b m then P (m + c * c) (c + 1) else Some (of_nat m))"
    if "m < 2 ^ 32" for m c
    using that DoQuadraticProb_step [of m b "of_nat c"] by (auto simp: P_def ac_simps)
  have offs: "k + 1 + 2 * 2 = k + 5" "k + 5 + 3 * 3 = k + 14" "k + 14 + 4 * 4 = k + 30" "k + 30 + 5 * 5 = k + 55"
    "k + 55 + 6 * 6 = k + 91" "(2 :: nat) + 1 = 3" "(3 :: nat) + 1 = 4" "(4 :: nat) + 1 = 5" "(5 :: nat) + 1 = 6" "(6 :: nat) + 1 = 7"
    by simp_all
  have "P k 1 = (if bit b k then P (k + 1) 2 else Some (of_nat k))"
    using step [of k 1] assms by (simp add: numeral_2_eq_2 [symmetric])
  moreover have "P (k + 1) 2 = (if 64 \<le> k + 1 then None else if bit b (k + 1) then P (k + 5) 3 else Some (of_nat (k + 1)))"
    using step [of "k + 1" 2] assms unfolding offs by simp
  moreover have "P (k + 5) 3 = (if 64 \<le> k + 5 then None else if bit b (k + 5) then P (k + 14) 4 else Some (of_nat (k + 5)))"
    using step [of "k + 5" 3] assms unfolding offs by simp
  moreover have "P (k + 14) 4 = (if 64 \<le> k + 14 then None else if bit b (k + 14) then P (k + 30) 5 else Some (of_nat (k + 14)))"
    using step [of "k + 14" 4] assms unfolding offs by simp
  moreover have "P (k + 30) 5 = (if 64 \<le> k + 30 then None else if bit b (k + 30) then P (k + 55) 6 else Some (of_nat (k + 30)))"
    using step [of "k + 30" 5] assms unfolding offs by simp
  moreover have "P (k + 55) 6 = (if 64 \<le> k + 55 then None else if bit b (k + 55) then None else Some (of_nat (k + 55)))"
    using step [of "k + 55" 6] step [of "k + 91" 7] assms unfolding offs by simp
  ultimately have "P k 1 = map_option of_nat (find (\<lambda>p. \<not> bit b p) (probes k))"
    using assms by (simp add: probes_def)
  then show ?thesis by (simp add: P_def)
qed

lemma CheckCollision_probes:
  assumes "k < 64"
  shows "LrWpanMac_CheckCollision b (of_nat k) = map_option of_nat (find (\<lambda>p. \<not> bit b p) (probes k))"
proof -
  obtain ps where ps: "probes k = k # ps" using assms by (simp add: probes_def)
  then show ?thesis
    using DoQuadraticProb_probes [OF assms, of b] collision_bit(1) [OF assms, of b]
    by (cases "bit b k") (simp_all add: LrWpanMac_CheckCollision_def)
qed

text \<open>The position a frame hashes to before collisions, and the one it gets.\<close>

definition home :: "(u8 list \<Rightarrow> u64) \<Rightarrow> mac16 \<Rightarrow> u32 \<Rightarrow> nat" where
  "home Hash64 addr packetSeq = unat (Hash64 (addr_buf (frame_number addr packetSeq))) mod 61"

lemma home_less: "home H a s < 61"
  by (simp add: home_def)

lemma probes_less: "p \<in> set (probes k) \<Longrightarrow> p < 64"
  unfolding probes_def by (simp only: set_filter mem_Collect_eq)

lemma GenerateHashTableKey_probes:
  "LrWpanMac_GenerateHashTableKey H b a s = map_option of_nat (find (\<lambda>p. \<not> bit b p) (probes (home H a s)))"
proof -
  have k: "ucast (H (addr_buf (frame_number a s)) mod 61) = (of_nat (home H a s) :: u32)"
    using less_trans [OF home_less [of H a s], of "2 ^ 32"]
    by (simp add: home_def unat_mod_distrib word_unat_eq_iff unsigned_ucast_eq unat_of_nat take_bit_nat_eq_self)
  have u: "ucast (of_nat p :: u32) = (of_nat p :: u64)" if "p < 64" for p
    using that by (simp add: word_unat_eq_iff unsigned_ucast_eq unat_of_nat take_bit_nat_eq_self)
  have "home H a s < 64" using home_less [of H a s] by simp
  from CheckCollision_probes [OF this, of b] show ?thesis
    by (cases "find (\<lambda>p. \<not> bit b p) (probes (home H a s))")
      (auto simp: LrWpanMac_GenerateHashTableKey_def Let_def k intro!: u dest!: find_SomeD probes_less)
qed

subsection \<open>What a device concludes\<close>

text \<open>The coordinator's bitmap after the frames it received, in order.\<close>

fun collect :: "(u8 list \<Rightarrow> u64) \<Rightarrow> (mac16 \<times> u32) list \<Rightarrow> LrWpanGroupAck \<Rightarrow> LrWpanGroupAck option" where
  "collect H [] m = Some m"
| "collect H ((a, s) # fs) m = do { (bitLocation, m) \<leftarrow> LrWpanMac_MarkGroupAck H a s m; collect H fs m }"

lemma MarkGroupAck_probes:
  "LrWpanMac_MarkGroupAck H a s m = (case find (\<lambda>p. \<not> bit (m_enhancedGACKBitmap m) p) (probes (home H a s)) of
     None \<Rightarrow> None
   | Some p \<Rightarrow> Some (of_nat p, m\<lparr>m_enhancedGACKBitmap := m_enhancedGACKBitmap m OR push_bit p 1\<rparr>))"
proof (cases "find (\<lambda>p. \<not> bit (m_enhancedGACKBitmap m) p) (probes (home H a s))")
  case (Some p)
  then have "p < 64" using find_SomeD probes_less by fast
  then have "unat (of_nat p :: u64) = p" by (simp add: unat_of_nat)
  with Some show ?thesis by (simp add: LrWpanMac_MarkGroupAck_def GenerateHashTableKey_probes)
qed (simp add: LrWpanMac_MarkGroupAck_def GenerateHashTableKey_probes)

lemma bit_or_push: "p < 64 \<Longrightarrow> bit (b OR 2 ^ p :: u64) n \<longleftrightarrow> n = p \<or> bit b n"
  by (auto simp: bit_simps)

lemma bit_and_not_push: "bit (b AND NOT (2 ^ p) :: u64) n \<longleftrightarrow> bit b n \<and> n \<noteq> p"
  by (auto simp: bit_simps dest: bit_imp_le_length)

lemma probes_home: "k < 64 \<Longrightarrow> probes k = k # filter (\<lambda>p. p < 64) (map ((+) k) [1, 5, 14, 30, 55])"
  by (simp add: probes_def)

lemma MarkGroupAck_free:
  assumes "\<not> bit (m_enhancedGACKBitmap m) (home H a s)"
  shows "LrWpanMac_MarkGroupAck H a s m =
    Some (of_nat (home H a s), m\<lparr>m_enhancedGACKBitmap := m_enhancedGACKBitmap m OR push_bit (home H a s) 1\<rparr>)"
  using assms probes_home [of "home H a s"] home_less [of H a s] by (simp add: MarkGroupAck_probes)

text \<open>Without collisions every frame gets the position it hashes to, and nothing else is marked.\<close>

lemma collect_no_collision:
  "distinct (map (\<lambda>(a, s). home H a s) fs) \<Longrightarrow> \<forall>(a, s) \<in> set fs. \<not> bit (m_enhancedGACKBitmap m) (home H a s) \<Longrightarrow>
   \<exists>b. collect H fs m = Some (m\<lparr>m_enhancedGACKBitmap := b\<rparr>) \<and>
     (\<forall>n. bit b n \<longleftrightarrow> bit (m_enhancedGACKBitmap m) n \<or> (\<exists>(a, s) \<in> set fs. n = home H a s))"
proof (induction fs arbitrary: m)
  case Nil
  show ?case by (intro exI [of _ "m_enhancedGACKBitmap m"]) simp
next
  case (Cons f fs)
  obtain a s where f: "f = (a, s)" by (cases f)
  let ?m = "m\<lparr>m_enhancedGACKBitmap := m_enhancedGACKBitmap m OR push_bit (home H a s) 1\<rparr>"
  have lt: "home H a s < 64" using home_less [of H a s] by simp
  have free: "\<not> bit (m_enhancedGACKBitmap m) (home H a s)" using Cons.prems(2) f by auto
  have "\<forall>(a', s') \<in> set fs. \<not> bit (m_enhancedGACKBitmap ?m) (home H a' s')"
  proof (rule ballI, clarify)
    fix a' s'
    assume i: "(a', s') \<in> set fs" and b: "bit (m_enhancedGACKBitmap ?m) (home H a' s')"
    have "home H a' s' \<in> (\<lambda>(a, s). home H a s) ` set fs" using i by force
    then have "home H a' s' \<noteq> home H a s" using Cons.prems(1) f by auto
    moreover have "\<not> bit (m_enhancedGACKBitmap m) (home H a' s')" using Cons.prems(2) i by auto
    ultimately show False using b by (simp add: bit_or_push [OF lt])
  qed
  from Cons.IH [OF _ this] Cons.prems(1) obtain b where "collect H fs ?m = Some (?m\<lparr>m_enhancedGACKBitmap := b\<rparr>)"
    "\<forall>n. bit b n \<longleftrightarrow> bit (m_enhancedGACKBitmap ?m) n \<or> (\<exists>(a, s) \<in> set fs. n = home H a s)" by auto
  then show ?case
    by (intro exI [of _ b]) (auto simp: f MarkGroupAck_free [OF free] bit_or_push [OF lt])
qed

lemma VerifyGroupAck_no_collision:
  "distinct (map (home H a) ss) \<Longrightarrow> \<forall>s \<in> set ss. \<not> bit (m_enhancedGACKBitmap m) (home H a s) \<Longrightarrow>
   \<exists>r' m'. LrWpanMac_VerifyGroupAck H a ss r m = Some (map (\<lambda>s. bit r (home H a s)) ss, r', m') \<and>
     m_groupAckPktBuffer m' = m_groupAckPktBuffer m"
proof (induction ss arbitrary: r m)
  case (Cons s ss)
  let ?h = "home H a s"
  let ?m = "m\<lparr>m_enhancedGACKBitmap := m_enhancedGACKBitmap m OR push_bit ?h 1\<rparr>"
  let ?r = "if bit r ?h then r AND NOT (push_bit ?h 1) else r"
  have lt: "?h < 64" using home_less [of H a s] by simp
  have u: "unat (of_nat ?h :: u64) = ?h" using lt by (simp add: unat_of_nat)
  have ne: "home H a s' \<noteq> ?h" if "s' \<in> set ss" for s'
  proof -
    have "home H a s' \<in> set (map (home H a) ss)" using that by simp
    moreover have "?h \<notin> set (map (home H a) ss)" using Cons.prems(1) by simp
    ultimately show ?thesis by metis
  qed
  have "\<forall>s' \<in> set ss. \<not> bit (m_enhancedGACKBitmap ?m) (home H a s')"
    using Cons.prems(2) ne by (simp add: bit_or_push [OF lt])
  moreover have "distinct (map (home H a) ss)" using Cons.prems(1) by simp
  ultimately obtain r' m' where
    "LrWpanMac_VerifyGroupAck H a ss ?r ?m = Some (map (\<lambda>s. bit ?r (home H a s)) ss, r', m')"
    "m_groupAckPktBuffer m' = m_groupAckPktBuffer ?m" using Cons.IH [of ?m ?r] by blast
  moreover have "map (\<lambda>s. bit ?r (home H a s)) ss = map (\<lambda>s. bit r (home H a s)) ss"
    using ne by (simp add: bit_and_not_push)
  ultimately show ?case
    using Cons.prems(2) by (cases "bit r ?h") (simp_all add: MarkGroupAck_free u and_bit)
qed simp

text \<open>
  Hence, when no two of the frames involved hash to the same position, every verdict is right,
  whatever other devices sent and in whatever order the frames arrived.
\<close>

lemma verdicts_exact:
  assumes "inj_on (\<lambda>(a, s). home H a s) (set fs \<union> {a} \<times> set ss)" and "distinct fs" and "distinct ss" and "fs \<noteq> []"
    and "m_enhancedGACKBitmap c = 0" and "m_enhancedGACKBitmap m = 0" and "m_groupAckPktBuffer m = ss"
  shows "\<exists>c' m'. collect H fs c = Some c' \<and>
    LrWpanMac_ReceiveGroupAck H a (m_enhancedGACKBitmap c') m = Some (map (\<lambda>s. (a, s) \<in> set fs) ss, m') \<and>
    m_enhancedGACKBitmap m' = 0 \<and> m_groupAckPktBuffer m' = []"
proof -
  let ?h = "\<lambda>(a, s). home H a s"
  have d: "distinct (map ?h fs)"
    using assms(1,2) by (simp add: distinct_map inj_on_Un)
  obtain b where b: "collect H fs c = Some (c\<lparr>m_enhancedGACKBitmap := b\<rparr>)" "\<forall>n. bit b n \<longleftrightarrow> (\<exists>(a, s) \<in> set fs. n = home H a s)"
    using collect_no_collision [OF d, of c] assms(5) by auto
  have "inj_on (home H a) (set ss)"
    by (rule inj_onI) (use inj_onD [OF assms(1), of "(a, _)" "(a, _)"] in auto)
  then have ds: "distinct (map (home H a) ss)" using assms(3) by (simp add: distinct_map)
  obtain r' m' where v: "LrWpanMac_VerifyGroupAck H a ss b m = Some (map (\<lambda>s. bit b (home H a s)) ss, r', m')"
    using VerifyGroupAck_no_collision [OF ds, of m b] assms(6) by auto
  have same: "bit b (home H a s) \<longleftrightarrow> (a, s) \<in> set fs" if "s \<in> set ss" for s
  proof
    assume "bit b (home H a s)"
    then obtain a' s' where f: "(a', s') \<in> set fs" "home H a s = home H a' s'" using b(2) by auto
    then have "(a, s) = (a', s')" using inj_onD [OF assms(1), of "(a, s)" "(a', s')"] that by auto
    with f show "(a, s) \<in> set fs" by simp
  qed (use b(2) in auto)
  obtain a0 s0 where "(a0, s0) \<in> set fs" using assms(4) by (cases fs) auto
  then have "bit b (home H a0 s0)" using b(2) by auto
  then have "b \<noteq> 0" by auto
  have vs: "map (\<lambda>s. bit b (home H a s)) ss = map (\<lambda>s. (a, s) \<in> set fs) ss" using same by simp
  show ?thesis
    using b(1) v \<open>b \<noteq> 0\<close> assms(7) unfolding vs
    by (simp add: LrWpanMac_ReceiveGroupAck_def class_defs)
qed

text \<open>With collisions, a device that is alone and lost nothing still gets every frame acknowledged.\<close>

lemma collect_grows:
  "collect H fs m = Some m' \<Longrightarrow> bit (m_enhancedGACKBitmap m) n \<Longrightarrow> bit (m_enhancedGACKBitmap m') n"
  by (induction H fs m rule: collect.induct) (auto simp: MarkGroupAck_probes bit_simps split: option.splits)

lemma collect_marks: "collect H (f # fs) m = Some m' \<Longrightarrow> m_enhancedGACKBitmap m' \<noteq> 0"
proof -
  assume c: "collect H (f # fs) m = Some m'"
  obtain a s where f: "f = (a, s)" by (cases f)
  from c obtain p where p: "find (\<lambda>p. \<not> bit (m_enhancedGACKBitmap m) p) (probes (home H a s)) = Some p"
    and rest: "collect H fs (m\<lparr>m_enhancedGACKBitmap := m_enhancedGACKBitmap m OR push_bit p 1\<rparr>) = Some m'"
    by (auto simp: f MarkGroupAck_probes split: option.splits)
  have "p < 64" using find_SomeD [OF p] probes_less by auto
  then have "bit (m_enhancedGACKBitmap m') p"
    by (intro collect_grows [OF rest]) (simp add: bit_or_push)
  then show ?thesis by auto
qed

lemma VerifyGroupAck_all:
  "collect H (map (Pair a) ss) c = Some c' \<Longrightarrow> m_enhancedGACKBitmap m = m_enhancedGACKBitmap c \<Longrightarrow>
   \<forall>n. bit (m_enhancedGACKBitmap c') n \<and> \<not> bit (m_enhancedGACKBitmap c) n \<longrightarrow> bit r n \<Longrightarrow>
   \<exists>r' m'. LrWpanMac_VerifyGroupAck H a ss r m = Some (replicate (length ss) True, r', m')"
proof (induction ss arbitrary: c m r)
  case (Cons s ss)
  from Cons.prems(1) obtain p where p: "find (\<lambda>p. \<not> bit (m_enhancedGACKBitmap c) p) (probes (home H a s)) = Some p"
    and rest: "collect H (map (Pair a) ss) (c\<lparr>m_enhancedGACKBitmap := m_enhancedGACKBitmap c OR push_bit p 1\<rparr>) = Some c'"
    by (auto simp: MarkGroupAck_probes split: option.splits)
  have lt: "p < 64" and free: "\<not> bit (m_enhancedGACKBitmap c) p"
    using find_SomeD [OF p] probes_less by auto
  have u: "unat (of_nat p :: u64) = p" using lt by (simp add: unat_of_nat)
  have "bit (m_enhancedGACKBitmap c') p"
    by (rule collect_grows [OF rest]) (simp add: bit_or_push [OF lt])
  then have acked: "bit r p" using Cons.prems(3) free by blast
  have "\<forall>n. bit (m_enhancedGACKBitmap c') n \<and> \<not> bit (m_enhancedGACKBitmap c OR push_bit p 1) n \<longrightarrow> bit (r AND NOT (push_bit p 1)) n"
    using Cons.prems(3) by (simp add: bit_or_push [OF lt] bit_and_not_push)
  then obtain r' m' where "LrWpanMac_VerifyGroupAck H a ss (r AND NOT (push_bit p 1))
      (m\<lparr>m_enhancedGACKBitmap := m_enhancedGACKBitmap c OR push_bit p 1\<rparr>) = Some (replicate (length ss) True, r', m')"
    using Cons.IH [OF rest, of "m\<lparr>m_enhancedGACKBitmap := m_enhancedGACKBitmap c OR push_bit p 1\<rparr>" "r AND NOT (push_bit p 1)"] by auto
  then show ?case
    using acked p by (simp add: MarkGroupAck_probes Cons.prems(2) u and_bit)
qed simp

text \<open>
  With a collision and a loss the verdicts go wrong: of two frames that hash to the same position
  the first is lost; the device takes the bit of the second for that of the first.
\<close>

lemma lost_frame_acknowledged:
  assumes "home H a s1 = home H a s2" and "m_enhancedGACKBitmap c = 0" and "m_enhancedGACKBitmap m = 0"
  shows "\<exists>c' r' m'. collect H [(a, s2)] c = Some c' \<and>
    LrWpanMac_VerifyGroupAck H a [s1, s2] (m_enhancedGACKBitmap c') m = Some ([True, False], r', m')"
proof -
  let ?h = "home H a s2"
  have lt: "?h < 61" by (rule home_less)
  have p: "probes ?h = ?h # (?h + 1) # tl (tl (probes ?h))" using lt by (simp add: probes_def)
  have h: "find (\<lambda>p. True) (probes ?h) = Some ?h" by (subst p) simp
  have h1: "find (\<lambda>p. \<not> bit (push_bit ?h 1 :: u64) p) (probes ?h) = Some (?h + 1)"
    using lt by (subst p) (simp add: bit_simps)
  have u: "unat (of_nat ?h :: u64) = ?h" "unat (1 + of_nat ?h :: u64) = ?h + 1"
    using lt by (simp_all add: unat_of_nat unat_word_ariths)
  show ?thesis
    using lt h h1 u by (simp add: MarkGroupAck_probes assms and_bit bit_simps add.commute)
qed

subsection \<open>Legacy: slots\<close>

text \<open>
  The coordinator marks the index of the slot in its allocation table, the device looks for the
  number of the slot in the superframe: the two agree only where these are the same number.
\<close>

lemma legacy_verdict:
  assumes "i < 16" and "j < 16" and "a1 < 32" and "m_legacyGackBitmap c = 0" and "m_legacyGackIndexCounter c < 8"
  shows "\<exists>c'. LrWpanMac_MarkLegacyGroupAck (Mac16Address 0 a1) (of_nat i) c = Some c' \<and>
    legacy_verdicts (m_legacyGackBitmap c') [of_nat j] = Some [i = j]"
proof -
  have u: "unat (of_nat i :: cint) = i" "unat (of_nat j :: u32) = j" using assms(1,2) by (simp_all add: unat_of_nat)
  have a: "unat (ucast a1 :: cint) < 32" using assms(3) by (simp add: word_less_nat_alt unsigned_ucast_eq take_bit_nat_eq_self)
  have "unat (m_legacyGackIndexCounter c * 4) < 32"
    using assms(5) by (simp add: word_less_nat_alt unat_word_ariths)
  then show ?thesis
    using assms(1,2,4) a u by (auto simp: shl32_def and_bit bit_simps)
qed

end
