(* ===== verification/Mac_State.thy ===== *)
theory Mac_State
  imports Csma_Ca Frames Group_Ack_Hash
begin

section \<open>The state of the MAC\<close>

text \<open>
  The members of \<open>LrWpanMac\<close> (\<open>lr-wpan-mac.h\<close>) that its data service, its state machine and its
  superframe and GTS scheduling work on, and the world around the object: the event queue, the
  calls made to the PHY, the CSMA-CA and the higher layer so far, and the packets, which are
  shared through pointers. What the object asks of the PHY and the node is \<open>mac_env\<close>. A null or
  dangling use of a pointer is \<open>None\<close>. Traces are left out: they only report.
\<close>

subsection \<open>Types\<close>

datatype LrWpanPhyEnumeration = IEEE_802_15_4_PHY_BUSY | IEEE_802_15_4_PHY_BUSY_RX | IEEE_802_15_4_PHY_BUSY_TX |
  IEEE_802_15_4_PHY_FORCE_TRX_OFF | IEEE_802_15_4_PHY_IDLE | IEEE_802_15_4_PHY_INVALID_PARAMETER |
  IEEE_802_15_4_PHY_RX_ON | IEEE_802_15_4_PHY_SUCCESS | IEEE_802_15_4_PHY_TRX_OFF | IEEE_802_15_4_PHY_TX_ON |
  IEEE_802_15_4_PHY_UNSUPPORTED_ATTRIBUTE | IEEE_802_15_4_PHY_READ_ONLY | IEEE_802_15_4_PHY_UNSPECIFIED

datatype SuperframeStatus = BEACON | CAP | CFP | INACTIVE | REMAINING

datatype SuperframeType = OUTGOING | INCOMING

datatype LrWpanGroupAckPolicy = GROUP_ACK_DISABLED | GROUP_ACK_LEGACY | GROUP_ACK_ENHANCED | GROUP_ACK_DSME_GTS | GROUP_ACK_RESERVED

text \<open>The member functions that are scheduled, and the calls out of the object.\<close>

datatype mac_call = SetLrWpanMacState LrWpanMacState | SetLrWpanMacStateToGTS u16 int | IfsWaitTimeout int |
  StartCAP SuperframeType | StartCFP SuperframeType | StartRemainingPeriod SuperframeType | AwaitBeacon |
  SendOneEnhancedBeacon | PurgeDsmeACT | StartSuperframe | StartMultisuperframe SuperframeType |
  StartGTS SuperframeType u16 int | EndGTS SuperframeType | SendLegacyGroupAck | SendEnhancedGroupAck |
  BeaconSearchTimeout

datatype LrWpanMcpsDataConfirmStatus = IEEE_802_15_4_TRANSACTION_OVERFLOW | IEEE_802_15_4_SUCCESS

text \<open>The parameters of the data service that the model follows.\<close>

record McpsDataRequestParams =
  req_srcAddrMode :: u8
  req_dstAddrMode :: u8
  req_dstPanId :: u16
  req_dstAddr :: mac16
  req_msduHandle :: u8
  req_txOptions :: u8

record McpsDataIndicationParams =
  ind_srcAddrMode :: u8
  ind_srcPanId :: u16
  ind_srcAddr :: mac16
  ind_dstAddrMode :: u8
  ind_dstPanId :: u16
  ind_dstAddr :: mac16
  ind_mpduLinkQuality :: u8
  ind_dsn :: u8

text \<open>The description of a PAN that a received beacon gives, and its indication.\<close>

record PanDescriptor =
  pd_coorAddrMode :: u8
  pd_coorPanId :: u16
  pd_coorShortAddr :: mac16
  pd_logCh :: u8
  pd_logChPage :: u8
  pd_superframeSpec :: SuperframeField
  pd_gtsPermit :: bool
  pd_linkQuality :: u8
  pd_timeStamp :: int
  pd_dsmeSuperframeSpec :: DsmeSuperFrameField
  pd_timeSyncSpec :: TimeSync
  pd_bcnBitmap :: BeaconBitmap
  pd_channelHoppingSpec :: ChannelHopping
  pd_gACKSpec :: GroupACK

record MlmeBeaconNotifyIndicationParams =
  notify_bsn :: u8
  notify_panDescriptor :: PanDescriptor
  notify_sduLength :: nat
  notify_sdu :: packet
  notify_ebsn :: u8
  notify_beaconType :: bool

text \<open>The parameters of the primitives that start a PAN and synchronise with one.\<close>

record HoppingDescriptor =
  hd_HoppingSequenceID :: u8
  hd_channelOfs :: u16
  hd_channelOfsBitmapLen :: u8
  hd_channelOfsBitmap :: "u16 list"
  hd_hoppingSeqLen :: u16
  hd_hoppingSeq :: HoppingSequence

record MlmeStartRequestParams =
  start_PanId :: u16
  start_logCh :: u8
  start_logChPage :: u32
  start_bcnOrd :: u8
  start_sfrmOrd :: u8
  start_panCoor :: bool
  start_battLifeExt :: bool
  start_dsmeSuperframeSpec :: DsmeSuperFrameField
  start_bcnBitmap :: BeaconBitmap
  start_hoppingDescriptor :: HoppingDescriptor

record MlmeSyncRequestParams =
  sync_logCh :: u8
  sync_trackBcn :: bool

datatype DeviceType = RFD | FFD

datatype PendingPrimitiveStatus = MLME_NONE | MLME_START_REQ

datatype mac_out = PlmeSetTRXStateRequest LrWpanPhyEnumeration | SetCurrentChannel u8 | SetCurrentPage u32 | PdDataRequest packet |
  CancelPdDataRequest | PlmeEdRequest | CsmaStart | CsmaCancel | McpsDataConfirm u8 LrWpanMcpsDataConfirmStatus |
  McpsDataIndication McpsDataIndicationParams packet | MlmeStartSuccess | MlmeStartInvalid | MlmeSyncLoss u16 |
  MlmeBeaconNotify MlmeBeaconNotifyIndicationParams packet

record TxQueueElement =
  txQMsduHandle :: u8
  txQPkt :: "nat option"

record IndTxQueueElement =
  seqNum :: u8
  dstShortAddress :: mac16
  indTxQPkt :: "nat option"

text \<open>An entry of the allocation counter table of the DSME-GTSs.\<close>

record macDSMEACTEntity =
  act_superframeID :: u16
  act_slotID :: u8
  act_numSlot :: u8
  act_channelID :: u16
  act_direction :: u8
  act_type :: u8
  act_prioritizedChAccess :: bool
  act_srcAddr :: mac16
  act_dstAddr :: mac16
  act_cnt :: u16
  act_linkQuality :: u16
  act_allocated :: bool
  act_deallocated :: bool
  act_expired :: bool

subsection \<open>The object\<close>

text \<open>
  The members that describe the PAN: what the device announces in its beacons and what it has heard
  in those of others. They are members of the class like the others; a record of their own keeps
  the state of manageable size.
\<close>

record LrWpanMacPan =
  m_deviceCapability :: DeviceType
  m_startParams :: MlmeStartRequestParams
  m_pendPrimitive :: PendingPrimitiveStatus
  m_macBeaconOrder :: u8
  m_macSuperframeOrder :: u8
  m_macMultisuperframeOrder :: u8
  m_macChannelDiversityMode :: u8
  m_macGACKFlag :: bool
  m_macDeferredBcnUsed :: bool
  m_macSDBitmap :: BeaconBitmap
  m_macHoppingSeqID :: u8
  m_hoppingSeqLen :: u16
  m_macHoppingSeqList :: HoppingSequence
  m_macChannelOfs :: u16
  m_macChannelOfsBitmapLen :: u8
  m_macChannelOfsBitmap :: "u16 list"
  m_dsmePanDescriptorIE :: DsmePANDescriptorIE
  m_macAssociationPermit :: bool
  m_macAutoRequest :: bool
  m_macEbsn :: u8
  m_panDescriptorList :: "PanDescriptor list"
  m_descIdxOfAssociatedPan :: int
  m_choosedSDIndexToSendBcn :: u16
  m_sendBcn :: bool
  m_incomingSuperframeOrder :: u8
  m_incomingMultisuperframeOrder :: u8
  m_incomingChannelDiversityMode :: bool
  m_incomingGACKFlag :: bool
  m_incomingCAPReductionFlag :: bool
  m_incomingDeferredBcnUsed :: bool
  m_incomingSDBitmap :: BeaconBitmap
  m_incSDindex :: u16
  m_macCoordShortAddress :: mac16
  m_startOfBcnSlotOfSyncParent :: int
  m_scanEvent :: "EventId option"
  m_multisuperframeStartEvent :: "EventId option"
  m_incMultisuperframeStartEvent :: "EventId option"
  m_maxEnergyLevel :: u8

text \<open>
  The table is a map from superframe numbers to vectors: the list of its keys and vectors, in the
  order of the keys. The events of a superframe are counted by their vector's length only where
  the code looks at them.
\<close>

record LrWpanMac =
  m_lrWpanMacState :: LrWpanMacState
  m_setMacState :: "EventId option"
  m_ifsEvent :: "EventId option"
  m_ackWaitTimeout :: "EventId option"
  m_scanEnergyEvent :: "EventId option"
  m_csmaCa :: LrWpanCsmaCa
  m_txQueue :: "TxQueueElement list"
  m_indTxQueue :: "IndTxQueueElement list"
  m_txPkt :: "nat option"
  m_txPktGts :: "nat option"
  m_rxPkt :: "packet option"
  m_mcpsDataRequestParams :: McpsDataRequestParams
  m_acceptAllHilowPkt :: bool
  m_maxTxQueueSize :: u32
  m_retransmission :: u8
  m_numCsmacaRetry :: u8
  m_macRxOnWhenIdle :: bool
  m_macLIFSPeriod :: u32
  m_macSIFSPeriod :: u32
  m_shortAddress :: mac16
  m_macPanId :: u16
  m_macDsn :: u8
  m_NoACK :: bool
  m_groupAckPolicy :: LrWpanGroupAckPolicy
  m_groupAck :: LrWpanGroupAck
  m_legacyGroupAck :: GroupACK
  m_panCoor :: bool
  m_coord :: bool
  m_macDSMEenabled :: bool
  m_macCAPReductionFlag :: bool
  m_forDsmeNetDeviceIntegrateWithHigerLayer :: bool
  m_gtsContinuePktSendingFromCap :: bool
  m_enhancedGTSForwarding :: bool
  m_outSuperframeStatus :: SuperframeStatus
  m_incSuperframeStatus :: SuperframeStatus
  m_incSuperframe :: bool
  m_superframeDuration :: u32
  m_incomingSuperframeDuration :: u32
  m_multiSuperframeDuration :: u32
  m_incomingMultisuperframeDuration :: u32
  m_beaconInterval :: u32
  m_incomingBeaconInterval :: u32
  m_incomingBeaconOrder :: u8
  m_fnlCapSlot :: u8
  m_incomingFnlCapSlot :: u8
  m_rxBeaconSymbols :: u64
  m_macBeaconTxTime :: int
  m_BeaconStartTxTime :: int
  m_macBeaconRxTime :: int
  m_startOfBcnSlot :: int
  m_firstCFP :: bool
  m_incomingFirstCFP :: bool
  m_capEvent :: "EventId option"
  m_cfpEvent :: "EventId option"
  m_incCapEvent :: "EventId option"
  m_incCfpEvent :: "EventId option"
  m_beaconEvent :: "EventId option"
  m_trackingEvent :: "EventId option"
  m_beaconTrackingOn :: bool
  m_numLostBeacons :: u8
  m_macSDindex :: u32
  m_numOfSuperframes :: u64
  m_numOfMultisuperframes :: u32
  m_curSuperframeIDx :: u32
  m_isFirstSuperframe :: bool
  m_multisuperframeSeq :: cint
  m_multisuperframeEndEvent :: "EventId option"
  m_startFirstSuperframeEvent :: "EventId option"
  m_macDsmeACT :: "(u16 \<times> macDSMEACTEntity list) list"
  m_scheduleGTSsEvent :: "EventId list list"
  m_gtsSchedulingEvent :: "EventId option"
  m_gtsEvent :: "EventId option"
  m_incGtsEvent :: "EventId option"
  m_curGTSSuperframeID :: u16
  m_curGTSIdx :: int
  m_currentGTSIdx :: u32
  m_numOfChannels :: u16
  m_macPANCoordinatorBSN :: u8
  m_originalChannelInCAP :: u8
  m_macDSMESAB :: "u16 list"
  m_macDSMESABCapOff :: "u8 list"
  m_pan :: LrWpanMacPan

text \<open>
  The environment: the symbol rate and the timing constants of the PHY (the symbols of an octet
  are a fraction), its page and channel, whether checksums are
  on, the content of fresh octets and of fresh headers and elements, the hash function, the order in which the compiler evaluates
  arguments, and which callbacks are set.
\<close>

text \<open>What the memory held where the handlers construct objects.\<close>

record mac_objs =
  obj_beacon :: BeaconPayloadHeader
  obj_pan :: DsmePANDescriptorIE
  obj_headerTermination :: HeaderIETermination
  obj_payloadTermination :: PayloadIETermination
  obj_pending :: PendingAddrFields
  obj_timeSync :: TimeSync
  obj_hopping :: ChannelHopping
  obj_groupAck :: GroupACK
  obj_panDescriptor :: PanDescriptor

record mac_env =
  env_symbolRate :: nat
  env_phySHRDuration :: u64
  env_symbolsPerOctet :: "int \<times> int"
  env_checksum :: bool
  env_room :: "nat \<Rightarrow> u8 list"
  env_mem :: LrWpanMacHeader
  env_cmdMem :: CommandPayloadHeader
  env_egackMem :: EnhancedGroupAckDescriptorIE
  env_lgackMem :: LegacyGroupAckIE
  env_hash :: "u8 list \<Rightarrow> u64"
  env_rtl :: bool
  env_dataConfirm :: bool
  env_dataIndication :: bool
  env_startConfirm :: bool
  env_syncLoss :: bool
  env_beaconNotify :: bool
  env_objs :: mac_objs
  env_phyPage :: u8
  env_phyChannel :: u8

record mac_world =
  mac :: LrWpanMac
  msim :: "mac_call Simulator"
  mouts :: "mac_out list"
  pkts :: "nat \<Rightarrow> packet"

definition mac_upd :: "(LrWpanMac \<Rightarrow> LrWpanMac) \<Rightarrow> mac_world \<Rightarrow> mac_world" where
  [class_defs]: "mac_upd g w = w\<lparr>mac := g (mac w)\<rparr>"

definition mac_emit :: "mac_out \<Rightarrow> mac_world \<Rightarrow> mac_world" where
  [class_defs]: "mac_emit out w = w\<lparr>mouts := mouts w @ [out]\<rparr>"

definition mac_sched :: "int \<Rightarrow> mac_call \<Rightarrow> (EventId option \<Rightarrow> LrWpanMac \<Rightarrow> LrWpanMac) \<Rightarrow> mac_world \<Rightarrow> mac_world option" where
  "mac_sched d call store w = do {
     (k, s) \<leftarrow> Simulator_Schedule d call (msim w);
     Some (w\<lparr>msim := s, mac := store (Some k) (mac w)\<rparr>) }"

definition mac_cancel :: "EventId option \<Rightarrow> mac_world \<Rightarrow> mac_world" where
  [class_defs]: "mac_cancel i w = w\<lparr>msim := Simulator_Cancel i (msim w)\<rparr>"

text \<open>\<open>EventId::IsRunning\<close>.\<close>

definition mac_running :: "EventId option \<Rightarrow> mac_world \<Rightarrow> bool" where
  [class_defs]: "mac_running i w = (\<not> Simulator_IsExpired i (msim w))"

text \<open>A header read from the front of a packet into a fresh object.\<close>

definition mac_peek :: "mac_env \<Rightarrow> packet \<Rightarrow> LrWpanMacHeader option" where
  "mac_peek env p = do {
     (h, n, q) \<leftarrow> PeekHeader (LrWpanMacHeader_Deserialize (env_rtl env)) (LrWpanMacHeader_new (env_mem env)) p;
     Some h }"

lemma mac_sched_ok:
  assumes "sim_ok (msim w)" and "0 \<le> d"
  shows "\<exists>k t. mac_sched d c f w = Some (w\<lparr>msim := t, mac := f (Some k) (mac w)\<rparr>) \<and> sim_ok t \<and>
    fst k = nat d + m_currentTs (msim w) \<and> m_currentTs t = m_currentTs (msim w) \<and> pending t = insert (k, c) (pending (msim w))"
proof -
  obtain k t where t: "Simulator_Schedule d c (msim w) = Some (k, t)" "sim_ok t" "m_currentTs t = m_currentTs (msim w)"
    "fst k = nat d + m_currentTs (msim w)" "pending t = insert (k, c) (pending (msim w))"
    using simulator.schedule_law [OF assms] by blast
  then show ?thesis by (intro exI [of _ k] exI [of _ t]) (simp add: mac_sched_def)
qed

subsection \<open>Construction and configuration\<close>

text \<open>
  The constructor; \<open>dsn\<close> and \<open>ebsn\<close> are the random draws for the sequence numbers, and the largest size of a
  queue of pointers cut to 32 bits has all bits set. Members it does not mention are as the memory
  held them (\<open>m_NoACK\<close>, \<open>m_numOfChannels\<close>, \<open>m_enhancedGACKBitmap\<close>, ...) unless their
  type has a constructor of its own: null pointers and events, empty containers, time zero; those of
  \<open>m_dsmePanDescriptorIE\<close> and \<open>m_startParams\<close> are left to \<open>mem\<close>.
\<close>

definition LrWpanMac_new :: "u8 \<Rightarrow> u8 \<Rightarrow> LrWpanMac \<Rightarrow> LrWpanMac" where
  "LrWpanMac_new dsn ebsn mem = mem\<lparr>
     m_setMacState := None, m_ifsEvent := None, m_ackWaitTimeout := None, m_scanEnergyEvent := None, m_capEvent := None,
     m_cfpEvent := None, m_incCapEvent := None, m_incCfpEvent := None, m_beaconEvent := None, m_trackingEvent := None,
     m_multisuperframeEndEvent := None, m_startFirstSuperframeEvent := None, m_gtsSchedulingEvent := None, m_gtsEvent := None,
     m_incGtsEvent := None, m_txQueue := [], m_indTxQueue := [], m_txPktGts := None, m_rxPkt := None, m_acceptAllHilowPkt := False, m_macDsmeACT := [], m_scheduleGTSsEvent := [],
     m_macDSMESAB := [], m_macDSMESABCapOff := [], m_macBeaconTxTime := 0, m_BeaconStartTxTime := 0, m_macBeaconRxTime := 0,
     m_startOfBcnSlot := 0, m_isFirstSuperframe := True, m_multisuperframeSeq := - 1,
     m_lrWpanMacState := MAC_IDLE, m_incSuperframeStatus := INACTIVE, m_outSuperframeStatus := INACTIVE,
     m_macRxOnWhenIdle := True, m_macPanId := 0xffff, m_forDsmeNetDeviceIntegrateWithHigerLayer := False,
     m_gtsContinuePktSendingFromCap := False, m_enhancedGTSForwarding := False, m_retransmission := 0, m_numCsmacaRetry := 0,
     m_txPkt := None, m_macLIFSPeriod := 40, m_macSIFSPeriod := 12, m_panCoor := False, m_coord := False,
     m_incomingBeaconOrder := 15, m_beaconTrackingOn := False, m_numLostBeacons := 0, m_originalChannelInCAP := 11,
     m_maxTxQueueSize := - 1, m_macDsn := dsn, m_shortAddress := Mac16Address 0 0, m_macDSMEenabled := False,
     m_macCAPReductionFlag := False, m_macSDindex := - 1, m_macPANCoordinatorBSN := 0, m_incSuperframe := False,
     m_groupAckPolicy := GROUP_ACK_DISABLED,
     m_pan := (m_pan mem)\<lparr>m_deviceCapability := FFD, m_pendPrimitive := MLME_NONE, m_macBeaconOrder := 15, m_macSuperframeOrder := 15,
       m_macMultisuperframeOrder := 15, m_macChannelDiversityMode := 1, m_macGACKFlag := False, m_macDeferredBcnUsed := False,
       m_macSDBitmap := BeaconBitmap_new (m_macSDBitmap (m_pan mem)), m_macChannelOfs := 0, m_macChannelOfsBitmap := [],
       m_macAssociationPermit := True, m_macAutoRequest := True, m_macEbsn := ebsn, m_panDescriptorList := [],
       m_choosedSDIndexToSendBcn := 0, m_sendBcn := False, m_incomingSuperframeOrder := 15,
       m_incomingSDBitmap := BeaconBitmap_new (m_incomingSDBitmap (m_pan mem)), m_macCoordShortAddress := Mac16Address 0xff 0xff,
       m_startOfBcnSlotOfSyncParent := 0, m_scanEvent := None, m_multisuperframeStartEvent := None,
       m_incMultisuperframeStartEvent := None, m_maxEnergyLevel := 0\<rparr>,
     m_groupAck := (m_groupAck mem)\<lparr>m_legacyGackBitmap := 0, m_legacyGackDevList := 0, m_legacyGackIdx := 0,
       m_legacyGackDirections := 0, m_legacyGackIndexCounter := 0, m_groupAckPktBuffer := [], m_legacyGackGTSIdxBuffer := []\<rparr>\<rparr>"

definition LrWpanMac_GetRxOnWhenIdle :: "LrWpanMac \<Rightarrow> bool" where
  [class_defs]: "LrWpanMac_GetRxOnWhenIdle m = m_macRxOnWhenIdle m"

definition LrWpanMac_SetRxOnWhenIdle :: "bool \<Rightarrow> mac_world \<Rightarrow> mac_world" where
  "LrWpanMac_SetRxOnWhenIdle rxOnWhenIdle w = (
     let w = mac_upd (\<lambda>m. m\<lparr>m_macRxOnWhenIdle := rxOnWhenIdle\<rparr>) w
     in if m_lrWpanMacState (mac w) = MAC_IDLE then
          if m_macRxOnWhenIdle (mac w) then mac_emit (PlmeSetTRXStateRequest IEEE_802_15_4_PHY_RX_ON) w
          else mac_emit (PlmeSetTRXStateRequest IEEE_802_15_4_PHY_TRX_OFF) w
        else w)"

definition LrWpanMac_SetShortAddress :: "mac16 \<Rightarrow> LrWpanMac \<Rightarrow> LrWpanMac" where
  [class_defs]: "LrWpanMac_SetShortAddress address m = m\<lparr>m_shortAddress := address\<rparr>"

definition LrWpanMac_GetShortAddress :: "LrWpanMac \<Rightarrow> mac16" where
  [class_defs]: "LrWpanMac_GetShortAddress m = m_shortAddress m"

definition LrWpanMac_SetTxQMaxSize :: "u32 \<Rightarrow> LrWpanMac \<Rightarrow> LrWpanMac" where
  [class_defs]: "LrWpanMac_SetTxQMaxSize queueSize m = m\<lparr>m_maxTxQueueSize := queueSize\<rparr>"

definition LrWpanMac_GetPanId :: "LrWpanMac \<Rightarrow> u16" where
  [class_defs]: "LrWpanMac_GetPanId m = m_macPanId m"

definition LrWpanMac_SetPanId :: "u16 \<Rightarrow> LrWpanMac \<Rightarrow> LrWpanMac" where
  [class_defs]: "LrWpanMac_SetPanId panId m = m\<lparr>m_macPanId := panId\<rparr>"

definition LrWpanMac_SetDsmeModeDisabled :: "LrWpanMac \<Rightarrow> LrWpanMac" where
  [class_defs]: "LrWpanMac_SetDsmeModeDisabled m = m\<lparr>m_macDSMEenabled := False\<rparr>"

definition LrWpanMac_SetAsCoordinator :: "LrWpanMac \<Rightarrow> LrWpanMac" where
  [class_defs]: "LrWpanMac_SetAsCoordinator m = m\<lparr>m_coord := True\<rparr>"

definition LrWpanMac_SetNotCoordinator :: "LrWpanMac \<Rightarrow> LrWpanMac" where
  [class_defs]: "LrWpanMac_SetNotCoordinator m = m\<lparr>m_coord := False\<rparr>"

definition LrWpanMac_IsCoord :: "LrWpanMac \<Rightarrow> bool" where
  [class_defs]: "LrWpanMac_IsCoord m = m_coord m"

definition LrWpanMac_isCAPReductionOn :: "LrWpanMac \<Rightarrow> bool" where
  [class_defs]: "LrWpanMac_isCAPReductionOn m = m_macCAPReductionFlag m"

definition LrWpanMac_SetCAPReduction :: "bool \<Rightarrow> LrWpanMac \<Rightarrow> LrWpanMac" where
  [class_defs]: "LrWpanMac_SetCAPReduction on m = m\<lparr>m_macCAPReductionFlag := on\<rparr>"

definition LrWpanMac_SetDsmeMacIsForIntegratingWithHigerLayer :: "bool \<Rightarrow> LrWpanMac \<Rightarrow> LrWpanMac" where
  [class_defs]: "LrWpanMac_SetDsmeMacIsForIntegratingWithHigerLayer on m = m\<lparr>m_forDsmeNetDeviceIntegrateWithHigerLayer := on\<rparr>"

definition LrWpanMac_SetAcceptAllHilowPkt :: "bool \<Rightarrow> LrWpanMac \<Rightarrow> LrWpanMac" where
  [class_defs]: "LrWpanMac_SetAcceptAllHilowPkt on m = m\<lparr>m_acceptAllHilowPkt := on\<rparr>"

definition LrWpanMac_SetNumOfChannelSupported :: "u16 \<Rightarrow> LrWpanMac \<Rightarrow> LrWpanMac" where
  [class_defs]: "LrWpanMac_SetNumOfChannelSupported num m = m\<lparr>m_numOfChannels := num\<rparr>"

definition LrWpanMac_IsIncomingSuperframe :: "LrWpanMac \<Rightarrow> bool" where
  [class_defs]: "LrWpanMac_IsIncomingSuperframe m = m_incSuperframe m"

definition LrWpanMac_SetGtsContinuePktSendingFromCap :: "bool \<Rightarrow> LrWpanMac \<Rightarrow> LrWpanMac" where
  [class_defs]: "LrWpanMac_SetGtsContinuePktSendingFromCap on m = m\<lparr>m_gtsContinuePktSendingFromCap := on\<rparr>"

definition LrWpanMac_SetEnhancedGTSForwarding :: "bool \<Rightarrow> LrWpanMac \<Rightarrow> LrWpanMac" where
  [class_defs]: "LrWpanMac_SetEnhancedGTSForwarding on m = m\<lparr>m_enhancedGTSForwarding := on\<rparr>"

definition LrWpanMac_GetSuperframeIDx :: "LrWpanMac \<Rightarrow> u16" where
  [class_defs]: "LrWpanMac_GetSuperframeIDx m = ucast (m_curSuperframeIDx m)"

definition LrWpanMac_SetSuperframeIDx :: "u16 \<Rightarrow> LrWpanMac \<Rightarrow> LrWpanMac" where
  [class_defs]: "LrWpanMac_SetSuperframeIDx curSuperframeIDx m = m\<lparr>m_curSuperframeIDx := ucast curSuperframeIDx\<rparr>"

definition LrWpanMac_SetGroupAckPolicy :: "LrWpanGroupAckPolicy \<Rightarrow> LrWpanMac \<Rightarrow> LrWpanMac" where
  [class_defs]: "LrWpanMac_SetGroupAckPolicy policy m = m\<lparr>m_groupAckPolicy := policy\<rparr>"

definition LrWpanMac_Set6lowpanDataNoACK :: "bool \<Rightarrow> LrWpanMac \<Rightarrow> LrWpanMac" where
  [class_defs]: "LrWpanMac_Set6lowpanDataNoACK NoACK m = m\<lparr>m_NoACK := NoACK\<rparr>"

definition mac_pan_upd :: "(LrWpanMacPan \<Rightarrow> LrWpanMacPan) \<Rightarrow> LrWpanMac \<Rightarrow> LrWpanMac" where
  [class_defs]: "mac_pan_upd g m = m\<lparr>m_pan := g (m_pan m)\<rparr>"

definition LrWpanMac_SetChannelOffset :: "u16 \<Rightarrow> LrWpanMac \<Rightarrow> LrWpanMac" where
  [class_defs]: "LrWpanMac_SetChannelOffset offset m = mac_pan_upd (\<lambda>p. p\<lparr>m_macChannelOfs := offset\<rparr>) m"

definition LrWpanMac_GetChannelOffset :: "LrWpanMac \<Rightarrow> u16" where
  [class_defs]: "LrWpanMac_GetChannelOffset m = m_macChannelOfs (m_pan m)"

definition LrWpanMac_AddPanDescriptor :: "PanDescriptor \<Rightarrow> LrWpanMac \<Rightarrow> LrWpanMac" where
  [class_defs]: "LrWpanMac_AddPanDescriptor descriptor m =
     mac_pan_upd (\<lambda>p. p\<lparr>m_panDescriptorList := m_panDescriptorList p @ [descriptor]\<rparr>) m"

definition LrWpanMac_GetCoordShortAddress :: "LrWpanMac \<Rightarrow> mac16" where
  [class_defs]: "LrWpanMac_GetCoordShortAddress m = m_macCoordShortAddress (m_pan m)"

definition LrWpanMac_SetAssociatedCoor :: "mac16 \<Rightarrow> LrWpanMac \<Rightarrow> LrWpanMac" where
  [class_defs]: "LrWpanMac_SetAssociatedCoor a m = mac_pan_upd (\<lambda>p. p\<lparr>m_macCoordShortAddress := a\<rparr>) m"

definition LrWpanMac_SetAssociatePermit :: "LrWpanMac \<Rightarrow> LrWpanMac" where
  [class_defs]: "LrWpanMac_SetAssociatePermit m = mac_pan_upd (\<lambda>p. p\<lparr>m_macAssociationPermit := True\<rparr>) m"

definition LrWpanMac_SetAssociateNotPermit :: "LrWpanMac \<Rightarrow> LrWpanMac" where
  [class_defs]: "LrWpanMac_SetAssociateNotPermit m = mac_pan_upd (\<lambda>p. p\<lparr>m_macAssociationPermit := False\<rparr>) m"

definition LrWpanMac_SetTimeSlotToSendBcn :: "u16 \<Rightarrow> LrWpanMac \<Rightarrow> LrWpanMac" where
  [class_defs]: "LrWpanMac_SetTimeSlotToSendBcn idx m = mac_pan_upd (\<lambda>p. p\<lparr>m_choosedSDIndexToSendBcn := idx\<rparr>) m"

definition LrWpanMac_GetTimeSlotToSendBcn :: "LrWpanMac \<Rightarrow> u16" where
  [class_defs]: "LrWpanMac_GetTimeSlotToSendBcn m = m_choosedSDIndexToSendBcn (m_pan m)"

definition LrWpanMac_SetDescIndexOfAssociatedPan :: "int \<Rightarrow> LrWpanMac \<Rightarrow> LrWpanMac" where
  [class_defs]: "LrWpanMac_SetDescIndexOfAssociatedPan idx m = mac_pan_upd (\<lambda>p. p\<lparr>m_descIdxOfAssociatedPan := idx\<rparr>) m"

definition LrWpanMac_SetHoppingSeqLen :: "u16 \<Rightarrow> LrWpanMac \<Rightarrow> LrWpanMac" where
  [class_defs]: "LrWpanMac_SetHoppingSeqLen len m = mac_pan_upd (\<lambda>p. p\<lparr>m_hoppingSeqLen := len\<rparr>) m"

definition LrWpanMac_SetHoppingSeq :: "HoppingSequence \<Rightarrow> LrWpanMac \<Rightarrow> LrWpanMac" where
  [class_defs]: "LrWpanMac_SetHoppingSeq seq m = mac_pan_upd (\<lambda>p. p\<lparr>m_macHoppingSeqList := seq\<rparr>) m"

end
