(* ===== verification/Dsme_Table.thy ===== *)
theory Dsme_Table
  imports Mac_State
begin

section \<open>The allocation counter table and the slot allocation bitmap\<close>

text \<open>
  The tables in which \<open>LrWpanMac\<close> keeps its DSME-GTSs (\<open>AddDsmeACTEntity\<close>, \<open>PurgeDsmeACT\<close>) and
  the sub-blocks of the slot allocation bitmap (\<open>GenerateSABSubBlock\<close>). The results: an accepted
  entry is appended to its superframe and the table stays sorted; purging keeps every entry in
  use, in its order, but takes only every other one of neighbouring deallocated entries, so that
  repeated purging clears the table in logarithmically many rounds; a sub-block has exactly the
  bits of the slots asked for.
\<close>

subsection \<open>The table\<close>

type_synonym act_table = "(u16 \<times> macDSMEACTEntity list) list"

text \<open>\<open>m_macDsmeACT[superframeID]\<close>, where an absent vector is an empty one, and \<open>[idx]\<close> of it.\<close>

definition act_vector :: "act_table \<Rightarrow> u16 \<Rightarrow> macDSMEACTEntity list" where
  "act_vector t sf = (case map_of t sf of None \<Rightarrow> [] | Some es \<Rightarrow> es)"

definition act_get :: "act_table \<Rightarrow> u16 \<Rightarrow> int \<Rightarrow> macDSMEACTEntity option" where
  "act_get t sf idx = (
     if 0 \<le> idx \<and> idx < int (length (act_vector t sf)) then Some (act_vector t sf ! nat idx) else None)"

fun act_put :: "u16 \<Rightarrow> macDSMEACTEntity list \<Rightarrow> act_table \<Rightarrow> act_table" where
  "act_put sf es [] = [(sf, es)]"
| "act_put sf es ((k, ks) # t) = (
     if sf < k then (sf, es) # (k, ks) # t
     else if sf = k then (sf, es) # t
     else (k, ks) # act_put sf es t)"

definition LrWpanMac_AddDsmeACTEntity :: "u16 \<Rightarrow> macDSMEACTEntity \<Rightarrow> LrWpanMac \<Rightarrow> LrWpanMac option" where
  "LrWpanMac_AddDsmeACTEntity superframeID entity m = (
     if m_numOfMultisuperframes m = 0 then None
     else if ucast superframeID \<ge> m_numOfSuperframes m div ucast (m_numOfMultisuperframes m) then None
     else if (if m_macCAPReductionFlag m then act_slotID entity \<ge> 15 else act_slotID entity \<ge> 7) then None
     else Some (m\<lparr>m_macDsmeACT := act_put superframeID (act_vector (m_macDsmeACT m) superframeID @ [entity]) (m_macDsmeACT m)\<rparr>))"

text \<open>The inner loop of \<open>PurgeDsmeACT\<close>: an element that moves into the place of an erased one is skipped.\<close>

function purge_loop :: "nat \<Rightarrow> macDSMEACTEntity list \<Rightarrow> macDSMEACTEntity list" where
  "purge_loop i es = (
     if i < length es
     then purge_loop (i + 1) (if act_deallocated (es ! i) then take i es @ drop (i + 1) es else es)
     else es)"
  by auto

termination by (relation "measure (\<lambda>(i, es). length es - i)") auto

definition LrWpanMac_PurgeDsmeACT :: "LrWpanMac \<Rightarrow> LrWpanMac" where
  "LrWpanMac_PurgeDsmeACT m = m\<lparr>m_macDsmeACT := map (\<lambda>(sf, es). (sf, purge_loop 0 es)) (m_macDsmeACT m)\<rparr>"

subsection \<open>Sizes\<close>

text \<open>\<open>1 << (a - b)\<close> on \<open>int\<close>.\<close>

definition shl_diff :: "u8 \<Rightarrow> u8 \<Rightarrow> cint option" where
  "shl_diff a b = (if uint a < uint b then None else shl32 1 (nat (uint a - uint b)))"

definition LrWpanMac_ResizeMacDSMESAB :: "bool \<Rightarrow> u8 \<Rightarrow> u8 \<Rightarrow> LrWpanMac \<Rightarrow> LrWpanMac option" where
  "LrWpanMac_ResizeMacDSMESAB capReduction bcnOrder sfrmOrd m = do {
     n \<leftarrow> shl_diff bcnOrder sfrmOrd;
     Some (if capReduction then m\<lparr>m_macDSMESAB := resize 0 (unat (scast n :: u64)) (m_macDSMESAB m)\<rparr>
           else m\<lparr>m_macDSMESABCapOff := resize 0 (unat (scast n :: u64)) (m_macDSMESABCapOff m)\<rparr>) }"

definition LrWpanMac_ResizeScheduleGTSsEvent :: "u8 \<Rightarrow> u8 \<Rightarrow> u8 \<Rightarrow> LrWpanMac \<Rightarrow> LrWpanMac option" where
  "LrWpanMac_ResizeScheduleGTSsEvent bcnOrder multisfrmOrd sfrmOrd m = do {
     a \<leftarrow> shl_diff bcnOrder multisfrmOrd;
     b \<leftarrow> shl_diff bcnOrder sfrmOrd;
     let m = m\<lparr>m_numOfMultisuperframes := a, m_numOfSuperframes := scast b\<rparr>;
     Some (m\<lparr>m_scheduleGTSsEvent :=
       resize [] (unat (m_numOfSuperframes m div ucast (m_numOfMultisuperframes m))) (m_scheduleGTSsEvent m)\<rparr>) }"

definition LrWpanMac_GetNumOfMultisuperframesInABeaconInterval :: "LrWpanMac \<Rightarrow> u32" where
  [class_defs]: "LrWpanMac_GetNumOfMultisuperframesInABeaconInterval m = m_numOfMultisuperframes m"

definition LrWpanMac_GetNumOfSuperframesInABeaconInterval :: "LrWpanMac \<Rightarrow> u64" where
  [class_defs]: "LrWpanMac_GetNumOfSuperframesInABeaconInterval m = m_numOfSuperframes m"

subsection \<open>Sub-blocks\<close>

fun sab_loop :: "u8 \<Rightarrow> nat list \<Rightarrow> 'a::len word \<Rightarrow> 'a word option" where
  "sab_loop slotID [] subBlk = Some subBlk"
| "sab_loop slotID (i # rest) subBlk = do {
     slot \<leftarrow> shl32 1 (unat slotID + i);
     sab_loop slotID rest (subBlk OR ucast slot) }"

definition LrWpanMac_GenerateSABSubBlock :: "u8 \<Rightarrow> u8 \<Rightarrow> u8 option" where
  "LrWpanMac_GenerateSABSubBlock slotID numSlot = do {
     slot \<leftarrow> shl32 1 (unat slotID);
     sab_loop slotID [1..<unat numSlot] (0 OR ucast slot) }"

definition LrWpanMac_GenerateSABSubBlockCapOn :: "u8 \<Rightarrow> u8 \<Rightarrow> u16 option" where
  "LrWpanMac_GenerateSABSubBlockCapOn slotID numSlot = do {
     slot \<leftarrow> shl32 1 (unat slotID);
     sab_loop slotID [1..<unat numSlot] (0 OR ucast slot) }"

subsection \<open>Adding entries\<close>

definition act_sorted :: "act_table \<Rightarrow> bool" where
  "act_sorted t \<longleftrightarrow> sorted_wrt (<) (map fst t)"

lemma act_put_keys: "set (map fst (act_put sf es t)) = insert sf (set (map fst t))"
  by (induction t rule: act_put.induct) auto

lemma act_put_sorted: "act_sorted t \<Longrightarrow> act_sorted (act_put sf es t)"
  unfolding act_sorted_def
proof (induction t)
  case (Cons p t)
  obtain k ks where p: "p = (k, ks)" by (cases p)
  show ?case
    using Cons act_put_keys [of sf es t] by (auto simp: p intro: less_trans)
qed simp

lemma act_put_vector: "act_sorted t \<Longrightarrow> act_vector (act_put sf es t) k = (if k = sf then es else act_vector t k)"
proof (induction t)
  case (Cons p t)
  obtain k' ks where p: "p = (k', ks)" by (cases p)
  then have "act_sorted t" "\<forall>x \<in> set (map fst t). k' < x" using Cons.prems by (simp_all add: act_sorted_def)
  then show ?case
    using Cons.IH by (auto simp: p act_vector_def split: option.splits dest!: weak_map_of_SomeI)
qed (simp add: act_vector_def)

text \<open>An entry is accepted exactly when its superframe and slot exist, and is then the last of its superframe.\<close>

definition act_accepts :: "LrWpanMac \<Rightarrow> u16 \<Rightarrow> macDSMEACTEntity \<Rightarrow> bool" where
  "act_accepts m sf e \<longleftrightarrow> unat sf < unat (m_numOfSuperframes m) div unat (m_numOfMultisuperframes m) \<and>
     act_slotID e < (if m_macCAPReductionFlag m then 15 else 7)"

lemma AddDsmeACTEntity_spec:
  assumes "act_sorted (m_macDsmeACT m)"
  shows "LrWpanMac_AddDsmeACTEntity sf e m = None \<longleftrightarrow> \<not> act_accepts m sf e"
    and "LrWpanMac_AddDsmeACTEntity sf e m = Some m' \<Longrightarrow> act_sorted (m_macDsmeACT m') \<and>
      act_vector (m_macDsmeACT m') k = act_vector (m_macDsmeACT m) k @ (if k = sf then [e] else [])"
proof -
  have le: "ucast sf \<ge> m_numOfSuperframes m div ucast (m_numOfMultisuperframes m) \<longleftrightarrow>
      unat (m_numOfSuperframes m) div unat (m_numOfMultisuperframes m) \<le> unat sf"
    by (simp add: word_le_nat_alt unat_div unat_ucast_up)
  have z: "m_numOfMultisuperframes m = 0 \<longleftrightarrow> unat (m_numOfMultisuperframes m) = 0" by (simp add: unat_eq_0)
  show "LrWpanMac_AddDsmeACTEntity sf e m = None \<longleftrightarrow> \<not> act_accepts m sf e"
    unfolding LrWpanMac_AddDsmeACTEntity_def act_accepts_def le z
    by (cases "unat (m_numOfMultisuperframes m) = 0") (simp_all add: not_less)
  assume "LrWpanMac_AddDsmeACTEntity sf e m = Some m'"
  then have "m' = m\<lparr>m_macDsmeACT := act_put sf (act_vector (m_macDsmeACT m) sf @ [e]) (m_macDsmeACT m)\<rparr>"
    by (simp add: LrWpanMac_AddDsmeACTEntity_def split: if_splits)
  then show "act_sorted (m_macDsmeACT m') \<and>
      act_vector (m_macDsmeACT m') k = act_vector (m_macDsmeACT m) k @ (if k = sf then [e] else [])"
    using assms by (simp add: act_put_sorted act_put_vector)
qed

subsection \<open>Purging\<close>

text \<open>The loop without indices.\<close>

fun purge :: "macDSMEACTEntity list \<Rightarrow> macDSMEACTEntity list" where
  "purge [] = []"
| "purge [e] = (if act_deallocated e then [] else [e])"
| "purge (e # e' # es) = (if act_deallocated e then e' # purge es else e # purge (e' # es))"

declare purge_loop.simps [simp del]

lemma purge_Cons: "\<not> act_deallocated e \<Longrightarrow> purge (e # es) = e # purge es"
  by (cases es) simp_all

lemma purge_loop_purge: "purge_loop i es = take i es @ purge (drop i es)"
proof (induction i es rule: purge_loop.induct)
  case (1 i es)
  show ?case
  proof (cases "i < length es")
    case True
    then have d: "drop i es = es ! i # drop (i + 1) es" by (simp add: Cons_nth_drop_Suc)
    show ?thesis
    proof (cases "act_deallocated (es ! i)")
      case dead: True
      have "purge_loop i es = take (i + 1) (take i es @ drop (i + 1) es) @ purge (drop (i + 1) (take i es @ drop (i + 1) es))"
        using 1 True dead by (subst purge_loop.simps) simp
      also have "\<dots> = take i es @ purge (drop i es)"
        using True dead unfolding d by (cases "drop (i + 1) es") simp_all
      finally show ?thesis .
    next
      case False
      have "purge_loop i es = take (i + 1) es @ purge (drop (i + 1) es)"
        using 1 True False by (subst purge_loop.simps) simp
      also have "\<dots> = take i es @ purge (drop i es)"
        using True unfolding d by (simp add: purge_Cons [OF False] take_Suc_conv_app_nth)
      finally show ?thesis .
    qed
  qed (simp add: purge_loop.simps)
qed

lemma purge_keeps: "filter (\<lambda>e. \<not> act_deallocated e) (purge es) = filter (\<lambda>e. \<not> act_deallocated e) es"
  by (induction es rule: purge.induct) auto

lemma purge_halves: "2 * length (filter act_deallocated (purge es)) \<le> length (filter act_deallocated es)"
  by (induction es rule: purge.induct) auto

lemma purge_isolated:
  "successively (\<lambda>e e'. \<not> (act_deallocated e \<and> act_deallocated e')) es \<Longrightarrow> purge es = filter (\<lambda>e. \<not> act_deallocated e) es"
  by (induction es rule: purge.induct) (auto simp: successively_Cons split: if_splits)

lemma purge_rounds:
  "length (filter act_deallocated es) < 2 ^ n \<Longrightarrow> (purge ^^ n) es = filter (\<lambda>e. \<not> act_deallocated e) es"
proof (induction n arbitrary: es)
  case 0
  then have "filter act_deallocated es = []" by simp
  then have "\<forall>e \<in> set es. \<not> act_deallocated e" by (simp add: filter_empty_conv)
  then show ?case by simp
next
  case (Suc n)
  have "length (filter act_deallocated (purge es)) < 2 ^ n" using purge_halves [of es] Suc.prems by simp
  then show ?case using Suc.IH [of "purge es"] by (simp add: funpow_swap1 purge_keeps)
qed

lemma map_of_map_snd: "map_of (map (\<lambda>(k, v). (k, f v)) t) k = map_option f (map_of t k)"
  by (induction t) auto

lemma PurgeDsmeACT_vector: "act_vector (m_macDsmeACT (LrWpanMac_PurgeDsmeACT m)) k = purge (act_vector (m_macDsmeACT m) k)"
  by (simp add: LrWpanMac_PurgeDsmeACT_def act_vector_def map_of_map_snd purge_loop_purge split: option.splits)

lemma PurgeDsmeACT_rounds:
  "act_vector (m_macDsmeACT ((LrWpanMac_PurgeDsmeACT ^^ n) m)) k = (purge ^^ n) (act_vector (m_macDsmeACT m) k)"
  by (induction n) (simp_all add: PurgeDsmeACT_vector)

subsection \<open>The bits of a sub-block\<close>

lemma sab_loop_spec:
  "\<forall>i \<in> set is. unat s + i < 32 \<Longrightarrow> \<exists>r. sab_loop s is b = Some r \<and>
    (\<forall>k. bit r k \<longleftrightarrow> bit b k \<or> k < LENGTH('a) \<and> k < 32 \<and> (\<exists>i \<in> set is. k = unat s + i))" for b :: "'a::len word"
proof (induction "is" arbitrary: b)
  case (Cons i "is")
  have "\<exists>r. sab_loop s is (b OR ucast (push_bit (unat s + i) 1 :: cint)) = Some r \<and>
      (\<forall>k. bit r k \<longleftrightarrow> bit (b OR ucast (push_bit (unat s + i) 1 :: cint)) k \<or>
        k < LENGTH('a) \<and> k < 32 \<and> (\<exists>i \<in> set is. k = unat s + i))"
    by (rule Cons.IH) (use Cons.prems in simp)
  then show ?case using Cons.prems by (auto simp: shl32_def bit_simps)
qed simp

lemma sab_block_spec:
  assumes "unat s + unat n \<le> 32" and "unat s < 32"
  shows "\<exists>r :: 'a::len word. do { slot \<leftarrow> shl32 1 (unat s); sab_loop s [1..<unat n] (0 OR ucast slot) } = Some r \<and>
    (\<forall>k. bit r k \<longleftrightarrow> k < LENGTH('a) \<and> unat s \<le> k \<and> k < unat s + max 1 (unat n))"
proof -
  have "\<forall>i \<in> set [1..<unat n]. unat s + i < 32" using assms by auto
  from sab_loop_spec [OF this, of "ucast (push_bit (unat s) 1 :: cint) :: 'a word"] obtain r where
    r: "sab_loop s [1..<unat n] (ucast (push_bit (unat s) 1 :: cint) :: 'a word) = Some r"
    "\<forall>k. bit r k \<longleftrightarrow> bit (ucast (push_bit (unat s) 1 :: cint) :: 'a word) k \<or>
      k < LENGTH('a) \<and> k < 32 \<and> (\<exists>i \<in> set [1..<unat n]. k = unat s + i)" by blast
  have "bit r k \<longleftrightarrow> k < LENGTH('a) \<and> unat s \<le> k \<and> k < unat s + max 1 (unat n)" for k
  proof -
    have "(\<exists>i \<in> set [1..<unat n]. k = unat s + i) \<longleftrightarrow> unat s < k \<and> k < unat s + unat n"
    proof
      assume "unat s < k \<and> k < unat s + unat n"
      then show "\<exists>i \<in> set [1..<unat n]. k = unat s + i" by (intro bexI [of _ "k - unat s"]) auto
    qed auto
    moreover have "bit (ucast (push_bit (unat s) 1 :: cint) :: 'a word) k \<longleftrightarrow> k < LENGTH('a) \<and> k = unat s"
      using assms(2) by (auto simp: bit_simps)
    ultimately have "bit r k \<longleftrightarrow> k < LENGTH('a) \<and> (k = unat s \<or> k < 32 \<and> unat s < k \<and> k < unat s + unat n)"
      using r(2) by blast
    then show ?thesis using assms(1) by linarith
  qed
  then show ?thesis using r(1) assms(2) by (intro exI [of _ r]) (simp add: shl32_def)
qed

end
