(* ===== verification/Mac_Queue.thy ===== *)
theory Mac_Queue
  imports Dsme_Table
begin

section \<open>The transmit queue and the state machine of the MAC\<close>

text \<open>
  The functions of \<open>lr-wpan-mac.cc\<close> that change the state of the MAC and move packets from the
  transmit queue to the PHY: \<open>ChangeMacState\<close>, \<open>SetLrWpanMacState\<close>, \<open>SetLrWpanMacStateToGTS\<close>,
  \<open>EnqueueTxQElement\<close>, \<open>RemoveFirstTxQElement\<close>, \<open>CheckQueue\<close>, \<open>IfsWaitTimeout\<close>,
  \<open>RemovePendTxQElement\<close>, \<open>PlmeSetTRXStateConfirm\<close>, and the sizes of the packet being sent. A
  call of the PHY is recorded; its confirmation is an operation of its own.
\<close>

subsection \<open>State changes\<close>

definition LrWpanMac_ChangeMacState :: "LrWpanMacState \<Rightarrow> mac_world \<Rightarrow> mac_world" where
  [class_defs]: "LrWpanMac_ChangeMacState newState w = mac_upd (\<lambda>m. m\<lparr>m_lrWpanMacState := newState\<rparr>) w"

definition LrWpanMac_SetLrWpanMacState :: "LrWpanMacState \<Rightarrow> mac_world \<Rightarrow> mac_world option" where
  "LrWpanMac_SetLrWpanMacState macState w = (
     if macState = MAC_IDLE then
       let w = LrWpanMac_ChangeMacState MAC_IDLE w
       in if m_macRxOnWhenIdle (mac w) then Some (mac_emit (PlmeSetTRXStateRequest IEEE_802_15_4_PHY_RX_ON) w)
          else Some (mac_emit (PlmeSetTRXStateRequest IEEE_802_15_4_PHY_TRX_OFF) w)
     else if macState = MAC_ACK_PENDING then
       let w = LrWpanMac_ChangeMacState MAC_ACK_PENDING w
       in Some (mac_emit (PlmeSetTRXStateRequest IEEE_802_15_4_PHY_RX_ON) w)
     else if macState = MAC_CSMA then
       if m_lrWpanMacState (mac w) = MAC_IDLE \<or> m_lrWpanMacState (mac w) = MAC_ACK_PENDING then
         let w = LrWpanMac_ChangeMacState MAC_CSMA w
         in Some (mac_emit (PlmeSetTRXStateRequest IEEE_802_15_4_PHY_RX_ON) w)
       else None
     else if m_lrWpanMacState (mac w) = MAC_CSMA \<and> macState = CHANNEL_IDLE then
       let w = LrWpanMac_ChangeMacState MAC_SENDING w
       in Some (mac_emit (PlmeSetTRXStateRequest IEEE_802_15_4_PHY_TX_ON) w)
     else if m_lrWpanMacState (mac w) = MAC_CSMA \<and> macState = MAC_CSMA_DEFERRED then
       let w = LrWpanMac_ChangeMacState MAC_IDLE w
       in Some (mac_upd (\<lambda>m. m\<lparr>m_txPkt := None\<rparr>) w)
     else Some w)"

definition LrWpanMac_SetLrWpanMacStateToGTS :: "u16 \<Rightarrow> int \<Rightarrow> mac_world \<Rightarrow> mac_world option" where
  "LrWpanMac_SetLrWpanMacStateToGTS superframeID idx w = do {
     let w = LrWpanMac_ChangeMacState MAC_GTS w;
     e \<leftarrow> act_get (m_macDsmeACT (mac w)) superframeID idx;
     if act_direction e \<noteq> 0 then Some (mac_emit (PlmeSetTRXStateRequest IEEE_802_15_4_PHY_RX_ON) w)
     else Some (mac_emit (PlmeSetTRXStateRequest IEEE_802_15_4_PHY_TX_ON) w) }"

subsection \<open>The queue\<close>

definition deref :: "nat option \<Rightarrow> mac_world \<Rightarrow> packet option" where
  "deref ptr w = map_option (pkts w) ptr"

definition LrWpanMac_EnqueueTxQElement :: "mac_env \<Rightarrow> TxQueueElement \<Rightarrow> mac_world \<Rightarrow> mac_world" where
  "LrWpanMac_EnqueueTxQElement env txQElement w = (
     if length (m_txQueue (mac w)) < unat (m_maxTxQueueSize (mac w)) then
       mac_upd (\<lambda>m. m\<lparr>m_txQueue := m_txQueue m @ [txQElement]\<rparr>) w
     else if env_dataConfirm env then
       mac_emit (McpsDataConfirm (txQMsduHandle txQElement) IEEE_802_15_4_TRANSACTION_OVERFLOW) w
     else w)"

text \<open>The header is read to decide on a trace; a packet without one does not survive this.\<close>

definition LrWpanMac_RemoveFirstTxQElement :: "mac_env \<Rightarrow> mac_world \<Rightarrow> mac_world option" where
  "LrWpanMac_RemoveFirstTxQElement env w = (case m_txQueue (mac w) of
     [] \<Rightarrow> None
   | txQElement # rest \<Rightarrow> do {
       p \<leftarrow> deref (txQPkt txQElement) w;
       hdr \<leftarrow> mac_peek env p;
       Some (mac_upd (\<lambda>m. m\<lparr>m_txQueue := rest, m_txPkt := None, m_retransmission := 0, m_numCsmacaRetry := 0\<rparr>) w) })"

definition LrWpanMac_CheckQueue :: "mac_world \<Rightarrow> mac_world option" where
  "LrWpanMac_CheckQueue w = (
     let m = mac w in
     if m_lrWpanMacState m = MAC_IDLE \<and> m_txQueue m \<noteq> [] \<and> \<not> mac_running (m_setMacState m) w then
       if LrWpanCsmaCa_IsUnSlottedCsmaCa (m_csmaCa m) \<or> m_outSuperframeStatus m = CAP \<and> m_coord m \<or> m_incSuperframeStatus m = CAP then
         if \<not> mac_running (m_ifsEvent m) w then
           let txQElement = hd (m_txQueue m);
               w = mac_upd (\<lambda>m. m\<lparr>m_txPkt := txQPkt txQElement\<rparr>) w
           in mac_sched 0 (SetLrWpanMacState MAC_CSMA) (\<lambda>k m. m\<lparr>m_setMacState := k\<rparr>) w
         else Some w
       else Some w
     else Some w)"

text \<open>The first indirect element for the destination and sequence number of a frame is taken out.\<close>

fun remove_pending :: "mac16 \<Rightarrow> u8 \<Rightarrow> IndTxQueueElement list \<Rightarrow> IndTxQueueElement list" where
  "remove_pending dst sn [] = []"
| "remove_pending dst sn (it # rest) = (
     if dstShortAddress it = dst \<and> seqNum it = sn then rest
     else it # remove_pending dst sn rest)"

definition LrWpanMac_RemovePendTxQElement :: "mac_env \<Rightarrow> nat option \<Rightarrow> mac_world \<Rightarrow> mac_world option" where
  "LrWpanMac_RemovePendTxQElement env ptr w = do {
     p \<leftarrow> deref ptr w;
     peekedMacHdr \<leftarrow> mac_peek env p;
     Some (if LrWpanMacHeader_GetDstAddrMode peekedMacHdr = SHORTADDR then
             mac_upd (\<lambda>m. m\<lparr>m_indTxQueue := remove_pending (LrWpanMacHeader_GetShortDstAddr peekedMacHdr)
               (LrWpanMacHeader_GetSeqNum peekedMacHdr) (m_indTxQueue m)\<rparr>) w
           else w) }"

subsection \<open>The packet being sent\<close>

definition aMaxSIFSFrameSize :: nat where
  [class_defs]: "aMaxSIFSFrameSize = 18"

definition LrWpanMac_GetIfsSize :: "mac_world \<Rightarrow> u32 option" where
  "LrWpanMac_GetIfsSize w = do {
     p \<leftarrow> deref (m_txPkt (mac w)) w;
     Some (if length p \<le> aMaxSIFSFrameSize then m_macSIFSPeriod (mac w) else m_macLIFSPeriod (mac w)) }"

definition octet_symbols :: "mac_env \<Rightarrow> nat \<Rightarrow> u64" where
  "octet_symbols env n = of_int (uint (env_phySHRDuration env) +
     (1 + int n) * fst (env_symbolsPerOctet env) div snd (env_symbolsPerOctet env))"

definition LrWpanMac_GetTxPacketSymbols :: "mac_env \<Rightarrow> mac_world \<Rightarrow> u64 option" where
  "LrWpanMac_GetTxPacketSymbols env w = do {
     p \<leftarrow> deref (m_txPkt (mac w)) w;
     Some (octet_symbols env (length p)) }"

definition LrWpanMac_isTxAckReq :: "mac_env \<Rightarrow> mac_world \<Rightarrow> bool option" where
  "LrWpanMac_isTxAckReq env w = do {
     p \<leftarrow> deref (m_txPkt (mac w)) w;
     macHdr \<leftarrow> mac_peek env p;
     Some (LrWpanMacHeader_IsAckReq macHdr) }"

subsection \<open>Interframe spacing\<close>

text \<open>More packets are sent in a GTS: the state goes back to \<open>MAC_GTS\<close>, and with forwarding the
  next short enough packet of the queue is sent.\<close>

definition ifs_in_gts :: "mac_world \<Rightarrow> mac_world" where
  "ifs_in_gts w = (
     if mac_running (m_incGtsEvent (mac w)) w \<or> mac_running (m_gtsEvent (mac w)) w \<and> m_lrWpanMacState (mac w) = MAC_ACK_PENDING
     then LrWpanMac_ChangeMacState MAC_GTS w else w)"

definition ifs_forward :: "mac_world \<Rightarrow> mac_world option" where
  "ifs_forward w = (
     if (mac_running (m_incGtsEvent (mac w)) w \<or> mac_running (m_gtsEvent (mac w)) w) \<and> m_lrWpanMacState (mac w) = MAC_GTS then
       if m_enhancedGTSForwarding (mac w) \<and> m_txQueue (mac w) \<noteq> [] then do {
         let w = mac_upd (\<lambda>m. m\<lparr>m_txPkt := txQPkt (hd (m_txQueue m))\<rparr>) w;
         p \<leftarrow> deref (m_txPkt (mac w)) w;
         if length p \<le> 70 then
           Some (mac_emit (PlmeSetTRXStateRequest IEEE_802_15_4_PHY_TX_ON) (LrWpanMac_ChangeMacState MAC_GTS_SENDING w))
         else Some w }
       else Some w
     else Some w)"

definition LrWpanMac_IfsWaitTimeout :: "mac_env \<Rightarrow> int \<Rightarrow> mac_world \<Rightarrow> mac_world option" where
  "LrWpanMac_IfsWaitTimeout env ifsTime w = do {
     let lifsTime = Seconds (uint (m_macLIFSPeriod (mac w))) (env_symbolRate env);
     let sifsTime = Seconds (uint (m_macSIFSPeriod (mac w))) (env_symbolRate env);
     w \<leftarrow> (if ifsTime = lifsTime then ifs_forward (ifs_in_gts w)
           else if ifsTime = sifsTime then Some (ifs_in_gts w)
           else Some w);
     LrWpanMac_CheckQueue w }"

subsection \<open>The transceiver\<close>

text \<open>
  A frame that is sent in a GTS is taken apart and put together again, so that the time stamp of
  a DSME information reply is that of its transmission. The trailer object is the one that was
  read.
\<close>

definition LrWpanMac_Retime :: "mac_env \<Rightarrow> int \<Rightarrow> packet \<Rightarrow> packet option" where
  "LrWpanMac_Retime env now p = do {
     (macTrailer, n, p) \<leftarrow> RemoveTrailer LrWpanMacTrailer_Deserialize LrWpanMacTrailer_new p;
     (macHdr, n, p) \<leftarrow> RemoveHeader (LrWpanMacHeader_Deserialize (env_rtl env)) (LrWpanMacHeader_new (env_mem env)) p;
     p \<leftarrow> (if LrWpanMacHeader_IsCommand macHdr then do {
         cmdPayload \<leftarrow> CommandPayloadHeader_new (env_cmdMem env);
         (cmdPayload, n, p) \<leftarrow> RemoveHeader CommandPayloadHeader_Deserialize cmdPayload p;
         let cmdPayload = (if CommandPayloadHeader_GetCommandFrameType cmdPayload = DSME_INFO_REPLY
                             \<and> CommandPayloadHeader_GetDsmeInfoType cmdPayload = 0
                           then CommandPayloadHeader_SetDsmeInfoTimestamp (of_int now) cmdPayload else cmdPayload);
         AddHeader (env_room env (CommandPayloadHeader_GetSerializedSize cmdPayload)) CommandPayloadHeader_Serialize cmdPayload p }
       else Some p);
     p \<leftarrow> AddHeader (env_room env (LrWpanMacHeader_GetSerializedSize macHdr)) LrWpanMacHeader_Serialize macHdr p;
     macTrailer \<leftarrow> (if env_checksum env then LrWpanMacTrailer_SetFcs p (LrWpanMacTrailer_EnableFcs True macTrailer)
                   else Some macTrailer);
     AddTrailer (env_room env (LrWpanMacTrailer_GetSerializedSize macTrailer)) LrWpanMacTrailer_Serialize macTrailer p }"

definition LrWpanMac_PlmeSetTRXStateConfirm :: "mac_env \<Rightarrow> LrWpanPhyEnumeration \<Rightarrow> mac_world \<Rightarrow> mac_world option" where
  "LrWpanMac_PlmeSetTRXStateConfirm env status w = (
     let state = m_lrWpanMacState (mac w);
         tx = (status = IEEE_802_15_4_PHY_TX_ON \<or> status = IEEE_802_15_4_PHY_SUCCESS);
         rx = (status = IEEE_802_15_4_PHY_RX_ON \<or> status = IEEE_802_15_4_PHY_SUCCESS) in
     if state = MAC_SENDING \<and> tx then do {
       p \<leftarrow> deref (m_txPkt (mac w)) w;
       Some (mac_emit (PdDataRequest p) w) }
     else if state = MAC_GTS_SENDING \<and> tx then do {
       a \<leftarrow> m_txPkt (mac w);
       p \<leftarrow> LrWpanMac_Retime env (Simulator_Now (msim w)) (pkts w a);
       Some (mac_emit (PdDataRequest p) (w\<lparr>pkts := (pkts w)(a := p)\<rparr>)) }
     else if state = MAC_CSMA \<and> rx then Some (mac_emit CsmaStart w)
     else if state = MAC_IDLE then
       if rx \<or> status = IEEE_802_15_4_PHY_TRX_OFF then
         if status = IEEE_802_15_4_PHY_RX_ON \<and> mac_running (m_scanEnergyEvent (mac w)) w then Some (mac_emit PlmeEdRequest w)
         else if rx then LrWpanMac_CheckQueue w
         else Some w
       else None
     else if state = MAC_ACK_PENDING then if rx then Some w else None
     else if state = MAC_GTS then if rx \<or> status = IEEE_802_15_4_PHY_TX_ON then Some w else None
     else if state = MAC_GTS_SENDING \<and> \<not> mac_running (m_gtsEvent (mac w)) w \<and> \<not> mac_running (m_incGtsEvent (mac w)) w then Some w
     else None)"

end
