(* ===== verification/Dsme_Schedule.thy ===== *)
theory Dsme_Schedule
  imports Mac_Queue Csma_Contention
begin

section \<open>Scheduling the guaranteed time slots\<close>

text \<open>
  \<open>ScheduleGts\<close>, \<open>StartGTS\<close> and \<open>EndGTS\<close> of \<open>lr-wpan-mac.cc\<close>: after a beacon every new entry
  of the allocation counter table gets an event at the start of its slot; the event schedules
  itself again one multi-superframe later, hops to the channel of the slot, turns the transceiver
  on and schedules the end of the slot. Durations in symbols wrap at 32 bits as in the code, the sum in the
  channel formula stays far below the range of \<open>int\<close>.
\<close>

subsection \<open>ScheduleGts\<close>

text \<open>The time from now to the start of a slot; a device subtracts the time since it received the beacon.\<close>

definition gts_start :: "mac_env \<Rightarrow> mac_world \<Rightarrow> macDSMEACTEntity \<Rightarrow> int" where
  "gts_start env w e = (
     let m = mac w;
         sec = (\<lambda>n :: u32. Seconds (uint n) (env_symbolRate env)) in
     if m_coord m then
       let each = m_superframeDuration m div 16;
           superframe_time = sec (ucast (act_superframeID e) * m_superframeDuration m);
           cfp_time = sec (each * ucast (act_slotID e))
       in if m_macCAPReductionFlag m then superframe_time + sec (each * 1) + cfp_time
          else superframe_time + sec (each * (ucast (m_fnlCapSlot m) + 1)) + cfp_time
     else
       let each = m_incomingSuperframeDuration m div 16;
           superframe_time = sec (ucast (act_superframeID e) * m_incomingSuperframeDuration m);
           since = Simulator_Now (msim w) - m_macBeaconRxTime m;
           cfp_time = sec (each * ucast (act_slotID e))
       in if m_macCAPReductionFlag m then superframe_time + (sec (each * 1) - since) + cfp_time
          else superframe_time + (sec (each * (ucast (m_incomingFnlCapSlot m) + 1)) - since) + cfp_time)"

definition gts_type :: "macDSMEACTEntity \<Rightarrow> SuperframeType" where
  [class_defs]: "gts_type e = (if act_direction e \<noteq> 0 then INCOMING else OUTGOING)"

text \<open>\<open>m_scheduleGTSsEvent[superframeID].push_back (m_gtsSchedulingEvent)\<close>.\<close>

definition push_gts_event :: "u16 \<Rightarrow> mac_world \<Rightarrow> mac_world option" where
  "push_gts_event sf w = (
     let evs = m_scheduleGTSsEvent (mac w) in
     case m_gtsSchedulingEvent (mac w) of
       Some k \<Rightarrow> if unat sf < length evs then
           Some (mac_upd (\<lambda>m. m\<lparr>m_scheduleGTSsEvent := evs[unat sf := evs ! unat sf @ [k]]\<rparr>) w) else None
     | None \<Rightarrow> None)"

fun schedule_vector :: "mac_env \<Rightarrow> int \<Rightarrow> macDSMEACTEntity list \<Rightarrow> mac_world \<Rightarrow> (macDSMEACTEntity list \<times> mac_world) option" where
  "schedule_vector env i [] w = Some ([], w)"
| "schedule_vector env i (e # es) w = (
     if \<not> act_allocated e then do {
       w \<leftarrow> mac_sched (gts_start env w e) (StartGTS (gts_type e) (act_superframeID e) i)
              (\<lambda>k m. m\<lparr>m_gtsSchedulingEvent := k\<rparr>) w;
       w \<leftarrow> push_gts_event (act_superframeID e) w;
       (es', w) \<leftarrow> schedule_vector env (i + 1) es w;
       Some (e\<lparr>act_allocated := True\<rparr> # es', w) }
     else do {
       (es', w) \<leftarrow> schedule_vector env (i + 1) es w;
       Some (e # es', w) })"

fun schedule_table :: "mac_env \<Rightarrow> act_table \<Rightarrow> mac_world \<Rightarrow> (act_table \<times> mac_world) option" where
  "schedule_table env [] w = Some ([], w)"
| "schedule_table env ((sf, es) # t) w = do {
     (es', w) \<leftarrow> schedule_vector env 0 es w;
     (t', w) \<leftarrow> schedule_table env t w;
     Some ((sf, es') # t', w) }"

definition LrWpanMac_ScheduleGts :: "mac_env \<Rightarrow> bool \<Rightarrow> mac_world \<Rightarrow> mac_world option" where
  "LrWpanMac_ScheduleGts env indication w = (
     if m_coord (mac w) \<and> indication then Some w
     else if m_panCoor (mac w) then Some w
     else do {
       (t, w) \<leftarrow> schedule_table env (m_macDsmeACT (mac w)) w;
       Some (mac_upd (\<lambda>m. m\<lparr>m_macDsmeACT := t\<rparr>) w) })"

subsection \<open>StartGTS\<close>

definition gts_channel :: "LrWpanMac \<Rightarrow> macDSMEACTEntity \<Rightarrow> u16 option" where
  "gts_channel m e = (
     if m_numOfChannels m = 0 then None
     else
       let ch = (if m_forDsmeNetDeviceIntegrateWithHigerLayer m
             then (uint (act_channelID e) + uint (act_slotID e)) mod uint (m_numOfChannels m)
             else
               let cfpSlotNum = (if m_macCAPReductionFlag m \<and> m_curGTSSuperframeID m \<noteq> 0 then 15 else 7)
               in (uint (m_curGTSSuperframeID m) * cfpSlotNum + uint (act_slotID e) + uint (act_channelID e) +
                   uint (m_macPANCoordinatorBSN m)) mod uint (m_numOfChannels m))
       in Some (of_int ch + 11))"

definition gts_end :: "mac_env \<Rightarrow> LrWpanMac \<Rightarrow> macDSMEACTEntity \<Rightarrow> int" where
  "gts_end env m e = (
     let activeSlot = (if m_coord m then m_superframeDuration m div 16 else m_incomingSuperframeDuration m div 16);
         gtsDuration = activeSlot * ucast (act_numSlot e)
     in if act_slotID e = 6 \<or> act_slotID e = 14 then Seconds (uint gtsDuration) (env_symbolRate env) - 10
        else Seconds (uint gtsDuration) (env_symbolRate env) - 1)"

text \<open>What is sent in the slot: the first packet of the queue, when forwarding is on, then the GTS packet.\<close>

definition gts_send :: "mac_world \<Rightarrow> mac_world" where
  "gts_send w = (
     let w = (if m_txQueue (mac w) \<noteq> [] \<and> m_gtsContinuePktSendingFromCap (mac w)
              then mac_upd (\<lambda>m. m\<lparr>m_txPkt := txQPkt (hd (m_txQueue m))\<rparr>) w else w);
         w = (if m_txPkt (mac w) \<noteq> None \<and> m_gtsContinuePktSendingFromCap (mac w)
              then mac_emit (PlmeSetTRXStateRequest IEEE_802_15_4_PHY_TX_ON) (LrWpanMac_ChangeMacState MAC_GTS_SENDING w) else w)
     in if m_txPktGts (mac w) \<noteq> None
        then mac_emit (PlmeSetTRXStateRequest IEEE_802_15_4_PHY_TX_ON)
               (LrWpanMac_ChangeMacState MAC_GTS_SENDING (mac_upd (\<lambda>m. m\<lparr>m_txPkt := m_txPktGts m\<rparr>) w))
        else w)"

definition ENHANCED_GROUP_ACK_FIRST_SLOT :: u8 where
  [class_defs]: "ENHANCED_GROUP_ACK_FIRST_SLOT = 6"

definition ENHANCED_GROUP_ACK_SECOND_SLOT :: u8 where
  [class_defs]: "ENHANCED_GROUP_ACK_SECOND_SLOT = 14"

text \<open>The group acknowledgement goes out three milliseconds into its slot.\<close>

definition gts_group_ack :: "macDSMEACTEntity \<Rightarrow> mac_world \<Rightarrow> mac_world option" where
  "gts_group_ack e w = (case m_groupAckPolicy (mac w) of
     GROUP_ACK_LEGACY \<Rightarrow>
       if act_slotID e = GroupACK_GetGACK1SlotID (m_legacyGroupAck (mac w)) \<or> act_slotID e = GroupACK_GetGACK2SlotID (m_legacyGroupAck (mac w)) then
         if act_direction e = 0 \<and> m_coord (mac w) then do {
           w \<leftarrow> mac_sched 3000000 SendLegacyGroupAck (\<lambda>k m. m) w;
           Some (mac_upd (\<lambda>m. m\<lparr>m_groupAck := (m_groupAck m)\<lparr>m_legacyGackIndexCounter := 0\<rparr>\<rparr>) w) }
         else Some w
       else Some w
   | GROUP_ACK_ENHANCED \<Rightarrow>
       if act_slotID e = ENHANCED_GROUP_ACK_FIRST_SLOT \<or> act_slotID e = ENHANCED_GROUP_ACK_SECOND_SLOT then
         if act_direction e = 0 then mac_sched 3000000 SendEnhancedGroupAck (\<lambda>k m. m) w else Some w
       else Some w
   | _ \<Rightarrow> Some w)"

definition LrWpanMac_StartGTS :: "mac_env \<Rightarrow> SuperframeType \<Rightarrow> u16 \<Rightarrow> int \<Rightarrow> mac_world \<Rightarrow> mac_world option" where
  "LrWpanMac_StartGTS env superframeType superframeID idx w = do {
     e \<leftarrow> act_get (m_macDsmeACT (mac w)) superframeID idx;
     if act_deallocated e then Some w
     else if act_expired e then Some w
     else do {
       let w = mac_upd (\<lambda>m. m\<lparr>m_curGTSSuperframeID := superframeID, m_curGTSIdx := idx, m_currentGTSIdx := ucast (act_slotID e)\<rparr>) w;
       w \<leftarrow> (if act_allocated e then
               mac_sched (Seconds (uint (if m_coord (mac w) then m_multiSuperframeDuration (mac w)
                                         else m_incomingMultisuperframeDuration (mac w))) (env_symbolRate env))
                 (StartGTS (gts_type e) (act_superframeID e) idx) (\<lambda>k m. m\<lparr>m_gtsSchedulingEvent := k\<rparr>) w
             else Some w);
       w \<leftarrow> mac_sched (gts_end env (mac w) e) (EndGTS superframeType)
              (\<lambda>k m. if superframeType = OUTGOING then m\<lparr>m_gtsEvent := k\<rparr> else m\<lparr>m_incGtsEvent := k\<rparr>) w;
       ch \<leftarrow> gts_channel (mac w) e;
       let w = mac_emit (SetCurrentChannel (ucast ch)) w;
       w \<leftarrow> LrWpanMac_SetLrWpanMacStateToGTS superframeID idx w;
       let w = gts_send w;
       gts_group_ack e w } }"

definition LrWpanMac_EndGTS :: "SuperframeType \<Rightarrow> mac_world \<Rightarrow> mac_world option" where
  "LrWpanMac_EndGTS superframeType w = do {
     let w = mac_emit (SetCurrentChannel (m_originalChannelInCAP (mac w))) w;
     let w = (if m_lrWpanMacState (mac w) = MAC_ACK_PENDING then mac_cancel (m_ackWaitTimeout (mac w)) w else w);
     let w = mac_cancel (m_setMacState (mac w)) w;
     w \<leftarrow> mac_sched 0 (SetLrWpanMacState MAC_IDLE) (\<lambda>k m. m\<lparr>m_setMacState := k\<rparr>) w;
     let w = mac_upd (\<lambda>m. m\<lparr>m_txPkt := None, m_txPktGts := None\<rparr>) w;
     Some (mac_emit CancelPdDataRequest w) }"

subsection \<open>Every new entry is scheduled once\<close>

text \<open>The part of the world that scheduling the table reads stays as it is.\<close>

definition gts_same :: "mac_world \<Rightarrow> mac_world \<Rightarrow> bool" where
  "gts_same w v \<longleftrightarrow> m_currentTs (msim v) = m_currentTs (msim w) \<and>
     (\<forall>env e. gts_start env v e = gts_start env w e) \<and>
     length (m_scheduleGTSsEvent (mac v)) = length (m_scheduleGTSsEvent (mac w))"

definition gts_ready :: "mac_env \<Rightarrow> mac_world \<Rightarrow> macDSMEACTEntity \<Rightarrow> bool" where
  "gts_ready env w e \<longleftrightarrow> 0 \<le> gts_start env w e \<and> unat (act_superframeID e) < length (m_scheduleGTSsEvent (mac w))"

lemma gts_same_trans: "gts_same u v \<Longrightarrow> gts_same v w \<Longrightarrow> gts_same u w"
  by (simp add: gts_same_def)

lemma gts_same_ready: "gts_same w v \<Longrightarrow> gts_ready env v e = gts_ready env w e"
  by (simp add: gts_same_def gts_ready_def)

lemma gts_same_sched:
  "m_currentTs t = m_currentTs (msim w) \<Longrightarrow> length evs = length (m_scheduleGTSsEvent (mac w)) \<Longrightarrow>
   gts_same w (w\<lparr>msim := t, mac := mac w\<lparr>m_gtsSchedulingEvent := k, m_scheduleGTSsEvent := evs\<rparr>\<rparr>)"
  by (simp add: gts_same_def gts_start_def Simulator_Now_def Let_def)

text \<open>The calls for the new entries of a vector, with their times.\<close>

definition vector_starts :: "mac_env \<Rightarrow> mac_world \<Rightarrow> int \<Rightarrow> macDSMEACTEntity list \<Rightarrow> (int \<times> mac_call) set" where
  "vector_starts env w i es = {(Simulator_Now (msim w) + gts_start env w (es ! n),
     StartGTS (gts_type (es ! n)) (act_superframeID (es ! n)) (i + int n)) | n. n < length es \<and> \<not> act_allocated (es ! n)}"

definition timed :: "'c Simulator \<Rightarrow> (int \<times> 'c) set" where
  "timed s = (\<lambda>(k, c). (int (fst k), c)) ` pending s"

lemma vector_starts_Nil [simp]: "vector_starts env w i [] = {}"
  by (simp add: vector_starts_def)

lemma vector_starts_Cons:
  "vector_starts env w i (e # es) = (if act_allocated e then {} else
     {(Simulator_Now (msim w) + gts_start env w e, StartGTS (gts_type e) (act_superframeID e) i)}) \<union>
   vector_starts env w (i + 1) es"
proof -
  have "(\<exists>n. P n \<and> n < length (e # es) \<and> \<not> act_allocated ((e # es) ! n)) \<longleftrightarrow>
      P 0 \<and> \<not> act_allocated e \<or> (\<exists>n. P (Suc n) \<and> n < length es \<and> \<not> act_allocated (es ! n))" for P
    by (auto simp: less_Suc_eq_0_disj)
  then show ?thesis
    unfolding vector_starts_def set_eq_iff mem_Collect_eq Un_iff by (auto simp: algebra_simps)
qed

lemma gts_same_starts: "gts_same w v \<Longrightarrow> vector_starts env v i es = vector_starts env w i es"
  by (simp add: vector_starts_def gts_same_def Simulator_Now_def)

lemma schedule_vector_spec:
  "sim_ok (msim w) \<Longrightarrow> \<forall>e \<in> set es. \<not> act_allocated e \<longrightarrow> gts_ready env w e \<Longrightarrow>
   \<exists>v. schedule_vector env i es w = Some (map (\<lambda>e. e\<lparr>act_allocated := True\<rparr>) es, v) \<and> sim_ok (msim v) \<and> gts_same w v \<and>
     m_macDsmeACT (mac v) = m_macDsmeACT (mac w) \<and> mouts v = mouts w \<and>
     timed (msim v) = timed (msim w) \<union> vector_starts env w i es"
proof (induction es arbitrary: i w)
  case (Cons e es)
  show ?case
  proof (cases "act_allocated e")
    case True
    obtain v where v: "schedule_vector env (i + 1) es w = Some (map (\<lambda>e. e\<lparr>act_allocated := True\<rparr>) es, v)" "sim_ok (msim v)"
      "gts_same w v" "m_macDsmeACT (mac v) = m_macDsmeACT (mac w)" "mouts v = mouts w"
      "timed (msim v) = timed (msim w) \<union> vector_starts env w (i + 1) es"
      using Cons.IH [of w "i + 1"] Cons.prems by auto
    have "e\<lparr>act_allocated := True\<rparr> = e" using True by (cases e) simp
    with True v show ?thesis by (intro exI [of _ v]) (simp add: vector_starts_Cons)
  next
    case False
    let ?c = "StartGTS (gts_type e) (act_superframeID e) i"
    have ready: "0 \<le> gts_start env w e" "unat (act_superframeID e) < length (m_scheduleGTSsEvent (mac w))"
      using Cons.prems(2) False by (simp_all add: gts_ready_def)
    obtain k t where t: "mac_sched (gts_start env w e) ?c (\<lambda>k m. m\<lparr>m_gtsSchedulingEvent := k\<rparr>) w =
        Some (w\<lparr>msim := t, mac := mac w\<lparr>m_gtsSchedulingEvent := Some k\<rparr>\<rparr>)" "sim_ok t"
      "fst k = nat (gts_start env w e) + m_currentTs (msim w)" "m_currentTs t = m_currentTs (msim w)"
      "pending t = insert (k, ?c) (pending (msim w))"
      using mac_sched_ok [OF Cons.prems(1) ready(1), of ?c "\<lambda>k m. m\<lparr>m_gtsSchedulingEvent := k\<rparr>"] by blast
    let ?evs = "(m_scheduleGTSsEvent (mac w))[unat (act_superframeID e) := m_scheduleGTSsEvent (mac w) ! unat (act_superframeID e) @ [k]]"
    let ?u = "w\<lparr>msim := t, mac := mac w\<lparr>m_gtsSchedulingEvent := Some k, m_scheduleGTSsEvent := ?evs\<rparr>\<rparr>"
    have same: "gts_same w ?u" by (rule gts_same_sched) (simp_all add: t(4))
    have push: "push_gts_event (act_superframeID e) (w\<lparr>msim := t, mac := mac w\<lparr>m_gtsSchedulingEvent := Some k\<rparr>\<rparr>) = Some ?u"
      using ready(2) by (simp add: push_gts_event_def class_defs Let_def)
    have "\<forall>e \<in> set es. \<not> act_allocated e \<longrightarrow> gts_ready env ?u e"
      using Cons.prems(2) by (simp add: gts_same_ready [OF same])
    then obtain v where v: "schedule_vector env (i + 1) es ?u = Some (map (\<lambda>e. e\<lparr>act_allocated := True\<rparr>) es, v)" "sim_ok (msim v)"
      "gts_same ?u v" "m_macDsmeACT (mac v) = m_macDsmeACT (mac ?u)" "mouts v = mouts ?u"
      "timed (msim v) = timed (msim ?u) \<union> vector_starts env ?u (i + 1) es"
      using Cons.IH [of ?u "i + 1"] t(2) by auto
    have new: "timed t = insert (Simulator_Now (msim w) + gts_start env w e, ?c) (timed (msim w))"
      using t(3) ready(1) by (simp add: timed_def t(5) Simulator_Now_def add.commute)
    show ?thesis
    proof (intro exI conjI)
      show "schedule_vector env i (e # es) w = Some (map (\<lambda>e. e\<lparr>act_allocated := True\<rparr>) (e # es), v)"
        using False v(1) by (simp add: t(1) push)
      show "timed (msim v) = timed (msim w) \<union> vector_starts env w i (e # es)"
        using False new unfolding v(6) gts_same_starts [OF same] vector_starts_Cons by auto
      show "gts_same w v" by (rule gts_same_trans [OF same v(3)])
    qed (use v in simp_all)
  qed
qed (simp add: gts_same_def)


definition table_starts :: "mac_env \<Rightarrow> mac_world \<Rightarrow> act_table \<Rightarrow> (int \<times> mac_call) set" where
  "table_starts env w t = (\<Union>(sf, es) \<in> set t. vector_starts env w 0 es)"

definition all_allocated :: "act_table \<Rightarrow> act_table" where
  "all_allocated t = map (\<lambda>(sf, es). (sf, map (\<lambda>e. e\<lparr>act_allocated := True\<rparr>) es)) t"

lemma schedule_table_spec:
  "sim_ok (msim w) \<Longrightarrow> \<forall>(sf, es) \<in> set t. \<forall>e \<in> set es. \<not> act_allocated e \<longrightarrow> gts_ready env w e \<Longrightarrow>
   \<exists>v. schedule_table env t w = Some (all_allocated t, v) \<and> sim_ok (msim v) \<and> gts_same w v \<and> mouts v = mouts w \<and>
     timed (msim v) = timed (msim w) \<union> table_starts env w t"
proof (induction t arbitrary: w)
  case (Cons p t)
  obtain sf es where p: "p = (sf, es)" by (cases p)
  obtain u where u: "schedule_vector env 0 es w = Some (map (\<lambda>e. e\<lparr>act_allocated := True\<rparr>) es, u)" "sim_ok (msim u)"
    "gts_same w u" "mouts u = mouts w" "timed (msim u) = timed (msim w) \<union> vector_starts env w 0 es"
    using schedule_vector_spec [OF Cons.prems(1), of es env 0] Cons.prems(2) p by auto
  have "\<forall>(sf, es) \<in> set t. \<forall>e \<in> set es. \<not> act_allocated e \<longrightarrow> gts_ready env u e"
    using Cons.prems(2) by (auto simp: gts_same_ready [OF u(3)])
  then obtain v where v: "schedule_table env t u = Some (all_allocated t, v)" "sim_ok (msim v)" "gts_same u v" "mouts v = mouts u"
    "timed (msim v) = timed (msim u) \<union> table_starts env u t"
    using Cons.IH [OF u(2)] by blast
  have "table_starts env u t = table_starts env w t"
    by (simp add: table_starts_def gts_same_starts [OF u(3)])
  then show ?case
    using u v gts_same_trans [OF u(3) v(3)] by (intro exI [of _ v]) (auto simp: p all_allocated_def table_starts_def)
qed (simp add: gts_same_def all_allocated_def table_starts_def)

lemma table_starts_allocated: "table_starts env w (all_allocated t) = {}"
  by (auto simp: table_starts_def all_allocated_def vector_starts_def)

text \<open>
  So a call adds exactly the starts of the new entries and marks them; calling it again at once
  adds nothing.
\<close>

lemma ScheduleGts_spec:
  assumes "sim_ok (msim w)" and "\<not> (m_coord (mac w) \<and> indication)" and "\<not> m_panCoor (mac w)"
    and "\<forall>(sf, es) \<in> set (m_macDsmeACT (mac w)). \<forall>e \<in> set es. \<not> act_allocated e \<longrightarrow> gts_ready env w e"
  shows "\<exists>v. LrWpanMac_ScheduleGts env indication w = Some v \<and> sim_ok (msim v) \<and> mouts v = mouts w \<and>
    m_macDsmeACT (mac v) = all_allocated (m_macDsmeACT (mac w)) \<and>
    timed (msim v) = timed (msim w) \<union> table_starts env w (m_macDsmeACT (mac w)) \<and>
    table_starts env v (m_macDsmeACT (mac v)) = {}"
proof -
  obtain v where v: "schedule_table env (m_macDsmeACT (mac w)) w = Some (all_allocated (m_macDsmeACT (mac w)), v)"
    "sim_ok (msim v)" "mouts v = mouts w" "timed (msim v) = timed (msim w) \<union> table_starts env w (m_macDsmeACT (mac w))"
    using schedule_table_spec [OF assms(1,4)] by blast
  then show ?thesis
    unfolding LrWpanMac_ScheduleGts_def if_not_P [OF assms(2)] if_not_P [OF assms(3)]
    by (intro exI [of _ "mac_upd (\<lambda>m. m\<lparr>m_macDsmeACT := all_allocated (m_macDsmeACT (mac w))\<rparr>) v"])
      (simp add: class_defs table_starts_allocated)
qed

subsection \<open>Where the slots lie\<close>

definition gts_duration :: "LrWpanMac \<Rightarrow> u32" where
  "gts_duration m = (if m_coord m then m_superframeDuration m else m_incomingSuperframeDuration m)"

definition gts_first :: "LrWpanMac \<Rightarrow> nat" where
  "gts_first m = (if m_macCAPReductionFlag m then 1
     else unat (if m_coord m then m_fnlCapSlot m else m_incomingFnlCapSlot m) + 1)"

text \<open>The position of a slot in symbols from the beacon of the multi-superframe, and the reference time.\<close>

definition gts_symbols :: "LrWpanMac \<Rightarrow> macDSMEACTEntity \<Rightarrow> nat" where
  "gts_symbols m e = unat (act_superframeID e) * unat (gts_duration m) +
     unat (gts_duration m) div 16 * (gts_first m + unat (act_slotID e))"

definition gts_reference :: "mac_world \<Rightarrow> int" where
  "gts_reference w = (if m_coord (mac w) then Simulator_Now (msim w) else m_macBeaconRxTime (mac w))"

text \<open>A slot that lies within its superframe, with products that fit 32 bits.\<close>

definition gts_fits :: "LrWpanMac \<Rightarrow> macDSMEACTEntity \<Rightarrow> bool" where
  "gts_fits m e \<longleftrightarrow> gts_first m + unat (act_slotID e) + unat (act_numSlot e) \<le> 16 \<and>
     (unat (act_superframeID e) + 1) * unat (gts_duration m) < 2 ^ 32"

definition rate_ok :: "mac_env \<Rightarrow> bool" where
  "rate_ok env \<longleftrightarrow> 0 < env_symbolRate env \<and> env_symbolRate env dvd 10 ^ 9"

definition tick :: "mac_env \<Rightarrow> int" where
  "tick env = int (10 ^ 9 div env_symbolRate env)"

lemma unat_ucast8_32 [simp]: "unat (ucast (x :: u8) :: u32) = unat x" and unat_ucast16_32 [simp]: "unat (ucast (y :: u16) :: u32) = unat y"
  by (simp_all add: unat_ucast_up)

lemma mult_nowrap: "unat a * unat b < 2 ^ 32 \<Longrightarrow> unat (a * b) = unat a * unat b" for a b :: u32
  using iffD1 [OF unat_mult_lem, of a b] by simp

lemma sixteenths: "unat (d div 16) * k \<le> unat d" if "k \<le> 16" for d :: u32 and k :: nat
proof -
  have "unat (d div 16) * k \<le> unat d div 16 * 16" using that by (simp add: unat_div)
  also have "\<dots> \<le> unat d" by simp
  finally show ?thesis .
qed

lemma gts_products:
  assumes "gts_fits m e"
  shows "unat (ucast (act_superframeID e) * gts_duration m) = unat (act_superframeID e) * unat (gts_duration m)"
    and "unat (gts_duration m div 16 * ucast (act_slotID e)) = unat (gts_duration m) div 16 * unat (act_slotID e)"
    and "unat (gts_duration m div 16 * ucast (act_numSlot e)) = unat (gts_duration m) div 16 * unat (act_numSlot e)"
    and "k < 256 \<Longrightarrow> k + 1 \<le> gts_first m \<Longrightarrow> unat (gts_duration m div 16 * (of_nat k + 1)) = unat (gts_duration m) div 16 * (k + 1)"
proof -
  have d: "unat (gts_duration m) < 2 ^ 32" using unsigned_less [of "gts_duration m", where ?'a = nat] by simp
  have small: "unat (gts_duration m div 16) * k < 2 ^ 32" if "k \<le> 16" for k
    using sixteenths [OF that, of "gts_duration m"] d by linarith
  have le: "gts_first m + unat (act_slotID e) + unat (act_numSlot e) \<le> 16" using assms by (simp add: gts_fits_def)
  have "unat (act_superframeID e) * unat (gts_duration m) < 2 ^ 32" using assms by (simp add: gts_fits_def)
  then show "unat (ucast (act_superframeID e) * gts_duration m) = unat (act_superframeID e) * unat (gts_duration m)"
    by (subst mult_nowrap) simp_all
  show "unat (gts_duration m div 16 * ucast (act_slotID e)) = unat (gts_duration m) div 16 * unat (act_slotID e)"
    using small [of "unat (act_slotID e)"] le by (subst mult_nowrap) (simp_all add: unat_div)
  show "unat (gts_duration m div 16 * ucast (act_numSlot e)) = unat (gts_duration m) div 16 * unat (act_numSlot e)"
    using small [of "unat (act_numSlot e)"] le by (subst mult_nowrap) (simp_all add: unat_div)
  assume k: "k < 256" "k + 1 \<le> gts_first m"
  then have u: "unat (of_nat k + 1 :: u32) = k + 1" by (simp add: unat_word_ariths unat_of_nat)
  show "unat (gts_duration m div 16 * (of_nat k + 1)) = unat (gts_duration m) div 16 * (k + 1)"
    using small [of "k + 1"] le k by (subst mult_nowrap) (simp_all add: u unat_div)
qed


lemma Seconds_tick: "rate_ok env \<Longrightarrow> Seconds n (env_symbolRate env) = n * tick env"
  by (simp add: rate_ok_def tick_def Seconds_exact)

lemma tick_pos: "rate_ok env \<Longrightarrow> 0 < tick env"
  using dvd_imp_le [of "env_symbolRate env" "10 ^ 9"] by (simp add: rate_ok_def tick_def div_greater_zero_iff)

text \<open>
  With exact times the start of a slot is its position after the reference: the beacon as the
  coordinator sent it, or as the device received it.
\<close>

lemma gts_products_int:
  assumes "gts_fits m e"
  shows "uint (ucast (act_superframeID e) * gts_duration m) = uint (act_superframeID e) * uint (gts_duration m)"
    and "uint (gts_duration m div 16 * ucast (act_slotID e)) = uint (gts_duration m) div 16 * uint (act_slotID e)"
    and "uint (gts_duration m div 16 * ucast (act_numSlot e)) = uint (gts_duration m) div 16 * uint (act_numSlot e)"
    and "uint f + 1 \<le> int (gts_first m) \<Longrightarrow>
      uint (gts_duration m div 16 * (ucast (f :: u8) + 1)) = uint (gts_duration m) div 16 * (uint f + 1)"
proof -
  note prods = gts_products [OF assms]
  show "uint (ucast (act_superframeID e) * gts_duration m) = uint (act_superframeID e) * uint (gts_duration m)"
    using arg_cong [OF prods(1), of int] by simp
  show "uint (gts_duration m div 16 * ucast (act_slotID e)) = uint (gts_duration m) div 16 * uint (act_slotID e)"
    using arg_cong [OF prods(2), of int] by (simp add: zdiv_int)
  show "uint (gts_duration m div 16 * ucast (act_numSlot e)) = uint (gts_duration m) div 16 * uint (act_numSlot e)"
    using arg_cong [OF prods(3), of int] by (simp add: zdiv_int)
  assume f: "uint f + 1 \<le> int (gts_first m)"
  have "unat f < 256" using unsigned_less [of f, where ?'a = nat] by simp
  moreover have "unat f + 1 \<le> gts_first m" using f by (simp only: of_nat_le_iff [symmetric, where ?'a = int] of_nat_add of_nat_1 of_nat_unat)
  ultimately have "unat (gts_duration m div 16 * (of_nat (unat f) + 1)) = unat (gts_duration m) div 16 * (unat f + 1)" by (rule prods(4))
  then have "int (unat (gts_duration m div 16 * (ucast f + 1))) = int (unat (gts_duration m) div 16 * (unat f + 1))" by simp
  then show "uint (gts_duration m div 16 * (ucast f + 1)) = uint (gts_duration m) div 16 * (uint f + 1)"
    by (simp add: zdiv_int distrib_left)
qed

lemma gts_symbols_int:
  "int (gts_symbols m e) = uint (act_superframeID e) * uint (gts_duration m) +
     uint (gts_duration m) div 16 * (int (gts_first m) + uint (act_slotID e))"
  by (simp add: gts_symbols_def zdiv_int)

lemma gts_start_exact:
  assumes "rate_ok env" and "gts_fits (mac w) e"
  shows "Simulator_Now (msim w) + gts_start env w e = gts_reference w + int (gts_symbols (mac w) e) * tick env"
proof -
  let ?m = "mac w"
  let ?f = "if m_coord ?m then m_fnlCapSlot ?m else m_incomingFnlCapSlot ?m"
  let ?first = "if m_macCAPReductionFlag ?m then gts_duration ?m div 16 * 1 else gts_duration ?m div 16 * (ucast ?f + 1)"
  have first: "uint ?first = uint (gts_duration ?m) div 16 * int (gts_first ?m)"
  proof (cases "m_macCAPReductionFlag ?m")
    case False
    then show ?thesis using gts_products_int(4) [OF assms(2), of ?f] by (simp add: gts_first_def)
  qed (simp add: gts_first_def uint_div)
  have start: "gts_start env w e =
      Seconds (uint (ucast (act_superframeID e) * gts_duration ?m)) (env_symbolRate env) +
      Seconds (uint ?first) (env_symbolRate env) + Seconds (uint (gts_duration ?m div 16 * ucast (act_slotID e))) (env_symbolRate env) -
      (Simulator_Now (msim w) - gts_reference w)"
    by (simp add: gts_start_def gts_duration_def gts_reference_def Let_def)
  show ?thesis
    unfolding start first gts_products_int(1,2) [OF assms(2)] Seconds_tick [OF assms(1)] gts_symbols_int
    by (simp only: distrib_left distrib_right mult.assoc)
qed

lemma gts_end_exact:
  assumes "rate_ok env" and "gts_fits m e"
  shows "gts_end env m e =
    int (unat (gts_duration m) div 16 * unat (act_numSlot e)) * tick env - (if act_slotID e = 6 \<or> act_slotID e = 14 then 10 else 1)"
proof -
  have d: "(if m_coord m then m_superframeDuration m div 16 else m_incomingSuperframeDuration m div 16) = gts_duration m div 16"
    by (simp add: gts_duration_def)
  have n: "int (unat (gts_duration m) div 16 * unat (act_numSlot e)) = uint (gts_duration m) div 16 * uint (act_numSlot e)"
    by (simp add: zdiv_int)
  show ?thesis
    unfolding gts_end_def d Let_def Seconds_tick [OF assms(1)] gts_products_int(3) [OF assms(2)] n by simp
qed

text \<open>Of two slots that do not share a place, one ends before the other starts.\<close>

definition gts_before :: "macDSMEACTEntity \<Rightarrow> macDSMEACTEntity \<Rightarrow> bool" where
  "gts_before e e' \<longleftrightarrow> act_superframeID e < act_superframeID e' \<or>
     act_superframeID e = act_superframeID e' \<and> unat (act_slotID e) + unat (act_numSlot e) \<le> unat (act_slotID e')"

lemma gts_symbols_order:
  assumes "gts_fits m e" and "gts_before e e'"
  shows "gts_symbols m e + unat (gts_duration m) div 16 * unat (act_numSlot e) \<le> gts_symbols m e'"
proof -
  let ?D = "unat (gts_duration m)" and ?L = "unat (gts_duration m) div 16"
  let ?a = "gts_first m + unat (act_slotID e)" and ?n = "unat (act_numSlot e)"
  show ?thesis
  proof (cases "act_superframeID e = act_superframeID e'")
    case True
    then have "?a + ?n \<le> gts_first m + unat (act_slotID e')" using assms(2) by (simp add: gts_before_def)
    then have "?L * (?a + ?n) \<le> ?L * (gts_first m + unat (act_slotID e'))" by (rule mult_le_mono2)
    then show ?thesis by (simp add: gts_symbols_def True algebra_simps)
  next
    case False
    then have "unat (act_superframeID e) + 1 \<le> unat (act_superframeID e')"
      using assms(2) by (simp add: gts_before_def word_less_nat_alt)
    then have "(unat (act_superframeID e) + 1) * ?D \<le> unat (act_superframeID e') * ?D" by (rule mult_le_mono1)
    moreover have "?L * (?a + ?n) \<le> ?L * 16" using assms(1) by (intro mult_le_mono2) (simp add: gts_fits_def)
    moreover have "?L * 16 \<le> ?D" by simp
    ultimately show ?thesis unfolding gts_symbols_def by (simp add: algebra_simps)
  qed
qed

lemma gts_disjoint:
  assumes "rate_ok env" and "gts_fits (mac w) e" and "gts_fits (mac w) e'" and "gts_before e e'"
  shows "gts_start env w e + gts_end env (mac w) e < gts_start env w e'"
proof -
  have "int (gts_symbols (mac w) e) + int (unat (gts_duration (mac w)) div 16 * unat (act_numSlot e)) \<le> int (gts_symbols (mac w) e')"
    using gts_symbols_order [OF assms(2,4)] by (simp only: of_nat_add [symmetric] of_nat_le_iff)
  then have "(int (gts_symbols (mac w) e) + int (unat (gts_duration (mac w)) div 16 * unat (act_numSlot e))) * tick env
      \<le> int (gts_symbols (mac w) e') * tick env"
    using tick_pos [OF assms(1)] by (intro mult_right_mono) simp_all
  then have "gts_start env w e + int (unat (gts_duration (mac w)) div 16 * unat (act_numSlot e)) * tick env \<le> gts_start env w e'"
    using gts_start_exact [OF assms(1,2)] gts_start_exact [OF assms(1,3)] by (simp only: distrib_right)
  then show ?thesis by (simp add: gts_end_exact [OF assms(1,2)])
qed

subsection \<open>The two ends of a slot\<close>

text \<open>
  What a coordinator and its device have to agree on for an entry: the superframe structure, the
  hopping parameters and the place of the slot.
\<close>

definition gts_agree :: "LrWpanMac \<Rightarrow> LrWpanMac \<Rightarrow> bool" where
  "gts_agree m m' \<longleftrightarrow> gts_duration m = gts_duration m' \<and> gts_first m = gts_first m' \<and>
     m_macCAPReductionFlag m = m_macCAPReductionFlag m' \<and> m_curGTSSuperframeID m = m_curGTSSuperframeID m' \<and>
     m_numOfChannels m = m_numOfChannels m' \<and> m_macPANCoordinatorBSN m = m_macPANCoordinatorBSN m' \<and>
     m_forDsmeNetDeviceIntegrateWithHigerLayer m = m_forDsmeNetDeviceIntegrateWithHigerLayer m'"

definition gts_same_place :: "macDSMEACTEntity \<Rightarrow> macDSMEACTEntity \<Rightarrow> bool" where
  "gts_same_place e e' \<longleftrightarrow> act_superframeID e = act_superframeID e' \<and> act_slotID e = act_slotID e' \<and>
     act_channelID e = act_channelID e'"

lemma gts_rendezvous:
  assumes "rate_ok env" and "gts_fits (mac w) e" and "gts_fits (mac w') e'" and "gts_agree (mac w) (mac w')" and "gts_same_place e e'"
    and "gts_reference w = gts_reference w'"
  shows "Simulator_Now (msim w) + gts_start env w e = Simulator_Now (msim w') + gts_start env w' e' \<and>
    gts_channel (mac w) e = gts_channel (mac w') e'"
proof -
  have "gts_symbols (mac w) e = gts_symbols (mac w') e'"
    using assms(4,5) by (simp add: gts_symbols_def gts_agree_def gts_same_place_def)
  then show ?thesis
    using gts_start_exact [OF assms(1,2)] gts_start_exact [OF assms(1,3)] assms(4-6)
    by (simp add: gts_channel_def gts_agree_def gts_same_place_def)
qed

text \<open>The channels are those of the band.\<close>

lemma gts_channel_band:
  assumes "0 < m_numOfChannels m" and "m_numOfChannels m \<le> 16"
  shows "\<exists>ch. gts_channel m e = Some ch \<and> 11 \<le> ch \<and> ch \<le> 26"
proof -
  have "m_numOfChannels m \<noteq> 0" using assms(1) by auto
  then have "\<exists>x. gts_channel m e = Some (of_int (x mod uint (m_numOfChannels m)) + 11)"
    unfolding gts_channel_def Let_def by (cases "m_forDsmeNetDeviceIntegrateWithHigerLayer m") (simp_all only: if_False if_True, blast+)
  then obtain x where ch: "gts_channel m e = Some (of_int (x mod uint (m_numOfChannels m)) + 11)" by blast
  have n: "0 < uint (m_numOfChannels m)" "uint (m_numOfChannels m) \<le> 16"
    using assms by (simp_all add: word_less_alt word_le_def)
  let ?y = "x mod uint (m_numOfChannels m)"
  have y: "0 \<le> ?y" "?y < 16" using n pos_mod_bound [OF n(1), of x] by (simp_all del: pos_mod_bound)
  have "uint (of_int ?y + 11 :: u16) = ?y + 11"
    using y by (simp add: uint_word_ariths unsigned_of_int take_bit_int_eq_self)
  then show ?thesis using ch y by (simp add: word_le_def)
qed

text \<open>With CAP reduction the slots of the first superframe start right after the beacon slot, inside its CAP.\<close>

lemma gts_in_cap:
  assumes "rate_ok env" and "gts_fits (mac w) e" and "m_coord (mac w)" and "m_macCAPReductionFlag (mac w)"
    and "act_superframeID e = 0" and "act_slotID e < m_fnlCapSlot (mac w)" and "16 \<le> m_superframeDuration (mac w)"
  shows "gts_start env w e < int (unat (m_superframeDuration (mac w)) div 16 * (unat (m_fnlCapSlot (mac w)) + 1)) * tick env"
proof -
  let ?L = "unat (m_superframeDuration (mac w)) div 16"
  have L: "0 < ?L" using assms(7) by (simp add: word_le_nat_alt div_greater_zero_iff)
  have "unat (act_slotID e) < unat (m_fnlCapSlot (mac w))" using assms(6) by (simp add: word_less_nat_alt)
  then have "?L * (1 + unat (act_slotID e)) < ?L * (unat (m_fnlCapSlot (mac w)) + 1)" using L by (intro mult_strict_left_mono) simp_all
  then have "int (?L * (1 + unat (act_slotID e))) * tick env < int (?L * (unat (m_fnlCapSlot (mac w)) + 1)) * tick env"
    using tick_pos [OF assms(1)] by (intro mult_strict_right_mono) (simp_all only: of_nat_less_iff)
  then show ?thesis
    using gts_start_exact [OF assms(1,2)] assms(3-5)
    by (simp add: gts_reference_def gts_symbols_def gts_first_def gts_duration_def)
qed


subsection \<open>A slot comes back\<close>

lemma mac_sched_timed:
  assumes "sim_ok (msim w)" and "0 \<le> d"
  shows "\<exists>k t. mac_sched d c f w = Some (w\<lparr>msim := t, mac := f (Some k) (mac w)\<rparr>) \<and> sim_ok t \<and>
    m_currentTs t = m_currentTs (msim w) \<and> timed t = insert (Simulator_Now (msim w) + d, c) (timed (msim w))"
proof -
  obtain k t where t: "mac_sched d c f w = Some (w\<lparr>msim := t, mac := f (Some k) (mac w)\<rparr>)" "sim_ok t"
    "fst k = nat d + m_currentTs (msim w)" "m_currentTs t = m_currentTs (msim w)" "pending t = insert (k, c) (pending (msim w))"
    using mac_sched_ok [OF assms] by blast
  have "timed t = insert (Simulator_Now (msim w) + d, c) (timed (msim w))"
    using t(3) assms(2) by (simp add: timed_def t(5) Simulator_Now_def add.commute)
  with t show ?thesis by blast
qed

text \<open>Whether something is sent in the slot, and the parts of the world that sending leaves alone.\<close>

definition gts_has_packet :: "LrWpanMac \<Rightarrow> bool" where
  "gts_has_packet m \<longleftrightarrow> m_txPktGts m \<noteq> None \<or> m_gtsContinuePktSendingFromCap m \<and>
     (if m_txQueue m = [] then m_txPkt m \<noteq> None else txQPkt (hd (m_txQueue m)) \<noteq> None)"

lemma gts_send_keeps:
  "msim (gts_send w) = msim w" "m_macDsmeACT (mac (gts_send w)) = m_macDsmeACT (mac w)"
  "m_groupAckPolicy (mac (gts_send w)) = m_groupAckPolicy (mac w)"
  "m_lrWpanMacState (mac (gts_send w)) = (if gts_has_packet (mac w) then MAC_GTS_SENDING else m_lrWpanMacState (mac w))"
  by (auto simp: gts_send_def gts_has_packet_def class_defs Let_def)

lemma gts_group_ack_spec:
  assumes "sim_ok (msim w)"
  shows "\<exists>v. gts_group_ack e w = Some v \<and> sim_ok (msim v) \<and> timed (msim w) \<subseteq> timed (msim v) \<and>
    m_macDsmeACT (mac v) = m_macDsmeACT (mac w) \<and> m_lrWpanMacState (mac v) = m_lrWpanMacState (mac w)"
proof -
  obtain k t where t: "mac_sched 3000000 SendLegacyGroupAck (\<lambda>k m. m) w = Some (w\<lparr>msim := t, mac := mac w\<rparr>)" "sim_ok t"
    "timed t = insert (Simulator_Now (msim w) + 3000000, SendLegacyGroupAck) (timed (msim w))"
    using mac_sched_timed [OF assms, of 3000000 SendLegacyGroupAck "\<lambda>k m. m"] by auto
  obtain k' t' where t': "mac_sched 3000000 SendEnhancedGroupAck (\<lambda>k m. m) w = Some (w\<lparr>msim := t', mac := mac w\<rparr>)" "sim_ok t'"
    "timed t' = insert (Simulator_Now (msim w) + 3000000, SendEnhancedGroupAck) (timed (msim w))"
    using mac_sched_timed [OF assms, of 3000000 SendEnhancedGroupAck "\<lambda>k m. m"] by auto
  show ?thesis
    using assms t t'
    by (cases "m_groupAckPolicy (mac w)") (simp_all add: gts_group_ack_def mac_upd_def, auto)
qed

lemma SetLrWpanMacStateToGTS_ok:
  "act_get (m_macDsmeACT (mac w)) sf idx = Some e \<Longrightarrow>
   \<exists>out. LrWpanMac_SetLrWpanMacStateToGTS sf idx w = Some (mac_emit out (LrWpanMac_ChangeMacState MAC_GTS w))"
  by (auto simp: LrWpanMac_SetLrWpanMacStateToGTS_def class_defs Let_def)

lemma mac_emit_mac [simp]: "mac (mac_emit out w) = mac w" "msim (mac_emit out w) = msim w"
  by (simp_all add: mac_emit_def)

lemma StartGTS_spec:
  assumes "sim_ok (msim w)" and "act_get (m_macDsmeACT (mac w)) sf idx = Some e" and "\<not> act_deallocated e" and "\<not> act_expired e"
    and "act_allocated e" and "0 \<le> gts_end env (mac w) e" and "m_numOfChannels (mac w) \<noteq> 0"
    and "period = Seconds (uint (if m_coord (mac w) then m_multiSuperframeDuration (mac w) else m_incomingMultisuperframeDuration (mac w))) (env_symbolRate env)"
    and "0 \<le> period"
  shows "\<exists>v. LrWpanMac_StartGTS env ty sf idx w = Some v \<and> sim_ok (msim v) \<and> m_macDsmeACT (mac v) = m_macDsmeACT (mac w) \<and>
    timed (msim w) \<subseteq> timed (msim v) \<and>
    (Simulator_Now (msim w) + period, StartGTS (gts_type e) (act_superframeID e) idx) \<in> timed (msim v) \<and>
    (Simulator_Now (msim w) + gts_end env (mac w) e, EndGTS ty) \<in> timed (msim v) \<and>
    m_lrWpanMacState (mac v) = (if gts_has_packet (mac w) then MAC_GTS_SENDING else MAC_GTS)"
proof -
  let ?w1 = "mac_upd (\<lambda>m. m\<lparr>m_curGTSSuperframeID := sf, m_curGTSIdx := idx, m_currentGTSIdx := ucast (act_slotID e)\<rparr>) w"
  have w1: "msim ?w1 = msim w" "m_macDsmeACT (mac ?w1) = m_macDsmeACT (mac w)" "gts_end env (mac ?w1) e = gts_end env (mac w) e"
    "gts_has_packet (mac ?w1) = gts_has_packet (mac w)" "m_numOfChannels (mac ?w1) = m_numOfChannels (mac w)"
    "(if m_coord (mac ?w1) then m_multiSuperframeDuration (mac ?w1) else m_incomingMultisuperframeDuration (mac ?w1)) =
     (if m_coord (mac w) then m_multiSuperframeDuration (mac w) else m_incomingMultisuperframeDuration (mac w))"
    by (simp_all add: mac_upd_def gts_end_def gts_has_packet_def)
  obtain k2 t2 where t2: "mac_sched period (StartGTS (gts_type e) (act_superframeID e) idx) (\<lambda>k m. m\<lparr>m_gtsSchedulingEvent := k\<rparr>) ?w1 =
      Some (?w1\<lparr>msim := t2, mac := mac ?w1\<lparr>m_gtsSchedulingEvent := Some k2\<rparr>\<rparr>)" "sim_ok t2" "m_currentTs t2 = m_currentTs (msim w)"
    "timed t2 = insert (Simulator_Now (msim w) + period, StartGTS (gts_type e) (act_superframeID e) idx) (timed (msim w))"
    using mac_sched_timed [of ?w1 period "StartGTS (gts_type e) (act_superframeID e) idx" "\<lambda>k m. m\<lparr>m_gtsSchedulingEvent := k\<rparr>"]
      assms(1,9) unfolding w1 by blast
  let ?w2 = "?w1\<lparr>msim := t2, mac := mac ?w1\<lparr>m_gtsSchedulingEvent := Some k2\<rparr>\<rparr>"
  have w2: "gts_end env (mac ?w2) e = gts_end env (mac w) e" "Simulator_Now (msim ?w2) = Simulator_Now (msim w)"
    "m_numOfChannels (mac ?w2) = m_numOfChannels (mac w)" "gts_has_packet (mac ?w2) = gts_has_packet (mac w)"
    "m_macDsmeACT (mac ?w2) = m_macDsmeACT (mac w)"
    using t2(3) by (simp_all add: mac_upd_def gts_end_def Simulator_Now_def gts_has_packet_def)
  let ?f = "\<lambda>k m. if ty = OUTGOING then m\<lparr>m_gtsEvent := k\<rparr> else m\<lparr>m_incGtsEvent := k\<rparr>"
  obtain k3 t3 where t3: "mac_sched (gts_end env (mac ?w2) e) (EndGTS ty) ?f ?w2 = Some (?w2\<lparr>msim := t3, mac := ?f (Some k3) (mac ?w2)\<rparr>)"
    "sim_ok t3" "timed t3 = insert (Simulator_Now (msim w) + gts_end env (mac w) e, EndGTS ty) (timed t2)"
    using mac_sched_timed [of ?w2 "gts_end env (mac ?w2) e" "EndGTS ty" ?f] t2(2) assms(6) unfolding w2 by auto
  let ?w3 = "?w2\<lparr>msim := t3, mac := ?f (Some k3) (mac ?w2)\<rparr>"
  have w3: "gts_has_packet (mac ?w3) = gts_has_packet (mac w)" "m_macDsmeACT (mac ?w3) = m_macDsmeACT (mac w)"
    by (simp_all add: gts_has_packet_def mac_upd_def)
  have "m_numOfChannels (mac ?w3) \<noteq> 0" using assms(7) by (simp add: mac_upd_def)
  then obtain ch where ch: "gts_channel (mac ?w3) e = Some ch" by (simp add: gts_channel_def Let_def del: if_image_distrib)
  let ?w4 = "mac_emit (SetCurrentChannel (ucast ch)) ?w3"
  obtain out where g: "LrWpanMac_SetLrWpanMacStateToGTS sf idx ?w4 = Some (mac_emit out (LrWpanMac_ChangeMacState MAC_GTS ?w4))"
    using SetLrWpanMacStateToGTS_ok [of ?w4 sf idx e] assms(2) unfolding mac_emit_mac w3(2) by blast
  let ?w5 = "mac_emit out (LrWpanMac_ChangeMacState MAC_GTS ?w4)"
  have w5: "msim ?w5 = t3" "m_macDsmeACT (mac ?w5) = m_macDsmeACT (mac w)" "m_lrWpanMacState (mac ?w5) = MAC_GTS"
    "gts_has_packet (mac ?w5) = gts_has_packet (mac w)"
    using w3 by (simp_all add: class_defs gts_has_packet_def)
  obtain v where v: "gts_group_ack e (gts_send ?w5) = Some v" "sim_ok (msim v)" "timed t3 \<subseteq> timed (msim v)"
    "m_macDsmeACT (mac v) = m_macDsmeACT (mac w)" "m_lrWpanMacState (mac v) = (if gts_has_packet (mac w) then MAC_GTS_SENDING else MAC_GTS)"
    using gts_group_ack_spec [of "gts_send ?w5" e] t3(2) unfolding gts_send_keeps w5 by auto
  have "LrWpanMac_StartGTS env ty sf idx w = Some v"
    unfolding LrWpanMac_StartGTS_def assms(2) Let_def
    using assms(3-5) t2(1) t3(1) ch g v(1) by (simp add: w1(6) assms(8) [symmetric])
  then show ?thesis using v(2-5) t2(4) t3(3) by auto
qed

text \<open>
  Purging moves the entries behind a deallocated one, but not the indices in their events: the
  event of the last entry then looks behind the end of the vector.
\<close>

lemma length_purge: "length (purge es) \<le> length es"
  by (induction es rule: purge.induct) auto

lemma purge_shorter: "\<exists>e \<in> set es. act_deallocated e \<Longrightarrow> length (purge es) < length es"
  by (induction es rule: purge.induct) (auto simp: less_Suc_eq_le length_purge intro: order.trans [OF length_purge])

lemma StartGTS_after_purge:
  assumes "es = act_vector (m_macDsmeACT (mac w)) sf" and "\<exists>e \<in> set es. act_deallocated e"
  shows "LrWpanMac_StartGTS env ty sf (int (length es) - 1) (mac_upd LrWpanMac_PurgeDsmeACT w) = None"
proof -
  have "length (purge es) \<le> length es - 1" "es \<noteq> []" using purge_shorter [OF assms(2)] assms(2) by auto
  then have "\<not> int (length es) - 1 < int (length (purge es))" by (cases es) auto
  then have "act_get (m_macDsmeACT (mac (mac_upd LrWpanMac_PurgeDsmeACT w))) sf (int (length es) - 1) = None"
    by (simp add: act_get_def mac_upd_def PurgeDsmeACT_vector assms(1))
  then show ?thesis by (simp add: LrWpanMac_StartGTS_def)
qed

end
