(* ===== verification/Superframes.thy ===== *)
theory Superframes
  imports Dsme_Schedule
begin

section \<open>The superframe structure\<close>

text \<open>
  The timers of \<open>lr-wpan-mac.cc\<close> that drive a beacon interval: \<open>StartCAP\<close>, \<open>StartCFP\<close>,
  \<open>StartRemainingPeriod\<close> and the next beacon, the counting of superframes and multi-superframes, and
  the search for lost beacons. The results: the portions of a superframe add up to its sixteen
  slots, the next beacon is scheduled one beacon interval after the last one whenever the remaining
  period starts, without DSME nothing follows the CFP, the superframe index stays in range, and a
  lost coordinator is reported at the sixth missing beacon.
\<close>

subsection \<open>Contention access period\<close>

definition mac_seconds :: "mac_env \<Rightarrow> int \<Rightarrow> int" where
  [class_defs]: "mac_seconds env n = Seconds n (env_symbolRate env)"

definition LrWpanMac_StartCAP :: "mac_env \<Rightarrow> SuperframeType \<Rightarrow> mac_world \<Rightarrow> mac_world option" where
  "LrWpanMac_StartCAP env superframeType w = do {
     w \<leftarrow> (if superframeType = OUTGOING then
             let w = mac_upd (\<lambda>m. m\<lparr>m_incSuperframe := False, m_outSuperframeStatus := CAP\<rparr>) w;
                 m = mac w;
                 each_Timeslot_Duration = m_superframeDuration m div 16;
                 cap_Duration = ucast (each_Timeslot_Duration * (ucast (m_fnlCapSlot m) + 1)) :: u64;
                 cap_time = mac_seconds env (uint cap_Duration) - (m_macBeaconTxTime m - m_BeaconStartTxTime m)
             in mac_sched cap_time (StartCFP OUTGOING) (\<lambda>k m. m\<lparr>m_capEvent := k\<rparr>) w
           else
             let w = mac_upd (\<lambda>m. m\<lparr>m_incSuperframe := True, m_incSuperframeStatus := CAP\<rparr>) w;
                 m = mac w;
                 each_Timeslot_Duration = m_incomingSuperframeDuration m div 16;
                 cap_Duration = ucast (each_Timeslot_Duration * (ucast (m_incomingFnlCapSlot m) + 1)) :: u64;
                 cap_time = mac_seconds env (uint (cap_Duration - m_rxBeaconSymbols m))
             in mac_sched cap_time (StartCFP INCOMING) (\<lambda>k m. m\<lparr>m_incCapEvent := k\<rparr>) w);
     LrWpanMac_CheckQueue w }"

subsection \<open>Contention free period\<close>

text \<open>\<open>15 - m_fnlCapSlot\<close> is an \<open>int\<close> that the product turns into an unsigned one.\<close>

definition LrWpanMac_StartCFP :: "mac_env \<Rightarrow> SuperframeType \<Rightarrow> mac_world \<Rightarrow> mac_world option" where
  "LrWpanMac_StartCFP env superframeType w = (
     if superframeType = INCOMING then
       let m = mac w;
           activeSlot = m_incomingSuperframeDuration m div 16;
           cfpDuration = ucast (activeSlot * (15 - ucast (m_incomingFnlCapSlot m))) :: u64;
           endCfpTime = mac_seconds env (uint cfpDuration);
           w = (if cfpDuration > 0 then mac_upd (\<lambda>m. m\<lparr>m_incSuperframeStatus := CFP\<rparr>) w else w)
       in if m_macDSMEenabled m then
            if m_incomingFirstCFP m then
              let cfpDuration = ucast (activeSlot * (ucast (m_incomingFnlCapSlot m) + 1)) :: u64;
                  endCfpTime = mac_seconds env (uint (cfpDuration - m_rxBeaconSymbols m));
                  w = mac_upd (\<lambda>m. m\<lparr>m_incomingFirstCFP := False\<rparr>) w
              in mac_sched endCfpTime (StartCFP INCOMING) (\<lambda>k m. m\<lparr>m_incCfpEvent := k\<rparr>) w
            else mac_sched endCfpTime (StartRemainingPeriod INCOMING) (\<lambda>k m. m\<lparr>m_incCfpEvent := k\<rparr>) w
          else Some w
     else
       let m = mac w;
           activeSlot = m_superframeDuration m div 16;
           cfpDuration = ucast (activeSlot * (15 - ucast (m_fnlCapSlot m))) :: u64;
           endCfpTime = mac_seconds env (uint cfpDuration);
           w = (if cfpDuration > 0 then mac_upd (\<lambda>m. m\<lparr>m_outSuperframeStatus := CFP\<rparr>) w else w)
       in if m_macDSMEenabled m then
            if m_firstCFP m then
              let cfpDuration = ucast (activeSlot * (ucast (m_fnlCapSlot m) + 1)) :: u64;
                  endCfpTime = mac_seconds env (uint cfpDuration) - (m_macBeaconTxTime m - m_BeaconStartTxTime m);
                  w = mac_upd (\<lambda>m. m\<lparr>m_firstCFP := False\<rparr>) w
              in mac_sched endCfpTime (StartCFP OUTGOING) (\<lambda>k m. m\<lparr>m_cfpEvent := k\<rparr>) w
            else mac_sched endCfpTime (StartRemainingPeriod OUTGOING) (\<lambda>k m. m\<lparr>m_cfpEvent := k\<rparr>) w
          else Some w)"

subsection \<open>Until the next beacon\<close>

text \<open>\<open>ToInteger (Time::S)\<close> cuts to whole seconds; the product is unsigned.\<close>

definition LrWpanMac_StartRemainingPeriod :: "mac_env \<Rightarrow> SuperframeType \<Rightarrow> mac_world \<Rightarrow> mac_world option" where
  "LrWpanMac_StartRemainingPeriod env superframeType w = (
     if superframeType = INCOMING then
       let m = mac w;
           remainingDurationUntilNextBcn = ucast (m_incomingBeaconInterval m - m_incomingSuperframeDuration m) :: u64;
           endRemainingTime = mac_seconds env (uint remainingDurationUntilNextBcn);
           w = (if remainingDurationUntilNextBcn > 0 then mac_upd (\<lambda>m. m\<lparr>m_incSuperframeStatus := REMAINING\<rparr>) w else w)
       in mac_sched endRemainingTime AwaitBeacon (\<lambda>k m. m\<lparr>m_beaconEvent := k\<rparr>) w
     else do {
       let m = mac w;
       let endRemainingTime = mac_seconds env (uint (m_beaconInterval m)) - (Simulator_Now (msim w) - m_startOfBcnSlot m);
       let remainingDurationUntilNextBcn = (of_int (sgn endRemainingTime * (\<bar>endRemainingTime\<bar> div 10 ^ 9)) * of_nat (env_symbolRate env) :: u64);
       let w = (if remainingDurationUntilNextBcn > 0 then mac_upd (\<lambda>m. m\<lparr>m_outSuperframeStatus := REMAINING\<rparr>) w else w);
       w \<leftarrow> mac_sched endRemainingTime SendOneEnhancedBeacon (\<lambda>k m. m\<lparr>m_beaconEvent := k\<rparr>) w;
       mac_sched endRemainingTime PurgeDsmeACT (\<lambda>k m. m) w })"

definition LrWpanMac_AwaitBeacon :: "mac_world \<Rightarrow> mac_world" where
  [class_defs]: "LrWpanMac_AwaitBeacon w = mac_upd (\<lambda>m. m\<lparr>m_incSuperframeStatus := BEACON\<rparr>) w"

subsection \<open>Counting superframes\<close>

definition LrWpanMac_StartSuperframe :: "mac_env \<Rightarrow> mac_world \<Rightarrow> mac_world option" where
  "LrWpanMac_StartSuperframe env w = (
     if m_numOfMultisuperframes (mac w) = 0 then None
     else do {
       let w = (if ucast (m_curSuperframeIDx (mac w)) < m_numOfSuperframes (mac w) div ucast (m_numOfMultisuperframes (mac w)) - 1
                   \<and> \<not> m_isFirstSuperframe (mac w)
                then mac_upd (\<lambda>m. m\<lparr>m_curSuperframeIDx := m_curSuperframeIDx m + 1\<rparr>) w else w);
       w \<leftarrow> mac_sched (mac_seconds env (uint (m_superframeDuration (mac w)))) StartSuperframe (\<lambda>k m. m) w;
       Some (mac_upd (\<lambda>m. m\<lparr>m_isFirstSuperframe := False\<rparr>) w) })"

text \<open>The static counters of the function only decide on log output, and the last branch only computes a time to log.\<close>

definition LrWpanMac_StartMultisuperframe :: "mac_env \<Rightarrow> SuperframeType \<Rightarrow> mac_world \<Rightarrow> mac_world option" where
  "LrWpanMac_StartMultisuperframe env superframeType w = do {
     let w = mac_upd (\<lambda>m. m\<lparr>m_multisuperframeSeq := m_multisuperframeSeq m + 1, m_isFirstSuperframe := True\<rparr>) w;
     let w = mac_upd (LrWpanMac_SetSuperframeIDx 0) w;
     w \<leftarrow> (if superframeType = OUTGOING then
             mac_sched (mac_seconds env (uint (m_multiSuperframeDuration (mac w)))) (StartMultisuperframe OUTGOING)
               (\<lambda>k m. m\<lparr>m_multisuperframeEndEvent := k\<rparr>) w
           else Some w);
     if Simulator_Now (msim w) \<le> mac_seconds env (uint (m_superframeDuration (mac w))) then
       mac_sched (mac_seconds env (uint (m_superframeDuration (mac w)))) StartSuperframe (\<lambda>k m. m\<lparr>m_startFirstSuperframeEvent := k\<rparr>) w
     else Some w }"

subsection \<open>Lost beacons\<close>

definition aMaxLostBeacons :: u8 where
  [class_defs]: "aMaxLostBeacons = 4"

definition aBaseSuperframeDuration :: u32 where
  [class_defs]: "aBaseSuperframeDuration = 960"

definition LrWpanMac_BeaconSearchTimeout :: "mac_env \<Rightarrow> mac_world \<Rightarrow> mac_world option" where
  "LrWpanMac_BeaconSearchTimeout env w = (
     if m_numLostBeacons (mac w) > aMaxLostBeacons then
       if env_syncLoss env then
         let w = mac_emit (MlmeSyncLoss (m_macPanId (mac w))) w
         in Some (mac_upd (\<lambda>m. m\<lparr>m_beaconTrackingOn := False, m_numLostBeacons := 0\<rparr>) w)
       else Some w
     else
       let w = mac_upd (\<lambda>m. m\<lparr>m_numLostBeacons := m_numLostBeacons m + 1\<rparr>) w;
           searchSymbols = (push_bit (unat (m_incomingBeaconOrder (mac w))) 1 + 1) * ucast aBaseSuperframeDuration :: u64
       in mac_sched (mac_seconds env (uint searchSymbols)) BeaconSearchTimeout (\<lambda>k m. m\<lparr>m_trackingEvent := k\<rparr>) w)"

subsection \<open>The portions add up\<close>

lemma CheckQueue_keeps:
  assumes "sim_ok (msim w)"
  shows "\<exists>v. LrWpanMac_CheckQueue w = Some v \<and> sim_ok (msim v) \<and> timed (msim w) \<subseteq> timed (msim v) \<and>
    m_currentTs (msim v) = m_currentTs (msim w) \<and> m_outSuperframeStatus (mac v) = m_outSuperframeStatus (mac w)"
proof -
  let ?w = "mac_upd (\<lambda>m. m\<lparr>m_txPkt := txQPkt (hd (m_txQueue (mac w)))\<rparr>) w"
  obtain k t where t: "mac_sched 0 (SetLrWpanMacState MAC_CSMA) (\<lambda>k m. m\<lparr>m_setMacState := k\<rparr>) ?w =
      Some (?w\<lparr>msim := t, mac := mac ?w\<lparr>m_setMacState := Some k\<rparr>\<rparr>)" "sim_ok t" "m_currentTs t = m_currentTs (msim w)"
    "timed t = insert (Simulator_Now (msim w) + 0, SetLrWpanMacState MAC_CSMA) (timed (msim w))"
    using mac_sched_timed [of ?w 0 "SetLrWpanMacState MAC_CSMA" "\<lambda>k m. m\<lparr>m_setMacState := k\<rparr>"] assms by (auto simp: mac_upd_def)
  then show ?thesis
    using assms by (auto simp: LrWpanMac_CheckQueue_def Let_def class_defs)
qed

lemma slot_products:
  fixes d :: u32 and f :: u8
  assumes "f \<le> 15"
  shows "uint (ucast (d div 16 * (ucast f + 1)) :: u64) = uint d div 16 * (uint f + 1)"
    and "uint (ucast (d div 16 * (15 - ucast f)) :: u64) = uint d div 16 * (15 - uint f)"
proof -
  have f: "unat f \<le> 15" using assms by (simp add: word_le_nat_alt)
  have d: "unat d < 2 ^ 32" using unsigned_less [of d, where ?'a = nat] by simp
  have u: "unat (ucast f + 1 :: u32) = unat f + 1" "unat (15 - ucast f :: u32) = 15 - unat f"
    using f by (simp_all add: unat_word_ariths unat_sub word_le_nat_alt)
  have p: "unat (d div 16 * x) = unat d div 16 * unat x" if "unat x \<le> 16" for x :: u32
    using sixteenths [OF that, of d] d by (subst mult_nowrap) (simp_all add: unat_div)
  have "unat (ucast (d div 16 * (ucast f + 1)) :: u64) = unat d div 16 * (unat f + 1)"
    using p [of "ucast f + 1"] u(1) f by (simp add: unat_ucast_up)
  from arg_cong [OF this, of int] show "uint (ucast (d div 16 * (ucast f + 1)) :: u64) = uint d div 16 * (uint f + 1)"
    by (simp add: zdiv_int distrib_left)
  have "unat (ucast (d div 16 * (15 - ucast f)) :: u64) = unat d div 16 * (15 - unat f)"
    using p [of "15 - ucast f"] u(2) f by (simp add: unat_ucast_up)
  from arg_cong [OF this, of int] show "uint (ucast (d div 16 * (15 - ucast f)) :: u64) = uint d div 16 * (15 - uint f)"
    using f by (simp add: zdiv_int of_nat_diff)
qed

text \<open>The CAP with the beacon, and the CFP: sixteen slots.\<close>

definition cap_length :: "mac_env \<Rightarrow> LrWpanMac \<Rightarrow> int" where
  "cap_length env m = uint (m_superframeDuration m) div 16 * (uint (m_fnlCapSlot m) + 1) * tick env"

definition cfp_length :: "mac_env \<Rightarrow> LrWpanMac \<Rightarrow> int" where
  "cfp_length env m = uint (m_superframeDuration m) div 16 * (15 - uint (m_fnlCapSlot m)) * tick env"

lemma portions_add_up: "cap_length env m + cfp_length env m = uint (m_superframeDuration m) div 16 * 16 * tick env"
  by (simp add: cap_length_def cfp_length_def algebra_simps)

lemma StartCAP_spec:
  assumes "sim_ok (msim w)" and "rate_ok env" and "m_fnlCapSlot (mac w) \<le> 15"
    and "e = m_macBeaconTxTime (mac w) - m_BeaconStartTxTime (mac w)" and "e \<le> cap_length env (mac w)"
  shows "\<exists>v. LrWpanMac_StartCAP env OUTGOING w = Some v \<and> sim_ok (msim v) \<and> timed (msim w) \<subseteq> timed (msim v) \<and>
    (Simulator_Now (msim w) + (cap_length env (mac w) - e), StartCFP OUTGOING) \<in> timed (msim v) \<and> m_outSuperframeStatus (mac v) = CAP"
proof -
  let ?w = "mac_upd (\<lambda>m. m\<lparr>m_incSuperframe := False, m_outSuperframeStatus := CAP\<rparr>) w"
  let ?d = "mac_seconds env (uint (ucast (m_superframeDuration (mac ?w) div 16 * (ucast (m_fnlCapSlot (mac ?w)) + 1)) :: u64)) -
      (m_macBeaconTxTime (mac ?w) - m_BeaconStartTxTime (mac ?w))"
  have d: "?d = cap_length env (mac w) - e"
    using assms(3,4) by (simp add: mac_upd_def mac_seconds_def Seconds_tick [OF assms(2)] slot_products(1) cap_length_def)
  have s: "sim_ok (msim ?w)" "0 \<le> ?d" using assms(1,5) unfolding d by (simp_all add: mac_upd_def)
  obtain k t where t: "mac_sched ?d (StartCFP OUTGOING) (\<lambda>k m. m\<lparr>m_capEvent := k\<rparr>) ?w =
      Some (?w\<lparr>msim := t, mac := mac ?w\<lparr>m_capEvent := Some k\<rparr>\<rparr>)" "sim_ok t"
    "timed t = insert (Simulator_Now (msim ?w) + ?d, StartCFP OUTGOING) (timed (msim ?w))"
    using mac_sched_timed [OF s, of "StartCFP OUTGOING" "\<lambda>k m. m\<lparr>m_capEvent := k\<rparr>"] by blast
  let ?v = "?w\<lparr>msim := t, mac := mac ?w\<lparr>m_capEvent := Some k\<rparr>\<rparr>"
  obtain v where v: "LrWpanMac_CheckQueue ?v = Some v" "sim_ok (msim v)" "timed t \<subseteq> timed (msim v)" "m_outSuperframeStatus (mac v) = CAP"
    using CheckQueue_keeps [of ?v] t(2) by (auto simp: mac_upd_def)
  have "LrWpanMac_StartCAP env OUTGOING w = Some v"
    unfolding LrWpanMac_StartCAP_def Let_def if_P [OF refl] using t(1) v(1) by simp
  moreover have "msim ?w = msim w" by (simp add: mac_upd_def)
  ultimately show ?thesis using v t(3) unfolding d by auto
qed

lemma StartCFP_spec:
  assumes "sim_ok (msim w)" and "rate_ok env" and "m_fnlCapSlot (mac w) \<le> 15" and "m_macDSMEenabled (mac w)" and "\<not> m_firstCFP (mac w)"
  shows "\<exists>v. LrWpanMac_StartCFP env OUTGOING w = Some v \<and> sim_ok (msim v) \<and>
    timed (msim v) = insert (Simulator_Now (msim w) + cfp_length env (mac w), StartRemainingPeriod OUTGOING) (timed (msim w))"
proof -
  let ?c = "ucast (m_superframeDuration (mac w) div 16 * (15 - ucast (m_fnlCapSlot (mac w)))) :: u64"
  let ?w = "if ?c > 0 then mac_upd (\<lambda>m. m\<lparr>m_outSuperframeStatus := CFP\<rparr>) w else w"
  have d: "mac_seconds env (uint ?c) = cfp_length env (mac w)"
    using assms(3) by (simp add: mac_seconds_def Seconds_tick [OF assms(2)] slot_products(2) cfp_length_def)
  have w: "msim ?w = msim w" by (simp add: mac_upd_def)
  have pos: "0 \<le> mac_seconds env (uint ?c)" using tick_pos [OF assms(2)] by (simp add: mac_seconds_def Seconds_tick [OF assms(2)])
  obtain k t where t: "mac_sched (mac_seconds env (uint ?c)) (StartRemainingPeriod OUTGOING) (\<lambda>k m. m\<lparr>m_cfpEvent := k\<rparr>) ?w =
      Some (?w\<lparr>msim := t, mac := mac ?w\<lparr>m_cfpEvent := Some k\<rparr>\<rparr>)" "sim_ok t"
    "timed t = insert (Simulator_Now (msim w) + mac_seconds env (uint ?c), StartRemainingPeriod OUTGOING) (timed (msim w))"
    using mac_sched_timed [OF _ pos, of ?w "StartRemainingPeriod OUTGOING" "\<lambda>k m. m\<lparr>m_cfpEvent := k\<rparr>"] assms(1) unfolding w by blast
  have "LrWpanMac_StartCFP env OUTGOING w = Some (?w\<lparr>msim := t, mac := mac ?w\<lparr>m_cfpEvent := Some k\<rparr>\<rparr>)"
    unfolding LrWpanMac_StartCFP_def Let_def using assms(4,5) t(1) by simp
  then show ?thesis using t(2,3) unfolding d by auto
qed

text \<open>Without DSME the periods end with the CFP: no event follows.\<close>

lemma StartCFP_ends:
  assumes "\<not> m_macDSMEenabled (mac w)"
  shows "\<exists>v. LrWpanMac_StartCFP env ty w = Some v \<and> msim v = msim w \<and> mouts v = mouts w"
  using assms by (auto simp: LrWpanMac_StartCFP_def Let_def mac_upd_def)

subsection \<open>The next beacon\<close>

lemma StartRemainingPeriod_spec:
  assumes "sim_ok (msim w)" and "rate_ok env" and "bi = uint (m_beaconInterval (mac w)) * tick env"
    and "Simulator_Now (msim w) \<le> m_startOfBcnSlot (mac w) + bi"
  shows "\<exists>v. LrWpanMac_StartRemainingPeriod env OUTGOING w = Some v \<and> sim_ok (msim v) \<and>
    timed (msim v) = {(m_startOfBcnSlot (mac w) + bi, SendOneEnhancedBeacon), (m_startOfBcnSlot (mac w) + bi, PurgeDsmeACT)} \<union> timed (msim w)"
proof -
  let ?d = "mac_seconds env (uint (m_beaconInterval (mac w))) - (Simulator_Now (msim w) - m_startOfBcnSlot (mac w))"
  have d: "Simulator_Now (msim w) + ?d = m_startOfBcnSlot (mac w) + bi"
    by (simp add: mac_seconds_def Seconds_tick [OF assms(2)] assms(3))
  then have pos: "0 \<le> ?d" using assms(4) by linarith
  let ?r = "of_int (sgn ?d * (\<bar>?d\<bar> div 10 ^ 9)) * of_nat (env_symbolRate env) :: u64"
  let ?w = "if ?r > 0 then mac_upd (\<lambda>m. m\<lparr>m_outSuperframeStatus := REMAINING\<rparr>) w else w"
  have w: "msim ?w = msim w" by (simp add: mac_upd_def)
  obtain k t where t: "mac_sched ?d SendOneEnhancedBeacon (\<lambda>k m. m\<lparr>m_beaconEvent := k\<rparr>) ?w =
      Some (?w\<lparr>msim := t, mac := mac ?w\<lparr>m_beaconEvent := Some k\<rparr>\<rparr>)" "sim_ok t" "m_currentTs t = m_currentTs (msim w)"
    "timed t = insert (Simulator_Now (msim w) + ?d, SendOneEnhancedBeacon) (timed (msim w))"
    using mac_sched_timed [OF _ pos, of ?w SendOneEnhancedBeacon "\<lambda>k m. m\<lparr>m_beaconEvent := k\<rparr>"] assms(1) unfolding w by blast
  let ?v = "?w\<lparr>msim := t, mac := mac ?w\<lparr>m_beaconEvent := Some k\<rparr>\<rparr>"
  obtain k' t' where t': "mac_sched ?d PurgeDsmeACT (\<lambda>k m. m) ?v = Some (?v\<lparr>msim := t', mac := mac ?v\<rparr>)" "sim_ok t'"
    "timed t' = insert (Simulator_Now (msim w) + ?d, PurgeDsmeACT) (timed t)"
    using mac_sched_timed [OF _ pos, of ?v PurgeDsmeACT "\<lambda>k m. m"] t(2,3) by (auto simp: Simulator_Now_def)
  have "LrWpanMac_StartRemainingPeriod env OUTGOING w = Some (?v\<lparr>msim := t', mac := mac ?v\<rparr>)"
    unfolding LrWpanMac_StartRemainingPeriod_def Let_def using t(1) t'(1) by simp
  then show ?thesis using t'(2,3) t(4) unfolding d by auto
qed

subsection \<open>The superframe index\<close>

definition superframe_count :: "LrWpanMac \<Rightarrow> nat" where
  "superframe_count m = unat (m_numOfSuperframes m) div unat (m_numOfMultisuperframes m)"

lemma StartSuperframe_index:
  assumes "sim_ok (msim w)" and "rate_ok env" and "superframe_count (mac w) \<le> 2 ^ 16" and "unat (m_curSuperframeIDx (mac w)) < superframe_count (mac w)"
  shows "\<exists>v. LrWpanMac_StartSuperframe env w = Some v \<and> sim_ok (msim v) \<and> superframe_count (mac v) = superframe_count (mac w) \<and>
    unat (m_curSuperframeIDx (mac v)) = (if m_isFirstSuperframe (mac w) then unat (m_curSuperframeIDx (mac w))
      else min (unat (m_curSuperframeIDx (mac w)) + 1) (superframe_count (mac w) - 1)) \<and>
    \<not> m_isFirstSuperframe (mac v) \<and>
    timed (msim v) = insert (Simulator_Now (msim w) + uint (m_superframeDuration (mac w)) * tick env, StartSuperframe) (timed (msim w))"
proof -
  let ?m = "mac w"
  let ?q = "m_numOfSuperframes ?m div ucast (m_numOfMultisuperframes ?m)"
  have q: "unat ?q = superframe_count ?m" by (simp add: superframe_count_def unat_div unat_ucast_up)
  have nz: "m_numOfMultisuperframes ?m \<noteq> 0" using assms(4) by (auto simp: superframe_count_def)
  have "1 \<le> ?q" using assms(4) q by (simp add: word_le_nat_alt)
  then have "unat (?q - 1) = superframe_count ?m - 1" by (simp add: unat_sub q)
  then have less: "ucast (m_curSuperframeIDx ?m) < ?q - 1 \<longleftrightarrow> unat (m_curSuperframeIDx ?m) < superframe_count ?m - 1"
    by (simp add: word_less_nat_alt unat_ucast_up)
  have inc: "unat (m_curSuperframeIDx ?m + 1) = unat (m_curSuperframeIDx ?m) + 1"
    using assms(3,4) by (simp add: unat_word_ariths)
  let ?w = "if ucast (m_curSuperframeIDx ?m) < ?q - 1 \<and> \<not> m_isFirstSuperframe ?m
    then mac_upd (\<lambda>m. m\<lparr>m_curSuperframeIDx := m_curSuperframeIDx m + 1\<rparr>) w else w"
  have w: "msim ?w = msim w" "m_superframeDuration (mac ?w) = m_superframeDuration ?m" "superframe_count (mac ?w) = superframe_count ?m"
    by (simp_all add: mac_upd_def superframe_count_def)
  have "m_curSuperframeIDx (mac ?w) = (if unat (m_curSuperframeIDx ?m) < superframe_count ?m - 1 \<and> \<not> m_isFirstSuperframe ?m
      then m_curSuperframeIDx ?m + 1 else m_curSuperframeIDx ?m)"
    unfolding less by (simp add: mac_upd_def)
  then have idx: "unat (m_curSuperframeIDx (mac ?w)) = (if m_isFirstSuperframe ?m then unat (m_curSuperframeIDx ?m)
      else min (unat (m_curSuperframeIDx ?m) + 1) (superframe_count ?m - 1))"
    using assms(4) inc by (auto simp del: unat_gt_0)
  let ?d = "mac_seconds env (uint (m_superframeDuration (mac ?w)))"
  have d: "?d = uint (m_superframeDuration ?m) * tick env" by (simp add: mac_seconds_def Seconds_tick [OF assms(2)] w(2))
  then have pos: "0 \<le> ?d" using tick_pos [OF assms(2)] by simp
  obtain k t where t: "mac_sched ?d StartSuperframe (\<lambda>k m. m) ?w = Some (?w\<lparr>msim := t, mac := mac ?w\<rparr>)" "sim_ok t"
    "timed t = insert (Simulator_Now (msim w) + ?d, StartSuperframe) (timed (msim w))"
    using mac_sched_timed [OF _ pos, of ?w StartSuperframe "\<lambda>k m. m"] assms(1) unfolding w(1) by blast
  let ?v = "mac_upd (\<lambda>m. m\<lparr>m_isFirstSuperframe := False\<rparr>) (?w\<lparr>msim := t, mac := mac ?w\<rparr>)"
  have "LrWpanMac_StartSuperframe env w = Some ?v"
    unfolding LrWpanMac_StartSuperframe_def if_not_P [OF nz] Let_def t(1) by simp
  moreover have "superframe_count (mac ?v) = superframe_count (mac ?w)" "m_curSuperframeIDx (mac ?v) = m_curSuperframeIDx (mac ?w)"
    "\<not> m_isFirstSuperframe (mac ?v)" "msim ?v = t"
    by (simp_all add: mac_upd_def superframe_count_def)
  ultimately show ?thesis using t(2,3) w(3) idx d by (intro exI [of _ ?v]) simp
qed

subsection \<open>Losing the coordinator\<close>

text \<open>The timeouts one after the other, each at the time it was scheduled for.\<close>

fun beacon_timeouts :: "mac_env \<Rightarrow> nat \<Rightarrow> mac_world \<Rightarrow> mac_world option" where
  "beacon_timeouts env 0 w = Some w"
| "beacon_timeouts env (Suc n) w = do {
     v \<leftarrow> LrWpanMac_BeaconSearchTimeout env w;
     beacon_timeouts env n v }"

lemma BeaconSearchTimeout_again:
  assumes "sim_ok (msim w)" and "m_numLostBeacons (mac w) \<le> 4" and "rate_ok env"
  shows "\<exists>v. LrWpanMac_BeaconSearchTimeout env w = Some v \<and> sim_ok (msim v) \<and> mouts v = mouts w \<and>
    m_numLostBeacons (mac v) = m_numLostBeacons (mac w) + 1 \<and> m_macPanId (mac v) = m_macPanId (mac w)"
proof -
  let ?w = "mac_upd (\<lambda>m. m\<lparr>m_numLostBeacons := m_numLostBeacons m + 1\<rparr>) w"
  let ?s = "(push_bit (unat (m_incomingBeaconOrder (mac ?w))) 1 + 1) * ucast aBaseSuperframeDuration :: u64"
  have pos: "0 \<le> mac_seconds env (uint ?s)" using tick_pos [OF assms(3)] by (simp add: mac_seconds_def Seconds_tick [OF assms(3)])
  have ok: "sim_ok (msim ?w)" using assms(1) by (simp add: mac_upd_def)
  have "\<not> m_numLostBeacons (mac w) > aMaxLostBeacons" using assms(2) by (simp add: aMaxLostBeacons_def)
  then show ?thesis
    using mac_sched_timed [OF ok pos, of BeaconSearchTimeout "\<lambda>k m. m\<lparr>m_trackingEvent := k\<rparr>"]
    by (auto simp: LrWpanMac_BeaconSearchTimeout_def Let_def mac_upd_def)
qed

lemma beacon_timeouts_lost:
  "sim_ok (msim w) \<Longrightarrow> rate_ok env \<Longrightarrow> env_syncLoss env \<Longrightarrow> unat (m_numLostBeacons (mac w)) + n = 5 \<Longrightarrow>
   \<exists>v. beacon_timeouts env (n + 1) w = Some v \<and> mouts v = mouts w @ [MlmeSyncLoss (m_macPanId (mac w))] \<and>
     m_numLostBeacons (mac v) = 0 \<and> \<not> m_beaconTrackingOn (mac v)"
proof (induction n arbitrary: w)
  case 0
  then have "m_numLostBeacons (mac w) > aMaxLostBeacons" by (simp add: aMaxLostBeacons_def word_less_nat_alt)
  then show ?case using 0(3) by (simp add: LrWpanMac_BeaconSearchTimeout_def Let_def mac_upd_def mac_emit_def)
next
  case (Suc n)
  then have le: "m_numLostBeacons (mac w) \<le> 4" by (simp add: word_le_nat_alt)
  obtain v where v: "LrWpanMac_BeaconSearchTimeout env w = Some v" "sim_ok (msim v)" "mouts v = mouts w"
    "m_numLostBeacons (mac v) = m_numLostBeacons (mac w) + 1" "m_macPanId (mac v) = m_macPanId (mac w)"
    using BeaconSearchTimeout_again [OF Suc.prems(1) le Suc.prems(2)] by blast
  have "unat (m_numLostBeacons (mac v)) + n = 5" using Suc.prems(4) le by (simp add: v(4) unat_word_ariths word_le_nat_alt)
  then show ?case using Suc.IH [OF v(2) Suc.prems(2,3)] v by simp
qed

end
