(* ===== verification/Mac_Beacons.thy ===== *)
theory Mac_Beacons
  imports Superframes
begin

section \<open>Starting a PAN and its beacons\<close>

text \<open>
  The functions of \<open>lr-wpan-mac.cc\<close> that set up the superframe structure and send and receive
  beacons: \<open>MlmeStartRequest\<close>, \<open>PlmeSetAttributeConfirm\<close>, \<open>EndStartRequest\<close>, \<open>MlmeSyncRequest\<close>,
  \<open>GetPendingAddrFields\<close>, \<open>SendOneEnhancedBeacon\<close>, and the part of \<open>PdDataIndication\<close> that handles
  a beacon. The address of the packet that a function creates is an argument.
\<close>

subsection \<open>Requests\<close>

definition LrWpanMac_MlmeStartRequest :: "MlmeStartRequestParams \<Rightarrow> mac_world \<Rightarrow> mac_world option" where
  "LrWpanMac_MlmeStartRequest params w = (
     if m_deviceCapability (m_pan (mac w)) \<noteq> FFD then None
     else
       let w = mac_upd (mac_pan_upd (\<lambda>p. p\<lparr>m_startParams := params, m_pendPrimitive := MLME_START_REQ\<rparr>)) w
       in Some (mac_emit (SetCurrentPage (start_logChPage (m_startParams (m_pan (mac w))))) w))"

definition LrWpanMac_MlmeSyncRequest :: "mac_env \<Rightarrow> MlmeSyncRequestParams \<Rightarrow> mac_world \<Rightarrow> mac_world option" where
  "LrWpanMac_MlmeSyncRequest env params w = (
     let w = mac_emit (SetCurrentChannel (sync_logCh params)) w;
         w = mac_emit (PlmeSetTRXStateRequest IEEE_802_15_4_PHY_RX_ON) w;
         w = (if mac_running (m_trackingEvent (mac w)) w then mac_cancel (m_trackingEvent (mac w)) w else w)
     in if sync_trackBcn params then
          let w = mac_upd (\<lambda>m. m\<lparr>m_numLostBeacons := 0\<rparr>) w;
              searchSymbols = (push_bit (unat (m_incomingBeaconOrder (mac w))) 1 + 1) * ucast aBaseSuperframeDuration :: u64;
              w = mac_upd (\<lambda>m. m\<lparr>m_beaconTrackingOn := True\<rparr>) w
          in mac_sched (mac_seconds env (uint searchSymbols)) BeaconSearchTimeout (\<lambda>k m. m\<lparr>m_trackingEvent := k\<rparr>) w
        else Some (mac_upd (\<lambda>m. m\<lparr>m_beaconTrackingOn := False\<rparr>) w))"

definition LrWpanMac_PlmeEdConfirm :: "mac_env \<Rightarrow> u8 \<Rightarrow> mac_world \<Rightarrow> mac_world" where
  "LrWpanMac_PlmeEdConfirm env energyLevel w = (
     let w = (if energyLevel > m_maxEnergyLevel (m_pan (mac w))
              then mac_upd (mac_pan_upd (\<lambda>p. p\<lparr>m_maxEnergyLevel := energyLevel\<rparr>)) w else w)
     in if Simulator_GetDelayLeft (m_scanEnergyEvent (mac w)) (msim w) > mac_seconds env 8 then mac_emit PlmeEdRequest w else w)"

subsection \<open>Pending addresses\<close>

text \<open>One header object is filled again and again.\<close>

fun pending_addresses :: "mac_env \<Rightarrow> mac_world \<Rightarrow> IndTxQueueElement list \<Rightarrow> LrWpanMacHeader \<Rightarrow> u8 \<Rightarrow> PendingAddrFields \<Rightarrow>
    (u8 \<times> PendingAddrFields) option" where
  "pending_addresses env w [] peekedMacHdr numOfShortAddr f = Some (numOfShortAddr, f)"
| "pending_addresses env w (it # its) peekedMacHdr numOfShortAddr f = do {
     p \<leftarrow> deref (indTxQPkt it) w;
     (peekedMacHdr, n, q) \<leftarrow> PeekHeader (LrWpanMacHeader_Deserialize (env_rtl env)) peekedMacHdr p;
     if LrWpanMacHeader_GetDstAddrMode peekedMacHdr = SHORTADDR then do {
       f \<leftarrow> PendingAddrFields_AddShort (LrWpanMacHeader_GetShortDstAddr peekedMacHdr) f;
       pending_addresses env w its peekedMacHdr (numOfShortAddr + 1) f }
     else pending_addresses env w its peekedMacHdr numOfShortAddr f }"

definition LrWpanMac_GetPendingAddrFields :: "mac_env \<Rightarrow> mac_world \<Rightarrow> PendingAddrFields option" where
  "LrWpanMac_GetPendingAddrFields env w = do {
     (numOfShortAddr, pndAddrFields) \<leftarrow> pending_addresses env w (m_indTxQueue (mac w)) (LrWpanMacHeader_new (env_mem env)) 0
       (PendingAddrFields_new (obj_pending (env_objs env)));
     let pndAddrFields = PendingAddrFields_SetNumOfShortAdrr numOfShortAddr pndAddrFields;
     Some (PendingAddrFields_SetNumOfExtAdrr 0 pndAddrFields) }"

subsection \<open>Enhanced beacons\<close>

definition beacon_header :: "mac_env \<Rightarrow> u8 \<Rightarrow> LrWpanMac \<Rightarrow> LrWpanMacHeader" where
  "beacon_header env sn m = (
     let macHdr = LrWpanMacHeader_new (env_mem env);
         macHdr = LrWpanMacHeader_SetType LRWPAN_MAC_BEACON macHdr;
         macHdr = LrWpanMacHeader_SetSeqNum sn macHdr;
         macHdr = LrWpanMacHeader_SetSecDisable macHdr;
         macHdr = LrWpanMacHeader_SetNoAckReq macHdr;
         macHdr = LrWpanMacHeader_SetFrameVer 2 macHdr;
         macHdr = LrWpanMacHeader_SetDstAddrMode SHORTADDR macHdr;
         macHdr = LrWpanMacHeader_SetDstAddrFields16 (m_macPanId m) (Mac16Address 0xff 0xff) macHdr;
         macHdr = LrWpanMacHeader_SetSrcAddrMode SHORTADDR macHdr;
         macHdr = LrWpanMacHeader_SetSrcAddrFields16 (m_macPanId m) (m_shortAddress m) macHdr
     in if m_indTxQueue m \<noteq> [] then LrWpanMacHeader_SetFrmPend macHdr else macHdr)"

text \<open>The descriptor that the device keeps for its beacons is brought up to date.\<close>

definition announce_pan :: "mac_env \<Rightarrow> mac_world \<Rightarrow> DsmePANDescriptorIE option" where
  "announce_pan env w = do {
     let m = mac w;
     let pan = m_pan m;
     let timeSync = TimeSync_SetBeaconTimeStamp (of_int (m_startOfBcnSlot m)) (TimeSync_new (obj_timeSync (env_objs env)));
     let ie = DsmePANDescriptorIE_SetTimeSync timeSync (m_dsmePanDescriptorIE pan);
     let ie = DsmePANDescriptorIE_SetBeaconBitmap (m_macSDBitmap pan) ie;
     let hop = ChannelHopping_new (obj_hopping (env_objs env));
     let hop = ChannelHopping_SetHoppingSequenceID (m_macHoppingSeqID pan) hop;
     let hop = ChannelHopping_SetPANCoordinatorBSN (m_macPANCoordinatorBSN m - 1) hop;
     let hop = ChannelHopping_SetChannelOffset (m_macChannelOfs pan) hop;
     let hop = ChannelHopping_SetChannelOffsetBitmapLength (m_macChannelOfsBitmapLen pan) hop;
     let hop = ChannelHopping_SetChannelOffsetBitmapVector (m_macChannelOfsBitmap pan) hop;
     let ie = DsmePANDescriptorIE_SetChannelHopping hop ie;
     let ie = DsmePANDescriptorIE_SetGroupACK (m_legacyGroupAck m) ie;
     pndAddrFields \<leftarrow> LrWpanMac_GetPendingAddrFields env w;
     let ie = DsmePANDescriptorIE_SetPendingAddrFields pndAddrFields ie;
     Some (DsmePANDescriptorIE_SetHeaderIEDescriptor (of_nat (DsmePANDescriptorIE_GetSerializedSize ie) - 2) HEADERIE_DSME_PAN_DESCRIPTOR ie) }"

text \<open>Terminations and the descriptor in front of the beacon payload.\<close>

definition beacon_elements :: "mac_env \<Rightarrow> DsmePANDescriptorIE \<Rightarrow> packet \<Rightarrow> packet option" where
  "beacon_elements env ie p = do {
     let termination = PayloadIETermination_new (obj_payloadTermination (env_objs env));
     p \<leftarrow> AddHeader (env_room env (PayloadIETermination_GetSerializedSize termination)) PayloadIETermination_Serialize termination p;
     let termination2 = HeaderIETermination_new (obj_headerTermination (env_objs env));
     p \<leftarrow> AddHeader (env_room env (HeaderIETermination_GetSerializedSize termination2)) HeaderIETermination_Serialize termination2 p;
     AddHeader (env_room env (DsmePANDescriptorIE_GetSerializedSize ie)) DsmePANDescriptorIE_Serialize ie p }"

definition LrWpanMac_SendOneEnhancedBeacon :: "mac_env \<Rightarrow> nat \<Rightarrow> mac_world \<Rightarrow> mac_world option" where
  "LrWpanMac_SendOneEnhancedBeacon env a w = (
     if m_lrWpanMacState (mac w) \<noteq> MAC_IDLE then None
     else if m_shortAddress (mac w) = Mac16Address 0xff 0xff then None
     else if m_macPanId (mac w) = 0xffff then Some w
     else do {
       let w = mac_upd (\<lambda>m. m\<lparr>m_startOfBcnSlot := Simulator_Now (msim w)\<rparr>) w;
       macPayload \<leftarrow> BeaconPayloadHeader_new (obj_beacon (env_objs env));
       let macHdr = beacon_header env (if m_panCoor (mac w) then m_macPANCoordinatorBSN (mac w) else m_macEbsn (m_pan (mac w))) (mac w);
       let w = mac_upd (\<lambda>m. if m_panCoor m then m\<lparr>m_macPANCoordinatorBSN := m_macPANCoordinatorBSN m + 1\<rparr>
                          else mac_pan_upd (\<lambda>p. p\<lparr>m_macEbsn := m_macEbsn p + 1\<rparr>) m) w;
       p \<leftarrow> AddHeader (env_room env (BeaconPayloadHeader_GetSerializedSize macPayload)) BeaconPayloadHeader_Serialize macPayload [];
       let slotted = LrWpanCsmaCa_IsSlottedCsmaCa (m_csmaCa (mac w));
       (macHdr, p, w) \<leftarrow> (if m_macDSMEenabled (mac w) \<and> slotted then do {
           ie \<leftarrow> announce_pan env w;
           p \<leftarrow> beacon_elements env ie p;
           Some (LrWpanMacHeader_SetIEListPresent macHdr, p, mac_upd (mac_pan_upd (\<lambda>p. p\<lparr>m_dsmePanDescriptorIE := ie\<rparr>)) w) }
         else Some (macHdr, p, w));
       p \<leftarrow> LrWpanMac_AddFrame (env_checksum env) (env_room env) macHdr p;
       let w = mac_upd (\<lambda>m. m\<lparr>m_txPkt := Some a\<rparr>) (w\<lparr>pkts := (pkts w)(a := p)\<rparr>);
       w \<leftarrow> (if slotted then
               if m_macCAPReductionFlag (mac w) \<and>
                  (m_superframeDuration (mac w) = 0 \<or> m_multiSuperframeDuration (mac w) div m_superframeDuration (mac w) = 0)
               then None else Some (mac_upd (\<lambda>m. m\<lparr>m_outSuperframeStatus := BEACON\<rparr>) w)
             else Some w);
       let w = mac_upd (\<lambda>m. m\<lparr>m_BeaconStartTxTime := Simulator_Now (msim w)\<rparr>) w;
       Some (mac_emit (PlmeSetTRXStateRequest IEEE_802_15_4_PHY_TX_ON) (LrWpanMac_ChangeMacState MAC_SENDING w)) })"

subsection \<open>The start of a PAN\<close>

text \<open>The description of the PAN the device is associated with.\<close>

definition associated_pan :: "LrWpanMacPan \<Rightarrow> PanDescriptor option" where
  "associated_pan p = (let i = m_descIdxOfAssociatedPan p in
     if 0 \<le> i \<and> i < int (length (m_panDescriptorList p)) then Some (m_panDescriptorList p ! nat i) else None)"

text \<open>Without beacons: everything periodic is cancelled.\<close>

definition start_without_beacons :: "mac_env \<Rightarrow> mac_world \<Rightarrow> mac_world" where
  "start_without_beacons env w = (
     let w = mac_upd (\<lambda>m. mac_pan_upd (\<lambda>p. p\<lparr>m_macSuperframeOrder := 15\<rparr>) (m\<lparr>m_fnlCapSlot := 15, m_beaconInterval := 0\<rparr>)) w;
         w = mac_emit CsmaCancel w;
         w = mac_cancel (m_capEvent (mac w)) w;
         w = mac_cancel (m_cfpEvent (mac w)) w;
         w = mac_cancel (m_incCapEvent (mac w)) w;
         w = mac_cancel (m_incCfpEvent (mac w)) w;
         w = mac_cancel (m_trackingEvent (mac w)) w;
         w = mac_cancel (m_scanEvent (m_pan (mac w))) w;
         w = mac_cancel (m_scanEnergyEvent (mac w)) w;
         w = mac_upd (\<lambda>m. m\<lparr>m_csmaCa := LrWpanCsmaCa_SetUnSlottedCsmaCa (m_csmaCa m)\<rparr>) w;
         w = (if env_startConfirm env then mac_emit MlmeStartSuccess w else w)
     in mac_emit (PlmeSetTRXStateRequest IEEE_802_15_4_PHY_RX_ON) w)"

text \<open>The DSME parameters: those of the request at the PAN coordinator, else those of its PAN and the chosen slot.\<close>

definition start_hopping :: "MlmeStartRequestParams \<Rightarrow> LrWpanMacPan \<Rightarrow> LrWpanMacPan" where
  "start_hopping params p = (
     let hd = start_hoppingDescriptor params;
         p = p\<lparr>m_macHoppingSeqID := hd_HoppingSequenceID hd\<rparr>;
         p = (if m_macHoppingSeqID p \<noteq> 0 then p\<lparr>m_hoppingSeqLen := hd_hoppingSeqLen hd, m_macHoppingSeqList := hd_hoppingSeq hd\<rparr>
              else p\<lparr>m_hoppingSeqLen := 0\<rparr>)
     in p\<lparr>m_macChannelOfs := hd_channelOfs hd, m_macChannelOfsBitmapLen := hd_channelOfsBitmapLen hd,
          m_macChannelOfsBitmap := hd_channelOfsBitmap hd\<rparr>)"

definition start_dsme_spec :: "DsmeSuperFrameField \<Rightarrow> LrWpanMac \<Rightarrow> LrWpanMac" where
  "start_dsme_spec f m = mac_pan_upd (\<lambda>p. p\<lparr>m_macMultisuperframeOrder := DsmeSuperFrameField_GetMultiSuperframeOrder f,
       m_macChannelDiversityMode := of_bool (DsmeSuperFrameField_GetChannelDiversityMode f),
       m_macGACKFlag := DsmeSuperFrameField_GetGACKFlag f, m_macDeferredBcnUsed := DsmeSuperFrameField_GetDeferredBeaconFalg f\<rparr>)
     (m\<lparr>m_macCAPReductionFlag := DsmeSuperFrameField_GetCAPReductionFlag f\<rparr>)"

definition start_dsme :: "LrWpanMac \<Rightarrow> LrWpanMac option" where
  "start_dsme m = (
     let params = m_startParams (m_pan m) in
     if m_panCoor m then
       let m = start_dsme_spec (start_dsmeSuperframeSpec params) m;
           m = mac_pan_upd (\<lambda>p. p\<lparr>m_macSDBitmap := start_bcnBitmap params\<rparr>) m;
           m = m\<lparr>m_macSDindex := ucast (BeaconBitmap_GetSDIndex (m_macSDBitmap (m_pan m)))\<rparr>
       in Some (mac_pan_upd (start_hopping params) m)
     else do {
       pd \<leftarrow> associated_pan (m_pan m);
       let m = start_dsme_spec (pd_dsmeSuperframeSpec pd) m;
       let idx = m_choosedSDIndexToSendBcn (m_pan m);
       bm \<leftarrow> BeaconBitmap_SetSDBitmap idx (pd_bcnBitmap pd);
       let m = mac_pan_upd (\<lambda>p. p\<lparr>m_macSDBitmap := BeaconBitmap_SetSDIndex idx bm\<rparr>) m;
       let m = m\<lparr>m_macSDindex := ucast idx\<rparr>;
       Some (mac_pan_upd (start_hopping params) m) })"

text \<open>The descriptor for the enhanced beacons.\<close>

definition start_descriptor :: "mac_env \<Rightarrow> mac_world \<Rightarrow> DsmePANDescriptorIE option" where
  "start_descriptor env w = do {
     let m = mac w;
     let pan = m_pan m;
     ie \<leftarrow> DsmePANDescriptorIE_SetSuperframeFieldOf (m_macBeaconOrder pan) (m_macSuperframeOrder pan) (m_fnlCapSlot m)
       (LrWpanCsmaCa_GetBatteryLifeExtension (m_csmaCa m)) (m_panCoor m) (m_macAssociationPermit pan) (m_dsmePanDescriptorIE pan);
     pndAddrFields \<leftarrow> LrWpanMac_GetPendingAddrFields env w;
     let ie = DsmePANDescriptorIE_SetPendingAddrFields pndAddrFields ie;
     let ie = DsmePANDescriptorIE_SetDsmeSuperFrameFieldOf (m_macMultisuperframeOrder pan) (m_macChannelDiversityMode pan \<noteq> 0)
       (m_macGACKFlag pan) (m_macCAPReductionFlag m) (m_macDeferredBcnUsed pan) ie;
     let timeSync = TimeSync_SetBeaconTimeStamp (of_int (m_startOfBcnSlot m div 10 ^ 6)) (TimeSync_new (obj_timeSync (env_objs env)));
     let ie = DsmePANDescriptorIE_SetTimeSync timeSync ie;
     let ie = DsmePANDescriptorIE_SetBeaconBitmap (m_macSDBitmap pan) ie;
     let hop = ChannelHopping_new (obj_hopping (env_objs env));
     let hop = ChannelHopping_SetHoppingSequenceID (m_macHoppingSeqID pan) hop;
     let hop = ChannelHopping_SetPANCoordinatorBSN (m_macPANCoordinatorBSN m) hop;
     let hop = ChannelHopping_SetChannelOffset (m_macChannelOfs pan) hop;
     let hop = ChannelHopping_SetChannelOffsetBitmapLength (m_macChannelOfsBitmapLen pan) hop;
     let hop = ChannelHopping_SetChannelOffsetBitmapVector (m_macChannelOfsBitmap pan) hop;
     let ie = DsmePANDescriptorIE_SetChannelHopping hop ie;
     Some (DsmePANDescriptorIE_SetGroupACK (GroupACK_new (obj_groupAck (env_objs env))) ie) }"

definition start_durations :: "LrWpanMac \<Rightarrow> LrWpanMac option" where
  "start_durations m = do {
     let pan = m_pan m;
     msd \<leftarrow> shl32 1 (unat (m_macMultisuperframeOrder pan));
     let m = m\<lparr>m_multiSuperframeDuration := msd * aBaseSuperframeDuration\<rparr>;
     LrWpanMac_ResizeScheduleGTSsEvent (m_macBeaconOrder pan) (m_macMultisuperframeOrder pan) (m_macSuperframeOrder pan) m }"

text \<open>The lengths of the two tables are cut to the widths the casts name.\<close>

definition start_tables :: "LrWpanMac \<Rightarrow> LrWpanMac option" where
  "start_tables m = do {
     n \<leftarrow> shl_diff (m_macBeaconOrder (m_pan m)) (m_macSuperframeOrder (m_pan m));
     Some (if m_macCAPReductionFlag m then m\<lparr>m_macDSMESAB := resize 0 (unat (ucast n :: u16)) (m_macDSMESAB m)\<rparr>
           else m\<lparr>m_macDSMESABCapOff := resize 0 (unat (ucast n :: u8)) (m_macDSMESABCapOff m)\<rparr>) }"

definition start_beacons :: "mac_env \<Rightarrow> mac_world \<Rightarrow> mac_world option" where
  "start_beacons env w = do {
     w \<leftarrow> (if m_panCoor (mac w) then do {
             w \<leftarrow> mac_sched 0 (StartMultisuperframe OUTGOING) (\<lambda>k. mac_pan_upd (\<lambda>p. p\<lparr>m_multisuperframeStartEvent := k\<rparr>)) w;
             w \<leftarrow> mac_sched 0 SendOneEnhancedBeacon (\<lambda>k m. m\<lparr>m_beaconEvent := k\<rparr>) w;
             Some (mac_upd LrWpanMac_PurgeDsmeACT w) }
           else Some (mac_upd (mac_pan_upd (\<lambda>p. p\<lparr>m_sendBcn := True\<rparr>)) w));
     if \<not> m_forDsmeNetDeviceIntegrateWithHigerLayer (mac w) then LrWpanMac_ScheduleGts env False w else Some w }"

definition LrWpanMac_EndStartRequest :: "mac_env \<Rightarrow> mac_world \<Rightarrow> mac_world option" where
  "LrWpanMac_EndStartRequest env w = do {
     let w = mac_upd (mac_pan_upd (\<lambda>p. p\<lparr>m_pendPrimitive := MLME_NONE\<rparr>)) w;
     let params = m_startParams (m_pan (mac w));
     let w = mac_upd (\<lambda>m. if start_panCoor params then m\<lparr>m_panCoor := True, m_macPanId := start_PanId params\<rparr>
                        else m\<lparr>m_coord := True, m_macPanId := start_PanId params\<rparr>) w;
     w \<leftarrow> (if start_PanId params \<noteq> 0xffff then Some w else None);
     bo \<leftarrow> (if m_panCoor (mac w) then Some (start_bcnOrd params)
           else map_option (SuperframeField_GetBeaconOrder \<circ> pd_superframeSpec) (associated_pan (m_pan (mac w))));
     let w = mac_upd (mac_pan_upd (\<lambda>p. p\<lparr>m_macBeaconOrder := bo\<rparr>)) w;
     if bo = 15 then Some (start_without_beacons env w)
     else do {
       (so, ble) \<leftarrow> (if m_panCoor (mac w) then Some (start_sfrmOrd params, start_battLifeExt params)
           else map_option (\<lambda>pd. (SuperframeField_GetFrameOrder (pd_superframeSpec pd), SuperframeField_IsBattLifeExt (pd_superframeSpec pd)))
                  (associated_pan (m_pan (mac w))));
       let w = mac_upd (\<lambda>m. mac_pan_upd (\<lambda>p. p\<lparr>m_macSuperframeOrder := so\<rparr>) (m\<lparr>m_csmaCa :=
             LrWpanCsmaCa_SetSlottedCsmaCa (LrWpanCsmaCa_SetBatteryLifeExtension ble (m_csmaCa m)), m_fnlCapSlot := 8\<rparr>)) w;
       bi \<leftarrow> shl32 1 (unat bo);
       sd \<leftarrow> shl32 1 (unat so);
       let w = mac_upd (\<lambda>m. m\<lparr>m_beaconInterval := bi * aBaseSuperframeDuration, m_superframeDuration := sd * aBaseSuperframeDuration\<rparr>) w;
       w \<leftarrow> (if m_macDSMEenabled (mac w) then do {
               m \<leftarrow> start_dsme (mac w);
               let w = w\<lparr>mac := m\<rparr>;
               ie \<leftarrow> start_descriptor env w;
               m \<leftarrow> start_durations (mac_pan_upd (\<lambda>p. p\<lparr>m_dsmePanDescriptorIE := ie\<rparr>) (mac w));
               Some (w\<lparr>mac := m\<rparr>) }
             else Some w);
       m \<leftarrow> start_tables (mac w);
       let w = w\<lparr>mac := m\<rparr>;
       if m_macDSMEenabled (mac w) then start_beacons env w else Some w } }"

definition LrWpanMac_PlmeSetAttributeConfirm_Page :: "mac_env \<Rightarrow> LrWpanPhyEnumeration \<Rightarrow> mac_world \<Rightarrow> mac_world" where
  "LrWpanMac_PlmeSetAttributeConfirm_Page env status w = (
     if m_pendPrimitive (m_pan (mac w)) = MLME_START_REQ then
       if status = IEEE_802_15_4_PHY_SUCCESS then mac_emit (SetCurrentChannel (start_logCh (m_startParams (m_pan (mac w))))) w
       else if env_startConfirm env then mac_emit MlmeStartInvalid w
       else w
     else w)"

definition LrWpanMac_PlmeSetAttributeConfirm_Channel :: "mac_env \<Rightarrow> LrWpanPhyEnumeration \<Rightarrow> mac_world \<Rightarrow> mac_world option" where
  "LrWpanMac_PlmeSetAttributeConfirm_Channel env status w = (
     if m_pendPrimitive (m_pan (mac w)) = MLME_START_REQ \<and> status = IEEE_802_15_4_PHY_SUCCESS then
       LrWpanMac_EndStartRequest env (mac_upd (\<lambda>m. m\<lparr>m_originalChannelInCAP := start_logCh (m_startParams (m_pan m))\<rparr>) w)
     else Some w)"

subsection \<open>Reception of a beacon\<close>

definition PanDescriptor_new :: "PanDescriptor \<Rightarrow> PanDescriptor option" where
  "PanDescriptor_new mem = do {
     sf \<leftarrow> SuperframeField_new (pd_superframeSpec mem);
     Some (mem\<lparr>pd_coorAddrMode := SHORTADDR, pd_coorPanId := 0xffff, pd_coorShortAddr := Mac16Address 0 0, pd_logCh := 11,
       pd_logChPage := 0, pd_superframeSpec := sf, pd_gtsPermit := False, pd_linkQuality := 0, pd_timeStamp := 0,
       pd_dsmeSuperframeSpec := DsmeSuperFrameField_new (pd_dsmeSuperframeSpec mem),
       pd_timeSyncSpec := TimeSync_new (pd_timeSyncSpec mem), pd_bcnBitmap := BeaconBitmap_new (pd_bcnBitmap mem),
       pd_channelHoppingSpec := ChannelHopping_new (pd_channelHoppingSpec mem), pd_gACKSpec := GroupACK_new (pd_gACKSpec mem)\<rparr>) }"

text \<open>The bitmap of the device takes over the slots of the beacon, and its length and index.\<close>

definition merge_bitmap :: "BeaconBitmap \<Rightarrow> BeaconBitmap \<Rightarrow> BeaconBitmap" where
  "merge_bitmap incoming own = (
     let incomingSDBitmap = BeaconBitmap_GetSDBitmap incoming;
         newSDBitmap = BeaconBitmap_GetSDBitmap own;
         newSDBitmap = (if length newSDBitmap = 0 then incomingSDBitmap
           else if length newSDBitmap = length incomingSDBitmap then map2 (OR) newSDBitmap incomingSDBitmap
           else newSDBitmap);
         own = BeaconBitmap_SetBitmapLength (BeaconBitmap_GetSDBitmapLength incoming) own;
         own = BeaconBitmap_SetSDIndex (BeaconBitmap_GetSDIndex incoming) own
     in BeaconBitmap_SetSDBitmapVector newSDBitmap own)"

definition enhanced_beacon :: "LrWpanMacHeader \<Rightarrow> LrWpanMac \<Rightarrow> bool" where
  "enhanced_beacon h m \<longleftrightarrow> m_macDSMEenabled m \<and> LrWpanMacHeader_GetFrameVer h = 2 \<and> LrWpanMacHeader_IsIEListPresent h"

text \<open>What the device keeps of the descriptor.\<close>

definition beacon_pan :: "LrWpanMacHeader \<Rightarrow> DsmePANDescriptorIE \<Rightarrow> LrWpanMac \<Rightarrow> LrWpanMac option" where
  "beacon_pan h ie m = do {
     let spec = DsmePANDescriptorIE_GetDsmeSuperFrameField ie;
     let bm = DsmePANDescriptorIE_GetBeaconBitmap ie;
     let m = (if LrWpanMacHeader_GetShortSrcAddr h = Mac16Address 0 1 \<and> m_shortAddress m \<noteq> Mac16Address 0 1
              then m\<lparr>m_macPANCoordinatorBSN := ChannelHopping_GetPANCoordinatorBSN (DsmePANDescriptorIE_GetChannelHopping ie)\<rparr> else m);
     let m = mac_pan_upd (\<lambda>p. p\<lparr>m_incomingMultisuperframeOrder := DsmeSuperFrameField_GetMultiSuperframeOrder spec,
         m_incomingChannelDiversityMode := DsmeSuperFrameField_GetChannelDiversityMode spec,
         m_incomingGACKFlag := DsmeSuperFrameField_GetGACKFlag spec,
         m_incomingCAPReductionFlag := DsmeSuperFrameField_GetCAPReductionFlag spec,
         m_incomingDeferredBcnUsed := DsmeSuperFrameField_GetDeferredBeaconFalg spec,
         m_incomingSDBitmap := bm, m_macSDBitmap := merge_bitmap bm (m_macSDBitmap p),
         m_incSDindex := BeaconBitmap_GetSDIndex bm\<rparr>) m;
     n \<leftarrow> shl32 1 (unat (m_incomingMultisuperframeOrder (m_pan m)));
     Some (m\<lparr>m_incomingMultisuperframeDuration := n * aBaseSuperframeDuration\<rparr>) }"

definition beacon_elements_received ::
  "mac_env \<Rightarrow> LrWpanMacHeader \<Rightarrow> packet \<Rightarrow> PanDescriptor \<Rightarrow> DsmePANDescriptorIE \<Rightarrow> mac_world \<Rightarrow>
   (packet \<times> PanDescriptor \<times> DsmePANDescriptorIE \<times> mac_world) option" where
  "beacon_elements_received env h p pd ie w = do {
     (ie, n, p) \<leftarrow> RemoveHeader DsmePANDescriptorIE_Deserialize ie p;
     let pd = pd\<lparr>pd_dsmeSuperframeSpec := DsmePANDescriptorIE_GetDsmeSuperFrameField ie, pd_timeSyncSpec := DsmePANDescriptorIE_GetTimeSync ie,
       pd_bcnBitmap := DsmePANDescriptorIE_GetBeaconBitmap ie, pd_channelHoppingSpec := DsmePANDescriptorIE_GetChannelHopping ie,
       pd_gACKSpec := DsmePANDescriptorIE_GetGroupACK ie\<rparr>;
     m \<leftarrow> beacon_pan h ie (mac w);
     (t, n, p) \<leftarrow> RemoveHeader HeaderIETermination_Deserialize (HeaderIETermination_new (obj_headerTermination (env_objs env))) p;
     (t2, n, p) \<leftarrow> RemoveHeader PayloadIETermination_Deserialize (PayloadIETermination_new (obj_payloadTermination (env_objs env))) p;
     Some (p, pd, ie, w\<lparr>mac := m\<rparr>) }"

text \<open>The position of the beacon's superframe in its multi-superframe; \<open>None\<close> is a division by zero.\<close>

definition sd_offset :: "LrWpanMac \<Rightarrow> u32 option" where
  "sd_offset m = (
     if m_incomingSuperframeDuration m = 0 \<or> m_incomingMultisuperframeDuration m div m_incomingSuperframeDuration m = 0 then None
     else Some (ucast (m_incSDindex (m_pan m)) mod (m_incomingMultisuperframeDuration m div m_incomingSuperframeDuration m)))"

text \<open>The superframe structure of the coordinator; the orders have four bits.\<close>

definition beacon_superframe :: "SuperframeField \<Rightarrow> LrWpanMac \<Rightarrow> LrWpanMac option" where
  "beacon_superframe sf m = do {
     let m = mac_pan_upd (\<lambda>p. p\<lparr>m_incomingSuperframeOrder := SuperframeField_GetFrameOrder sf\<rparr>)
       (m\<lparr>m_incomingBeaconOrder := SuperframeField_GetBeaconOrder sf, m_incomingFnlCapSlot := SuperframeField_GetFinalCapSlot sf\<rparr>);
     bi \<leftarrow> shl32 1 (unat (m_incomingBeaconOrder m));
     sd \<leftarrow> shl32 1 (unat (m_incomingSuperframeOrder (m_pan m)));
     let csma = LrWpanCsmaCa_SetBatteryLifeExtension (SuperframeField_IsBattLifeExt sf) (m_csmaCa m);
     let csma = (if m_incomingBeaconOrder m < 15 \<and> \<not> LrWpanCsmaCa_IsSlottedCsmaCa csma then LrWpanCsmaCa_SetSlottedCsmaCa csma else csma);
     Some (m\<lparr>m_incomingBeaconInterval := bi * aBaseSuperframeDuration, m_incomingSuperframeDuration := aBaseSuperframeDuration * sd,
       m_csmaCa := csma\<rparr>) }"

text \<open>A coordinator that is not the PAN coordinator schedules its first beacon, in the slot it has chosen.\<close>

definition beacon_slot :: "mac_env \<Rightarrow> mac_world \<Rightarrow> mac_world option" where
  "beacon_slot env w = (
     let m = mac w in
     if \<not> m_forDsmeNetDeviceIntegrateWithHigerLayer m \<and> m_macDSMEenabled m \<and> m_coord m \<and> \<not> m_panCoor m \<and> m_sendBcn (m_pan m) then do {
       let scheduleBcnTime = mac_seconds env (uint (m_incomingSuperframeDuration m) * uint (m_choosedSDIndexToSendBcn (m_pan m)))
             - (Simulator_Now (msim w) - m_startOfBcnSlotOfSyncParent (m_pan m));
       w \<leftarrow> mac_sched scheduleBcnTime (SetLrWpanMacState MAC_IDLE) (\<lambda>k m. m\<lparr>m_setMacState := k\<rparr>) w;
       w \<leftarrow> mac_sched scheduleBcnTime SendOneEnhancedBeacon (\<lambda>k m. m\<lparr>m_beaconEvent := k\<rparr>) w;
       Some (mac_upd (mac_pan_upd (\<lambda>p. p\<lparr>m_sendBcn := False\<rparr>)) w) }
     else Some w)"

text \<open>The incoming superframe: its CAP, or with CAP reduction outside the first superframe its CFP.\<close>

definition start_inc_cap :: "mac_world \<Rightarrow> mac_world option" where
  "start_inc_cap w = do {
     w \<leftarrow> mac_sched 0 (StartCAP INCOMING) (\<lambda>k m. m\<lparr>m_incCapEvent := k\<rparr>) w;
     mac_sched 0 (SetLrWpanMacState MAC_IDLE) (\<lambda>k m. m\<lparr>m_setMacState := k\<rparr>) w }"

definition start_inc_cfp :: "mac_world \<Rightarrow> mac_world option" where
  "start_inc_cfp w = mac_sched 0 (StartCFP INCOMING) (\<lambda>k m. m\<lparr>m_incCfpEvent := k\<rparr>) (mac_upd (\<lambda>m. m\<lparr>m_incomingFirstCFP := True\<rparr>) w)"

text \<open>The comparison of times is one of real numbers, made here without the division.\<close>

definition beacon_period :: "mac_env \<Rightarrow> mac_world \<Rightarrow> mac_world option" where
  "beacon_period env w = (
     let m = mac w in
     if m_macDSMEenabled m \<and> m_incomingCAPReductionFlag (m_pan m) then
       let timeSinceBeaconTx = Simulator_Now (msim w) - m_macBeaconTxTime m in
       if \<not> m_coord m \<and> \<not> m_isFirstSuperframe m then start_inc_cfp w
       else if \<not> m_coord m \<and> m_isFirstSuperframe m then do {
         w \<leftarrow> start_inc_cap w;
         Some (mac_upd (\<lambda>m. m\<lparr>m_isFirstSuperframe := False\<rparr>) w) }
       else do {
         ofs \<leftarrow> sd_offset m;
         if ofs \<noteq> 0 \<or> m_macSDindex m = 0 \<and>
              timeSinceBeaconTx * int (env_symbolRate env) \<ge> uint (m_incomingSuperframeDuration m) * 10 ^ 9
         then start_inc_cfp w else start_inc_cap w }
     else start_inc_cap w)"

text \<open>A device of the PAN.\<close>

definition beacon_of_pan :: "mac_env \<Rightarrow> LrWpanMacHeader \<Rightarrow> PanDescriptor \<Rightarrow> SuperframeField \<Rightarrow> mac_world \<Rightarrow> mac_world option" where
  "beacon_of_pan env h pd sf w = do {
     let w = mac_emit CsmaCancel w;
     m \<leftarrow> beacon_superframe sf (mac w);
     let w = w\<lparr>mac := m\<rparr>;
     w \<leftarrow> (if m_macDSMEenabled (mac w) then do {
             ofs \<leftarrow> sd_offset (mac w);
             if ofs \<noteq> 0 then mac_sched 0 (StartMultisuperframe INCOMING) (\<lambda>k. mac_pan_upd (\<lambda>p. p\<lparr>m_incMultisuperframeStartEvent := k\<rparr>)) w
             else Some w }
           else Some w);
     let w = (if m_macPanId (mac w) = pd_coorPanId pd \<and> m_macCoordShortAddress (m_pan (mac w)) = pd_coorShortAddr pd
              then mac_upd (mac_pan_upd (\<lambda>p. p\<lparr>m_startOfBcnSlotOfSyncParent := sint (TimeSync_GetBeaconTimeStamp (pd_timeSyncSpec pd))\<rparr>)) w else w);
     w \<leftarrow> beacon_slot env w;
     let w = mac_upd LrWpanMac_PurgeDsmeACT w;
     w \<leftarrow> (if \<not> m_forDsmeNetDeviceIntegrateWithHigerLayer (mac w) \<and>
              LrWpanMacHeader_GetShortSrcAddr h = LrWpanMac_GetCoordShortAddress (mac w)
           then LrWpanMac_ScheduleGts env True w else Some w);
     beacon_period env w }"

text \<open>The notification of a beacon with a payload, and the search for the next one; the duration of the
  search is divided as an integer.\<close>

definition beacon_notify :: "mac_env \<Rightarrow> LrWpanMacHeader \<Rightarrow> packet \<Rightarrow> packet \<Rightarrow> PanDescriptor \<Rightarrow> mac_world \<Rightarrow> mac_world" where
  "beacon_notify env h originalPkt p pd w = (
     if length p > 0 \<and> env_beaconNotify env then
       let enh = (m_macDSMEenabled (mac w) \<and> LrWpanMacHeader_GetFrameVer h = 2);
           sn = LrWpanMacHeader_GetSeqNum h
       in mac_emit (MlmeBeaconNotify \<lparr>notify_bsn = (if enh then 0 else sn), notify_panDescriptor = pd, notify_sduLength = length p,
            notify_sdu = p, notify_ebsn = (if enh then sn else 0), notify_beaconType = enh\<rparr> originalPkt) w
     else w)"

definition beacon_tracking :: "mac_env \<Rightarrow> mac_world \<Rightarrow> mac_world option" where
  "beacon_tracking env w = (
     if mac_running (m_trackingEvent (mac w)) w then do {
       let w = mac_cancel (m_trackingEvent (mac w)) w;
       let w = mac_upd (\<lambda>m. m\<lparr>m_numLostBeacons := 0\<rparr>) w;
       if m_beaconTrackingOn (mac w) then do {
         n \<leftarrow> shl32 1 (unat (m_incomingBeaconOrder (mac w)));
         let searchSymbols = ((scast n + 1) * ucast aBaseSuperframeDuration :: u64);
         mac_sched (uint searchSymbols div int (env_symbolRate env) * 10 ^ 9) BeaconSearchTimeout (\<lambda>k m. m\<lparr>m_trackingEvent := k\<rparr>) w }
       else Some w }
     else Some w)"

definition beacon_received :: "mac_env \<Rightarrow> packet \<Rightarrow> u8 \<Rightarrow> LrWpanMacHeader \<Rightarrow> packet \<Rightarrow> mac_world \<Rightarrow> mac_world option" where
  "beacon_received env originalPkt lqi h p w = do {
     let w = mac_upd (\<lambda>m. m\<lparr>m_rxBeaconSymbols := octet_symbols env (length originalPkt)\<rparr>) w;
     let w = mac_upd (\<lambda>m. m\<lparr>m_macBeaconRxTime :=
       Simulator_Now (msim w) - uint (m_rxBeaconSymbols m) div int (env_symbolRate env) * 10 ^ 6\<rparr>) w;
     let w = (if m_macDSMEenabled (mac w) \<and> LrWpanMacHeader_GetFrameVer h = 2 \<and> \<not> m_coord (mac w) \<and>
                LrWpanMacHeader_GetShortSrcAddr h = Mac16Address 0 1
              then mac_upd (\<lambda>m. m\<lparr>m_isFirstSuperframe := True\<rparr>) w else w);
     pd \<leftarrow> PanDescriptor_new (obj_panDescriptor (env_objs env));
     ie \<leftarrow> DsmePANDescriptorIE_new (obj_pan (env_objs env));
     let enh = enhanced_beacon h (mac w);
     (p, pd, ie, w) \<leftarrow> (if enh then beacon_elements_received env h p pd ie w else Some (p, pd, ie, w));
     receivedMacPayload \<leftarrow> BeaconPayloadHeader_new (obj_beacon (env_objs env));
     (receivedMacPayload, n, p) \<leftarrow> RemoveHeader BeaconPayloadHeader_Deserialize receivedMacPayload p;
     let sf = (if enh then DsmePANDescriptorIE_GetSuperframeField ie else BeaconPayloadHeader_GetSuperframeSpecField receivedMacPayload);
     let pd = (if LrWpanMacHeader_GetSrcAddrMode h = SHORTADDR
               then pd\<lparr>pd_coorAddrMode := SHORTADDR, pd_coorShortAddr := LrWpanMacHeader_GetShortSrcAddr h\<rparr> else pd);
     let pd = pd\<lparr>pd_coorPanId := LrWpanMacHeader_GetSrcPanId h,
       pd_gtsPermit := GtsFields_GetGtsPermit (BeaconPayloadHeader_GetGtsFields receivedMacPayload), pd_linkQuality := lqi,
       pd_logChPage := env_phyPage env, pd_logCh := env_phyChannel env, pd_superframeSpec := sf, pd_timeStamp := m_macBeaconRxTime (mac w)\<rparr>;
     let scan = mac_running (m_scanEvent (m_pan (mac w))) w;
     if \<not> scan \<and> m_macPanId (mac w) \<noteq> LrWpanMacHeader_GetDstPanId h \<and> m_macPanId (mac w) = 0xffff then Some w
     else do {
       w \<leftarrow> (if \<not> scan \<and> m_macPanId (mac w) = LrWpanMacHeader_GetDstPanId h then beacon_of_pan env h pd sf w else Some w);
       if m_macAutoRequest (m_pan (mac w)) then beacon_tracking env (beacon_notify env h originalPkt p pd w)
       else Some w } }"

end
