(* ===== verification/Mac_Data.thy ===== *)
theory Mac_Data
  imports Mac_Beacons
begin

section \<open>The data service\<close>

text \<open>
  \<open>McpsDataRequest\<close>, \<open>PdDataConfirm\<close> and \<open>PdDataIndication\<close> of \<open>lr-wpan-mac.cc\<close>: a data request
  becomes a frame that is sent in a GTS or queued for the CAP, the PHY confirms its transmission,
  and a received frame is checked, filtered, noted for a group acknowledgement and handed up. Statistics
  (\<open>m_record\<close>) are left out.
\<close>

subsection \<open>Requests\<close>

fun Mac16Address_IsBroadcast :: "mac16 \<Rightarrow> bool" where
  "Mac16Address_IsBroadcast (Mac16Address a b) = (a = 0xff \<and> b = 0xff)"

fun Mac16Address_IsMulticast :: "mac16 \<Rightarrow> bool" where
  "Mac16Address_IsMulticast (Mac16Address a b) = (drop_bit 5 a = 4)"

text \<open>\<open>TX_OPTION_ACK\<close>, \<open>TX_OPTION_GTS\<close>, \<open>TX_OPTION_INDIRECT\<close>, \<open>TX_OPTION_DIRECT\<close> are the bits 0 to 3.\<close>

definition mcps_header :: "mac_env \<Rightarrow> McpsDataRequestParams \<Rightarrow> LrWpanMac \<Rightarrow> LrWpanMacHeader" where
  "mcps_header env params m = (
     let macHdr = LrWpanMacHeader_newTyped LRWPAN_MAC_DATA (m_macDsn m) (env_mem env);
         macHdr = LrWpanMacHeader_SetSrcAddrMode (req_srcAddrMode params) macHdr;
         macHdr = LrWpanMacHeader_SetSrcAddrFields16 (m_macPanId m) (m_shortAddress m) macHdr;
         macHdr = LrWpanMacHeader_SetDstAddrMode (req_dstAddrMode params) macHdr;
         macHdr = LrWpanMacHeader_SetDstAddrFields16 (req_dstPanId params) (req_dstAddr params) macHdr;
         macHdr = (if req_dstAddrMode params \<noteq> NOADDR \<and> req_srcAddrMode params \<noteq> NOADDR \<and>
                      LrWpanMacHeader_GetDstPanId macHdr = LrWpanMacHeader_GetSrcPanId macHdr
                   then LrWpanMacHeader_SetPanIdComp macHdr else macHdr);
         macHdr = LrWpanMacHeader_SetSecDisable macHdr
     in if bit (req_txOptions params) 0 then
          if LrWpanMacHeader_GetDstAddrMode macHdr = SHORTADDR then
            let shortAddr = LrWpanMacHeader_GetShortDstAddr macHdr
            in if Mac16Address_IsBroadcast shortAddr \<or> Mac16Address_IsMulticast shortAddr then LrWpanMacHeader_SetNoAckReq macHdr
               else if m_NoACK m then LrWpanMacHeader_SetNoAckReq macHdr
               else LrWpanMacHeader_SetAckReq macHdr
          else LrWpanMacHeader_SetAckReq macHdr
        else LrWpanMacHeader_SetNoAckReq macHdr)"

definition mcps_frame :: "mac_env \<Rightarrow> LrWpanMacHeader \<Rightarrow> nat \<Rightarrow> mac_world \<Rightarrow> mac_world option" where
  "mcps_frame env macHdr ptr w = do {
     q \<leftarrow> LrWpanMac_AddFrame (env_checksum env) (env_room env) macHdr (pkts w ptr);
     Some (w\<lparr>pkts := (pkts w)(ptr := q)\<rparr>) }"

definition LrWpanMac_McpsDataRequest :: "mac_env \<Rightarrow> McpsDataRequestParams \<Rightarrow> nat \<Rightarrow> mac_world \<Rightarrow> mac_world option" where
  "LrWpanMac_McpsDataRequest env params ptr w = (
     let w = mac_upd (\<lambda>m. m\<lparr>m_mcpsDataRequestParams := params\<rparr>) w;
         macHdr = mcps_header env params (mac w);
         w = mac_upd (\<lambda>m. m\<lparr>m_macDsn := m_macDsn m + 1\<rparr>) w
     in if bit (req_txOptions params) 1 then do {
          w \<leftarrow> mcps_frame env macHdr ptr w;
          Some (if (mac_running (m_incGtsEvent (mac w)) w \<or> mac_running (m_gtsEvent (mac w)) w) \<and> m_lrWpanMacState (mac w) = MAC_GTS
                then mac_emit (PlmeSetTRXStateRequest IEEE_802_15_4_PHY_TX_ON)
                       (LrWpanMac_ChangeMacState MAC_GTS_SENDING (mac_upd (\<lambda>m. m\<lparr>m_txPkt := Some ptr\<rparr>) w))
                else w) }
        else if bit (req_txOptions params) 2 then Some w
        else if bit (req_txOptions params) 3 then do {
          w \<leftarrow> mcps_frame env macHdr ptr w;
          LrWpanMac_CheckQueue (LrWpanMac_EnqueueTxQElement env \<lparr>txQMsduHandle = req_msduHandle params, txQPkt = Some ptr\<rparr> w) }
        else Some w)"

subsection \<open>Confirmation of a transmission\<close>

text \<open>After a beacon: its time, the table, the slots, and the CAP or, with CAP reduction outside the
  first superframe, the CFP. \<open>MilliSeconds\<close> takes a whole number.\<close>

definition beacon_sent :: "mac_env \<Rightarrow> packet \<Rightarrow> mac_world \<Rightarrow> mac_world option" where
  "beacon_sent env p w = do {
     let beaconSymbols = octet_symbols env (length p);
     let w = mac_upd (\<lambda>m. m\<lparr>m_macBeaconTxTime := Simulator_Now (msim w) - uint beaconSymbols div int (env_symbolRate env) * 10 ^ 6\<rparr>) w;
     let w = mac_upd LrWpanMac_PurgeDsmeACT w;
     w \<leftarrow> (if \<not> m_forDsmeNetDeviceIntegrateWithHigerLayer (mac w) then LrWpanMac_ScheduleGts env False w else Some w);
     w \<leftarrow> (if m_macDSMEenabled (mac w) \<and> m_macCAPReductionFlag (mac w) then
             if m_superframeDuration (mac w) = 0 \<or> m_multiSuperframeDuration (mac w) div m_superframeDuration (mac w) = 0 then None
             else if m_macSDindex (mac w) mod (m_multiSuperframeDuration (mac w) div m_superframeDuration (mac w)) = 0 then
               mac_sched 0 (StartCAP OUTGOING) (\<lambda>k m. m\<lparr>m_capEvent := k\<rparr>) w
             else mac_sched 0 (StartCFP OUTGOING) (\<lambda>k m. m\<lparr>m_cfpEvent := k\<rparr>) (mac_upd (\<lambda>m. m\<lparr>m_firstCFP := True\<rparr>) w)
           else mac_sched 0 (StartCAP OUTGOING) (\<lambda>k m. m\<lparr>m_capEvent := k\<rparr>) w);
     Some (if env_startConfirm env then mac_emit MlmeStartSuccess w else w) }"

text \<open>A frame that asks for an acknowledgement is noted for the next group acknowledgement.\<close>

definition note_sent :: "LrWpanMacHeader \<Rightarrow> mac_world \<Rightarrow> mac_world" where
  "note_sent macHdr w = (
     let gts = mac_running (m_gtsEvent (mac w)) w \<or> mac_running (m_incGtsEvent (mac w)) w in
     if LrWpanMacHeader_IsData macHdr then
       let w = (if m_groupAckPolicy (mac w) = GROUP_ACK_LEGACY \<and> gts
                then mac_upd (\<lambda>m. m\<lparr>m_groupAck := (m_groupAck m)\<lparr>m_legacyGackGTSIdxBuffer :=
                       m_legacyGackGTSIdxBuffer (m_groupAck m) @ [m_currentGTSIdx m]\<rparr>\<rparr>) w else w)
       in if m_groupAckPolicy (mac w) = GROUP_ACK_ENHANCED \<and> gts
          then mac_upd (\<lambda>m. m\<lparr>m_groupAck := (m_groupAck m)\<lparr>m_groupAckPktBuffer :=
                 m_groupAckPktBuffer (m_groupAck m) @ [ucast (LrWpanMacHeader_GetSeqNum macHdr)]\<rparr>\<rparr>) w else w
     else w)"

text \<open>The end of \<open>PdDataConfirm\<close>: the interframe space, and the next state.\<close>

definition confirm_end :: "int \<Rightarrow> mac_world \<Rightarrow> mac_world option" where
  "confirm_end ifsWaitTime w = do {
     w \<leftarrow> (if ifsWaitTime \<noteq> 0 then mac_sched ifsWaitTime (IfsWaitTimeout ifsWaitTime) (\<lambda>k m. m\<lparr>m_ifsEvent := k\<rparr>) w else Some w);
     let gts = (mac_running (m_incGtsEvent (mac w)) w \<or> mac_running (m_gtsEvent (mac w)) w);
     let w = mac_cancel (m_setMacState (mac w)) w;
     if gts then mac_sched 0 (SetLrWpanMacStateToGTS (m_curGTSSuperframeID (mac w)) (m_curGTSIdx (mac w))) (\<lambda>k m. m\<lparr>m_setMacState := k\<rparr>) w
     else mac_sched 0 (SetLrWpanMacState MAC_IDLE) (\<lambda>k m. m\<lparr>m_setMacState := k\<rparr>) w }"

definition LrWpanMac_PdDataConfirm :: "mac_env \<Rightarrow> LrWpanPhyEnumeration \<Rightarrow> mac_world \<Rightarrow> mac_world option" where
  "LrWpanMac_PdDataConfirm env status w = (
     if \<not> (m_lrWpanMacState (mac w) = MAC_SENDING \<or> m_lrWpanMacState (mac w) = MAC_GTS_SENDING) then None
     else do {
       p \<leftarrow> deref (m_txPkt (mac w)) w;
       macHdr \<leftarrow> mac_peek env p;
       if status = IEEE_802_15_4_PHY_SUCCESS then
         if \<not> LrWpanMacHeader_IsAcknowledgment macHdr then
           if LrWpanMacHeader_IsBeacon macHdr then do {
             w \<leftarrow> (if LrWpanCsmaCa_IsSlottedCsmaCa (m_csmaCa (mac w)) then beacon_sent env p w else Some w);
             ifs \<leftarrow> LrWpanMac_GetIfsSize w;
             confirm_end (mac_seconds env (uint ifs)) (mac_upd (\<lambda>m. m\<lparr>m_txPkt := None\<rparr>) w) }
           else if LrWpanMacHeader_IsAckReq macHdr then do {
             let w = note_sent macHdr w;
             let w = mac_cancel (m_setMacState (mac w)) w;
             if m_groupAckPolicy (mac w) = GROUP_ACK_LEGACY \<or> m_groupAckPolicy (mac w) = GROUP_ACK_ENHANCED then do {
               w \<leftarrow> mac_sched 0 (SetLrWpanMacState MAC_ACK_PENDING) (\<lambda>k m. m\<lparr>m_setMacState := k\<rparr>) w;
               let ifsWaitTime = mac_seconds env (uint (m_macSIFSPeriod (mac w)));
               mac_sched ifsWaitTime (IfsWaitTimeout ifsWaitTime) (\<lambda>k m. m\<lparr>m_ifsEvent := k\<rparr>) w }
             else Some w }
           else do {
             w \<leftarrow> (if env_dataConfirm env then
                     (case m_txQueue (mac w) of [] \<Rightarrow> None
                      | txQElement # _ \<Rightarrow> Some (mac_emit (McpsDataConfirm (txQMsduHandle txQElement) IEEE_802_15_4_SUCCESS) w))
                   else Some w);
             ifs \<leftarrow> LrWpanMac_GetIfsSize w;
             w \<leftarrow> LrWpanMac_RemoveFirstTxQElement env w;
             confirm_end (mac_seconds env (uint ifs)) w }
         else if LrWpanMacHeader_IsIEListPresent macHdr \<and> m_groupAckPolicy (mac w) = GROUP_ACK_LEGACY then
           confirm_end 0 (mac_upd (\<lambda>m. m\<lparr>m_groupAck := LrWpanMac_ResetLegacyGroupAckBitmap (m_groupAck m), m_txPkt := None\<rparr>) w)
         else if LrWpanMacHeader_IsIEListPresent macHdr \<and> m_groupAckPolicy (mac w) = GROUP_ACK_ENHANCED then
           confirm_end 0 (mac_upd (\<lambda>m. m\<lparr>m_groupAck := LrWpanMac_ResetEnhancedGroupAckBitmap (m_groupAck m), m_txPkt := None\<rparr>) w)
         else confirm_end 0 w
       else confirm_end 0 w })"

subsection \<open>Filtering\<close>

definition LrWpanMac_AcceptFrame :: "LrWpanMacHeader \<Rightarrow> LrWpanMac \<Rightarrow> bool" where
  "LrWpanMac_AcceptFrame h m = (
     let acceptFrame = (LrWpanMacHeader_GetType h \<noteq> LRWPAN_MAC_RESERVED);
         acceptFrame = (if acceptFrame then LrWpanMacHeader_GetFrameVer h \<le> 2 else acceptFrame);
         acceptFrame = (if acceptFrame \<and> LrWpanMacHeader_GetDstAddrMode h > 1
           then (LrWpanMacHeader_GetDstPanId h = m_macPanId m \<or> LrWpanMacHeader_GetDstPanId h = 0xffff) \<or>
                m_macPanId m = 0xffff \<and> LrWpanMacHeader_IsBeacon h \<or> m_macPanId m = 0xffff \<and> LrWpanMacHeader_IsCommand h
           else acceptFrame);
         acceptFrame = (if acceptFrame \<and> LrWpanMacHeader_GetShortDstAddr h = Mac16Address 0xff 0xff
           then LrWpanMacHeader_GetShortSrcAddr h \<noteq> m_shortAddress m else acceptFrame)
     in if acceptFrame \<and> LrWpanMacHeader_GetDstAddrMode h = SHORTADDR then
          if LrWpanMacHeader_GetShortDstAddr h = m_shortAddress m then True
          else if Mac16Address_IsBroadcast (LrWpanMacHeader_GetShortDstAddr h) \<or> Mac16Address_IsMulticast (LrWpanMacHeader_GetShortDstAddr h) then
            if LrWpanMacHeader_IsAckReq h then acceptFrame else True
          else False
        else acceptFrame)"

subsection \<open>Reception\<close>

text \<open>A data frame or command that asks for an acknowledgement; its payload is looked at as a command, whatever it is.\<close>

definition ack_requested :: "mac_env \<Rightarrow> packet \<Rightarrow> LrWpanMacHeader \<Rightarrow> packet \<Rightarrow> mac_world \<Rightarrow> mac_world option" where
  "ack_requested env originalPkt h p w = do {
     let w = mac_cancel (m_setMacState (mac w)) w;
     let w = LrWpanMac_ChangeMacState MAC_IDLE w;
     let w = mac_upd (\<lambda>m. m\<lparr>m_rxPkt := Some originalPkt\<rparr>) w;
     cmd \<leftarrow> CommandPayloadHeader_new (env_cmdMem env);
     (receivedMacPayload, n, q) \<leftarrow> PeekHeader CommandPayloadHeader_Deserialize cmd p;
     let gts = (mac_running (m_incGtsEvent (mac w)) w \<or> mac_running (m_gtsEvent (mac w)) w);
     if m_groupAckPolicy (mac w) = GROUP_ACK_ENHANCED then do {
       (bitLocation, g) \<leftarrow> LrWpanMac_MarkGroupAck (env_hash env) (LrWpanMacHeader_GetShortSrcAddr h) (ucast (LrWpanMacHeader_GetSeqNum h)) (m_groupAck (mac w));
       let w = mac_upd (\<lambda>m. m\<lparr>m_groupAck := g\<rparr>) w;
       Some (if gts then LrWpanMac_ChangeMacState MAC_GTS w else w) }
     else if m_groupAckPolicy (mac w) = GROUP_ACK_LEGACY then do {
       g \<leftarrow> LrWpanMac_MarkLegacyGroupAck (LrWpanMacHeader_GetShortSrcAddr h) (of_int (m_curGTSIdx (mac w))) (m_groupAck (mac w));
       let w = mac_upd (\<lambda>m. m\<lparr>m_groupAck := g\<rparr>) w;
       Some (if gts then LrWpanMac_ChangeMacState MAC_GTS w else w) }
     else Some w }"

definition data_params :: "u8 \<Rightarrow> LrWpanMacHeader \<Rightarrow> McpsDataIndicationParams" where
  "data_params lqi h = \<lparr>ind_srcAddrMode = LrWpanMacHeader_GetSrcAddrMode h, ind_srcPanId = LrWpanMacHeader_GetSrcPanId h,
     ind_srcAddr = LrWpanMacHeader_GetShortSrcAddr h, ind_dstAddrMode = LrWpanMacHeader_GetDstAddrMode h,
     ind_dstPanId = LrWpanMacHeader_GetDstPanId h, ind_dstAddr = LrWpanMacHeader_GetShortDstAddr h,
     ind_mpduLinkQuality = lqi, ind_dsn = LrWpanMacHeader_GetSeqNum h\<rparr>"

text \<open>\<open>m_macDsmeACT[m_curGTSSuperframeID][m_curGTSIdx].m_cnt = 0\<close>.\<close>

definition reset_idle_counter :: "LrWpanMac \<Rightarrow> LrWpanMac option" where
  "reset_idle_counter m = do {
     e \<leftarrow> act_get (m_macDsmeACT m) (m_curGTSSuperframeID m) (m_curGTSIdx m);
     Some (m\<lparr>m_macDsmeACT := act_put (m_curGTSSuperframeID m)
       ((act_vector (m_macDsmeACT m) (m_curGTSSuperframeID m))[nat (m_curGTSIdx m) := e\<lparr>act_cnt := 0\<rparr>]) (m_macDsmeACT m)\<rparr>) }"

definition data_received :: "u8 \<Rightarrow> LrWpanMacHeader \<Rightarrow> packet \<Rightarrow> mac_world \<Rightarrow> mac_world option" where
  "data_received lqi h p w = do {
     let w = mac_emit (McpsDataIndication (data_params lqi h) p) w;
     if mac_running (m_incGtsEvent (mac w)) w then do {
       m \<leftarrow> reset_idle_counter (mac w);
       Some (w\<lparr>mac := m\<rparr>) }
     else Some w }"

text \<open>After a group acknowledgement within a slot.\<close>

definition gack_continue :: "mac_env \<Rightarrow> mac_world \<Rightarrow> mac_world option" where
  "gack_continue env w = (
     let ifsWaitTime = mac_seconds env (uint (m_macLIFSPeriod (mac w))) in
     if mac_running (m_gtsEvent (mac w)) w \<or> mac_running (m_incGtsEvent (mac w)) w then do {
       let w = mac_upd (\<lambda>m. m\<lparr>m_txPkt := None\<rparr>) w;
       w \<leftarrow> mac_sched 0 (SetLrWpanMacState MAC_GTS) (\<lambda>k m. m\<lparr>m_setMacState := k\<rparr>) w;
       mac_sched ifsWaitTime (IfsWaitTimeout ifsWaitTime) (\<lambda>k m. m\<lparr>m_ifsEvent := k\<rparr>) w }
     else Some w)"

definition confirm_acked :: "mac_env \<Rightarrow> bool list \<Rightarrow> mac_world \<Rightarrow> mac_world" where
  "confirm_acked env verdicts w = (
     if env_dataConfirm env \<and> \<not> m_forDsmeNetDeviceIntegrateWithHigerLayer (mac w)
     then w\<lparr>mouts := mouts w @ map (\<lambda>v. McpsDataConfirm (req_msduHandle (m_mcpsDataRequestParams (mac w))) IEEE_802_15_4_SUCCESS) (filter id verdicts)\<rparr>
     else w)"

definition group_ack_received :: "mac_env \<Rightarrow> packet \<Rightarrow> mac_world \<Rightarrow> mac_world option" where
  "group_ack_received env p w = (
     if m_groupAckPolicy (mac w) = GROUP_ACK_ENHANCED then do {
       (ie, n, p) \<leftarrow> RemoveHeader EnhancedGroupAckDescriptorIE_Deserialize (EnhancedGroupAckDescriptorIE_new (env_egackMem env)) p;
       let bitmap = EnhancedGroupAckDescriptorIE_GetGroupAckBitmap ie;
       if bitmap = 0 then Some w
       else do {
         (verdicts, g) \<leftarrow> LrWpanMac_ReceiveGroupAck (env_hash env) (m_shortAddress (mac w)) bitmap (m_groupAck (mac w));
         gack_continue env (mac_upd (\<lambda>m. m\<lparr>m_groupAck := g\<rparr>) (confirm_acked env verdicts w)) } }
     else if m_groupAckPolicy (mac w) = GROUP_ACK_LEGACY then do {
       (ie, n, p) \<leftarrow> RemoveHeader LegacyGroupAckIE_Deserialize (LegacyGroupAckIE_new (env_lgackMem env)) p;
       let bitmap = LegacyGroupAckIE_GetGackBitmapField ie;
       if bitmap = 0 then Some w
       else do {
         (verdicts, g) \<leftarrow> LrWpanMac_ReceiveLegacyGroupAck bitmap (m_groupAck (mac w));
         gack_continue env (mac_upd (\<lambda>m. m\<lparr>m_groupAck := g\<rparr>) (confirm_acked env verdicts w)) } }
     else Some w)"

definition LrWpanMac_PdDataIndication :: "mac_env \<Rightarrow> packet \<Rightarrow> u8 \<Rightarrow> mac_world \<Rightarrow> mac_world option" where
  "LrWpanMac_PdDataIndication env psdu lqi w = (
     if m_lrWpanMacState (mac w) \<notin> {MAC_IDLE, MAC_ACK_PENDING, MAC_CSMA, MAC_GTS} then None
     else do {
       r \<leftarrow> LrWpanMac_RemoveFrame (env_checksum env) (env_rtl env) (env_mem env) psdu;
       case r of
         None \<Rightarrow> Some w
       | Some (h, p) \<Rightarrow> do {
           let w = (if m_acceptAllHilowPkt (mac w) \<and> LrWpanMacHeader_GetType h = LRWPAN_MAC_DATA \<and> env_dataIndication env
                    then mac_emit (McpsDataIndication (data_params lqi h) p) w else w);
           if LrWpanMac_AcceptFrame h (mac w) then do {
             w \<leftarrow> (if (LrWpanMacHeader_IsData h \<or> LrWpanMacHeader_IsCommand h) \<and> LrWpanMacHeader_IsAckReq h \<and>
                      (LrWpanMacHeader_GetFrameVer h = 0 \<or> LrWpanMacHeader_GetFrameVer h = 1)
                   then ack_requested env psdu h p w else Some w);
             if LrWpanMacHeader_IsBeacon h then beacon_received env psdu lqi h p w
             else do {
               w \<leftarrow> (if LrWpanMacHeader_IsData h \<and> env_dataIndication env then data_received lqi h p w else Some w);
               if LrWpanMacHeader_IsAcknowledgment h \<and> LrWpanMacHeader_IsIEListPresent h then group_ack_received env p w
               else Some w } }
           else Some w } })"

end
