(* ===== verification/Group_Ack_Send.thy ===== *)
theory Group_Ack_Send
  imports Mac_Data
begin

section \<open>Sending group acknowledgements\<close>

text \<open>
  \<open>SendEnhancedGroupAck\<close> and \<open>SendLegacyGroupAck\<close> of \<open>lr-wpan-mac.cc\<close>: within the slot reserved for
  it, a device broadcasts the marks it has collected as an information element of an
  acknowledgement frame. The address of the packet that is created is an argument.
\<close>

definition group_ack_header :: "mac_env \<Rightarrow> LrWpanMac \<Rightarrow> LrWpanMacHeader" where
  "group_ack_header env m = (
     let macHdr = LrWpanMacHeader_new (env_mem env);
         macHdr = LrWpanMacHeader_SetType LRWPAN_MAC_ACKNOWLEDGMENT macHdr;
         macHdr = LrWpanMacHeader_SetSecDisable macHdr;
         macHdr = (if m_indTxQueue m \<noteq> [] then LrWpanMacHeader_SetFrmPend macHdr else macHdr);
         macHdr = LrWpanMacHeader_SetNoAckReq macHdr;
         macHdr = LrWpanMacHeader_SetNoPanIdComp macHdr;
         macHdr = LrWpanMacHeader_SetNoSeqNumSup macHdr;
         macHdr = LrWpanMacHeader_SetIEListPresent macHdr;
         macHdr = LrWpanMacHeader_SetDstAddrMode SHORTADDR macHdr;
         macHdr = LrWpanMacHeader_SetFrameVer 2 macHdr;
         macHdr = LrWpanMacHeader_SetSrcAddrMode SHORTADDR macHdr;
         macHdr = LrWpanMacHeader_SetSeqNum (m_macDsn m) macHdr;
         macHdr = LrWpanMacHeader_SetDstAddrFields16 (m_macPanId m) (Mac16Address 0xff 0xff) macHdr
     in LrWpanMacHeader_SetSrcAddrFields16 (m_macPanId m) (m_shortAddress m) macHdr)"

text \<open>The terminations, which are put into the packet first.\<close>

definition gack_terminations :: "mac_env \<Rightarrow> packet option" where
  "gack_terminations env = do {
     let t = PayloadIETermination_new (obj_payloadTermination (env_objs env));
     p \<leftarrow> AddHeader (env_room env (PayloadIETermination_GetSerializedSize t)) PayloadIETermination_Serialize t [];
     let t2 = HeaderIETermination_new (obj_headerTermination (env_objs env));
     AddHeader (env_room env (HeaderIETermination_GetSerializedSize t2)) HeaderIETermination_Serialize t2 p }"

definition gack_transmit :: "mac_env \<Rightarrow> nat \<Rightarrow> LrWpanMacHeader \<Rightarrow> packet \<Rightarrow> mac_world \<Rightarrow> mac_world option" where
  "gack_transmit env a macHdr p w = do {
     p \<leftarrow> LrWpanMac_AddFrame (env_checksum env) (env_room env) macHdr p;
     let w = mac_upd (\<lambda>m. m\<lparr>m_txPkt := Some a\<rparr>) (w\<lparr>pkts := (pkts w)(a := p)\<rparr>);
     Some (mac_emit (PlmeSetTRXStateRequest IEEE_802_15_4_PHY_TX_ON) (LrWpanMac_ChangeMacState MAC_GTS_SENDING w)) }"

definition LrWpanMac_SendEnhancedGroupAck :: "mac_env \<Rightarrow> nat \<Rightarrow> mac_world \<Rightarrow> mac_world option" where
  "LrWpanMac_SendEnhancedGroupAck env a w = (
     if m_lrWpanMacState (mac w) \<noteq> MAC_GTS \<or> m_groupAckPolicy (mac w) \<noteq> GROUP_ACK_ENHANCED then None
     else if m_macPanId (mac w) = 0xffff then Some w
     else do {
       let macHdr = group_ack_header env (mac w);
       let w = mac_upd (\<lambda>m. m\<lparr>m_macDsn := m_macDsn m + 1\<rparr>) w;
       p \<leftarrow> gack_terminations env;
       let ie = EnhancedGroupAckDescriptorIE_new (env_egackMem env);
       let ie = EnhancedGroupAckDescriptorIE_SetIELength 8 ie;
       let ie = EnhancedGroupAckDescriptorIE_SetHeaderIEDescriptor ie;
       let ie = EnhancedGroupAckDescriptorIE_SetGroupAckBitmap (m_enhancedGACKBitmap (m_groupAck (mac w))) ie;
       p \<leftarrow> AddHeader (env_room env (EnhancedGroupAckDescriptorIE_GetSerializedSize ie)) EnhancedGroupAckDescriptorIE_Serialize ie p;
       gack_transmit env a macHdr p w })"

text \<open>The descriptor of the legacy element is not set.\<close>

definition LrWpanMac_SendLegacyGroupAck :: "mac_env \<Rightarrow> nat \<Rightarrow> mac_world \<Rightarrow> mac_world option" where
  "LrWpanMac_SendLegacyGroupAck env a w = (
     if m_lrWpanMacState (mac w) \<noteq> MAC_GTS \<or> m_groupAckPolicy (mac w) \<noteq> GROUP_ACK_LEGACY then None
     else if m_macPanId (mac w) = 0xffff then Some w
     else do {
       let macHdr = group_ack_header env (mac w);
       let w = mac_upd (\<lambda>m. m\<lparr>m_macDsn := m_macDsn m + 1\<rparr>) w;
       p \<leftarrow> gack_terminations env;
       let g = m_groupAck (mac w);
       let ie = LegacyGroupAckIE_new (env_lgackMem env);
       let ie = LegacyGroupAckIE_SetIELength 7 ie;
       let ie = LegacyGroupAckIE_SetGackBitmapField (m_legacyGackBitmap g) ie;
       let ie = LegacyGroupAckIE_SetGackDevListField (m_legacyGackDevList g) ie;
       let ie = LegacyGroupAckIE_SetGackIdxBitmapField (m_legacyGackIdx g) ie;
       let ie = LegacyGroupAckIE_SetGtsDirectionBitmapField (m_legacyGackDirections g) ie;
       p \<leftarrow> AddHeader (env_room env (LegacyGroupAckIE_GetSerializedSize ie)) LegacyGroupAckIE_Serialize ie p;
       gack_transmit env a macHdr p w })"

end
