(* ===== verification/Samples.thy ===== *)
theory Samples
  imports Frames Csma_Contention Eb_Filter Group_Ack_Hash
begin

section \<open>Concrete objects\<close>

text \<open>
  The inputs at which the properties are instantiated: frames and fields built with the
  constructors and setters of the code, on memory that may hold anything (\<open>mem\<close>), an object
  that waits for the end of a backoff, and rooms of zero octets.
\<close>

definition zeros :: "nat \<Rightarrow> u8 list" where
  "zeros n = replicate n 0"

lemma rooms_zeros: "rooms zeros"
  by (simp add: rooms_def zeros_def)

text \<open>A data frame from 00:02 to 00:01 in the PAN 0x1234, with PAN identifier compression.\<close>

definition sample_data :: "LrWpanMacHeader \<Rightarrow> LrWpanMacHeader" where
  "sample_data mem = LrWpanMacHeader_SetPanIdComp
     (LrWpanMacHeader_SetDstAddrFields16 0x1234 (Mac16Address 0 1) (LrWpanMacHeader_SetDstAddrMode SHORTADDR
       (LrWpanMacHeader_SetSrcAddrFields16 0x1234 (Mac16Address 0 2) (LrWpanMacHeader_SetSrcAddrMode SHORTADDR
         (LrWpanMacHeader_newTyped LRWPAN_MAC_DATA 7 mem)))))"

lemma sample_data_ok:
  "mac_ok rtl (sample_data mem)" "pan_consistent (sample_data mem)" "LrWpanMacHeader_GetSerializedSize (sample_data mem) = 9"
  by (simp_all add: sample_data_def mac_ok_def pan_consistent_def fctrl_ok_def fits_iff LrWpanMacHeader_newTyped_def class_defs
      LrWpanMacHeader_GetSerializedSize_def)

text \<open>A beacon allocation notification, and a command object to receive into.\<close>

definition sample_alloc :: "CommandPayloadHeader \<Rightarrow> u16 \<Rightarrow> CommandPayloadHeader" where
  "sample_alloc mem idx = (CommandPayloadHeader_SetCommandFrameType DSME_BEACON_ALLOC_NOTIF mem)\<lparr>m_allocationBcnSDIndex := idx\<rparr>"

definition fresh_command :: "CommandPayloadHeader \<Rightarrow> CommandPayloadHeader" where
  "fresh_command mem = mem\<lparr>m_dsmeSABSpec := (m_dsmeSABSpec mem)\<lparr>m_dsmeSABSubBlk := [], m_dsmeSABSubBlkCapOff := []\<rparr>\<rparr>"

lemma sample_alloc_ok:
  "cmd_ok (sample_alloc m idx)" "cmd_ready f0 (sample_alloc m idx)"
  "CommandPayloadHeader_GetCommandFrameType (sample_alloc m idx) = DSME_BEACON_ALLOC_NOTIF"
  "CommandPayloadHeader_GetSerializedSize (sample_alloc m idx) = 3"
proof -
  show t: "CommandPayloadHeader_GetCommandFrameType (sample_alloc m idx) = DSME_BEACON_ALLOC_NOTIF"
    by (rule GetCommandFrameType_val) (simp add: sample_alloc_def CommandPayloadHeader_SetCommandFrameType_def)
  show "cmd_ok (sample_alloc m idx)" "cmd_ready f0 (sample_alloc m idx)" "CommandPayloadHeader_GetSerializedSize (sample_alloc m idx) = 3"
    by (simp_all add: cmd_ok_def cmd_ready_def t CommandPayloadHeader_GetSerializedSize_def)
qed

lemma fresh_command_ok: "cmd_fresh (fresh_command m)"
  by (simp add: cmd_fresh_def fresh_command_def)

text \<open>A beacon bitmap of sixteen slots, none taken, and a PAN descriptor of a coordinator in slot 2.\<close>

definition sample_bitmap :: BeaconBitmap where
  "sample_bitmap = BeaconBitmap_newLen 2 16 \<lparr>m_sspecSDIndex = 0, m_sspecSDBitmapLen = 0, m_sspecSDBitmap = []\<rparr>"

lemma sample_bitmap_ok: "bitmap_ok sample_bitmap"
  by (simp add: sample_bitmap_def bitmap_ok_new)

definition sample_pan :: DsmePANDescriptorIE where
  "sample_pan = \<lparr>pan_descriptor = HeaderIEDescriptor_newOf 30 HEADERIE_DSME_PAN_DESCRIPTOR False,
     pan_superframeField = \<lparr>m_sspecBcnOrder = 6, m_sspecSprFrmOrder = 3, m_sspecFnlCapSlot = 8,
       m_sspecBatLifeExt = False, m_sspecPanCoor = True, m_sspecAssocPermit = True\<rparr>,
     pan_pndAddrFields = \<lparr>m_pndAddrSpecNumShortAddr = 1, m_pndAddrSpecNumExtAddr = 0,
       m_shortAddrList = replicate 7 (Mac16Address 0 5), m_extAddrList = replicate 7 (Mac64Address 0 0 0 0 0 0 0 0)\<rparr>,
     pan_dsmeSuperframeField = \<lparr>m_sspecMultiSuperframeOrder = 5, m_sspecChannelDiversityMode = True, m_sspecGACKFlag = True,
       m_sspecCAPReductionFlag = False, m_sspecDeferredBcnFlag = False\<rparr>,
     pan_timeSynField = \<lparr>m_sspecBcnTimestamp = 123456, m_sspecBcnOffsetTimestamp = 0\<rparr>,
     pan_beaconBitmapField = sample_bitmap,
     pan_channelHoppingField = \<lparr>m_sspecHoppingSequenceID = 1, m_sspecPANCoordBSN = 7, m_sspecChannelOfs = 3,
       m_sspecChannelOfsBitmapLen = 16, m_sspecChannelOfsBitmap = [0x0008]\<rparr>,
     pan_gack = \<lparr>m_sspecGACK1SuperfrmID = 1, m_sspecGACK1SlotID = 14, m_sspecGACK1ChannelID = 11,
       m_sspecGACK2SuperfrmID = 3, m_sspecGACK2SlotID = 6, m_sspecGACK2ChannelID = 12\<rparr>\<rparr>"

lemma sample_pan_ok: "pan_ok sample_pan"
  by (simp add: pan_ok_def sample_pan_def sample_bitmap_ok hie_ok_def HeaderIEDescriptor_newOf_def fits_iff superframe_ok_def
      pending_ok_def dsme_superframe_ok_def hopping_ok_def words16_def groupack_ok_def)

text \<open>The PHY of the 2.4 GHz band and an object that waits for the end of its first backoff.\<close>

definition sample_mac :: csma_mac where
  "sample_mac = \<lparr>symbolRate = 62500, isCoord = False, isIncomingSuperframe = True, macBeaconTxTime = 0,
     macBeaconRxTime = 0, superframeDuration = 960, incomingSuperframeDuration = 960, fnlCapSlot = 8, incomingFnlCapSlot = 8,
     txPacketSymbols = 100, txAckReq = False, macAckWaitDuration = 54, aTurnaroundTime = 12, ifsSize = 40\<rparr>"

lemma sample_mac_rate: "0 < symbolRate sample_mac" "symbolRate sample_mac dvd 10 ^ 9"
  by (simp_all add: sample_mac_def)

definition sample_backoff :: csma_world where
  "sample_backoff = \<lparr>csma = LrWpanCsmaCa_SetLrWpanMacStateCallback True LrWpanCsmaCa_new,
     sim = Simulator_new\<lparr>m_uid := 5, m_events := [\<lparr>ev_key = (0, 4), ev_call = RandomBackoffDelay, ev_cancel = False\<rparr>]\<rparr>,
     outs = [], phyCca = False\<rparr>"

lemma sample_backoff_ok: "backing_off sample_backoff"
  by (simp add: backing_off_def sample_backoff_def Simulator_new_def sim_ok_def LrWpanCsmaCa_new_def class_defs
      csma_bounds_def csma_ready_def less_prod_def)

text \<open>An unslotted object at rest, and after \<open>Start\<close>; a slotted one two backoff periods before the end of the CAP.\<close>

definition sample_idle :: csma_world where
  "sample_idle = \<lparr>csma = LrWpanCsmaCa_SetLrWpanMacStateCallback True LrWpanCsmaCa_new, sim = Simulator_new, outs = [], phyCca = False\<rparr>"

definition sample_started :: csma_world where
  "sample_started = sample_backoff\<lparr>csma := csma sample_backoff\<lparr>m_randomBackoffEvent := Some (0, 4)\<rparr>\<rparr>"

lemma sample_idle_start: "csma_start sample_idle"
  by (simp add: csma_start_def sample_idle_def sim_ok_def pending_def Simulator_new_def csma_bounds_def LrWpanCsmaCa_new_def class_defs)

lemma sample_started_reach: "csma_reach sample_idle sample_started"
proof -
  have s: "LrWpanCsmaCa_Start sample_mac sample_idle = Some sample_started"
    by (simp add: LrWpanCsmaCa_Start_def sample_idle_def sample_started_def sample_backoff_def LrWpanCsmaCa_new_def class_defs
        csma_sched_def schedule_alone Simulator_new_def)
  have l: "csma_live sample_idle = {}" "\<not> phyCca sample_idle"
    by (simp_all add: csma_live_def sample_idle_def pending_def Simulator_new_def)
  show ?thesis by (rule csma_reach.step [OF csma_reach.init csma_step.start [OF l s]])
qed

lemma sample_started_live: "csma_live sample_started = {((0, 4), RandomBackoffDelay)}"
  by (auto simp: csma_live_def sample_started_def sample_backoff_def pending_def Simulator_new_def)

definition sample_late :: csma_world where
  "sample_late = \<lparr>csma = LrWpanCsmaCa_SetSlottedCsmaCa LrWpanCsmaCa_new, sim = Simulator_new\<lparr>m_currentTs := 8000000\<rparr>,
     outs = [], phyCca = False\<rparr>"

text \<open>Commands and elements that do not survive their format.\<close>

definition sample_info_req :: "CommandPayloadHeader \<Rightarrow> CommandPayloadHeader" where
  "sample_info_req mem = (CommandPayloadHeader_SetCommandFrameType DSME_INFO_REQ mem)\<lparr>m_infoType := 1, cmd_dsmeSABSubBlkIdx := 0x102\<rparr>"

definition sample_info_reply :: "CommandPayloadHeader \<Rightarrow> CommandPayloadHeader" where
  "sample_info_reply mem = (CommandPayloadHeader_SetCommandFrameType DSME_INFO_REPLY mem)\<lparr>m_infoType := 2, m_dsmePANDercriptorIE := sample_pan\<rparr>"

definition sample_egack :: "EnhancedGroupAckDescriptorIE \<Rightarrow> EnhancedGroupAckDescriptorIE" where
  "sample_egack mem = EnhancedGroupAckDescriptorIE_SetGroupAckBitmap 0x8000000000000001
     (EnhancedGroupAckDescriptorIE_SetHeaderIEDescriptor (EnhancedGroupAckDescriptorIE_SetIELength 8 (EnhancedGroupAckDescriptorIE_new mem)))"

definition sample_sab :: "u8 \<Rightarrow> DSMESABSpecificationField" where
  "sample_sab b = \<lparr>m_capReduction = False, m_dsmeSABSubBlkLen = 1, m_dsmeSABSubBlkIdx = 0, m_dsmeSABSubBlk = [], m_dsmeSABSubBlkCapOff = [b]\<rparr>"

text \<open>A device or coordinator with an empty table, and a hash function.\<close>

definition sample_gack :: "u32 list \<Rightarrow> LrWpanGroupAck" where
  "sample_gack ss = \<lparr>m_enhancedGACKBitmap = 0, m_groupAckPktBuffer = ss, m_legacyGackBitmap = 0, m_legacyGackDevList = 0,
     m_legacyGackIdx = 0, m_legacyGackDirections = 0, m_legacyGackIndexCounter = 0, m_legacyGackGTSIdxBuffer = []\<rparr>"

definition octet_sum :: "u8 list \<Rightarrow> u64" where
  "octet_sum bs = of_nat (sum_list (map unat bs))"

lemma octet_sum_home:
  "home octet_sum (Mac16Address 0 3) 4 = 55" "home octet_sum (Mac16Address 0 2) 7 = 57" "home octet_sum (Mac16Address 0 2) 8 = 36"
  "home octet_sum (Mac16Address 0 2) 10 = 38" "home octet_sum (Mac16Address 0 2) 19 = 38"
  by (simp_all add: home_def octet_sum_def addr_buf_def sprintf_d_def sum_list_replicate)

end
