(* ===== verification/Data_Service.thy ===== *)
theory Data_Service
  imports Mac_Data
begin

section \<open>The data service: what it promises and where it stops\<close>

text \<open>
  The frame that a data request builds, what a receiver makes of it and who accepts it; and the
  fate of a frame that asks for an acknowledgement when no group acknowledgement is used.
\<close>

subsection \<open>Delivery\<close>

text \<open>A request between short addresses, and when the frame asks for an acknowledgement.\<close>

definition short_request :: "McpsDataRequestParams \<Rightarrow> bool" where
  "short_request r \<longleftrightarrow> req_srcAddrMode r = SHORTADDR \<and> req_dstAddrMode r = SHORTADDR"

definition group_address :: "mac16 \<Rightarrow> bool" where
  "group_address a \<longleftrightarrow> Mac16Address_IsBroadcast a \<or> Mac16Address_IsMulticast a"

definition asks_ack :: "McpsDataRequestParams \<Rightarrow> LrWpanMac \<Rightarrow> bool" where
  "asks_ack r m \<longleftrightarrow> bit (req_txOptions r) 0 \<and> \<not> group_address (req_dstAddr r) \<and> \<not> m_NoACK m"

lemma mcps_header_fields:
  assumes "short_request r"
  shows "LrWpanMacHeader_GetType (mcps_header env r m) = LRWPAN_MAC_DATA" and "m_SeqNum (mcps_header env r m) = m_macDsn m"
    and "m_fctrlFrmVer (mcps_header env r m) = 1" and "m_fctrlSecU (mcps_header env r m) = 0"
    and "m_fctrlSrcAddrMode (mcps_header env r m) = SHORTADDR" and "m_fctrlDstAddrMode (mcps_header env r m) = SHORTADDR"
    and "m_addrSrcPanId (mcps_header env r m) = m_macPanId m" and "m_addrShortSrcAddr (mcps_header env r m) = m_shortAddress m"
    and "m_addrDstPanId (mcps_header env r m) = req_dstPanId r" and "m_addrShortDstAddr (mcps_header env r m) = req_dstAddr r"
    and "m_fctrlAckReq (mcps_header env r m) = of_bool (asks_ack r m)"
    and "m_fctrlPanIdComp (mcps_header env r m) = of_bool (req_dstPanId r = m_macPanId m)"
    and "mac_ok rtl (mcps_header env r m)" and "pan_consistent (mcps_header env r m)"
    and "m_fctrlFrmType (mcps_header env r m) = 1"
  using assms
  by (simp_all add: mcps_header_def short_request_def asks_ack_def group_address_def class_defs LrWpanMacHeader_newTyped_def Let_def
      LrWpanMacHeader_GetType_def mac_ok_def fctrl_ok_def fits_iff pan_consistent_def)

text \<open>The header a receiver gets: the control fields travel as they are.\<close>

lemma rebuilt_control:
  "m_fctrlFrmVer (mac_rebuilt f0 f) = m_fctrlFrmVer f" "m_fctrlAckReq (mac_rebuilt f0 f) = m_fctrlAckReq f"
  "m_fctrlDstAddrMode (mac_rebuilt f0 f) = m_fctrlDstAddrMode f" "m_fctrlSrcAddrMode (mac_rebuilt f0 f) = m_fctrlSrcAddrMode f"
  "m_fctrlFrmType (mac_rebuilt f0 f) = m_fctrlFrmType f"
  by (simp_all add: mac_rebuilt_def sec_rebuilt_def key_rebuilt_def LrWpanMacHeader_SetKeyId32_def LrWpanMacHeader_SetKeyId64_def
      src_rebuilt_def srcpan_rebuilt_def dst_rebuilt_def fctrl_copy_def)

lemma received_header:
  assumes "short_request r"
  shows "data_params lqi (mac_rebuilt f0 (mcps_header env r m)) =
     \<lparr>ind_srcAddrMode = SHORTADDR, ind_srcPanId = m_macPanId m, ind_srcAddr = m_shortAddress m, ind_dstAddrMode = SHORTADDR,
      ind_dstPanId = req_dstPanId r, ind_dstAddr = req_dstAddr r, ind_mpduLinkQuality = lqi, ind_dsn = m_macDsn m\<rparr>"
    and "LrWpanMacHeader_IsAckReq (mac_rebuilt f0 (mcps_header env r m)) = asks_ack r m"
    and "LrWpanMacHeader_IsData (mac_rebuilt f0 (mcps_header env r m))"
    and "LrWpanMacHeader_GetType (mac_rebuilt f0 (mcps_header env r m)) = LRWPAN_MAC_DATA"
    and "LrWpanMacHeader_GetFrameVer (mac_rebuilt f0 (mcps_header env r m)) = 1"
proof -
  note flds = mcps_header_fields [OF assms, where env = env and m = m]
  let ?g = "mac_rebuilt f0 (mcps_header env r m)"
  have modes: "m_fctrlDstAddrMode ?g = SHORTADDR" "m_fctrlSrcAddrMode ?g = SHORTADDR" by (simp_all add: rebuilt_control flds)
  have "dst_addr ?g = AddrShort (req_dstPanId r) (req_dstAddr r)" by (simp add: dst_addr_rebuilt) (simp add: dst_addr_def flds)
  then have dst: "m_addrDstPanId ?g = req_dstPanId r" "m_addrShortDstAddr ?g = req_dstAddr r" using modes by (simp_all add: dst_addr_def)
  have "src_addr ?g = AddrShort (m_macPanId m) (m_shortAddress m)"
    using src_addr_rebuilt [OF flds(13,14)] by (simp add: src_addr_def flds)
  then have src: "m_addrSrcPanId ?g = m_macPanId m" "m_addrShortSrcAddr ?g = m_shortAddress m" using modes by (simp_all add: src_addr_def)
  show "data_params lqi ?g =
     \<lparr>ind_srcAddrMode = SHORTADDR, ind_srcPanId = m_macPanId m, ind_srcAddr = m_shortAddress m, ind_dstAddrMode = SHORTADDR,
      ind_dstPanId = req_dstPanId r, ind_dstAddr = req_dstAddr r, ind_mpduLinkQuality = lqi, ind_dsn = m_macDsn m\<rparr>"
    by (simp add: data_params_def class_defs modes dst src type_rebuilt(2) flds(2))
  show "LrWpanMacHeader_IsAckReq ?g = asks_ack r m" by (simp add: class_defs rebuilt_control flds)
  show "LrWpanMacHeader_IsData ?g" by (simp add: class_defs rebuilt_control flds)
  show "LrWpanMacHeader_GetType ?g = LRWPAN_MAC_DATA" by (simp add: type_rebuilt flds)
  show "LrWpanMacHeader_GetFrameVer ?g = 1" by (simp add: class_defs rebuilt_control flds)
qed

text \<open>Who takes the frame: stations of the PAN it is for, if it is for them or for a group they did not send to.\<close>

definition addressed :: "McpsDataRequestParams \<Rightarrow> LrWpanMac \<Rightarrow> LrWpanMac \<Rightarrow> bool" where
  "addressed r m m' \<longleftrightarrow> (req_dstPanId r = m_macPanId m' \<or> req_dstPanId r = 0xffff) \<and>
     (req_dstAddr r = m_shortAddress m' \<or> group_address (req_dstAddr r)) \<and>
     (req_dstAddr r = Mac16Address 0xff 0xff \<longrightarrow> m_shortAddress m \<noteq> m_shortAddress m')"

lemma accepted_by:
  assumes "short_request r"
  shows "LrWpanMac_AcceptFrame (mac_rebuilt f0 (mcps_header env r m)) m' \<longleftrightarrow> addressed r m m'"
proof -
  let ?g = "mac_rebuilt f0 (mcps_header env r m)"
  have f: "LrWpanMacHeader_GetDstAddrMode ?g = SHORTADDR" "LrWpanMacHeader_GetDstPanId ?g = req_dstPanId r"
    "LrWpanMacHeader_GetShortDstAddr ?g = req_dstAddr r" "LrWpanMacHeader_GetShortSrcAddr ?g = m_shortAddress m"
    using received_header(1) [OF assms, of lqi f0 env m] by (simp_all add: data_params_def)
  have n: "\<not> LrWpanMacHeader_IsBeacon ?g" "\<not> LrWpanMacHeader_IsCommand ?g"
    using mcps_header_fields(15) [OF assms, where env = env and m = m] by (simp_all add: class_defs rebuilt_control)
  show ?thesis
    unfolding LrWpanMac_AcceptFrame_def addressed_def group_address_def Let_def f received_header(4,5) [OF assms]
    using n by auto
qed

text \<open>From the request to the indication at another station.\<close>

lemma data_delivered:
  assumes "rooms (env_room env)" and "short_request r" and "length p \<le> 65000"
  shows "\<exists>q h. LrWpanMac_AddFrame checksum (env_room env) (mcps_header env r m) p = Some q \<and>
    LrWpanMac_RemoveFrame checksum rtl mem q = Some (Some (h, p)) \<and>
    data_params lqi h = \<lparr>ind_srcAddrMode = SHORTADDR, ind_srcPanId = m_macPanId m, ind_srcAddr = m_shortAddress m,
      ind_dstAddrMode = SHORTADDR, ind_dstPanId = req_dstPanId r, ind_dstAddr = req_dstAddr r, ind_mpduLinkQuality = lqi,
      ind_dsn = m_macDsn m\<rparr> \<and>
    LrWpanMacHeader_IsData h \<and> LrWpanMacHeader_IsAckReq h = asks_ack r m \<and> LrWpanMac_AcceptFrame h m' = addressed r m m'"
proof -
  let ?h = "mcps_header env r m"
  have ok: "mac_ok rtl ?h" by (rule mcps_header_fields(13) [OF assms(2)])
  have "length (mac_wire ?h) = LrWpanMacHeader_GetSerializedSize ?h" using mac.size_wire [OF ok] by simp
  also have "\<dots> \<le> 11"
    using mcps_header_fields(3-6,12) [OF assms(2), where env = env and m = m]
    by (simp add: LrWpanMacHeader_GetSerializedSize_def class_defs Let_def)
  finally have len: "length (mac_wire ?h @ p) < 65536" using assms(3) by simp
  from AddFrame_wire [OF assms(1) ok len, of checksum] obtain q where q: "LrWpanMac_AddFrame checksum (env_room env) ?h p = Some q"
    by blast
  have "LrWpanMac_RemoveFrame checksum rtl mem q = Some (Some (mac_rebuilt (LrWpanMacHeader_new mem) ?h, p))"
    using frame_delivered [OF assms(1) ok len, of checksum mem] by (simp add: q)
  then show ?thesis
    using q received_header [OF assms(2)] accepted_by [OF assms(2)]
    by (intro exI [of _ q] exI [of _ "mac_rebuilt (LrWpanMacHeader_new mem) ?h"]) simp
qed

text \<open>The same with the handlers: the frame that a direct request puts at the end of the queue is what the receivers take.\<close>

definition direct_request :: "McpsDataRequestParams \<Rightarrow> bool" where
  "direct_request r \<longleftrightarrow> short_request r \<and> \<not> bit (req_txOptions r) 1 \<and> \<not> bit (req_txOptions r) 2 \<and> bit (req_txOptions r) 3"

definition receiving :: "mac_env \<Rightarrow> mac_world \<Rightarrow> bool" where
  "receiving env w \<longleftrightarrow> m_lrWpanMacState (mac w) \<in> {MAC_IDLE, MAC_ACK_PENDING, MAC_CSMA, MAC_GTS} \<and> \<not> m_acceptAllHilowPkt (mac w) \<and>
     env_dataIndication env \<and> \<not> mac_running (m_incGtsEvent (mac w)) w"

lemma CheckQueue_frame: "sim_ok (msim w) \<Longrightarrow> \<exists>v. LrWpanMac_CheckQueue w = Some v \<and> pkts v = pkts w \<and> m_txQueue (mac v) = m_txQueue (mac w) \<and> mouts v = mouts w"
  using mac_sched_ok [of "mac_upd (\<lambda>m. m\<lparr>m_txPkt := txQPkt (hd (m_txQueue (mac w)))\<rparr>) w" 0 "SetLrWpanMacState MAC_CSMA" "\<lambda>k m. m\<lparr>m_setMacState := k\<rparr>"]
  by (auto simp: LrWpanMac_CheckQueue_def Let_def mac_upd_def)

lemma request_queued:
  assumes "rooms (env_room env)" and "direct_request r" and "length (pkts w ptr) \<le> 65000" and "sim_ok (msim w)"
    and "length (m_txQueue (mac w)) < unat (m_maxTxQueueSize (mac w))"
  shows "\<exists>v. LrWpanMac_McpsDataRequest env r ptr w = Some v \<and>
    m_txQueue (mac v) = m_txQueue (mac w) @ [\<lparr>txQMsduHandle = req_msduHandle r, txQPkt = Some ptr\<rparr>] \<and> mouts v = mouts w \<and>
    LrWpanMac_AddFrame (env_checksum env) (env_room env) (mcps_header env r (mac w)) (pkts w ptr) = Some (pkts v ptr)"
proof -
  let ?p = "mac_upd (\<lambda>m. m\<lparr>m_mcpsDataRequestParams := r\<rparr>) w"
  have h: "mcps_header env r (mac ?p) = mcps_header env r (mac w)" by (simp add: mcps_header_def mac_upd_def Let_def)
  obtain q where q: "LrWpanMac_AddFrame (env_checksum env) (env_room env) (mcps_header env r (mac w)) (pkts w ptr) = Some q"
    using data_delivered [OF assms(1) _ assms(3), of r] assms(2) unfolding direct_request_def by blast
  let ?d = "mac_upd (\<lambda>m. m\<lparr>m_macDsn := m_macDsn m + 1\<rparr>) ?p"
  let ?f = "?d\<lparr>pkts := (pkts ?d)(ptr := q)\<rparr>" and ?e = "\<lparr>txQMsduHandle = req_msduHandle r, txQPkt = Some ptr\<rparr>"
  let ?v = "LrWpanMac_EnqueueTxQElement env ?e ?f"
  have f: "mcps_frame env (mcps_header env r (mac w)) ptr ?d = Some ?f" using q by (simp add: mcps_frame_def mac_upd_def)
  have v: "m_txQueue (mac ?v) = m_txQueue (mac w) @ [?e]" "mouts ?v = mouts w" "pkts ?v ptr = q" "sim_ok (msim ?v)"
    using assms(4,5) by (simp_all add: LrWpanMac_EnqueueTxQElement_def mac_upd_def)
  obtain u where u: "LrWpanMac_CheckQueue ?v = Some u" "pkts u = pkts ?v" "m_txQueue (mac u) = m_txQueue (mac ?v)" "mouts u = mouts ?v"
    using CheckQueue_frame [OF v(4)] by blast
  have "LrWpanMac_McpsDataRequest env r ptr w = Some u"
    using assms(2) f u(1) unfolding LrWpanMac_McpsDataRequest_def Let_def h by (simp add: direct_request_def)
  then show ?thesis using u v q by (intro exI [of _ u]) simp
qed

lemma frame_indicated:
  assumes "rooms (env_room env)" and "short_request r" and "length p \<le> 65000" and "\<not> asks_ack r m"
    and "LrWpanMac_AddFrame (env_checksum env) (env_room env) (mcps_header env r m) p = Some q" and "receiving env w"
  shows "\<exists>v. LrWpanMac_PdDataIndication env q lqi w = Some v \<and> mac v = mac w \<and> msim v = msim w \<and>
    mouts v = mouts w @ (if addressed r m (mac w) then [McpsDataIndication \<lparr>ind_srcAddrMode = SHORTADDR, ind_srcPanId = m_macPanId m,
      ind_srcAddr = m_shortAddress m, ind_dstAddrMode = SHORTADDR, ind_dstPanId = req_dstPanId r, ind_dstAddr = req_dstAddr r,
      ind_mpduLinkQuality = lqi, ind_dsn = m_macDsn m\<rparr> p] else [])"
proof -
  let ?i = "\<lparr>ind_srcAddrMode = SHORTADDR, ind_srcPanId = m_macPanId m,
      ind_srcAddr = m_shortAddress m, ind_dstAddrMode = SHORTADDR, ind_dstPanId = req_dstPanId r, ind_dstAddr = req_dstAddr r,
      ind_mpduLinkQuality = lqi, ind_dsn = m_macDsn m\<rparr>"
  obtain h where h: "LrWpanMac_RemoveFrame (env_checksum env) (env_rtl env) (env_mem env) q = Some (Some (h, p))"
    "data_params lqi h = ?i" "LrWpanMacHeader_IsData h" "LrWpanMacHeader_IsAckReq h = asks_ack r m"
    "LrWpanMac_AcceptFrame h (mac w) = addressed r m (mac w)"
    using data_delivered [OF assms(1-3), of "env_checksum env" m "env_rtl env" "env_mem env" lqi "mac w"] assms(5) by auto
  have n: "\<not> LrWpanMacHeader_IsBeacon h" "\<not> LrWpanMacHeader_IsAcknowledgment h" using h(3) by (simp_all add: class_defs)
  have d: "data_received lqi h p w = Some (mac_emit (McpsDataIndication ?i p) w)"
    using assms(6) by (simp add: data_received_def receiving_def h(2) mac_running_def mac_emit_def)
  show ?thesis
    using assms(4,6) h n d unfolding LrWpanMac_PdDataIndication_def receiving_def by (auto simp: mac_emit_def)
qed

subsection \<open>A request for an acknowledgement nobody waits for\<close>

lemma timed_cancel: "sim_ok s \<Longrightarrow> timed (Simulator_Cancel i s) \<subseteq> timed s"
  using Cancel_spec [of s i] by (auto simp: timed_def)

lemma note_sent_disabled: "m_groupAckPolicy (mac w) = GROUP_ACK_DISABLED \<Longrightarrow> note_sent h w = w"
  by (simp add: note_sent_def Let_def)

lemma ack_request_stalls:
  assumes "sim_ok (msim w)" and "m_lrWpanMacState (mac w) = MAC_SENDING \<or> m_lrWpanMacState (mac w) = MAC_GTS_SENDING"
    and "m_groupAckPolicy (mac w) = GROUP_ACK_DISABLED" and "deref (m_txPkt (mac w)) w = Some p" and "mac_peek env p = Some h"
    and "LrWpanMacHeader_IsData h" and "LrWpanMacHeader_IsAckReq h"
  shows "\<exists>v. LrWpanMac_PdDataConfirm env IEEE_802_15_4_PHY_SUCCESS w = Some v \<and> mac v = mac w \<and> mouts v = mouts w \<and>
    timed (msim v) \<subseteq> timed (msim w) \<and> LrWpanMac_CheckQueue v = Some v \<and>
    LrWpanMac_PdDataIndication env psdu lqi v = None"
proof -
  have n: "\<not> LrWpanMacHeader_IsAcknowledgment h" "\<not> LrWpanMacHeader_IsBeacon h"
    using assms(6) by (simp_all add: class_defs)
  let ?v = "mac_cancel (m_setMacState (mac w)) w"
  have "LrWpanMac_PdDataConfirm env IEEE_802_15_4_PHY_SUCCESS w = Some ?v"
    unfolding LrWpanMac_PdDataConfirm_def using assms(2-5,7) n by (simp add: note_sent_disabled mac_cancel_def)
  moreover have "LrWpanMac_CheckQueue ?v = Some ?v"
    using assms(2) by (auto simp: LrWpanMac_CheckQueue_def Let_def mac_cancel_def)
  moreover have "LrWpanMac_PdDataIndication env psdu lqi ?v = None"
    using assms(2) by (auto simp: LrWpanMac_PdDataIndication_def mac_cancel_def)
  ultimately show ?thesis using timed_cancel [OF assms(1)] by (simp add: mac_cancel_def)
qed

text \<open>An accepted data frame that asks for an acknowledgement: its payload is read as a command and may be too short for it.\<close>

lemma ack_requested_short_payload:
  assumes "CommandPayloadHeader_new (env_cmdMem env) = Some c" and "CommandPayloadHeader_Deserialize c ([], p) = None"
  shows "ack_requested env q h p w = None"
  using assms by (simp add: ack_requested_def PeekHeader_def)

lemma one_octet_command: "CommandPayloadHeader_Deserialize c ([], [1]) = None"
  by (simp add: CommandPayloadHeader_Deserialize_def CommandPayloadHeader_DeserializeBody_def CommandPayloadHeader_GetCommandFrameType_def
      ReadU8_def CapabilityField_Deserialize_def)

end
