(* ===== verification/Beacon_Service.thy ===== *)
theory Beacon_Service
  imports Mac_Data
begin

section \<open>Beacons: what a coordinator announces and what the others make of it\<close>

text \<open>
  The enhanced beacon of a coordinator, taken apart by its receiver: the descriptor arrives as it
  was announced, and a coordinator that joins sends its own first beacon at the beginning of the
  superframe it has chosen, counted from the start of its parent's beacon.
\<close>

subsection \<open>The beacon of a coordinator\<close>

text \<open>The objects that the handlers construct have arrays of seven elements.\<close>

definition objs_ok :: "mac_objs \<Rightarrow> bool" where
  "objs_ok o' \<longleftrightarrow> length (m_gtsList (bcn_gtsFields (obj_beacon o'))) = 7 \<and>
     length (m_shortAddrList (bcn_pndAddrFields (obj_beacon o'))) = 7 \<and> length (m_extAddrList (bcn_pndAddrFields (obj_beacon o'))) = 7 \<and>
     length (m_shortAddrList (obj_pending o')) = 7 \<and> length (m_extAddrList (obj_pending o')) = 7"

text \<open>A coordinator whose superframe structure is set up and that is due to send a beacon.\<close>

definition announces :: "mac_env \<Rightarrow> mac_world \<Rightarrow> bool" where
  "announces env w \<longleftrightarrow> rooms (env_room env) \<and> objs_ok (env_objs env) \<and> m_lrWpanMacState (mac w) = MAC_IDLE \<and>
     m_shortAddress (mac w) \<noteq> Mac16Address 0xff 0xff \<and> m_macPanId (mac w) \<noteq> 0xffff \<and> m_macDSMEenabled (mac w) \<and>
     LrWpanCsmaCa_IsSlottedCsmaCa (m_csmaCa (mac w)) \<and> \<not> m_macCAPReductionFlag (mac w) \<and> m_indTxQueue (mac w) = [] \<and>
     superframe_ok (pan_superframeField (m_dsmePanDescriptorIE (m_pan (mac w)))) \<and>
     dsme_superframe_ok (pan_dsmeSuperframeField (m_dsmePanDescriptorIE (m_pan (mac w)))) \<and>
     bitmap_ok (m_macSDBitmap (m_pan (mac w))) \<and>
     length (m_macChannelOfsBitmap (m_pan (mac w))) = words16 (unat (m_macChannelOfsBitmapLen (m_pan (mac w)))) \<and>
     length (m_sspecSDBitmap (m_macSDBitmap (m_pan (mac w)))) + length (m_macChannelOfsBitmap (m_pan (mac w))) \<le> 40 \<and>
     groupack_ok (m_legacyGroupAck (mac w))"

lemma pending_new_ok:
  assumes "length (m_shortAddrList mem) = 7" and "length (m_extAddrList mem) = 7"
  shows "pending_ok (PendingAddrFields_new mem)" and "m_pndAddrSpecNumShortAddr (PendingAddrFields_new mem) = 0"
    and "m_pndAddrSpecNumExtAddr (PendingAddrFields_new mem) = 0"
  using assms by (simp_all add: pending_ok_def PendingAddrFields_new_def)

lemma no_pending:
  assumes "objs_ok (env_objs env)" and "m_indTxQueue (mac w) = []"
  shows "\<exists>f. LrWpanMac_GetPendingAddrFields env w = Some f \<and> pending_ok f \<and> PendingAddrFields_GetSerializedSize f = 1"
  using assms by (simp add: LrWpanMac_GetPendingAddrFields_def objs_ok_def class_defs PendingAddrFields_new_def pending_ok_def
      PendingAddrFields_GetSerializedSize_def)

lemma hie_ok_length: "unat n \<le> 127 \<Longrightarrow> hie_ok (d\<lparr>hie_length := n\<rparr>)"
  by (simp add: hie_ok_def fits_iff word_less_nat_alt)

lemma announced_pan:
  assumes "announces env w" and "m_pan (mac w) = p"
  shows "\<exists>ie. announce_pan env w = Some ie \<and> pan_ok ie \<and> pan_superframeField ie = pan_superframeField (m_dsmePanDescriptorIE p) \<and>
    pan_dsmeSuperframeField ie = pan_dsmeSuperframeField (m_dsmePanDescriptorIE p) \<and>
    TimeSync_GetBeaconTimeStamp (pan_timeSynField ie) = of_int (m_startOfBcnSlot (mac w)) \<and>
    pan_beaconBitmapField ie = m_macSDBitmap p \<and> length (pan_wire ie) \<le> 129"
proof -
  note a = assms(1) [unfolded announces_def assms(2)]
  obtain f where f: "LrWpanMac_GetPendingAddrFields env w = Some f" "pending_ok f" "PendingAddrFields_GetSerializedSize f = 1"
    using no_pending [of env w] a by blast
  define hop where "hop = ChannelHopping_SetChannelOffsetBitmapVector (m_macChannelOfsBitmap p)
    (ChannelHopping_SetChannelOffsetBitmapLength (m_macChannelOfsBitmapLen p) (ChannelHopping_SetChannelOffset (m_macChannelOfs p)
    (ChannelHopping_SetPANCoordinatorBSN (m_macPANCoordinatorBSN (mac w) - 1) (ChannelHopping_SetHoppingSequenceID (m_macHoppingSeqID p)
    (ChannelHopping_new (obj_hopping (env_objs env)))))))"
  have hop: "hopping_ok hop" using a by (simp add: hop_def hopping_ok_def class_defs)
  define ie where "ie = (m_dsmePanDescriptorIE p)\<lparr>pan_timeSynField := TimeSync_SetBeaconTimeStamp
      (of_int (m_startOfBcnSlot (mac w))) (TimeSync_new (obj_timeSync (env_objs env))), pan_beaconBitmapField := m_macSDBitmap p,
    pan_channelHoppingField := hop, pan_gack := m_legacyGroupAck (mac w), pan_pndAddrFields := f\<rparr>"
  have size: "DsmePANDescriptorIE_GetSerializedSize ie \<le> 129" "2 \<le> DsmePANDescriptorIE_GetSerializedSize ie"
    using a f(3) by (simp_all add: DsmePANDescriptorIE_GetSerializedSize_def ie_def HeaderIEDescriptor_GetSerializedSize_def class_defs
        BeaconBitmap_GetSerializedSize_def ChannelHopping_GetSerializedSize_def hop_def Let_def)
  let ?ie = "DsmePANDescriptorIE_SetHeaderIEDescriptor (of_nat (DsmePANDescriptorIE_GetSerializedSize ie) - 2) HEADERIE_DSME_PAN_DESCRIPTOR ie"
  obtain n where n: "DsmePANDescriptorIE_GetSerializedSize ie = n + 2" "n \<le> 127"
    using size by (intro that [of "DsmePANDescriptorIE_GetSerializedSize ie - 2"]) simp_all
  then have len: "unat (of_nat (DsmePANDescriptorIE_GetSerializedSize ie) - 2 :: u8) \<le> 127"
    by (simp add: unsigned_of_nat take_bit_nat_eq_self)
  have ok: "pan_ok ?ie"
    using a f(2) hop hie_ok_length [OF len] by (simp add: pan_ok_def DsmePANDescriptorIE_SetHeaderIEDescriptor_def class_defs ie_def hie_ok_def)
  have "DsmePANDescriptorIE_GetSerializedSize ?ie = DsmePANDescriptorIE_GetSerializedSize ie"
    by (simp add: DsmePANDescriptorIE_GetSerializedSize_def DsmePANDescriptorIE_SetHeaderIEDescriptor_def HeaderIEDescriptor_GetSerializedSize_def)
  then have "length (pan_wire ?ie) \<le> 129" using size(1) pan_codec(2) [OF ok] by simp
  moreover have "announce_pan env w = Some ?ie"
    by (simp add: announce_pan_def f(1) assms(2) Let_def class_defs ie_def hop_def)
  ultimately show ?thesis
    using ok by (intro exI [of _ ?ie]) (simp add: DsmePANDescriptorIE_SetHeaderIEDescriptor_def ie_def class_defs)
qed

lemma beacon_header_fields:
  fixes env m sn
  defines "h \<equiv> LrWpanMacHeader_SetIEListPresent (beacon_header env sn m)"
  shows "m_fctrlFrmType h = 0" "m_fctrlFrmVer h = 2" "m_fctrlSecU h = 0" "m_fctrlAckReq h = 0" "m_fctrlPanIdComp h = 0"
    and "m_fctrlIEListPresent h = 1" "m_fctrlDstAddrMode h = SHORTADDR" "m_fctrlSrcAddrMode h = SHORTADDR"
    and "m_addrDstPanId h = m_macPanId m" "m_addrShortDstAddr h = Mac16Address 0xff 0xff"
    and "m_addrSrcPanId h = m_macPanId m" "m_addrShortSrcAddr h = m_shortAddress m"
    and "mac_ok rtl h" "pan_consistent h" "length (mac_wire h) \<le> 20"
proof -
  show f: "m_fctrlFrmType h = 0" "m_fctrlFrmVer h = 2" "m_fctrlSecU h = 0" "m_fctrlAckReq h = 0" "m_fctrlPanIdComp h = 0"
    "m_fctrlIEListPresent h = 1" "m_fctrlDstAddrMode h = SHORTADDR" "m_fctrlSrcAddrMode h = SHORTADDR"
    "m_addrDstPanId h = m_macPanId m" "m_addrShortDstAddr h = Mac16Address 0xff 0xff"
    "m_addrSrcPanId h = m_macPanId m" "m_addrShortSrcAddr h = m_shortAddress m"
    by (simp_all add: h_def beacon_header_def class_defs LrWpanMacHeader_new_def Let_def)
  have g: "m_fctrlFrmPending h = of_bool (m_indTxQueue m \<noteq> [])" "m_fctrlReserved h = 0" "m_fctrlSeqNumSup h = 0"
    by (simp_all add: h_def beacon_header_def class_defs LrWpanMacHeader_new_def Let_def)
  show ok: "mac_ok rtl h" using f g by (simp add: mac_ok_def fctrl_ok_def fits_iff)
  show "pan_consistent h" using f by (simp add: pan_consistent_def)
  have "length (mac_wire h) = LrWpanMacHeader_GetSerializedSize h" using mac.size_wire [OF ok] by simp
  also have "\<dots> \<le> 20" using f by (simp add: LrWpanMacHeader_GetSerializedSize_def class_defs Let_def)
  finally show "length (mac_wire h) \<le> 20" .
qed

text \<open>The terminations and the payload are the same in every beacon.\<close>

lemma beacon_payload_new:
  assumes "objs_ok (env_objs env)"
  shows "\<exists>b. BeaconPayloadHeader_new (obj_beacon (env_objs env)) = Some b \<and> beacon_ok b \<and> length (beacon_wire b) \<le> 20"
proof -
  obtain sf where sf: "SuperframeField_new (bcn_superframeField (obj_beacon (env_objs env))) = Some sf" "superframe_ok sf"
    by (simp add: SuperframeField_new_def class_defs superframe_ok_def)
  let ?b = "(obj_beacon (env_objs env))\<lparr>bcn_superframeField := sf, bcn_gtsFields := GtsFields_new (bcn_gtsFields (obj_beacon (env_objs env))),
    bcn_pndAddrFields := PendingAddrFields_new (bcn_pndAddrFields (obj_beacon (env_objs env)))\<rparr>"
  have ok: "beacon_ok ?b"
    using assms sf(2) by (simp add: beacon_ok_def objs_ok_def pending_new_ok gts_ok_def GtsFields_new_def fits_def)
  have "BeaconPayloadHeader_GetSerializedSize ?b \<le> 20"
    by (simp add: BeaconPayloadHeader_GetSerializedSize_def class_defs GtsFields_GetSerializedSize_def GtsFields_new_def
        PendingAddrFields_GetSerializedSize_def PendingAddrFields_new_def Let_def)
  then have "length (beacon_wire ?b) \<le> 20" using beacon_codec(2) [OF ok] by simp
  moreover have "BeaconPayloadHeader_new (obj_beacon (env_objs env)) = Some ?b" by (simp add: BeaconPayloadHeader_new_def sf(1))
  ultimately show ?thesis using ok by blast
qed

lemma terminations_ok:
  "hie_ok (hterm_descriptor (HeaderIETermination_new h))" "pie_ok (pterm_descriptor (PayloadIETermination_new t))"
  by (simp_all add: HeaderIETermination_new_def PayloadIETermination_new_def HeaderIEDescriptor_new_def PayloadIEDescriptor_new_def
      class_defs hie_ok_def pie_ok_def fits_iff)

lemma beacon_elements_wire:
  assumes "rooms (env_room env)" and "pan_ok ie"
  shows "beacon_elements env ie p = Some (pan_wire ie @ hterm_wire (HeaderIETermination_new (obj_headerTermination (env_objs env))) @
    pterm_wire (PayloadIETermination_new (obj_payloadTermination (env_objs env))) @ p)"
  using assms payload_termination.add_header [OF terminations_ok(2)] header_termination.add_header [OF terminations_ok(1)]
    pan_descriptor_ie.add_header [OF assms(2)]
  by (simp add: beacon_elements_def Let_def rooms_def)

definition beacon_body :: "mac_env \<Rightarrow> DsmePANDescriptorIE \<Rightarrow> BeaconPayloadHeader \<Rightarrow> packet" where
  "beacon_body env ie b = pan_wire ie @ hterm_wire (HeaderIETermination_new (obj_headerTermination (env_objs env))) @
    pterm_wire (PayloadIETermination_new (obj_payloadTermination (env_objs env))) @ beacon_wire b"

text \<open>What is sent: the descriptor as announced, under a header of the coordinator.\<close>

lemma beacon_transmitted:
  assumes "announces env w"
  shows "\<exists>v ie b sn. LrWpanMac_SendOneEnhancedBeacon env a w = Some v \<and> m_lrWpanMacState (mac v) = MAC_SENDING \<and> m_txPkt (mac v) = Some a \<and>
    msim v = msim w \<and> mouts v = mouts w @ [PlmeSetTRXStateRequest IEEE_802_15_4_PHY_TX_ON] \<and>
    m_startOfBcnSlot (mac v) = Simulator_Now (msim w) \<and> pan_ok ie \<and> beacon_ok b \<and>
    pan_superframeField ie = pan_superframeField (m_dsmePanDescriptorIE (m_pan (mac w))) \<and>
    pan_dsmeSuperframeField ie = pan_dsmeSuperframeField (m_dsmePanDescriptorIE (m_pan (mac w))) \<and>
    TimeSync_GetBeaconTimeStamp (pan_timeSynField ie) = of_int (Simulator_Now (msim w)) \<and>
    pan_beaconBitmapField ie = m_macSDBitmap (m_pan (mac w)) \<and> length (beacon_body env ie b) \<le> 1000 \<and>
    LrWpanMac_AddFrame (env_checksum env) (env_room env) (LrWpanMacHeader_SetIEListPresent (beacon_header env sn (mac w)))
      (beacon_body env ie b) = Some (pkts v a)"
proof -
  note a = assms [unfolded announces_def]
  have rm: "rooms (env_room env)" using a by blast
  obtain b where b: "BeaconPayloadHeader_new (obj_beacon (env_objs env)) = Some b" "beacon_ok b" "length (beacon_wire b) \<le> 20"
    using beacon_payload_new [of env] a by blast
  let ?s = "mac_upd (\<lambda>m. m\<lparr>m_startOfBcnSlot := Simulator_Now (msim w)\<rparr>) w"
  let ?g = "\<lambda>m. if m_panCoor m then m\<lparr>m_macPANCoordinatorBSN := m_macPANCoordinatorBSN m + 1\<rparr>
                    else mac_pan_upd (\<lambda>p. p\<lparr>m_macEbsn := m_macEbsn p + 1\<rparr>) m"
  let ?n = "mac_upd ?g ?s"
  let ?sn = "if m_panCoor (mac ?s) then m_macPANCoordinatorBSN (mac ?s) else m_macEbsn (m_pan (mac ?s))"
  have n: "announces env ?n" using assms by (auto simp: announces_def mac_upd_def mac_pan_upd_def)
  have np: "m_dsmePanDescriptorIE (m_pan (mac ?n)) = m_dsmePanDescriptorIE (m_pan (mac w))" "m_macSDBitmap (m_pan (mac ?n)) = m_macSDBitmap (m_pan (mac w))"
    "m_startOfBcnSlot (mac ?n) = Simulator_Now (msim w)" "m_macDSMEenabled (mac ?n)" "LrWpanCsmaCa_IsSlottedCsmaCa (m_csmaCa (mac ?n))"
    "\<not> m_macCAPReductionFlag (mac ?n)" "msim ?n = msim w" "mouts ?n = mouts w"
    using a by (simp_all add: mac_upd_def mac_pan_upd_def)
  obtain ie where ie: "announce_pan env ?n = Some ie" "pan_ok ie" "pan_superframeField ie = pan_superframeField (m_dsmePanDescriptorIE (m_pan (mac w)))"
    "pan_dsmeSuperframeField ie = pan_dsmeSuperframeField (m_dsmePanDescriptorIE (m_pan (mac w)))"
    "TimeSync_GetBeaconTimeStamp (pan_timeSynField ie) = of_int (Simulator_Now (msim w))"
    "pan_beaconBitmapField ie = m_macSDBitmap (m_pan (mac w))" "length (pan_wire ie) \<le> 129"
    using announced_pan [OF n refl] unfolding np by blast
  have len: "length (beacon_body env ie b) \<le> 1000" using b(3) ie(7) by (simp add: beacon_body_def terminations_differ)
  have p: "AddHeader (env_room env (BeaconPayloadHeader_GetSerializedSize b)) BeaconPayloadHeader_Serialize b [] = Some (beacon_wire b)"
    using beacon.add_header [OF b(2), of _ "[]"] rm by (simp add: rooms_def)
  have hs: "beacon_header env sn (mac ?s) = beacon_header env sn (mac w)" for sn by (simp add: beacon_header_def mac_upd_def Let_def)
  let ?h = "LrWpanMacHeader_SetIEListPresent (beacon_header env ?sn (mac w))"
  have "length (mac_wire ?h @ beacon_body env ie b) < 65536" using beacon_header_fields(15) [of env ?sn "mac w"] len by simp
  from AddFrame_wire [OF rm beacon_header_fields(13) this] obtain q
    where q: "LrWpanMac_AddFrame (env_checksum env) (env_room env) ?h (beacon_body env ie b) = Some q" by blast
  let ?v = "mac_upd (mac_pan_upd (\<lambda>p. p\<lparr>m_dsmePanDescriptorIE := ie\<rparr>)) ?n"
  let ?t = "mac_upd (\<lambda>m. m\<lparr>m_outSuperframeStatus := BEACON\<rparr>) (mac_upd (\<lambda>m. m\<lparr>m_txPkt := Some a\<rparr>) (?v\<lparr>pkts := (pkts ?v)(a := q)\<rparr>))"
  let ?u = "mac_emit (PlmeSetTRXStateRequest IEEE_802_15_4_PHY_TX_ON) (LrWpanMac_ChangeMacState MAC_SENDING
    (mac_upd (\<lambda>m. m\<lparr>m_BeaconStartTxTime := Simulator_Now (msim ?t)\<rparr>) ?t))"
  have e: "beacon_elements env ie (beacon_wire b) = Some (beacon_body env ie b)"
    by (simp add: beacon_elements_wire [OF rm ie(2)] beacon_body_def)
  have cap: "\<not> m_macCAPReductionFlag (mac (mac_upd (\<lambda>m. m\<lparr>m_txPkt := Some a\<rparr>) (?v\<lparr>pkts := (pkts ?v)(a := q)\<rparr>)))"
    using np(6) by (simp add: mac_upd_def mac_pan_upd_def)
  have sent: "LrWpanMac_SendOneEnhancedBeacon env a w = Some ?u"
    unfolding LrWpanMac_SendOneEnhancedBeacon_def Let_def using a b(1) p np(4,5) ie(1) e q cap by (simp add: hs del: if_split)
  have u: "m_lrWpanMacState (mac ?u) = MAC_SENDING" "m_txPkt (mac ?u) = Some a" "msim ?u = msim w"
    "mouts ?u = mouts w @ [PlmeSetTRXStateRequest IEEE_802_15_4_PHY_TX_ON]" "m_startOfBcnSlot (mac ?u) = Simulator_Now (msim w)"
    by (simp_all add: class_defs)
  have "pkts ?u a = q" by (simp add: class_defs)
  with q have "LrWpanMac_AddFrame (env_checksum env) (env_room env) ?h (beacon_body env ie b) = Some (pkts ?u a)" by (simp only:)
  note this sent u ie(2-6) b(2) len
  then show ?thesis by (intro exI [of _ ?u] exI [of _ ie] exI [of _ b] exI [of _ ?sn] conjI)
qed

subsection \<open>The receiver of a beacon\<close>

lemma beacon_control:
  "m_fctrlFrmVer (mac_rebuilt f0 f) = m_fctrlFrmVer f" "m_fctrlAckReq (mac_rebuilt f0 f) = m_fctrlAckReq f"
  "m_fctrlDstAddrMode (mac_rebuilt f0 f) = m_fctrlDstAddrMode f" "m_fctrlSrcAddrMode (mac_rebuilt f0 f) = m_fctrlSrcAddrMode f"
  "m_fctrlFrmType (mac_rebuilt f0 f) = m_fctrlFrmType f" "m_fctrlIEListPresent (mac_rebuilt f0 f) = m_fctrlIEListPresent f"
  by (simp_all add: mac_rebuilt_def sec_rebuilt_def key_rebuilt_def LrWpanMacHeader_SetKeyId32_def LrWpanMacHeader_SetKeyId64_def
      src_rebuilt_def srcpan_rebuilt_def dst_rebuilt_def fctrl_copy_def)

lemma beacon_header_received:
  fixes env m sn old
  defines "g \<equiv> mac_rebuilt old (LrWpanMacHeader_SetIEListPresent (beacon_header env sn m))"
  assumes "m_macPanId m \<noteq> 0xffff"
  shows "LrWpanMacHeader_IsBeacon g" "\<not> LrWpanMacHeader_IsData g" "\<not> LrWpanMacHeader_IsCommand g" "\<not> LrWpanMacHeader_IsAcknowledgment g"
    and "LrWpanMacHeader_GetFrameVer g = 2" "LrWpanMacHeader_IsIEListPresent g" "LrWpanMacHeader_GetSrcAddrMode g = SHORTADDR"
    and "LrWpanMacHeader_GetShortSrcAddr g = m_shortAddress m" "LrWpanMacHeader_GetSrcPanId g = m_macPanId m"
    and "LrWpanMacHeader_GetDstPanId g = m_macPanId m"
    and "m_macPanId m' = m_macPanId m \<Longrightarrow> LrWpanMac_AcceptFrame g m' \<longleftrightarrow> m_shortAddress m' \<noteq> m_shortAddress m"
proof -
  let ?h = "LrWpanMacHeader_SetIEListPresent (beacon_header env sn m)"
  note f = beacon_header_fields [where env = env and sn = sn and m = m]
  have modes: "m_fctrlDstAddrMode g = SHORTADDR" "m_fctrlSrcAddrMode g = SHORTADDR" by (simp_all add: g_def beacon_control f)
  have "dst_addr g = AddrShort (m_macPanId m) (Mac16Address 0xff 0xff)" unfolding g_def dst_addr_rebuilt by (simp add: dst_addr_def f)
  then have dst: "m_addrDstPanId g = m_macPanId m" "m_addrShortDstAddr g = Mac16Address 0xff 0xff" using modes by (simp_all add: dst_addr_def)
  have "src_addr g = AddrShort (m_macPanId m) (m_shortAddress m)"
    unfolding g_def src_addr_rebuilt [OF f(13,14)] by (simp add: src_addr_def f)
  then have src: "m_addrSrcPanId g = m_macPanId m" "m_addrShortSrcAddr g = m_shortAddress m" using modes by (simp_all add: src_addr_def)
  have ctl: "m_fctrlFrmType g = 0" "m_fctrlFrmVer g = 2" "m_fctrlAckReq g = 0" "m_fctrlIEListPresent g = 1"
    by (simp_all add: g_def beacon_control f)
  then show b: "LrWpanMacHeader_IsBeacon g" "\<not> LrWpanMacHeader_IsData g" "\<not> LrWpanMacHeader_IsCommand g" "\<not> LrWpanMacHeader_IsAcknowledgment g"
    "LrWpanMacHeader_GetFrameVer g = 2" "LrWpanMacHeader_IsIEListPresent g"
    by (simp_all add: class_defs)
  show s: "LrWpanMacHeader_GetSrcAddrMode g = SHORTADDR" "LrWpanMacHeader_GetShortSrcAddr g = m_shortAddress m"
    "LrWpanMacHeader_GetSrcPanId g = m_macPanId m" "LrWpanMacHeader_GetDstPanId g = m_macPanId m"
    by (simp_all add: class_defs modes src dst)
  show "LrWpanMac_AcceptFrame g m' \<longleftrightarrow> m_shortAddress m' \<noteq> m_shortAddress m" if "m_macPanId m' = m_macPanId m"
    using that s dst modes ctl assms(2) by (auto simp: LrWpanMac_AcceptFrame_def class_defs LrWpanMacHeader_GetType_def)
qed

lemma elements_received:
  assumes "pan_ok ie" and "beacon_pan h (pan_rebuilt ie0 ie) (mac w) = Some m"
  shows "beacon_elements_received env h (beacon_body env ie b) pd ie0 w = Some (beacon_wire b,
    pd\<lparr>pd_dsmeSuperframeSpec := pan_dsmeSuperframeField ie, pd_timeSyncSpec := timesync_rebuilt (pan_timeSynField ie0) (pan_timeSynField ie),
       pd_bcnBitmap := pan_beaconBitmapField ie, pd_channelHoppingSpec := pan_channelHoppingField ie, pd_gACKSpec := pan_gack ie\<rparr>,
    pan_rebuilt ie0 ie, w\<lparr>mac := m\<rparr>)"
  using pan_descriptor_ie.remove_header [OF assms(1), of ie0] header_termination.remove_header [OF terminations_ok(1)]
    payload_termination.remove_header [OF terminations_ok(2)] assms(2)
  by (simp add: beacon_elements_received_def beacon_body_def Let_def class_defs pan_rebuilt_def)

subsection \<open>Handlers that only add events\<close>

definition grows :: "mac_world \<Rightarrow> mac_world \<Rightarrow> bool" where
  "grows w v \<longleftrightarrow> sim_ok (msim v) \<and> m_currentTs (msim v) = m_currentTs (msim w) \<and> pending (msim w) \<subseteq> pending (msim v) \<and>
     m_uid (msim w) \<le> m_uid (msim v) \<and> m_trackingEvent (mac v) = m_trackingEvent (mac w) \<and> m_sendBcn (m_pan (mac v)) = m_sendBcn (m_pan (mac w)) \<and>
     m_incomingBeaconOrder (mac v) = m_incomingBeaconOrder (mac w)"

lemma grows_trans [trans]: "grows u v \<Longrightarrow> grows v w \<Longrightarrow> grows u w"
  by (auto simp: grows_def)

text \<open>Scheduling, with the key of the new event.\<close>

lemma mac_sched_uid:
  assumes "sim_ok (msim w)" and "0 \<le> d"
  shows "\<exists>t. mac_sched d c f w = Some (w\<lparr>msim := t, mac := f (Some (nat (d + Simulator_Now (msim w)), m_uid (msim w))) (mac w)\<rparr>) \<and>
    sim_ok t \<and> m_currentTs t = m_currentTs (msim w) \<and> m_uid t = m_uid (msim w) + 1 \<and>
    pending t = insert ((nat (d + Simulator_Now (msim w)), m_uid (msim w)), c) (pending (msim w))"
proof -
  obtain t where t: "Simulator_Schedule d c (msim w) = Some ((nat (d + Simulator_Now (msim w)), m_uid (msim w)), t)" "sim_ok t"
    "m_currentTs t = m_currentTs (msim w)" "pending t = insert ((nat (d + Simulator_Now (msim w)), m_uid (msim w)), c) (pending (msim w))"
    using Schedule_spec [OF assms] by blast
  then have "m_uid t = m_uid (msim w) + 1" using assms(2) by (auto simp: Simulator_Schedule_def Let_def split: bind_splits)
  with t show ?thesis by (intro exI [of _ t]) (simp add: mac_sched_def)
qed

lemma grows_sched:
  assumes "sim_ok (msim w)" and "0 \<le> d" and "\<And>k m. m_trackingEvent (f k m) = m_trackingEvent m \<and>
      m_sendBcn (m_pan (f k m)) = m_sendBcn (m_pan m) \<and> m_incomingBeaconOrder (f k m) = m_incomingBeaconOrder m"
  shows "\<exists>v. mac_sched d c f w = Some v \<and> grows w v"
  using mac_sched_uid [OF assms(1,2), of c f] assms(3) by (auto simp: grows_def)

lemma start_inc_cap_grows: "sim_ok (msim w) \<Longrightarrow> \<exists>v. start_inc_cap w = Some v \<and> grows w v"
proof -
  assume "sim_ok (msim w)"
  then obtain u where u: "mac_sched 0 (StartCAP INCOMING) (\<lambda>k m. m\<lparr>m_incCapEvent := k\<rparr>) w = Some u" "grows w u"
    using grows_sched [of w 0 "\<lambda>k m. m\<lparr>m_incCapEvent := k\<rparr>" "StartCAP INCOMING"] by auto
  then have "sim_ok (msim u)" by (simp add: grows_def)
  then obtain v where "mac_sched 0 (SetLrWpanMacState MAC_IDLE) (\<lambda>k m. m\<lparr>m_setMacState := k\<rparr>) u = Some v" "grows u v"
    using grows_sched [of u 0 "\<lambda>k m. m\<lparr>m_setMacState := k\<rparr>" "SetLrWpanMacState MAC_IDLE"] by auto
  with u show ?thesis by (auto simp: start_inc_cap_def intro: grows_trans)
qed

lemma start_inc_cfp_grows: "sim_ok (msim w) \<Longrightarrow> \<exists>v. start_inc_cfp w = Some v \<and> grows w v"
proof -
  assume ok: "sim_ok (msim w)"
  let ?w = "mac_upd (\<lambda>m. m\<lparr>m_incomingFirstCFP := True\<rparr>) w"
  have g: "grows w ?w" using ok by (simp add: grows_def mac_upd_def)
  then have "sim_ok (msim ?w)" by (simp add: grows_def)
  then show ?thesis
    using grows_sched [of ?w 0 "\<lambda>k m. m\<lparr>m_incCfpEvent := k\<rparr>" "StartCFP INCOMING"] grows_trans [OF g] by (auto simp: start_inc_cfp_def)
qed

lemma beacon_period_grows:
  assumes "sim_ok (msim w)" and "sd_offset (mac w) \<noteq> None"
  shows "\<exists>v. beacon_period env w = Some v \<and> grows w v"
proof -
  obtain ofs where ofs: "sd_offset (mac w) = Some ofs" using assms(2) by blast
  obtain a where a: "start_inc_cap w = Some a" "grows w a" using start_inc_cap_grows [OF assms(1)] by blast
  obtain b where b: "start_inc_cfp w = Some b" "grows w b" using start_inc_cfp_grows [OF assms(1)] by blast
  have f: "grows w (mac_upd (\<lambda>m. m\<lparr>m_isFirstSuperframe := False\<rparr>) a)"
    using a(2) by (simp add: grows_def mac_upd_def)
  show ?thesis unfolding beacon_period_def Let_def using a b ofs f by auto
qed

subsection \<open>Joining\<close>

lemma order_shift: "k \<le> 15 \<Longrightarrow> shl32 1 (unat (k :: u8)) = Some (2 ^ unat k)"
  by (simp add: shl32_def word_le_nat_alt push_bit_eq_mult)

lemma base_times: "k \<le> 15 \<Longrightarrow> uint (2 ^ unat (k :: u8) * aBaseSuperframeDuration) = 960 * 2 ^ unat k"
proof -
  assume "k \<le> 15"
  then have "unat k \<le> 15" by (simp add: word_le_nat_alt)
  then have k: "unat k \<in> set [0..<16]" by simp
  show ?thesis using k by (auto simp: aBaseSuperframeDuration_def upt_rec)
qed

text \<open>A superframe order that is not above the multi-superframe order leaves at least one superframe to count.\<close>

lemma sd_offset_defined:
  assumes "m_incomingSuperframeDuration m = aBaseSuperframeDuration * 2 ^ unat so" and "(so :: u8) \<le> mo" and "(mo :: u8) \<le> 15"
    and "m_incomingMultisuperframeDuration m = 2 ^ unat mo * aBaseSuperframeDuration"
  shows "sd_offset m \<noteq> None"
proof -
  have so: "unat so \<le> unat mo" using assms(2) by (simp add: word_le_nat_alt)
  have d: "uint (m_incomingSuperframeDuration m) = 960 * 2 ^ unat so"
    using base_times [of so] assms(1-3) by (simp add: mult.commute order_trans [OF assms(2,3)])
  have m: "uint (m_incomingMultisuperframeDuration m) = 960 * 2 ^ unat mo" using base_times [OF assms(3)] assms(4) by simp
  have "(960 :: int) * 2 ^ unat so \<le> 960 * 2 ^ unat mo" using so by simp
  then have "(0 :: int) < 960 * 2 ^ unat mo div (960 * 2 ^ unat so)" by (simp add: pos_imp_zdiv_pos_iff)
  then have "0 < uint (m_incomingMultisuperframeDuration m div m_incomingSuperframeDuration m)"
    by (simp only: uint_div_distrib d m)
  moreover have "0 < uint (m_incomingSuperframeDuration m)" by (simp only: d) simp
  ultimately have "m_incomingMultisuperframeDuration m div m_incomingSuperframeDuration m \<noteq> 0" "m_incomingSuperframeDuration m \<noteq> 0"
    by auto
  then show ?thesis by (simp add: sd_offset_def)
qed

text \<open>A coordinator that is about to send its first beacon.\<close>

definition joining :: "LrWpanMac \<Rightarrow> bool" where
  "joining m \<longleftrightarrow> m_macDSMEenabled m \<and> m_coord m \<and> \<not> m_panCoor m \<and> m_sendBcn (m_pan m) \<and> \<not> m_forDsmeNetDeviceIntegrateWithHigerLayer m"

definition first_beacon :: "mac_env \<Rightarrow> mac_world \<Rightarrow> int" where
  "first_beacon env w = m_startOfBcnSlotOfSyncParent (m_pan (mac w)) +
     mac_seconds env (uint (m_incomingSuperframeDuration (mac w)) * uint (m_choosedSDIndexToSendBcn (m_pan (mac w))))"

lemma joined_slot:
  assumes "sim_ok (msim w)" and "joining (mac w)" and "Simulator_Now (msim w) \<le> first_beacon env w"
  shows "\<exists>v k. beacon_slot env w = Some v \<and> sim_ok (msim v) \<and> m_currentTs (msim v) = m_currentTs (msim w) \<and>
    m_uid (msim w) \<le> m_uid (msim v) \<and> (k, SendOneEnhancedBeacon) \<in> pending (msim v) \<and> int (fst k) = first_beacon env w \<and>
    m_uid (msim w) \<le> snd k \<and> \<not> m_sendBcn (m_pan (mac v)) \<and> m_trackingEvent (mac v) = m_trackingEvent (mac w) \<and>
    sd_offset (mac v) = sd_offset (mac w) \<and> m_coord (mac v) \<and> m_incomingBeaconOrder (mac v) = m_incomingBeaconOrder (mac w)"
proof -
  define dd where "dd = mac_seconds env (uint (m_incomingSuperframeDuration (mac w)) * uint (m_choosedSDIndexToSendBcn (m_pan (mac w))))
    - (Simulator_Now (msim w) - m_startOfBcnSlotOfSyncParent (m_pan (mac w)))"
  have d: "0 \<le> dd" "dd + Simulator_Now (msim w) = first_beacon env w" using assms(3) by (simp_all add: first_beacon_def dd_def)
  from mac_sched_uid [OF assms(1) d(1), of "SetLrWpanMacState MAC_IDLE" "\<lambda>k m. m\<lparr>m_setMacState := k\<rparr>"] obtain t
    where t: "mac_sched dd (SetLrWpanMacState MAC_IDLE) (\<lambda>k m. m\<lparr>m_setMacState := k\<rparr>) w =
        Some (w\<lparr>msim := t, mac := (mac w)\<lparr>m_setMacState := Some (nat (dd + Simulator_Now (msim w)), m_uid (msim w))\<rparr>\<rparr>)"
      "sim_ok t" "m_currentTs t = m_currentTs (msim w)" "m_uid t = m_uid (msim w) + 1" by blast
  let ?u = "w\<lparr>msim := t, mac := (mac w)\<lparr>m_setMacState := Some (nat (dd + Simulator_Now (msim w)), m_uid (msim w))\<rparr>\<rparr>"
  have now: "Simulator_Now t = Simulator_Now (msim w)" by (simp add: Simulator_Now_def t(3))
  have "sim_ok (msim ?u)" using t(2) by simp
  from mac_sched_uid [OF this d(1), of SendOneEnhancedBeacon "\<lambda>k m. m\<lparr>m_beaconEvent := k\<rparr>"] obtain t'
    where t': "mac_sched dd SendOneEnhancedBeacon (\<lambda>k m. m\<lparr>m_beaconEvent := k\<rparr>) ?u = Some (?u\<lparr>msim := t',
        mac := (mac ?u)\<lparr>m_beaconEvent := Some (nat (dd + Simulator_Now t), m_uid t)\<rparr>\<rparr>)"
      "sim_ok t'" "m_currentTs t' = m_currentTs t" "m_uid t' = m_uid t + 1"
      "pending t' = insert ((nat (dd + Simulator_Now t), m_uid t), SendOneEnhancedBeacon) (pending t)" by auto
  let ?x = "?u\<lparr>msim := t', mac := (mac ?u)\<lparr>m_beaconEvent := Some (nat (dd + Simulator_Now t), m_uid t)\<rparr>\<rparr>"
  let ?v = "mac_upd (mac_pan_upd (\<lambda>p. p\<lparr>m_sendBcn := False\<rparr>)) ?x" and ?k = "(nat (dd + Simulator_Now t), m_uid t)"
  have "beacon_slot env w = Some ?v"
    unfolding beacon_slot_def Let_def dd_def [symmetric] using assms(2) by (simp add: joining_def t(1) t'(1))
  moreover have "int (fst ?k) = first_beacon env w" using d by (simp add: Simulator_Now_def t(3))
  ultimately show ?thesis
    using t t' assms(2) by (intro exI [of _ ?v] exI [of _ ?k]) (simp add: mac_upd_def mac_pan_upd_def sd_offset_def joining_def)
qed

text \<open>A beacon of the parent, with its descriptor.\<close>

definition of_parent :: "PanDescriptor \<Rightarrow> LrWpanMac \<Rightarrow> bool" where
  "of_parent pd m \<longleftrightarrow> pd_coorPanId pd = m_macPanId m \<and> pd_coorShortAddr pd = m_macCoordShortAddress (m_pan m)"

text \<open>What a coordinator does with it: its own first beacon is in the queue, at the start of its slot.\<close>

lemma joined_by_beacon:
  assumes "sim_ok (msim w)" and "joining (mac w)" and "of_parent pd (mac w)" and "superframe_ok sf"
    and "m_incomingMultisuperframeDuration (mac w) = 2 ^ unat mo * aBaseSuperframeDuration" and "m_sspecSprFrmOrder sf \<le> mo" and "mo \<le> 15"
    and "at = sint (m_sspecBcnTimestamp (pd_timeSyncSpec pd)) +
      mac_seconds env (960 * 2 ^ unat (m_sspecSprFrmOrder sf) * uint (m_choosedSDIndexToSendBcn (m_pan (mac w))))"
    and "Simulator_Now (msim w) \<le> at"
  shows "\<exists>v k. beacon_of_pan env h pd sf w = Some v \<and> sim_ok (msim v) \<and> m_currentTs (msim v) = m_currentTs (msim w) \<and>
    (k, SendOneEnhancedBeacon) \<in> pending (msim v) \<and> int (fst k) = at \<and> m_uid (msim w) \<le> snd k \<and> \<not> m_sendBcn (m_pan (mac v)) \<and>
    m_trackingEvent (mac v) = m_trackingEvent (mac w) \<and> m_incomingBeaconOrder (mac v) = m_sspecBcnOrder sf"
proof -
  have orders: "m_sspecBcnOrder sf \<le> 15" "m_sspecSprFrmOrder sf \<le> 15" using assms(4) by (simp_all add: superframe_ok_def)
  let ?e = "mac_emit CsmaCancel w"
  obtain m where m: "beacon_superframe sf (mac ?e) = Some m" "joining m" "m_macPanId m = m_macPanId (mac w)"
    "m_macCoordShortAddress (m_pan m) = m_macCoordShortAddress (m_pan (mac w))" "m_trackingEvent m = m_trackingEvent (mac w)"
    "m_choosedSDIndexToSendBcn (m_pan m) = m_choosedSDIndexToSendBcn (m_pan (mac w))"
    "m_incomingSuperframeDuration m = aBaseSuperframeDuration * 2 ^ unat (m_sspecSprFrmOrder sf)"
    "m_incomingMultisuperframeDuration m = m_incomingMultisuperframeDuration (mac w)" "m_incomingBeaconOrder m = m_sspecBcnOrder sf"
    using assms(2) by (simp add: beacon_superframe_def class_defs mac_pan_upd_def order_shift [OF orders(1)] order_shift [OF orders(2)] joining_def Let_def)
  obtain ofs where ofs: "sd_offset m = Some ofs"
    using sd_offset_defined [OF m(7) assms(6,7)] m(8) assms(5) by auto
  let ?w = "?e\<lparr>mac := m\<rparr>"
  let ?c = "StartMultisuperframe INCOMING" and ?f = "\<lambda>k. mac_pan_upd (\<lambda>p. p\<lparr>m_incMultisuperframeStartEvent := k\<rparr>)"
  have ok: "sim_ok (msim ?w)" using assms(1) by (simp add: mac_emit_def)
  obtain u where u: "(if ofs \<noteq> 0 then mac_sched 0 ?c ?f ?w else Some ?w) = Some u" "sim_ok (msim u)"
    "m_currentTs (msim u) = m_currentTs (msim w)" "m_uid (msim w) \<le> m_uid (msim u)"
    "mac u = m \<or> mac u = ?f (Some (nat (Simulator_Now (msim w)), m_uid (msim w))) m"
    using mac_sched_uid [OF ok, of 0 ?c ?f] ok by (cases "ofs = 0") (auto simp: mac_emit_def)
  then have um: "joining (mac u)" "m_macPanId (mac u) = m_macPanId (mac w)" "m_trackingEvent (mac u) = m_trackingEvent (mac w)"
    "m_macCoordShortAddress (m_pan (mac u)) = m_macCoordShortAddress (m_pan (mac w))" "m_macDSMEenabled (mac ?w)"
    "m_choosedSDIndexToSendBcn (m_pan (mac u)) = m_choosedSDIndexToSendBcn (m_pan (mac w))" "sd_offset (mac u) = Some ofs"
    "m_incomingSuperframeDuration (mac u) = aBaseSuperframeDuration * 2 ^ unat (m_sspecSprFrmOrder sf)"
    "m_incomingBeaconOrder (mac u) = m_sspecBcnOrder sf"
    using m ofs by (auto simp: mac_pan_upd_def joining_def sd_offset_def mac_emit_def)
  let ?u = "mac_upd (mac_pan_upd (\<lambda>p. p\<lparr>m_startOfBcnSlotOfSyncParent := sint (TimeSync_GetBeaconTimeStamp (pd_timeSyncSpec pd))\<rparr>)) u"
  have d: "uint (m_incomingSuperframeDuration (mac ?u)) = 960 * 2 ^ unat (m_sspecSprFrmOrder sf)"
    using um(8) base_times [OF orders(2)] by (simp add: mac_upd_def mac_pan_upd_def mult.commute)
  have at: "first_beacon env ?u = at"
    unfolding first_beacon_def d assms(8) by (simp add: mac_upd_def mac_pan_upd_def class_defs um(6))
  have "sim_ok (msim ?u)" "joining (mac ?u)" "Simulator_Now (msim ?u) \<le> first_beacon env ?u"
    unfolding at using u(2,3) um(1) assms(9) by (simp_all add: mac_upd_def mac_pan_upd_def joining_def Simulator_Now_def)
  note slot = joined_slot [OF this]
  have uu: "sd_offset (mac ?u) = Some ofs" "m_trackingEvent (mac ?u) = m_trackingEvent (mac u)" "msim ?u = msim u"
    "m_incomingBeaconOrder (mac ?u) = m_incomingBeaconOrder (mac u)"
    unfolding um(7) [symmetric] by (simp_all add: mac_upd_def mac_pan_upd_def sd_offset_def)
  from slot [unfolded at uu] obtain v k where v: "beacon_slot env ?u = Some v" "sim_ok (msim v)" "m_currentTs (msim v) = m_currentTs (msim u)"
    "m_uid (msim u) \<le> snd k" "(k, SendOneEnhancedBeacon) \<in> pending (msim v)" "int (fst k) = at" "\<not> m_sendBcn (m_pan (mac v))"
    "m_trackingEvent (mac v) = m_trackingEvent (mac u)" "sd_offset (mac v) = Some ofs" "m_coord (mac v)"
    "m_incomingBeaconOrder (mac v) = m_incomingBeaconOrder (mac u)"
    by blast
  let ?v = "mac_upd LrWpanMac_PurgeDsmeACT v"
  have pv: "sim_ok (msim ?v)" "sd_offset (mac ?v) \<noteq> None"
    using v(2,9) by (auto simp: mac_upd_def LrWpanMac_PurgeDsmeACT_def sd_offset_def split: if_splits)
  from beacon_period_grows [OF this] obtain z where z: "beacon_period env ?v = Some z" "grows ?v z" by blast
  have g: "(if \<not> m_forDsmeNetDeviceIntegrateWithHigerLayer (mac ?v) \<and> LrWpanMacHeader_GetShortSrcAddr h = LrWpanMac_GetCoordShortAddress (mac ?v)
              then LrWpanMac_ScheduleGts env True ?v else Some ?v) = Some ?v"
    using v(10) by (simp add: LrWpanMac_ScheduleGts_def mac_upd_def LrWpanMac_PurgeDsmeACT_def)
  have "beacon_of_pan env h pd sf w = Some z"
    unfolding beacon_of_pan_def Let_def m(1) using um(2,4,5) assms(3) ofs u(1) v(1) g z(1)
    by (simp add: of_parent_def del: if_split)
  then show ?thesis
    using z(2) v u um(3,9) by (intro exI [of _ z] exI [of _ k]) (auto simp: grows_def mac_upd_def LrWpanMac_PurgeDsmeACT_def)
qed

lemma tracking_keeps:
  assumes "sim_ok (msim w)" and "(k, c) \<in> pending (msim w)" and "m_trackingEvent (mac w) \<noteq> Some k" and "m_incomingBeaconOrder (mac w) \<le> 15"
  shows "\<exists>v. beacon_tracking env w = Some v \<and> (k, c) \<in> pending (msim v) \<and> m_pan (mac v) = m_pan (mac w) \<and> m_currentTs (msim v) = m_currentTs (msim w)"
proof (cases "mac_running (m_trackingEvent (mac w)) w")
  case True
  define u where "u = mac_upd (\<lambda>m. m\<lparr>m_numLostBeacons := 0\<rparr>) (mac_cancel (m_trackingEvent (mac w)) w)"
  have u: "sim_ok (msim u)" "(k, c) \<in> pending (msim u)" "m_pan (mac u) = m_pan (mac w)" "m_incomingBeaconOrder (mac u) \<le> 15"
    "m_currentTs (msim u) = m_currentTs (msim w)"
    using Cancel_spec [OF assms(1), of "m_trackingEvent (mac w)"] assms(2-4) by (auto simp: u_def mac_cancel_def mac_upd_def)
  let ?d = "uint ((scast (2 ^ unat (m_incomingBeaconOrder (mac u)) :: cint) + 1) * ucast aBaseSuperframeDuration :: u64)
    div int (env_symbolRate env) * 10 ^ 9"
  have d: "0 \<le> ?d" by (simp add: div_int_pos_iff)
  obtain v where v: "mac_sched ?d BeaconSearchTimeout (\<lambda>k m. m\<lparr>m_trackingEvent := k\<rparr>) u = Some v" "pending (msim u) \<subseteq> pending (msim v)"
    "m_pan (mac v) = m_pan (mac u)" "m_currentTs (msim v) = m_currentTs (msim u)"
    using mac_sched_uid [OF u(1) d, of BeaconSearchTimeout "\<lambda>k m. m\<lparr>m_trackingEvent := k\<rparr>"]
    by (elim exE conjE) (rule that, assumption, auto)
  show ?thesis
  proof (cases "m_beaconTrackingOn (mac u)")
    case on: True
    have "beacon_tracking env w = Some v"
      unfolding beacon_tracking_def Let_def u_def [symmetric] using True on v(1) by (simp add: order_shift [OF u(4)])
    then show ?thesis using v u by (intro exI [of _ v]) auto
  next
    case off: False
    have "beacon_tracking env w = Some u" unfolding beacon_tracking_def Let_def u_def [symmetric] using True off by simp
    then show ?thesis using u by blast
  qed
qed (use assms in \<open>simp add: beacon_tracking_def\<close>)

text \<open>A coordinator that listens for its parent, and the header of the parent's beacons.\<close>

definition listens :: "mac_world \<Rightarrow> bool" where
  "listens w \<longleftrightarrow> sim_ok (msim w) \<and> joining (mac w) \<and> \<not> mac_running (m_scanEvent (m_pan (mac w))) w \<and>
     (case m_trackingEvent (mac w) of None \<Rightarrow> True | Some k \<Rightarrow> snd k < m_uid (msim w))"

definition parent_header :: "LrWpanMacHeader \<Rightarrow> LrWpanMac \<Rightarrow> bool" where
  "parent_header h m \<longleftrightarrow> LrWpanMacHeader_GetFrameVer h = 2 \<and> LrWpanMacHeader_IsIEListPresent h \<and> LrWpanMacHeader_GetSrcAddrMode h = SHORTADDR \<and>
     LrWpanMacHeader_GetSrcPanId h = m_macPanId m \<and> LrWpanMacHeader_GetDstPanId h = m_macPanId m \<and>
     LrWpanMacHeader_GetShortSrcAddr h = m_macCoordShortAddress (m_pan m)"

lemma beacon_pan_spec:
  assumes "dsme_superframe_ok (pan_dsmeSuperframeField ie)" and "joining m"
  shows "\<exists>m'. beacon_pan h ie m = Some m' \<and> joining m' \<and> m_macPanId m' = m_macPanId m \<and> m_trackingEvent m' = m_trackingEvent m \<and>
    m_macCoordShortAddress (m_pan m') = m_macCoordShortAddress (m_pan m) \<and> m_scanEvent (m_pan m') = m_scanEvent (m_pan m) \<and>
    m_choosedSDIndexToSendBcn (m_pan m') = m_choosedSDIndexToSendBcn (m_pan m) \<and>
    m_incomingMultisuperframeDuration m' = 2 ^ unat (m_sspecMultiSuperframeOrder (pan_dsmeSuperframeField ie)) * aBaseSuperframeDuration"
  using assms order_shift [of "m_sspecMultiSuperframeOrder (pan_dsmeSuperframeField ie)"]
  by (simp add: beacon_pan_def class_defs mac_pan_upd_def Let_def dsme_superframe_ok_def joining_def)

lemma first_beacon_scheduled:
  assumes "objs_ok (env_objs env)" and "pan_ok ie" and "beacon_ok b" and "listens w" and "parent_header h (mac w)"
    and "m_sspecSprFrmOrder (pan_superframeField ie) \<le> m_sspecMultiSuperframeOrder (pan_dsmeSuperframeField ie)"
    and "at = sint (m_sspecBcnTimestamp (pan_timeSynField ie)) +
      mac_seconds env (960 * 2 ^ unat (m_sspecSprFrmOrder (pan_superframeField ie)) * uint (m_choosedSDIndexToSendBcn (m_pan (mac w))))"
    and "Simulator_Now (msim w) \<le> at"
  shows "\<exists>v. beacon_received env q lqi h (beacon_body env ie b) w = Some v \<and> \<not> m_sendBcn (m_pan (mac v)) \<and>
    (at, SendOneEnhancedBeacon) \<in> (\<lambda>(k, c). (int (fst k), c)) ` pending (msim v)"
proof -
  note hd = assms(5) [unfolded parent_header_def] and ls = assms(4) [unfolded listens_def]
  define w0 where "w0 = mac_upd (\<lambda>m. m\<lparr>m_rxBeaconSymbols := octet_symbols env (length q)\<rparr>) w"
  define w1 where "w1 = mac_upd (\<lambda>m. m\<lparr>m_macBeaconRxTime :=
       Simulator_Now (msim w0) - uint (m_rxBeaconSymbols m) div int (env_symbolRate env) * 10 ^ 6\<rparr>) w0"
  have w1: "msim w1 = msim w" "joining (mac w1)" "m_macPanId (mac w1) = m_macPanId (mac w)" "m_trackingEvent (mac w1) = m_trackingEvent (mac w)"
    "m_pan (mac w1) = m_pan (mac w)" "m_coord (mac w1)" "enhanced_beacon h (mac w1)"
    using ls hd by (simp_all add: w1_def w0_def mac_upd_def joining_def enhanced_beacon_def)
  obtain pd0 where pd0: "PanDescriptor_new (obj_panDescriptor (env_objs env)) = Some pd0"
    by (simp add: PanDescriptor_new_def SuperframeField_new_defaults)
  obtain ie0 where ie0: "DsmePANDescriptorIE_new (obj_pan (env_objs env)) = Some ie0"
    by (simp add: DsmePANDescriptorIE_new_def DsmePANDescriptorIE_members_def SuperframeField_new_defaults)
  obtain b0 where b0: "BeaconPayloadHeader_new (obj_beacon (env_objs env)) = Some b0" using beacon_payload_new [OF assms(1)] by blast
  have mo: "dsme_superframe_ok (pan_dsmeSuperframeField (pan_rebuilt ie0 ie))" "superframe_ok (pan_superframeField ie)"
    "m_sspecMultiSuperframeOrder (pan_dsmeSuperframeField ie) \<le> 15"
    using assms(2) by (simp_all add: pan_ok_def pan_rebuilt_def dsme_superframe_ok_def)
  from beacon_pan_spec [OF mo(1) w1(2), of h] obtain m where m: "beacon_pan h (pan_rebuilt ie0 ie) (mac w1) = Some m" "joining m"
    "m_macPanId m = m_macPanId (mac w)" "m_trackingEvent m = m_trackingEvent (mac w)"
    "m_macCoordShortAddress (m_pan m) = m_macCoordShortAddress (m_pan (mac w))" "m_scanEvent (m_pan m) = m_scanEvent (m_pan (mac w))"
    "m_choosedSDIndexToSendBcn (m_pan m) = m_choosedSDIndexToSendBcn (m_pan (mac w))"
    "m_incomingMultisuperframeDuration m = 2 ^ unat (m_sspecMultiSuperframeOrder (pan_dsmeSuperframeField ie)) * aBaseSuperframeDuration"
    by (auto simp: w1 pan_rebuilt_def)
  note el = elements_received [OF assms(2) m(1), where env = env and pd = pd0 and b = b]
  let ?w = "w1\<lparr>mac := m\<rparr>"
  obtain b1 r where b1: "RemoveHeader BeaconPayloadHeader_Deserialize b0 (beacon_wire b) = Some (b1, r, [])"
    using beacon.remove_header [OF assms(3), of b0 "[]"] by simp
  define pd where "pd = (if LrWpanMacHeader_GetSrcAddrMode h = SHORTADDR
    then pd0\<lparr>pd_dsmeSuperframeSpec := pan_dsmeSuperframeField ie, pd_timeSyncSpec := timesync_rebuilt (pan_timeSynField ie0) (pan_timeSynField ie),
       pd_bcnBitmap := pan_beaconBitmapField ie, pd_channelHoppingSpec := pan_channelHoppingField ie, pd_gACKSpec := pan_gack ie,
       pd_coorAddrMode := SHORTADDR, pd_coorShortAddr := LrWpanMacHeader_GetShortSrcAddr h\<rparr>
    else pd0\<lparr>pd_dsmeSuperframeSpec := pan_dsmeSuperframeField ie, pd_timeSyncSpec := timesync_rebuilt (pan_timeSynField ie0) (pan_timeSynField ie),
       pd_bcnBitmap := pan_beaconBitmapField ie, pd_channelHoppingSpec := pan_channelHoppingField ie, pd_gACKSpec := pan_gack ie\<rparr>)
    \<lparr>pd_coorPanId := LrWpanMacHeader_GetSrcPanId h,
       pd_gtsPermit := GtsFields_GetGtsPermit (BeaconPayloadHeader_GetGtsFields b1), pd_linkQuality := lqi,
       pd_logChPage := env_phyPage env, pd_logCh := env_phyChannel env, pd_superframeSpec := pan_superframeField ie,
       pd_timeStamp := m_macBeaconRxTime m\<rparr>"
  have parent: "of_parent pd (mac ?w)" using hd m(3,5) by (simp add: of_parent_def pd_def)
  have stamp: "m_sspecBcnTimestamp (pd_timeSyncSpec pd) = m_sspecBcnTimestamp (pan_timeSynField ie)" by (simp add: pd_def timesync_rebuilt_def)
  have at: "at = sint (m_sspecBcnTimestamp (pd_timeSyncSpec pd)) +
      mac_seconds env (960 * 2 ^ unat (m_sspecSprFrmOrder (pan_superframeField ie)) * uint (m_choosedSDIndexToSendBcn (m_pan (mac ?w))))"
    by (simp add: assms(7) stamp m(7))
  have ok: "sim_ok (msim ?w)" "joining (mac ?w)" "Simulator_Now (msim ?w) \<le> at" using ls m(2) assms(8) by (simp_all add: w1)
  from joined_by_beacon [OF ok(1,2) parent mo(2) _ assms(6) mo(3) at ok(3), of h] obtain v k where v:
    "beacon_of_pan env h pd (pan_superframeField ie) ?w = Some v" "sim_ok (msim v)" "(k, SendOneEnhancedBeacon) \<in> pending (msim v)"
    "int (fst k) = at" "m_uid (msim w1) \<le> snd k" "\<not> m_sendBcn (m_pan (mac v))" "m_trackingEvent (mac v) = m_trackingEvent (mac w)"
    "m_incomingBeaconOrder (mac v) = m_sspecBcnOrder (pan_superframeField ie)"
    by (auto simp: m)
  have not_k: "m_trackingEvent (mac v) \<noteq> Some k" using ls v(5,7) by (auto simp: w1)
  have bo: "m_incomingBeaconOrder (mac v) \<le> 15" using v(8) mo(2) by (simp add: superframe_ok_def)
  have nt: "beacon_notify env h q [] d v = v" for d by (simp add: beacon_notify_def)
  obtain z where z: "m_macAutoRequest (m_pan (mac v)) \<Longrightarrow> beacon_tracking env v = Some z" "\<not> m_macAutoRequest (m_pan (mac v)) \<Longrightarrow> z = v"
    "(k, SendOneEnhancedBeacon) \<in> pending (msim z)" "\<not> m_sendBcn (m_pan (mac z))"
    using tracking_keeps [OF v(2,3) not_k bo, of env] v(3,6)
    by (cases "m_macAutoRequest (m_pan (mac v))") auto
  have scan: "\<not> mac_running (m_scanEvent (m_pan (mac ?w))) ?w" using ls by (simp add: mac_running_def w1(1) m(6))
  have "beacon_received env q lqi h (beacon_body env ie b) w = Some z"
    unfolding beacon_received_def Let_def w0_def [symmetric] w1_def [symmetric]
    using w1(6,7) pd0 ie0 b0 el b1 scan m(3) hd v(1) z(1,2) by (simp add: nt pd_def pan_rebuilt_def class_defs)
  then show ?thesis using z(3,4) v(4) by (intro exI [of _ z]) (force simp: image_iff)
qed

text \<open>The coordinator \<open>w'\<close> has chosen \<open>w\<close> as its parent, and can receive.\<close>

definition hears :: "mac_world \<Rightarrow> mac_world \<Rightarrow> bool" where
  "hears w' w \<longleftrightarrow> listens w' \<and> m_lrWpanMacState (mac w') \<in> {MAC_IDLE, MAC_ACK_PENDING, MAC_CSMA, MAC_GTS} \<and>
     \<not> m_acceptAllHilowPkt (mac w') \<and> m_macPanId (mac w') = m_macPanId (mac w) \<and>
     m_macCoordShortAddress (m_pan (mac w')) = m_shortAddress (mac w) \<and> m_shortAddress (mac w') \<noteq> m_shortAddress (mac w)"

lemma beacon_indicated:
  assumes "rooms (env_room env)" and "m_macPanId (mac w) \<noteq> 0xffff" and "hears w' w" and "length p \<le> 1000"
    and "LrWpanMac_AddFrame (env_checksum env) (env_room env) (LrWpanMacHeader_SetIEListPresent (beacon_header env sn (mac w))) p = Some q"
  shows "\<exists>h. parent_header h (mac w') \<and> LrWpanMac_PdDataIndication env q lqi w' = beacon_received env q lqi h p w'"
proof -
  let ?h = "LrWpanMacHeader_SetIEListPresent (beacon_header env sn (mac w))"
  let ?g = "mac_rebuilt (LrWpanMacHeader_new (env_mem env)) ?h"
  note f = beacon_header_fields [where env = env and sn = sn and m = "mac w"]
  have len: "length (mac_wire ?h @ p) < 65536" using f(15) assms(4) by simp
  have r: "LrWpanMac_RemoveFrame (env_checksum env) (env_rtl env) (env_mem env) q = Some (Some (?g, p))"
    using frame_delivered [OF assms(1) f(13) len, where checksum = "env_checksum env" and rtl = "env_rtl env" and mem = "env_mem env"] by (simp add: assms(5))
  note g = beacon_header_received [where env = env and sn = sn and m = "mac w" and old = "LrWpanMacHeader_new (env_mem env)"]
  have "parent_header ?g (mac w')" using g assms(2,3) by (simp add: parent_header_def hears_def)
  moreover have "LrWpanMac_PdDataIndication env q lqi w' = beacon_received env q lqi ?g p w'"
    using assms(2,3) g r by (simp add: LrWpanMac_PdDataIndication_def hears_def)
  ultimately show ?thesis by blast
qed

lemma time_stamp: "t < 2 ^ 63 \<Longrightarrow> sint (of_nat t :: u64) = int t"
  by (simp add: signed_of_nat signed_take_bit_int_eq_self)

subsection \<open>The bitmap a coordinator keeps\<close>

lemma merged_slots:
  assumes "length (m_sspecSDBitmap own) = length (m_sspecSDBitmap incoming)"
  shows "sd_taken (merge_bitmap incoming own) p \<longleftrightarrow> sd_taken own p \<or> sd_taken incoming p"
  using assms by (auto simp: merge_bitmap_def sd_taken_def testBit16_def class_defs Let_def bit_or_iff)

end
