(* ===== verification/Start_Service.thy ===== *)
theory Start_Service
  imports Beacon_Service
begin

section \<open>Starting a PAN\<close>

text \<open>
  The chain of primitives with which a PAN coordinator starts: the request, the confirmations of
  the page and the channel, and \<open>EndStartRequest\<close>. The results: the chain ends with a coordinator
  that is due to send a beacon, whose durations and tables fit the orders it was given, and the
  tables that are too short for their index.
\<close>

subsection \<open>Tables\<close>

lemma shl_diff_orders:
  assumes "a \<le> b" and "b \<le> 15"
  shows "shl_diff b a = Some (2 ^ (unat b - unat a))"
proof -
  have le: "\<not> uint b < uint a" using assms(1) by (simp add: word_le_def)
  have d: "nat (uint b - uint a) = unat b - unat a" using le by (simp only: unat_eq_nat_uint) (simp add: nat_diff_distrib)
  have "unat b \<le> 15" using assms(2) by (simp add: word_le_nat_alt)
  then have k: "unat b - unat a < 32" by simp
  show ?thesis unfolding shl_diff_def if_not_P [OF le] d using k by (simp add: shl32_def push_bit_eq_mult)
qed

lemma cut_power: "k \<le> 15 \<Longrightarrow> unat (ucast (2 ^ k :: cint) :: u8) = (if k < 8 then 2 ^ k else 0)"
  and cut_power16: "k \<le> 15 \<Longrightarrow> unat (ucast (2 ^ k :: cint) :: u16) = 2 ^ k"
proof -
  assume "k \<le> 15"
  then have k: "k \<in> set [0..<16]" by simp
  show "unat (ucast (2 ^ k :: cint) :: u8) = (if k < 8 then 2 ^ k else 0)"
    using k by (auto simp: upt_rec)
  show "unat (ucast (2 ^ k :: cint) :: u16) = 2 ^ k" using k by (auto simp: upt_rec)
qed

lemma start_tables_sizes:
  assumes "m_macSuperframeOrder (m_pan m) \<le> m_macBeaconOrder (m_pan m)" and "m_macBeaconOrder (m_pan m) \<le> 15"
    and "k = unat (m_macBeaconOrder (m_pan m)) - unat (m_macSuperframeOrder (m_pan m))"
  shows "start_tables m = Some (
    if m_macCAPReductionFlag m then m\<lparr>m_macDSMESAB := resize 0 (2 ^ k) (m_macDSMESAB m)\<rparr>
    else m\<lparr>m_macDSMESABCapOff := resize 0 (if k < 8 then 2 ^ k else 0) (m_macDSMESABCapOff m)\<rparr>)"
proof -
  have "unat (m_macBeaconOrder (m_pan m)) \<le> 15" using assms(2) by (simp add: word_le_nat_alt)
  then have "k \<le> 15" using assms(3) by simp
  then show ?thesis
    unfolding start_tables_def shl_diff_orders [OF assms(1,2)] assms(3) [symmetric] using cut_power cut_power16 by simp
qed

subsection \<open>The PAN coordinator\<close>

text \<open>A request to start a PAN, and a device that can be its coordinator.\<close>

definition pan_request :: "MlmeStartRequestParams \<Rightarrow> bool" where
  "pan_request r \<longleftrightarrow> start_panCoor r \<and> start_PanId r \<noteq> 0xffff \<and>
     start_sfrmOrd r \<le> m_sspecMultiSuperframeOrder (start_dsmeSuperframeSpec r) \<and>
     m_sspecMultiSuperframeOrder (start_dsmeSuperframeSpec r) \<le> start_bcnOrd r \<and> start_bcnOrd r < 15 \<and>
     \<not> m_sspecCAPReductionFlag (start_dsmeSuperframeSpec r) \<and> bitmap_ok (start_bcnBitmap r) \<and>
     (let hd = start_hoppingDescriptor r in length (hd_channelOfsBitmap hd) = words16 (unat (hd_channelOfsBitmapLen hd)) \<and>
        length (m_sspecSDBitmap (start_bcnBitmap r)) + length (hd_channelOfsBitmap hd) \<le> 40)"

definition can_coordinate :: "mac_env \<Rightarrow> mac_world \<Rightarrow> bool" where
  "can_coordinate env w \<longleftrightarrow> sim_ok (msim w) \<and> rooms (env_room env) \<and> objs_ok (env_objs env) \<and> m_deviceCapability (m_pan (mac w)) = FFD \<and>
     m_lrWpanMacState (mac w) = MAC_IDLE \<and> m_shortAddress (mac w) \<noteq> Mac16Address 0xff 0xff \<and> m_macDSMEenabled (mac w) \<and>
     m_indTxQueue (mac w) = [] \<and> groupack_ok (m_legacyGroupAck (mac w))"

lemma request_orders:
  assumes "pan_request r"
  shows "start_bcnOrd r \<noteq> 15" "start_bcnOrd r \<le> 15" "start_sfrmOrd r \<le> 15" "m_sspecMultiSuperframeOrder (start_dsmeSuperframeSpec r) \<le> 15"
    "m_sspecMultiSuperframeOrder (start_dsmeSuperframeSpec r) \<le> start_bcnOrd r" "start_sfrmOrd r \<le> start_bcnOrd r"
  using assms by (auto simp: pan_request_def)

lemma start_durations_ok:
  assumes "m_macMultisuperframeOrder (m_pan m) \<le> m_macBeaconOrder (m_pan m)" and "m_macSuperframeOrder (m_pan m) \<le> m_macBeaconOrder (m_pan m)"
    and "m_macBeaconOrder (m_pan m) \<le> 15"
  shows "\<exists>d a b t. start_durations m = Some (m\<lparr>m_multiSuperframeDuration := d, m_numOfMultisuperframes := a, m_numOfSuperframes := b,
    m_scheduleGTSsEvent := t\<rparr>)"
proof -
  have mo: "m_macMultisuperframeOrder (m_pan m) \<le> 15" using assms(1,3) by (rule order_trans)
  show ?thesis
    by (simp add: start_durations_def LrWpanMac_ResizeScheduleGTSsEvent_def order_shift [OF mo] shl_diff_orders [OF assms(1,3)]
        shl_diff_orders [OF assms(2,3)] Let_def) (intro exI, rule refl)
qed

lemma start_descriptor_ok:
  assumes "objs_ok (env_objs env)" and "m_indTxQueue (mac w) = []" and "m_macBeaconOrder (m_pan (mac w)) \<le> 15"
    and "m_macSuperframeOrder (m_pan (mac w)) \<le> 15" and "m_fnlCapSlot (mac w) \<le> 15" and "m_macMultisuperframeOrder (m_pan (mac w)) \<le> 15"
  shows "\<exists>ie. start_descriptor env w = Some ie \<and> superframe_ok (pan_superframeField ie) \<and> dsme_superframe_ok (pan_dsmeSuperframeField ie) \<and>
    m_sspecSprFrmOrder (pan_superframeField ie) = m_macSuperframeOrder (m_pan (mac w)) \<and>
    m_sspecMultiSuperframeOrder (pan_dsmeSuperframeField ie) = m_macMultisuperframeOrder (m_pan (mac w))"
proof -
  obtain f where f: "LrWpanMac_GetPendingAddrFields env w = Some f" using no_pending [OF assms(1,2)] by blast
  show ?thesis
    using assms(3-6) by (simp add: start_descriptor_def f DsmePANDescriptorIE_SetSuperframeFieldOf_def class_defs Let_def
        DsmePANDescriptorIE_SetDsmeSuperFrameFieldOf_def superframe_ok_def dsme_superframe_ok_def not_less)
qed

text \<open>The last step of the chain.\<close>

lemma start_beacons_coordinator:
  assumes "sim_ok (msim w)" and "m_panCoor (mac w)"
  shows "\<exists>v k l. start_beacons env w = Some v \<and> sim_ok (msim v) \<and> m_currentTs (msim v) = m_currentTs (msim w) \<and> mouts v = mouts w \<and>
    timed (msim v) = {(Simulator_Now (msim w), StartMultisuperframe OUTGOING), (Simulator_Now (msim w), SendOneEnhancedBeacon)} \<union> timed (msim w) \<and>
    mac v = LrWpanMac_PurgeDsmeACT ((mac_pan_upd (\<lambda>p. p\<lparr>m_multisuperframeStartEvent := k\<rparr>) (mac w))\<lparr>m_beaconEvent := l\<rparr>)"
proof -
  let ?f = "\<lambda>k. mac_pan_upd (\<lambda>p. p\<lparr>m_multisuperframeStartEvent := k\<rparr>)" and ?g = "\<lambda>k m. m\<lparr>m_beaconEvent := k\<rparr>"
  obtain k t where t: "mac_sched 0 (StartMultisuperframe OUTGOING) ?f w = Some (w\<lparr>msim := t, mac := ?f (Some k) (mac w)\<rparr>)" "sim_ok t"
    "m_currentTs t = m_currentTs (msim w)" "timed t = insert (Simulator_Now (msim w) + 0, StartMultisuperframe OUTGOING) (timed (msim w))"
    using mac_sched_timed [OF assms(1), of 0 "StartMultisuperframe OUTGOING" ?f] by blast
  let ?u = "w\<lparr>msim := t, mac := ?f (Some k) (mac w)\<rparr>"
  obtain l t' where t': "mac_sched 0 SendOneEnhancedBeacon ?g ?u = Some (?u\<lparr>msim := t', mac := ?g (Some l) (mac ?u)\<rparr>)" "sim_ok t'"
    "m_currentTs t' = m_currentTs t" "timed t' = insert (Simulator_Now t + 0, SendOneEnhancedBeacon) (timed t)"
    using mac_sched_timed [of ?u 0 SendOneEnhancedBeacon ?g] t(2) by auto
  let ?v = "mac_upd LrWpanMac_PurgeDsmeACT (?u\<lparr>msim := t', mac := ?g (Some l) (mac ?u)\<rparr>)"
  have p: "m_panCoor (mac ?v)" using assms(2) by (simp add: mac_upd_def LrWpanMac_PurgeDsmeACT_def mac_pan_upd_def)
  have "start_beacons env w = Some ?v"
    unfolding start_beacons_def using assms(2) p t(1) t'(1) by (simp add: LrWpanMac_ScheduleGts_def del: if_split)
  then show ?thesis
    using t t' by (intro exI [of _ ?v] exI [of _ "Some k"] exI [of _ "Some l"]) (auto simp: Simulator_Now_def mac_upd_def)
qed

text \<open>The state before the DSME parameters are taken over, and after.\<close>

definition before_dsme :: "LrWpanMac \<Rightarrow> LrWpanMac" where
  "before_dsme m = (let r = m_startParams (m_pan m) in
     m\<lparr>m_panCoor := True, m_macPanId := start_PanId r,
       m_csmaCa := LrWpanCsmaCa_SetSlottedCsmaCa (LrWpanCsmaCa_SetBatteryLifeExtension (start_battLifeExt r) (m_csmaCa m)), m_fnlCapSlot := 8,
       m_pan := (m_pan m)\<lparr>m_pendPrimitive := MLME_NONE, m_macBeaconOrder := start_bcnOrd r, m_macSuperframeOrder := start_sfrmOrd r\<rparr>,
       m_beaconInterval := 2 ^ unat (start_bcnOrd r) * aBaseSuperframeDuration,
       m_superframeDuration := 2 ^ unat (start_sfrmOrd r) * aBaseSuperframeDuration\<rparr>)"

lemma EndStartRequest_coordinator:
  assumes "pan_request (m_startParams (m_pan (mac w)))" and "m_macDSMEenabled (mac w)"
  shows "LrWpanMac_EndStartRequest env w = do {
    m \<leftarrow> start_dsme (before_dsme (mac w));
    ie \<leftarrow> start_descriptor env (w\<lparr>mac := m\<rparr>);
    m \<leftarrow> start_durations (mac_pan_upd (\<lambda>p. p\<lparr>m_dsmePanDescriptorIE := ie\<rparr>) m);
    m \<leftarrow> start_tables m;
    if m_macDSMEenabled m then start_beacons env (w\<lparr>mac := m\<rparr>) else Some (w\<lparr>mac := m\<rparr>) }"
  using assms request_orders [OF assms(1)]
  by (simp add: LrWpanMac_EndStartRequest_def mac_upd_def mac_pan_upd_def Let_def order_shift before_dsme_def pan_request_def cong: if_cong)

lemma start_dsme_coordinator:
  assumes "pan_request (m_startParams (m_pan m))"
  shows "\<exists>m'. start_dsme (before_dsme m) = Some m' \<and> m_panCoor m' \<and> m_macPanId m' = start_PanId (m_startParams (m_pan m)) \<and>
    \<not> m_macCAPReductionFlag m' \<and> LrWpanCsmaCa_IsSlottedCsmaCa (m_csmaCa m') \<and> m_fnlCapSlot m' = 8 \<and>
    m_beaconInterval m' = m_beaconInterval (before_dsme m) \<and> m_superframeDuration m' = m_superframeDuration (before_dsme m) \<and>
    m_macBeaconOrder (m_pan m') = start_bcnOrd (m_startParams (m_pan m)) \<and> m_macSuperframeOrder (m_pan m') = start_sfrmOrd (m_startParams (m_pan m)) \<and>
    m_macMultisuperframeOrder (m_pan m') = m_sspecMultiSuperframeOrder (start_dsmeSuperframeSpec (m_startParams (m_pan m))) \<and>
    m_macSDBitmap (m_pan m') = start_bcnBitmap (m_startParams (m_pan m)) \<and>
    m_macChannelOfsBitmapLen (m_pan m') = hd_channelOfsBitmapLen (start_hoppingDescriptor (m_startParams (m_pan m))) \<and>
    m_macChannelOfsBitmap (m_pan m') = hd_channelOfsBitmap (start_hoppingDescriptor (m_startParams (m_pan m))) \<and>
    m_lrWpanMacState m' = m_lrWpanMacState m \<and> m_shortAddress m' = m_shortAddress m \<and> m_macDSMEenabled m' = m_macDSMEenabled m \<and>
    m_indTxQueue m' = m_indTxQueue m \<and> m_legacyGroupAck m' = m_legacyGroupAck m"
  using assms
  by (simp add: start_dsme_def start_dsme_spec_def start_hopping_def mac_pan_upd_def before_dsme_def class_defs pan_request_def Let_def)

text \<open>The coordinator is due to send its first beacon, in a superframe structure of the orders requested.\<close>

lemma EndStartRequest_spec:
  assumes "can_coordinate env w" and "m_startParams (m_pan (mac w)) = r" and "pan_request r"
  shows "\<exists>v. LrWpanMac_EndStartRequest env w = Some v \<and> announces env v \<and> m_panCoor (mac v) \<and> mouts v = mouts w \<and> sim_ok (msim v) \<and>
    Simulator_Now (msim v) = Simulator_Now (msim w) \<and>
    timed (msim v) = {(Simulator_Now (msim w), StartMultisuperframe OUTGOING), (Simulator_Now (msim w), SendOneEnhancedBeacon)} \<union> timed (msim w) \<and>
    uint (m_beaconInterval (mac v)) = 960 * 2 ^ unat (start_bcnOrd r) \<and> uint (m_superframeDuration (mac v)) = 960 * 2 ^ unat (start_sfrmOrd r) \<and>
    length (m_macDSMESABCapOff (mac v)) = (let k = unat (start_bcnOrd r) - unat (start_sfrmOrd r) in if k < 8 then 2 ^ k else 0)"
proof -
  note c = assms(1) [unfolded can_coordinate_def] and o = request_orders [OF assms(3)]
  note q = assms(3) [unfolded pan_request_def Let_def]
  obtain m where m: "start_dsme (before_dsme (mac w)) = Some m" "m_panCoor m" "m_macPanId m = start_PanId r" "\<not> m_macCAPReductionFlag m"
    "LrWpanCsmaCa_IsSlottedCsmaCa (m_csmaCa m)" "m_fnlCapSlot m = 8" "m_beaconInterval m = m_beaconInterval (before_dsme (mac w))"
    "m_superframeDuration m = m_superframeDuration (before_dsme (mac w))" "m_macBeaconOrder (m_pan m) = start_bcnOrd r"
    "m_macSuperframeOrder (m_pan m) = start_sfrmOrd r" "m_macMultisuperframeOrder (m_pan m) = m_sspecMultiSuperframeOrder (start_dsmeSuperframeSpec r)"
    "m_macSDBitmap (m_pan m) = start_bcnBitmap r" "m_macChannelOfsBitmapLen (m_pan m) = hd_channelOfsBitmapLen (start_hoppingDescriptor r)"
    "m_macChannelOfsBitmap (m_pan m) = hd_channelOfsBitmap (start_hoppingDescriptor r)" "m_lrWpanMacState m = MAC_IDLE"
    "m_shortAddress m \<noteq> Mac16Address 0xff 0xff" "m_macDSMEenabled m" "m_indTxQueue m = []" "groupack_ok (m_legacyGroupAck m)"
    using start_dsme_coordinator [of "mac w"] assms(2,3) c by auto
  obtain ie where ie: "start_descriptor env (w\<lparr>mac := m\<rparr>) = Some ie" "superframe_ok (pan_superframeField ie)"
    "dsme_superframe_ok (pan_dsmeSuperframeField ie)"
    using start_descriptor_ok [of env "w\<lparr>mac := m\<rparr>"] c m o by auto
  let ?m = "mac_pan_upd (\<lambda>p. p\<lparr>m_dsmePanDescriptorIE := ie\<rparr>) m"
  obtain d a b t where d: "start_durations ?m = Some (?m\<lparr>m_multiSuperframeDuration := d, m_numOfMultisuperframes := a, m_numOfSuperframes := b,
      m_scheduleGTSsEvent := t\<rparr>)"
    using start_durations_ok [of ?m] m(9-11) o by (auto simp: mac_pan_upd_def)
  define m2 where "m2 = ?m\<lparr>m_multiSuperframeDuration := d, m_numOfMultisuperframes := a, m_numOfSuperframes := b, m_scheduleGTSsEvent := t\<rparr>"
  let ?k = "unat (start_bcnOrd r) - unat (start_sfrmOrd r)"
  define m3 where "m3 = m2\<lparr>m_macDSMESABCapOff := resize 0 (if ?k < 8 then 2 ^ ?k else 0) (m_macDSMESABCapOff m2)\<rparr>"
  have m3: "start_tables m2 = Some m3"
    using start_tables_sizes [of m2 ?k] m(4,9,10) o by (simp add: m2_def m3_def mac_pan_upd_def)
  have w3: "sim_ok (msim (w\<lparr>mac := m3\<rparr>))" "m_panCoor (mac (w\<lparr>mac := m3\<rparr>))" "m_macDSMEenabled m3"
    using c m by (simp_all add: m3_def m2_def mac_pan_upd_def)
  obtain v k l where v: "start_beacons env (w\<lparr>mac := m3\<rparr>) = Some v" "sim_ok (msim v)" "m_currentTs (msim v) = m_currentTs (msim w)"
    "mouts v = mouts w" "timed (msim v) = {(Simulator_Now (msim w), StartMultisuperframe OUTGOING), (Simulator_Now (msim w), SendOneEnhancedBeacon)} \<union> timed (msim w)"
    "mac v = LrWpanMac_PurgeDsmeACT ((mac_pan_upd (\<lambda>p. p\<lparr>m_multisuperframeStartEvent := k\<rparr>) m3)\<lparr>m_beaconEvent := l\<rparr>)"
    using start_beacons_coordinator [OF w3(1,2), of env] by auto
  have "LrWpanMac_EndStartRequest env w = Some v"
    using EndStartRequest_coordinator [of w env] assms(2,3) c m(1) ie(1) d m3 w3(3) v(1) by (simp add: m2_def)
  moreover have "announces env v"
    using c m q ie(2,3) by (simp add: announces_def v(6) m3_def m2_def mac_pan_upd_def LrWpanMac_PurgeDsmeACT_def)
  moreover have "uint (m_beaconInterval (mac v)) = 960 * 2 ^ unat (start_bcnOrd r)"
    "uint (m_superframeDuration (mac v)) = 960 * 2 ^ unat (start_sfrmOrd r)"
    using base_times [OF o(2)] base_times [OF o(3)] m(7,8) assms(2)
    by (simp_all add: v(6) m3_def m2_def mac_pan_upd_def LrWpanMac_PurgeDsmeACT_def before_dsme_def)
  ultimately show ?thesis
    using v m(2) by (intro exI [of _ v]) (simp add: Simulator_Now_def m3_def m2_def mac_pan_upd_def LrWpanMac_PurgeDsmeACT_def Let_def)
qed

end
