(* ===== verification/Samples_Mac.thy ===== *)
theory Samples_Mac
  imports Samples Data_Service Start_Service
begin

section \<open>Concrete MAC objects\<close>

text \<open>
  A MAC on memory that was zero, the environment of the 2.4 GHz band, and a coordinator and a
  device that have agreed on a slot: superframes of 960 symbols with a CAP up to slot 8, in slot 4
  of superframe 1.
\<close>

definition sample_pending :: PendingAddrFields where
  "sample_pending = \<lparr>m_pndAddrSpecNumShortAddr = 0, m_pndAddrSpecNumExtAddr = 0, m_shortAddrList = replicate 7 (Mac16Address 0 0),
     m_extAddrList = replicate 7 (Mac64Address 0 0 0 0 0 0 0 0)\<rparr>"

definition sample_gts :: GtsFields where
  "sample_gts = \<lparr>m_gtsSpecDescCount = 0, m_gtsSpecPermit = 0, m_gtsDirMask = 0, m_gtsList = replicate 7
     \<lparr>m_gtsDescDevShortAddr = Mac16Address 0 0, m_gtsDescStartSlot = 0, m_gtsDescLength = 0\<rparr>\<rparr>"

definition sample_descriptor :: PanDescriptor where
  "sample_descriptor = \<lparr>pd_coorAddrMode = SHORTADDR, pd_coorPanId = 0xffff, pd_coorShortAddr = Mac16Address 0 0, pd_logCh = 11,
     pd_logChPage = 0, pd_superframeSpec = pan_superframeField sample_pan, pd_gtsPermit = False, pd_linkQuality = 0, pd_timeStamp = 0,
     pd_dsmeSuperframeSpec = pan_dsmeSuperframeField sample_pan, pd_timeSyncSpec = pan_timeSynField sample_pan,
     pd_bcnBitmap = pan_beaconBitmapField sample_pan, pd_channelHoppingSpec = pan_channelHoppingField sample_pan,
     pd_gACKSpec = pan_gack sample_pan\<rparr>"

definition blank_pan :: LrWpanMacPan where
  "blank_pan = \<lparr>m_deviceCapability = FFD,
     m_startParams = \<lparr>start_PanId = 0, start_logCh = 11, start_logChPage = 0, start_bcnOrd = 15, start_sfrmOrd = 15, start_panCoor = False,
       start_battLifeExt = False, start_dsmeSuperframeSpec = pan_dsmeSuperframeField sample_pan, start_bcnBitmap = pan_beaconBitmapField sample_pan,
       start_hoppingDescriptor = \<lparr>hd_HoppingSequenceID = 0, hd_channelOfs = 0, hd_channelOfsBitmapLen = 16, hd_channelOfsBitmap = [0],
         hd_hoppingSeqLen = 0, hd_hoppingSeq = \<lparr>m_len = 0, m_channelList = []\<rparr>\<rparr>\<rparr>,
     m_pendPrimitive = MLME_NONE, m_macBeaconOrder = 15, m_macSuperframeOrder = 15, m_macMultisuperframeOrder = 15,
     m_macChannelDiversityMode = 1, m_macGACKFlag = False, m_macDeferredBcnUsed = False, m_macSDBitmap = sample_bitmap,
     m_macHoppingSeqID = 0, m_hoppingSeqLen = 0, m_macHoppingSeqList = \<lparr>m_len = 0, m_channelList = []\<rparr>, m_macChannelOfs = 0,
     m_macChannelOfsBitmapLen = 16, m_macChannelOfsBitmap = [0], m_dsmePanDescriptorIE = sample_pan, m_macAssociationPermit = True,
     m_macAutoRequest = True, m_macEbsn = 0, m_panDescriptorList = [], m_descIdxOfAssociatedPan = 0, m_choosedSDIndexToSendBcn = 0,
     m_sendBcn = False, m_incomingSuperframeOrder = 15, m_incomingMultisuperframeOrder = 15, m_incomingChannelDiversityMode = False,
     m_incomingGACKFlag = False, m_incomingCAPReductionFlag = False, m_incomingDeferredBcnUsed = False, m_incomingSDBitmap = sample_bitmap,
     m_incSDindex = 0, m_macCoordShortAddress = Mac16Address 0xff 0xff, m_startOfBcnSlotOfSyncParent = 0, m_scanEvent = None,
     m_multisuperframeStartEvent = None, m_incMultisuperframeStartEvent = None, m_maxEnergyLevel = 0\<rparr>"

definition blank_mac :: LrWpanMac where
  "blank_mac = LrWpanMac_new 5 6 \<lparr>
     m_lrWpanMacState = MAC_IDLE, m_setMacState = None, m_ifsEvent = None, m_ackWaitTimeout = None, m_scanEnergyEvent = None,
     m_csmaCa = LrWpanCsmaCa_new, m_txQueue = [], m_indTxQueue = [], m_txPkt = None, m_txPktGts = None, m_rxPkt = None,
     m_mcpsDataRequestParams = \<lparr>req_srcAddrMode = 0, req_dstAddrMode = 0, req_dstPanId = 0, req_dstAddr = Mac16Address 0 0,
       req_msduHandle = 0, req_txOptions = 0\<rparr>,
     m_acceptAllHilowPkt = False, m_maxTxQueueSize = 0,
     m_retransmission = 0, m_numCsmacaRetry = 0, m_macRxOnWhenIdle = False, m_macLIFSPeriod = 0, m_macSIFSPeriod = 0,
     m_shortAddress = Mac16Address 0 0, m_macPanId = 0, m_macDsn = 0, m_NoACK = False, m_groupAckPolicy = GROUP_ACK_DISABLED,
     m_groupAck = sample_gack [], m_legacyGroupAck = \<lparr>m_sspecGACK1SuperfrmID = 0, m_sspecGACK1SlotID = 0, m_sspecGACK1ChannelID = 0,
       m_sspecGACK2SuperfrmID = 0, m_sspecGACK2SlotID = 0, m_sspecGACK2ChannelID = 0\<rparr>,
     m_panCoor = False, m_coord = False, m_macDSMEenabled = False, m_macCAPReductionFlag = False,
     m_forDsmeNetDeviceIntegrateWithHigerLayer = False, m_gtsContinuePktSendingFromCap = False, m_enhancedGTSForwarding = False,
     m_outSuperframeStatus = INACTIVE, m_incSuperframeStatus = INACTIVE, m_incSuperframe = False, m_superframeDuration = 0,
     m_incomingSuperframeDuration = 0, m_multiSuperframeDuration = 0, m_incomingMultisuperframeDuration = 0, m_beaconInterval = 0,
     m_incomingBeaconInterval = 0, m_incomingBeaconOrder = 0, m_fnlCapSlot = 0, m_incomingFnlCapSlot = 0, m_rxBeaconSymbols = 0,
     m_macBeaconTxTime = 0, m_BeaconStartTxTime = 0, m_macBeaconRxTime = 0, m_startOfBcnSlot = 0, m_firstCFP = False,
     m_incomingFirstCFP = False, m_capEvent = None, m_cfpEvent = None, m_incCapEvent = None, m_incCfpEvent = None,
     m_beaconEvent = None, m_trackingEvent = None, m_beaconTrackingOn = False, m_numLostBeacons = 0, m_macSDindex = 0,
     m_numOfSuperframes = 0, m_numOfMultisuperframes = 0, m_curSuperframeIDx = 0, m_isFirstSuperframe = False,
     m_multisuperframeSeq = 0, m_multisuperframeEndEvent = None, m_startFirstSuperframeEvent = None, m_macDsmeACT = [],
     m_scheduleGTSsEvent = [], m_gtsSchedulingEvent = None, m_gtsEvent = None, m_incGtsEvent = None, m_curGTSSuperframeID = 0,
     m_curGTSIdx = 0, m_currentGTSIdx = 0, m_numOfChannels = 16, m_macPANCoordinatorBSN = 0, m_originalChannelInCAP = 0,
     m_macDSMESAB = [], m_macDSMESABCapOff = [], m_pan = blank_pan\<rparr>"

definition sample_env :: "LrWpanMacHeader \<Rightarrow> CommandPayloadHeader \<Rightarrow> mac_env" where
  "sample_env hm cm = \<lparr>env_symbolRate = 62500, env_phySHRDuration = 10, env_symbolsPerOctet = (2, 1), env_checksum = True,
     env_room = zeros, env_mem = hm, env_cmdMem = cm,
     env_egackMem = \<lparr>egack_descriptor = HeaderIEDescriptor_newOf 0 HEADERIE_ENHANCED_GACK False, egack_ieLength = 0, m_u8GroupAckBitmap = 0\<rparr>,
     env_lgackMem = \<lparr>lgack_descriptor = HeaderIEDescriptor_newOf 0 HEADERIE_ENHANCED_GACK False, lgack_ieLength = 0, m_ackCtrl = AckControl_new, m_gackBitmap = 0, m_gackDevList = 0,
       m_gackIdx = 0, m_gtsDirections = 0\<rparr>,
     env_hash = octet_sum, env_rtl = False, env_dataConfirm = True, env_dataIndication = True, env_startConfirm = True,
     env_syncLoss = True, env_beaconNotify = True,
     env_objs = \<lparr>obj_beacon = \<lparr>bcn_superframeField = pan_superframeField sample_pan, bcn_gtsFields = sample_gts, bcn_pndAddrFields = sample_pending\<rparr>,
       obj_pan = sample_pan, obj_headerTermination = \<lparr>hterm_descriptor = HeaderIEDescriptor_newOf 0 HEADERIE_ENHANCED_GACK False\<rparr>,
       obj_payloadTermination = \<lparr>pterm_descriptor = PayloadIEDescriptor_newOf 0 PAYLOADIE_LIST_TERMINATION True\<rparr>,
       obj_pending = sample_pending, obj_timeSync = pan_timeSynField sample_pan, obj_hopping = pan_channelHoppingField sample_pan,
       obj_groupAck = pan_gack sample_pan, obj_panDescriptor = sample_descriptor\<rparr>,
     env_phyPage = 0, env_phyChannel = 11\<rparr>"

lemma sample_env_rate: "rate_ok (sample_env hm cm)" "tick (sample_env hm cm) = 16000"
  by (simp_all add: rate_ok_def tick_def sample_env_def Let_def)

definition sample_entry :: "u16 \<Rightarrow> u8 \<Rightarrow> u8 \<Rightarrow> macDSMEACTEntity" where
  "sample_entry sf slot dir = \<lparr>act_superframeID = sf, act_slotID = slot, act_numSlot = 1, act_channelID = 3, act_direction = dir,
     act_type = 0, act_prioritizedChAccess = False, act_srcAddr = Mac16Address 0 2, act_dstAddr = Mac16Address 0 1, act_cnt = 0,
     act_linkQuality = 0, act_allocated = False, act_deallocated = False, act_expired = False\<rparr>"

definition sample_coord :: "bool \<Rightarrow> mac_world" where
  "sample_coord red = \<lparr>mac = blank_mac\<lparr>m_coord := True, m_superframeDuration := 960, m_multiSuperframeDuration := 3840, m_fnlCapSlot := 8,
       m_macCAPReductionFlag := red, m_numOfSuperframes := 8, m_numOfMultisuperframes := 2, m_scheduleGTSsEvent := replicate 4 [],
       m_macDsmeACT := [(0, [sample_entry 0 2 1]), (1, [sample_entry 1 4 1])]\<rparr>,
     msim = Simulator_new\<lparr>m_currentTs := 1000000\<rparr>, mouts = [], pkts = (\<lambda>a. [])\<rparr>"

definition sample_device :: mac_world where
  "sample_device = \<lparr>mac = blank_mac\<lparr>m_incomingSuperframeDuration := 960, m_incomingMultisuperframeDuration := 3840,
       m_incomingFnlCapSlot := 8, m_macBeaconRxTime := 1000000, m_scheduleGTSsEvent := replicate 4 [],
       m_macDsmeACT := [(1, [sample_entry 1 4 0])]\<rparr>,
     msim = Simulator_new\<lparr>m_currentTs := 1800000\<rparr>, mouts = [], pkts = (\<lambda>a. [])\<rparr>"

lemmas sample_mac_defs = sample_coord_def sample_device_def blank_mac_def LrWpanMac_new_def sample_entry_def sample_env_def

lemma sample_fits: "slot \<le> 6 \<Longrightarrow> sf \<le> 3 \<Longrightarrow> gts_fits (mac (sample_coord red)) (sample_entry sf slot d)"
  "slot \<le> 6 \<Longrightarrow> sf \<le> 3 \<Longrightarrow> gts_fits (mac sample_device) (sample_entry sf slot d)"
  by (auto simp: gts_fits_def gts_first_def gts_duration_def sample_mac_defs word_le_nat_alt)

lemma sample_sim: "sim_ok (msim (sample_coord red))" "sim_ok (msim sample_device)"
  by (simp_all add: sample_coord_def sample_device_def Simulator_new_def sim_ok_def)

text \<open>The coordinator after it has scheduled its slots.\<close>

definition sample_allocated :: mac_world where
  "sample_allocated = mac_upd (\<lambda>m. m\<lparr>m_macDsmeACT := all_allocated (m_macDsmeACT m)\<rparr>) (sample_coord False)"

text \<open>Stations of a PAN, with a request to one of them, and a station that sends the frame of a request.\<close>

definition sample_request :: "mac16 \<Rightarrow> u8 \<Rightarrow> McpsDataRequestParams" where
  "sample_request dst opts = \<lparr>req_srcAddrMode = SHORTADDR, req_dstAddrMode = SHORTADDR, req_dstPanId = 7, req_dstAddr = dst,
     req_msduHandle = 9, req_txOptions = opts\<rparr>"

definition sample_station :: "mac16 \<Rightarrow> mac_world" where
  "sample_station a = \<lparr>mac = blank_mac\<lparr>m_macPanId := 7, m_shortAddress := a, m_maxTxQueueSize := 4\<rparr>, msim = Simulator_new, mouts = [],
     pkts = (\<lambda>a. [1, 2, 3])\<rparr>"

definition sample_sending :: "mac_env \<Rightarrow> McpsDataRequestParams \<Rightarrow> mac_world" where
  "sample_sending env r = (let w = sample_station (Mac16Address 0 2) in
     w\<lparr>mac := (mac w)\<lparr>m_lrWpanMacState := MAC_SENDING, m_txPkt := Some 0\<rparr>, pkts := (\<lambda>a. mac_wire (mcps_header env r (mac w)) @ [1, 2, 3])\<rparr>)"

lemma timed_new: "timed (Simulator_new :: 'c Simulator) = {}"
  by (simp add: timed_def pending_def Simulator_new_def)

lemma blank_policy: "m_groupAckPolicy blank_mac = GROUP_ACK_DISABLED" "m_numLostBeacons blank_mac = 0"
  by (simp_all add: blank_mac_def LrWpanMac_new_def)

lemma sample_rooms: "rooms (env_room (sample_env hm cm))"
  by (simp add: rooms_def sample_env_def zeros_def Let_def)

lemma sample_receiving: "receiving (sample_env hm cm) (sample_station a)"
  by (simp add: receiving_def sample_station_def blank_mac_def LrWpanMac_new_def sample_env_def Let_def mac_running_def Simulator_IsExpired_def)

lemma sample_peek:
  assumes "short_request r"
  shows "mac_peek env (mac_wire (mcps_header env r m) @ p) = Some (mac_rebuilt (LrWpanMacHeader_new (env_mem env)) (mcps_header env r m))"
  using mac.peek_header [OF mcps_header_fields(13) [OF assms, where rtl = "env_rtl env" and env = env and m = m]]
  by (simp add: mac_peek_def)

text \<open>A coordinator at the beginning of its CAP, 160 microseconds after the start of the beacon, and at that of its CFP.\<close>

definition sample_cap :: mac_world where
  "sample_cap = \<lparr>mac = blank_mac\<lparr>m_superframeDuration := 960, m_fnlCapSlot := 8, m_macBeaconTxTime := 160000, m_BeaconStartTxTime := 0\<rparr>,
     msim = Simulator_new\<lparr>m_currentTs := 160000\<rparr>, mouts = [], pkts = (\<lambda>a. [])\<rparr>"

definition sample_cfp :: mac_world where
  "sample_cfp = \<lparr>mac = blank_mac\<lparr>m_superframeDuration := 960, m_fnlCapSlot := 8, m_macDSMEenabled := True, m_beaconInterval := 7680\<rparr>,
     msim = Simulator_new\<lparr>m_currentTs := 8640000\<rparr>, mouts = [], pkts = (\<lambda>a. [])\<rparr>"

lemmas sample_periods = sample_cap_def sample_cfp_def blank_mac_def LrWpanMac_new_def Simulator_new_def Simulator_Now_def sim_ok_def

text \<open>A coordinator with beacons every 64 superframe units and superframes of 8, and one that joins it 3 superframes later.\<close>

definition sample_parent :: mac_world where
  "sample_parent = \<lparr>mac = blank_mac\<lparr>m_macPanId := 7, m_shortAddress := Mac16Address 0 1, m_macDSMEenabled := True,
       m_csmaCa := LrWpanCsmaCa_SetSlottedCsmaCa LrWpanCsmaCa_new, m_coord := True, m_panCoor := True,
       m_pan := blank_pan\<lparr>m_dsmePanDescriptorIE := sample_pan\<rparr>\<rparr>,
     msim = Simulator_new\<lparr>m_currentTs := 1000000\<rparr>, mouts = [], pkts = (\<lambda>a. [])\<rparr>"

definition sample_child :: mac_world where
  "sample_child = \<lparr>mac = blank_mac\<lparr>m_macPanId := 7, m_shortAddress := Mac16Address 0 2, m_macDSMEenabled := True, m_coord := True,
       m_pan := blank_pan\<lparr>m_sendBcn := True, m_choosedSDIndexToSendBcn := 3, m_macCoordShortAddress := Mac16Address 0 1\<rparr>\<rparr>,
     msim = Simulator_new\<lparr>m_currentTs := 3000000\<rparr>, mouts = [], pkts = (\<lambda>a. [])\<rparr>"

lemmas sample_beacon_defs = sample_parent_def sample_child_def blank_mac_def blank_pan_def LrWpanMac_new_def

lemma sample_bitmap_length: "length (m_sspecSDBitmap sample_bitmap) = 1"
proof -
  have "m_sspecSDBitmapLen sample_bitmap = 16"
    by (simp add: sample_bitmap_def BeaconBitmap_newLen_def BeaconBitmap_ResetSDBitmap_def class_defs)
  then show ?thesis using sample_bitmap_ok by (simp add: bitmap_ok_def words16_def)
qed

lemma sample_announces: "announces (sample_env hm cm) sample_parent"
  using sample_rooms [of hm cm] sample_bitmap_ok sample_bitmap_length
  by (simp add: announces_def objs_ok_def sample_env_def sample_gts_def sample_pending_def class_defs sample_parent_def)
     (simp add: sample_beacon_defs sample_pan_def superframe_ok_def dsme_superframe_ok_def words16_def groupack_ok_def fits_iff class_defs)

lemma sample_hears: "hears sample_child sample_parent"
  by (simp add: hears_def listens_def joining_def sample_beacon_defs sim_ok_def Simulator_new_def mac_running_def Simulator_IsExpired_def)

text \<open>A request to start with superframes of order \<open>so\<close> and beacons of order \<open>bo\<close>.\<close>

definition sample_start :: "u8 \<Rightarrow> u8 \<Rightarrow> MlmeStartRequestParams" where
  "sample_start bo so = (m_startParams blank_pan)\<lparr>start_PanId := 7, start_panCoor := True, start_bcnOrd := bo, start_sfrmOrd := so,
     start_dsmeSuperframeSpec := (pan_dsmeSuperframeField sample_pan)\<lparr>m_sspecMultiSuperframeOrder := bo - 1\<rparr>,
     start_bcnBitmap := sample_bitmap\<rparr>"

lemma sample_can_coordinate: "can_coordinate (sample_env hm cm) sample_parent"
  using sample_announces [of hm cm]
  by (simp add: announces_def can_coordinate_def) (simp add: sample_beacon_defs sim_ok_def Simulator_new_def)

lemma sample_request_ok: "so \<le> bo - 1 \<Longrightarrow> bo - 1 \<le> bo \<Longrightarrow> bo < 15 \<Longrightarrow> pan_request (sample_start bo so)"
  using sample_bitmap_ok sample_bitmap_length
  by (simp add: pan_request_def sample_start_def blank_pan_def sample_pan_def words16_def)

end
