(* ===== verification/Phy_State.thy ===== *)
theory Phy_State
  imports Complex_Main Mac_State
begin

section \<open>The PHY\<close>

text \<open>
  The transceiver of \<open>lr-wpan-phy.cc\<close>: its states, the requests of the MAC (\<open>PdDataRequest\<close>,
  \<open>PlmeSetTRXStateRequest\<close>, \<open>PlmeCcaRequest\<close>, \<open>PlmeEdRequest\<close>, the attributes), reception
  (\<open>StartRx\<close>, \<open>CheckInterference\<close>, \<open>EndRx\<close>) and the ends of what takes time. The powers that the
  spectrum model computes, the error model, and what the MAC does in a callback are parameters;
  floating point numbers are rational ones. Traces and logs are left out.
\<close>

subsection \<open>Options and attributes\<close>

datatype LrWpanPhyOption = IEEE_802_15_4_868MHZ_BPSK | IEEE_802_15_4_915MHZ_BPSK | IEEE_802_15_4_950MHZ_BPSK |
  IEEE_802_15_4_868MHZ_ASK | IEEE_802_15_4_915MHZ_ASK | IEEE_802_15_4_780MHZ_OQPSK | IEEE_802_15_4_868MHZ_OQPSK |
  IEEE_802_15_4_915MHZ_OQPSK | IEEE_802_15_4_2_4GHZ_OQPSK | IEEE_802_15_4_INVALID_PHY_OPTION

datatype LrWpanPibAttributeIdentifier = phyCurrentChannel_id | phyChannelsSupported_id | phyTransmitPower_id | phyCCAMode_id |
  phyCurrentPage_id | phyMaxFrameDuration_id | phySHRDuration_id | phySymbolsPerOctet_id

record LrWpanPhyPibAttributes =
  phyCurrentChannel :: u8
  phyChannelsSupported :: "u32 list"
  phyTransmitPower :: u8
  phyCCAMode :: u8
  phyCurrentPage :: u8

definition aMaxPhyPacketSize :: u32 where
  "aMaxPhyPacketSize = 127"

definition phyTurnaroundTime :: nat where
  "phyTurnaroundTime = 12"

text \<open>Bit rates and symbol rates in thousands per second, and the symbols of the preamble, the delimiter and the PHY header.\<close>

fun dataSymbolRates :: "LrWpanPhyOption \<Rightarrow> (rat \<times> rat) option" where
  "dataSymbolRates IEEE_802_15_4_868MHZ_BPSK = Some (20, 20)"
| "dataSymbolRates IEEE_802_15_4_915MHZ_BPSK = Some (40, 40)"
| "dataSymbolRates IEEE_802_15_4_950MHZ_BPSK = Some (20, 20)"
| "dataSymbolRates IEEE_802_15_4_868MHZ_ASK = Some (250, 25 / 2)"
| "dataSymbolRates IEEE_802_15_4_915MHZ_ASK = Some (250, 50)"
| "dataSymbolRates IEEE_802_15_4_780MHZ_OQPSK = Some (250, 125 / 2)"
| "dataSymbolRates IEEE_802_15_4_868MHZ_OQPSK = Some (100, 25)"
| "dataSymbolRates IEEE_802_15_4_915MHZ_OQPSK = Some (250, 125 / 2)"
| "dataSymbolRates IEEE_802_15_4_2_4GHZ_OQPSK = Some (250, 125 / 2)"
| "dataSymbolRates IEEE_802_15_4_INVALID_PHY_OPTION = None"

fun ppduHeaderSymbolNumbers :: "LrWpanPhyOption \<Rightarrow> (rat \<times> rat \<times> rat) option" where
  "ppduHeaderSymbolNumbers IEEE_802_15_4_868MHZ_BPSK = Some (32, 8, 8)"
| "ppduHeaderSymbolNumbers IEEE_802_15_4_915MHZ_BPSK = Some (32, 8, 8)"
| "ppduHeaderSymbolNumbers IEEE_802_15_4_950MHZ_BPSK = Some (32, 8, 8)"
| "ppduHeaderSymbolNumbers IEEE_802_15_4_868MHZ_ASK = Some (2, 1, 2 / 5)"
| "ppduHeaderSymbolNumbers IEEE_802_15_4_915MHZ_ASK = Some (6, 1, 8 / 5)"
| "ppduHeaderSymbolNumbers IEEE_802_15_4_780MHZ_OQPSK = Some (8, 2, 2)"
| "ppduHeaderSymbolNumbers IEEE_802_15_4_868MHZ_OQPSK = Some (8, 2, 2)"
| "ppduHeaderSymbolNumbers IEEE_802_15_4_915MHZ_OQPSK = Some (8, 2, 2)"
| "ppduHeaderSymbolNumbers IEEE_802_15_4_2_4GHZ_OQPSK = Some (8, 2, 2)"
| "ppduHeaderSymbolNumbers IEEE_802_15_4_INVALID_PHY_OPTION = None"

subsection \<open>State\<close>

datatype phy_call = EndRx nat | EndTx | EndCca | EndEd | EndSetTRXState

text \<open>The callbacks into the MAC, and the transmission on the channel.\<close>

datatype phy_out = PdDataIndication nat packet u8 | PdDataConfirm LrWpanPhyEnumeration | PlmeCcaConfirm LrWpanPhyEnumeration |
  PlmeEdConfirm LrWpanPhyEnumeration u8 | PlmeGetAttributeConfirm LrWpanPhyEnumeration LrWpanPibAttributeIdentifier |
  PlmeSetTRXStateConfirm LrWpanPhyEnumeration | PlmeSetAttributeConfirm LrWpanPhyEnumeration LrWpanPibAttributeIdentifier |
  StartTx packet int

datatype phy_callback = DataIndicationCb | DataConfirmCb | CcaConfirmCb | EdConfirmCb | GetAttributeCb | SetTRXStateCb | SetAttributeCb | ChannelCb

fun callback_of :: "phy_out \<Rightarrow> phy_callback" where
  "callback_of (PdDataIndication n p q) = DataIndicationCb"
| "callback_of (PdDataConfirm s) = DataConfirmCb"
| "callback_of (PlmeCcaConfirm s) = CcaConfirmCb"
| "callback_of (PlmeEdConfirm s l) = EdConfirmCb"
| "callback_of (PlmeGetAttributeConfirm s i) = GetAttributeCb"
| "callback_of (PlmeSetTRXStateConfirm s) = SetTRXStateCb"
| "callback_of (PlmeSetAttributeConfirm s i) = SetAttributeCb"
| "callback_of (StartTx p d) = ChannelCb"

record LrWpanEdPower =
  averagePower :: rat
  lastUpdate :: int
  measurementLength :: int

text \<open>
  The packet being received is named by its signal, the one being sent by its octets; the flags say
  that it is destroyed. \<open>m_signal\<close> is the set of signals on the air, \<open>m_txPsd\<close> the nominal power and
  the channel it was computed for, \<open>m_noise\<close> its channel.
\<close>

record LrWpanPhy =
  m_trxState :: LrWpanPhyEnumeration
  m_trxStatePending :: LrWpanPhyEnumeration
  m_setTRXState :: "EventId option"
  m_ccaRequest :: "EventId option"
  m_edRequest :: "EventId option"
  m_pdDataRequest :: "EventId option"
  m_ccaPeakPower :: rat
  m_edPower :: LrWpanEdPower
  m_currentRxPacket :: "nat option \<times> bool"
  m_currentTxPacket :: "packet option \<times> bool"
  m_isRxCanceled :: bool
  m_rxLastUpdate :: int
  m_phyPIBAttributes :: LrWpanPhyPibAttributes
  m_phyOption :: LrWpanPhyOption
  m_signal :: "nat list"
  m_txPsd :: "8 word \<times> u8"
  m_noise :: u8

text \<open>A signal: the packet it carries, the link quality tag of the packet, if any, and its duration.\<close>

record phy_signal =
  sig_packet :: packet
  sig_lqi :: "u8 option"
  sig_duration :: int

record 'm phy_world =
  phy :: LrWpanPhy
  psim :: "phy_call Simulator"
  pouts :: "phy_out list"
  upper :: 'm
  signals :: "nat \<Rightarrow> phy_signal"

text \<open>
  The surroundings: what a connected callback does, the power of a set of signals on a channel, that of
  one signal and that of the others with the noise, the error model and the one after reception, the
  energy level of a ratio between ten and forty decibels.
\<close>

record 'm phy_env =
  env_connected :: "phy_callback \<Rightarrow> bool"
  env_cb :: "phy_out \<Rightarrow> 'm phy_world \<Rightarrow> 'm phy_world option"
  env_power :: "nat list \<Rightarrow> u8 \<Rightarrow> rat"
  env_signalPower :: "nat \<Rightarrow> u8 \<Rightarrow> rat"
  env_otherPower :: "nat list \<Rightarrow> nat \<Rightarrow> u8 \<Rightarrow> u8 \<Rightarrow> rat"
  env_errorModel :: "(rat \<Rightarrow> u32 \<Rightarrow> rat) option"
  env_corrupt :: "packet \<Rightarrow> bool"
  env_energyLevel :: "rat \<Rightarrow> u8"
  env_rxSensitivity :: rat

definition phy_upd :: "(LrWpanPhy \<Rightarrow> LrWpanPhy) \<Rightarrow> 'm phy_world \<Rightarrow> 'm phy_world" where
  [class_defs]: "phy_upd g w = w\<lparr>phy := g (phy w)\<rparr>"

definition phy_notify :: "'m phy_env \<Rightarrow> phy_out \<Rightarrow> 'm phy_world \<Rightarrow> 'm phy_world option" where
  "phy_notify env out w = (if env_connected env (callback_of out) then env_cb env out w else Some w)"

definition phy_sched :: "int \<Rightarrow> phy_call \<Rightarrow> (EventId option \<Rightarrow> LrWpanPhy \<Rightarrow> LrWpanPhy) \<Rightarrow> 'm phy_world \<Rightarrow> 'm phy_world option" where
  "phy_sched delay c store w = do {
     (k, s) \<leftarrow> Simulator_Schedule delay c (psim w);
     Some (w\<lparr>psim := s, phy := store (Some k) (phy w)\<rparr>) }"

definition phy_cancel :: "EventId option \<Rightarrow> 'm phy_world \<Rightarrow> 'm phy_world" where
  [class_defs]: "phy_cancel i w = w\<lparr>psim := Simulator_Cancel i (psim w)\<rparr>"

definition phy_running :: "EventId option \<Rightarrow> 'm phy_world \<Rightarrow> bool" where
  [class_defs]: "phy_running i w \<longleftrightarrow> \<not> Simulator_IsExpired i (psim w)"

subsection \<open>Rates and times\<close>

text \<open>\<open>Seconds\<close> of a fraction, in nanoseconds.\<close>

definition seconds_of :: "rat \<Rightarrow> int" where
  "seconds_of x = \<lfloor>x * 10 ^ 9 + 1 / 2\<rfloor>"

definition LrWpanPhy_GetDataOrSymbolRate :: "bool \<Rightarrow> LrWpanPhy \<Rightarrow> rat option" where
  "LrWpanPhy_GetDataOrSymbolRate isData f = do {
     (bitRate, symbolRate) \<leftarrow> dataSymbolRates (m_phyOption f);
     Some ((if isData then bitRate else symbolRate) * 1000) }"

definition LrWpanPhy_GetPpduHeaderTxTime :: "LrWpanPhy \<Rightarrow> int option" where
  "LrWpanPhy_GetPpduHeaderTxTime f = do {
     (shrPreamble, shrSfd, phr) \<leftarrow> ppduHeaderSymbolNumbers (m_phyOption f);
     rate \<leftarrow> LrWpanPhy_GetDataOrSymbolRate False f;
     Some (seconds_of ((shrPreamble + shrSfd + phr) / rate)) }"

definition LrWpanPhy_CalculateTxTime :: "packet \<Rightarrow> LrWpanPhy \<Rightarrow> int option" where
  "LrWpanPhy_CalculateTxTime p f = do {
     txTime \<leftarrow> LrWpanPhy_GetPpduHeaderTxTime f;
     rate \<leftarrow> LrWpanPhy_GetDataOrSymbolRate True f;
     Some (txTime + seconds_of (of_nat (length p) * 8 / rate)) }"

definition LrWpanPhy_GetPhySHRDuration :: "LrWpanPhy \<Rightarrow> u64 option" where
  "LrWpanPhy_GetPhySHRDuration f = do {
     (shrPreamble, shrSfd, phr) \<leftarrow> ppduHeaderSymbolNumbers (m_phyOption f);
     Some (of_int \<lfloor>shrPreamble + shrSfd\<rfloor>) }"

definition LrWpanPhy_GetPhySymbolsPerOctet :: "LrWpanPhy \<Rightarrow> rat option" where
  "LrWpanPhy_GetPhySymbolsPerOctet f = do {
     (bitRate, symbolRate) \<leftarrow> dataSymbolRates (m_phyOption f);
     Some (symbolRate / (bitRate / 8)) }"

definition LrWpanPhy_GetCurrentPage :: "LrWpanPhy \<Rightarrow> u8" where
  [class_defs]: "LrWpanPhy_GetCurrentPage f = phyCurrentPage (m_phyPIBAttributes f)"

definition LrWpanPhy_GetCurrentChannelNum :: "LrWpanPhy \<Rightarrow> u8" where
  [class_defs]: "LrWpanPhy_GetCurrentChannelNum f = phyCurrentChannel (m_phyPIBAttributes f)"

definition LrWpanPhy_GetMyPhyOption :: "LrWpanPhy \<Rightarrow> LrWpanPhyOption" where
  [class_defs]: "LrWpanPhy_GetMyPhyOption f = m_phyOption f"

text \<open>Six bits in two's complement.\<close>

definition LrWpanPhy_GetNominalTxPowerFromPib :: "u8 \<Rightarrow> 8 word" where
  "LrWpanPhy_GetNominalTxPowerFromPib pw = (
     let nominalTxPower = pw AND 0x1F
     in if pw AND 0x20 \<noteq> 0 then nominalTxPower - 32 else nominalTxPower)"

definition LrWpanPhy_ChannelSupported :: "u8 \<Rightarrow> LrWpanPhy \<Rightarrow> bool option" where
  "LrWpanPhy_ChannelSupported ch f = (
     let a = m_phyPIBAttributes f in
     if unat (phyCurrentPage a) < length (phyChannelsSupported a) then do {
       n \<leftarrow> shl32 1 (unat ch);
       Some (phyChannelsSupported a ! unat (phyCurrentPage a) AND n \<noteq> 0) }
     else None)"

text \<open>Pages other than 0 abort.\<close>

definition LrWpanPhy_PageSupported :: "u8 \<Rightarrow> LrWpanPhy \<Rightarrow> bool option" where
  "LrWpanPhy_PageSupported page f = (
     if page \<noteq> 0 \<or> phyChannelsSupported (m_phyPIBAttributes f) = [] then None
     else
       let supportedPage = ucast (drop_bit 27 (phyChannelsSupported (m_phyPIBAttributes f) ! unat page) AND 0x1F :: u32)
       in Some (page = supportedPage))"

definition LrWpanPhy_ChangeTrxState :: "LrWpanPhyEnumeration \<Rightarrow> LrWpanPhy \<Rightarrow> LrWpanPhy" where
  [class_defs]: "LrWpanPhy_ChangeTrxState newState f = f\<lparr>m_trxState := newState\<rparr>"

definition LrWpanPhy_PhyIsBusy :: "LrWpanPhy \<Rightarrow> bool" where
  [class_defs]: "LrWpanPhy_PhyIsBusy f \<longleftrightarrow> m_trxState f = IEEE_802_15_4_PHY_BUSY_TX \<or> m_trxState f = IEEE_802_15_4_PHY_BUSY_RX \<or>
     m_trxState f = IEEE_802_15_4_PHY_BUSY"

subsection \<open>Construction\<close>

text \<open>Options other than 2.4 GHz abort.\<close>

definition LrWpanPhy_SetPhyOption :: "LrWpanPhyOption \<Rightarrow> LrWpanPhy \<Rightarrow> LrWpanPhy option" where
  "LrWpanPhy_SetPhyOption phyOption f = (
     if phyOption \<noteq> IEEE_802_15_4_2_4GHZ_OQPSK then None
     else
       let a = (m_phyPIBAttributes f)\<lparr>phyCurrentPage := 0, phyCurrentChannel := 11,
             phyChannelsSupported := 0x7FFF800 # replicate 31 0xF8000000\<rparr>
       in Some (f\<lparr>m_phyPIBAttributes := a, m_phyOption := phyOption,
            m_edPower := \<lparr>averagePower = 0, lastUpdate = 0, measurementLength = 0\<rparr>,
            m_txPsd := (LrWpanPhy_GetNominalTxPowerFromPib (phyTransmitPower a), phyCurrentChannel a),
            m_noise := phyCurrentChannel a, m_signal := [], m_rxLastUpdate := 0,
            m_currentRxPacket := (None, True), m_currentTxPacket := (None, True)\<rparr>))"

definition LrWpanPhy_new :: "LrWpanPhy \<Rightarrow> LrWpanPhy option" where
  "LrWpanPhy_new mem = do {
     let f = mem\<lparr>m_edRequest := None, m_setTRXState := None, m_ccaRequest := None, m_pdDataRequest := None\<rparr>;
     let f = f\<lparr>m_trxState := IEEE_802_15_4_PHY_TRX_OFF, m_trxStatePending := IEEE_802_15_4_PHY_IDLE,
       m_phyPIBAttributes := (m_phyPIBAttributes f)\<lparr>phyTransmitPower := 0, phyCCAMode := 1\<rparr>\<rparr>;
     f \<leftarrow> LrWpanPhy_SetPhyOption IEEE_802_15_4_2_4GHZ_OQPSK f;
     Some (LrWpanPhy_ChangeTrxState IEEE_802_15_4_PHY_TRX_OFF (f\<lparr>m_isRxCanceled := False\<rparr>)) }"

subsection \<open>Changes of state\<close>

definition LrWpanPhy_CancelEd :: "'m phy_env \<Rightarrow> LrWpanPhyEnumeration \<Rightarrow> 'm phy_world \<Rightarrow> 'm phy_world option" where
  "LrWpanPhy_CancelEd env state w = (
     if state \<noteq> IEEE_802_15_4_PHY_TRX_OFF \<and> state \<noteq> IEEE_802_15_4_PHY_TX_ON then None
     else if phy_running (m_edRequest (phy w)) w then phy_notify env (PlmeEdConfirm state 0) (phy_cancel (m_edRequest (phy w)) w)
     else Some w)"

text \<open>The turnaround of the transceiver.\<close>

definition phy_turnaround :: "LrWpanPhyEnumeration \<Rightarrow> 'm phy_world \<Rightarrow> 'm phy_world option" where
  "phy_turnaround state w = do {
     let w = phy_upd (\<lambda>f. f\<lparr>m_trxStatePending := state\<rparr>) w;
     rate \<leftarrow> LrWpanPhy_GetDataOrSymbolRate False (phy w);
     phy_sched (seconds_of (of_nat phyTurnaroundTime / rate)) EndSetTRXState (\<lambda>k f. f\<lparr>m_setTRXState := k\<rparr>) w }"

text \<open>The reception is given up.\<close>

definition phy_terminate_rx :: "'m phy_world \<Rightarrow> 'm phy_world" where
  "phy_terminate_rx w = (
     if fst (m_currentRxPacket (phy w)) \<noteq> None
     then phy_upd (\<lambda>f. f\<lparr>m_currentRxPacket := (fst (m_currentRxPacket f), True), m_isRxCanceled := True\<rparr>) w else w)"

definition phy_request_off :: "'m phy_env \<Rightarrow> 'm phy_world \<Rightarrow> 'm phy_world option" where
  "phy_request_off env w = do {
     w \<leftarrow> LrWpanPhy_CancelEd env IEEE_802_15_4_PHY_TRX_OFF w;
     if m_trxState (phy w) = IEEE_802_15_4_PHY_BUSY_RX \<and> fst (m_currentRxPacket (phy w)) \<noteq> None \<and> \<not> snd (m_currentRxPacket (phy w))
     then Some (phy_upd (\<lambda>f. f\<lparr>m_trxStatePending := IEEE_802_15_4_PHY_TRX_OFF\<rparr>) w)
     else if m_trxState (phy w) = IEEE_802_15_4_PHY_RX_ON \<or> m_trxState (phy w) = IEEE_802_15_4_PHY_TX_ON
     then phy_notify env (PlmeSetTRXStateConfirm IEEE_802_15_4_PHY_TRX_OFF)
            (phy_upd (LrWpanPhy_ChangeTrxState IEEE_802_15_4_PHY_TRX_OFF) w)
     else None }"

definition phy_request_tx :: "'m phy_env \<Rightarrow> 'm phy_world \<Rightarrow> 'm phy_world option" where
  "phy_request_tx env w = do {
     w \<leftarrow> LrWpanPhy_CancelEd env IEEE_802_15_4_PHY_TX_ON w;
     if m_trxState (phy w) = IEEE_802_15_4_PHY_BUSY_RX \<or> m_trxState (phy w) = IEEE_802_15_4_PHY_RX_ON then do {
       let w = phy_terminate_rx w;
       w \<leftarrow> (if phy_running (m_ccaRequest (phy w)) w
             then phy_notify env (PlmeCcaConfirm IEEE_802_15_4_PHY_BUSY) (phy_cancel (m_ccaRequest (phy w)) w) else Some w);
       phy_turnaround IEEE_802_15_4_PHY_TX_ON w }
     else if m_trxState (phy w) = IEEE_802_15_4_PHY_BUSY_TX \<or> m_trxState (phy w) = IEEE_802_15_4_PHY_TX_ON
     then phy_notify env (PlmeSetTRXStateConfirm IEEE_802_15_4_PHY_TX_ON) w
     else if m_trxState (phy w) = IEEE_802_15_4_PHY_TRX_OFF
     then phy_notify env (PlmeSetTRXStateConfirm IEEE_802_15_4_PHY_TX_ON) (phy_upd (LrWpanPhy_ChangeTrxState IEEE_802_15_4_PHY_TX_ON) w)
     else None }"

definition phy_request_force_off :: "'m phy_env \<Rightarrow> 'm phy_world \<Rightarrow> 'm phy_world option" where
  "phy_request_force_off env w = (
     let w = (if m_trxState (phy w) = IEEE_802_15_4_PHY_TRX_OFF then w
              else
                let w = phy_terminate_rx w;
                    w = (if m_trxState (phy w) = IEEE_802_15_4_PHY_BUSY_TX
                         then phy_upd (\<lambda>f. f\<lparr>m_currentTxPacket := (fst (m_currentTxPacket f), True)\<rparr>) w else w)
                in phy_upd (\<lambda>f. (LrWpanPhy_ChangeTrxState IEEE_802_15_4_PHY_TRX_OFF f)\<lparr>m_trxStatePending := IEEE_802_15_4_PHY_IDLE\<rparr>) w)
     in phy_notify env (PlmeSetTRXStateConfirm IEEE_802_15_4_PHY_SUCCESS) w)"

definition phy_request_rx :: "'m phy_env \<Rightarrow> 'm phy_world \<Rightarrow> 'm phy_world option" where
  "phy_request_rx env w = (
     if m_trxState (phy w) = IEEE_802_15_4_PHY_TX_ON \<or> m_trxState (phy w) = IEEE_802_15_4_PHY_TRX_OFF
     then phy_turnaround IEEE_802_15_4_PHY_RX_ON w
     else if m_trxState (phy w) = IEEE_802_15_4_PHY_BUSY_RX
     then phy_notify env (PlmeSetTRXStateConfirm IEEE_802_15_4_PHY_RX_ON) w
     else None)"

text \<open>Transitions that no branch handles are fatal errors.\<close>

definition LrWpanPhy_PlmeSetTRXStateRequest :: "'m phy_env \<Rightarrow> LrWpanPhyEnumeration \<Rightarrow> 'm phy_world \<Rightarrow> 'm phy_world option" where
  "LrWpanPhy_PlmeSetTRXStateRequest env state w = (
     if state \<notin> {IEEE_802_15_4_PHY_RX_ON, IEEE_802_15_4_PHY_TRX_OFF, IEEE_802_15_4_PHY_FORCE_TRX_OFF, IEEE_802_15_4_PHY_TX_ON} then None
     else if phy_running (m_setTRXState (phy w)) w \<and> state = m_trxStatePending (phy w) then Some w
     else
       let w = (if phy_running (m_setTRXState (phy w)) w then phy_cancel (m_setTRXState (phy w)) w else w);
           w = phy_upd (\<lambda>f. f\<lparr>m_trxStatePending := IEEE_802_15_4_PHY_IDLE\<rparr>) w
       in if state = m_trxState (phy w) then phy_notify env (PlmeSetTRXStateConfirm state) w
          else if (state = IEEE_802_15_4_PHY_RX_ON \<or> state = IEEE_802_15_4_PHY_TRX_OFF) \<and> m_trxState (phy w) = IEEE_802_15_4_PHY_BUSY_TX
          then Some (phy_upd (\<lambda>f. f\<lparr>m_trxStatePending := state\<rparr>) w)
          else if state = IEEE_802_15_4_PHY_TRX_OFF then phy_request_off env w
          else if state = IEEE_802_15_4_PHY_TX_ON then phy_request_tx env w
          else if state = IEEE_802_15_4_PHY_FORCE_TRX_OFF then phy_request_force_off env w
          else phy_request_rx env w)"

definition LrWpanPhy_EndSetTRXState :: "'m phy_env \<Rightarrow> 'm phy_world \<Rightarrow> 'm phy_world option" where
  "LrWpanPhy_EndSetTRXState env w = (
     if m_trxStatePending (phy w) \<noteq> IEEE_802_15_4_PHY_RX_ON \<and> m_trxStatePending (phy w) \<noteq> IEEE_802_15_4_PHY_TX_ON then None
     else
       let w = phy_upd (\<lambda>f. (LrWpanPhy_ChangeTrxState (m_trxStatePending f) f)\<lparr>m_trxStatePending := IEEE_802_15_4_PHY_IDLE\<rparr>) w
       in phy_notify env (PlmeSetTRXStateConfirm (m_trxState (phy w))) w)"

text \<open>At the end of a transmission or reception: a pending change is applied, unless the transceiver is already switching.\<close>

definition phy_apply_pending :: "'m phy_env \<Rightarrow> ('m phy_world \<Rightarrow> 'm phy_world) \<Rightarrow> 'm phy_world \<Rightarrow> 'm phy_world option" where
  "phy_apply_pending env idle w = (
     if m_trxStatePending (phy w) \<noteq> IEEE_802_15_4_PHY_IDLE then
       if \<not> phy_running (m_setTRXState (phy w)) w then
         phy_notify env (PlmeSetTRXStateConfirm IEEE_802_15_4_PHY_SUCCESS)
           (phy_upd (\<lambda>f. (LrWpanPhy_ChangeTrxState (m_trxStatePending f) f)\<lparr>m_trxStatePending := IEEE_802_15_4_PHY_IDLE\<rparr>) w)
       else Some w
     else Some (idle w))"

subsection \<open>Transmission\<close>

definition LrWpanPhy_PdDataRequest :: "'m phy_env \<Rightarrow> u32 \<Rightarrow> packet \<Rightarrow> 'm phy_world \<Rightarrow> 'm phy_world option" where
  "LrWpanPhy_PdDataRequest env psduLength p w = (
     if psduLength > aMaxPhyPacketSize then phy_notify env (PdDataConfirm IEEE_802_15_4_PHY_UNSPECIFIED) w
     else if \<not> phy_running (m_setTRXState (phy w)) w then
       if m_trxState (phy w) = IEEE_802_15_4_PHY_TX_ON then do {
         let w = phy_upd (\<lambda>f. f\<lparr>m_currentTxPacket := (Some p, False)\<rparr>) w;
         duration \<leftarrow> LrWpanPhy_CalculateTxTime p (phy w);
         w \<leftarrow> (if env_connected env ChannelCb then env_cb env (StartTx p duration) w else None);
         w \<leftarrow> phy_sched duration EndTx (\<lambda>k f. f\<lparr>m_pdDataRequest := k\<rparr>) w;
         Some (phy_upd (LrWpanPhy_ChangeTrxState IEEE_802_15_4_PHY_BUSY_TX) w) }
       else if m_trxState (phy w) \<in> {IEEE_802_15_4_PHY_RX_ON, IEEE_802_15_4_PHY_TRX_OFF, IEEE_802_15_4_PHY_BUSY_TX}
       then phy_notify env (PdDataConfirm (m_trxState (phy w))) w
       else None
     else phy_notify env (PdDataConfirm IEEE_802_15_4_PHY_UNSPECIFIED) w)"

definition LrWpanPhy_CancelPdDataRequest :: "'m phy_world \<Rightarrow> 'm phy_world" where
  "LrWpanPhy_CancelPdDataRequest w = (if phy_running (m_pdDataRequest (phy w)) w then phy_cancel (m_pdDataRequest (phy w)) w else w)"

text \<open>The second assertion is made only when there is a callback.\<close>

definition LrWpanPhy_EndTx :: "'m phy_env \<Rightarrow> 'm phy_world \<Rightarrow> 'm phy_world option" where
  "LrWpanPhy_EndTx env w = (
     if m_trxState (phy w) \<noteq> IEEE_802_15_4_PHY_BUSY_TX \<and> m_trxState (phy w) \<noteq> IEEE_802_15_4_PHY_TRX_OFF then Some w
     else do {
       w \<leftarrow> (if \<not> snd (m_currentTxPacket (phy w)) then phy_notify env (PdDataConfirm IEEE_802_15_4_PHY_SUCCESS) w
             else if env_connected env DataConfirmCb \<and> m_trxState (phy w) \<noteq> IEEE_802_15_4_PHY_TRX_OFF then None
             else phy_notify env (PdDataConfirm (m_trxState (phy w))) w);
       let w = phy_upd (\<lambda>f. f\<lparr>m_currentTxPacket := (None, False)\<rparr>) w;
       phy_apply_pending env (phy_upd (\<lambda>f. if m_trxState f \<noteq> IEEE_802_15_4_PHY_TRX_OFF
         then LrWpanPhy_ChangeTrxState IEEE_802_15_4_PHY_TX_ON f else f)) w })"

subsection \<open>Reception\<close>

text \<open>The power received while the energy is measured.\<close>

definition phy_ed_update :: "'m phy_env \<Rightarrow> LrWpanPhy \<Rightarrow> int \<Rightarrow> LrWpanPhy" where
  "phy_ed_update env f now = f\<lparr>m_edPower := (m_edPower f)\<lparr>averagePower := averagePower (m_edPower f) +
       env_power env (m_signal f) (phyCurrentChannel (m_phyPIBAttributes f)) * of_int (now - lastUpdate (m_edPower f)) /
       of_int (measurementLength (m_edPower f)), lastUpdate := now\<rparr>\<rparr>"

definition phy_ed_progress :: "'m phy_env \<Rightarrow> 'm phy_world \<Rightarrow> 'm phy_world" where
  "phy_ed_progress env w = (if phy_running (m_edRequest (phy w)) w then phy_upd (\<lambda>f. phy_ed_update env f (Simulator_Now (psim w))) w else w)"

text \<open>The highest power while the channel is assessed.\<close>

definition phy_peak :: "'m phy_env \<Rightarrow> LrWpanPhy \<Rightarrow> LrWpanPhy" where
  "phy_peak env f = (
     let pw = env_power env (m_signal f) (phyCurrentChannel (m_phyPIBAttributes f))
     in if m_ccaPeakPower f < pw then f\<lparr>m_ccaPeakPower := pw\<rparr> else f)"

definition phy_sinr :: "'m phy_env \<Rightarrow> nat \<Rightarrow> LrWpanPhy \<Rightarrow> rat" where
  "phy_sinr env s f = (let ch = phyCurrentChannel (m_phyPIBAttributes f)
     in env_signalPower env s ch / env_otherPower env (m_signal f) s (m_noise f) ch)"

text \<open>More than -5 decibels: the square of the ratio is above a tenth.\<close>

definition phy_decodable :: "rat \<Rightarrow> bool" where
  "phy_decodable sinr \<longleftrightarrow> 0 < sinr \<and> 10 * sinr ^ 2 > 1"

text \<open>
  \<open>draw\<close> is the random value that decides whether the packet is destroyed; without a current packet the
  code reads through a null pointer. The link quality goes down with the error rate.
\<close>

definition LrWpanPhy_CheckInterference :: "'m phy_env \<Rightarrow> rat \<Rightarrow> 'm phy_world \<Rightarrow> 'm phy_world option" where
  "LrWpanPhy_CheckInterference env draw w = do {
     w \<leftarrow> (if m_trxState (phy w) = IEEE_802_15_4_PHY_BUSY_RX then
             case fst (m_currentRxPacket (phy w)) of
               None \<Rightarrow> None
             | Some s \<Rightarrow> (case env_errorModel env of
                   None \<Rightarrow> Some w
                 | Some rate_of \<Rightarrow> do {
                     rate \<leftarrow> LrWpanPhy_GetDataOrSymbolRate True (phy w);
                     let t = of_int (Simulator_Now (psim w) - m_rxLastUpdate (phy w)) / 10 ^ 6;
                     let chunkSize = of_int \<lceil>t * (rate / 1000)\<rceil>;
                     let per = 1 - rate_of (phy_sinr env s (phy w)) chunkSize;
                     let lqi = (case sig_lqi (signals w s) of None \<Rightarrow> - 1 | Some q \<Rightarrow> q);
                     let tag = of_int \<lfloor>of_int (uint lqi) - per * of_int (uint lqi)\<rfloor>;
                     let w = w\<lparr>signals := (signals w)(s := (signals w s)\<lparr>sig_lqi := Some tag\<rparr>)\<rparr>;
                     Some (if draw < per then phy_upd (\<lambda>f. f\<lparr>m_currentRxPacket := (fst (m_currentRxPacket f), True)\<rparr>) w else w) })
           else Some w);
     Some (phy_upd (\<lambda>f. f\<lparr>m_rxLastUpdate := Simulator_Now (psim w)\<rparr>) w) }"

text \<open>A signal of another radio than this one is dereferenced as a null pointer and not modelled.\<close>

definition LrWpanPhy_StartRx :: "'m phy_env \<Rightarrow> rat \<Rightarrow> nat \<Rightarrow> 'm phy_world \<Rightarrow> 'm phy_world option" where
  "LrWpanPhy_StartRx env draw s w = do {
     let w = phy_ed_progress env w;
     w \<leftarrow> (if m_trxState (phy w) = IEEE_802_15_4_PHY_RX_ON \<and> \<not> phy_running (m_setTRXState (phy w)) w then
             let w = phy_upd (\<lambda>f. f\<lparr>m_signal := List.insert s (m_signal f)\<rparr>) w
             in Some (if phy_decodable (phy_sinr env s (phy w))
                      then phy_upd (\<lambda>f. (LrWpanPhy_ChangeTrxState IEEE_802_15_4_PHY_BUSY_RX f)
                             \<lparr>m_currentRxPacket := (Some s, False), m_rxLastUpdate := Simulator_Now (psim w)\<rparr>) w
                      else w)
           else if m_trxState (phy w) = IEEE_802_15_4_PHY_BUSY_RX then do {
             w \<leftarrow> LrWpanPhy_CheckInterference env draw w;
             Some (phy_upd (\<lambda>f. f\<lparr>m_signal := List.insert s (m_signal f)\<rparr>) w) }
           else Some (phy_upd (\<lambda>f. f\<lparr>m_signal := List.insert s (m_signal f)\<rparr>) w));
     let w = (if phy_running (m_ccaRequest (phy w)) w then phy_upd (phy_peak env) w else w);
     phy_sched (sig_duration (signals w s) - 236) (EndRx s) (\<lambda>k f. f) w }"

text \<open>The end of a packet that was being received.\<close>

definition phy_rx_done :: "'m phy_env \<Rightarrow> nat \<Rightarrow> 'm phy_world \<Rightarrow> 'm phy_world option" where
  "phy_rx_done env s w = do {
     let w = (if env_corrupt env (sig_packet (signals w s))
              then phy_upd (\<lambda>f. f\<lparr>m_currentRxPacket := (fst (m_currentRxPacket f), True)\<rparr>) w else w);
     let lqi = (case sig_lqi (signals w s) of None \<Rightarrow> - 1 | Some q \<Rightarrow> q);
     w \<leftarrow> (if \<not> snd (m_currentRxPacket (phy w))
           then phy_notify env (PdDataIndication (length (sig_packet (signals w s))) (sig_packet (signals w s)) lqi) w
           else Some w);
     let w = phy_upd (\<lambda>f. f\<lparr>m_currentRxPacket := (None, True)\<rparr>) w;
     if \<not> m_isRxCanceled (phy w)
     then phy_apply_pending env (phy_upd (LrWpanPhy_ChangeTrxState IEEE_802_15_4_PHY_RX_ON)) w
     else Some (phy_upd (\<lambda>f. f\<lparr>m_isRxCanceled := False\<rparr>) w) }"

definition LrWpanPhy_EndRx :: "'m phy_env \<Rightarrow> rat \<Rightarrow> nat \<Rightarrow> 'm phy_world \<Rightarrow> 'm phy_world option" where
  "LrWpanPhy_EndRx env draw s w = do {
     let w = phy_ed_progress env w;
     let current = fst (m_currentRxPacket (phy w));
     w \<leftarrow> (if current = Some s then LrWpanPhy_CheckInterference env draw w else Some w);
     let w = phy_upd (\<lambda>f. f\<lparr>m_signal := removeAll s (m_signal f)\<rparr>) w;
     if current = Some s then phy_rx_done env s w else Some w }"

subsection \<open>Channel assessment and energy detection\<close>

text \<open>Both take eight symbols.\<close>

definition LrWpanPhy_PlmeCcaRequest :: "'m phy_env \<Rightarrow> 'm phy_world \<Rightarrow> 'm phy_world option" where
  "LrWpanPhy_PlmeCcaRequest env w = (
     if m_trxState (phy w) = IEEE_802_15_4_PHY_RX_ON \<or> m_trxState (phy w) = IEEE_802_15_4_PHY_BUSY_RX then do {
       let w = phy_upd (\<lambda>f. f\<lparr>m_ccaPeakPower := 0\<rparr>) w;
       rate \<leftarrow> LrWpanPhy_GetDataOrSymbolRate False (phy w);
       phy_sched (seconds_of (8 / rate)) EndCca (\<lambda>k f. f\<lparr>m_ccaRequest := k\<rparr>) w }
     else phy_notify env (PlmeCcaConfirm (if m_trxState (phy w) = IEEE_802_15_4_PHY_TRX_OFF then IEEE_802_15_4_PHY_TRX_OFF
                                          else IEEE_802_15_4_PHY_BUSY)) w)"

definition LrWpanPhy_CcaCancel :: "'m phy_world \<Rightarrow> 'm phy_world" where
  "LrWpanPhy_CcaCancel w = phy_cancel (m_ccaRequest (phy w)) w"

text \<open>Ten decibels above the sensitivity are ten times its power.\<close>

definition phy_above_threshold :: "'m phy_env \<Rightarrow> LrWpanPhy \<Rightarrow> bool" where
  "phy_above_threshold env f \<longleftrightarrow> m_ccaPeakPower f \<ge> 10 * env_rxSensitivity env"

definition phy_sensed :: "'m phy_env \<Rightarrow> LrWpanPhy \<Rightarrow> LrWpanPhyEnumeration option" where
  "phy_sensed env f = (
     let mode = phyCCAMode (m_phyPIBAttributes f) in
     if LrWpanPhy_PhyIsBusy f then Some IEEE_802_15_4_PHY_BUSY
     else if mode = 1 then Some (if phy_above_threshold env f then IEEE_802_15_4_PHY_BUSY else IEEE_802_15_4_PHY_IDLE)
     else if mode = 2 then Some (if m_trxState f = IEEE_802_15_4_PHY_BUSY_RX then IEEE_802_15_4_PHY_BUSY else IEEE_802_15_4_PHY_IDLE)
     else if mode = 3 then Some (if phy_above_threshold env f \<and> m_trxState f = IEEE_802_15_4_PHY_BUSY_RX
                                 then IEEE_802_15_4_PHY_BUSY else IEEE_802_15_4_PHY_IDLE)
     else None)"

definition LrWpanPhy_EndCca :: "'m phy_env \<Rightarrow> 'm phy_world \<Rightarrow> 'm phy_world option" where
  "LrWpanPhy_EndCca env w = do {
     let w = phy_upd (phy_peak env) w;
     sensedChannelState \<leftarrow> phy_sensed env (phy w);
     phy_notify env (PlmeCcaConfirm sensedChannelState) w }"

definition LrWpanPhy_PlmeEdRequest :: "'m phy_env \<Rightarrow> 'm phy_world \<Rightarrow> 'm phy_world option" where
  "LrWpanPhy_PlmeEdRequest env w = (
     if m_trxState (phy w) = IEEE_802_15_4_PHY_RX_ON \<or> m_trxState (phy w) = IEEE_802_15_4_PHY_BUSY_RX then do {
       rate \<leftarrow> LrWpanPhy_GetDataOrSymbolRate False (phy w);
       let w = phy_upd (\<lambda>f. f\<lparr>m_edPower := \<lparr>averagePower = 0, lastUpdate = Simulator_Now (psim w),
         measurementLength = seconds_of (8 / rate)\<rparr>\<rparr>) w;
       phy_sched (measurementLength (m_edPower (phy w))) EndEd (\<lambda>k f. f\<lparr>m_edRequest := k\<rparr>) w }
     else
       let result = (if m_trxState (phy w) = IEEE_802_15_4_PHY_BUSY_TX then IEEE_802_15_4_PHY_TX_ON else m_trxState (phy w))
       in phy_notify env (PlmeEdConfirm result 0) w)"

text \<open>Ten decibels above the sensitivity give 0, forty give 255; in between the level grows with the logarithm.\<close>

definition phy_energy_level :: "'m phy_env \<Rightarrow> rat \<Rightarrow> u8" where
  "phy_energy_level env ratio = (if ratio \<le> 10 then 0 else if ratio \<ge> 10 ^ 4 then 255 else env_energyLevel env ratio)"

text \<open>The average is updated, but not the time of the update.\<close>

definition LrWpanPhy_EndEd :: "'m phy_env \<Rightarrow> 'm phy_world \<Rightarrow> 'm phy_world option" where
  "LrWpanPhy_EndEd env w = (
     let w = phy_upd (\<lambda>f. f\<lparr>m_edPower := (m_edPower (phy_ed_update env f (Simulator_Now (psim w))))
               \<lparr>lastUpdate := lastUpdate (m_edPower f)\<rparr>\<rparr>) w;
         energyLevel = phy_energy_level env (averagePower (m_edPower (phy w)) / env_rxSensitivity env)
     in phy_notify env (PlmeEdConfirm IEEE_802_15_4_PHY_SUCCESS energyLevel) w)"

subsection \<open>Attributes\<close>

definition LrWpanPhy_PlmeGetAttributeRequest :: "'m phy_env \<Rightarrow> LrWpanPibAttributeIdentifier \<Rightarrow> 'm phy_world \<Rightarrow> 'm phy_world option" where
  "LrWpanPhy_PlmeGetAttributeRequest env i w = phy_notify env (PlmeGetAttributeConfirm IEEE_802_15_4_PHY_SUCCESS i) w"

text \<open>
  A new page or channel switches the transceiver off. The test for a busy transceiver comes after
  its state has been overwritten.
\<close>

definition phy_clear_pending :: "'m phy_env \<Rightarrow> 'm phy_world \<Rightarrow> 'm phy_world option" where
  "phy_clear_pending env w = (
     if m_trxStatePending (phy w) \<noteq> IEEE_802_15_4_PHY_IDLE then
       let w = phy_upd (\<lambda>f. f\<lparr>m_trxStatePending := IEEE_802_15_4_PHY_IDLE\<rparr>) w
       in phy_notify env (PlmeSetTRXStateConfirm IEEE_802_15_4_PHY_TRX_OFF) (phy_cancel (m_setTRXState (phy w)) w)
     else Some w)"

definition phy_destroy_packets :: "'m phy_env \<Rightarrow> 'm phy_world \<Rightarrow> 'm phy_world option" where
  "phy_destroy_packets env w = (
     let w = (if fst (m_currentRxPacket (phy w)) \<noteq> None
              then phy_upd (\<lambda>f. f\<lparr>m_currentRxPacket := (fst (m_currentRxPacket f), True)\<rparr>) w else w)
     in if LrWpanPhy_PhyIsBusy (phy w) then
          let w = phy_cancel (m_pdDataRequest (phy w)) (phy_upd (\<lambda>f. f\<lparr>m_currentTxPacket := (None, True)\<rparr>) w)
          in phy_notify env (PdDataConfirm IEEE_802_15_4_PHY_TRX_OFF) w
        else Some w)"

definition phy_switch_off :: "'m phy_env \<Rightarrow> 'm phy_world \<Rightarrow> 'm phy_world option" where
  "phy_switch_off env w = do {
     let w = phy_upd (\<lambda>f. f\<lparr>m_trxState := IEEE_802_15_4_PHY_TRX_OFF\<rparr>) w;
     w \<leftarrow> phy_clear_pending env w;
     phy_destroy_packets env w }"

definition phy_new_spectrum :: "LrWpanPhy \<Rightarrow> LrWpanPhy" where
  "phy_new_spectrum f = (let a = m_phyPIBAttributes f in
     f\<lparr>m_txPsd := (LrWpanPhy_GetNominalTxPowerFromPib (phyTransmitPower a), phyCurrentChannel a), m_noise := phyCurrentChannel a, m_signal := []\<rparr>)"

text \<open>Only page 0 gets past \<open>PageSupported\<close>.\<close>

definition phy_set_page :: "'m phy_env \<Rightarrow> u8 \<Rightarrow> 'm phy_world \<Rightarrow> (LrWpanPhyEnumeration \<times> 'm phy_world) option" where
  "phy_set_page env page w = do {
     ok \<leftarrow> LrWpanPhy_PageSupported page (phy w);
     if \<not> ok then Some (IEEE_802_15_4_PHY_INVALID_PARAMETER, w)
     else if phyCurrentPage (m_phyPIBAttributes (phy w)) \<noteq> page then do {
       w \<leftarrow> phy_switch_off env w;
       let ch = phyCurrentChannel (m_phyPIBAttributes (phy w));
       let w = phy_upd (\<lambda>f. f\<lparr>m_phyOption :=
         (if ch = 0 then IEEE_802_15_4_868MHZ_BPSK else if ch \<le> 10 then IEEE_802_15_4_915MHZ_BPSK
          else if ch \<le> 26 then IEEE_802_15_4_2_4GHZ_OQPSK else m_phyOption f)\<rparr>) w;
       let w = phy_upd (\<lambda>f. phy_new_spectrum (f\<lparr>m_phyPIBAttributes := (m_phyPIBAttributes f)\<lparr>phyCurrentPage := page\<rparr>\<rparr>)) w;
       Some (IEEE_802_15_4_PHY_SUCCESS, w) }
     else Some (IEEE_802_15_4_PHY_SUCCESS, w) }"

text \<open>A channel that is not supported is reported and set.\<close>

definition phy_set_channel :: "'m phy_env \<Rightarrow> u8 \<Rightarrow> 'm phy_world \<Rightarrow> (LrWpanPhyEnumeration \<times> 'm phy_world) option" where
  "phy_set_channel env ch w = do {
     ok \<leftarrow> LrWpanPhy_ChannelSupported ch (phy w);
     let status = (if ok then IEEE_802_15_4_PHY_SUCCESS else IEEE_802_15_4_PHY_INVALID_PARAMETER);
     if phyCurrentChannel (m_phyPIBAttributes (phy w)) \<noteq> ch then do {
       w \<leftarrow> phy_switch_off env w;
       Some (status, phy_upd (\<lambda>f. phy_new_spectrum (f\<lparr>m_phyPIBAttributes := (m_phyPIBAttributes f)\<lparr>phyCurrentChannel := ch\<rparr>\<rparr>)) w) }
     else Some (status, w) }"

definition LrWpanPhy_PlmeSetAttributeRequest ::
  "'m phy_env \<Rightarrow> LrWpanPibAttributeIdentifier \<Rightarrow> LrWpanPhyPibAttributes \<Rightarrow> 'm phy_world \<Rightarrow> 'm phy_world option" where
  "LrWpanPhy_PlmeSetAttributeRequest env i attribute w = do {
     (status, w) \<leftarrow> (case i of
         phyCurrentPage_id \<Rightarrow> phy_set_page env (phyCurrentPage attribute) w
       | phyCurrentChannel_id \<Rightarrow> phy_set_channel env (phyCurrentChannel attribute) w
       | phyChannelsSupported_id \<Rightarrow>
           if phyChannelsSupported attribute = [] \<or> phyChannelsSupported (m_phyPIBAttributes (phy w)) = [] then None
           else if hd (phyChannelsSupported attribute) AND 0xf8000000 \<noteq> 0 then Some (IEEE_802_15_4_PHY_INVALID_PARAMETER, w)
           else Some (IEEE_802_15_4_PHY_SUCCESS, phy_upd (\<lambda>f. f\<lparr>m_phyPIBAttributes := (m_phyPIBAttributes f)
                  \<lparr>phyChannelsSupported := (phyChannelsSupported (m_phyPIBAttributes f))[0 := hd (phyChannelsSupported attribute)]\<rparr>\<rparr>) w)
       | phyTransmitPower_id \<Rightarrow>
           if phyTransmitPower attribute AND 0xC0 \<noteq> 0 then Some (IEEE_802_15_4_PHY_INVALID_PARAMETER, w)
           else Some (IEEE_802_15_4_PHY_SUCCESS, phy_upd (\<lambda>f. let a = (m_phyPIBAttributes f)\<lparr>phyTransmitPower := phyTransmitPower attribute\<rparr>
                  in f\<lparr>m_phyPIBAttributes := a, m_txPsd := (LrWpanPhy_GetNominalTxPowerFromPib (phyTransmitPower a), phyCurrentChannel a)\<rparr>) w)
       | phyCCAMode_id \<Rightarrow>
           if phyCCAMode attribute < 1 \<or> phyCCAMode attribute > 3 then Some (IEEE_802_15_4_PHY_INVALID_PARAMETER, w)
           else Some (IEEE_802_15_4_PHY_SUCCESS, phy_upd (\<lambda>f. f\<lparr>m_phyPIBAttributes := (m_phyPIBAttributes f)
                  \<lparr>phyCCAMode := phyCCAMode attribute\<rparr>\<rparr>) w)
       | _ \<Rightarrow> Some (IEEE_802_15_4_PHY_UNSUPPORTED_ATTRIBUTE, w));
     phy_notify env (PlmeSetAttributeConfirm status i) w }"

subsection \<open>Runs\<close>

text \<open>
  A turn of the simulator, or a request of the MAC or a signal on the channel. The random value
  for a check of interference comes with the step.
\<close>

fun phy_handler :: "'m phy_env \<Rightarrow> rat \<Rightarrow> phy_call \<Rightarrow> 'm phy_world \<Rightarrow> 'm phy_world option" where
  "phy_handler env draw (EndRx s) w = LrWpanPhy_EndRx env draw s w"
| "phy_handler env draw EndTx w = LrWpanPhy_EndTx env w"
| "phy_handler env draw EndCca w = LrWpanPhy_EndCca env w"
| "phy_handler env draw EndEd w = LrWpanPhy_EndEd env w"
| "phy_handler env draw EndSetTRXState w = LrWpanPhy_EndSetTRXState env w"

datatype phy_step = Turn rat | Arrive rat nat | DataRequest u32 packet | TrxRequest LrWpanPhyEnumeration | CcaRequest | CcaCancelled |
  EdRequest | DataCancelled | GetAttribute LrWpanPibAttributeIdentifier | SetAttribute LrWpanPibAttributeIdentifier LrWpanPhyPibAttributes

definition phy_turn :: "'m phy_env \<Rightarrow> rat \<Rightarrow> 'm phy_world \<Rightarrow> 'm phy_world option" where
  "phy_turn env draw w = do {
     (c, s) \<leftarrow> Simulator_ProcessOneEvent (psim w);
     case c of None \<Rightarrow> Some (w\<lparr>psim := s\<rparr>) | Some c \<Rightarrow> phy_handler env draw c (w\<lparr>psim := s\<rparr>) }"

fun phy_do :: "'m phy_env \<Rightarrow> phy_step \<Rightarrow> 'm phy_world \<Rightarrow> 'm phy_world option" where
  "phy_do env (Turn draw) w = phy_turn env draw w"
| "phy_do env (Arrive draw s) w = LrWpanPhy_StartRx env draw s w"
| "phy_do env (DataRequest n p) w = LrWpanPhy_PdDataRequest env n p w"
| "phy_do env (TrxRequest s) w = LrWpanPhy_PlmeSetTRXStateRequest env s w"
| "phy_do env CcaRequest w = LrWpanPhy_PlmeCcaRequest env w"
| "phy_do env CcaCancelled w = Some (LrWpanPhy_CcaCancel w)"
| "phy_do env EdRequest w = LrWpanPhy_PlmeEdRequest env w"
| "phy_do env DataCancelled w = Some (LrWpanPhy_CancelPdDataRequest w)"
| "phy_do env (GetAttribute i) w = LrWpanPhy_PlmeGetAttributeRequest env i w"
| "phy_do env (SetAttribute i a) w = LrWpanPhy_PlmeSetAttributeRequest env i a w"

fun phy_run :: "'m phy_env \<Rightarrow> phy_step list \<Rightarrow> 'm phy_world \<Rightarrow> 'm phy_world option" where
  "phy_run env [] w = Some w"
| "phy_run env (s # ss) w = do { w \<leftarrow> phy_do env s w; phy_run env ss w }"

end
