(* ===== verification/Phy_Service.thy ===== *)
theory Phy_Service
  imports Phy_State
begin

section \<open>The PHY: what it keeps and what it promises\<close>

text \<open>
  The switching of the transceiver: there is at most one switch under way, and it has a target. What
  the MAC may do in a callback is an interface. Then the time a transmission takes, what an
  assessment reports, and where the code leaves a state that it cannot leave again.
\<close>

subsection \<open>Events\<close>

lemma running_iff:
  assumes "sim_ok s"
  shows "\<not> Simulator_IsExpired i s \<longleftrightarrow> (\<exists>k c. i = Some k \<and> (k, c) \<in> pending s)"
proof (cases i)
  case (Some k)
  have "(m_currentTs s, m_currentUid s) < k" if "(k, c) \<in> pending s" for c
    using that assms by (auto simp: sim_ok_def pending_def)
  then show ?thesis
    by (cases k) (force simp: Some Simulator_IsExpired_def list_ex_iff pending_def less_prod_def)
qed (simp add: Simulator_IsExpired_def)

text \<open>The states the transceiver can be in, those it can be switched to, and the invariant.\<close>

definition trx_states :: "LrWpanPhyEnumeration set" where
  "trx_states = {IEEE_802_15_4_PHY_TRX_OFF, IEEE_802_15_4_PHY_RX_ON, IEEE_802_15_4_PHY_TX_ON, IEEE_802_15_4_PHY_BUSY_RX, IEEE_802_15_4_PHY_BUSY_TX}"

definition trx_targets :: "LrWpanPhyEnumeration set" where
  "trx_targets = {IEEE_802_15_4_PHY_RX_ON, IEEE_802_15_4_PHY_TX_ON}"

definition phy_ok :: "'m phy_world \<Rightarrow> bool" where
  "phy_ok w \<longleftrightarrow> sim_ok (psim w) \<and> m_trxState (phy w) \<in> trx_states \<and>
     m_trxStatePending (phy w) \<in> trx_targets \<union> {IEEE_802_15_4_PHY_IDLE, IEEE_802_15_4_PHY_TRX_OFF} \<and>
     (\<forall>k. (k, EndSetTRXState) \<in> pending (psim w) \<longrightarrow> m_setTRXState (phy w) = Some k \<and> m_trxStatePending (phy w) \<in> trx_targets)"

definition phy_quiet :: "'m phy_world \<Rightarrow> bool" where
  "phy_quiet w \<longleftrightarrow> (\<forall>k. (k, EndSetTRXState) \<notin> pending (psim w))"

lemma switch_pending:
  assumes "phy_ok w" and "(k, EndSetTRXState) \<in> pending (psim w)"
  shows "m_setTRXState (phy w) = Some k" and "m_trxStatePending (phy w) \<in> trx_targets"
  using assms unfolding phy_ok_def by blast+

lemma quiet_if_stopped: "phy_ok w \<Longrightarrow> \<not> phy_running (m_setTRXState (phy w)) w \<Longrightarrow> phy_quiet w"
proof -
  assume ok: "phy_ok w" and n: "\<not> phy_running (m_setTRXState (phy w)) w"
  have s: "sim_ok (psim w)" using ok by (simp add: phy_ok_def)
  have "\<nexists>k c. m_setTRXState (phy w) = Some k \<and> (k, c) \<in> pending (psim w)"
    using n unfolding phy_running_def running_iff [OF s] .
  then show "phy_quiet w" using ok unfolding phy_ok_def phy_quiet_def by blast
qed

lemma phy_cancel_keeps:
  assumes "phy_ok w"
  shows "phy_ok (phy_cancel i w)" and "phy_quiet w \<Longrightarrow> phy_quiet (phy_cancel i w)" and "i = m_setTRXState (phy w) \<Longrightarrow> phy_quiet (phy_cancel i w)"
  using assms Cancel_spec [of "psim w" i] by (auto simp: phy_ok_def phy_quiet_def phy_cancel_def)

lemma phy_sched_keeps:
  assumes "phy_ok w" and "phy_sched d c f w = Some v" and "c \<noteq> EndSetTRXState"
    and "\<And>k p. m_trxState (f k p) = m_trxState p \<and> m_trxStatePending (f k p) = m_trxStatePending p \<and> m_setTRXState (f k p) = m_setTRXState p"
  shows "phy_ok v" and "phy_quiet w \<Longrightarrow> phy_quiet v"
proof -
  have d: "0 \<le> d" using assms(2) by (auto simp: phy_sched_def Simulator_Schedule_def split: if_splits)
  have ok: "sim_ok (psim w)" using assms(1) by (simp add: phy_ok_def)
  from Schedule_spec [OF ok d, of c] assms(2-4) show "phy_ok v" "phy_quiet w \<Longrightarrow> phy_quiet v"
    using assms(1) by (auto simp: phy_sched_def phy_ok_def phy_quiet_def split: bind_splits)
qed

lemma turnaround_keeps:
  assumes "phy_ok w" and "phy_quiet w" and "s \<in> trx_targets" and "phy_turnaround s w = Some v"
  shows "phy_ok v"
proof -
  let ?w = "phy_upd (\<lambda>f. f\<lparr>m_trxStatePending := s\<rparr>) w"
  obtain rate where rate: "phy_sched (seconds_of (of_nat phyTurnaroundTime / rate)) EndSetTRXState (\<lambda>k f. f\<lparr>m_setTRXState := k\<rparr>) ?w = Some v"
    using assms(4) by (auto simp: phy_turnaround_def Let_def split: bind_splits)
  have ok: "sim_ok (psim ?w)" using assms(1) by (simp add: phy_ok_def phy_upd_def)
  have d: "0 \<le> seconds_of (of_nat phyTurnaroundTime / rate)"
    using rate by (auto simp: phy_sched_def Simulator_Schedule_def split: if_splits)
  from Schedule_spec [OF ok d, of EndSetTRXState] rate show ?thesis
    using assms(1-3) by (auto simp: phy_sched_def phy_ok_def phy_quiet_def phy_upd_def split: bind_splits)
qed

lemma phy_upd_keeps:
  assumes "phy_ok w" and "m_trxState (g (phy w)) = m_trxState (phy w)" and "m_trxStatePending (g (phy w)) = m_trxStatePending (phy w)"
    and "m_setTRXState (g (phy w)) = m_setTRXState (phy w)"
  shows "phy_ok (phy_upd g w)" and "phy_quiet w \<Longrightarrow> phy_quiet (phy_upd g w)"
  using assms by (simp_all add: phy_ok_def phy_quiet_def phy_upd_def)

lemma phy_set_state:
  assumes "phy_ok w" and "s \<in> trx_states"
  shows "phy_ok (phy_upd (LrWpanPhy_ChangeTrxState s) w)" and "phy_quiet w \<Longrightarrow> phy_quiet (phy_upd (LrWpanPhy_ChangeTrxState s) w)"
  using assms by (simp_all add: phy_ok_def phy_quiet_def phy_upd_def LrWpanPhy_ChangeTrxState_def)

lemma trx_states_simps [simp]:
  "IEEE_802_15_4_PHY_TRX_OFF \<in> trx_states" "IEEE_802_15_4_PHY_RX_ON \<in> trx_states" "IEEE_802_15_4_PHY_TX_ON \<in> trx_states"
  "IEEE_802_15_4_PHY_BUSY_RX \<in> trx_states" "IEEE_802_15_4_PHY_BUSY_TX \<in> trx_states"
  "IEEE_802_15_4_PHY_RX_ON \<in> trx_targets" "IEEE_802_15_4_PHY_TX_ON \<in> trx_targets"
  by (simp_all add: trx_states_def trx_targets_def)

lemma phy_settle:
  assumes "phy_ok w" and "phy_quiet w" and "s (phy w) \<in> trx_states"
  shows "phy_ok (phy_upd (\<lambda>f. (LrWpanPhy_ChangeTrxState (s f) f)\<lparr>m_trxStatePending := IEEE_802_15_4_PHY_IDLE\<rparr>) w)"
  using assms by (simp add: phy_ok_def phy_quiet_def phy_upd_def LrWpanPhy_ChangeTrxState_def)

lemma phy_set_pending:
  assumes "phy_ok w" and "phy_quiet w" and "s \<in> trx_targets \<union> {IEEE_802_15_4_PHY_IDLE, IEEE_802_15_4_PHY_TRX_OFF}"
  shows "phy_ok (phy_upd (\<lambda>f. f\<lparr>m_trxStatePending := s\<rparr>) w) \<and> phy_quiet (phy_upd (\<lambda>f. f\<lparr>m_trxStatePending := s\<rparr>) w)"
  using assms by (simp add: phy_ok_def phy_quiet_def phy_upd_def)

lemma new_off: "LrWpanPhy_new mem = Some f \<Longrightarrow> m_trxState f = IEEE_802_15_4_PHY_TRX_OFF \<and> m_trxStatePending f = IEEE_802_15_4_PHY_IDLE"
  by (auto simp: LrWpanPhy_new_def LrWpanPhy_SetPhyOption_def LrWpanPhy_ChangeTrxState_def Let_def)

lemma phy_ok_new: "LrWpanPhy_new mem = Some (phy w) \<Longrightarrow> psim w = Simulator_new \<Longrightarrow> phy_ok w"
  using new_off [of mem "phy w"] by (simp add: phy_ok_def sim_ok_new pending_def) (simp add: Simulator_new_def)

text \<open>Reception touches neither the target nor the switch.\<close>

lemma CheckInterference_keeps:
  assumes "phy_ok w" and "LrWpanPhy_CheckInterference env draw w = Some v"
  shows "phy_ok v"
  using assms by (auto simp: LrWpanPhy_CheckInterference_def Let_def phy_ok_def phy_upd_def split: if_splits option.splits bind_splits)

lemma ed_progress_keeps: "phy_ok w \<Longrightarrow> phy_ok (phy_ed_progress env w)"
  by (simp add: phy_ed_progress_def phy_upd_keeps phy_ed_update_def)

lemma peak_keeps: "phy_ok w \<Longrightarrow> phy_ok (phy_upd (phy_peak env) w)"
  by (simp add: phy_ok_def phy_upd_def phy_peak_def Let_def)

lemma StartRx_keeps:
  assumes "phy_ok w" and "LrWpanPhy_StartRx env draw s w = Some v"
  shows "phy_ok v"
proof -
  let ?e = "phy_ed_progress env w"
  have e: "phy_ok ?e" using ed_progress_keeps [OF assms(1)] .
  have add: "phy_ok (phy_upd (\<lambda>f. f\<lparr>m_signal := List.insert s (m_signal f)\<rparr>) x)" if "phy_ok x" for x
    using that by (simp add: phy_upd_keeps)
  have begin_rx: "phy_ok (phy_upd (\<lambda>f. (LrWpanPhy_ChangeTrxState IEEE_802_15_4_PHY_BUSY_RX f)\<lparr>m_currentRxPacket := (Some s, False), m_rxLastUpdate := t\<rparr>) x)"
    if "phy_ok x" for x t
    using that by (simp add: phy_ok_def phy_upd_def LrWpanPhy_ChangeTrxState_def)
  obtain u where u: "phy_ok u" "phy_sched (sig_duration (signals (if phy_running (m_ccaRequest (phy u)) u then phy_upd (phy_peak env) u else u) s) - 236)
      (EndRx s) (\<lambda>k f. f) (if phy_running (m_ccaRequest (phy u)) u then phy_upd (phy_peak env) u else u) = Some v"
    using assms(2) add [OF e] begin_rx [OF add [OF e]] CheckInterference_keeps [OF e] add
    unfolding LrWpanPhy_StartRx_def Let_def by (fastforce split: if_splits bind_splits)
  show ?thesis
    by (rule phy_sched_keeps(1) [OF _ u(2)]) (use u(1) peak_keeps in auto)
qed

subsection \<open>The MAC as the user of the PHY\<close>

text \<open>
  In a callback the MAC may use the PHY again, as long as the invariant holds afterwards; on the result of
  a measurement, or a busy channel, it does not start a switch at once.
\<close>

fun measurement_over :: "phy_out \<Rightarrow> bool" where
  "measurement_over (PlmeCcaConfirm s) \<longleftrightarrow> s = IEEE_802_15_4_PHY_BUSY"
| "measurement_over (PlmeEdConfirm s l) \<longleftrightarrow> True"
| "measurement_over out \<longleftrightarrow> False"

locale phy_user =
  fixes env :: "'m phy_env"
  assumes cb_keeps: "phy_ok w \<Longrightarrow> env_cb env out w = Some v \<Longrightarrow> phy_ok v"
    and cb_quiet: "phy_ok w \<Longrightarrow> phy_quiet w \<Longrightarrow> measurement_over out \<Longrightarrow> env_cb env out w = Some v \<Longrightarrow> phy_quiet v"
begin

lemma notify_keeps:
  assumes "phy_ok w" and "phy_notify env out w = Some v"
  shows "phy_ok v" and "phy_quiet w \<Longrightarrow> measurement_over out \<Longrightarrow> phy_quiet v"
  using assms cb_keeps [OF assms(1)] cb_quiet [OF assms(1)] by (auto simp: phy_notify_def split: if_splits)

lemma CancelEd_keeps:
  assumes "phy_ok w" and "LrWpanPhy_CancelEd env s w = Some v"
  shows "phy_ok v" and "phy_quiet w \<Longrightarrow> phy_quiet v"
  using assms notify_keeps [OF phy_cancel_keeps(1) [OF assms(1)]] phy_cancel_keeps(2) [OF assms(1)]
  by (auto simp: LrWpanPhy_CancelEd_def split: if_splits)

lemma off_keeps:
  assumes "phy_ok w" and "phy_quiet w" and "phy_request_off env w = Some v"
  shows "phy_ok v"
proof -
  obtain u where u: "LrWpanPhy_CancelEd env IEEE_802_15_4_PHY_TRX_OFF w = Some u" using assms(3) by (auto simp: phy_request_off_def split: bind_splits)
  note k = CancelEd_keeps [OF assms(1) u]
  have "phy_ok (phy_upd (\<lambda>f. f\<lparr>m_trxStatePending := IEEE_802_15_4_PHY_TRX_OFF\<rparr>) u)"
    "phy_ok (phy_upd (LrWpanPhy_ChangeTrxState IEEE_802_15_4_PHY_TRX_OFF) u)"
    using phy_set_pending [OF k(1) k(2) [OF assms(2)]] phy_set_state(1) [OF k(1)] by simp_all
  then show ?thesis using assms(3) u notify_keeps(1) by (auto simp: phy_request_off_def split: if_splits)
qed

lemma terminate_keeps: "phy_ok w \<Longrightarrow> phy_ok (phy_terminate_rx w) \<and> (phy_quiet w \<longrightarrow> phy_quiet (phy_terminate_rx w))"
  by (simp add: phy_terminate_rx_def phy_upd_keeps)

lemma tx_keeps:
  assumes "phy_ok w" and "phy_quiet w" and "phy_request_tx env w = Some v"
  shows "phy_ok v"
proof -
  obtain u where u: "LrWpanPhy_CancelEd env IEEE_802_15_4_PHY_TX_ON w = Some u" using assms(3) by (auto simp: phy_request_tx_def split: bind_splits)
  have k: "phy_ok u" "phy_quiet u" using CancelEd_keeps [OF assms(1) u] assms(2) by auto
  let ?t = "phy_terminate_rx u"
  have t: "phy_ok ?t" "phy_quiet ?t" using terminate_keeps [OF k(1)] k(2) by auto
  have turn: "phy_ok v" if "(if phy_running (m_ccaRequest (phy ?t)) ?t
      then phy_notify env (PlmeCcaConfirm IEEE_802_15_4_PHY_BUSY) (phy_cancel (m_ccaRequest (phy ?t)) ?t) else Some ?t) = Some x"
    and "phy_turnaround IEEE_802_15_4_PHY_TX_ON x = Some v" for x
  proof -
    note c = phy_cancel_keeps(1,2) [OF t(1), of "m_ccaRequest (phy ?t)"]
    have "phy_ok x" "phy_quiet x"
      using that(1) t notify_keeps [OF c(1)] c(2) by (auto split: if_splits)
    then show ?thesis using turnaround_keeps that(2) by (auto simp: trx_targets_def)
  qed
  have "phy_ok (phy_upd (LrWpanPhy_ChangeTrxState IEEE_802_15_4_PHY_TX_ON) u)"
    using phy_set_state(1) [OF k(1)] by simp
  then show ?thesis
    using assms(3) u k notify_keeps(1) turn unfolding phy_request_tx_def Let_def by (auto split: if_splits bind_splits)
qed

lemma force_off_keeps:
  assumes "phy_ok w" and "phy_quiet w" and "phy_request_force_off env w = Some v"
  shows "phy_ok v"
proof -
  let ?t = "phy_terminate_rx w"
  let ?u = "if m_trxState (phy ?t) = IEEE_802_15_4_PHY_BUSY_TX
    then phy_upd (\<lambda>f. f\<lparr>m_currentTxPacket := (fst (m_currentTxPacket f), True)\<rparr>) ?t else ?t"
  have t: "phy_ok ?t" "phy_quiet ?t" using terminate_keeps [OF assms(1)] assms(2) by auto
  then have "phy_ok ?u" "phy_quiet ?u" by (simp_all add: phy_upd_keeps)
  then have "phy_ok (phy_upd (\<lambda>f. (LrWpanPhy_ChangeTrxState IEEE_802_15_4_PHY_TRX_OFF f)\<lparr>m_trxStatePending := IEEE_802_15_4_PHY_IDLE\<rparr>) ?u)"
    by (intro phy_settle) simp_all
  then show ?thesis
    using assms(1,3) notify_keeps(1) unfolding phy_request_force_off_def Let_def by (auto split: if_splits)
qed

lemma rx_keeps:
  assumes "phy_ok w" and "phy_quiet w" and "phy_request_rx env w = Some v"
  shows "phy_ok v"
  using assms turnaround_keeps [OF assms(1,2), of IEEE_802_15_4_PHY_RX_ON] notify_keeps(1) [OF assms(1)]
  by (auto simp: phy_request_rx_def trx_targets_def split: if_splits)

lemma PlmeSetTRXStateRequest_keeps:
  assumes "phy_ok w" and "LrWpanPhy_PlmeSetTRXStateRequest env state w = Some v"
  shows "phy_ok v"
proof -
  let ?c = "if phy_running (m_setTRXState (phy w)) w then phy_cancel (m_setTRXState (phy w)) w else w"
  let ?u = "phy_upd (\<lambda>f. f\<lparr>m_trxStatePending := IEEE_802_15_4_PHY_IDLE\<rparr>) ?c"
  have c: "phy_ok ?c" "phy_quiet ?c"
    using phy_cancel_keeps [OF assms(1), of "m_setTRXState (phy w)"] quiet_if_stopped [OF assms(1)] assms(1) by auto
  have u: "phy_ok ?u" "phy_quiet ?u" using phy_set_pending [OF c, of IEEE_802_15_4_PHY_IDLE] by simp_all
  have "phy_ok (phy_upd (\<lambda>f. f\<lparr>m_trxStatePending := state\<rparr>) ?u)" if "state = IEEE_802_15_4_PHY_RX_ON \<or> state = IEEE_802_15_4_PHY_TRX_OFF"
    using phy_set_pending [OF u, of state] that by (auto simp: trx_targets_def)
  then show ?thesis
    using assms notify_keeps(1) [OF u(1)] off_keeps [OF u] tx_keeps [OF u] force_off_keeps [OF u] rx_keeps [OF u]
    unfolding LrWpanPhy_PlmeSetTRXStateRequest_def Let_def by (auto split: if_splits)
qed

lemma EndSetTRXState_keeps:
  assumes "phy_ok w" and "phy_quiet w" and "LrWpanPhy_EndSetTRXState env w = Some v"
  shows "phy_ok v"
proof -
  have "m_trxStatePending (phy w) \<in> trx_targets" using assms(3) by (auto simp: LrWpanPhy_EndSetTRXState_def trx_targets_def split: if_splits)
  then have "phy_ok (phy_upd (\<lambda>f. (LrWpanPhy_ChangeTrxState (m_trxStatePending f) f)\<lparr>m_trxStatePending := IEEE_802_15_4_PHY_IDLE\<rparr>) w)"
    using phy_settle [OF assms(1,2), of m_trxStatePending] by (auto simp: trx_targets_def)
  then show ?thesis using assms(3) notify_keeps(1) by (auto simp: LrWpanPhy_EndSetTRXState_def Let_def split: if_splits)
qed

lemma apply_pending_keeps:
  assumes "phy_ok w" and "phy_ok (idle w)" and "phy_apply_pending env idle w = Some v"
  shows "phy_ok v"
proof -
  have "phy_ok (phy_upd (\<lambda>f. (LrWpanPhy_ChangeTrxState (m_trxStatePending f) f)\<lparr>m_trxStatePending := IEEE_802_15_4_PHY_IDLE\<rparr>) w)"
    if "m_trxStatePending (phy w) \<noteq> IEEE_802_15_4_PHY_IDLE" "\<not> phy_running (m_setTRXState (phy w)) w"
    using that assms(1) by (intro phy_settle quiet_if_stopped) (auto simp: phy_ok_def trx_targets_def)
  then show ?thesis
    using assms notify_keeps(1) unfolding phy_apply_pending_def by (auto split: if_splits)
qed

lemma PdDataRequest_keeps:
  assumes "phy_ok w" and "LrWpanPhy_PdDataRequest env n p w = Some v"
  shows "phy_ok v"
proof -
  let ?u = "phy_upd (\<lambda>f. f\<lparr>m_currentTxPacket := (Some p, False)\<rparr>) w"
  have u: "phy_ok ?u" using assms(1) by (simp add: phy_upd_keeps)
  have "phy_ok (phy_upd (LrWpanPhy_ChangeTrxState IEEE_802_15_4_PHY_BUSY_TX) y)"
    if "(if env_connected env ChannelCb then env_cb env (StartTx p d) ?u else None) = Some x"
      and "phy_sched d EndTx (\<lambda>k f. f\<lparr>m_pdDataRequest := k\<rparr>) x = Some y" for d x y
    using that cb_keeps [OF u] phy_sched_keeps(1) [OF _ that(2)] phy_set_state(1) [of y] by (auto split: if_splits)
  then show ?thesis
    using assms notify_keeps(1) unfolding LrWpanPhy_PdDataRequest_def Let_def by (auto split: if_splits bind_splits)
qed

lemma EndTx_keeps:
  assumes "phy_ok w" and "LrWpanPhy_EndTx env w = Some v"
  shows "phy_ok v"
proof (cases "m_trxState (phy w) \<noteq> IEEE_802_15_4_PHY_BUSY_TX \<and> m_trxState (phy w) \<noteq> IEEE_802_15_4_PHY_TRX_OFF")
  case False
  let ?idle = "phy_upd (\<lambda>f. if m_trxState f \<noteq> IEEE_802_15_4_PHY_TRX_OFF then LrWpanPhy_ChangeTrxState IEEE_802_15_4_PHY_TX_ON f else f)"
  obtain x s where x: "phy_notify env (PdDataConfirm s) w = Some x" "phy_apply_pending env ?idle (phy_upd (\<lambda>f. f\<lparr>m_currentTxPacket := (None, False)\<rparr>) x) = Some v"
    using assms(2) False unfolding LrWpanPhy_EndTx_def Let_def by (auto split: if_splits bind_splits)
  let ?x = "phy_upd (\<lambda>f. f\<lparr>m_currentTxPacket := (None, False)\<rparr>) x"
  have k: "phy_ok ?x" using notify_keeps(1) [OF assms(1) x(1)] by (simp add: phy_upd_keeps)
  have "phy_ok (?idle ?x)" using k by (simp add: phy_ok_def phy_upd_def LrWpanPhy_ChangeTrxState_def)
  from apply_pending_keeps [OF k this x(2)] show ?thesis .
qed (use assms in \<open>simp add: LrWpanPhy_EndTx_def\<close>)

lemma EndRx_keeps:
  assumes "phy_ok w" and "LrWpanPhy_EndRx env draw s w = Some v"
  shows "phy_ok v"
proof -
  have drop: "phy_ok (phy_upd (\<lambda>f. f\<lparr>m_signal := removeAll s (m_signal f)\<rparr>) x)" if "phy_ok x" for x
    using that by (simp add: phy_upd_keeps)
  have done_rx: "phy_ok v" if x: "phy_ok x" "phy_rx_done env s x = Some v" for x
  proof -
    let ?c = "if env_corrupt env (sig_packet (signals x s)) then phy_upd (\<lambda>f. f\<lparr>m_currentRxPacket := (fst (m_currentRxPacket f), True)\<rparr>) x else x"
    have c: "phy_ok ?c" using x(1) by (simp add: phy_upd_keeps)
    obtain y where y: "phy_ok y" "(let w = phy_upd (\<lambda>f. f\<lparr>m_currentRxPacket := (None, True)\<rparr>) y in
        if \<not> m_isRxCanceled (phy w) then phy_apply_pending env (phy_upd (LrWpanPhy_ChangeTrxState IEEE_802_15_4_PHY_RX_ON)) w
        else Some (phy_upd (\<lambda>f. f\<lparr>m_isRxCanceled := False\<rparr>) w)) = Some v"
      using x(2) c notify_keeps(1) [OF c] unfolding phy_rx_done_def Let_def by (fastforce split: if_splits bind_splits)
    let ?y = "phy_upd (\<lambda>f. f\<lparr>m_currentRxPacket := (None, True)\<rparr>) y"
    have k: "phy_ok ?y" using y(1) by (simp add: phy_upd_keeps)
    then have "phy_ok (phy_upd (LrWpanPhy_ChangeTrxState IEEE_802_15_4_PHY_RX_ON) ?y)" "phy_ok (phy_upd (\<lambda>f. f\<lparr>m_isRxCanceled := False\<rparr>) ?y)"
      by (simp_all add: phy_set_state phy_upd_keeps)
    then show ?thesis using y(2) apply_pending_keeps [OF k] by (auto simp: Let_def split: if_splits)
  qed
  show ?thesis
    using assms(2) ed_progress_keeps [OF assms(1)] CheckInterference_keeps drop done_rx
    unfolding LrWpanPhy_EndRx_def Let_def by (fastforce split: if_splits bind_splits)
qed

lemma clear_pending_keeps:
  assumes "phy_ok w" and "phy_clear_pending env w = Some v"
  shows "phy_ok v"
proof -
  let ?u = "phy_upd (\<lambda>f. f\<lparr>m_trxStatePending := IEEE_802_15_4_PHY_IDLE\<rparr>) w"
  have "phy_ok (phy_cancel (m_setTRXState (phy ?u)) ?u)"
    using assms(1) Cancel_spec [of "psim w" "m_setTRXState (phy w)"] by (auto simp: phy_ok_def phy_upd_def phy_cancel_def)
  from notify_keeps(1) [OF this] show ?thesis
    using assms unfolding phy_clear_pending_def Let_def by (simp split: if_splits)
qed

lemma destroy_packets_keeps:
  assumes "phy_ok w" and "phy_destroy_packets env w = Some v"
  shows "phy_ok v"
proof -
  define x where "x = (if fst (m_currentRxPacket (phy w)) \<noteq> None
    then phy_upd (\<lambda>f. f\<lparr>m_currentRxPacket := (fst (m_currentRxPacket f), True)\<rparr>) w else w)"
  let ?y = "phy_upd (\<lambda>f. f\<lparr>m_currentTxPacket := (None, True)\<rparr>) x"
  have k: "phy_ok x" using assms(1) by (simp add: x_def phy_upd_keeps)
  then have y: "phy_ok (phy_cancel (m_pdDataRequest (phy x)) ?y)"
    by (intro phy_cancel_keeps(1) phy_upd_keeps(1)) simp_all
  have e: "(if LrWpanPhy_PhyIsBusy (phy x) then phy_notify env (PdDataConfirm IEEE_802_15_4_PHY_TRX_OFF) (phy_cancel (m_pdDataRequest (phy x)) ?y)
      else Some x) = Some v"
    using assms(2) unfolding phy_destroy_packets_def Let_def x_def [symmetric] .
  show ?thesis
  proof (cases "LrWpanPhy_PhyIsBusy (phy x)")
    case True
    from notify_keeps(1) [OF y e [unfolded if_P [OF True]]] show ?thesis .
  qed (use e k in simp)
qed

lemma switch_off_keeps:
  assumes "phy_ok w" and "phy_switch_off env w = Some v"
  shows "phy_ok v"
proof -
  let ?x = "phy_upd (\<lambda>f. f\<lparr>m_trxState := IEEE_802_15_4_PHY_TRX_OFF\<rparr>) w"
  have x: "phy_ok ?x" using assms(1) by (simp add: phy_ok_def phy_upd_def)
  obtain u where u: "phy_clear_pending env ?x = Some u" "phy_destroy_packets env u = Some v"
    using assms(2) unfolding phy_switch_off_def Let_def by (auto split: bind_splits)
  show ?thesis by (rule destroy_packets_keeps [OF clear_pending_keeps [OF x u(1)] u(2)])
qed

lemma set_page_channel_keep:
  assumes "phy_ok w"
  shows "phy_set_page env page w = Some (s, v) \<Longrightarrow> phy_ok v" and "phy_set_channel env ch w = Some (s, v) \<Longrightarrow> phy_ok v"
proof -
  have spectrum: "phy_ok (phy_upd (\<lambda>f. phy_new_spectrum (f\<lparr>m_phyPIBAttributes := g f\<rparr>)) x)" if "phy_ok x" for x g
    using that by (simp add: phy_ok_def phy_upd_def phy_new_spectrum_def Let_def)
  have option: "phy_ok (phy_upd (\<lambda>f. f\<lparr>m_phyOption := g f\<rparr>) x)" if "phy_ok x" for x g
    using that by (simp add: phy_upd_keeps)
  show "phy_set_page env page w = Some (s, v) \<Longrightarrow> phy_ok v"
    using assms switch_off_keeps [OF assms] spectrum [OF option] unfolding phy_set_page_def Let_def by (auto split: if_splits bind_splits)
  show "phy_set_channel env ch w = Some (s, v) \<Longrightarrow> phy_ok v"
    using assms switch_off_keeps [OF assms] spectrum unfolding phy_set_channel_def Let_def by (auto split: if_splits bind_splits)
qed

lemma PlmeSetAttributeRequest_keeps:
  assumes "phy_ok w" and "LrWpanPhy_PlmeSetAttributeRequest env i a w = Some v"
  shows "phy_ok v"
proof -
  have upd: "phy_ok (phy_upd (\<lambda>f. f\<lparr>m_phyPIBAttributes := g f\<rparr>) w)" "phy_ok (phy_upd (\<lambda>f. f\<lparr>m_phyPIBAttributes := g f, m_txPsd := h f\<rparr>) w)" for g h
    using assms(1) by (simp_all add: phy_upd_keeps)
  obtain s u where u: "phy_notify env (PlmeSetAttributeConfirm s i) u = Some v" "phy_ok u"
  proof (cases i)
    case phyCurrentPage_id
    then obtain s u where "phy_set_page env (phyCurrentPage a) w = Some (s, u)" "phy_notify env (PlmeSetAttributeConfirm s i) u = Some v"
      using assms(2) by (auto simp: LrWpanPhy_PlmeSetAttributeRequest_def split: bind_splits)
    then show ?thesis using that set_page_channel_keep(1) [OF assms(1)] by blast
  next
    case phyCurrentChannel_id
    then obtain s u where "phy_set_channel env (phyCurrentChannel a) w = Some (s, u)" "phy_notify env (PlmeSetAttributeConfirm s i) u = Some v"
      using assms(2) by (auto simp: LrWpanPhy_PlmeSetAttributeRequest_def split: bind_splits)
    then show ?thesis using that set_page_channel_keep(2) [OF assms(1)] by blast
  qed (use assms upd that in \<open>simp_all add: LrWpanPhy_PlmeSetAttributeRequest_def Let_def split: if_splits\<close>)
  from notify_keeps(1) [OF u(2,1)] show ?thesis .
qed

lemma measurements_keep:
  assumes "phy_ok w"
  shows "LrWpanPhy_PlmeCcaRequest env w = Some v \<Longrightarrow> phy_ok v" and "LrWpanPhy_EndCca env w = Some v \<Longrightarrow> phy_ok v"
    and "LrWpanPhy_PlmeEdRequest env w = Some v \<Longrightarrow> phy_ok v" and "LrWpanPhy_EndEd env w = Some v \<Longrightarrow> phy_ok v"
proof -
  have sched: "phy_ok y" if "phy_ok x" "phy_sched d c f x = Some y" "c \<noteq> EndSetTRXState"
    "\<And>k p. m_trxState (f k p) = m_trxState p \<and> m_trxStatePending (f k p) = m_trxStatePending p \<and> m_setTRXState (f k p) = m_setTRXState p" for x y d c f
    using phy_sched_keeps(1) [OF that] .
  have peak: "phy_ok (phy_upd (\<lambda>f. f\<lparr>m_ccaPeakPower := 0\<rparr>) w)" "phy_ok (phy_upd (\<lambda>f. f\<lparr>m_edPower := g f\<rparr>) w)" for g
    using assms by (simp_all add: phy_upd_keeps)
  show "LrWpanPhy_PlmeCcaRequest env w = Some v \<Longrightarrow> phy_ok v"
    using assms notify_keeps(1) sched [OF peak(1)] unfolding LrWpanPhy_PlmeCcaRequest_def Let_def by (auto split: if_splits bind_splits)
  show "LrWpanPhy_EndCca env w = Some v \<Longrightarrow> phy_ok v"
    using notify_keeps(1) [OF peak_keeps [OF assms]] unfolding LrWpanPhy_EndCca_def Let_def by (auto split: bind_splits)
  show "LrWpanPhy_PlmeEdRequest env w = Some v \<Longrightarrow> phy_ok v"
    using assms notify_keeps(1) sched [OF peak(2)] unfolding LrWpanPhy_PlmeEdRequest_def Let_def by (auto split: if_splits bind_splits)
  show "LrWpanPhy_EndEd env w = Some v \<Longrightarrow> phy_ok v"
    unfolding LrWpanPhy_EndEd_def Let_def by (rule notify_keeps(1) [OF peak(2)])
qed

text \<open>A turn takes the event out of the queue first.\<close>

lemma turn_keeps:
  assumes "phy_ok w" and "phy_turn env draw w = Some v"
  shows "phy_ok v"
proof -
  have ok: "sim_ok (psim w)" using assms(1) by (simp add: phy_ok_def)
  obtain r s where r: "Simulator_ProcessOneEvent (psim w) = Some (r, s)"
    "(case r of None \<Rightarrow> Some (w\<lparr>psim := s\<rparr>) | Some c \<Rightarrow> phy_handler env draw c (w\<lparr>psim := s\<rparr>)) = Some v"
    using assms(2) by (auto simp: phy_turn_def split: bind_splits)
  note p = ProcessOneEvent_spec [OF ok r(1)]
  have k: "phy_ok (w\<lparr>psim := s\<rparr>)" using assms(1) p(1,3) by (auto simp: phy_ok_def)
  have q: "phy_quiet (w\<lparr>psim := s\<rparr>)" if e: "r = Some EndSetTRXState"
  proof -
    obtain k where k: "(k, EndSetTRXState) \<in> pending (psim w)" "pending s = pending (psim w) - {(k, EndSetTRXState)}" using p(4) [OF e] by blast
    have "x = k" if "(x, EndSetTRXState) \<in> pending (psim w)" for x
      using switch_pending(1) [OF assms(1) that] switch_pending(1) [OF assms(1) k(1)] by simp
    then show ?thesis using k(2) by (auto simp: phy_quiet_def)
  qed
  show ?thesis
  proof (cases r)
    case (Some c)
    then have h: "phy_handler env draw c (w\<lparr>psim := s\<rparr>) = Some v" using r(2) by simp
    show ?thesis
    proof (cases c)
      case (EndRx n)
      with h show ?thesis by (intro EndRx_keeps [OF k]) simp
    next
      case EndTx
      with h show ?thesis by (intro EndTx_keeps [OF k]) simp
    next
      case EndCca
      with h show ?thesis by (intro measurements_keep(2) [OF k]) simp
    next
      case EndEd
      with h show ?thesis by (intro measurements_keep(4) [OF k]) simp
    next
      case EndSetTRXState
      with h q show ?thesis by (intro EndSetTRXState_keeps [OF k]) (simp_all add: Some)
    qed
  qed (use r(2) k in simp)
qed

lemma do_keeps:
  assumes "phy_ok w" and "phy_do env s w = Some v"
  shows "phy_ok v"
proof (cases s)
  case CcaCancelled
  then show ?thesis using assms(2) phy_cancel_keeps(1) [OF assms(1)] by (auto simp: LrWpanPhy_CcaCancel_def)
next
  case DataCancelled
  then show ?thesis
    using assms phy_cancel_keeps(1) [OF assms(1)] by (auto simp: LrWpanPhy_CancelPdDataRequest_def split: if_splits)
next
  case (GetAttribute i)
  then show ?thesis using assms(2) notify_keeps(1) [OF assms(1)] by (auto simp: LrWpanPhy_PlmeGetAttributeRequest_def)
qed (use assms(2) turn_keeps [OF assms(1)] StartRx_keeps [OF assms(1)] PdDataRequest_keeps [OF assms(1)]
    PlmeSetTRXStateRequest_keeps [OF assms(1)] measurements_keep(1,3) [OF assms(1)] PlmeSetAttributeRequest_keeps [OF assms(1)] in simp_all)

lemma run_keeps: "phy_run env ss w = Some v \<Longrightarrow> phy_ok w \<Longrightarrow> phy_ok v"
  by (induction ss arbitrary: w) (auto split: bind_splits dest: do_keeps)

text \<open>When a switch ends, it has a target: the check of \<open>EndSetTRXState\<close> never fails.\<close>

lemma switch_has_target:
  assumes "phy_ok w" and "Simulator_ProcessOneEvent (psim w) = Some (Some EndSetTRXState, s)"
  shows "\<exists>t \<in> trx_targets. m_trxStatePending (phy w) = t \<and> phy_turn env draw w = phy_notify env (PlmeSetTRXStateConfirm t)
    (phy_upd (\<lambda>f. f\<lparr>m_trxState := t, m_trxStatePending := IEEE_802_15_4_PHY_IDLE\<rparr>) (w\<lparr>psim := s\<rparr>))"
proof -
  have ok: "sim_ok (psim w)" using assms(1) by (simp add: phy_ok_def)
  obtain k where "(k, EndSetTRXState) \<in> pending (psim w)" using ProcessOneEvent_spec(4) [OF ok assms(2) refl] by blast
  from switch_pending(2) [OF assms(1) this] show ?thesis
    using assms(2) by (auto simp: phy_turn_def LrWpanPhy_EndSetTRXState_def trx_targets_def phy_upd_def LrWpanPhy_ChangeTrxState_def Let_def)
qed

end

subsection \<open>A MAC that only listens\<close>

definition recording :: "'m phy_env \<Rightarrow> 'm phy_env" where
  "recording base = base\<lparr>env_connected := \<lambda>c. True, env_cb := \<lambda>out w. Some (w\<lparr>pouts := pouts w @ [out]\<rparr>)\<rparr>"

lemma recorded: "phy_notify (recording base) out w = Some (w\<lparr>pouts := pouts w @ [out]\<rparr>)"
  by (simp add: phy_notify_def recording_def)

lemma recorded_keeps: "phy_ok (w\<lparr>pouts := p\<rparr>) \<longleftrightarrow> phy_ok w" "phy_quiet (w\<lparr>pouts := p\<rparr>) \<longleftrightarrow> phy_quiet w"
  by (simp_all add: phy_ok_def phy_quiet_def)

interpretation recorder: phy_user "recording base"
  by unfold_locales (auto simp: recording_def recorded_keeps)

subsection \<open>Times\<close>

lemma seconds_whole: "x * 10 ^ 9 = of_int k \<Longrightarrow> seconds_of x = k"
  by (simp add: seconds_of_def floor_eq_iff)

lemma tx_time:
  assumes "m_phyOption f = IEEE_802_15_4_2_4GHZ_OQPSK"
  shows "LrWpanPhy_CalculateTxTime p f = Some (192000 + 32000 * int (length p))"
proof -
  have "seconds_of (12 / 62500) = 192000" by (rule seconds_whole) simp
  moreover have "seconds_of (of_nat (length p) * 8 / 250000) = 32000 * int (length p)" by (rule seconds_whole) simp
  ultimately show ?thesis
    using assms by (simp add: LrWpanPhy_CalculateTxTime_def LrWpanPhy_GetPpduHeaderTxTime_def LrWpanPhy_GetDataOrSymbolRate_def)
qed

lemma Schedule_first:
  assumes "0 \<le> d" and "\<forall>e \<in> set (m_events s). m_currentTs s + nat d < fst (ev_key e)"
  shows "Simulator_Schedule d c s = Some ((m_currentTs s + nat d, m_uid s),
    s\<lparr>m_uid := m_uid s + 1, m_events := \<lparr>ev_key = (m_currentTs s + nat d, m_uid s), ev_call = c, ev_cancel = False\<rparr> # m_events s\<rparr>)"
proof -
  have k: "nat (d + Simulator_Now s) = m_currentTs s + nat d" using assms(1) by (simp add: Simulator_Now_def)
  have "MapScheduler_Insert \<lparr>ev_key = (m_currentTs s + nat d, m_uid s), ev_call = c, ev_cancel = False\<rparr> (m_events s) =
    Some (\<lparr>ev_key = (m_currentTs s + nat d, m_uid s), ev_call = c, ev_cancel = False\<rparr> # m_events s)"
    using assms(2) by (cases "m_events s") (auto simp: less_prod_def)
  then show ?thesis using assms(1) by (simp add: Simulator_Schedule_def k Let_def)
qed

text \<open>The transceiver listens, nothing is being received, assessed or measured, and nothing else happens for a while.\<close>

definition listening :: "'m phy_world \<Rightarrow> nat \<Rightarrow> bool" where
  "listening w d \<longleftrightarrow> m_trxState (phy w) = IEEE_802_15_4_PHY_RX_ON \<and> m_phyOption (phy w) = IEEE_802_15_4_2_4GHZ_OQPSK \<and>
     fst (m_currentRxPacket (phy w)) = None \<and> \<not> phy_running (m_setTRXState (phy w)) w \<and> \<not> phy_running (m_ccaRequest (phy w)) w \<and>
     \<not> phy_running (m_edRequest (phy w)) w \<and> (\<forall>e \<in> set (m_events (psim w)). m_currentTs (psim w) + d < fst (ev_key e))"

definition turned :: "'m phy_world \<Rightarrow> 'm phy_world" where
  "turned w = (let k = (m_currentTs (psim w) + 192000, m_uid (psim w)) in
     w\<lparr>psim := (psim w)\<lparr>m_uid := m_uid (psim w) + 1, m_currentTs := fst k, m_currentUid := snd k\<rparr>,
       phy := (phy w)\<lparr>m_setTRXState := Some k, m_trxState := IEEE_802_15_4_PHY_TX_ON, m_trxStatePending := IEEE_802_15_4_PHY_IDLE\<rparr>\<rparr>)"

lemma turnaround_time:
  assumes "m_phyOption (phy w) = IEEE_802_15_4_2_4GHZ_OQPSK"
  shows "phy_turnaround state w = phy_sched 192000 EndSetTRXState (\<lambda>k f. f\<lparr>m_setTRXState := k\<rparr>) (phy_upd (\<lambda>f. f\<lparr>m_trxStatePending := state\<rparr>) w)"
proof -
  have "seconds_of (of_nat phyTurnaroundTime / (125 / 2 * 1000)) = 192000" by (rule seconds_whole) (simp add: phyTurnaroundTime_def)
  moreover have "LrWpanPhy_GetDataOrSymbolRate False (phy (phy_upd (\<lambda>f. f\<lparr>m_trxStatePending := state\<rparr>) w)) = Some (125 / 2 * 1000)"
    using assms by (simp add: LrWpanPhy_GetDataOrSymbolRate_def phy_upd_def)
  ultimately show ?thesis by (simp only: phy_turnaround_def Let_def option.sel Option.bind.simps)
qed

lemma turnaround_turn:
  assumes "listening w d" and "192000 \<le> d"
  shows "\<exists>u. LrWpanPhy_PlmeSetTRXStateRequest env IEEE_802_15_4_PHY_TX_ON w = Some u \<and>
    phy_turn env draw u = phy_notify env (PlmeSetTRXStateConfirm IEEE_802_15_4_PHY_TX_ON) (turned w)"
proof -
  let ?k = "(m_currentTs (psim w) + 192000, m_uid (psim w))"
  let ?u = "w\<lparr>psim := (psim w)\<lparr>m_uid := m_uid (psim w) + 1, m_events := \<lparr>ev_key = ?k, ev_call = EndSetTRXState, ev_cancel = False\<rparr> # m_events (psim w)\<rparr>,
    phy := (phy w)\<lparr>m_trxStatePending := IEEE_802_15_4_PHY_TX_ON, m_setTRXState := Some ?k\<rparr>\<rparr>"
  have sched: "Simulator_Schedule 192000 EndSetTRXState (psim w) = Some (?k, psim ?u)"
    using Schedule_first [of 192000 "psim w" EndSetTRXState] assms by (fastforce simp: listening_def)
  have "LrWpanPhy_PlmeSetTRXStateRequest env IEEE_802_15_4_PHY_TX_ON w = Some ?u"
    using assms(1) sched unfolding listening_def
    by (simp add: LrWpanPhy_PlmeSetTRXStateRequest_def phy_request_tx_def LrWpanPhy_CancelEd_def phy_terminate_rx_def turnaround_time
      phy_sched_def phy_upd_def phy_running_def Let_def)
  moreover have "phy_turn env draw ?u = phy_notify env (PlmeSetTRXStateConfirm IEEE_802_15_4_PHY_TX_ON) (turned w)"
    by (simp add: phy_turn_def Simulator_ProcessOneEvent_def LrWpanPhy_EndSetTRXState_def phy_upd_def LrWpanPhy_ChangeTrxState_def turned_def Let_def)
  ultimately show ?thesis by blast
qed


text \<open>From the request of the MAC to the end of the transmission.\<close>

definition on_air :: "packet \<Rightarrow> int" where
  "on_air p = 192000 + 32000 * int (length p)"

definition sending_done :: "packet \<Rightarrow> 'm phy_world \<Rightarrow> 'm phy_world" where
  "sending_done p w = (let k = (m_currentTs (psim w) + nat (on_air p), m_uid (psim w)) in
     w\<lparr>phy := (phy w)\<lparr>m_pdDataRequest := Some k, m_trxState := IEEE_802_15_4_PHY_BUSY_TX\<rparr>,
       psim := (psim w)\<lparr>m_uid := m_uid (psim w) + 1, m_currentTs := fst k, m_currentUid := snd k\<rparr>\<rparr>)"

lemma data_turn:
  assumes "m_trxState (phy w) = IEEE_802_15_4_PHY_TX_ON" and "m_phyOption (phy w) = IEEE_802_15_4_2_4GHZ_OQPSK"
    and "\<not> phy_running (m_setTRXState (phy w)) w" and "length p \<le> 127"
    and "\<forall>e \<in> set (m_events (psim w)). m_currentTs (psim w) + nat (on_air p) < fst (ev_key e)"
    and "env_connected env ChannelCb"
    and "env_cb env (StartTx p (on_air p)) (phy_upd (\<lambda>f. f\<lparr>m_currentTxPacket := (Some p, False)\<rparr>) w) = Some x" and "psim x = psim w"
  shows "\<exists>u. LrWpanPhy_PdDataRequest env (of_nat (length p)) p w = Some u \<and>
    phy_turn env' draw u = LrWpanPhy_EndTx env' (sending_done p x)"
proof -
  let ?k = "(m_currentTs (psim x) + nat (on_air p), m_uid (psim x))"
  let ?u = "x\<lparr>psim := (psim x)\<lparr>m_uid := m_uid (psim x) + 1, m_events := \<lparr>ev_key = ?k, ev_call = EndTx, ev_cancel = False\<rparr> # m_events (psim x)\<rparr>,
    phy := (phy x)\<lparr>m_pdDataRequest := Some ?k, m_trxState := IEEE_802_15_4_PHY_BUSY_TX\<rparr>\<rparr>"
  have sched: "Simulator_Schedule (on_air p) EndTx (psim x) = Some (?k, psim ?u)"
    using Schedule_first [of "on_air p" "psim x" EndTx] assms(5,8) by (simp add: on_air_def)
  have len: "\<not> aMaxPhyPacketSize < (of_nat (length p) :: u32)"
    using assms(4) by (simp add: aMaxPhyPacketSize_def word_less_nat_alt unat_of_nat)
  have "LrWpanPhy_CalculateTxTime p (phy (phy_upd (\<lambda>f. f\<lparr>m_currentTxPacket := (Some p, False)\<rparr>) w)) = Some (on_air p)"
    using assms(2) by (simp add: tx_time phy_upd_def on_air_def)
  then have "LrWpanPhy_PdDataRequest env (of_nat (length p)) p w = Some ?u"
    using assms(1,3,6,7) sched len
    by (simp add: LrWpanPhy_PdDataRequest_def phy_sched_def Let_def) (simp add: phy_upd_def LrWpanPhy_ChangeTrxState_def)
  moreover have "phy_turn env' draw ?u = LrWpanPhy_EndTx env' (sending_done p x)"
    by (simp add: phy_turn_def Simulator_ProcessOneEvent_def sending_done_def Let_def)
  ultimately show ?thesis by blast
qed


subsection \<open>Receptions that go wrong\<close>

lemma interference_checked:
  assumes "fst (m_currentRxPacket (phy w)) = Some s" and "m_phyOption (phy w) = IEEE_802_15_4_2_4GHZ_OQPSK"
  shows "\<exists>x d. LrWpanPhy_CheckInterference env draw w = Some x \<and> psim x = psim w \<and> pouts x = pouts w \<and> (snd (m_currentRxPacket (phy w)) \<longrightarrow> d) \<and>
    phy x = (phy w)\<lparr>m_currentRxPacket := (Some s, d), m_rxLastUpdate := Simulator_Now (psim w)\<rparr>"
proof -
  have c: "m_currentRxPacket (phy w) = (Some s, snd (m_currentRxPacket (phy w)))" using assms(1) by (simp add: prod_eq_iff)
  have same: "(phy w)\<lparr>m_rxLastUpdate := t\<rparr> = (phy w)\<lparr>m_currentRxPacket := (Some s, snd (m_currentRxPacket (phy w))), m_rxLastUpdate := t\<rparr>" for t
    by (rule LrWpanPhy.equality) (simp_all flip: c)
  show ?thesis
  proof (cases "m_trxState (phy w) = IEEE_802_15_4_PHY_BUSY_RX")
    case True
    then show ?thesis
      using assms same by (cases "env_errorModel env") (auto simp: LrWpanPhy_CheckInterference_def LrWpanPhy_GetDataOrSymbolRate_def phy_upd_def Let_def)
  next
    case False
    then show ?thesis using same by (auto simp: LrWpanPhy_CheckInterference_def phy_upd_def)
  qed
qed

lemma interference_destroys:
  assumes "m_trxState (phy w) = IEEE_802_15_4_PHY_BUSY_RX" and "fst (m_currentRxPacket (phy w)) = Some s" and "m_phyOption (phy w) = IEEE_802_15_4_2_4GHZ_OQPSK"
    and "env_errorModel env = Some rate_of" and "\<forall>n. draw < 1 - rate_of (phy_sinr env s (phy w)) n"
  shows "\<exists>x. LrWpanPhy_CheckInterference env draw w = Some x \<and> psim x = psim w \<and> sig_duration (signals x s') = sig_duration (signals w s') \<and>
    phy x = (phy w)\<lparr>m_currentRxPacket := (Some s, True), m_rxLastUpdate := Simulator_Now (psim w)\<rparr>"
  using assms by (auto simp: LrWpanPhy_CheckInterference_def LrWpanPhy_GetDataOrSymbolRate_def phy_upd_def Let_def)

lemma destroyed_by_arrival:
  assumes "sim_ok (psim w)" and "m_trxState (phy w) = IEEE_802_15_4_PHY_BUSY_RX" and "fst (m_currentRxPacket (phy w)) = Some s"
    and "m_phyOption (phy w) = IEEE_802_15_4_2_4GHZ_OQPSK" and "m_edRequest (phy w) = None" and "env_errorModel env = Some rate_of"
    and "\<forall>n. draw < 1 - rate_of (phy_sinr env s (phy w)) n" and "236 \<le> sig_duration (signals w s')"
  shows "\<exists>u. LrWpanPhy_StartRx env draw s' w = Some u \<and> m_trxState (phy u) = IEEE_802_15_4_PHY_BUSY_RX \<and> snd (m_currentRxPacket (phy u)) \<and>
    m_edRequest (phy u) = None \<and> m_trxStatePending (phy u) = m_trxStatePending (phy w)"
proof -
  have e: "phy_ed_progress env w = w" using assms(5) by (simp add: phy_ed_progress_def phy_running_def Simulator_IsExpired_def)
  obtain x where x: "LrWpanPhy_CheckInterference env draw w = Some x" "psim x = psim w" "sig_duration (signals x s') = sig_duration (signals w s')"
    "phy x = (phy w)\<lparr>m_currentRxPacket := (Some s, True), m_rxLastUpdate := Simulator_Now (psim w)\<rparr>"
    using interference_destroys [OF assms(2-4,6,7), of s'] by blast
  let ?y = "phy_upd (\<lambda>f. f\<lparr>m_signal := List.insert s' (m_signal f)\<rparr>) x"
  let ?z = "if phy_running (m_ccaRequest (phy ?y)) ?y then phy_upd (phy_peak env) ?y else ?y"
  have z: "psim ?z = psim w" "m_trxState (phy ?z) = IEEE_802_15_4_PHY_BUSY_RX" "snd (m_currentRxPacket (phy ?z))" "m_edRequest (phy ?z) = None"
    "m_trxStatePending (phy ?z) = m_trxStatePending (phy w)"
    using assms(2,5) x(2,4) by (simp_all add: phy_upd_def phy_peak_def Let_def)
  have d: "sig_duration (signals ?z s') = sig_duration (signals w s')" using x(3) by (simp add: phy_upd_def)
  obtain k t where k: "Simulator_Schedule (sig_duration (signals ?z s') - 236) (EndRx s') (psim ?z) = Some (k, t)"
    using Schedule_spec [OF assms(1), of "sig_duration (signals w s') - 236" "EndRx s'"] assms(8) unfolding z(1) d by auto
  have "LrWpanPhy_StartRx env draw s' w = phy_sched (sig_duration (signals ?z s') - 236) (EndRx s') (\<lambda>k f. f) ?z"
    unfolding LrWpanPhy_StartRx_def e Let_def using assms(2) x(1) by simp
  then have "LrWpanPhy_StartRx env draw s' w = Some (?z\<lparr>psim := t, phy := phy ?z\<rparr>)"
    unfolding phy_sched_def k by simp
  then show ?thesis using z by simp
qed

lemma no_packet_crash: "m_trxState (phy w) = IEEE_802_15_4_PHY_BUSY_RX \<Longrightarrow> fst (m_currentRxPacket (phy w)) = None \<Longrightarrow> LrWpanPhy_StartRx env draw s w = None"
  by (simp add: LrWpanPhy_StartRx_def LrWpanPhy_CheckInterference_def phy_ed_progress_def phy_upd_def phy_ed_update_def Let_def)

lemma cancelled_reception_ends:
  assumes "m_currentRxPacket (phy w) = (Some s, True)" and "m_isRxCanceled (phy w)" and "m_phyOption (phy w) = IEEE_802_15_4_2_4GHZ_OQPSK"
  shows "\<exists>u. LrWpanPhy_EndRx env draw s w = Some u \<and> m_trxState (phy u) = m_trxState (phy w) \<and> m_trxStatePending (phy u) = m_trxStatePending (phy w) \<and>
    fst (m_currentRxPacket (phy u)) = None \<and> pouts u = pouts w"
proof -
  let ?e = "phy_ed_progress env w"
  have e: "m_currentRxPacket (phy ?e) = (Some s, True)" "m_isRxCanceled (phy ?e)" "m_phyOption (phy ?e) = IEEE_802_15_4_2_4GHZ_OQPSK"
    "m_trxState (phy ?e) = m_trxState (phy w)" "m_trxStatePending (phy ?e) = m_trxStatePending (phy w)" "pouts ?e = pouts w"
    using assms by (simp_all add: phy_ed_progress_def phy_upd_def phy_ed_update_def)
  obtain x where x: "LrWpanPhy_CheckInterference env draw ?e = Some x" "pouts x = pouts ?e"
    "phy x = (phy ?e)\<lparr>m_currentRxPacket := (Some s, True), m_rxLastUpdate := Simulator_Now (psim ?e)\<rparr>"
    using interference_checked [of ?e s env draw] e(1,3) by auto
  show ?thesis
    using x e by (simp add: LrWpanPhy_EndRx_def phy_rx_done_def phy_upd_def Let_def)
qed

lemma receive_request_answered:
  assumes "m_trxState (phy u) = IEEE_802_15_4_PHY_BUSY_RX" and "m_trxStatePending (phy u) \<noteq> IEEE_802_15_4_PHY_RX_ON"
  shows "\<exists>v. LrWpanPhy_PlmeSetTRXStateRequest (recording base) IEEE_802_15_4_PHY_RX_ON u = Some v \<and> m_trxState (phy v) = IEEE_802_15_4_PHY_BUSY_RX \<and>
    m_currentRxPacket (phy v) = m_currentRxPacket (phy u) \<and> pouts v = pouts u @ [PlmeSetTRXStateConfirm IEEE_802_15_4_PHY_RX_ON]"
  using assms by (auto simp: LrWpanPhy_PlmeSetTRXStateRequest_def phy_request_rx_def recorded phy_upd_def phy_cancel_def Let_def)

end
