(* ===== verification/Mac_Phy.thy ===== *)
theory Mac_Phy
  imports Phy_Service Mac_Data Mac_Beacons
begin

section \<open>The MAC above the PHY\<close>

text \<open>
  The callbacks that \<open>LrWpanNetDevice\<close> connects: what the PHY reports is handled by the MAC, and what the MAC
  asks of the PHY there is done before the PHY goes on. The result of a channel assessment goes to
  CSMA-CA. The MAC may ask again in the callback of what it asked; \<open>n\<close> bounds the depth, and beyond it
  nothing is claimed. With it, a frame of the MAC is followed through the PHY and back.
\<close>

subsection \<open>Callbacks\<close>

definition mac_hears :: "mac_env \<Rightarrow> phy_out \<Rightarrow> mac_world \<Rightarrow> mac_world option" where
  "mac_hears menv out m = (case out of
     PlmeSetTRXStateConfirm status \<Rightarrow> LrWpanMac_PlmeSetTRXStateConfirm menv status m
   | PdDataConfirm status \<Rightarrow> LrWpanMac_PdDataConfirm menv status m
   | PdDataIndication psduLength p lqi \<Rightarrow> LrWpanMac_PdDataIndication menv p lqi m
   | PlmeEdConfirm status energyLevel \<Rightarrow> Some (LrWpanMac_PlmeEdConfirm menv energyLevel m)
   | PlmeSetAttributeConfirm status i \<Rightarrow> (case i of
       phyCurrentPage_id \<Rightarrow> Some (LrWpanMac_PlmeSetAttributeConfirm_Page menv status m)
     | phyCurrentChannel_id \<Rightarrow> LrWpanMac_PlmeSetAttributeConfirm_Channel menv status m
     | _ \<Rightarrow> Some m)
   | _ \<Rightarrow> Some m)"

text \<open>What the MAC asks of the PHY; only the attribute that is set is read there.\<close>

fun mac_asks :: "mac_out \<Rightarrow> phy_step list" where
  "mac_asks (PlmeSetTRXStateRequest state) = [TrxRequest state]"
| "mac_asks (SetCurrentChannel ch) = [SetAttribute phyCurrentChannel_id
     \<lparr>phyCurrentChannel = ch, phyChannelsSupported = [], phyTransmitPower = 0, phyCCAMode = 0, phyCurrentPage = 0\<rparr>]"
| "mac_asks (SetCurrentPage page) = [SetAttribute phyCurrentPage_id
     \<lparr>phyCurrentChannel = 0, phyChannelsSupported = [], phyTransmitPower = 0, phyCCAMode = 0, phyCurrentPage = ucast page\<rparr>]"
| "mac_asks (PdDataRequest p) = [DataRequest (of_nat (length p)) p]"
| "mac_asks CancelPdDataRequest = [DataCancelled]"
| "mac_asks PlmeEdRequest = [EdRequest]"
| "mac_asks out = []"

text \<open>The clock of the MAC is that of the PHY.\<close>

definition sync_clock :: "nat \<Rightarrow> 'c Simulator \<Rightarrow> 'c Simulator" where
  "sync_clock t s = (if m_currentTs s < t then s\<lparr>m_currentTs := t, m_currentUid := 0\<rparr> else s)"

definition mac_at :: "nat \<Rightarrow> mac_world \<Rightarrow> mac_world" where
  "mac_at t m = m\<lparr>msim := sync_clock t (msim m), mouts := []\<rparr>"

fun stack_env :: "mac_env \<Rightarrow> mac_world phy_env \<Rightarrow> nat \<Rightarrow> mac_world phy_env" where
  "stack_env menv base 0 = base\<lparr>env_cb := \<lambda>out w. None\<rparr>"
| "stack_env menv base (Suc n) = base\<lparr>env_cb := \<lambda>out w. do {
     m \<leftarrow> mac_hears menv out (mac_at (m_currentTs (psim w)) (upper w));
     phy_run (stack_env menv base n) (concat (map mac_asks (mouts m))) (w\<lparr>pouts := pouts w @ [out], upper := m\<rparr>) }\<rparr>"

subsection \<open>The MAC keeps to the interface\<close>

lemma hears_measurement:
  "measurement_over out \<Longrightarrow> mac_hears menv out (mac_at t u) = Some m \<Longrightarrow> concat (map mac_asks (mouts m)) \<in> {[], [EdRequest]}"
  by (cases out) (auto simp: mac_hears_def mac_at_def LrWpanMac_PlmeEdConfirm_def mac_upd_def mac_emit_def Let_def split: if_splits)

lemma heard_keeps:
  "phy_ok (w\<lparr>pouts := p, upper := m\<rparr>) \<longleftrightarrow> phy_ok w" "phy_quiet (w\<lparr>pouts := p, upper := m\<rparr>) \<longleftrightarrow> phy_quiet w"
  by (simp_all add: phy_ok_def phy_quiet_def)

context phy_user
begin

lemma PlmeEdRequest_quiet:
  assumes "phy_ok w" and "phy_quiet w" and "LrWpanPhy_PlmeEdRequest env w = Some v"
  shows "phy_quiet v"
proof (cases "m_trxState (phy w) = IEEE_802_15_4_PHY_RX_ON \<or> m_trxState (phy w) = IEEE_802_15_4_PHY_BUSY_RX")
  case True
  then obtain d e where e: "phy_sched d EndEd (\<lambda>k f. f\<lparr>m_edRequest := k\<rparr>) (phy_upd (\<lambda>f. f\<lparr>m_edPower := e\<rparr>) w) = Some v"
    using assms(3) by (auto simp: LrWpanPhy_PlmeEdRequest_def Let_def split: bind_splits)
  have "phy_ok (phy_upd (\<lambda>f. f\<lparr>m_edPower := e\<rparr>) w)" "phy_quiet (phy_upd (\<lambda>f. f\<lparr>m_edPower := e\<rparr>) w)"
    using assms(1,2) by (simp_all add: phy_upd_keeps)
  from phy_sched_keeps(2) [OF this(1) e _ _ this(2)] show ?thesis by simp
next
  case False
  then show ?thesis
    using assms notify_keeps(2) [OF assms(1) _ assms(2)] by (auto simp: LrWpanPhy_PlmeEdRequest_def Let_def)
qed

lemma ed_request_quiet:
  assumes "phy_ok w" and "phy_quiet w" and "ss \<in> {[], [EdRequest]}" and "phy_run env ss w = Some v"
  shows "phy_quiet v"
  using assms PlmeEdRequest_quiet [OF assms(1,2)] by (auto split: bind_splits)

end

lemma stack_is_phy_user: "phy_user (stack_env menv base n)"
proof (induction n)
  case 0
  show ?case by unfold_locales simp_all
next
  case (Suc n)
  show ?case
  proof
    fix out :: phy_out and w v :: "mac_world phy_world"
    assume ok: "phy_ok w" and run: "env_cb (stack_env menv base (Suc n)) out w = Some v"
    obtain m where m: "mac_hears menv out (mac_at (m_currentTs (psim w)) (upper w)) = Some m"
      "phy_run (stack_env menv base n) (concat (map mac_asks (mouts m))) (w\<lparr>pouts := pouts w @ [out], upper := m\<rparr>) = Some v"
      using run by (auto split: bind_splits)
    have k: "phy_ok (w\<lparr>pouts := pouts w @ [out], upper := m\<rparr>)" using ok by (simp add: heard_keeps)
    show "phy_ok v" by (rule phy_user.run_keeps [OF Suc.IH m(2) k])
    show "phy_quiet v" if "phy_quiet w" "measurement_over out"
      by (rule phy_user.ed_request_quiet [OF Suc.IH k _ hears_measurement [OF that(2) m(1)] m(2)])
        (use that(1) in \<open>simp add: heard_keeps\<close>)
  qed
qed

interpretation stack: phy_user "stack_env menv base n"
  by (rule stack_is_phy_user)

subsection \<open>A transmission\<close>

text \<open>The MAC answers: it sends its packet when the transmitter is on, and gets the confirmation at the end.\<close>

lemma sync_twice: "t \<le> t' \<Longrightarrow> sync_clock t' (sync_clock t s) = sync_clock t' s"
  by (auto simp: sync_clock_def)

lemma mac_at_twice: "t \<le> t' \<Longrightarrow> mac_at t' ((mac_at t m)\<lparr>mouts := os\<rparr>) = mac_at t' m" "t \<le> t' \<Longrightarrow> mac_at t' (mac_at t m) = mac_at t' m"
  by (simp_all add: mac_at_def sync_twice)

lemma run_nothing: "phy_run env [] = Some"
  by (rule ext) simp

lemma mac_sends:
  assumes "m_lrWpanMacState (mac (upper w)) = MAC_SENDING" and "deref (m_txPkt (mac (upper w))) (upper w) = Some p"
    and "env_connected base ChannelCb" and "m_trxState (phy w) = IEEE_802_15_4_PHY_TX_ON"
  shows "env_cb (stack_env menv base (Suc n)) (PlmeSetTRXStateConfirm IEEE_802_15_4_PHY_TX_ON) w =
    LrWpanPhy_PdDataRequest (stack_env menv base n) (of_nat (length p)) p (w\<lparr>pouts := pouts w @ [PlmeSetTRXStateConfirm IEEE_802_15_4_PHY_TX_ON],
      upper := (mac_at (m_currentTs (psim w)) (upper w))\<lparr>mouts := [PdDataRequest p]\<rparr>\<rparr>)"
  using assms by (auto simp: mac_hears_def LrWpanMac_PlmeSetTRXStateConfirm_def deref_def mac_at_def mac_emit_def Let_def run_nothing)

lemma end_of_transmission:
  assumes "m_trxState (phy w) = IEEE_802_15_4_PHY_BUSY_TX" and "\<not> snd (m_currentTxPacket (phy w))" and "m_trxStatePending (phy w) = IEEE_802_15_4_PHY_IDLE"
    and "env_connected base DataConfirmCb" and "LrWpanMac_PdDataConfirm menv IEEE_802_15_4_PHY_SUCCESS (mac_at (m_currentTs (psim w)) (upper w)) = Some m"
    and "concat (map mac_asks (mouts m)) = []"
  shows "LrWpanPhy_EndTx (stack_env menv base (Suc n)) w = Some (w\<lparr>pouts := pouts w @ [PdDataConfirm IEEE_802_15_4_PHY_SUCCESS], upper := m,
    phy := (phy w)\<lparr>m_currentTxPacket := (None, False), m_trxState := IEEE_802_15_4_PHY_TX_ON\<rparr>\<rparr>)"
proof -
  have "env_cb (stack_env menv base (Suc n)) (PdDataConfirm IEEE_802_15_4_PHY_SUCCESS) w =
    Some (w\<lparr>pouts := pouts w @ [PdDataConfirm IEEE_802_15_4_PHY_SUCCESS], upper := m\<rparr>)"
    by (simp add: mac_hears_def assms(5,6))
  then have "phy_notify (stack_env menv base (Suc n)) (PdDataConfirm IEEE_802_15_4_PHY_SUCCESS) w =
    Some (w\<lparr>pouts := pouts w @ [PdDataConfirm IEEE_802_15_4_PHY_SUCCESS], upper := m\<rparr>)"
    using assms(4) by (simp add: phy_notify_def del: stack_env.simps) simp
  then show ?thesis
    using assms(1-3) by (simp add: LrWpanPhy_EndTx_def phy_apply_pending_def phy_upd_def LrWpanPhy_ChangeTrxState_def Let_def del: stack_env.simps)
qed


text \<open>The transmission from the MAC's point of view.\<close>

lemma transmission:
  assumes "m_lrWpanMacState (mac (upper w)) = MAC_SENDING" and "deref (m_txPkt (mac (upper w))) (upper w) = Some p" and "length p \<le> 127"
    and "listening w (192000 + nat (on_air p))" and "\<forall>c. env_connected base c"
    and "LrWpanMac_PdDataConfirm menv IEEE_802_15_4_PHY_SUCCESS (mac_at (m_currentTs (psim w) + 192000 + nat (on_air p)) (upper w)) = Some m"
    and "concat (map mac_asks (mouts m)) = []"
  shows "\<exists>v. phy_run (stack_env menv base (Suc (Suc n))) [TrxRequest IEEE_802_15_4_PHY_TX_ON, Turn a, Turn b] w = Some v \<and> upper v = m \<and>
    m_currentTs (psim v) = m_currentTs (psim w) + 192000 + nat (on_air p) \<and> m_events (psim v) = m_events (psim w) \<and>
    pouts v = pouts w @ [PlmeSetTRXStateConfirm IEEE_802_15_4_PHY_TX_ON, StartTx p (on_air p), PdDataConfirm IEEE_802_15_4_PHY_SUCCESS] \<and>
    m_trxState (phy v) = IEEE_802_15_4_PHY_TX_ON \<and> m_trxStatePending (phy v) = IEEE_802_15_4_PHY_IDLE"
proof -
  let ?e = "stack_env menv base (Suc (Suc n))" and ?e' = "stack_env menv base (Suc n)" and ?t = "turned w"
  obtain u where u: "LrWpanPhy_PlmeSetTRXStateRequest ?e IEEE_802_15_4_PHY_TX_ON w = Some u"
    "phy_turn ?e a u = phy_notify ?e (PlmeSetTRXStateConfirm IEEE_802_15_4_PHY_TX_ON) ?t"
    using turnaround_turn [OF assms(4)] by (metis le_add1)
  let ?m = "(mac_at (m_currentTs (psim ?t)) (upper w))\<lparr>mouts := [PdDataRequest p]\<rparr>"
  let ?s = "?t\<lparr>pouts := pouts w @ [PlmeSetTRXStateConfirm IEEE_802_15_4_PHY_TX_ON], upper := ?m\<rparr>"
  have notify: "phy_notify ?e (PlmeSetTRXStateConfirm IEEE_802_15_4_PHY_TX_ON) ?t = LrWpanPhy_PdDataRequest ?e' (of_nat (length p)) p ?s"
    using mac_sends [of ?t p base menv "Suc n"] assms(1,2,5) by (simp add: phy_notify_def turned_def Let_def del: stack_env.simps) simp
  let ?x = "(phy_upd (\<lambda>f. f\<lparr>m_currentTxPacket := (Some p, False)\<rparr>) ?s)\<lparr>pouts := pouts ?s @ [StartTx p (on_air p)], upper := mac_at (m_currentTs (psim ?t)) ?m\<rparr>"
  have t: "m_trxState (phy ?s) = IEEE_802_15_4_PHY_TX_ON" "m_phyOption (phy ?s) = IEEE_802_15_4_2_4GHZ_OQPSK"
    "\<not> phy_running (m_setTRXState (phy ?s)) ?s" "\<forall>e \<in> set (m_events (psim ?s)). m_currentTs (psim ?s) + nat (on_air p) < fst (ev_key e)"
    using assms(4) by (auto simp: listening_def turned_def Let_def phy_running_def Simulator_IsExpired_def)
  have cb: "env_cb ?e' (StartTx p (on_air p)) (phy_upd (\<lambda>f. f\<lparr>m_currentTxPacket := (Some p, False)\<rparr>) ?s) = Some ?x"
    by (simp add: mac_hears_def phy_upd_def mac_at_def)
  have "env_connected ?e' ChannelCb" using assms(5) by simp
  from data_turn [OF t(1-3) assms(3) t(4) this cb, of ?e b] obtain u' where
    u': "LrWpanPhy_PdDataRequest ?e' (of_nat (length p)) p ?s = Some u'" "phy_turn ?e b u' = LrWpanPhy_EndTx ?e (sending_done p ?x)"
    by (auto simp: phy_upd_def)
  have tt: "m_currentTs (psim ?t) = m_currentTs (psim w) + 192000" by (simp add: turned_def)
  define z where "z = sending_done p ?x"
  have y: "m_trxState (phy z) = IEEE_802_15_4_PHY_BUSY_TX" "\<not> snd (m_currentTxPacket (phy z))" "m_trxStatePending (phy z) = IEEE_802_15_4_PHY_IDLE"
    "m_currentTs (psim z) = m_currentTs (psim w) + 192000 + nat (on_air p)" "m_events (psim z) = m_events (psim w)"
    "upper z = mac_at (m_currentTs (psim ?t)) ?m" "pouts z = pouts w @ [PlmeSetTRXStateConfirm IEEE_802_15_4_PHY_TX_ON, StartTx p (on_air p)]"
    by (simp_all add: z_def sending_done_def turned_def phy_upd_def Let_def)
  have "mac_at (m_currentTs (psim z)) (upper z) = mac_at (m_currentTs (psim z)) (upper w)"
    unfolding y(6) y(4) tt by (simp add: mac_at_def sync_twice)
  then have "LrWpanPhy_EndTx ?e z = Some (z\<lparr>pouts := pouts z @ [PdDataConfirm IEEE_802_15_4_PHY_SUCCESS], upper := m,
    phy := (phy z)\<lparr>m_currentTxPacket := (None, False), m_trxState := IEEE_802_15_4_PHY_TX_ON\<rparr>\<rparr>)"
    using assms(5,6) y(4) by (intro end_of_transmission y(1-3) assms(7)) simp_all
  with u u' [folded z_def] notify have run: "phy_run ?e [TrxRequest IEEE_802_15_4_PHY_TX_ON, Turn a, Turn b] w =
    Some (z\<lparr>pouts := pouts z @ [PdDataConfirm IEEE_802_15_4_PHY_SUCCESS], upper := m,
      phy := (phy z)\<lparr>m_currentTxPacket := (None, False), m_trxState := IEEE_802_15_4_PHY_TX_ON\<rparr>\<rparr>)"
    by (simp del: stack_env.simps)
  show ?thesis by (intro exI [of _ "z\<lparr>pouts := pouts z @ [PdDataConfirm IEEE_802_15_4_PHY_SUCCESS], upper := m,
      phy := (phy z)\<lparr>m_currentTxPacket := (None, False), m_trxState := IEEE_802_15_4_PHY_TX_ON\<rparr>\<rparr>"] conjI run) (simp_all add: y del: stack_env.simps)
qed

end
