(* ===== verification/Samples_Phy.thy ===== *)
theory Samples_Phy
  imports Samples_Mac Mac_Phy
begin

section \<open>A radio to compute with\<close>

text \<open>
  A transceiver as it is constructed, on a channel where every signal has the power of the noise, a lone
  signal is decoded and two destroy each other.
\<close>

definition sample_surroundings :: "'m phy_env" where
  "sample_surroundings = \<lparr>env_connected = \<lambda>c. True, env_cb = \<lambda>out w. Some w, env_power = \<lambda>sig ch. of_nat (length sig), env_signalPower = \<lambda>s ch. 1,
     env_otherPower = \<lambda>sig s noise ch. 1 + of_nat (length (removeAll s sig)), 
     env_errorModel = Some (\<lambda>sinr n. if 1 \<le> sinr then 1 else 0), env_corrupt = \<lambda>p. False, env_energyLevel = \<lambda>x. 0, env_rxSensitivity = 1\<rparr>"

definition blank_phy :: LrWpanPhy where
  "blank_phy = \<lparr>m_trxState = IEEE_802_15_4_PHY_TRX_OFF, m_trxStatePending = IEEE_802_15_4_PHY_IDLE, m_setTRXState = None, m_ccaRequest = None,
     m_edRequest = None, m_pdDataRequest = None, m_ccaPeakPower = 0, m_edPower = \<lparr>averagePower = 0, lastUpdate = 0, measurementLength = 0\<rparr>,
     m_currentRxPacket = (None, True), m_currentTxPacket = (None, True), m_isRxCanceled = False, m_rxLastUpdate = 0,
     m_phyPIBAttributes = \<lparr>phyCurrentChannel = 11, phyChannelsSupported = 0x7FFF800 # replicate 31 0xF8000000, phyTransmitPower = 0,
       phyCCAMode = 1, phyCurrentPage = 0\<rparr>, m_phyOption = IEEE_802_15_4_2_4GHZ_OQPSK, m_signal = [], m_txPsd = (0, 11), m_noise = 11\<rparr>"

lemma blank_phy_new: "LrWpanPhy_new blank_phy = Some blank_phy"
  by (simp add: LrWpanPhy_new_def LrWpanPhy_SetPhyOption_def blank_phy_def LrWpanPhy_ChangeTrxState_def LrWpanPhy_GetNominalTxPowerFromPib_def Let_def)

text \<open>A radio in a state, below something; the first signal is over soon, the others last a millisecond.\<close>

definition sample_radio :: "LrWpanPhyEnumeration \<Rightarrow> 'm \<Rightarrow> 'm phy_world" where
  "sample_radio state m = \<lparr>phy = blank_phy\<lparr>m_trxState := state\<rparr>, psim = Simulator_new, pouts = [], upper = m,
     signals = \<lambda>s. \<lparr>sig_packet = [1, 2, 3], sig_lqi = None, sig_duration = (if s = 0 then 100236 else 1000236)\<rparr>\<rparr>"

lemma sample_radio_ok: "state \<in> trx_states \<Longrightarrow> phy_ok (sample_radio state m)"
  by (simp add: phy_ok_def sample_radio_def blank_phy_def sim_ok_new pending_def) (simp add: Simulator_new_def)

lemmas phy_rx_defs = LrWpanPhy_StartRx_def phy_ed_progress_def phy_running_def Simulator_IsExpired_def LrWpanPhy_CheckInterference_def
  LrWpanPhy_GetDataOrSymbolRate_def phy_decodable_def phy_sched_def Simulator_Schedule_def Simulator_Now_def phy_sinr_def phy_upd_def LrWpanPhy_ChangeTrxState_def

lemma data_header_size:
  assumes "short_request r"
  shows "length (mac_wire (mcps_header env r m)) \<le> 20"
proof -
  have "length (mac_wire (mcps_header env r m)) = LrWpanMacHeader_GetSerializedSize (mcps_header env r m)"
    using mac.size_wire [OF mcps_header_fields(13) [OF assms, where rtl = True]] by simp
  also have "\<dots> \<le> 20"
    using mcps_header_fields(4-6) [OF assms, of env m] by (simp add: LrWpanMacHeader_GetSerializedSize_def class_defs Let_def)
  finally show ?thesis .
qed

end
