(* ===== verification/Mac_Runs.thy ===== *)
theory Mac_Runs
  imports Data_Service Start_Service Group_Ack_Send
begin

section \<open>Runs of the MAC\<close>

text \<open>
  The whole of \<open>LrWpanMac\<close> as a state machine: it is driven by its own events, by the requests of the
  layer above and by the confirmations and indications of the PHY, in any order. The invariant: the
  event queue is well formed, the transmit queue never gets longer than its bound, and the MAC is in
  one of the states it can get out of.
\<close>

subsection \<open>The step relation\<close>

text \<open>The call of an event; \<open>a\<close> is the address of the packet that a sending handler creates.\<close>

fun mac_handler :: "mac_env \<Rightarrow> nat \<Rightarrow> mac_call \<Rightarrow> mac_world \<Rightarrow> mac_world option" where
  "mac_handler env a (SetLrWpanMacState s) w = LrWpanMac_SetLrWpanMacState s w"
| "mac_handler env a (SetLrWpanMacStateToGTS sf i) w = LrWpanMac_SetLrWpanMacStateToGTS sf i w"
| "mac_handler env a (IfsWaitTimeout t) w = LrWpanMac_IfsWaitTimeout env t w"
| "mac_handler env a (StartCAP s) w = LrWpanMac_StartCAP env s w"
| "mac_handler env a (StartCFP s) w = LrWpanMac_StartCFP env s w"
| "mac_handler env a (StartRemainingPeriod s) w = LrWpanMac_StartRemainingPeriod env s w"
| "mac_handler env a AwaitBeacon w = Some (LrWpanMac_AwaitBeacon w)"
| "mac_handler env a SendOneEnhancedBeacon w = LrWpanMac_SendOneEnhancedBeacon env a w"
| "mac_handler env a PurgeDsmeACT w = Some (mac_upd LrWpanMac_PurgeDsmeACT w)"
| "mac_handler env a StartSuperframe w = LrWpanMac_StartSuperframe env w"
| "mac_handler env a (StartMultisuperframe s) w = LrWpanMac_StartMultisuperframe env s w"
| "mac_handler env a (StartGTS s sf i) w = LrWpanMac_StartGTS env s sf i w"
| "mac_handler env a (EndGTS s) w = LrWpanMac_EndGTS s w"
| "mac_handler env a SendLegacyGroupAck w = LrWpanMac_SendLegacyGroupAck env a w"
| "mac_handler env a SendEnhancedGroupAck w = LrWpanMac_SendEnhancedGroupAck env a w"
| "mac_handler env a BeaconSearchTimeout w = LrWpanMac_BeaconSearchTimeout env w"

definition mac_turn :: "mac_env \<Rightarrow> nat \<Rightarrow> mac_world \<Rightarrow> mac_world option" where
  "mac_turn env a w = do {
     (c, s) \<leftarrow> Simulator_ProcessOneEvent (msim w);
     case c of None \<Rightarrow> Some (w\<lparr>msim := s\<rparr>) | Some c \<Rightarrow> mac_handler env a c (w\<lparr>msim := s\<rparr>) }"

text \<open>Between turns time passes for others, up to the next event.\<close>

inductive mac_step :: "mac_env \<Rightarrow> mac_world \<Rightarrow> mac_world \<Rightarrow> bool" for env where
  turn: "mac_turn env a w = Some v \<Longrightarrow> mac_step env w v"
| wait: "m_currentTs (msim w) \<le> t \<Longrightarrow> \<forall>e \<in> set (m_events (msim w)). t < fst (ev_key e) \<Longrightarrow>
    mac_step env w (w\<lparr>msim := (msim w)\<lparr>m_currentTs := t\<rparr>\<rparr>)"
| data_request: "LrWpanMac_McpsDataRequest env params a (w\<lparr>pkts := (pkts w)(a := p)\<rparr>) = Some v \<Longrightarrow> mac_step env w v"
| start_request: "LrWpanMac_MlmeStartRequest params w = Some v \<Longrightarrow> mac_step env w v"
| sync_request: "LrWpanMac_MlmeSyncRequest env sparams w = Some v \<Longrightarrow> mac_step env w v"
| contention_over: "s \<in> {CHANNEL_IDLE, CHANNEL_ACCESS_FAILURE, MAC_CSMA_DEFERRED} \<Longrightarrow> LrWpanMac_SetLrWpanMacState s w = Some v \<Longrightarrow> mac_step env w v"
| data_confirm: "LrWpanMac_PdDataConfirm env status w = Some v \<Longrightarrow> mac_step env w v"
| data_indication: "LrWpanMac_PdDataIndication env p lqi w = Some v \<Longrightarrow> mac_step env w v"
| state_confirm: "LrWpanMac_PlmeSetTRXStateConfirm env status w = Some v \<Longrightarrow> mac_step env w v"
| energy_confirm: "mac_step env w (LrWpanMac_PlmeEdConfirm env level w)"
| page_confirm: "mac_step env w (LrWpanMac_PlmeSetAttributeConfirm_Page env status w)"
| channel_confirm: "LrWpanMac_PlmeSetAttributeConfirm_Channel env status w = Some v \<Longrightarrow> mac_step env w v"

definition mac_reach :: "mac_env \<Rightarrow> mac_world \<Rightarrow> mac_world \<Rightarrow> bool" where
  "mac_reach env = (mac_step env)\<^sup>*\<^sup>*"

subsection \<open>Invariant\<close>

text \<open>
  \<open>N\<close> is the bound of the queue, which no step changes, and \<open>T\<close> a time that has passed.
\<close>

definition mac_inv :: "u32 \<Rightarrow> LrWpanMac \<Rightarrow> bool" where
  "mac_inv N m \<longleftrightarrow> m_maxTxQueueSize m = N \<and> length (m_txQueue m) \<le> unat N \<and>
     m_lrWpanMacState m \<in> {MAC_IDLE, MAC_CSMA, MAC_SENDING, MAC_ACK_PENDING, MAC_GTS, MAC_GTS_SENDING}"

definition mac_good :: "u32 \<Rightarrow> nat \<Rightarrow> mac_world \<Rightarrow> bool" where
  "mac_good N T w \<longleftrightarrow> sim_ok (msim w) \<and> T \<le> m_currentTs (msim w) \<and> mac_inv N (mac w)"

subsection \<open>What holds of every result\<close>

text \<open>
  A postcondition of an operation that may fail, and the rules that take it apart. Values that are
  worlds or MACs carry the invariant from where they are bound to where they are used; nothing is
  kept of others.
\<close>

definition post :: "('a \<Rightarrow> bool) \<Rightarrow> 'a option \<Rightarrow> bool" where
  "post P r \<longleftrightarrow> (\<forall>x. r = Some x \<longrightarrow> P x)"

named_theorems keep

lemma postD: "post P r \<Longrightarrow> r = Some x \<Longrightarrow> P x"
  by (simp add: post_def)

lemma post_Some: "P x \<Longrightarrow> post P (Some x)" and post_None: "post P None"
  by (simp_all add: post_def)

lemma post_bind_tuple3:
  fixes r :: "('a \<times> 'b \<times> mac_world) option"
  shows "post (\<lambda>(a, b, w). mac_good N T w) r \<Longrightarrow> (\<And>a b w. mac_good N T w \<Longrightarrow> post P (f a b w)) \<Longrightarrow> post P (r \<bind> (\<lambda>(a, b, w). f a b w))"
  by (cases r) (auto simp: post_def)

lemma post_bind_tuple4:
  fixes r :: "('a \<times> 'b \<times> 'c \<times> mac_world) option"
  shows "post (\<lambda>(a, b, c, w). mac_good N T w) r \<Longrightarrow> (\<And>a b c w. mac_good N T w \<Longrightarrow> post P (f a b c w)) \<Longrightarrow>
    post P (r \<bind> (\<lambda>(a, b, c, w). f a b c w))"
  by (cases r) (auto simp: post_def)

lemma post_bind_tuple2:
  fixes r :: "('a \<times> mac_world) option"
  shows "post (\<lambda>(a, w). mac_good N T w) r \<Longrightarrow> (\<And>a w. mac_good N T w \<Longrightarrow> post P (f a w)) \<Longrightarrow> post P (r \<bind> (\<lambda>(a, w). f a w))"
  by (cases r) (auto simp: post_def)

lemma post_bind_world:
  fixes r :: "mac_world option"
  shows "post (mac_good N T) r \<Longrightarrow> (\<And>w. mac_good N T w \<Longrightarrow> post P (f w)) \<Longrightarrow> post P (r \<bind> f)"
  by (cases r) (auto simp: post_def)

lemma post_bind_mac:
  fixes r :: "LrWpanMac option"
  shows "post (mac_inv N) r \<Longrightarrow> (\<And>m. mac_inv N m \<Longrightarrow> post P (f m)) \<Longrightarrow> post P (r \<bind> f)"
  by (cases r) (auto simp: post_def)

lemma post_bind: "(\<And>x. post P (f x)) \<Longrightarrow> post P (r \<bind> f)"
  by (cases r) (auto simp: post_def)

lemma post_let_world:
  fixes t :: mac_world
  shows "mac_good N T t \<Longrightarrow> (\<And>w. mac_good N T w \<Longrightarrow> post P (f w)) \<Longrightarrow> post P (let w = t in f w)"
    and "mac_good N T t \<Longrightarrow> (\<And>w. mac_good N T w \<Longrightarrow> mac_good N T (g w)) \<Longrightarrow> mac_good N T (let w = t in g w)"
  by (simp_all add: Let_def)

lemma post_let_mac:
  fixes t :: LrWpanMac
  shows "mac_inv N t \<Longrightarrow> (\<And>m. mac_inv N m \<Longrightarrow> post (mac_inv N) (f m)) \<Longrightarrow> post (mac_inv N) (let m = t in f m)"
    and "mac_inv N t \<Longrightarrow> (\<And>m. mac_inv N m \<Longrightarrow> mac_good N T (g m)) \<Longrightarrow> mac_good N T (let m = t in g m)"
  by (simp_all add: Let_def)

lemma post_let:
  "(\<And>x. post P (f x)) \<Longrightarrow> post P (let x = t in f x)" "(\<And>x. mac_good N T (g x)) \<Longrightarrow> mac_good N T (let x = t in g x)"
  by (simp_all add: Let_def)

lemma post_if:
  "(c \<Longrightarrow> post P a) \<Longrightarrow> (\<not> c \<Longrightarrow> post P b) \<Longrightarrow> post P (if c then a else b)"
  "mac_good N T x \<Longrightarrow> mac_good N T y \<Longrightarrow> mac_good N T (if c then x else y)" "mac_inv N k \<Longrightarrow> mac_inv N l \<Longrightarrow> mac_inv N (if c then k else l)"
  by simp_all

lemma post_case:
  "(\<And>a b. post P (f a b)) \<Longrightarrow> post P (case z of (a, b) \<Rightarrow> f a b)"
  "post P n \<Longrightarrow> (\<And>x. post P (g x)) \<Longrightarrow> post P (case r of None \<Rightarrow> n | Some x \<Rightarrow> g x)"
  "post P n \<Longrightarrow> (\<And>x xs. post P (h x xs)) \<Longrightarrow> post P (case l of [] \<Rightarrow> n | x # xs \<Rightarrow> h x xs)"
  "post P a \<Longrightarrow> post P b \<Longrightarrow> post P c \<Longrightarrow> post P d \<Longrightarrow> post P e \<Longrightarrow>
    post P (case y of GROUP_ACK_DISABLED \<Rightarrow> a | GROUP_ACK_LEGACY \<Rightarrow> b | GROUP_ACK_ENHANCED \<Rightarrow> c | GROUP_ACK_DSME_GTS \<Rightarrow> d | GROUP_ACK_RESERVED \<Rightarrow> e)"
  by (simp_all split: prod.split option.split list.split LrWpanGroupAckPolicy.split)

lemma post_tuple:
  "mac_good N T w \<Longrightarrow> (case (a, w) of (a, w) \<Rightarrow> mac_good N T w)" "mac_good N T w \<Longrightarrow> (case (a, b, w) of (a, b, w) \<Rightarrow> mac_good N T w)"
  "mac_good N T w \<Longrightarrow> (case (a, b, c, w) of (a, b, c, w) \<Rightarrow> mac_good N T w)"
  by simp_all

lemmas post_rules = post_Some post_None post_tuple post_bind_tuple4 post_bind_tuple3 post_bind_tuple2 post_bind_world post_bind_mac post_bind
  post_let_world post_let_mac post_let post_if post_case

lemma good_updates [keep]:
  "mac_good N T w \<Longrightarrow> mac_good N T (mac_emit out w)" "mac_good N T w \<Longrightarrow> mac_good N T (mac_cancel i w)"
  "mac_good N T w \<Longrightarrow> mac_good N T (w\<lparr>pkts := ps\<rparr>)" "mac_good N T w \<Longrightarrow> mac_good N T (w\<lparr>mouts := os\<rparr>)"
  "mac_good N T w \<Longrightarrow> mac_inv N m \<Longrightarrow> mac_good N T (w\<lparr>mac := m\<rparr>)"
  using Cancel_spec [of "msim w" i] by (simp_all add: mac_good_def mac_emit_def mac_cancel_def)

lemma good_upd [keep]: "mac_good N T w \<Longrightarrow> (\<And>m. mac_inv N m \<Longrightarrow> mac_inv N (g m)) \<Longrightarrow> mac_good N T (mac_upd g w)"
  by (simp add: mac_good_def mac_upd_def)

lemma inv_mac [keep]: "mac_good N T w \<Longrightarrow> mac_inv N (mac w)"
  by (simp add: mac_good_def)

lemma inv_pan [keep]: "mac_inv N m \<Longrightarrow> mac_inv N (mac_pan_upd g m)"
  by (simp add: mac_inv_def mac_pan_upd_def)

lemma inv_purge [keep]: "mac_inv N m \<Longrightarrow> mac_inv N (LrWpanMac_PurgeDsmeACT m)"
  by (simp add: mac_inv_def LrWpanMac_PurgeDsmeACT_def)

lemma good_sched [keep]:
  assumes "mac_good N T w" and "\<And>k m. mac_inv N m \<Longrightarrow> mac_inv N (f k m)"
  shows "post (mac_good N T) (mac_sched d c f w)"
proof -
  have "mac_good N T v" if v: "mac_sched d c f w = Some v" for v
  proof -
    have d: "0 \<le> d" using v by (auto simp: mac_sched_def Simulator_Schedule_def split: if_splits)
    have s: "sim_ok (msim w)" using assms(1) by (simp add: mac_good_def)
    from Schedule_spec [OF s d, of c] v show ?thesis
      using assms by (auto simp: mac_sched_def mac_good_def split: bind_splits)
  qed
  then show ?thesis by (simp add: post_def)
qed

lemma state_good [keep]:
  "mac_good N T w \<Longrightarrow> s \<in> {MAC_IDLE, MAC_CSMA, MAC_SENDING, MAC_ACK_PENDING, MAC_GTS, MAC_GTS_SENDING} \<Longrightarrow> mac_good N T (LrWpanMac_ChangeMacState s w)"
  by (simp add: mac_good_def mac_inv_def LrWpanMac_ChangeMacState_def mac_upd_def)

lemma SetLrWpanMacState_good [keep]: "mac_good N T w \<Longrightarrow> post (mac_good N T) (LrWpanMac_SetLrWpanMacState s w)"
  unfolding LrWpanMac_SetLrWpanMacState_def by (rule keep post_rules | assumption | (simp add: mac_inv_def; fail))+

lemma SetLrWpanMacStateToGTS_good [keep]: "mac_good N T w \<Longrightarrow> post (mac_good N T) (LrWpanMac_SetLrWpanMacStateToGTS sf i w)"
  unfolding LrWpanMac_SetLrWpanMacStateToGTS_def by (rule keep post_rules | assumption | (simp add: mac_inv_def; fail))+


lemma CheckQueue_good [keep]: "mac_good N T w \<Longrightarrow> post (mac_good N T) (LrWpanMac_CheckQueue w)"
  unfolding LrWpanMac_CheckQueue_def by (rule keep post_rules | assumption | (simp add: mac_inv_def; fail))+

lemma EnqueueTxQElement_good [keep]:
  assumes "mac_good N T w"
  shows "mac_good N T (LrWpanMac_EnqueueTxQElement env q w)"
proof (cases "length (m_txQueue (mac w)) < unat (m_maxTxQueueSize (mac w))")
  case True
  with assms show ?thesis by (simp add: LrWpanMac_EnqueueTxQElement_def mac_good_def mac_inv_def mac_upd_def)
next
  case False
  with assms show ?thesis by (simp add: LrWpanMac_EnqueueTxQElement_def good_updates)
qed

lemma RemoveFirstTxQElement_good [keep]: "mac_good N T w \<Longrightarrow> post (mac_good N T) (LrWpanMac_RemoveFirstTxQElement env w)"
  by (cases "m_txQueue (mac w)")
    (auto simp: LrWpanMac_RemoveFirstTxQElement_def mac_good_def mac_inv_def mac_upd_def post_def split: bind_splits)

lemma ifs_in_gts_good [keep]: "mac_good N T w \<Longrightarrow> mac_good N T (ifs_in_gts w)"
  unfolding ifs_in_gts_def by (rule keep post_rules | assumption | (simp add: mac_inv_def; fail))+

lemma ifs_forward_good [keep]: "mac_good N T w \<Longrightarrow> post (mac_good N T) (ifs_forward w)"
  unfolding ifs_forward_def by (rule keep post_rules | assumption | (simp add: mac_inv_def; fail))+

lemma IfsWaitTimeout_good [keep]: "mac_good N T w \<Longrightarrow> post (mac_good N T) (LrWpanMac_IfsWaitTimeout env t w)"
  unfolding LrWpanMac_IfsWaitTimeout_def by (rule keep post_rules | assumption | (simp add: mac_inv_def; fail))+

lemma PlmeSetTRXStateConfirm_good [keep]: "mac_good N T w \<Longrightarrow> post (mac_good N T) (LrWpanMac_PlmeSetTRXStateConfirm env st w)"
  unfolding LrWpanMac_PlmeSetTRXStateConfirm_def by (rule keep post_rules | assumption | (simp add: mac_inv_def; fail))+

lemma StartCAP_good [keep]: "mac_good N T w \<Longrightarrow> post (mac_good N T) (LrWpanMac_StartCAP env ty w)"
  unfolding LrWpanMac_StartCAP_def by (rule keep post_rules | assumption | (simp add: mac_inv_def; fail))+

lemma StartCFP_good [keep]: "mac_good N T w \<Longrightarrow> post (mac_good N T) (LrWpanMac_StartCFP env ty w)"
  unfolding LrWpanMac_StartCFP_def by (rule keep post_rules | assumption | (simp add: mac_inv_def; fail))+

lemma StartRemainingPeriod_good [keep]: "mac_good N T w \<Longrightarrow> post (mac_good N T) (LrWpanMac_StartRemainingPeriod env ty w)"
  unfolding LrWpanMac_StartRemainingPeriod_def by (rule keep post_rules | assumption | (simp add: mac_inv_def; fail))+

lemma AwaitBeacon_good [keep]: "mac_good N T w \<Longrightarrow> mac_good N T (LrWpanMac_AwaitBeacon w)"
  unfolding LrWpanMac_AwaitBeacon_def by (rule keep post_rules | assumption | (simp add: mac_inv_def; fail))+

lemma StartSuperframe_good [keep]: "mac_good N T w \<Longrightarrow> post (mac_good N T) (LrWpanMac_StartSuperframe env w)"
  unfolding LrWpanMac_StartSuperframe_def by (rule keep post_rules | assumption | (simp add: mac_inv_def; fail))+

lemma StartMultisuperframe_good [keep]: "mac_good N T w \<Longrightarrow> post (mac_good N T) (LrWpanMac_StartMultisuperframe env ty w)"
  unfolding LrWpanMac_StartMultisuperframe_def LrWpanMac_SetSuperframeIDx_def by (rule keep post_rules | assumption | (simp add: mac_inv_def; fail))+

lemma BeaconSearchTimeout_good [keep]: "mac_good N T w \<Longrightarrow> post (mac_good N T) (LrWpanMac_BeaconSearchTimeout env w)"
  unfolding LrWpanMac_BeaconSearchTimeout_def by (rule keep post_rules | assumption | (simp add: mac_inv_def; fail))+

lemma push_gts_event_good [keep]: "mac_good N T w \<Longrightarrow> post (mac_good N T) (push_gts_event sf w)"
  unfolding push_gts_event_def by (rule keep post_rules | assumption | (simp add: mac_inv_def; fail))+

lemma gts_send_good [keep]: "mac_good N T w \<Longrightarrow> mac_good N T (gts_send w)"
  unfolding gts_send_def by (rule keep post_rules | assumption | (simp add: mac_inv_def; fail))+

lemma gts_group_ack_good [keep]: "mac_good N T w \<Longrightarrow> post (mac_good N T) (gts_group_ack e w)"
  unfolding gts_group_ack_def by (rule keep post_rules | assumption | (simp add: mac_inv_def; fail))+

lemma schedule_vector_good [keep]: "mac_good N T w \<Longrightarrow> post (\<lambda>(es, w). mac_good N T w) (schedule_vector env i es w)"
proof (induction es arbitrary: i w)
  case (Cons e es)
  show ?case
    using Cons.prems unfolding schedule_vector.simps by - (rule Cons.IH keep post_rules | assumption | (simp add: mac_inv_def; fail))+
qed (simp add: post_Some)

lemma schedule_table_good [keep]: "mac_good N T w \<Longrightarrow> post (\<lambda>(t, w). mac_good N T w) (schedule_table env t w)"
proof (induction t arbitrary: w)
  case (Cons x t)
  show ?case
  proof (cases x)
    case (Pair sf es)
    show ?thesis
      unfolding Pair schedule_table.simps using Cons.prems
      by - (rule Cons.IH keep post_rules | assumption | (simp add: mac_inv_def; fail))+
  qed
qed (simp add: post_Some)

lemma ScheduleGts_good [keep]: "mac_good N T w \<Longrightarrow> post (mac_good N T) (LrWpanMac_ScheduleGts env ind w)"
  unfolding LrWpanMac_ScheduleGts_def by (rule keep post_rules | assumption | (simp add: mac_inv_def; fail))+

lemma StartGTS_good [keep]: "mac_good N T w \<Longrightarrow> post (mac_good N T) (LrWpanMac_StartGTS env ty sf i w)"
  unfolding LrWpanMac_StartGTS_def by (rule keep post_rules | assumption | (simp add: mac_inv_def; fail))+

lemma EndGTS_good [keep]: "mac_good N T w \<Longrightarrow> post (mac_good N T) (LrWpanMac_EndGTS ty w)"
  unfolding LrWpanMac_EndGTS_def by (rule keep post_rules | assumption | (simp add: mac_inv_def; fail))+

lemma mcps_frame_good [keep]: "mac_good N T w \<Longrightarrow> post (mac_good N T) (mcps_frame env h a w)"
  unfolding mcps_frame_def by (rule keep post_rules | assumption | (simp add: mac_inv_def; fail))+

lemma McpsDataRequest_good [keep]: "mac_good N T w \<Longrightarrow> post (mac_good N T) (LrWpanMac_McpsDataRequest env params a w)"
  unfolding LrWpanMac_McpsDataRequest_def by (rule keep post_rules | assumption | (simp add: mac_inv_def; fail))+

lemma beacon_sent_good [keep]: "mac_good N T w \<Longrightarrow> post (mac_good N T) (beacon_sent env p w)"
  unfolding beacon_sent_def by (rule keep post_rules | assumption | (simp add: mac_inv_def; fail))+

lemma note_sent_good [keep]: "mac_good N T w \<Longrightarrow> mac_good N T (note_sent h w)"
  unfolding note_sent_def by (rule keep post_rules | assumption | (simp add: mac_inv_def; fail))+

lemma confirm_end_good [keep]: "mac_good N T w \<Longrightarrow> post (mac_good N T) (confirm_end d w)"
  unfolding confirm_end_def by (rule keep post_rules | assumption | (simp add: mac_inv_def; fail))+

lemma PdDataConfirm_good [keep]: "mac_good N T w \<Longrightarrow> post (mac_good N T) (LrWpanMac_PdDataConfirm env st w)"
  unfolding LrWpanMac_PdDataConfirm_def by (rule keep post_rules | assumption | (simp add: mac_inv_def; fail))+

lemma ack_requested_good [keep]: "mac_good N T w \<Longrightarrow> post (mac_good N T) (ack_requested env orig h p w)"
  unfolding ack_requested_def by (rule keep post_rules | assumption | (simp add: mac_inv_def; fail))+

lemma reset_idle_good [keep]: "mac_inv N m \<Longrightarrow> post (mac_inv N) (reset_idle_counter m)"
  unfolding reset_idle_counter_def by (rule keep post_rules | assumption | (simp add: mac_inv_def; fail))+

lemma confirm_acked_good [keep]: "mac_good N T w \<Longrightarrow> mac_good N T (confirm_acked env vs w)"
  by (simp add: confirm_acked_def good_updates)

lemma data_received_good [keep]: "mac_good N T w \<Longrightarrow> post (mac_good N T) (data_received lqi h p w)"
  unfolding data_received_def by (rule keep post_rules | assumption | (simp add: mac_inv_def; fail))+

lemma gack_continue_good [keep]: "mac_good N T w \<Longrightarrow> post (mac_good N T) (gack_continue env w)"
  unfolding gack_continue_def by (rule keep post_rules | assumption | (simp add: mac_inv_def; fail))+

lemma group_ack_received_good [keep]: "mac_good N T w \<Longrightarrow> post (mac_good N T) (group_ack_received env p w)"
  unfolding group_ack_received_def by (rule keep post_rules | assumption | (simp add: mac_inv_def; fail))+

lemma StartRequest_good [keep]: "mac_good N T w \<Longrightarrow> post (mac_good N T) (LrWpanMac_MlmeStartRequest params w)"
  unfolding LrWpanMac_MlmeStartRequest_def by (rule keep post_rules | assumption | (simp add: mac_inv_def; fail))+

lemma SyncRequest_good [keep]: "mac_good N T w \<Longrightarrow> post (mac_good N T) (LrWpanMac_MlmeSyncRequest env params w)"
  unfolding LrWpanMac_MlmeSyncRequest_def by (rule keep post_rules | assumption | (simp add: mac_inv_def; fail))+

lemma EdConfirm_good [keep]: "mac_good N T w \<Longrightarrow> mac_good N T (LrWpanMac_PlmeEdConfirm env level w)"
  unfolding LrWpanMac_PlmeEdConfirm_def by (rule keep post_rules | assumption | (simp add: mac_inv_def; fail))+

lemma SendBeacon_good [keep]: "mac_good N T w \<Longrightarrow> post (mac_good N T) (LrWpanMac_SendOneEnhancedBeacon env a w)"
  unfolding LrWpanMac_SendOneEnhancedBeacon_def by (rule keep post_rules | assumption | (simp add: mac_inv_def; fail))+

lemma start_without_beacons_good [keep]: "mac_good N T w \<Longrightarrow> mac_good N T (start_without_beacons env w)"
  unfolding start_without_beacons_def by (rule keep post_rules | assumption | (simp add: mac_inv_def; fail))+

lemma start_dsme_good [keep]: "mac_inv N m \<Longrightarrow> post (mac_inv N) (start_dsme m)"
  unfolding start_dsme_def start_dsme_spec_def by (rule keep post_rules | assumption | (simp add: mac_inv_def; fail))+

lemma ResizeEvents_good [keep]: "mac_inv N m \<Longrightarrow> post (mac_inv N) (LrWpanMac_ResizeScheduleGTSsEvent bo mo so m)"
  unfolding LrWpanMac_ResizeScheduleGTSsEvent_def by (rule keep post_rules | assumption | (simp add: mac_inv_def; fail))+

lemma start_durations_good [keep]: "mac_inv N m \<Longrightarrow> post (mac_inv N) (start_durations m)"
  unfolding start_durations_def by (rule keep post_rules | assumption | (simp add: mac_inv_def; fail))+

lemma start_tables_good [keep]: "mac_inv N m \<Longrightarrow> post (mac_inv N) (start_tables m)"
  unfolding start_tables_def by (rule keep post_rules | assumption | (simp add: mac_inv_def; fail))+

lemma start_beacons_good [keep]: "mac_good N T w \<Longrightarrow> post (mac_good N T) (start_beacons env w)"
  unfolding start_beacons_def by (rule keep post_rules | assumption | (simp add: mac_inv_def; fail))+

lemma EndStart_good [keep]: "mac_good N T w \<Longrightarrow> post (mac_good N T) (LrWpanMac_EndStartRequest env w)"
  unfolding LrWpanMac_EndStartRequest_def by (rule keep post_rules | assumption | (simp add: mac_inv_def; fail))+

lemma PageConfirm_good [keep]: "mac_good N T w \<Longrightarrow> mac_good N T (LrWpanMac_PlmeSetAttributeConfirm_Page env st w)"
  unfolding LrWpanMac_PlmeSetAttributeConfirm_Page_def by (rule keep post_rules | assumption | (simp add: mac_inv_def; fail))+

lemma ChannelConfirm_good [keep]: "mac_good N T w \<Longrightarrow> post (mac_good N T) (LrWpanMac_PlmeSetAttributeConfirm_Channel env st w)"
  unfolding LrWpanMac_PlmeSetAttributeConfirm_Channel_def by (rule keep post_rules | assumption | (simp add: mac_inv_def; fail))+

lemma beacon_pan_good [keep]: "mac_inv N m \<Longrightarrow> post (mac_inv N) (beacon_pan h ie m)"
  unfolding beacon_pan_def by (rule keep post_rules | assumption | (simp add: mac_inv_def; fail))+

lemma beacon_elements_good [keep]: "mac_good N T w \<Longrightarrow> post (\<lambda>(a, b, c, w). mac_good N T w) (beacon_elements_received env h p pd ie w)"
  unfolding beacon_elements_received_def by (rule keep post_rules | assumption | (simp add: mac_inv_def; fail))+

lemma beacon_superframe_good [keep]: "mac_inv N m \<Longrightarrow> post (mac_inv N) (beacon_superframe sf m)"
  unfolding beacon_superframe_def by (rule keep post_rules | assumption | (simp add: mac_inv_def; fail))+

lemma beacon_slot_good [keep]: "mac_good N T w \<Longrightarrow> post (mac_good N T) (beacon_slot env w)"
  unfolding beacon_slot_def by (rule keep post_rules | assumption | (simp add: mac_inv_def; fail))+

lemma start_inc_cap_good [keep]: "mac_good N T w \<Longrightarrow> post (mac_good N T) (start_inc_cap w)"
  unfolding start_inc_cap_def by (rule keep post_rules | assumption | (simp add: mac_inv_def; fail))+

lemma start_inc_cfp_good [keep]: "mac_good N T w \<Longrightarrow> post (mac_good N T) (start_inc_cfp w)"
  unfolding start_inc_cfp_def by (rule keep post_rules | assumption | (simp add: mac_inv_def; fail))+

lemma beacon_period_good [keep]: "mac_good N T w \<Longrightarrow> post (mac_good N T) (beacon_period env w)"
  unfolding beacon_period_def by (rule keep post_rules | assumption | (simp add: mac_inv_def; fail))+

lemma beacon_of_pan_good [keep]: "mac_good N T w \<Longrightarrow> post (mac_good N T) (beacon_of_pan env h pd sf w)"
  unfolding beacon_of_pan_def by (rule keep post_rules | assumption | (simp add: mac_inv_def; fail))+

lemma beacon_notify_good [keep]: "mac_good N T w \<Longrightarrow> mac_good N T (beacon_notify env h orig p pd w)"
  unfolding beacon_notify_def by (rule keep post_rules | assumption | (simp add: mac_inv_def; fail))+

lemma beacon_tracking_good [keep]: "mac_good N T w \<Longrightarrow> post (mac_good N T) (beacon_tracking env w)"
  unfolding beacon_tracking_def by (rule keep post_rules | assumption | (simp add: mac_inv_def; fail))+

lemma beacon_received_good [keep]: "mac_good N T w \<Longrightarrow> post (mac_good N T) (beacon_received env orig lqi h p w)"
  unfolding beacon_received_def by (rule keep post_rules | assumption | (simp add: mac_inv_def; fail))+

lemma DataIndication_good [keep]: "mac_good N T w \<Longrightarrow> post (mac_good N T) (LrWpanMac_PdDataIndication env p lqi w)"
  unfolding LrWpanMac_PdDataIndication_def by (rule keep post_rules | assumption | (simp add: mac_inv_def; fail))+

lemma gack_transmit_good [keep]: "mac_good N T w \<Longrightarrow> post (mac_good N T) (gack_transmit env a h p w)"
  unfolding gack_transmit_def by (rule keep post_rules | assumption | (simp add: mac_inv_def; fail))+

lemma EnhancedGroupAck_good [keep]: "mac_good N T w \<Longrightarrow> post (mac_good N T) (LrWpanMac_SendEnhancedGroupAck env a w)"
  unfolding LrWpanMac_SendEnhancedGroupAck_def by (rule keep post_rules | assumption | (simp add: mac_inv_def; fail))+

lemma LegacyGroupAck_good [keep]: "mac_good N T w \<Longrightarrow> post (mac_good N T) (LrWpanMac_SendLegacyGroupAck env a w)"
  unfolding LrWpanMac_SendLegacyGroupAck_def by (rule keep post_rules | assumption | (simp add: mac_inv_def; fail))+

subsection \<open>Every run keeps the invariant\<close>

lemma handler_good [keep]: "mac_good N T w \<Longrightarrow> post (mac_good N T) (mac_handler env a c w)"
  by (cases c) (simp_all add: keep post_Some)

lemma turn_good: "mac_good N T w \<Longrightarrow> post (mac_good N T) (mac_turn env a w)"
proof -
  assume w: "mac_good N T w"
  have "mac_good N T v" if turn: "mac_turn env a w = Some v" for v
  proof -
    from turn obtain c s where s: "Simulator_ProcessOneEvent (msim w) = Some (c, s)"
      and v: "(case c of None \<Rightarrow> Some (w\<lparr>msim := s\<rparr>) | Some c \<Rightarrow> mac_handler env a c (w\<lparr>msim := s\<rparr>)) = Some v"
      by (auto simp: mac_turn_def split: bind_splits)
    from w s have "mac_good N T (w\<lparr>msim := s\<rparr>)"
      using ProcessOneEvent_spec(1,2) [OF _ s] by (simp add: mac_good_def)
    then show ?thesis
      using v by (cases c) (auto dest: postD [OF handler_good])
  qed
  then show ?thesis by (simp add: post_def)
qed

lemma wait_good:
  assumes "mac_good N T w" and "m_currentTs (msim w) \<le> t" and "\<forall>e \<in> set (m_events (msim w)). t < fst (ev_key e)"
  shows "mac_good N T (w\<lparr>msim := (msim w)\<lparr>m_currentTs := t\<rparr>\<rparr>)"
  using assms by (auto simp: mac_good_def sim_ok_def less_prod_def)

lemma step_good: "mac_step env w v \<Longrightarrow> mac_good N T w \<Longrightarrow> mac_good N T v"
proof (induction rule: mac_step.induct)
  case (wait w t)
  then show ?case by (blast intro: wait_good)
next
  case (data_request params a w p v)
  from data_request.prems have "mac_good N T (w\<lparr>pkts := (pkts w)(a := p)\<rparr>)" by (rule keep)
  with data_request.hyps show ?case by (blast intro: postD [OF McpsDataRequest_good])
qed (blast intro: postD [OF turn_good] postD [OF StartRequest_good] postD [OF SyncRequest_good] postD [OF SetLrWpanMacState_good]
       postD [OF PdDataConfirm_good] postD [OF DataIndication_good] postD [OF PlmeSetTRXStateConfirm_good]
       postD [OF ChannelConfirm_good] EdConfirm_good PageConfirm_good)+

lemma reach_good: "mac_reach env w v \<Longrightarrow> mac_good N T w \<Longrightarrow> mac_good N T v"
  unfolding mac_reach_def by (induction rule: rtranclp_induct) (auto intro: step_good)

end
