(* ===== verification/Queue_Service.thy ===== *)
theory Queue_Service
  imports Mac_Runs
begin

section \<open>The queue is served\<close>

text \<open>
  A MAC with unslotted CSMA-CA and a PHY and a contention that do what they are asked: round after round
  the packets of the transmit queue are sent, in their order, each confirmed to the layer above.
\<close>

subsection \<open>One round\<close>

text \<open>
  The first packet is contended for and sent; its confirmation starts the interframe space, at whose
  end the queue is looked at again. The own events of the MAC are its turns.
\<close>

definition sending_round :: "mac_env \<Rightarrow> mac_world \<Rightarrow> mac_world option" where
  "sending_round env w = do {
     w \<leftarrow> mac_turn env 0 w;
     w \<leftarrow> LrWpanMac_PlmeSetTRXStateConfirm env IEEE_802_15_4_PHY_RX_ON w;
     w \<leftarrow> LrWpanMac_SetLrWpanMacState CHANNEL_IDLE w;
     w \<leftarrow> LrWpanMac_PlmeSetTRXStateConfirm env IEEE_802_15_4_PHY_TX_ON w;
     w \<leftarrow> LrWpanMac_PdDataConfirm env IEEE_802_15_4_PHY_SUCCESS w;
     w \<leftarrow> mac_turn env 0 w;
     w \<leftarrow> LrWpanMac_PlmeSetTRXStateConfirm env IEEE_802_15_4_PHY_RX_ON w;
     mac_turn env 0 w }"

fun sending_rounds :: "mac_env \<Rightarrow> nat \<Rightarrow> mac_world \<Rightarrow> mac_world option" where
  "sending_rounds env 0 w = Some w"
| "sending_rounds env (Suc n) w = do { w \<leftarrow> sending_round env w; sending_rounds env n w }"

text \<open>A MAC that is idle, with nothing scheduled and no guaranteed slot.\<close>

definition mac_quiet :: "LrWpanMac \<Rightarrow> bool" where
  "mac_quiet m \<longleftrightarrow> m_lrWpanMacState m = MAC_IDLE \<and> LrWpanCsmaCa_IsUnSlottedCsmaCa (m_csmaCa m) \<and> m_macRxOnWhenIdle m \<and>
     m_gtsEvent m = None \<and> m_incGtsEvent m = None \<and> m_scanEnergyEvent m = None \<and> m_macSIFSPeriod m \<noteq> 0 \<and> m_macLIFSPeriod m \<noteq> 0"

definition mac_calm :: "mac_world \<Rightarrow> bool" where
  "mac_calm w \<longleftrightarrow> mac_quiet (mac w) \<and> m_events (msim w) = [] \<and> m_currentUid (msim w) < m_uid (msim w)"

text \<open>A packet whose frame asks for no acknowledgement, and what sending it looks like from outside.\<close>

definition plain_frame :: "mac_env \<Rightarrow> (nat \<Rightarrow> packet) \<Rightarrow> TxQueueElement \<Rightarrow> bool" where
  "plain_frame env ps q \<longleftrightarrow> (\<exists>a h. txQPkt q = Some a \<and> mac_peek env (ps a) = Some h \<and> LrWpanMacHeader_IsData h \<and> \<not> LrWpanMacHeader_IsAckReq h)"

definition sent_outs :: "(nat \<Rightarrow> packet) \<Rightarrow> TxQueueElement \<Rightarrow> mac_out list" where
  "sent_outs ps q = [PlmeSetTRXStateRequest IEEE_802_15_4_PHY_RX_ON, CsmaStart, PlmeSetTRXStateRequest IEEE_802_15_4_PHY_TX_ON,
     PdDataRequest (ps (the (txQPkt q))), McpsDataConfirm (txQMsduHandle q) IEEE_802_15_4_SUCCESS, PlmeSetTRXStateRequest IEEE_802_15_4_PHY_RX_ON]"

text \<open>The queue has been looked at: its first packet is taken up.\<close>

definition mac_loaded :: "mac_world \<Rightarrow> bool" where
  "mac_loaded w \<longleftrightarrow> mac_quiet (mac w) \<and> m_txQueue (mac w) \<noteq> [] \<and> m_txPkt (mac w) = txQPkt (hd (m_txQueue (mac w))) \<and>
     (\<exists>u. m_events (msim w) = [\<lparr>ev_key = (m_currentTs (msim w), u), ev_call = SetLrWpanMacState MAC_CSMA, ev_cancel = False\<rparr>] \<and>
       m_setMacState (mac w) = Some (m_currentTs (msim w), u) \<and> m_currentUid (msim w) < u \<and> u < m_uid (msim w))"

lemma calm_not_running: "m_events (msim w) = [] \<Longrightarrow> \<not> mac_running i w"
  by (simp add: mac_running_def Simulator_IsExpired_def split: option.split)

lemma calm_CheckQueue:
  assumes "mac_calm w"
  shows "\<exists>v. LrWpanMac_CheckQueue w = Some v \<and> m_txQueue (mac v) = m_txQueue (mac w) \<and> mouts v = mouts w \<and> pkts v = pkts w \<and>
    (if m_txQueue (mac w) = [] then v = w else mac_loaded v)"
  using assms calm_not_running [of w]
  by (auto simp: LrWpanMac_CheckQueue_def Let_def mac_calm_def mac_quiet_def mac_loaded_def mac_sched_def Simulator_Schedule_def Simulator_Now_def mac_upd_def)

text \<open>The contention starts.\<close>

lemma loaded_turn:
  assumes "mac_loaded w"
  shows "\<exists>v. mac_turn env a w = Some v \<and> mac v = (mac w)\<lparr>m_lrWpanMacState := MAC_CSMA\<rparr> \<and> m_events (msim v) = [] \<and>
    m_currentUid (msim v) < m_uid (msim v) \<and> m_uid (msim v) = m_uid (msim w) \<and> m_currentTs (msim v) = m_currentTs (msim w) \<and>
    mouts v = mouts w @ [PlmeSetTRXStateRequest IEEE_802_15_4_PHY_RX_ON] \<and> pkts v = pkts w"
  using assms
  by (auto simp: mac_loaded_def mac_quiet_def mac_turn_def Simulator_ProcessOneEvent_def LrWpanMac_SetLrWpanMacState_def
      LrWpanMac_ChangeMacState_def mac_upd_def mac_emit_def Let_def)

text \<open>The frame was sent: the packet is confirmed and leaves the queue.\<close>

lemma plain_confirm:
  assumes "m_lrWpanMacState (mac w) = MAC_SENDING" and "m_txQueue (mac w) = q # rest" and "m_txPkt (mac w) = txQPkt q"
    and "plain_frame env (pkts w) q" and "m_events (msim w) = []" and "m_gtsEvent (mac w) = None" and "m_incGtsEvent (mac w) = None"
    and "m_macSIFSPeriod (mac w) \<noteq> 0" and "m_macLIFSPeriod (mac w) \<noteq> 0" and "rate_ok env" and "env_dataConfirm env"
    and "m_setMacState (mac w) = Some (t, u)" and "u < m_uid (msim w)"
  shows "\<exists>v d. LrWpanMac_PdDataConfirm env IEEE_802_15_4_PHY_SUCCESS w = Some v \<and> d > 0 \<and>
    (\<exists>k1 k2. mac v = (mac w)\<lparr>m_txQueue := rest, m_txPkt := None, m_retransmission := 0, m_numCsmacaRetry := 0, m_ifsEvent := k1, m_setMacState := k2\<rparr>) \<and>
    m_events (msim v) = [\<lparr>ev_key = (m_currentTs (msim w), m_uid (msim w) + 1), ev_call = SetLrWpanMacState MAC_IDLE, ev_cancel = False\<rparr>,
      \<lparr>ev_key = (m_currentTs (msim w) + nat d, m_uid (msim w)), ev_call = IfsWaitTimeout d, ev_cancel = False\<rparr>] \<and>
    m_ifsEvent (mac v) = Some (m_currentTs (msim w) + nat d, m_uid (msim w)) \<and>
    m_uid (msim v) = m_uid (msim w) + 2 \<and> m_currentTs (msim v) = m_currentTs (msim w) \<and>
    mouts v = mouts w @ [McpsDataConfirm (txQMsduHandle q) IEEE_802_15_4_SUCCESS] \<and> pkts v = pkts w"
proof -
  obtain a h where h: "txQPkt q = Some a" "mac_peek env (pkts w a) = Some h" "LrWpanMacHeader_IsData h" "\<not> LrWpanMacHeader_IsAckReq h"
    using assms(4) by (auto simp: plain_frame_def)
  have n: "\<not> LrWpanMacHeader_IsAcknowledgment h" "\<not> LrWpanMacHeader_IsBeacon h" using h(3) by (simp_all add: class_defs)
  define ifs where "ifs = (if length (pkts w a) \<le> aMaxSIFSFrameSize then m_macSIFSPeriod (mac w) else m_macLIFSPeriod (mac w))"
  define d where "d = mac_seconds env (uint ifs)"
  have "ifs \<noteq> 0" using assms(8,9) by (simp add: ifs_def)
  then have "0 < uint ifs" using uint_ge_0 [of ifs] by (simp add: order_less_le uint_0_iff)
  then have d: "d > 0" using tick_pos [OF assms(10)] by (simp add: d_def mac_seconds_def Seconds_tick [OF assms(10)])
  let ?c = "mac_emit (McpsDataConfirm (txQMsduHandle q) IEEE_802_15_4_SUCCESS) w"
  let ?r = "mac_upd (\<lambda>m. m\<lparr>m_txQueue := rest, m_txPkt := None, m_retransmission := 0, m_numCsmacaRetry := 0\<rparr>) ?c"
  have ifs: "LrWpanMac_GetIfsSize ?c = Some ifs"
    using assms(3) h(1) by (simp add: LrWpanMac_GetIfsSize_def deref_def mac_emit_def ifs_def)
  have rem: "LrWpanMac_RemoveFirstTxQElement env ?c = Some ?r"
    using assms(2) h(1,2) by (simp add: LrWpanMac_RemoveFirstTxQElement_def deref_def mac_emit_def mac_upd_def)
  have confirm: "LrWpanMac_PdDataConfirm env IEEE_802_15_4_PHY_SUCCESS w = confirm_end d ?r"
    unfolding LrWpanMac_PdDataConfirm_def using assms(1-3,11) h n ifs rem by (simp add: deref_def d_def)
  let ?t = "m_currentTs (msim w)" and ?n = "m_uid (msim w)"
  let ?e1 = "\<lparr>ev_key = (?t + nat d, ?n), ev_call = IfsWaitTimeout d, ev_cancel = False\<rparr>"
  let ?e2 = "\<lparr>ev_key = (?t, ?n + 1), ev_call = SetLrWpanMacState MAC_IDLE, ev_cancel = False\<rparr>"
  let ?w1 = "?r\<lparr>msim := (msim w)\<lparr>m_uid := ?n + 1, m_events := [?e1]\<rparr>, mac := (mac ?r)\<lparr>m_ifsEvent := Some (?t + nat d, ?n)\<rparr>\<rparr>"
  let ?w2 = "?w1\<lparr>msim := (msim ?w1)\<lparr>m_uid := ?n + 1 + 1, m_events := [?e2, ?e1]\<rparr>, mac := (mac ?w1)\<lparr>m_setMacState := Some (?t, ?n + 1)\<rparr>\<rparr>"
  have "mac_sched d (IfsWaitTimeout d) (\<lambda>k m. m\<lparr>m_ifsEvent := k\<rparr>) ?r = Some ?w1"
    using d assms(5) by (simp add: mac_sched_def Simulator_Schedule_def Simulator_Now_def mac_upd_def mac_emit_def Let_def nat_add_distrib add.commute)
  moreover have "mac_cancel (m_setMacState (mac ?w1)) ?w1 = ?w1"
    using assms(12,13) by (simp add: mac_cancel_def Simulator_Cancel_def Simulator_IsExpired_def mac_upd_def mac_emit_def)
  moreover have "\<not> mac_running (m_gtsEvent (mac ?w1)) ?w1" "\<not> mac_running (m_incGtsEvent (mac ?w1)) ?w1"
    using assms(6,7) by (simp_all add: mac_running_def Simulator_IsExpired_def mac_upd_def mac_emit_def)
  moreover have "mac_sched 0 (SetLrWpanMacState MAC_IDLE) (\<lambda>k m. m\<lparr>m_setMacState := k\<rparr>) ?w1 = Some ?w2"
    using d by (simp add: mac_sched_def Simulator_Schedule_def Simulator_Now_def Let_def)
  ultimately have "confirm_end d ?r = Some ?w2"
    using d unfolding confirm_end_def by (simp only: Let_def bind.bind_lunit if_False if_True simp_thms less_irrefl) simp
  with confirm show ?thesis
    using d by (intro exI [of _ ?w2] exI [of _ d]) (auto simp: mac_upd_def mac_emit_def)
qed

text \<open>The MAC is idle again; the queue waits for the interframe space to end.\<close>

lemma idle_turns:
  assumes "m_events (msim w) = [\<lparr>ev_key = (t, n + 1), ev_call = SetLrWpanMacState MAC_IDLE, ev_cancel = False\<rparr>,
      \<lparr>ev_key = (t + nat d, n), ev_call = IfsWaitTimeout d, ev_cancel = False\<rparr>]"
    and "m_currentTs (msim w) = t" and "m_uid (msim w) = n + 2" and "d > 0"
    and "m_ifsEvent (mac w) = Some (t + nat d, n)" and "m_macRxOnWhenIdle (mac w)"
    and "m_gtsEvent (mac w) = None" and "m_incGtsEvent (mac w) = None" and "m_scanEnergyEvent (mac w) = None"
  shows "\<exists>v. do { w \<leftarrow> mac_turn env a w; w \<leftarrow> LrWpanMac_PlmeSetTRXStateConfirm env IEEE_802_15_4_PHY_RX_ON w; mac_turn env a w } =
      LrWpanMac_CheckQueue v \<and> mac v = (mac w)\<lparr>m_lrWpanMacState := MAC_IDLE\<rparr> \<and> m_events (msim v) = [] \<and>
    m_currentUid (msim v) < m_uid (msim v) \<and> mouts v = mouts w @ [PlmeSetTRXStateRequest IEEE_802_15_4_PHY_RX_ON] \<and> pkts v = pkts w"
proof -
  let ?e = "\<lparr>ev_key = (t + nat d, n), ev_call = IfsWaitTimeout d, ev_cancel = False\<rparr>"
  let ?i = "w\<lparr>msim := (msim w)\<lparr>m_events := [?e], m_currentTs := t, m_currentUid := n + 1\<rparr>,
    mac := (mac w)\<lparr>m_lrWpanMacState := MAC_IDLE\<rparr>, mouts := mouts w @ [PlmeSetTRXStateRequest IEEE_802_15_4_PHY_RX_ON]\<rparr>"
  let ?v = "?i\<lparr>msim := (msim ?i)\<lparr>m_events := [], m_currentTs := t + nat d, m_currentUid := n\<rparr>\<rparr>"
  have "mac_turn env a w = Some ?i"
    using assms(1,2,6) by (simp add: mac_turn_def Simulator_ProcessOneEvent_def LrWpanMac_SetLrWpanMacState_def
        LrWpanMac_ChangeMacState_def mac_upd_def mac_emit_def Let_def)
  moreover have "mac_running (m_ifsEvent (mac ?i)) ?i"
    using assms(4,5) by (simp add: mac_running_def Simulator_IsExpired_def)
  then have "LrWpanMac_CheckQueue ?i = Some ?i"
    unfolding LrWpanMac_CheckQueue_def Let_def by auto
  then have "LrWpanMac_PlmeSetTRXStateConfirm env IEEE_802_15_4_PHY_RX_ON ?i = Some ?i"
    using assms(9) by (simp add: LrWpanMac_PlmeSetTRXStateConfirm_def mac_running_def Simulator_IsExpired_def)
  moreover have "mac_turn env a ?i = LrWpanMac_CheckQueue ?v"
    using assms(7,8) by (simp add: mac_turn_def Simulator_ProcessOneEvent_def LrWpanMac_IfsWaitTimeout_def ifs_in_gts_def
        ifs_forward_def mac_running_def Simulator_IsExpired_def Let_def)
  ultimately show ?thesis
    using assms(3) by (intro exI [of _ ?v]) simp
qed

text \<open>A round sends the first packet and takes up the next one.\<close>

lemma round_sends:
  assumes "mac_loaded w" and "m_txQueue (mac w) = q # rest" and "plain_frame env (pkts w) q" and "rate_ok env" and "env_dataConfirm env"
  shows "\<exists>v. sending_round env w = Some v \<and> m_txQueue (mac v) = rest \<and> mouts v = mouts w @ sent_outs (pkts w) q \<and> pkts v = pkts w \<and>
    (if rest = [] then mac_calm v else mac_loaded v)"
proof -
  obtain u where u: "m_setMacState (mac w) = Some (m_currentTs (msim w), u)" "u < m_uid (msim w)"
    and w: "mac_quiet (mac w)" "m_txPkt (mac w) = txQPkt q"
    using assms(1,2) by (auto simp: mac_loaded_def)
  obtain a where a: "txQPkt q = Some a" using assms(3) by (auto simp: plain_frame_def)
  obtain c where c: "mac_turn env 0 w = Some c" "mac c = (mac w)\<lparr>m_lrWpanMacState := MAC_CSMA\<rparr>" "m_events (msim c) = []"
    "m_currentUid (msim c) < m_uid (msim c)" "m_uid (msim c) = m_uid (msim w)"
    "mouts c = mouts w @ [PlmeSetTRXStateRequest IEEE_802_15_4_PHY_RX_ON]" "pkts c = pkts w"
    using loaded_turn [OF assms(1), of env 0] by blast
  let ?x = "c\<lparr>mac := (mac c)\<lparr>m_lrWpanMacState := MAC_SENDING\<rparr>,
    mouts := mouts c @ [CsmaStart, PlmeSetTRXStateRequest IEEE_802_15_4_PHY_TX_ON, PdDataRequest (pkts w a)]\<rparr>"
  have x: "do { w \<leftarrow> LrWpanMac_PlmeSetTRXStateConfirm env IEEE_802_15_4_PHY_RX_ON c;
      w \<leftarrow> LrWpanMac_SetLrWpanMacState CHANNEL_IDLE w; LrWpanMac_PlmeSetTRXStateConfirm env IEEE_802_15_4_PHY_TX_ON w } = Some ?x"
    using c a w(2) by (simp add: LrWpanMac_PlmeSetTRXStateConfirm_def LrWpanMac_SetLrWpanMacState_def LrWpanMac_ChangeMacState_def
        mac_upd_def mac_emit_def deref_def Let_def)
  obtain y d k1 k2 where y: "LrWpanMac_PdDataConfirm env IEEE_802_15_4_PHY_SUCCESS ?x = Some y" "d > 0"
    "mac y = (mac ?x)\<lparr>m_txQueue := rest, m_txPkt := None, m_retransmission := 0, m_numCsmacaRetry := 0, m_ifsEvent := k1, m_setMacState := k2\<rparr>"
    "m_events (msim y) = [\<lparr>ev_key = (m_currentTs (msim ?x), m_uid (msim ?x) + 1), ev_call = SetLrWpanMacState MAC_IDLE, ev_cancel = False\<rparr>,
      \<lparr>ev_key = (m_currentTs (msim ?x) + nat d, m_uid (msim ?x)), ev_call = IfsWaitTimeout d, ev_cancel = False\<rparr>]"
    "m_ifsEvent (mac y) = Some (m_currentTs (msim ?x) + nat d, m_uid (msim ?x))"
    "m_uid (msim y) = m_uid (msim ?x) + 2" "m_currentTs (msim y) = m_currentTs (msim ?x)"
    "mouts y = mouts ?x @ [McpsDataConfirm (txQMsduHandle q) IEEE_802_15_4_SUCCESS]" "pkts y = pkts ?x"
    using plain_confirm [of ?x q rest env "m_currentTs (msim w)" u] assms c w u by (auto simp: mac_quiet_def)
  obtain z where z: "do { w \<leftarrow> mac_turn env 0 y; w \<leftarrow> LrWpanMac_PlmeSetTRXStateConfirm env IEEE_802_15_4_PHY_RX_ON w; mac_turn env 0 w } =
      LrWpanMac_CheckQueue z" "mac z = (mac y)\<lparr>m_lrWpanMacState := MAC_IDLE\<rparr>" "m_events (msim z) = []"
    "m_currentUid (msim z) < m_uid (msim z)" "mouts z = mouts y @ [PlmeSetTRXStateRequest IEEE_802_15_4_PHY_RX_ON]" "pkts z = pkts y"
    using idle_turns [OF y(4,7,6,2,5), of env 0] w(1) c(2) unfolding y(3) by (auto simp: mac_quiet_def)
  have "mac_calm z" using w(1) z(2-4) y(3) c(2) by (simp add: mac_calm_def mac_quiet_def)
  then obtain v where v: "LrWpanMac_CheckQueue z = Some v" "m_txQueue (mac v) = m_txQueue (mac z)" "mouts v = mouts z" "pkts v = pkts z"
    "if m_txQueue (mac z) = [] then v = z else mac_loaded v"
    using calm_CheckQueue by blast
  have "sending_round env w = LrWpanMac_CheckQueue z"
    using c(1) x y(1) z(1) unfolding sending_round_def by (auto simp: bind_eq_Some_conv)
  then show ?thesis
    using v \<open>mac_calm z\<close> y z(2,5,6) c(6,7) a by (intro exI [of _ v]) (auto simp: sent_outs_def split: if_splits)
qed

lemma rounds_send:
  assumes "if qs = [] then mac_calm w else mac_loaded w" and "m_txQueue (mac w) = qs" and "\<forall>q \<in> set qs. plain_frame env (pkts w) q"
    and "rate_ok env" and "env_dataConfirm env"
  shows "\<exists>v. sending_rounds env (length qs) w = Some v \<and> mac_calm v \<and> m_txQueue (mac v) = [] \<and>
    mouts v = mouts w @ concat (map (sent_outs (pkts w)) qs)"
  using assms
proof (induction qs arbitrary: w)
  case (Cons q qs)
  then obtain x where x: "sending_round env w = Some x" "m_txQueue (mac x) = qs" "mouts x = mouts w @ sent_outs (pkts w) q"
    "pkts x = pkts w" "if qs = [] then mac_calm x else mac_loaded x"
    using round_sends [of w q qs env] by auto
  with Cons.IH [of x] Cons.prems show ?case by auto
qed simp

end
