(* ===== verification/Spectrum.thy ===== *)
theory Spectrum
  imports Complex_Main Packet_Buffer
begin

section \<open>Power spectral densities\<close>

text \<open>
  \<open>LrWpanSpectrumValueHelper\<close>, \<open>LrWpanInterferenceHelper\<close>, \<open>LrWpanErrorModel\<close> and \<open>LrWpanLqiTag\<close>, with what
  they use of \<open>SpectrumValue\<close>. Numbers are rational; the library functions \<open>pow (10., x)\<close> and \<open>exp\<close> are
  parameters. What is shown: the helper of the interference is, in every history, the sum of the signals it
  holds, and the sixteen channels do not touch each other.
\<close>

subsection \<open>Spectrum values\<close>

record BandInfo =
  bi_fl :: rat
  bi_fc :: rat
  bi_fh :: rat

record SpectrumModel =
  sm_uid :: nat
  sm_bands :: "BandInfo list"

record SpectrumValue =
  sv_model :: SpectrumModel
  sv_values :: "rat list"

definition SpectrumValue_new :: "SpectrumModel \<Rightarrow> SpectrumValue" where
  "SpectrumValue_new m = \<lparr>sv_model = m, sv_values = replicate (length (sm_bands m)) 0\<rparr>"

definition SpectrumValue_Add :: "SpectrumValue \<Rightarrow> SpectrumValue \<Rightarrow> SpectrumValue option" where
  "SpectrumValue_Add x v = (
     if sv_model v = sv_model x \<and> length (sv_values v) = length (sv_values x)
     then Some (v\<lparr>sv_values := map2 (+) (sv_values v) (sv_values x)\<rparr>) else None)"

definition SpectrumValue_Subtract :: "SpectrumValue \<Rightarrow> SpectrumValue \<Rightarrow> SpectrumValue option" where
  "SpectrumValue_Subtract x v = (
     if sv_model v = sv_model x \<and> length (sv_values v) = length (sv_values x)
     then Some (v\<lparr>sv_values := map2 (-) (sv_values v) (sv_values x)\<rparr>) else None)"

text \<open>\<open>operator[]\<close>; \<open>at\<close> throws beyond the end.\<close>

definition SpectrumValue_at :: "u32 \<Rightarrow> SpectrumValue \<Rightarrow> rat option" where
  "SpectrumValue_at i v = (if unat i < length (sv_values v) then Some (sv_values v ! unat i) else None)"

definition SpectrumValue_put :: "u32 \<Rightarrow> rat \<Rightarrow> SpectrumValue \<Rightarrow> SpectrumValue option" where
  "SpectrumValue_put i x v = (if unat i < length (sv_values v) then Some (v\<lparr>sv_values := (sv_values v)[unat i := x]\<rparr>) else None)"

subsection \<open>The signals of a channel\<close>

text \<open>The model of the 2.4 GHz band; \<open>uid\<close> is the number that the registration of the model gives it.\<close>

definition lrwpan_band :: "int \<Rightarrow> BandInfo" where
  "lrwpan_band i = (
     let fl = 2400500000 + of_int i * 1000000; fh = 2400500000 + (of_int i + 1) * 1000000
     in \<lparr>bi_fl = fl, bi_fc = (fl + fh) / 2, bi_fh = fh\<rparr>)"

definition g_LrWpanSpectrumModel :: "nat \<Rightarrow> SpectrumModel" where
  "g_LrWpanSpectrumModel uid = \<lparr>sm_uid = uid, sm_bands = map lrwpan_band [-1..82]\<rparr>"

text \<open>The index of a band of a channel is computed with unsigned 32-bit numbers.\<close>

definition channel_band :: "u32 \<Rightarrow> u32" where
  "channel_band channel = 2405 + 5 * (channel - 11) - 2400"

definition LrWpanSpectrumValueHelper_CreateTxPowerSpectralDensity :: "nat \<Rightarrow> (rat \<Rightarrow> rat) \<Rightarrow> rat \<Rightarrow> u32 \<Rightarrow> SpectrumValue option" where
  "LrWpanSpectrumValueHelper_CreateTxPowerSpectralDensity uid pow10 txPower channel = do {
     let txPsd = SpectrumValue_new (g_LrWpanSpectrumModel uid);
     let txPower = pow10 ((txPower - 30) / 10);
     let txPowerDensity = txPower / 2000000;
     if \<not> (11 \<le> channel \<and> channel \<le> 26) then None
     else do {
       txPsd \<leftarrow> SpectrumValue_put (channel_band channel - 2) (txPowerDensity * (5 / 1000)) txPsd;
       txPsd \<leftarrow> SpectrumValue_put (channel_band channel - 1) (txPowerDensity * (495 / 1000)) txPsd;
       txPsd \<leftarrow> SpectrumValue_put (channel_band channel) txPowerDensity txPsd;
       txPsd \<leftarrow> SpectrumValue_put (channel_band channel + 1) (txPowerDensity * (495 / 1000)) txPsd;
       SpectrumValue_put (channel_band channel + 2) (txPowerDensity * (5 / 1000)) txPsd } }"

definition LrWpanSpectrumValueHelper_CreateNoisePowerSpectralDensity :: "nat \<Rightarrow> rat \<Rightarrow> u32 \<Rightarrow> SpectrumValue option" where
  "LrWpanSpectrumValueHelper_CreateNoisePowerSpectralDensity uid noiseFactor channel = do {
     let noisePsd = SpectrumValue_new (g_LrWpanSpectrumModel uid);
     let Nt = 13803 / 10 ^ 27 * 290;
     let noisePowerDensity = noiseFactor * Nt;
     if \<not> (11 \<le> channel \<and> channel \<le> 26) then None
     else do {
       noisePsd \<leftarrow> SpectrumValue_put (channel_band channel - 2) noisePowerDensity noisePsd;
       noisePsd \<leftarrow> SpectrumValue_put (channel_band channel - 1) noisePowerDensity noisePsd;
       noisePsd \<leftarrow> SpectrumValue_put (channel_band channel) noisePowerDensity noisePsd;
       noisePsd \<leftarrow> SpectrumValue_put (channel_band channel + 1) noisePowerDensity noisePsd;
       SpectrumValue_put (channel_band channel + 2) noisePowerDensity noisePsd } }"

definition LrWpanSpectrumValueHelper_TotalAvgPower :: "nat \<Rightarrow> SpectrumValue \<Rightarrow> u32 \<Rightarrow> rat option" where
  "LrWpanSpectrumValueHelper_TotalAvgPower uid psd channel = (
     if sv_model psd \<noteq> g_LrWpanSpectrumModel uid then None
     else do {
       a \<leftarrow> SpectrumValue_at (channel_band channel - 2) psd;
       b \<leftarrow> SpectrumValue_at (channel_band channel - 1) psd;
       c \<leftarrow> SpectrumValue_at (channel_band channel) psd;
       d \<leftarrow> SpectrumValue_at (channel_band channel + 1) psd;
       e \<leftarrow> SpectrumValue_at (channel_band channel + 2) psd;
       Some ((a + b + c + d + e) * 1000000) })"

subsection \<open>Interference\<close>

text \<open>Signals are pointers, which \<open>std::set\<close> keeps in order; \<open>store\<close> is what they point to.\<close>

record LrWpanInterferenceHelper =
  ih_model :: SpectrumModel
  ih_signals :: "nat list"
  ih_signal :: SpectrumValue
  ih_dirty :: bool

definition LrWpanInterferenceHelper_new :: "SpectrumModel \<Rightarrow> LrWpanInterferenceHelper" where
  "LrWpanInterferenceHelper_new m = \<lparr>ih_model = m, ih_signals = [], ih_signal = SpectrumValue_new m, ih_dirty = False\<rparr>"

definition LrWpanInterferenceHelper_AddSignal ::
  "(nat \<Rightarrow> SpectrumValue) \<Rightarrow> nat \<Rightarrow> LrWpanInterferenceHelper \<Rightarrow> (bool \<times> LrWpanInterferenceHelper) option" where
  "LrWpanInterferenceHelper_AddSignal store signal h = (
     if sv_model (store signal) = ih_model h then
       let result = (signal \<notin> set (ih_signals h));
           h = h\<lparr>ih_signals := insort_insert signal (ih_signals h)\<rparr>
       in if result \<and> \<not> ih_dirty h then do {
            v \<leftarrow> SpectrumValue_Add (store signal) (ih_signal h);
            Some (True, h\<lparr>ih_signal := v\<rparr>) }
          else Some (result, h)
     else Some (False, h))"

definition LrWpanInterferenceHelper_RemoveSignal ::
  "(nat \<Rightarrow> SpectrumValue) \<Rightarrow> nat \<Rightarrow> LrWpanInterferenceHelper \<Rightarrow> bool \<times> LrWpanInterferenceHelper" where
  "LrWpanInterferenceHelper_RemoveSignal store signal h = (
     if sv_model (store signal) = ih_model h then
       let result = (signal \<in> set (ih_signals h));
           h = h\<lparr>ih_signals := remove1 signal (ih_signals h)\<rparr>
       in if result then (True, h\<lparr>ih_dirty := True\<rparr>) else (False, h)
     else (False, h))"

definition LrWpanInterferenceHelper_ClearSignals :: "LrWpanInterferenceHelper \<Rightarrow> LrWpanInterferenceHelper" where
  "LrWpanInterferenceHelper_ClearSignals h = h\<lparr>ih_signals := [], ih_dirty := True\<rparr>"

fun add_signals :: "(nat \<Rightarrow> SpectrumValue) \<Rightarrow> nat list \<Rightarrow> SpectrumValue \<Rightarrow> SpectrumValue option" where
  "add_signals store [] v = Some v"
| "add_signals store (it # its) v = do { v \<leftarrow> SpectrumValue_Add (store it) v; add_signals store its v }"

definition LrWpanInterferenceHelper_GetSignalPsd ::
  "(nat \<Rightarrow> SpectrumValue) \<Rightarrow> LrWpanInterferenceHelper \<Rightarrow> (SpectrumValue \<times> LrWpanInterferenceHelper) option" where
  "LrWpanInterferenceHelper_GetSignalPsd store h = do {
     h \<leftarrow> (if ih_dirty h then do {
             v \<leftarrow> add_signals store (ih_signals h) (SpectrumValue_new (ih_model h));
             Some (h\<lparr>ih_signal := v, ih_dirty := False\<rparr>) }
           else Some h);
     Some (ih_signal h, h) }"

subsection \<open>Errors and link quality\<close>

definition binomialCoefficients :: "int list" where
  "binomialCoefficients = [1, -16, 120, -560, 1820, -4368, 8008, -11440, 12870, -11440, 8008, -4368, 1820, -560, 120, -16, 1]"

fun ber_sum :: "(rat \<Rightarrow> rat) \<Rightarrow> rat \<Rightarrow> nat \<Rightarrow> nat \<Rightarrow> rat \<Rightarrow> rat" where
  "ber_sum ex snr k 0 ber = ber"
| "ber_sum ex snr k (Suc n) ber =
     ber_sum ex snr (k + 1) n (ber + of_int (binomialCoefficients ! k) * ex (20 * snr * (1 / of_nat k - 1)))"

definition LrWpanErrorModel_GetChunkSuccessRate :: "(rat \<Rightarrow> rat) \<Rightarrow> rat \<Rightarrow> u32 \<Rightarrow> rat" where
  "LrWpanErrorModel_GetChunkSuccessRate ex snr nbits = (
     let ber = ber_sum ex snr 2 15 0;
         ber = ber * 8 / 15 / 16;
         ber = min ber 1
     in (1 - ber) ^ unat nbits)"

record LrWpanLqiTag =
  m_lqi :: u8

definition LrWpanLqiTag_new :: LrWpanLqiTag where "LrWpanLqiTag_new = \<lparr>m_lqi = 0\<rparr>"

definition LrWpanLqiTag_newOf :: "u8 \<Rightarrow> LrWpanLqiTag" where "LrWpanLqiTag_newOf lqi = \<lparr>m_lqi = lqi\<rparr>"

definition LrWpanLqiTag_Set :: "u8 \<Rightarrow> LrWpanLqiTag \<Rightarrow> LrWpanLqiTag" where "LrWpanLqiTag_Set lqi t = t\<lparr>m_lqi := lqi\<rparr>"

definition LrWpanLqiTag_Get :: "LrWpanLqiTag \<Rightarrow> u8" where "LrWpanLqiTag_Get t = m_lqi t"

definition LrWpanLqiTag_GetSerializedSize :: "LrWpanLqiTag \<Rightarrow> nat" where "LrWpanLqiTag_GetSerializedSize t = 1"

text \<open>A tag buffer is the octets that are left to write or read.\<close>

definition LrWpanLqiTag_Serialize :: "LrWpanLqiTag \<Rightarrow> u8 list \<Rightarrow> u8 list" where "LrWpanLqiTag_Serialize t i = i @ [m_lqi t]"

definition LrWpanLqiTag_Deserialize :: "u8 list \<Rightarrow> LrWpanLqiTag \<Rightarrow> LrWpanLqiTag option" where
  "LrWpanLqiTag_Deserialize i t = (case i of [] \<Rightarrow> None | x # _ \<Rightarrow> Some (t\<lparr>m_lqi := x\<rparr>))"

subsection \<open>The helper is the sum of its signals\<close>

definition sv_ok :: "SpectrumValue \<Rightarrow> bool" where
  "sv_ok v \<longleftrightarrow> length (sv_values v) = length (sm_bands (sv_model v))"

definition psd_of :: "(nat \<Rightarrow> SpectrumValue) \<Rightarrow> SpectrumModel \<Rightarrow> nat set \<Rightarrow> SpectrumValue" where
  "psd_of store m A = \<lparr>sv_model = m, sv_values = map (\<lambda>i. \<Sum>s\<in>A. sv_values (store s) ! i) [0..<length (sm_bands m)]\<rparr>"

lemma psd_of_empty: "psd_of store m {} = SpectrumValue_new m"
  by (simp add: psd_of_def SpectrumValue_new_def map_replicate_const)

lemma psd_of_Add:
  assumes "sv_ok (store s)" and "sv_model (store s) = m" and "finite A" and "s \<notin> A"
  shows "SpectrumValue_Add (store s) (psd_of store m A) = Some (psd_of store m (insert s A))"
  using assms by (auto simp: SpectrumValue_Add_def psd_of_def sv_ok_def add.commute intro!: nth_equalityI)

lemma add_signals_sum:
  assumes "distinct ss" and "\<forall>s \<in> set ss. sv_ok (store s) \<and> sv_model (store s) = m" and "finite A" and "A \<inter> set ss = {}"
  shows "add_signals store ss (psd_of store m A) = Some (psd_of store m (A \<union> set ss))"
  using assms
proof (induction ss arbitrary: A)
  case (Cons s ss)
  then have "SpectrumValue_Add (store s) (psd_of store m A) = Some (psd_of store m (insert s A))" by (intro psd_of_Add) auto
  moreover have "add_signals store ss (psd_of store m (insert s A)) = Some (psd_of store m (insert s A \<union> set ss))"
    using Cons.prems by (intro Cons.IH) auto
  ultimately show ?case by simp
qed simp

definition ih_ok :: "(nat \<Rightarrow> SpectrumValue) \<Rightarrow> LrWpanInterferenceHelper \<Rightarrow> bool" where
  "ih_ok store h \<longleftrightarrow> sorted (ih_signals h) \<and> distinct (ih_signals h) \<and> (\<forall>s \<in> set (ih_signals h). sv_model (store s) = ih_model h) \<and>
     (\<not> ih_dirty h \<longrightarrow> ih_signal h = psd_of store (ih_model h) (set (ih_signals h)))"

lemma new_ok: "ih_ok store (LrWpanInterferenceHelper_new m)"
  by (simp add: ih_ok_def LrWpanInterferenceHelper_new_def psd_of_empty)

lemma AddSignal_ok:
  assumes "ih_ok store h" and "sv_ok (store s)"
  shows "\<exists>r h'. LrWpanInterferenceHelper_AddSignal store s h = Some (r, h') \<and> ih_ok store h' \<and> ih_model h' = ih_model h \<and>
    set (ih_signals h') = (if sv_model (store s) = ih_model h then insert s (set (ih_signals h)) else set (ih_signals h)) \<and>
    (r \<longleftrightarrow> sv_model (store s) = ih_model h \<and> s \<notin> set (ih_signals h))"
proof (cases "sv_model (store s) = ih_model h \<and> s \<notin> set (ih_signals h) \<and> \<not> ih_dirty h")
  case True
  then have "SpectrumValue_Add (store s) (ih_signal h) = Some (psd_of store (ih_model h) (insert s (set (ih_signals h))))"
    using assms by (auto simp: ih_ok_def intro!: psd_of_Add)
  with True assms(1) show ?thesis
    by (auto simp: LrWpanInterferenceHelper_AddSignal_def Let_def ih_ok_def set_insort_insert sorted_insort_insert distinct_insort_insert)
next
  case False
  with assms(1) show ?thesis
    by (auto simp: LrWpanInterferenceHelper_AddSignal_def Let_def ih_ok_def set_insort_insert sorted_insort_insert distinct_insort_insert
        insort_insert_triv insert_absorb)
qed

lemma RemoveSignal_ok:
  assumes "ih_ok store h" and "LrWpanInterferenceHelper_RemoveSignal store s h = (r, h')"
  shows "ih_ok store h' \<and> ih_model h' = ih_model h \<and> set (ih_signals h') = set (ih_signals h) - {s} \<and> (r \<longleftrightarrow> s \<in> set (ih_signals h))"
  using assms
  by (auto simp: LrWpanInterferenceHelper_RemoveSignal_def Let_def ih_ok_def sorted_remove1 remove1_idem split: if_splits
      dest: notin_set_remove1)

lemma GetSignalPsd_ok:
  assumes "ih_ok store h" and "\<forall>s. sv_ok (store s)"
  shows "\<exists>h'. LrWpanInterferenceHelper_GetSignalPsd store h = Some (psd_of store (ih_model h) (set (ih_signals h)), h') \<and>
    ih_ok store h' \<and> ih_model h' = ih_model h \<and> ih_signals h' = ih_signals h"
proof (cases "ih_dirty h")
  case True
  have "add_signals store (ih_signals h) (SpectrumValue_new (ih_model h)) = Some (psd_of store (ih_model h) (set (ih_signals h)))"
    using add_signals_sum [of "ih_signals h" store "ih_model h" "{}"] assms by (simp add: ih_ok_def psd_of_empty)
  with True assms(1) show ?thesis by (simp add: LrWpanInterferenceHelper_GetSignalPsd_def ih_ok_def)
next
  case False
  with assms(1) show ?thesis by (simp add: LrWpanInterferenceHelper_GetSignalPsd_def ih_ok_def)
qed

text \<open>Histories, and the set of signals that they leave.\<close>

datatype ih_op = Add_Signal nat | Remove_Signal nat | Clear_Signals | Get_Psd

fun ih_do :: "(nat \<Rightarrow> SpectrumValue) \<Rightarrow> ih_op \<Rightarrow> LrWpanInterferenceHelper \<Rightarrow> LrWpanInterferenceHelper option" where
  "ih_do store (Add_Signal s) h = map_option snd (LrWpanInterferenceHelper_AddSignal store s h)"
| "ih_do store (Remove_Signal s) h = Some (snd (LrWpanInterferenceHelper_RemoveSignal store s h))"
| "ih_do store Clear_Signals h = Some (LrWpanInterferenceHelper_ClearSignals h)"
| "ih_do store Get_Psd h = map_option snd (LrWpanInterferenceHelper_GetSignalPsd store h)"

fun ih_run :: "(nat \<Rightarrow> SpectrumValue) \<Rightarrow> ih_op list \<Rightarrow> LrWpanInterferenceHelper \<Rightarrow> LrWpanInterferenceHelper option" where
  "ih_run store [] h = Some h"
| "ih_run store (c # cs) h = do { h \<leftarrow> ih_do store c h; ih_run store cs h }"

fun held :: "(nat \<Rightarrow> bool) \<Rightarrow> ih_op list \<Rightarrow> nat set \<Rightarrow> nat set" where
  "held mine [] A = A"
| "held mine (Add_Signal s # cs) A = held mine cs (if mine s then insert s A else A)"
| "held mine (Remove_Signal s # cs) A = held mine cs (A - {s})"
| "held mine (Clear_Signals # cs) A = held mine cs {}"
| "held mine (Get_Psd # cs) A = held mine cs A"

lemma ih_run_ok:
  assumes "ih_ok store h" and "\<forall>s. sv_ok (store s)"
  shows "\<exists>h'. ih_run store cs h = Some h' \<and> ih_ok store h' \<and> ih_model h' = ih_model h \<and>
    set (ih_signals h') = held (\<lambda>s. sv_model (store s) = ih_model h) cs (set (ih_signals h))"
  using assms(1)
proof (induction cs arbitrary: h)
  case (Cons c cs)
  have "\<exists>h'. ih_do store c h = Some h' \<and> ih_ok store h' \<and> ih_model h' = ih_model h \<and>
    held (\<lambda>s. sv_model (store s) = ih_model h) (c # cs) (set (ih_signals h)) =
    held (\<lambda>s. sv_model (store s) = ih_model h) cs (set (ih_signals h'))"
  proof (cases c)
    case (Add_Signal s)
    with AddSignal_ok [OF Cons.prems, of s] assms(2) show ?thesis by auto
  next
    case (Remove_Signal s)
    with RemoveSignal_ok [OF Cons.prems, of s] show ?thesis
      by (cases "LrWpanInterferenceHelper_RemoveSignal store s h") auto
  next
    case Clear_Signals
    then show ?thesis by (simp add: LrWpanInterferenceHelper_ClearSignals_def ih_ok_def)
  next
    case Get_Psd
    with GetSignalPsd_ok [OF Cons.prems assms(2)] show ?thesis by auto
  qed
  then obtain h1 where h1: "ih_do store c h = Some h1" "ih_ok store h1" "ih_model h1 = ih_model h"
    "held (\<lambda>s. sv_model (store s) = ih_model h) (c # cs) (set (ih_signals h)) =
     held (\<lambda>s. sv_model (store s) = ih_model h) cs (set (ih_signals h1))" by blast
  from Cons.IH [OF h1(2)] h1 show ?case by auto
qed simp

subsection \<open>Channels\<close>

lemma channel_index:
  assumes "11 \<le> ch" and "ch \<le> 26"
  shows "unat (channel_band ch - 2) = 5 * (unat ch - 11) + 3" "unat (channel_band ch - 1) = 5 * (unat ch - 11) + 4"
    "unat (channel_band ch) = 5 * (unat ch - 11) + 5" "unat (channel_band ch + 1) = 5 * (unat ch - 11) + 6"
    "unat (channel_band ch + 2) = 5 * (unat ch - 11) + 7" "unat ch - 11 < 16"
proof -
  define k where "k = unat ch - 11"
  have u: "11 \<le> unat ch" "unat ch \<le> 26" using assms by (simp_all add: word_le_nat_alt)
  then have k: "k < 16" by (simp add: k_def)
  have ch: "ch = of_nat (11 + k)" using u by (simp add: k_def)
  have b: "channel_band ch - 2 = of_nat (5 * k + 3)" "channel_band ch - 1 = of_nat (5 * k + 4)" "channel_band ch = of_nat (5 * k + 5)"
    "channel_band ch + 1 = of_nat (5 * k + 6)" "channel_band ch + 2 = of_nat (5 * k + 7)"
    unfolding ch by (simp_all add: channel_band_def)
  have e: "unat (of_nat n :: u32) = n" if "n < 100" for n
    using that by (simp add: unat_of_nat)
  show "unat (channel_band ch - 2) = 5 * (unat ch - 11) + 3" using e [of "5 * k + 3"] k unfolding b(1) k_def [symmetric] by simp
  show "unat (channel_band ch - 1) = 5 * (unat ch - 11) + 4" using e [of "5 * k + 4"] k unfolding b(2) k_def [symmetric] by simp
  show "unat (channel_band ch) = 5 * (unat ch - 11) + 5" using e [of "5 * k + 5"] k unfolding b(3) k_def [symmetric] by simp
  show "unat (channel_band ch + 1) = 5 * (unat ch - 11) + 6" using e [of "5 * k + 6"] k unfolding b(4) k_def [symmetric] by simp
  show "unat (channel_band ch + 2) = 5 * (unat ch - 11) + 7" using e [of "5 * k + 7"] k unfolding b(5) k_def [symmetric] by simp
  show "unat ch - 11 < 16" using k by (simp only: k_def [symmetric])
qed

lemma model_bands: "length (sm_bands (g_LrWpanSpectrumModel uid)) = 84"
  by (simp add: g_LrWpanSpectrumModel_def)

definition watts_in :: "SpectrumValue \<Rightarrow> u32 \<Rightarrow> rat" where
  "watts_in v ch = 1000000 * (\<Sum>j<5. sv_values v ! (5 * (unat ch - 11) + 3 + j))"

lemma sum_five: "(\<Sum>j<5. f j) = f 0 + f 1 + f 2 + f 3 + f (4 :: nat)" for f :: "nat \<Rightarrow> rat"
  by (simp add: eval_nat_numeral)

lemma TotalAvgPower_watts:
  assumes "sv_ok v" and "sv_model v = g_LrWpanSpectrumModel uid" and "11 \<le> ch" and "ch \<le> 26"
  shows "LrWpanSpectrumValueHelper_TotalAvgPower uid v ch = Some (watts_in v ch)"
proof -
  have "length (sv_values v) = 84" using assms(1,2) by (simp add: sv_ok_def model_bands)
  then show ?thesis
    using channel_index [OF assms(3,4)] assms(2)
    by (simp add: LrWpanSpectrumValueHelper_TotalAvgPower_def SpectrumValue_at_def watts_in_def sum_five algebra_simps)
qed

text \<open>The power of a signal is that of its transmission, on its own channel and on no other.\<close>

lemma Tx_watts:
  assumes "11 \<le> ch" and "ch \<le> 26"
  shows "\<exists>v. LrWpanSpectrumValueHelper_CreateTxPowerSpectralDensity uid pow10 txPower ch = Some v \<and> sv_ok v \<and>
    sv_model v = g_LrWpanSpectrumModel uid \<and>
    (\<forall>ch'. 11 \<le> ch' \<and> ch' \<le> 26 \<longrightarrow> watts_in v ch' = (if ch' = ch then pow10 ((txPower - 30) / 10) else 0))"
proof -
  define k where "k = unat ch - 11"
  define d where "d = pow10 ((txPower - 30) / 10) / 2000000"
  define xs where "xs = (replicate 84 (0 :: rat))[5 * k + 3 := d * (5 / 1000), 5 * k + 4 := d * (495 / 1000), 5 * k + 5 := d,
    5 * k + 6 := d * (495 / 1000), 5 * k + 7 := d * (5 / 1000)]"
  note index = channel_index [OF assms, folded k_def]
  have "LrWpanSpectrumValueHelper_CreateTxPowerSpectralDensity uid pow10 txPower ch = Some \<lparr>sv_model = g_LrWpanSpectrumModel uid, sv_values = xs\<rparr>"
    using assms index
    by (simp add: LrWpanSpectrumValueHelper_CreateTxPowerSpectralDensity_def SpectrumValue_new_def SpectrumValue_put_def model_bands xs_def d_def
        Let_def not_le [symmetric])
  moreover have "watts_in \<lparr>sv_model = g_LrWpanSpectrumModel uid, sv_values = xs\<rparr> ch' = (if ch' = ch then pow10 ((txPower - 30) / 10) else 0)"
    if ch': "11 \<le> ch'" "ch' \<le> 26" for ch'
  proof -
    define k' where "k' = unat ch' - 11"
    have k': "k' < 16" using channel_index(6) [OF ch'] by (simp add: k'_def)
    have same: "ch' = ch \<longleftrightarrow> k' = k"
      using assms ch' unfolding k_def k'_def word_le_nat_alt by (auto simp: unat_arith_simps)
    have w: "watts_in \<lparr>sv_model = g_LrWpanSpectrumModel uid, sv_values = xs\<rparr> ch' =
      1000000 * (xs ! (5 * k' + 3) + xs ! (5 * k' + 4) + xs ! (5 * k' + 5) + xs ! (5 * k' + 6) + xs ! (5 * k' + 7))"
      by (simp add: watts_in_def sum_five k'_def algebra_simps)
    consider "k' = k" | "k' < k" | "k < k'" by linarith
    then show ?thesis
    proof cases
      case 1
      then show ?thesis unfolding w same using index(6) by (simp add: xs_def nth_list_update d_def)
    next
      case 2
      then show ?thesis unfolding w same using index(6) k' by (simp add: xs_def nth_list_update)
    next
      case 3
      then show ?thesis unfolding w same using index(6) k' by (simp add: xs_def nth_list_update)
    qed
  qed
  ultimately show ?thesis by (auto simp: sv_ok_def model_bands xs_def)
qed

lemma watts_sum:
  assumes "finite A" and "11 \<le> ch" and "ch \<le> 26"
  shows "watts_in (psd_of store (g_LrWpanSpectrumModel uid) A) ch = (\<Sum>s\<in>A. watts_in (store s) ch)"
proof -
  have "sv_values (psd_of store (g_LrWpanSpectrumModel uid) A) ! (5 * (unat ch - 11) + 3 + j) =
    (\<Sum>s\<in>A. sv_values (store s) ! (5 * (unat ch - 11) + 3 + j))" if "j < 5" for j
    using channel_index(6) [OF assms(2,3)] that by (simp add: psd_of_def model_bands)
  then show ?thesis
    unfolding watts_in_def sum_distrib_left [symmetric] by (simp add: sum.swap [of _ A])
qed

text \<open>Without a signal every second bit is wrong.\<close>

lemma success_at_zero:
  assumes "ex 0 = 1"
  shows "LrWpanErrorModel_GetChunkSuccessRate ex 0 nbits = (1 / 2) ^ unat nbits"
  using assms by (simp add: LrWpanErrorModel_GetChunkSuccessRate_def binomialCoefficients_def eval_nat_numeral)

lemma lqi_tag_roundtrip: "LrWpanLqiTag_Deserialize (LrWpanLqiTag_Serialize t []) u = Some t"
  by (simp add: LrWpanLqiTag_Deserialize_def LrWpanLqiTag_Serialize_def)

end
