(* ===== verification/Phy_Spectrum.thy ===== *)
theory Phy_Spectrum
  imports Phy_State Spectrum
begin

section \<open>The PHY on its spectrum\<close>

text \<open>
  The powers that \<open>LrWpanPhy\<close> computes from spectral densities are parameters in Phy_State. Here they are
  the ones of Spectrum: \<open>radio_env\<close> is the environment of a PHY in a radio channel whose signals are in
  \<open>store\<close>. Only signals of the own channel count.
\<close>

subsection \<open>The computations of powers\<close>

definition watts :: "rat option \<Rightarrow> rat" where
  "watts r = (case r of None \<Rightarrow> 0 | Some x \<Rightarrow> x)"

text \<open>The signals that \<open>m_signal\<close> holds, as the interference helper has them.\<close>

definition interference_of :: "nat \<Rightarrow> nat list \<Rightarrow> LrWpanInterferenceHelper" where
  "interference_of uid sigs = \<lparr>ih_model = g_LrWpanSpectrumModel uid, ih_signals = sort (remdups sigs),
     ih_signal = SpectrumValue_new (g_LrWpanSpectrumModel uid), ih_dirty = True\<rparr>"

text \<open>\<open>TotalAvgPower (m_signal->GetSignalPsd (), channel)\<close>.\<close>

definition signal_power :: "nat \<Rightarrow> (nat \<Rightarrow> SpectrumValue) \<Rightarrow> nat list \<Rightarrow> u8 \<Rightarrow> rat option" where
  "signal_power uid store sigs ch = do {
     (psd, h) \<leftarrow> LrWpanInterferenceHelper_GetSignalPsd store (interference_of uid sigs);
     LrWpanSpectrumValueHelper_TotalAvgPower uid psd (ucast ch) }"

text \<open>What is left of the interference without the signal \<open>s\<close>, with the noise.\<close>

definition interference_power :: "nat \<Rightarrow> rat \<Rightarrow> (nat \<Rightarrow> SpectrumValue) \<Rightarrow> nat list \<Rightarrow> nat \<Rightarrow> u8 \<Rightarrow> u8 \<Rightarrow> rat option" where
  "interference_power uid noiseFactor store sigs s noise ch = do {
     (interferenceAndNoise, h) \<leftarrow> LrWpanInterferenceHelper_GetSignalPsd store (interference_of uid sigs);
     interferenceAndNoise \<leftarrow> SpectrumValue_Subtract (store s) interferenceAndNoise;
     m_noise \<leftarrow> LrWpanSpectrumValueHelper_CreateNoisePowerSpectralDensity uid noiseFactor (ucast noise);
     interferenceAndNoise \<leftarrow> SpectrumValue_Add m_noise interferenceAndNoise;
     LrWpanSpectrumValueHelper_TotalAvgPower uid interferenceAndNoise (ucast ch) }"

definition radio_env :: "nat \<Rightarrow> rat \<Rightarrow> (nat \<Rightarrow> SpectrumValue) \<Rightarrow> 'm phy_env \<Rightarrow> 'm phy_env" where
  "radio_env uid noiseFactor store env = env\<lparr>
     env_power := \<lambda>sigs ch. watts (signal_power uid store sigs ch),
     env_signalPower := \<lambda>s ch. watts (LrWpanSpectrumValueHelper_TotalAvgPower uid (store s) (ucast ch)),
     env_otherPower := \<lambda>sigs s noise ch. watts (interference_power uid noiseFactor store sigs s noise ch)\<rparr>"

subsection \<open>Their values\<close>

lemma wide_channel: "11 \<le> (ucast (ch :: u8) :: u32) \<longleftrightarrow> 11 \<le> ch" "(ucast ch :: u32) \<le> 26 \<longleftrightarrow> ch \<le> 26"
  by (simp_all add: word_le_nat_alt unat_ucast_up)

lemma interference_of_ok:
  assumes "\<forall>t \<in> set sigs. sv_model (store t) = g_LrWpanSpectrumModel uid"
  shows "ih_ok store (interference_of uid sigs)" "ih_model (interference_of uid sigs) = g_LrWpanSpectrumModel uid"
    "set (ih_signals (interference_of uid sigs)) = set sigs"
  using assms by (simp_all add: ih_ok_def interference_of_def)

lemma held_psd:
  assumes "\<forall>t \<in> set sigs. sv_ok (store t) \<and> sv_model (store t) = g_LrWpanSpectrumModel uid"
  shows "\<exists>h. LrWpanInterferenceHelper_GetSignalPsd store (interference_of uid sigs) = Some (psd_of store (g_LrWpanSpectrumModel uid) (set sigs), h)"
proof -
  have "add_signals store (sort (remdups sigs)) (SpectrumValue_new (g_LrWpanSpectrumModel uid)) =
    Some (psd_of store (g_LrWpanSpectrumModel uid) (set sigs))"
    using add_signals_sum [of "sort (remdups sigs)" store "g_LrWpanSpectrumModel uid" "{}"] assms by (simp add: psd_of_empty)
  then show ?thesis by (simp add: LrWpanInterferenceHelper_GetSignalPsd_def interference_of_def)
qed

lemma psd_of_model: "sv_ok (psd_of store m A)" "sv_model (psd_of store m A) = m"
  by (simp_all add: psd_of_def sv_ok_def)

lemma signal_power_sum:
  assumes "\<forall>t \<in> set sigs. sv_ok (store t) \<and> sv_model (store t) = g_LrWpanSpectrumModel uid" and "11 \<le> ch" and "ch \<le> 26"
  shows "signal_power uid store sigs ch = Some (\<Sum>t\<in>set sigs. watts_in (store t) (ucast ch))"
  using held_psd [OF assms(1)] TotalAvgPower_watts [OF psd_of_model, of "ucast ch"] assms(2,3)
  by (auto simp: signal_power_def wide_channel watts_sum)

lemma noise_watts:
  assumes "11 \<le> ch" and "ch \<le> 26"
  shows "\<exists>v. LrWpanSpectrumValueHelper_CreateNoisePowerSpectralDensity uid nf ch = Some v \<and> sv_ok v \<and>
    sv_model v = g_LrWpanSpectrumModel uid \<and> watts_in v ch = 5000000 * (nf * (13803 / 10 ^ 27 * 290))"
proof -
  define k where "k = unat ch - 11"
  define d where "d = nf * (13803 / 10 ^ 27 * 290 :: rat)"
  define xs where "xs = (replicate 84 (0 :: rat))[5 * k + 3 := d, 5 * k + 4 := d, 5 * k + 5 := d, 5 * k + 6 := d, 5 * k + 7 := d]"
  note index = channel_index [OF assms, folded k_def]
  have "LrWpanSpectrumValueHelper_CreateNoisePowerSpectralDensity uid nf ch = Some \<lparr>sv_model = g_LrWpanSpectrumModel uid, sv_values = xs\<rparr>"
    unfolding LrWpanSpectrumValueHelper_CreateNoisePowerSpectralDensity_def Let_def d_def [symmetric]
    using assms index by (simp add: SpectrumValue_new_def SpectrumValue_put_def model_bands xs_def not_le [symmetric])
  moreover have "watts_in \<lparr>sv_model = g_LrWpanSpectrumModel uid, sv_values = xs\<rparr> ch = 5000000 * d"
    using index(6) by (simp add: watts_in_def k_def [symmetric] sum_five xs_def nth_list_update)
  ultimately show ?thesis by (auto simp: sv_ok_def model_bands xs_def d_def)
qed

lemma watts_Add:
  assumes "sv_ok x" and "sv_ok v" and "sv_model x = g_LrWpanSpectrumModel uid" and "sv_model v = g_LrWpanSpectrumModel uid"
  shows "\<exists>u. SpectrumValue_Add x v = Some u \<and> sv_ok u \<and> sv_model u = g_LrWpanSpectrumModel uid \<and>
      (\<forall>ch. 11 \<le> ch \<and> ch \<le> 26 \<longrightarrow> watts_in u ch = watts_in v ch + watts_in x ch)"
    and "\<exists>u. SpectrumValue_Subtract x v = Some u \<and> sv_ok u \<and> sv_model u = g_LrWpanSpectrumModel uid \<and>
      (\<forall>ch. 11 \<le> ch \<and> ch \<le> 26 \<longrightarrow> watts_in u ch = watts_in v ch - watts_in x ch)"
proof -
  have l: "length (sv_values x) = 84" "length (sv_values v) = 84" using assms by (simp_all add: sv_ok_def model_bands)
  have i: "5 * (unat ch - 11) + 7 < 84" if "11 \<le> ch \<and> ch \<le> (26 :: u32)" for ch
    using channel_index(6) [of ch] that by simp
  show "\<exists>u. SpectrumValue_Add x v = Some u \<and> sv_ok u \<and> sv_model u = g_LrWpanSpectrumModel uid \<and>
      (\<forall>ch. 11 \<le> ch \<and> ch \<le> 26 \<longrightarrow> watts_in u ch = watts_in v ch + watts_in x ch)"
    using assms l by (auto simp: SpectrumValue_Add_def sv_ok_def watts_in_def sum_five algebra_simps dest!: i)
  show "\<exists>u. SpectrumValue_Subtract x v = Some u \<and> sv_ok u \<and> sv_model u = g_LrWpanSpectrumModel uid \<and>
      (\<forall>ch. 11 \<le> ch \<and> ch \<le> 26 \<longrightarrow> watts_in u ch = watts_in v ch - watts_in x ch)"
    using assms l by (auto simp: SpectrumValue_Subtract_def sv_ok_def watts_in_def sum_five algebra_simps dest!: i)
qed

lemma interference_power_sum:
  assumes "\<forall>t \<in> set sigs. sv_ok (store t) \<and> sv_model (store t) = g_LrWpanSpectrumModel uid" and "11 \<le> ch" and "ch \<le> 26" and "s \<in> set sigs"
  shows "interference_power uid nf store sigs s ch ch =
    Some ((\<Sum>t\<in>set sigs - {s}. watts_in (store t) (ucast ch)) + 5000000 * (nf * (13803 / 10 ^ 27 * 290)))"
proof -
  let ?m = "g_LrWpanSpectrumModel uid" and ?c = "ucast ch :: u32"
  have c: "11 \<le> ?c" "?c \<le> 26" using assms(2,3) by (simp_all add: wide_channel)
  obtain h where h: "LrWpanInterferenceHelper_GetSignalPsd store (interference_of uid sigs) = Some (psd_of store ?m (set sigs), h)"
    using held_psd [OF assms(1)] by blast
  have s: "sv_ok (store s)" "sv_model (store s) = ?m" using assms(1,4) by auto
  obtain u where u: "SpectrumValue_Subtract (store s) (psd_of store ?m (set sigs)) = Some u" "sv_ok u" "sv_model u = ?m"
    "watts_in u ?c = watts_in (psd_of store ?m (set sigs)) ?c - watts_in (store s) ?c"
    using watts_Add(2) [OF s(1) psd_of_model(1) s(2) psd_of_model(2)] c by blast
  obtain n where n: "LrWpanSpectrumValueHelper_CreateNoisePowerSpectralDensity uid nf ?c = Some n" "sv_ok n" "sv_model n = ?m"
    "watts_in n ?c = 5000000 * (nf * (13803 / 10 ^ 27 * 290))" using noise_watts [OF c] by blast
  obtain x where x: "SpectrumValue_Add n u = Some x" "sv_ok x" "sv_model x = ?m" "watts_in x ?c = watts_in u ?c + watts_in n ?c"
    using watts_Add(1) [OF n(2) u(2) n(3) u(3)] c by blast
  have "(\<Sum>t\<in>set sigs. watts_in (store t) ?c) = watts_in (store s) ?c + (\<Sum>t\<in>set sigs - {s}. watts_in (store t) ?c)"
    using assms(4) by (simp add: sum.remove)
  then have "watts_in x ?c = (\<Sum>t\<in>set sigs - {s}. watts_in (store t) ?c) + watts_in n ?c"
    unfolding x(4) u(4) by (simp add: watts_sum c)
  then show ?thesis
    using h u(1) n(1,4) x(1) TotalAvgPower_watts [OF x(2,3) c] by (simp add: interference_power_def)
qed

end
