(* ===== verification/Net_Device.thy ===== *)
theory Net_Device
  imports Data_Service Phy_State
begin

section \<open>The network device\<close>

text \<open>
  \<open>LrWpanNetDevice\<close>: how the network layer sees the MAC. It makes MAC requests of packets and pseudo
  48-bit addresses of PAN identifiers and short addresses, and hands received packets up. Here are also
  the members and functions of \<open>LrWpanMac\<close> that only the device uses. Addresses of other types are the
  type and the octets that \<open>Address\<close> keeps.
\<close>

subsection \<open>Addresses\<close>

record Address =
  ad_type :: u8
  ad_data :: "u8 list"

text \<open>\<open>Address::Register\<close>; the argument is the last number given.\<close>

definition Address_Register :: "u8 \<Rightarrow> u8" where
  [class_defs]: "Address_Register ty = ty + 1"

definition Address_CheckCompatible :: "u8 \<Rightarrow> nat \<Rightarrow> Address \<Rightarrow> bool" where
  [class_defs]: "Address_CheckCompatible ty len a \<longleftrightarrow> length (ad_data a) = len \<and> ad_type a = ty \<or> length (ad_data a) \<ge> len \<and> ad_type a = 0"

text \<open>Into a buffer of \<open>n\<close> octets; more of them are written behind its end.\<close>

definition Address_CopyTo :: "nat \<Rightarrow> Address \<Rightarrow> u8 list option" where
  [class_defs]: "Address_CopyTo n a = (if length (ad_data a) \<le> n then Some (ad_data a) else None)"

text \<open>The numbers that the three classes of addresses have registered.\<close>

record address_types =
  type16 :: u8
  type48 :: u8
  type64 :: u8

definition types_ok :: "address_types \<Rightarrow> bool" where
  "types_ok t \<longleftrightarrow> distinct [0, type16 t, type48 t, type64 t]"

datatype mac48 = Mac48Address u8 u8 u8 u8 u8 u8

definition Mac16Address_IsMatchingType :: "address_types \<Rightarrow> Address \<Rightarrow> bool" where
  [class_defs]: "Mac16Address_IsMatchingType t a = Address_CheckCompatible (type16 t) 2 a"

definition Mac16Address_ConvertFrom :: "address_types \<Rightarrow> Address \<Rightarrow> mac16 option" where
  "Mac16Address_ConvertFrom t a = (
     if \<not> Address_CheckCompatible (type16 t) 2 a then None
     else case Address_CopyTo 2 a of Some [x, y] \<Rightarrow> Some (Mac16Address x y) | _ \<Rightarrow> None)"

fun Mac16Address_ConvertTo :: "address_types \<Rightarrow> mac16 \<Rightarrow> Address" where
  "Mac16Address_ConvertTo t (Mac16Address x y) = \<lparr>ad_type = type16 t, ad_data = [x, y]\<rparr>"

definition Mac48Address_IsMatchingType :: "address_types \<Rightarrow> Address \<Rightarrow> bool" where
  [class_defs]: "Mac48Address_IsMatchingType t a = Address_CheckCompatible (type48 t) 6 a"

definition Mac48Address_ConvertFrom :: "address_types \<Rightarrow> Address \<Rightarrow> mac48 option" where
  "Mac48Address_ConvertFrom t a = (
     if \<not> Address_CheckCompatible (type48 t) 6 a then None
     else case Address_CopyTo 6 a of Some [a0, a1, a2, a3, a4, a5] \<Rightarrow> Some (Mac48Address a0 a1 a2 a3 a4 a5) | _ \<Rightarrow> None)"

fun Mac48Address_ConvertTo :: "address_types \<Rightarrow> mac48 \<Rightarrow> Address" where
  "Mac48Address_ConvertTo t (Mac48Address a0 a1 a2 a3 a4 a5) = \<lparr>ad_type = type48 t, ad_data = [a0, a1, a2, a3, a4, a5]\<rparr>"

fun Mac64Address_ConvertTo :: "address_types \<Rightarrow> mac64 \<Rightarrow> Address" where
  "Mac64Address_ConvertTo t (Mac64Address a0 a1 a2 a3 a4 a5 a6 a7) = \<lparr>ad_type = type64 t, ad_data = [a0, a1, a2, a3, a4, a5, a6, a7]\<rparr>"

text \<open>\<open>Mac16Address::GetMulticast\<close> takes the last thirteen bits of an IPv6 address.\<close>

definition Mac16Address_GetMulticast :: "u8 list \<Rightarrow> mac16" where
  "Mac16Address_GetMulticast ipv6AddrBuf = Mac16Address (0x80 OR (ipv6AddrBuf ! 14 AND 0x1F)) (ipv6AddrBuf ! 15)"

subsection \<open>State\<close>

datatype PseudoMacAddressMode = RFC4944 | RFC6282

text \<open>Of the objects that the device points to, only whether there are any.\<close>

record LrWpanNetDevice =
  dev_mac :: bool
  dev_phy :: bool
  dev_csmaca :: bool
  dev_node :: bool
  m_dsmeOn :: bool
  m_configComplete :: bool
  m_useAcks :: bool
  m_useGTS :: bool
  m_useDirectTx :: bool
  m_linkUp :: bool
  m_ifIndex :: u32
  m_pseudoMacMode :: PseudoMacAddressMode

datatype LrWpanAssociationStatus = ASSOCIATED | PAN_AT_CAPACITY | PAN_ACCESS_DENIED | HOPPING_SEQ_OFS_DUPLICATION |
  ASSOCIATION_STATUS_FIELD_RESERVED | ASSOCIATED_EBS | FASTA_SUCCESSFUL | ASSOCIATED_WITHOUT_ADDRESS | DISASSOCIATED

text \<open>Members of \<open>LrWpanMac\<close> that nothing else uses.\<close>

record LrWpanMacExtra =
  m_macDSMEcapable :: bool
  m_macHoppingCapable :: bool
  m_macHoppingEnabled :: bool
  m_selfExt :: mac64
  m_recordkey :: "Address \<times> Address"
  m_recordKeys :: "(Address \<times> Address) list"
  m_simpleAddress :: mac8
  m_becomeCoord :: bool
  m_associationStatus :: LrWpanAssociationStatus
  m_maxIndTxQueueSize :: u32
  m_macMaxFrameRetries :: u8
  m_dsmeGtsGackPayloadLength :: u8
  m_dsmeGtsGackPayloads :: "DsmeGtsGackPayload list"
  m_dsmeGtsGroupAckPktBuffer :: "u32 list"

text \<open>What the device calls: the network layer, the listeners to the link, the channel, the random variables.\<close>

datatype dev_out = ReceiveCallback packet u16 Address | MlmeDsmeGtsConfirmNoAck | MlmeDsmeInfoConfirmNoAck | LinkChanges | AddRx | CsmaStream int | PhyStream int

record dev_world =
  ndev :: LrWpanNetDevice
  nmac :: mac_world
  nextra :: LrWpanMacExtra
  nouts :: "dev_out list"

definition dev_emit :: "dev_out \<Rightarrow> dev_world \<Rightarrow> dev_world" where
  "dev_emit out w = w\<lparr>nouts := nouts w @ [out]\<rparr>"

subsection \<open>Functions of the MAC for the device\<close>

definition LrWpanMac_SetDsmeModeEnabled :: "dev_world \<Rightarrow> dev_world option" where
  "LrWpanMac_SetDsmeModeEnabled w = (
     if m_macDSMEcapable (nextra w) then Some (w\<lparr>nmac := mac_upd (\<lambda>m. m\<lparr>m_macDSMEenabled := True\<rparr>) (nmac w)\<rparr>) else None)"

definition LrWpanMac_SetChannelHoppingEnabled :: "dev_world \<Rightarrow> dev_world option" where
  "LrWpanMac_SetChannelHoppingEnabled w = (
     if m_macHoppingCapable (nextra w) then Some (w\<lparr>nextra := (nextra w)\<lparr>m_macHoppingEnabled := True\<rparr>\<rparr>) else None)"

definition LrWpanMac_SetChannelHoppingNotEnabled :: "dev_world \<Rightarrow> dev_world option" where
  "LrWpanMac_SetChannelHoppingNotEnabled w = (
     if m_macHoppingCapable (nextra w) then Some (w\<lparr>nextra := (nextra w)\<lparr>m_macHoppingEnabled := False\<rparr>\<rparr>) else None)"

definition LrWpanMac_GetExtendedAddress :: "LrWpanMacExtra \<Rightarrow> mac64" where
  [class_defs]: "LrWpanMac_GetExtendedAddress x = m_selfExt x"

definition LrWpanMac_ReceiveRecordKeyAndValueIdx :: "Address \<times> Address \<Rightarrow> LrWpanMacExtra \<Rightarrow> LrWpanMacExtra" where
  "LrWpanMac_ReceiveRecordKeyAndValueIdx recordkey x = x\<lparr>m_recordkey := recordkey, m_recordKeys := m_recordKeys x @ [recordkey]\<rparr>"

definition LrWpanMac_SetSimpleAddress :: "mac8 \<Rightarrow> LrWpanMacExtra \<Rightarrow> LrWpanMacExtra" where
  [class_defs]: "LrWpanMac_SetSimpleAddress address x = x\<lparr>m_simpleAddress := address\<rparr>"

definition LrWpanMac_GetSimpleAddress :: "LrWpanMacExtra \<Rightarrow> mac8" where
  [class_defs]: "LrWpanMac_GetSimpleAddress x = m_simpleAddress x"

definition LrWpanMac_SetBecomeCoordAfterAssociation :: "bool \<Rightarrow> LrWpanMacExtra \<Rightarrow> LrWpanMacExtra" where
  [class_defs]: "LrWpanMac_SetBecomeCoordAfterAssociation on x = x\<lparr>m_becomeCoord := on\<rparr>"

definition LrWpanMac_GetAssociationStatus :: "LrWpanMacExtra \<Rightarrow> LrWpanAssociationStatus" where
  [class_defs]: "LrWpanMac_GetAssociationStatus x = m_associationStatus x"

definition LrWpanMac_SetAssociationStatus :: "LrWpanAssociationStatus \<Rightarrow> LrWpanMacExtra \<Rightarrow> LrWpanMacExtra" where
  [class_defs]: "LrWpanMac_SetAssociationStatus status x = x\<lparr>m_associationStatus := status\<rparr>"

definition LrWpanMac_SetIndTxQMaxSize :: "u32 \<Rightarrow> LrWpanMacExtra \<Rightarrow> LrWpanMacExtra" where
  [class_defs]: "LrWpanMac_SetIndTxQMaxSize queueSize x = x\<lparr>m_maxIndTxQueueSize := queueSize\<rparr>"

definition LrWpanMac_GetMacMaxFrameRetries :: "LrWpanMacExtra \<Rightarrow> u8" where
  [class_defs]: "LrWpanMac_GetMacMaxFrameRetries x = m_macMaxFrameRetries x"

definition LrWpanMac_SetMacMaxFrameRetries :: "u8 \<Rightarrow> LrWpanMacExtra \<Rightarrow> LrWpanMacExtra" where
  [class_defs]: "LrWpanMac_SetMacMaxFrameRetries retries x = x\<lparr>m_macMaxFrameRetries := retries\<rparr>"

definition LrWpanMac_SetDsmeGtsPayloadLength :: "u8 \<Rightarrow> LrWpanMacExtra \<Rightarrow> LrWpanMacExtra" where
  [class_defs]: "LrWpanMac_SetDsmeGtsPayloadLength len x = x\<lparr>m_dsmeGtsGackPayloadLength := len\<rparr>"

definition LrWpanMac_ResetDsmeGtsGackPayloads :: "LrWpanMacExtra \<Rightarrow> LrWpanMacExtra" where
  [class_defs]: "LrWpanMac_ResetDsmeGtsGackPayloads x = x\<lparr>m_dsmeGtsGackPayloads := []\<rparr>"

definition LrWpanMac_ResetDsmeGtsGackPayloadLength :: "LrWpanMacExtra \<Rightarrow> LrWpanMacExtra" where
  [class_defs]: "LrWpanMac_ResetDsmeGtsGackPayloadLength x = x\<lparr>m_dsmeGtsGackPayloadLength := 0\<rparr>"

definition LrWpanMac_ResetDsmeGtsGroupAckBuffer :: "LrWpanMacExtra \<Rightarrow> LrWpanMacExtra" where
  [class_defs]: "LrWpanMac_ResetDsmeGtsGroupAckBuffer x = x\<lparr>m_dsmeGtsGroupAckPktBuffer := []\<rparr>"

text \<open>The symbols in which an acknowledgement has to come; \<open>ceil\<close> is of a quotient.\<close>

definition LrWpanMac_GetMacAckWaitDuration :: "mac_env \<Rightarrow> LrWpanMac \<Rightarrow> u64" where
  "LrWpanMac_GetMacAckWaitDuration env m = LrWpanCsmaCa_GetUnitBackoffPeriod (m_csmaCa m) + of_nat phyTurnaroundTime + env_phySHRDuration env +
     of_int (- ((- 6 * fst (env_symbolsPerOctet env)) div snd (env_symbolsPerOctet env)))"

text \<open>\<open>bound\<close> is whether the confirmation has a callback.\<close>

definition LrWpanMac_DsmeGtsAckWaitTimeout :: "bool \<Rightarrow> dev_world \<Rightarrow> dev_world" where
  "LrWpanMac_DsmeGtsAckWaitTimeout bound w = (if bound then dev_emit MlmeDsmeGtsConfirmNoAck w else w)"

definition LrWpanMac_DsmeInfoAckWaitTimeout :: "bool \<Rightarrow> dev_world \<Rightarrow> dev_world" where
  "LrWpanMac_DsmeInfoAckWaitTimeout bound w = (if bound then dev_emit MlmeDsmeInfoConfirmNoAck w else w)"

subsection \<open>Configuration\<close>

text \<open>What \<open>CompleteConfig\<close> connects is what the other theories assume of their callbacks; it switches DSME on.\<close>

definition LrWpanNetDevice_CompleteConfig :: "dev_world \<Rightarrow> dev_world option" where
  "LrWpanNetDevice_CompleteConfig w = (
     let d = ndev w in
     if \<not> dev_mac d \<or> \<not> dev_phy d \<or> \<not> dev_csmaca d \<or> \<not> dev_node d \<or> m_configComplete d then Some w
     else do {
       w \<leftarrow> (if m_dsmeOn d then do {
               w \<leftarrow> LrWpanMac_SetDsmeModeEnabled w;
               LrWpanMac_SetChannelHoppingEnabled w }
             else Some w);
       Some (w\<lparr>ndev := (ndev w)\<lparr>m_configComplete := True\<rparr>\<rparr>) })"

text \<open>The attributes have their defaults; \<open>m_linkUp\<close> and \<open>m_ifIndex\<close> are left to the argument.\<close>

definition LrWpanNetDevice_new :: "dev_world \<Rightarrow> dev_world option" where
  "LrWpanNetDevice_new w = LrWpanNetDevice_CompleteConfig (w\<lparr>ndev := (ndev w)\<lparr>dev_mac := True, dev_phy := True, dev_csmaca := True,
     dev_node := False, m_dsmeOn := True, m_configComplete := False, m_useAcks := True, m_useGTS := False, m_useDirectTx := True,
     m_pseudoMacMode := RFC6282\<rparr>\<rparr>)"

text \<open>A MAC brings its members; \<open>None\<close> is a null pointer, as \<open>given = False\<close> is.\<close>

definition LrWpanNetDevice_SetMac :: "(LrWpanMac \<times> LrWpanMacExtra) option \<Rightarrow> dev_world \<Rightarrow> dev_world option" where
  "LrWpanNetDevice_SetMac m w = LrWpanNetDevice_CompleteConfig (case m of
     None \<Rightarrow> w\<lparr>ndev := (ndev w)\<lparr>dev_mac := False\<rparr>\<rparr>
   | Some (m, x) \<Rightarrow> w\<lparr>ndev := (ndev w)\<lparr>dev_mac := True\<rparr>, nmac := (nmac w)\<lparr>mac := m\<rparr>, nextra := x\<rparr>)"

definition LrWpanNetDevice_SetPhy :: "bool \<Rightarrow> dev_world \<Rightarrow> dev_world option" where
  "LrWpanNetDevice_SetPhy given w = LrWpanNetDevice_CompleteConfig (w\<lparr>ndev := (ndev w)\<lparr>dev_phy := given\<rparr>\<rparr>)"

definition LrWpanNetDevice_SetCsmaCa :: "bool \<Rightarrow> dev_world \<Rightarrow> dev_world option" where
  "LrWpanNetDevice_SetCsmaCa given w = LrWpanNetDevice_CompleteConfig (w\<lparr>ndev := (ndev w)\<lparr>dev_csmaca := given\<rparr>\<rparr>)"

definition LrWpanNetDevice_SetNode :: "bool \<Rightarrow> dev_world \<Rightarrow> dev_world option" where
  "LrWpanNetDevice_SetNode given w = LrWpanNetDevice_CompleteConfig (w\<lparr>ndev := (ndev w)\<lparr>dev_node := given\<rparr>\<rparr>)"

definition LrWpanNetDevice_SetChannel :: "dev_world \<Rightarrow> dev_world option" where
  "LrWpanNetDevice_SetChannel w = (if dev_phy (ndev w) then LrWpanNetDevice_CompleteConfig (dev_emit AddRx w) else None)"

definition LrWpanNetDevice_SetIfIndex :: "u32 \<Rightarrow> dev_world \<Rightarrow> dev_world" where
  [class_defs]: "LrWpanNetDevice_SetIfIndex index w = w\<lparr>ndev := (ndev w)\<lparr>m_ifIndex := index\<rparr>\<rparr>"

definition LrWpanNetDevice_GetIfIndex :: "dev_world \<Rightarrow> u32" where
  [class_defs]: "LrWpanNetDevice_GetIfIndex w = m_ifIndex (ndev w)"

definition LrWpanNetDevice_LinkUp :: "dev_world \<Rightarrow> dev_world" where
  "LrWpanNetDevice_LinkUp w = dev_emit LinkChanges (w\<lparr>ndev := (ndev w)\<lparr>m_linkUp := True\<rparr>\<rparr>)"

definition LrWpanNetDevice_LinkDown :: "dev_world \<Rightarrow> dev_world" where
  "LrWpanNetDevice_LinkDown w = dev_emit LinkChanges (w\<lparr>ndev := (ndev w)\<lparr>m_linkUp := False\<rparr>\<rparr>)"

definition LrWpanNetDevice_IsLinkUp :: "dev_world \<Rightarrow> bool" where
  "LrWpanNetDevice_IsLinkUp w \<longleftrightarrow> dev_phy (ndev w) \<and> m_linkUp (ndev w)"

text \<open>Both random variables get the same stream.\<close>

definition LrWpanNetDevice_AssignStreams :: "int \<Rightarrow> dev_world \<Rightarrow> int \<times> dev_world" where
  "LrWpanNetDevice_AssignStreams stream w = (
     let streamIndex = stream;
         w = dev_emit (CsmaStream stream) w; streamIndex = streamIndex + 1;
         w = dev_emit (PhyStream stream) w; streamIndex = streamIndex + 1
     in (streamIndex - stream, w))"

definition LrWpanNetDevice_SetMcpsDataReqGts :: "bool \<Rightarrow> dev_world \<Rightarrow> dev_world" where
  [class_defs]: "LrWpanNetDevice_SetMcpsDataReqGts enable w = w\<lparr>ndev := (ndev w)\<lparr>m_useGTS := enable\<rparr>\<rparr>"

definition LrWpanNetDevice_SetChannelOffset :: "u16 \<Rightarrow> dev_world \<Rightarrow> dev_world" where
  [class_defs]: "LrWpanNetDevice_SetChannelOffset offset w = w\<lparr>nmac := mac_upd (LrWpanMac_SetChannelOffset offset) (nmac w)\<rparr>"

definition LrWpanNetDevice_SetAsCoordinator :: "dev_world \<Rightarrow> dev_world" where
  [class_defs]: "LrWpanNetDevice_SetAsCoordinator w = w\<lparr>nmac := mac_upd LrWpanMac_SetAsCoordinator (nmac w)\<rparr>"

definition LrWpanNetDevice_PassRecordKeyAndValue :: "Address \<times> Address \<Rightarrow> dev_world \<Rightarrow> dev_world" where
  [class_defs]: "LrWpanNetDevice_PassRecordKeyAndValue recordkey w = w\<lparr>nextra := LrWpanMac_ReceiveRecordKeyAndValueIdx recordkey (nextra w)\<rparr>"

subsection \<open>Its addresses\<close>

fun LrWpanNetDevice_BuildPseudoMacAddress :: "u16 \<Rightarrow> mac16 \<Rightarrow> mac48" where
  "LrWpanNetDevice_BuildPseudoMacAddress panId (Mac16Address x y) = Mac48Address 0 (ucast (panId AND 0xff)) 0 0 x y"

definition LrWpanNetDevice_SetAddress :: "address_types \<Rightarrow> Address \<Rightarrow> dev_world \<Rightarrow> dev_world option" where
  "LrWpanNetDevice_SetAddress t address w = (
     if Mac16Address_IsMatchingType t address then do {
       addr \<leftarrow> Mac16Address_ConvertFrom t address;
       Some (w\<lparr>nmac := mac_upd (LrWpanMac_SetShortAddress addr) (nmac w)\<rparr>) }
     else if Mac48Address_IsMatchingType t address then do {
       addr \<leftarrow> Mac48Address_ConvertFrom t address;
       (case addr of Mac48Address b0 b1 b2 b3 b4 b5 \<Rightarrow>
          let w = w\<lparr>nmac := mac_upd (LrWpanMac_SetShortAddress (Mac16Address b4 b5)) (nmac w)\<rparr>;
              panId = push_bit 8 (ucast b0) OR ucast b1 :: u16
          in Some (w\<lparr>nmac := mac_upd (LrWpanMac_SetPanId panId) (nmac w)\<rparr>)) }
     else None)"

definition LrWpanNetDevice_GetAddress :: "address_types \<Rightarrow> dev_world \<Rightarrow> Address" where
  "LrWpanNetDevice_GetAddress t w = (
     let m = mac (nmac w) in
     if LrWpanMac_GetShortAddress m = Mac16Address 0 0 then Mac64Address_ConvertTo t (LrWpanMac_GetExtendedAddress (nextra w))
     else Mac48Address_ConvertTo t (LrWpanNetDevice_BuildPseudoMacAddress (LrWpanMac_GetPanId m) (LrWpanMac_GetShortAddress m)))"

definition LrWpanNetDevice_GetBroadcast :: "address_types \<Rightarrow> dev_world \<Rightarrow> Address" where
  "LrWpanNetDevice_GetBroadcast t w = Mac48Address_ConvertTo t
     (LrWpanNetDevice_BuildPseudoMacAddress (LrWpanMac_GetPanId (mac (nmac w))) (Mac16Address 0xff 0xff))"

definition LrWpanNetDevice_GetMulticast :: "address_types \<Rightarrow> u8 list \<Rightarrow> dev_world \<Rightarrow> Address" where
  "LrWpanNetDevice_GetMulticast t addr w = Mac48Address_ConvertTo t
     (LrWpanNetDevice_BuildPseudoMacAddress (LrWpanMac_GetPanId (mac (nmac w))) (Mac16Address_GetMulticast addr))"

definition LrWpanNetDevice_GetMtu :: u16 where
  [class_defs]: "LrWpanNetDevice_GetMtu = 114"

subsection \<open>Sending\<close>

text \<open>The short address of a destination: the end of a 48-bit address, or a 16-bit one.\<close>

definition dest_short :: "address_types \<Rightarrow> Address \<Rightarrow> mac16 option" where
  "dest_short t dest = (
     if Mac48Address_IsMatchingType t dest then
       case Address_CopyTo 6 dest of Some [b0, b1, b2, b3, b4, b5] \<Rightarrow> Some (Mac16Address b4 b5) | _ \<Rightarrow> None
     else Mac16Address_ConvertFrom t dest)"

definition dev_request :: "mac16 \<Rightarrow> u8 \<Rightarrow> dev_world \<Rightarrow> McpsDataRequestParams" where
  "dev_request dst16 txOptions w = \<lparr>req_srcAddrMode = SHORTADDR, req_dstAddrMode = SHORTADDR,
     req_dstPanId = LrWpanMac_GetPanId (mac (nmac w)), req_dstAddr = dst16, req_msduHandle = 0, req_txOptions = txOptions\<rparr>"

definition dev_options :: "LrWpanNetDevice \<Rightarrow> u8" where
  "dev_options d = (
     let o1 = (if m_useAcks d then 1 else 0);
         o2 = (if m_useGTS d then o1 OR 2 else o1)
     in if m_useDirectTx d then o2 OR 8 else o2)"

text \<open>The packet is at the address \<open>p\<close>; the protocol number is not used.\<close>

definition LrWpanNetDevice_Send :: "mac_env \<Rightarrow> address_types \<Rightarrow> nat \<Rightarrow> Address \<Rightarrow> dev_world \<Rightarrow> (bool \<times> dev_world) option" where
  "LrWpanNetDevice_Send env t p dest w = (
     if length (pkts (nmac w) p) > unat LrWpanNetDevice_GetMtu then Some (False, w)
     else do {
       dst16 \<leftarrow> dest_short t dest;
       v \<leftarrow> LrWpanMac_McpsDataRequest env (dev_request dst16 (dev_options (ndev w)) w) p (nmac w);
       Some (True, w\<lparr>nmac := v\<rparr>) })"

definition LrWpanNetDevice_SendInGts :: "mac_env \<Rightarrow> address_types \<Rightarrow> nat \<Rightarrow> Address \<Rightarrow> dev_world \<Rightarrow> (bool \<times> dev_world) option" where
  "LrWpanNetDevice_SendInGts env t p dest w = (
     if length (pkts (nmac w) p) > unat LrWpanNetDevice_GetMtu then Some (False, w)
     else do {
       dst16 \<leftarrow> dest_short t dest;
       v \<leftarrow> LrWpanMac_McpsDataRequest env (dev_request dst16 (1 OR 2) w) p (nmac w);
       Some (True, w\<lparr>nmac := v\<rparr>) })"

definition LrWpanNetDevice_SendGACKInGts :: "mac_env \<Rightarrow> address_types \<Rightarrow> nat \<Rightarrow> Address \<Rightarrow> dev_world \<Rightarrow> (bool \<times> dev_world) option" where
  "LrWpanNetDevice_SendGACKInGts env t p dest w = (
     if length (pkts (nmac w) p) > unat LrWpanNetDevice_GetMtu then Some (False, w)
     else do {
       dst16 \<leftarrow> dest_short t dest;
       v \<leftarrow> LrWpanMac_McpsDataRequest env (dev_request dst16 (1 OR 2) w) p (nmac w);
       Some (True, w\<lparr>nmac := v\<rparr>) })"

definition LrWpanNetDevice_TrackCoordinatorBeacon :: "mac_env \<Rightarrow> MlmeSyncRequestParams \<Rightarrow> dev_world \<Rightarrow> dev_world option" where
  "LrWpanNetDevice_TrackCoordinatorBeacon env params w = map_option (\<lambda>v. w\<lparr>nmac := v\<rparr>) (LrWpanMac_MlmeSyncRequest env params (nmac w))"

subsection \<open>Receiving\<close>

text \<open>\<open>srcExtAddr\<close> is the member of the parameters that only frames with long addresses set.\<close>

definition LrWpanNetDevice_McpsDataIndication :: "address_types \<Rightarrow> McpsDataIndicationParams \<Rightarrow> mac64 \<Rightarrow> packet \<Rightarrow> dev_world \<Rightarrow> dev_world" where
  "LrWpanNetDevice_McpsDataIndication t params srcExtAddr pkt w = (
     if ind_dstAddrMode params = SHORTADDR
     then dev_emit (ReceiveCallback pkt 0x86DD (Mac48Address_ConvertTo t (LrWpanNetDevice_BuildPseudoMacAddress (ind_srcPanId params) (ind_srcAddr params)))) w
     else dev_emit (ReceiveCallback pkt 0 (Mac64Address_ConvertTo t srcExtAddr)) w)"

subsection \<open>Addresses come back\<close>

lemma registered_types:
  assumes "a = Address_Register 1" and "b = Address_Register a" and "c = Address_Register b"
  shows "types_ok \<lparr>type16 = a, type48 = b, type64 = c\<rparr>" "types_ok \<lparr>type16 = b, type48 = c, type64 = a\<rparr>"
  using assms by (simp_all add: types_ok_def class_defs)

lemma ConvertFrom_ConvertTo:
  "Mac16Address_ConvertFrom t (Mac16Address_ConvertTo t a) = Some a" "Mac48Address_ConvertFrom t (Mac48Address_ConvertTo t b) = Some b"
  by (cases a; cases b; simp add: Mac16Address_ConvertFrom_def Mac48Address_ConvertFrom_def class_defs)+

lemma matching_types:
  assumes "types_ok t"
  shows "\<not> Mac16Address_IsMatchingType t (Mac48Address_ConvertTo t b)" "Mac48Address_IsMatchingType t (Mac48Address_ConvertTo t b)"
    "\<not> Mac48Address_IsMatchingType t (Mac16Address_ConvertTo t a)" "\<not> Mac16Address_IsMatchingType t (Mac64Address_ConvertTo t c)"
    "\<not> Mac48Address_IsMatchingType t (Mac64Address_ConvertTo t c)"
  using assms by (cases a; cases b; cases c; simp add: types_ok_def class_defs)+

text \<open>A destination is found in a short address and in a pseudo address.\<close>

lemma dest_short_of:
  assumes "types_ok t"
  shows "dest_short t (Mac16Address_ConvertTo t a) = Some a"
    and "dest_short t (Mac48Address_ConvertTo t (LrWpanNetDevice_BuildPseudoMacAddress p a)) = Some a"
proof -
  show "dest_short t (Mac16Address_ConvertTo t a) = Some a"
    unfolding dest_short_def by (simp only: matching_types [OF assms] ConvertFrom_ConvertTo if_False)
  show "dest_short t (Mac48Address_ConvertTo t (LrWpanNetDevice_BuildPseudoMacAddress p a)) = Some a"
    unfolding dest_short_def by (cases a) (simp only: matching_types [OF assms] if_True, simp add: Address_CopyTo_def)
qed

lemma pan_octet: "push_bit 8 (ucast (0 :: u8)) OR ucast (ucast (p AND 0xff) :: u8) = (p AND 0xff :: u16)"
proof -
  have e: "(0xff :: u16) = mask 8" by (simp add: mask_eq_exp_minus_1)
  show ?thesis unfolding e by (rule bit_word_eqI) (auto simp: bit_simps)
qed

lemma GetAddress_short:
  "LrWpanMac_GetShortAddress (mac (nmac w)) \<noteq> Mac16Address 0 0 \<Longrightarrow> LrWpanNetDevice_GetAddress t w =
    Mac48Address_ConvertTo t (LrWpanNetDevice_BuildPseudoMacAddress (m_macPanId (mac (nmac w))) (m_shortAddress (mac (nmac w))))"
  by (simp add: LrWpanNetDevice_GetAddress_def Let_def class_defs)

lemma SetAddress_GetAddress:
  assumes "types_ok t" and "m_shortAddress (mac (nmac w)) \<noteq> Mac16Address 0 0"
  shows "LrWpanNetDevice_SetAddress t (LrWpanNetDevice_GetAddress t w) w = Some (w\<lparr>nmac := mac_upd (\<lambda>m. m\<lparr>m_macPanId := m_macPanId m AND 0xff\<rparr>) (nmac w)\<rparr>)"
proof (cases "m_shortAddress (mac (nmac w))")
  case (Mac16Address x y)
  have g: "LrWpanNetDevice_GetAddress t w = Mac48Address_ConvertTo t (Mac48Address 0 (ucast (m_macPanId (mac (nmac w)) AND 0xff)) 0 0 x y)"
    using GetAddress_short [of w t] assms(2) Mac16Address by (simp add: LrWpanMac_GetShortAddress_def)
  show ?thesis
    unfolding g LrWpanNetDevice_SetAddress_def
    by (simp only: matching_types [OF assms(1)] ConvertFrom_ConvertTo pan_octet mac48.case Let_def if_True if_False bind.bind_lunit)
      (simp add: mac_upd_def class_defs Mac16Address)
qed

subsection \<open>Requests of the device\<close>

lemma dev_options_bits:
  "bit (dev_options d) 0 = m_useAcks d" "bit (dev_options d) (Suc 0) = m_useGTS d" "\<not> bit (dev_options d) 2" "bit (dev_options d) 3 = m_useDirectTx d"
  by (simp_all add: dev_options_def bit_simps bit_numeral_rec)

definition sends_direct :: "mac_env \<Rightarrow> nat \<Rightarrow> dev_world \<Rightarrow> bool" where
  "sends_direct env p w \<longleftrightarrow> rooms (env_room env) \<and> m_useDirectTx (ndev w) \<and> \<not> m_useGTS (ndev w) \<and> length (pkts (nmac w) p) \<le> 114 \<and>
     sim_ok (msim (nmac w)) \<and> length (m_txQueue (mac (nmac w))) < unat (m_maxTxQueueSize (mac (nmac w)))"

definition dev_acks :: "mac16 \<Rightarrow> dev_world \<Rightarrow> bool" where
  "dev_acks dst w \<longleftrightarrow> m_useAcks (ndev w) \<and> \<not> group_address dst \<and> \<not> m_NoACK (mac (nmac w))"

lemma dev_request_short: "short_request (dev_request dst opts w)"
  by (simp add: short_request_def dev_request_def)

lemma dev_request_acks: "asks_ack (dev_request dst (dev_options (ndev w)) w) (mac (nmac w)) = dev_acks dst w"
  by (simp add: asks_ack_def dev_acks_def dev_request_def dev_options_bits)

lemma Send_direct:
  assumes "sends_direct env p w" and "dest_short t dest = Some dst"
  shows "\<exists>v. LrWpanNetDevice_Send env t p dest w = Some (True, w\<lparr>nmac := v\<rparr>) \<and>
    m_txQueue (mac v) = m_txQueue (mac (nmac w)) @ [\<lparr>txQMsduHandle = 0, txQPkt = Some p\<rparr>] \<and> mouts v = mouts (nmac w) \<and>
    LrWpanMac_AddFrame (env_checksum env) (env_room env) (mcps_header env (dev_request dst (dev_options (ndev w)) w) (mac (nmac w))) (pkts (nmac w) p) =
      Some (pkts v p)"
proof -
  let ?r = "dev_request dst (dev_options (ndev w)) w"
  have d: "direct_request ?r"
    using assms(1) dev_request_short by (simp add: direct_request_def sends_direct_def) (simp add: dev_request_def dev_options_bits)
  have "rooms (env_room env)" "length (pkts (nmac w) p) \<le> 65000" "sim_ok (msim (nmac w))"
    "length (m_txQueue (mac (nmac w))) < unat (m_maxTxQueueSize (mac (nmac w)))"
    using assms(1) by (simp_all add: sends_direct_def)
  from request_queued [OF this(1) d this(2-4)] obtain v where v: "LrWpanMac_McpsDataRequest env ?r p (nmac w) = Some v"
    "m_txQueue (mac v) = m_txQueue (mac (nmac w)) @ [\<lparr>txQMsduHandle = 0, txQPkt = Some p\<rparr>]" "mouts v = mouts (nmac w)"
    "LrWpanMac_AddFrame (env_checksum env) (env_room env) (mcps_header env ?r (mac (nmac w))) (pkts (nmac w) p) = Some (pkts v p)"
    by (auto simp: dev_request_def)
  then show ?thesis
    using assms by (intro exI [of _ v]) (simp add: LrWpanNetDevice_Send_def sends_direct_def class_defs)
qed

text \<open>The PAN of the destination is the own one, so that its identifier is written once: eleven octets are added.\<close>

lemma dev_frame:
  assumes "rooms (env_room env)" and "length p \<le> 65000"
    and "LrWpanMac_AddFrame checksum (env_room env) (mcps_header env (dev_request dst opts w) (mac (nmac w))) p = Some q"
  shows "length q = length p + 11"
    and "mac_peek env q = Some (mac_rebuilt (LrWpanMacHeader_new (env_mem env)) (mcps_header env (dev_request dst opts w) (mac (nmac w))))"
proof -
  let ?h = "mcps_header env (dev_request dst opts w) (mac (nmac w))"
  have ok: "mac_ok (env_rtl env) ?h" by (rule mcps_header_fields(13) [OF dev_request_short])
  have "length (mac_wire ?h) = LrWpanMacHeader_GetSerializedSize ?h" using mac.size_wire [OF ok] by simp
  also have "\<dots> = 9"
    using mcps_header_fields(3-6,12) [OF dev_request_short, of env dst opts w "mac (nmac w)"]
    by (simp add: LrWpanMacHeader_GetSerializedSize_def class_defs Let_def dev_request_def)
  finally have n: "length (mac_wire ?h) = 9" .
  from AddFrame_wire [OF assms(1) ok, of p checksum] assms(2,3) n
  have q: "q = mac_wire ?h @ p @ le16 (if checksum then crc_serial (mac_wire ?h @ p) else 0)" by simp
  show "length q = length p + 11" unfolding q by (simp add: n)
  show "mac_peek env q = Some (mac_rebuilt (LrWpanMacHeader_new (env_mem env)) ?h)"
    unfolding q mac_peek_def using mac.peek_header [OF ok] by simp
qed

end
