(* ===== verification/Samples_Device.thy ===== *)
theory Samples_Device
  imports Samples_Mac Net_Device
begin

section \<open>Devices to compute with\<close>

text \<open>Two devices of PAN 7, as they are configured by default and without acknowledgements, and registered types of addresses.\<close>

definition sample_types :: address_types where
  "sample_types = \<lparr>type16 = 2, type48 = 3, type64 = 4\<rparr>"

definition sample_device_of :: "mac16 \<Rightarrow> bool \<Rightarrow> dev_world" where
  "sample_device_of a acks = \<lparr>ndev = \<lparr>dev_mac = True, dev_phy = True, dev_csmaca = True, dev_node = True, m_dsmeOn = True, m_configComplete = True,
       m_useAcks = acks, m_useGTS = False, m_useDirectTx = True, m_linkUp = False, m_ifIndex = 0, m_pseudoMacMode = RFC6282\<rparr>,
     nmac = sample_station a,
     nextra = \<lparr>m_macDSMEcapable = True, m_macHoppingCapable = True, m_macHoppingEnabled = True, m_selfExt = Mac64Address 0 0 0 0 0 0 0 1,
       m_recordkey = (\<lparr>ad_type = 0, ad_data = []\<rparr>, \<lparr>ad_type = 0, ad_data = []\<rparr>), m_recordKeys = [],
       m_simpleAddress = Mac8Address 0xff, m_becomeCoord = False, m_associationStatus = ASSOCIATED, m_maxIndTxQueueSize = 0, m_macMaxFrameRetries = 6,
       m_dsmeGtsGackPayloadLength = 0, m_dsmeGtsGackPayloads = [], m_dsmeGtsGroupAckPktBuffer = []\<rparr>,
     nouts = []\<rparr>"

lemma sample_types_ok: "types_ok sample_types"
  by (simp add: types_ok_def sample_types_def)

lemma sample_sends: "sends_direct (sample_env hm cm) 0 (sample_device_of a acks)"
  by (simp add: sends_direct_def sample_rooms sample_device_of_def) (simp add: sample_station_def sim_ok_new blank_mac_def LrWpanMac_new_def)

lemma sample_mac_of:
  "nmac (sample_device_of a acks) = sample_station a" "m_useAcks (ndev (sample_device_of a acks)) = acks" "nouts (sample_device_of a acks) = []"
  "m_useDirectTx (ndev (sample_device_of a acks))" "\<not> m_useGTS (ndev (sample_device_of a acks))"
  by (simp_all add: sample_device_of_def)

lemma sample_station_of:
  "m_macPanId (mac (sample_station a)) = 7" "m_shortAddress (mac (sample_station a)) = a" "pkts (sample_station a) x = [1, 2, 3]"
  "mouts (sample_station a) = []" "\<not> m_NoACK (mac (sample_station a))" "sim_ok (msim (sample_station a))"
  "length (m_txQueue (mac (sample_station a))) < unat (m_maxTxQueueSize (mac (sample_station a)))"
  by (simp_all add: sample_station_def sim_ok_new blank_mac_def LrWpanMac_new_def)

lemma sample_dest: "dest_short sample_types (Mac16Address_ConvertTo sample_types a) = Some a"
  by (rule dest_short_of(1) [OF sample_types_ok])

end
