(* ===== verification/Spec2Isabelle.thy ===== *)
theory Spec2Isabelle
  imports Frames Eb_Filter Csma_Contention Group_Ack_Hash Group_Ack_Send Samples Dsme_Schedule Data_Service Start_Service Samples_Mac Mac_Phy Samples_Phy Mac_Runs Queue_Service Phy_Spectrum Samples_Device
begin

text \<open>
  The IEEE 802.15.4e DSME medium access layer that this repository adds to the ns-3 simulator
  (\<open>src/lr-wpan/model\<close>), from the octets of its frames to the transceiver below it.

  The program. A \<open>LrWpanMac\<close> (\<open>lr-wpan-mac.cc\<close>) is driven by events of the simulator, by the primitives
  of the layer above, which its \<open>LrWpanNetDevice\<close> (\<open>lr-wpan-net-device.cc\<close>) calls, and by the callbacks
  of its \<open>LrWpanPhy\<close> (\<open>lr-wpan-phy.cc\<close>). Coordinators send
  enhanced beacons that announce the superframe structure; devices follow them, contend for the
  channel in the contention access period with \<open>LrWpanCsmaCa\<close> (\<open>lr-wpan-csmaca.cc\<close>) and use the
  guaranteed slots (DSME-GTS) of their allocation table in the contention free period; received
  frames are acknowledged in groups. Frames are headers, trailers and information elements
  (\<open>lr-wpan-mac-header\<close>, \<open>lr-wpan-mac-trailer\<close>, \<open>lr-wpan-mac-pl-headers\<close>, \<open>lr-wpan-fields\<close>) that
  are serialized into the \<open>Packet\<close> and \<open>Buffer\<close> of the simulator.

  How it is modelled. A class is a record with the names of its members, a member function
  \<open>C::f\<close> is the definition \<open>C_f\<close> with the object as last argument and result; integers are words of
  their width, and lengths of vectors natural numbers. An operation that can fail an assertion,
  abort, read out of bounds or dereference a null pointer has an option as result, where \<open>None\<close> is
  that failure. Members that a constructor leaves uninitialized come from an argument \<open>mem\<close>. Times
  are nanoseconds. What an object asks of others is recorded in order (\<open>mouts\<close>, \<open>pouts\<close>) or passed
  to a callback; what it reads of others is in an environment record (\<open>mac_env\<close>, \<open>phy_env\<close>). The
  packets that the queue and the buffers share are addresses into a store. Logs, traces and \<open>Print\<close>
  functions are left out.

  The theories.
  LrWpan_Prelude has the shared types, bit fields and the collection \<open>class_defs\<close>. Packet_Buffer has
  packets, buffer iterators, \<open>AddHeader\<close> and its relatives, and the interfaces of everything that is
  serialized: \<open>header_codec\<close> (announced size, octets written and octets consumed agree),
  \<open>lossless_codec\<close> (the object comes back) and \<open>codec_stack\<close> (one codec behind another).
  Superframe_Fields, Address_Fields, Dsme_Fields (with the interface \<open>slot_set\<close> of the bitmaps) and
  Gts_Fields are the fields of \<open>lr-wpan-fields\<close>; Mac_Header, Mac_Trailer (with the check sequence),
  Information_Elements, Eb_Filter, Group_Ack_Elements and Mac_Payloads are headers, elements and
  commands. For each there is the octet string it stands for (\<open>_wire\<close>), when it may be written
  (\<open>_ok\<close>), what is read back (\<open>_rebuilt\<close>, where that is not the object itself), and an interpretation
  of its interface. Frames puts header, payload and trailer together as the MAC does.
  Event_Queue is the simulator's queue (\<open>default-simulator-impl.cc\<close>, \<open>map-scheduler.cc\<close>) with its
  contract \<open>event_queue\<close>. Csma_Ca is \<open>LrWpanCsmaCa\<close>; Csma_Contention has its slot arithmetic, the
  refinement of an abstract contention and the invariant of all its runs, a step relation.
  Mac_State is the state of \<open>LrWpanMac\<close>; Dsme_Table its allocation table, Dsme_Schedule the scheduling
  of slots, Mac_Queue the transmit queue and the changes of state, Superframes the timers of the
  superframe structure, Mac_Data the data service, Mac_Beacons the start of a PAN, enhanced beacons
  and their reception, Group_Ack_Hash and Group_Ack_Send the group acknowledgements.
  Data_Service, Beacon_Service and Start_Service prove what those services promise end to end; Mac_Runs
  has the runs of the whole MAC as a step relation, with an invariant that every handler keeps, and
  Queue_Service the rounds in which it serves its queue.
  Net_Device is \<open>LrWpanNetDevice\<close> with the addresses of the network layer.
  Phy_State is \<open>LrWpanPhy\<close>; Phy_Service has its invariant, under the interface \<open>phy_user\<close> of what the
  MAC may do in a callback, and its times; Mac_Phy puts the MAC above it, with the MAC's handlers as
  the callbacks, and interprets the interface for it. Spectrum has the spectral densities, the sum of
  the interference (\<open>lr-wpan-interference-helper.cc\<close>, \<open>lr-wpan-spectrum-value-helper.cc\<close>), the error model
  and the LQI tag; Phy_Spectrum puts them in the place of the parameters of Phy_State.
  Samples, Samples_Mac, Samples_Device and Samples_Phy are concrete objects to which the properties are applied.

  What is shown. Encoding: frames, commands and beacons survive their own format, damaged frames are
  dropped, and the places where the format loses data. Contention: waits end on slot boundaries, each
  contention is decided, one event at a time drives it. Slots: every entry is scheduled once, both
  ends of a slot meet in time and channel, slots do not overlap and come back, and what purging and
  CAP reduction break. Superframes: the periods fill sixteen slots, beacons come every interval, a
  new coordinator sends its first beacon in time, a lost coordinator is noticed. Data: a request
  reaches the receiver's upper layer, through the devices too, the MTU fits the PHY, and no run of the
  MAC exceeds the transmit queue, which drains when the channel is free. Acknowledgements: when verdicts are right and when not, and that a
  device as it is configured by default blocks. Radio: the interference is the sum of the signals, and
  channels do not interfere.
  PHY: at most one switch of the transceiver is under way, a frame of the MAC goes through in the
  time the MAC computes, and the states the code cannot leave.

  Bounds. Recursions follow lists, except \<open>purge_loop\<close> and the reading of a PIB filter (\<open>readPIBIds\<close>),
  loops with their termination proofs, and the quadratic probing of the group acknowledgement table
  (\<open>LrWpanMac_DoQuadraticProb\<close>), which may not end and is a partial function. The callbacks of Mac_Phy are
  nested: \<open>stack_env\<close> takes a depth, beyond which the result is \<open>None\<close>; two levels are what a
  transmission needs (the MAC answers, the channel is told), and the invariant holds for every depth.

  Parameters. The hash of the group acknowledgement table is any function, the octets a buffer holds
  before they are written are \<open>env_room\<close>, random draws are arguments. In Phy_State the powers, the error
  models and the logarithmic part of the energy level are parameters, in Spectrum the functions \<open>pow\<close> and \<open>exp\<close>; floating point numbers are rational ones, so
  that rounding is not modelled.

  Not modelled. Tags but that of the LQI, metadata and fragmentation of packets; the helpers;
  \<open>TypeId\<close> registration, setters of callbacks and references between objects, initialisation and disposal of objects; backup copies of the MAC that
  are not compiled; and the modules of the base simulator, which this repository takes over.
\<close>

section \<open>Properties\<close>

text \<open>
  C1: A data frame that \<open>McpsDataRequest\<close> has completed with header and trailer is taken apart by
  \<open>PdDataIndication\<close> into the same payload and a header with the same type, sequence number,
  destination and source (PAN identifier, mode and address), also when the source PAN
  identifier was elided, whether or not checksums are enabled, and whatever the memory held.
\<close>

theorem frame_roundtrip:
  assumes "rooms room" and "mac_ok rtl h" and "pan_consistent h"
    and "LrWpanMacHeader_GetSerializedSize h + length p < 65536"
  shows "\<exists>g. do { q \<leftarrow> LrWpanMac_AddFrame checksum room h p; LrWpanMac_RemoveFrame checksum rtl mem q } = Some (Some (g, p)) \<and>
    LrWpanMacHeader_GetType g = LrWpanMacHeader_GetType h \<and> LrWpanMacHeader_GetSeqNum g = LrWpanMacHeader_GetSeqNum h \<and>
    dst_addr g = dst_addr h \<and> src_addr g = src_addr h"
proof -
  have "length (mac_wire h @ p) < 65536" using assms(4) mac.size_wire [OF assms(2)] by simp
  from frame_delivered [OF assms(1,2) this, of checksum mem] show ?thesis
    using src_addr_rebuilt [OF assms(2,3)]
    by (intro exI [of _ "mac_rebuilt (LrWpanMacHeader_new mem) h"])
      (simp add: dst_addr_rebuilt type_rebuilt LrWpanMacHeader_GetSeqNum_def)
qed

lemma frame_roundtrip_witness:
  "\<forall>mem h. \<exists>g. do { q \<leftarrow> LrWpanMac_AddFrame True zeros (sample_data h) [1, 2, 3]; LrWpanMac_RemoveFrame True False mem q } =
      Some (Some (g, [1, 2, 3])) \<and> LrWpanMacHeader_GetType g = LRWPAN_MAC_DATA \<and> LrWpanMacHeader_GetSeqNum g = 7 \<and>
      src_addr g = AddrShort 0x1234 (Mac16Address 0 2)"
proof (intro allI)
  fix mem h
  have s: "LrWpanMacHeader_GetType (sample_data h) = LRWPAN_MAC_DATA" "LrWpanMacHeader_GetSeqNum (sample_data h) = 7"
    "src_addr (sample_data h) = AddrShort 0x1234 (Mac16Address 0 2)"
    by (simp_all add: sample_data_def class_defs LrWpanMacHeader_newTyped_def LrWpanMacHeader_GetType_def src_addr_def)
  show "\<exists>g. do { q \<leftarrow> LrWpanMac_AddFrame True zeros (sample_data h) [1, 2, 3]; LrWpanMac_RemoveFrame True False mem q } =
      Some (Some (g, [1, 2, 3])) \<and> LrWpanMacHeader_GetType g = LRWPAN_MAC_DATA \<and> LrWpanMacHeader_GetSeqNum g = 7 \<and>
      src_addr g = AddrShort 0x1234 (Mac16Address 0 2)"
    using frame_roundtrip [OF rooms_zeros sample_data_ok(1,2), of h "[1, 2, 3]" True False mem]
    by (auto simp: sample_data_ok(3) s)
qed

text \<open>
  C2: With checksums enabled, a frame in which one octet or two adjacent octets changed on the way,
  in the header, the payload, the frame check sequence or across its start, never gets past the
  first level of filtering of \<open>PdDataIndication\<close>.
\<close>

theorem corrupted_frame_dropped:
  assumes "rooms room" and "mac_ok rtl h" and "LrWpanMacHeader_GetSerializedSize h + length p < 65536"
    and "LrWpanMac_AddFrame True room h p = Some q" and "length es = length q" and "burst es"
  shows "LrWpanMac_RemoveFrame True rtl mem (xor_octets q es) = Some None"
proof -
  have "length (mac_wire h @ p) < 65536" using assms(3) mac.size_wire [OF assms(2)] by simp
  from frame_corrupted_dropped [OF assms(1,2) this assms(4-6)] show ?thesis .
qed

lemma corrupted_frame_dropped_witness:
  "\<forall>mem h. \<exists>q. LrWpanMac_AddFrame True zeros (sample_data h) [9] = Some q \<and>
      LrWpanMac_RemoveFrame True False mem (xor_octets q (replicate 9 0 @ [4, 1] @ replicate 1 0)) = Some None"
proof (intro allI)
  fix mem h
  let ?q = "mac_wire (sample_data h) @ [9] @ le16 (crc_serial (mac_wire (sample_data h) @ [9]))"
  have len: "length (mac_wire (sample_data h)) = 9" using mac.size_wire [OF sample_data_ok(1)] by (simp add: sample_data_ok(3))
  have q: "LrWpanMac_AddFrame True zeros (sample_data h) [9] = Some ?q"
    using AddFrame_wire [OF rooms_zeros sample_data_ok(1), of h "[9]" True] by (simp add: len)
  have "burst (replicate 9 0 @ [4, 1] @ replicate 1 0)" unfolding burst_def
    by (intro exI [of _ 9] exI [of _ 4] exI [of _ 1]) simp
  then show "\<exists>q. LrWpanMac_AddFrame True zeros (sample_data h) [9] = Some q \<and>
      LrWpanMac_RemoveFrame True False mem (xor_octets q (replicate 9 0 @ [4, 1] @ replicate 1 0)) = Some None"
    using corrupted_frame_dropped [OF rooms_zeros sample_data_ok(1) _ q] q by (simp add: sample_data_ok(3) len)
qed

text \<open>
  C3: \<open>GenerateCrc16\<close>, which folds a whole octet at a time with shifts and exclusive ors, computes
  for every input the bit-serial CRC of the standard (generator \<open>x^16 + x^12 + x^5 + 1\<close>, least
  significant bit first, register initially zero).
\<close>

theorem crc_is_the_standard_one:
  "LrWpanMacTrailer_GenerateCrc16 bs (length bs) = Some (crc_serial bs)"
  by (rule GenerateCrc16_serial)



text \<open>
  C5: A MAC command on which \<open>GetSerializedSize\<close>, \<open>Serialize\<close> and \<open>Deserialize\<close> agree, put behind a
  MAC header, is recovered: the packet behind it is untouched, the octets consumed are those
  announced, the command is recognised, and the receiving object holds everything that was
  sent: serialised again it gives the same octets.
\<close>

theorem command_roundtrip:
  assumes "mac_ok rtl h" and "cmd_ok f" and "cmd_ready f0 f" and "cmd_fresh f0"
    and "length fresh1 = LrWpanMacHeader_GetSerializedSize h" and "length fresh2 = CommandPayloadHeader_GetSerializedSize f"
  shows "\<exists>h' f'. do {
      p \<leftarrow> AddHeader fresh2 CommandPayloadHeader_Serialize f p;
      p \<leftarrow> AddHeader fresh1 LrWpanMacHeader_Serialize h p;
      (h', n, p) \<leftarrow> RemoveHeader (LrWpanMacHeader_Deserialize rtl) h0 p;
      (f', m, p) \<leftarrow> RemoveHeader CommandPayloadHeader_Deserialize f0 p;
      Some (h', f', n + m, p) } =
      Some (h', f', LrWpanMacHeader_GetSerializedSize h + CommandPayloadHeader_GetSerializedSize f, p) \<and>
    CommandPayloadHeader_GetCommandFrameType f' = CommandPayloadHeader_GetCommandFrameType f \<and>
    CommandPayloadHeader_Serialize f' = CommandPayloadHeader_Serialize f"
  using command_frame.stack_roundtrip [OF assms(1) TrueI assms(5,2,3,6), of p h0] cmd_resend [OF assms(2,4)]
  by (intro exI [of _ "mac_rebuilt h0 h"] exI [of _ "cmd_rebuilt f0 f"]) simp

lemma command_roundtrip_witness:
  "\<forall>mem m f0. \<exists>h' f'. do {
      p \<leftarrow> AddHeader (zeros 3) CommandPayloadHeader_Serialize (sample_alloc m 5) [];
      p \<leftarrow> AddHeader (zeros 9) LrWpanMacHeader_Serialize (sample_data mem) p;
      (h', n, p) \<leftarrow> RemoveHeader (LrWpanMacHeader_Deserialize True) mem p;
      (f', m, p) \<leftarrow> RemoveHeader CommandPayloadHeader_Deserialize (fresh_command f0) p;
      Some (h', f', n + m, p) } = Some (h', f', 12, []) \<and>
    CommandPayloadHeader_GetCommandFrameType f' = DSME_BEACON_ALLOC_NOTIF"
proof (intro allI)
  fix mem m f0
  have l: "length (zeros 9) = LrWpanMacHeader_GetSerializedSize (sample_data mem)"
    "length (zeros 3) = CommandPayloadHeader_GetSerializedSize (sample_alloc m 5)"
    by (simp_all add: sample_data_ok(3) sample_alloc_ok(4) zeros_def)
  have s: "9 + CommandPayloadHeader_GetSerializedSize (sample_alloc m 5) = 12" by (simp add: sample_alloc_ok(4))
  show "\<exists>h' f'. do {
      p \<leftarrow> AddHeader (zeros 3) CommandPayloadHeader_Serialize (sample_alloc m 5) [];
      p \<leftarrow> AddHeader (zeros 9) LrWpanMacHeader_Serialize (sample_data mem) p;
      (h', n, p) \<leftarrow> RemoveHeader (LrWpanMacHeader_Deserialize True) mem p;
      (f', m, p) \<leftarrow> RemoveHeader CommandPayloadHeader_Deserialize (fresh_command f0) p;
      Some (h', f', n + m, p) } = Some (h', f', 12, []) \<and>
    CommandPayloadHeader_GetCommandFrameType f' = DSME_BEACON_ALLOC_NOTIF"
    using command_roundtrip [where rtl = True and p = "[]" and ?h0.0 = mem, OF sample_data_ok(1) sample_alloc_ok(1) sample_alloc_ok(2) fresh_command_ok [of f0] l]
    unfolding sample_data_ok(3) sample_alloc_ok(3) s by blast
qed

text \<open>
  C6: The DSME PAN descriptor of an enhanced beacon, put behind the MAC header, reaches the receiver
  with its superframe specifications, beacon slot bitmap, channel hopping and group
  acknowledgement fields and beacon timestamp unchanged and the same pending addresses; the
  beacon offset timestamp alone keeps the receiver's value, because it is not serialised.
\<close>

theorem enhanced_beacon_roundtrip:
  assumes "mac_ok rtl h" and "pan_ok f" and "length fresh1 = LrWpanMacHeader_GetSerializedSize h"
    and "length fresh2 = DsmePANDescriptorIE_GetSerializedSize f"
  shows "\<exists>h' g. do {
      p \<leftarrow> AddHeader fresh2 DsmePANDescriptorIE_Serialize f p;
      p \<leftarrow> AddHeader fresh1 LrWpanMacHeader_Serialize h p;
      (h', n, p) \<leftarrow> RemoveHeader (LrWpanMacHeader_Deserialize rtl) h0 p;
      (g, m, p) \<leftarrow> RemoveHeader DsmePANDescriptorIE_Deserialize f0 p;
      Some (h', g, n + m, p) } =
      Some (h', g, LrWpanMacHeader_GetSerializedSize h + DsmePANDescriptorIE_GetSerializedSize f, p) \<and>
    pan_superframeField g = pan_superframeField f \<and> pan_dsmeSuperframeField g = pan_dsmeSuperframeField f \<and>
    pan_beaconBitmapField g = pan_beaconBitmapField f \<and> pan_channelHoppingField g = pan_channelHoppingField f \<and>
    pan_gack g = pan_gack f \<and>
    TimeSync_GetBeaconTimeStamp (pan_timeSynField g) = TimeSync_GetBeaconTimeStamp (pan_timeSynField f) \<and>
    TimeSync_GetBeaconOffsetTimeStamp (pan_timeSynField g) = TimeSync_GetBeaconOffsetTimeStamp (pan_timeSynField f0) \<and>
    pending_shorts (pan_pndAddrFields g) = pending_shorts (pan_pndAddrFields f) \<and>
    pending_exts (pan_pndAddrFields g) = pending_exts (pan_pndAddrFields f)"
proof -
  have "pending_ok (pan_pndAddrFields f)" using assms(2) by (simp add: pan_ok_def)
  then show ?thesis
    using enhanced_beacon_frame.stack_roundtrip [OF assms(1) TrueI assms(3,2) TrueI assms(4), of p h0 f0]
    by (intro exI [of _ "mac_rebuilt h0 h"] exI [of _ "pan_rebuilt f0 f"])
      (simp add: pan_rebuilt_def pending_rebuilt_view timesync_rebuilt_def TimeSync_GetBeaconTimeStamp_def
        TimeSync_GetBeaconOffsetTimeStamp_def)
qed

lemma enhanced_beacon_roundtrip_witness:
  "\<forall>mem f0. \<exists>h' g. do {
      p \<leftarrow> AddHeader (zeros (DsmePANDescriptorIE_GetSerializedSize sample_pan)) DsmePANDescriptorIE_Serialize sample_pan [7];
      p \<leftarrow> AddHeader (zeros 9) LrWpanMacHeader_Serialize (sample_data mem) p;
      (h', n, p) \<leftarrow> RemoveHeader (LrWpanMacHeader_Deserialize True) mem p;
      (g, m, p) \<leftarrow> RemoveHeader DsmePANDescriptorIE_Deserialize f0 p;
      Some (h', g, n + m, p) } = Some (h', g, 9 + DsmePANDescriptorIE_GetSerializedSize sample_pan, [7]) \<and>
    pan_beaconBitmapField g = pan_beaconBitmapField sample_pan"
proof (intro allI)
  fix mem f0
  have l: "length (zeros 9) = LrWpanMacHeader_GetSerializedSize (sample_data mem)" by (simp add: sample_data_ok(3) zeros_def)
  have k: "length (zeros (DsmePANDescriptorIE_GetSerializedSize sample_pan)) = DsmePANDescriptorIE_GetSerializedSize sample_pan"
    by (simp add: zeros_def)
  show "\<exists>h' g. do {
      p \<leftarrow> AddHeader (zeros (DsmePANDescriptorIE_GetSerializedSize sample_pan)) DsmePANDescriptorIE_Serialize sample_pan [7];
      p \<leftarrow> AddHeader (zeros 9) LrWpanMacHeader_Serialize (sample_data mem) p;
      (h', n, p) \<leftarrow> RemoveHeader (LrWpanMacHeader_Deserialize True) mem p;
      (g, m, p) \<leftarrow> RemoveHeader DsmePANDescriptorIE_Deserialize f0 p;
      Some (h', g, n + m, p) } = Some (h', g, 9 + DsmePANDescriptorIE_GetSerializedSize sample_pan, [7]) \<and>
    pan_beaconBitmapField g = pan_beaconBitmapField sample_pan"
    using enhanced_beacon_roundtrip [where rtl = True and p = "[7]" and ?h0.0 = mem and ?f0.0 = f0, OF sample_data_ok(1) sample_pan_ok l k]
    unfolding sample_data_ok(3) by blast
qed





text \<open>
  C9: \<open>PlmeCcaConfirm\<close> refines the abstract contention \<open>cca_next\<close> (how many busy assessments can
  still be afforded, how many idle ones in a row are needed): it tells the MAC that the channel
  is idle exactly when the contention is won and that access failed exactly when it is lost,
  and otherwise schedules at once the next assessment after an idle answer or a new backoff
  after a busy one, with the object again ready to be assessed.
\<close>

theorem assessment_refines_contention:
  assumes "sim_ok (sim w)" and "csma_ready (csma w)" and "m_ccaRequestRunning (csma w)" and "m_lrWpanMacStateCallback (csma w)"
  shows "\<exists>w'. LrWpanCsmaCa_PlmeCcaConfirm idle w = Some w' \<and> \<not> m_ccaRequestRunning (csma w') \<and>
    (case cca_next (m_isSlotted (csma w)) idle (csma_abs (csma w)) of
       Won \<Rightarrow> outs w' = outs w @ [MacState CHANNEL_IDLE] \<and> sim w' = sim w
     | Lost \<Rightarrow> outs w' = outs w @ [MacState CHANNEL_ACCESS_FAILURE] \<and> sim w' = sim w
     | Contending n k \<Rightarrow> csma_abs (csma w') = Contending n k \<and> csma_ready (csma w') \<and> outs w' = outs w \<and>
         (\<exists>i. fst i = m_currentTs (sim w) \<and>
              pending (sim w') = insert (i, if idle then RequestCCA else RandomBackoffDelay) (pending (sim w))))"
  by (rule PlmeCcaConfirm_refines [OF assms])

lemma assessment_refines_contention_witness:
  "\<exists>w'. LrWpanCsmaCa_PlmeCcaConfirm True (sample_backoff\<lparr>csma := csma sample_backoff\<lparr>m_ccaRequestRunning := True\<rparr>\<rparr>) = Some w' \<and>
    outs w' = [MacState CHANNEL_IDLE]"
proof -
  let ?w = "sample_backoff\<lparr>csma := csma sample_backoff\<lparr>m_ccaRequestRunning := True\<rparr>\<rparr>"
  have h: "sim_ok (sim ?w)" "csma_ready (csma ?w)" "m_ccaRequestRunning (csma ?w)" "m_lrWpanMacStateCallback (csma ?w)"
    using sample_backoff_ok by (simp_all add: backing_off_def csma_ready_def)
  have a: "cca_next (m_isSlotted (csma ?w)) True (csma_abs (csma ?w)) = Won" "outs ?w = []"
    by (simp_all add: sample_backoff_def LrWpanCsmaCa_new_def class_defs csma_abs_def)
  show ?thesis using assessment_refines_contention [OF h, of True] unfolding a by auto
qed





text \<open>
  C12: A DSME information request does not survive its own format: the 16-bit sub-block index is read
  back as eight bits, four octets are consumed of the five that were written, and the fifth
  stays in front of the packet.
\<close>

theorem info_request_misread:
  assumes "m_cmdFrameId f = MacCommand_val DSME_INFO_REQ" and "length fresh = CommandPayloadHeader_GetSerializedSize f"
  shows "\<exists>g. Option.bind (AddHeader fresh CommandPayloadHeader_Serialize f p) (RemoveHeader CommandPayloadHeader_Deserialize f0) =
      Some (g, 4, ucast (drop_bit 8 (cmd_dsmeSABSubBlkIdx f)) # p) \<and>
    cmd_dsmeSABSubBlkIdx g = take_bit 8 (cmd_dsmeSABSubBlkIdx f) \<and> m_infoType g = m_infoType f"
proof -
  have "ucast (ucast (cmd_dsmeSABSubBlkIdx f) :: u8) = take_bit 8 (cmd_dsmeSABSubBlkIdx f)"
    by (rule bit_word_eqI) (auto simp: bit_simps)
  then show ?thesis by (simp add: info_request_leftover [OF assms])
qed

lemma info_request_misread_witness:
  "\<forall>mem f0. \<exists>g. Option.bind (AddHeader (zeros 5) CommandPayloadHeader_Serialize (sample_info_req mem) [])
      (RemoveHeader CommandPayloadHeader_Deserialize f0) = Some (g, 4, [1]) \<and> cmd_dsmeSABSubBlkIdx g = 2"
proof (intro allI)
  fix mem f0
  have s: "m_cmdFrameId (sample_info_req mem) = MacCommand_val DSME_INFO_REQ"
    "length (zeros 5) = CommandPayloadHeader_GetSerializedSize (sample_info_req mem)" "cmd_dsmeSABSubBlkIdx (sample_info_req mem) = 0x102"
    by (simp_all add: sample_info_req_def CommandPayloadHeader_SetCommandFrameType_def zeros_def CommandPayloadHeader_GetSerializedSize_def
        CommandPayloadHeader_GetCommandFrameType_def)
  show "\<exists>g. Option.bind (AddHeader (zeros 5) CommandPayloadHeader_Serialize (sample_info_req mem) [])
      (RemoveHeader CommandPayloadHeader_Deserialize f0) = Some (g, 4, [1]) \<and> cmd_dsmeSABSubBlkIdx g = 2"
    using info_request_misread [OF s(1,2), of "[]" f0] by (auto simp: s(3))
qed

text \<open>
  C13: The enhanced group acknowledgement element, with the length 8 that \<open>SendEnhancedGroupAck\<close> sets,
  opens eight octets and writes ten: its bitmap is complete, and the first two octets of what
  follows it, which are the header termination element, are gone from the frame.
\<close>

theorem group_ack_overwrites_next_element:
  assumes "egack_ieLength f = 8" and "length fresh = EnhancedGroupAckDescriptorIE_GetSerializedSize f" and "2 \<le> length p"
  shows "AddHeader fresh EnhancedGroupAckDescriptorIE_Serialize f p = Some (egack_wire f @ drop 2 p)"
  by (rule egack_overwrites [OF assms])

lemma group_ack_overwrites_next_element_witness:
  "\<forall>mem h. AddHeader (zeros 8) EnhancedGroupAckDescriptorIE_Serialize (sample_egack mem)
      (hterm_wire (HeaderIETermination_new h) @ [5]) = Some (egack_wire (sample_egack mem) @ [5])"
proof (intro allI)
  fix mem h
  have l: "egack_ieLength (sample_egack mem) = 8"
    "length (zeros 8) = EnhancedGroupAckDescriptorIE_GetSerializedSize (sample_egack mem)"
    by (simp_all add: sample_egack_def zeros_def class_defs EnhancedGroupAckDescriptorIE_GetSerializedSize_def
        EnhancedGroupAckDescriptorIE_SetHeaderIEDescriptor_def)
  have t: "2 \<le> length (hterm_wire (HeaderIETermination_new h) @ [5])" by (simp add: terminations_differ)
  show "AddHeader (zeros 8) EnhancedGroupAckDescriptorIE_Serialize (sample_egack mem)
      (hterm_wire (HeaderIETermination_new h) @ [5]) = Some (egack_wire (sample_egack mem) @ [5])"
    using group_ack_overwrites_next_element [OF l t] by (simp add: terminations_differ)
qed



text \<open>
  C15: When two frames of a device hash to the same position, the first is lost and the second
  received, the device takes the first for acknowledged and the second for lost: verdicts are
  only right without collisions, although the key is documented as a unique one.
\<close>

theorem lost_frame_taken_for_acknowledged:
  assumes "home H a s1 = home H a s2" and "m_enhancedGACKBitmap c = 0" and "m_enhancedGACKBitmap m = 0"
  shows "\<exists>c' r' m'. collect H [(a, s2)] c = Some c' \<and>
    LrWpanMac_VerifyGroupAck H a [s1, s2] (m_enhancedGACKBitmap c') m = Some ([True, False], r', m')"
  by (rule lost_frame_acknowledged [OF assms])

lemma lost_frame_taken_for_acknowledged_witness:
  "\<exists>c' r' m'. collect octet_sum [(Mac16Address 0 2, 19)] (sample_gack []) = Some c' \<and>
    LrWpanMac_VerifyGroupAck octet_sum (Mac16Address 0 2) [10, 19] (m_enhancedGACKBitmap c') (sample_gack [10, 19]) = Some ([True, False], r', m')"
  by (rule lost_frame_taken_for_acknowledged) (simp_all add: octet_sum_home sample_gack_def)





text \<open>
  C18: Of two slots of a device that do not share a place in the multi-superframe, the earlier one
  has ended, its end event included, before the later one starts.
\<close>

theorem slots_never_overlap:
  assumes "rate_ok env" and "gts_fits (mac w) e" and "gts_fits (mac w) e'" and "gts_before e e'"
  shows "gts_start env w e + gts_end env (mac w) e < gts_start env w e'"
  by (rule gts_disjoint [OF assms])

lemma slots_never_overlap_witness:
  "\<forall>hm cm. gts_start (sample_env hm cm) sample_device (sample_entry 1 4 0) + gts_end (sample_env hm cm) (mac sample_device) (sample_entry 1 4 0)
      < gts_start (sample_env hm cm) sample_device (sample_entry 1 5 0)"
  by (intro allI slots_never_overlap sample_env_rate(1) sample_fits(2)) (simp_all add: gts_before_def, simp_all add: sample_entry_def)

text \<open>
  C19: When a slot of a live entry starts, the same start is scheduled again one multi-superframe
  later and the end of the slot is scheduled, nothing that was pending is lost, and the MAC is
  sending if there is a packet for the slot and otherwise ready in the slot.
\<close>

theorem slot_comes_back:
  assumes "sim_ok (msim w)" and "act_get (m_macDsmeACT (mac w)) sf idx = Some e" and "\<not> act_deallocated e" and "\<not> act_expired e"
    and "act_allocated e" and "0 \<le> gts_end env (mac w) e" and "m_numOfChannels (mac w) \<noteq> 0"
    and "period = Seconds (uint (if m_coord (mac w) then m_multiSuperframeDuration (mac w) else m_incomingMultisuperframeDuration (mac w))) (env_symbolRate env)"
    and "0 \<le> period"
  shows "\<exists>v. LrWpanMac_StartGTS env ty sf idx w = Some v \<and> sim_ok (msim v) \<and> m_macDsmeACT (mac v) = m_macDsmeACT (mac w) \<and>
    timed (msim w) \<subseteq> timed (msim v) \<and>
    (Simulator_Now (msim w) + period, StartGTS (gts_type e) (act_superframeID e) idx) \<in> timed (msim v) \<and>
    (Simulator_Now (msim w) + gts_end env (mac w) e, EndGTS ty) \<in> timed (msim v) \<and>
    m_lrWpanMacState (mac v) = (if gts_has_packet (mac w) then MAC_GTS_SENDING else MAC_GTS)"
  by (rule StartGTS_spec [OF assms])

lemma slot_comes_back_witness:
  "\<forall>hm cm. \<exists>v. LrWpanMac_StartGTS (sample_env hm cm) INCOMING 1 0 sample_allocated = Some v \<and>
    (1000000 + 3840 * 16000, StartGTS INCOMING 1 0) \<in> timed (msim v) \<and> m_lrWpanMacState (mac v) = MAC_GTS"
proof (intro allI)
  fix hm cm
  let ?e = "(sample_entry 1 4 1)\<lparr>act_allocated := True\<rparr>"
  have w: "sim_ok (msim sample_allocated)" "act_get (m_macDsmeACT (mac sample_allocated)) 1 0 = Some ?e"
    by (simp_all add: sample_allocated_def mac_upd_def sample_sim act_get_def act_vector_def all_allocated_def)
      (simp_all add: sample_coord_def blank_mac_def)
  have e: "\<not> act_deallocated ?e" "\<not> act_expired ?e" "act_allocated ?e" "0 \<le> gts_end (sample_env hm cm) (mac sample_allocated) ?e"
    "m_numOfChannels (mac sample_allocated) \<noteq> 0" "Simulator_Now (msim sample_allocated) = 1000000" "\<not> gts_has_packet (mac sample_allocated)"
    "act_superframeID ?e = 1" "gts_type ?e = INCOMING"
    by (simp_all add: sample_allocated_def mac_upd_def gts_end_def gts_has_packet_def gts_type_def Simulator_Now_def Seconds_def sample_mac_defs)
  have p: "3840 * 16000 = Seconds (uint (if m_coord (mac sample_allocated) then m_multiSuperframeDuration (mac sample_allocated)
      else m_incomingMultisuperframeDuration (mac sample_allocated))) (env_symbolRate (sample_env hm cm))"
    by (simp add: sample_allocated_def mac_upd_def Seconds_def sample_mac_defs)
  show "\<exists>v. LrWpanMac_StartGTS (sample_env hm cm) INCOMING 1 0 sample_allocated = Some v \<and>
    (1000000 + 3840 * 16000, StartGTS INCOMING 1 0) \<in> timed (msim v) \<and> m_lrWpanMacState (mac v) = MAC_GTS"
    using slot_comes_back [OF w e(1-5) p, of INCOMING] e(6-9) by auto
qed

text \<open>
  C20: An entry enters the allocation counter table exactly when its superframe exists in the
  multi-superframe and its slot is below 7, or below 15 with CAP reduction; it is then the last of
  its superframe, no other vector changes and the table stays sorted by superframe.
\<close>

theorem allocation_table_accepts:
  assumes "act_sorted (m_macDsmeACT m)"
  shows "(LrWpanMac_AddDsmeACTEntity sf e m = None \<longleftrightarrow> \<not> act_accepts m sf e) \<and>
    (case LrWpanMac_AddDsmeACTEntity sf e m of None \<Rightarrow> True
     | Some m' \<Rightarrow> act_sorted (m_macDsmeACT m') \<and>
         act_vector (m_macDsmeACT m') k = act_vector (m_macDsmeACT m) k @ (if k = sf then [e] else []))"
  using AddDsmeACTEntity_spec [OF assms, of sf e] by (auto split: option.splits)

lemma allocation_table_accepts_witness:
  "LrWpanMac_AddDsmeACTEntity 4 (sample_entry 4 0 0) (mac (sample_coord False)) = None \<and>
    LrWpanMac_AddDsmeACTEntity 3 (sample_entry 3 6 0) (mac (sample_coord False)) \<noteq> None"
proof -
  have s: "act_sorted (m_macDsmeACT (mac (sample_coord False)))" by (simp add: act_sorted_def sample_coord_def)
  show ?thesis
    using allocation_table_accepts [OF s, of 4 "sample_entry 4 0 0"] allocation_table_accepts [OF s, of 3 "sample_entry 3 6 0"]
    by (simp add: act_accepts_def) (simp add: sample_mac_defs)
qed



text \<open>
  C22: The start events hold the index of their entry, and purging shifts the entries: when a
  superframe loses a deallocated entry, the pending start of its last entry reads behind the end of
  the vector.
\<close>

theorem purging_breaks_scheduled_slots:
  assumes "es = act_vector (m_macDsmeACT (mac w)) sf" and "\<exists>e \<in> set es. act_deallocated e"
  shows "LrWpanMac_StartGTS env ty sf (int (length es) - 1) (mac_upd LrWpanMac_PurgeDsmeACT w) = None"
  by (rule StartGTS_after_purge [OF assms])

lemma purging_breaks_scheduled_slots_witness:
  "\<forall>hm cm. LrWpanMac_StartGTS (sample_env hm cm) OUTGOING 2 1 (mac_upd LrWpanMac_PurgeDsmeACT
      (mac_upd (\<lambda>m. m\<lparr>m_macDsmeACT := [(2, [(sample_entry 2 0 0)\<lparr>act_deallocated := True\<rparr>, sample_entry 2 1 0])]\<rparr>) sample_device)) = None"
proof (intro allI)
  fix hm cm
  show "LrWpanMac_StartGTS (sample_env hm cm) OUTGOING 2 1 (mac_upd LrWpanMac_PurgeDsmeACT
      (mac_upd (\<lambda>m. m\<lparr>m_macDsmeACT := [(2, [(sample_entry 2 0 0)\<lparr>act_deallocated := True\<rparr>, sample_entry 2 1 0])]\<rparr>) sample_device)) = None"
    using purging_breaks_scheduled_slots [OF refl, of
        "mac_upd (\<lambda>m. m\<lparr>m_macDsmeACT := [(2, [(sample_entry 2 0 0)\<lparr>act_deallocated := True\<rparr>, sample_entry 2 1 0])]\<rparr>) sample_device" 2
        "sample_env hm cm" OUTGOING]
    by (simp add: mac_upd_def act_vector_def)
qed



text \<open>
  C24: The remaining period of a coordinator, whenever it starts within the beacon interval, schedules the
  next enhanced beacon and the cleaning of the allocation table at exactly one beacon interval after
  the last beacon, and nothing else.
\<close>

theorem beacon_every_interval:
  assumes "sim_ok (msim w)" and "rate_ok env" and "bi = uint (m_beaconInterval (mac w)) * tick env"
    and "Simulator_Now (msim w) \<le> m_startOfBcnSlot (mac w) + bi"
  shows "\<exists>v. LrWpanMac_StartRemainingPeriod env OUTGOING w = Some v \<and> sim_ok (msim v) \<and>
    timed (msim v) = {(m_startOfBcnSlot (mac w) + bi, SendOneEnhancedBeacon), (m_startOfBcnSlot (mac w) + bi, PurgeDsmeACT)} \<union> timed (msim w)"
  by (rule StartRemainingPeriod_spec [OF assms])

lemma beacon_every_interval_witness:
  "\<forall>hm cm. \<exists>v. LrWpanMac_StartRemainingPeriod (sample_env hm cm) OUTGOING sample_cfp = Some v \<and>
    timed (msim v) = {(7680 * 16000, SendOneEnhancedBeacon), (7680 * 16000, PurgeDsmeACT)}"
proof (intro allI)
  fix hm cm
  have f: "sim_ok (msim sample_cfp)" "Simulator_Now (msim sample_cfp) \<le> m_startOfBcnSlot (mac sample_cfp) + 7680 * 16000"
    "7680 * 16000 = uint (m_beaconInterval (mac sample_cfp)) * tick (sample_env hm cm)"
    by (simp_all add: sample_periods sample_env_rate(2))
  have "timed (msim sample_cfp) = {}" "m_startOfBcnSlot (mac sample_cfp) = 0" by (simp_all add: sample_periods timed_def pending_def)
  with beacon_every_interval [OF f(1) sample_env_rate(1) f(3) f(2)]
  show "\<exists>v. LrWpanMac_StartRemainingPeriod (sample_env hm cm) OUTGOING sample_cfp = Some v \<and>
    timed (msim v) = {(7680 * 16000, SendOneEnhancedBeacon), (7680 * 16000, PurgeDsmeACT)}" by auto
qed



text \<open>
  C26: The beacon that a coordinator sends, received by a coordinator that has chosen it as its parent: the
  receiver's own first beacon is in its event queue for the time at which the parent began its beacon
  plus the superframe it has chosen times the superframe duration, however long the frame took on the
  way, and it is scheduled once.
\<close>

theorem first_beacon_on_time:
  assumes "rate_ok env" and "announces env w" and "hears w' w" and "Simulator_Now (msim w) < 2 ^ 63"
    and "sf = pan_superframeField (m_dsmePanDescriptorIE (m_pan (mac w)))"
    and "m_sspecSprFrmOrder sf \<le> m_sspecMultiSuperframeOrder (pan_dsmeSuperframeField (m_dsmePanDescriptorIE (m_pan (mac w))))"
    and "due = Simulator_Now (msim w) +
      960 * 2 ^ unat (m_sspecSprFrmOrder sf) * uint (m_choosedSDIndexToSendBcn (m_pan (mac w'))) * tick env"
    and "Simulator_Now (msim w') \<le> due"
  shows "\<exists>v u. LrWpanMac_SendOneEnhancedBeacon env a w = Some v \<and> mouts v = mouts w @ [PlmeSetTRXStateRequest IEEE_802_15_4_PHY_TX_ON] \<and>
    LrWpanMac_PdDataIndication env (pkts v a) lqi w' = Some u \<and> \<not> m_sendBcn (m_pan (mac u)) \<and>
    (due, SendOneEnhancedBeacon) \<in> timed (msim u)"
proof -
  obtain v ie b sn where v: "LrWpanMac_SendOneEnhancedBeacon env a w = Some v"
    "mouts v = mouts w @ [PlmeSetTRXStateRequest IEEE_802_15_4_PHY_TX_ON]" "pan_ok ie" "beacon_ok b"
    "pan_superframeField ie = pan_superframeField (m_dsmePanDescriptorIE (m_pan (mac w)))"
    "pan_dsmeSuperframeField ie = pan_dsmeSuperframeField (m_dsmePanDescriptorIE (m_pan (mac w)))"
    "TimeSync_GetBeaconTimeStamp (pan_timeSynField ie) = of_int (Simulator_Now (msim w))" "length (beacon_body env ie b) \<le> 1000"
    "LrWpanMac_AddFrame (env_checksum env) (env_room env) (LrWpanMacHeader_SetIEListPresent (beacon_header env sn (mac w)))
      (beacon_body env ie b) = Some (pkts v a)"
    using beacon_transmitted [OF assms(2), of a] by blast
  have a: "rooms (env_room env)" "m_macPanId (mac w) \<noteq> 0xffff" "objs_ok (env_objs env)" using assms(2) by (simp_all add: announces_def)
  obtain h where h: "parent_header h (mac w')"
    "LrWpanMac_PdDataIndication env (pkts v a) lqi w' = beacon_received env (pkts v a) lqi h (beacon_body env ie b) w'"
    using beacon_indicated [OF a(1,2) assms(3) v(8,9)] by blast
  have "sint (m_sspecBcnTimestamp (pan_timeSynField ie)) = Simulator_Now (msim w)"
    using v(7) assms(4) by (simp add: class_defs time_stamp Simulator_Now_def)
  then have due: "due = sint (m_sspecBcnTimestamp (pan_timeSynField ie)) +
      mac_seconds env (960 * 2 ^ unat (m_sspecSprFrmOrder (pan_superframeField ie)) * uint (m_choosedSDIndexToSendBcn (m_pan (mac w'))))"
    using assms(5,7) v(5) by (simp add: class_defs Seconds_tick [OF assms(1)])
  have "listens w'" using assms(3) by (simp add: hears_def)
  from first_beacon_scheduled [OF a(3) v(3,4) this h(1) _ due assms(8)] assms(5,6) v h(2) show ?thesis
    by (fastforce simp: timed_def)
qed

lemma first_beacon_on_time_witness:
  "\<forall>hm cm. \<exists>v u. LrWpanMac_SendOneEnhancedBeacon (sample_env hm cm) 0 sample_parent = Some v \<and>
     LrWpanMac_PdDataIndication (sample_env hm cm) (pkts v 0) 200 sample_child = Some u \<and>
     (1000000 + 960 * 8 * 3 * 16000, SendOneEnhancedBeacon) \<in> timed (msim u)"
proof (intro allI)
  fix hm cm
  have f: "Simulator_Now (msim sample_parent) = 1000000" "m_sspecSprFrmOrder (pan_superframeField sample_pan) = 3"
    "m_sspecMultiSuperframeOrder (pan_dsmeSuperframeField sample_pan) = 5" "m_dsmePanDescriptorIE (m_pan (mac sample_parent)) = sample_pan"
    "m_choosedSDIndexToSendBcn (m_pan (mac sample_child)) = 3" "Simulator_Now (msim sample_child) = 3000000"
    by (simp_all add: sample_beacon_defs sample_pan_def Simulator_Now_def)
  from first_beacon_on_time [OF sample_env_rate(1) sample_announces [of hm cm] sample_hears _ refl _ refl, where a = 0 and lqi = 200]
  show "\<exists>v u. LrWpanMac_SendOneEnhancedBeacon (sample_env hm cm) 0 sample_parent = Some v \<and>
     LrWpanMac_PdDataIndication (sample_env hm cm) (pkts v 0) 200 sample_child = Some u \<and>
     (1000000 + 960 * 8 * 3 * 16000, SendOneEnhancedBeacon) \<in> timed (msim u)"
    by (auto simp: f sample_env_rate(2))
qed



text \<open>
  C28: The table of the slots outside CAP reduction gets an element for every superframe of the beacon interval
  as long as there are at most 128; from 256 on (eight orders apart) its length is cut to eight bits
  and the table is empty.
\<close>

theorem slot_table_vanishes:
  assumes "can_coordinate env w" and "m_startParams (m_pan (mac w)) = r" and "pan_request r"
  shows "\<exists>v. LrWpanMac_EndStartRequest env w = Some v \<and>
    (if unat (start_bcnOrd r) < unat (start_sfrmOrd r) + 8
     then length (m_macDSMESABCapOff (mac v)) = 2 ^ (unat (start_bcnOrd r) - unat (start_sfrmOrd r))
     else m_macDSMESABCapOff (mac v) = [])"
proof -
  have "unat (start_sfrmOrd r) \<le> unat (start_bcnOrd r)" using request_orders(6) [OF assms(3)] by (simp add: word_le_nat_alt)
  with EndStartRequest_spec [OF assms] show ?thesis by (fastforce simp: Let_def)
qed

lemma slot_table_vanishes_witness:
  "\<forall>hm cm. \<exists>v. LrWpanMac_EndStartRequest (sample_env hm cm) (mac_upd (mac_pan_upd (\<lambda>p. p\<lparr>m_startParams := sample_start 11 3\<rparr>)) sample_parent) = Some v \<and>
    m_macDSMESABCapOff (mac v) = []"
proof (intro allI)
  fix hm cm
  let ?w = "mac_upd (mac_pan_upd (\<lambda>p. p\<lparr>m_startParams := sample_start 11 3\<rparr>)) sample_parent"
  have r: "pan_request (sample_start 11 3)" by (rule sample_request_ok) simp_all
  have w: "can_coordinate (sample_env hm cm) ?w" "m_startParams (m_pan (mac ?w)) = sample_start 11 3"
    using sample_can_coordinate [of hm cm] by (simp_all add: can_coordinate_def mac_upd_def mac_pan_upd_def)
  have o: "start_bcnOrd (sample_start 11 3) = 11" "start_sfrmOrd (sample_start 11 3) = 3" by (simp_all add: sample_start_def)
  from slot_table_vanishes [OF w r]
  show "\<exists>v. LrWpanMac_EndStartRequest (sample_env hm cm) ?w = Some v \<and> m_macDSMESABCapOff (mac v) = []" by (simp add: o)
qed

text \<open>
  C29: In every run of the PHY from its construction, with the MAC above it answering in the callbacks and
  whatever requests and signals come in between: the transceiver is in one of its five states, at most
  one switch of its state is under way, it is the one whose event m_setTRXState names, it leads to
  RX_ON or TX_ON, and when it ends the transceiver gets into that state and the MAC is told, so that
  the check in EndSetTRXState never aborts.
\<close>

theorem one_switch_under_way:
  assumes "LrWpanPhy_new mem = Some (phy w)" and "psim w = Simulator_new" and "phy_run (stack_env menv base n) ss w = Some v"
  shows "m_trxState (phy v) \<in> {IEEE_802_15_4_PHY_TRX_OFF, IEEE_802_15_4_PHY_RX_ON, IEEE_802_15_4_PHY_TX_ON, IEEE_802_15_4_PHY_BUSY_RX, IEEE_802_15_4_PHY_BUSY_TX} \<and>
    (\<forall>k. (k, EndSetTRXState) \<in> pending (psim v) \<longrightarrow> m_setTRXState (phy v) = Some k \<and>
      m_trxStatePending (phy v) \<in> {IEEE_802_15_4_PHY_RX_ON, IEEE_802_15_4_PHY_TX_ON}) \<and>
    (\<forall>s draw. Simulator_ProcessOneEvent (psim v) = Some (Some EndSetTRXState, s) \<longrightarrow>
      phy_turn (stack_env menv base n) draw v = phy_notify (stack_env menv base n) (PlmeSetTRXStateConfirm (m_trxStatePending (phy v)))
        (phy_upd (\<lambda>f. f\<lparr>m_trxState := m_trxStatePending f, m_trxStatePending := IEEE_802_15_4_PHY_IDLE\<rparr>) (v\<lparr>psim := s\<rparr>)))"
proof -
  have v: "phy_ok v" by (rule stack.run_keeps [OF assms(3) phy_ok_new [OF assms(1,2)]])
  have "phy_turn (stack_env menv base n) draw v = phy_notify (stack_env menv base n) (PlmeSetTRXStateConfirm (m_trxStatePending (phy v)))
      (phy_upd (\<lambda>f. f\<lparr>m_trxState := m_trxStatePending f, m_trxStatePending := IEEE_802_15_4_PHY_IDLE\<rparr>) (v\<lparr>psim := s\<rparr>))"
    if "Simulator_ProcessOneEvent (psim v) = Some (Some EndSetTRXState, s)" for s draw
    using stack.switch_has_target [OF v that, of menv base n draw] by (auto simp: phy_upd_def)
  then show ?thesis
    using v switch_pending [OF v] by (simp add: phy_ok_def trx_states_def trx_targets_def)
qed

lemma one_switch_under_way_witness:
  "\<forall>menv m. \<exists>v. phy_run (stack_env menv sample_surroundings 2) [TrxRequest IEEE_802_15_4_PHY_RX_ON] (sample_radio IEEE_802_15_4_PHY_TRX_OFF m) = Some v \<and>
     ((192000, 4), EndSetTRXState) \<in> pending (psim v) \<and> m_setTRXState (phy v) = Some (192000, 4) \<and>
     m_trxStatePending (phy v) \<in> {IEEE_802_15_4_PHY_RX_ON, IEEE_802_15_4_PHY_TX_ON}"
proof (intro allI)
  fix menv and m :: mac_world
  let ?w = "sample_radio IEEE_802_15_4_PHY_TRX_OFF m"
  have new: "LrWpanPhy_new blank_phy = Some (phy ?w)" "psim ?w = Simulator_new"
    using blank_phy_new by (simp_all add: sample_radio_def blank_phy_def)
  have "\<exists>v. LrWpanPhy_PlmeSetTRXStateRequest (stack_env menv sample_surroundings 2) IEEE_802_15_4_PHY_RX_ON ?w = Some v \<and>
    ((192000, 4), EndSetTRXState) \<in> pending (psim v)"
    by (simp add: LrWpanPhy_PlmeSetTRXStateRequest_def phy_request_rx_def turnaround_time phy_rx_defs sample_radio_def blank_phy_def
      Simulator_new_def pending_def Let_def image_iff)
  then obtain v where v: "phy_run (stack_env menv sample_surroundings 2) [TrxRequest IEEE_802_15_4_PHY_RX_ON] ?w = Some v"
    "((192000, 4), EndSetTRXState) \<in> pending (psim v)"
    by auto
  with one_switch_under_way [OF new v(1)] show "\<exists>v. phy_run (stack_env menv sample_surroundings 2) [TrxRequest IEEE_802_15_4_PHY_RX_ON] ?w = Some v \<and>
     ((192000, 4), EndSetTRXState) \<in> pending (psim v) \<and> m_setTRXState (phy v) = Some (192000, 4) \<and>
     m_trxStatePending (phy v) \<in> {IEEE_802_15_4_PHY_RX_ON, IEEE_802_15_4_PHY_TX_ON}" by blast
qed

text \<open>
  C30: The MAC above the PHY: a MAC that is sending asks a listening transceiver for TX_ON. One turnaround later
  it is told and hands its frame over, the frame is on the channel for 192 microseconds and 32 for each
  octet, then PdDataConfirm of the MAC has run with the status SUCCESS, and the transceiver is back in
  TX_ON with no change of state pending.
\<close>

theorem frame_goes_through:
  assumes "m_lrWpanMacState (mac (upper w)) = MAC_SENDING" and "deref (m_txPkt (mac (upper w))) (upper w) = Some p" and "length p \<le> 127"
    and "listening w (192000 + nat (on_air p))" and "\<forall>c. env_connected base c"
    and "LrWpanMac_PdDataConfirm menv IEEE_802_15_4_PHY_SUCCESS (mac_at (m_currentTs (psim w) + 192000 + nat (on_air p)) (upper w)) = Some m"
    and "concat (map mac_asks (mouts m)) = []"
  shows "\<exists>v. phy_run (stack_env menv base (Suc (Suc n))) [TrxRequest IEEE_802_15_4_PHY_TX_ON, Turn a, Turn b] w = Some v \<and> upper v = m \<and>
    int (m_currentTs (psim v)) = int (m_currentTs (psim w)) + 192000 + 192000 + 32000 * int (length p) \<and>
    pouts v = pouts w @ [PlmeSetTRXStateConfirm IEEE_802_15_4_PHY_TX_ON, StartTx p (192000 + 32000 * int (length p)), PdDataConfirm IEEE_802_15_4_PHY_SUCCESS] \<and>
    m_trxState (phy v) = IEEE_802_15_4_PHY_TX_ON \<and> m_trxStatePending (phy v) = IEEE_802_15_4_PHY_IDLE"
  using transmission [OF assms, of n a b] by (fastforce simp: on_air_def)

lemma frame_goes_through_witness:
  "\<forall>hm cm. \<exists>w p v. w = sample_radio IEEE_802_15_4_PHY_RX_ON (sample_sending (sample_env hm cm) (sample_request (Mac16Address 0 1) 9)) \<and>
     p = mac_wire (mcps_header (sample_env hm cm) (sample_request (Mac16Address 0 1) 9) (mac (sample_station (Mac16Address 0 2)))) @ [1, 2, 3] \<and>
     phy_run (stack_env (sample_env hm cm) sample_surroundings 2) [TrxRequest IEEE_802_15_4_PHY_TX_ON, Turn 0, Turn 0] w = Some v \<and>
     int (m_currentTs (psim v)) = 384000 + 32000 * int (length p) \<and>
     pouts v = [PlmeSetTRXStateConfirm IEEE_802_15_4_PHY_TX_ON, StartTx p (192000 + 32000 * int (length p)), PdDataConfirm IEEE_802_15_4_PHY_SUCCESS]"
proof (intro allI)
  fix hm cm
  let ?e = "sample_env hm cm" and ?r = "sample_request (Mac16Address 0 1) 9"
  let ?m = "sample_sending ?e ?r" and ?h = "mac_rebuilt (LrWpanMacHeader_new hm) (mcps_header ?e ?r (mac (sample_station (Mac16Address 0 2))))"
  let ?w = "sample_radio IEEE_802_15_4_PHY_RX_ON ?m" and ?p = "mac_wire (mcps_header ?e ?r (mac (sample_station (Mac16Address 0 2)))) @ [1, 2, 3]"
  let ?t = "m_currentTs (psim ?w) + 192000 + nat (on_air ?p)"
  have r: "short_request ?r" by (simp add: short_request_def sample_request_def)
  have len: "length ?p \<le> 127" using data_header_size [OF r, of ?e "mac (sample_station (Mac16Address 0 2))"] by simp
  have s: "m_lrWpanMacState (mac (upper ?w)) = MAC_SENDING" "deref (m_txPkt (mac (upper ?w))) (upper ?w) = Some ?p"
    by (simp_all add: sample_radio_def sample_sending_def sample_station_def deref_def Let_def)
  define x where "x = mac_at ?t (upper ?w)"
  have x: "mac x = mac ?m" "deref (m_txPkt (mac x)) x = Some ?p" "mouts x = []" "sim_ok (msim x)"
    using s(2) by (simp_all add: x_def mac_at_def deref_def sync_clock_def sample_radio_def sample_sending_def sample_station_def Let_def sim_ok_def Simulator_new_def)
  have sending: "m_lrWpanMacState (mac x) = MAC_SENDING" "m_groupAckPolicy (mac x) = GROUP_ACK_DISABLED"
    unfolding x(1) by (simp_all add: sample_sending_def sample_station_def Let_def blank_policy)
  have h: "mac_peek ?e ?p = Some ?h"
    using sample_peek [OF r, of ?e] by (simp add: sample_env_def Let_def)
  have ack: "LrWpanMacHeader_IsAckReq ?h"
    unfolding received_header(2) [OF r]
    by (simp add: asks_ack_def sample_request_def group_address_def sample_station_def) (simp add: blank_mac_def LrWpanMac_new_def)
  obtain m where m: "LrWpanMac_PdDataConfirm ?e IEEE_802_15_4_PHY_SUCCESS x = Some m" "mouts m = []"
    using ack_request_stalls [OF x(4) disjI1 [OF sending(1)] sending(2) x(2) h received_header(3) [OF r] ack] unfolding x(3) by blast
  have l: "listening ?w (192000 + nat (on_air ?p))"
    by (simp add: listening_def sample_radio_def blank_phy_def phy_running_def Simulator_IsExpired_def) (simp add: Simulator_new_def)
  have c: "\<forall>c. env_connected sample_surroundings c" by (simp add: sample_surroundings_def)
  from frame_goes_through [OF s len l c m(1) [unfolded x_def], of 0 0 0] m(2)
  obtain v where "phy_run (stack_env ?e sample_surroundings 2) [TrxRequest IEEE_802_15_4_PHY_TX_ON, Turn 0, Turn 0] ?w = Some v"
    "int (m_currentTs (psim v)) = 384000 + 32000 * int (length ?p)"
    "pouts v = [PlmeSetTRXStateConfirm IEEE_802_15_4_PHY_TX_ON, StartTx ?p (192000 + 32000 * int (length ?p)), PdDataConfirm IEEE_802_15_4_PHY_SUCCESS]"
    by (auto simp: numeral_2_eq_2 sample_radio_def Simulator_new_def)
  then show "\<exists>w p v. w = ?w \<and> p = ?p \<and> phy_run (stack_env ?e sample_surroundings 2) [TrxRequest IEEE_802_15_4_PHY_TX_ON, Turn 0, Turn 0] w = Some v \<and>
     int (m_currentTs (psim v)) = 384000 + 32000 * int (length p) \<and>
     pouts v = [PlmeSetTRXStateConfirm IEEE_802_15_4_PHY_TX_ON, StartTx p (192000 + 32000 * int (length p)), PdDataConfirm IEEE_802_15_4_PHY_SUCCESS]"
    by blast
qed

text \<open>
  C31: The number of symbols that the MAC computes for a packet from the rates and durations it asks the PHY
  for, times the duration of a symbol, is exactly the time for which the PHY puts the packet on the
  channel.
\<close>

theorem transmission_time_agrees:
  assumes "m_phyOption f = IEEE_802_15_4_2_4GHZ_OQPSK" and "LrWpanPhy_GetDataOrSymbolRate False f = Some (of_nat (env_symbolRate menv))"
    and "LrWpanPhy_GetPhySHRDuration f = Some (env_phySHRDuration menv)"
    and "LrWpanPhy_GetPhySymbolsPerOctet f = Some (of_int (fst (env_symbolsPerOctet menv)) / of_int (snd (env_symbolsPerOctet menv)))"
    and "0 < snd (env_symbolsPerOctet menv)" and "deref (m_txPkt (mac m)) m = Some p" and "length p < 2 ^ 32"
  shows "\<exists>n. LrWpanMac_GetTxPacketSymbols menv m = Some n \<and> LrWpanPhy_CalculateTxTime p f = Some (mac_seconds menv (uint n)) \<and>
    mac_seconds menv (uint n) = 192000 + 32000 * int (length p)"
proof -
  have rate: "env_symbolRate menv = 62500" 
    using assms(1,2) by (simp add: LrWpanPhy_GetDataOrSymbolRate_def)
  have shr: "env_phySHRDuration menv = 10"
    using assms(1,3) by (simp add: LrWpanPhy_GetPhySHRDuration_def)
  let ?a = "fst (env_symbolsPerOctet menv)" and ?b = "snd (env_symbolsPerOctet menv)"
  have "(of_int ?a :: rat) = of_int (2 * ?b)" using assms(1,4,5) by (simp add: LrWpanPhy_GetPhySymbolsPerOctet_def field_simps)
  then have ab: "?a = 2 * ?b" by (simp only: of_int_eq_iff)
  have "(1 + int (length p)) * ?a div ?b = 2 + 2 * int (length p)"
  proof -
    have "(1 + int (length p)) * ?a = (2 + 2 * int (length p)) * ?b" by (simp add: ab algebra_simps)
    then show ?thesis using assms(5) by simp
  qed
  then have "octet_symbols menv (length p) = of_int (12 + 2 * int (length p))" by (simp add: octet_symbols_def shr)
  moreover have "uint (of_int (12 + 2 * int (length p)) :: u64) = 12 + 2 * int (length p)"
    by (subst unsigned_of_int) (use assms(7) in \<open>simp add: take_bit_int_eq_self\<close>)
  ultimately have n: "uint (octet_symbols menv (length p)) = 12 + 2 * int (length p)" by simp
  have "mac_seconds menv (12 + 2 * int (length p)) = 192000 + 32000 * int (length p)"
    by (simp add: mac_seconds_def Seconds_def rate)
  then show ?thesis
    using assms(6) tx_time [OF assms(1), of p] n by (auto simp: LrWpanMac_GetTxPacketSymbols_def)
qed

lemma transmission_time_agrees_witness:
  "\<forall>hm cm. \<exists>n. LrWpanMac_GetTxPacketSymbols (sample_env hm cm) ((sample_station (Mac16Address 0 2))\<lparr>mac := (mac (sample_station (Mac16Address 0 2)))\<lparr>m_txPkt := Some 0\<rparr>\<rparr>) = Some n \<and>
     LrWpanPhy_CalculateTxTime [1, 2, 3] blank_phy = Some (mac_seconds (sample_env hm cm) (uint n)) \<and> mac_seconds (sample_env hm cm) (uint n) = 288000"
proof (intro allI)
  fix hm cm
  let ?e = "sample_env hm cm" and ?m = "(sample_station (Mac16Address 0 2))\<lparr>mac := (mac (sample_station (Mac16Address 0 2)))\<lparr>m_txPkt := Some 0\<rparr>\<rparr>"
  have f: "m_phyOption blank_phy = IEEE_802_15_4_2_4GHZ_OQPSK" "LrWpanPhy_GetDataOrSymbolRate False blank_phy = Some (of_nat (env_symbolRate ?e))"
    "LrWpanPhy_GetPhySHRDuration blank_phy = Some (env_phySHRDuration ?e)"
    "LrWpanPhy_GetPhySymbolsPerOctet blank_phy = Some (of_int (fst (env_symbolsPerOctet ?e)) / of_int (snd (env_symbolsPerOctet ?e)))"
    "0 < snd (env_symbolsPerOctet ?e)"
    by (simp_all add: blank_phy_def LrWpanPhy_GetDataOrSymbolRate_def LrWpanPhy_GetPhySHRDuration_def LrWpanPhy_GetPhySymbolsPerOctet_def sample_env_def Let_def)
  have p: "deref (m_txPkt (mac ?m)) ?m = Some [1, 2, 3]" "length ([1, 2, 3] :: packet) < 2 ^ 32"
    by (simp_all add: deref_def sample_station_def)
  from transmission_time_agrees [OF f p] show "\<exists>n. LrWpanMac_GetTxPacketSymbols ?e ?m = Some n \<and>
     LrWpanPhy_CalculateTxTime [1, 2, 3] blank_phy = Some (mac_seconds ?e (uint n)) \<and> mac_seconds ?e (uint n) = 288000" by simp
qed



text \<open>
  C33: A reception that was given up for a transmission ends while the transceiver is still turning around: it
  stays in BUSY_RX without a packet. When the MAC then asks for RX_ON instead, it is told that the
  receiver is on, and the next signal reads through the null pointer.
\<close>

theorem reception_without_packet:
  assumes "m_trxState (phy w) = IEEE_802_15_4_PHY_BUSY_RX" and "m_trxStatePending (phy w) = IEEE_802_15_4_PHY_TX_ON"
    and "m_currentRxPacket (phy w) = (Some s, True)" and "m_isRxCanceled (phy w)" and "m_phyOption (phy w) = IEEE_802_15_4_2_4GHZ_OQPSK"
  shows "\<exists>u v. LrWpanPhy_EndRx (recording base) a s w = Some u \<and> m_trxState (phy u) = IEEE_802_15_4_PHY_BUSY_RX \<and>
    LrWpanPhy_PlmeSetTRXStateRequest (recording base) IEEE_802_15_4_PHY_RX_ON u = Some v \<and> m_trxState (phy v) = IEEE_802_15_4_PHY_BUSY_RX \<and>
    pouts v = pouts w @ [PlmeSetTRXStateConfirm IEEE_802_15_4_PHY_RX_ON] \<and> LrWpanPhy_StartRx (recording base) b s' v = None"
proof -
  obtain u where u: "LrWpanPhy_EndRx (recording base) a s w = Some u" "m_trxState (phy u) = IEEE_802_15_4_PHY_BUSY_RX"
    "m_trxStatePending (phy u) = IEEE_802_15_4_PHY_TX_ON" "fst (m_currentRxPacket (phy u)) = None" "pouts u = pouts w"
    using cancelled_reception_ends [OF assms(3-5), of "recording base" a] assms(1,2) by auto
  obtain v where v: "LrWpanPhy_PlmeSetTRXStateRequest (recording base) IEEE_802_15_4_PHY_RX_ON u = Some v" "m_trxState (phy v) = IEEE_802_15_4_PHY_BUSY_RX"
    "m_currentRxPacket (phy v) = m_currentRxPacket (phy u)" "pouts v = pouts u @ [PlmeSetTRXStateConfirm IEEE_802_15_4_PHY_RX_ON]"
    using receive_request_answered [OF u(2), of base] u(3) by auto
  from no_packet_crash [OF v(2)] v u show ?thesis by auto
qed

lemma reception_without_packet_witness:
  "\<exists>w u v. phy_run (recording sample_surroundings) [Arrive 0 0, TrxRequest IEEE_802_15_4_PHY_TX_ON] (sample_radio IEEE_802_15_4_PHY_RX_ON ()) = Some w \<and>
     phy_turn (recording sample_surroundings) 0 w = Some u \<and>
     phy_run (recording sample_surroundings) [TrxRequest IEEE_802_15_4_PHY_RX_ON] u = Some v \<and>
     phy_do (recording sample_surroundings) (Arrive 0 1) v = None"
proof -
  obtain w s where w: "phy_run (recording sample_surroundings) [Arrive 0 0, TrxRequest IEEE_802_15_4_PHY_TX_ON] (sample_radio IEEE_802_15_4_PHY_RX_ON ()) = Some w"
    "Simulator_ProcessOneEvent (psim w) = Some (Some (EndRx 0), s)" "m_trxState (phy w) = IEEE_802_15_4_PHY_BUSY_RX"
    "m_trxStatePending (phy w) = IEEE_802_15_4_PHY_TX_ON" "m_currentRxPacket (phy w) = (Some 0, True)" "m_isRxCanceled (phy w)"
    "m_phyOption (phy w) = IEEE_802_15_4_2_4GHZ_OQPSK"
    by (simp add: phy_rx_defs recording_def sample_surroundings_def sample_radio_def blank_phy_def Simulator_new_def Let_def
      LrWpanPhy_PlmeSetTRXStateRequest_def phy_request_tx_def LrWpanPhy_CancelEd_def phy_terminate_rx_def turnaround_time phy_notify_def Simulator_ProcessOneEvent_def)
  let ?w = "w\<lparr>psim := s\<rparr>"
  have t: "phy_turn (recording sample_surroundings) 0 w = LrWpanPhy_EndRx (recording sample_surroundings) 0 0 ?w"
    using w(2) by (simp add: phy_turn_def)
  have "m_trxState (phy ?w) = IEEE_802_15_4_PHY_BUSY_RX" "m_trxStatePending (phy ?w) = IEEE_802_15_4_PHY_TX_ON"
    "m_currentRxPacket (phy ?w) = (Some 0, True)" "m_isRxCanceled (phy ?w)" "m_phyOption (phy ?w) = IEEE_802_15_4_2_4GHZ_OQPSK"
    using w by simp_all
  from reception_without_packet [OF this, of sample_surroundings 0 0 1] t w(1) show ?thesis by fastforce
qed

text \<open>
  C34: In every run of the whole MAC, whatever the interleaving of its own events, the requests of the layer
  above, received frames and beacons and the confirmations of the PHY: the transmit queue never gets
  longer than its bound, which does not change, the MAC is in one of its six states and never in one
  of the results of a contention, time does not go back, and the event queue stays well formed.
\<close>

theorem mac_runs_keep_queue:
  assumes "mac_reach env w v" and "sim_ok (msim w)" and "m_lrWpanMacState (mac w) = MAC_IDLE"
    and "length (m_txQueue (mac w)) \<le> unat (m_maxTxQueueSize (mac w))"
  shows "length (m_txQueue (mac v)) \<le> unat (m_maxTxQueueSize (mac w)) \<and> m_maxTxQueueSize (mac v) = m_maxTxQueueSize (mac w) \<and>
    m_lrWpanMacState (mac v) \<in> {MAC_IDLE, MAC_CSMA, MAC_SENDING, MAC_ACK_PENDING, MAC_GTS, MAC_GTS_SENDING} \<and>
    m_currentTs (msim w) \<le> m_currentTs (msim v) \<and> sim_ok (msim v)"
proof -
  have "mac_good (m_maxTxQueueSize (mac w)) (m_currentTs (msim w)) w" using assms(2-4) by (simp add: mac_good_def mac_inv_def)
  from reach_good [OF assms(1) this] show ?thesis by (simp add: mac_good_def mac_inv_def)
qed

lemma mac_runs_keep_queue_witness:
  "\<forall>hm cm. \<exists>v. mac_reach (sample_env hm cm) (sample_station (Mac16Address 0 2)) v \<and>
     m_txQueue (mac v) = [\<lparr>txQMsduHandle = 9, txQPkt = Some 0\<rparr>] \<and> m_maxTxQueueSize (mac v) = 4 \<and> sim_ok (msim v)"
proof (intro allI)
  fix hm cm
  let ?e = "sample_env hm cm" and ?w = "sample_station (Mac16Address 0 2)" and ?r = "sample_request (Mac16Address 0 1) 8"
  have r: "direct_request ?r"
    by (simp add: direct_request_def short_request_def sample_request_def bit_numeral_rec)
  have w: "length (pkts ?w 0) \<le> 65000" "sim_ok (msim ?w)" "length (m_txQueue (mac ?w)) < unat (m_maxTxQueueSize (mac ?w))"
    "m_lrWpanMacState (mac ?w) = MAC_IDLE" "m_txQueue (mac ?w) = []" "m_maxTxQueueSize (mac ?w) = 4"
    by (simp_all add: sample_station_def sim_ok_new blank_mac_def LrWpanMac_new_def)
  obtain v where v: "LrWpanMac_McpsDataRequest ?e ?r 0 ?w = Some v" "m_txQueue (mac v) = [\<lparr>txQMsduHandle = 9, txQPkt = Some 0\<rparr>]"
    using request_queued [OF sample_rooms r w(1-3), of hm cm] w(5) by (auto simp: sample_request_def)
  have "(?w\<lparr>pkts := (pkts ?w)(0 := [1, 2, 3])\<rparr>) = ?w" by (auto simp: sample_station_def)
  then have "mac_step ?e ?w v" using v(1) by (intro data_request [of _ ?r 0 ?w "[1, 2, 3]"]) simp
  then have reach: "mac_reach ?e ?w v" by (simp add: mac_reach_def)
  from mac_runs_keep_queue [OF reach w(2,4)] w(5,6) v(2) reach
  show "\<exists>v. mac_reach ?e ?w v \<and> m_txQueue (mac v) = [\<lparr>txQMsduHandle = 9, txQPkt = Some 0\<rparr>] \<and> m_maxTxQueueSize (mac v) = 4 \<and> sim_ok (msim v)"
    by auto
qed

text \<open>
  C35: The transmit queue drains: an idle MAC with unslotted CSMA-CA, whose queue holds frames that ask for no
  acknowledgement, and whose contention finds the channel idle and whose PHY confirms what it is asked, sends
  every packet of the queue, in their order and once each: for each there is a contention, the transmission of
  exactly that packet and its confirmation to the layer above, and then the interframe space, at whose
  end the next one is taken up. After as many rounds as there are packets the queue is empty and the MAC idle.
\<close>

theorem queue_drains:
  assumes "mac_calm w" and "\<forall>q \<in> set (m_txQueue (mac w)). plain_frame env (pkts w) q" and "rate_ok env" and "env_dataConfirm env"
  shows "\<exists>v. do { w' \<leftarrow> LrWpanMac_CheckQueue w; sending_rounds env (length (m_txQueue (mac w))) w' } = Some v \<and>
    m_txQueue (mac v) = [] \<and> m_lrWpanMacState (mac v) = MAC_IDLE \<and>
    mouts v = mouts w @ concat (map (sent_outs (pkts w)) (m_txQueue (mac w)))"
proof -
  obtain x where x: "LrWpanMac_CheckQueue w = Some x" "m_txQueue (mac x) = m_txQueue (mac w)" "mouts x = mouts w" "pkts x = pkts w"
    "if m_txQueue (mac w) = [] then x = w else mac_loaded x"
    using calm_CheckQueue [OF assms(1)] by blast
  with rounds_send [of "m_txQueue (mac w)" x env] assms show ?thesis
    by (auto simp: mac_calm_def mac_quiet_def split: if_splits)
qed

lemma queue_drains_witness:
  "\<forall>hm cm. \<exists>p v. let w = sample_station (Mac16Address 0 2); e = sample_env hm cm;
     x = w\<lparr>mac := (mac w)\<lparr>m_txQueue := [\<lparr>txQMsduHandle = 9, txQPkt = Some 0\<rparr>, \<lparr>txQMsduHandle = 7, txQPkt = Some 0\<rparr>]\<rparr>, pkts := (\<lambda>_. p)\<rparr> in
     do { w' \<leftarrow> LrWpanMac_CheckQueue x; sending_rounds e 2 w' } = Some v \<and> m_txQueue (mac v) = [] \<and>
     filter (\<lambda>out. case out of McpsDataConfirm h s \<Rightarrow> True | PdDataRequest q \<Rightarrow> True | _ \<Rightarrow> False) (mouts v) =
       [PdDataRequest p, McpsDataConfirm 9 IEEE_802_15_4_SUCCESS, PdDataRequest p, McpsDataConfirm 7 IEEE_802_15_4_SUCCESS]"
proof (intro allI)
  fix hm cm
  let ?e = "sample_env hm cm" and ?w = "sample_station (Mac16Address 0 2)" and ?r = "sample_request (Mac16Address 0 1) 0"
  let ?p = "mac_wire (mcps_header ?e ?r (mac ?w)) @ [1, 2, 3]"
  let ?x = "?w\<lparr>mac := (mac ?w)\<lparr>m_txQueue := [\<lparr>txQMsduHandle = 9, txQPkt = Some 0\<rparr>, \<lparr>txQMsduHandle = 7, txQPkt = Some 0\<rparr>]\<rparr>, pkts := (\<lambda>_. ?p)\<rparr>"
  have r: "short_request ?r" by (simp add: short_request_def sample_request_def)
  have calm: "mac_calm ?x"
    by (simp add: mac_calm_def mac_quiet_def sample_station_def blank_mac_def LrWpanMac_new_def LrWpanCsmaCa_IsUnSlottedCsmaCa_def Simulator_new_def LrWpanCsmaCa_new_def)
  have frames: "\<forall>q \<in> set (m_txQueue (mac ?x)). plain_frame ?e (pkts ?x) q"
    using sample_peek [OF r, of ?e "mac ?w" "[1, 2, 3]"] received_header(2,3) [OF r, where m = "mac ?w" and env = ?e]
    by (simp add: plain_frame_def asks_ack_def sample_request_def)
  from queue_drains [OF calm frames sample_env_rate(1)]
  obtain v where v: "do { w' \<leftarrow> LrWpanMac_CheckQueue ?x; sending_rounds ?e 2 w' } = Some v" "m_txQueue (mac v) = []"
    "mouts v = concat (map (sent_outs (pkts ?x)) (m_txQueue (mac ?x)))"
    by (auto simp: sample_env_def Let_def numeral_2_eq_2 sample_station_def)
  then show "\<exists>p v. let w = ?w; e = ?e;
     x = w\<lparr>mac := (mac w)\<lparr>m_txQueue := [\<lparr>txQMsduHandle = 9, txQPkt = Some 0\<rparr>, \<lparr>txQMsduHandle = 7, txQPkt = Some 0\<rparr>]\<rparr>, pkts := (\<lambda>_. p)\<rparr> in
     do { w' \<leftarrow> LrWpanMac_CheckQueue x; sending_rounds e 2 w' } = Some v \<and> m_txQueue (mac v) = [] \<and>
     filter (\<lambda>out. case out of McpsDataConfirm h s \<Rightarrow> True | PdDataRequest q \<Rightarrow> True | _ \<Rightarrow> False) (mouts v) =
       [PdDataRequest p, McpsDataConfirm 9 IEEE_802_15_4_SUCCESS, PdDataRequest p, McpsDataConfirm 7 IEEE_802_15_4_SUCCESS]"
    by (intro exI [of _ ?p] exI [of _ v]) (simp add: Let_def sent_outs_def)
qed

text \<open>
  C36: The network device over the MAC, end to end: a packet sent to the address of another device of the PAN,
  without an acknowledgement being asked for, is queued as one frame, and that frame, received there,
  hands the network layer the packet, as IPv6, with the address of the sender.
\<close>

theorem device_delivers:
  assumes "types_ok t" and "sends_direct env p w" and "receiving env (nmac w')"
    and "m_macPanId (mac (nmac w')) = m_macPanId (mac (nmac w))"
    and "m_shortAddress (mac (nmac w)) \<noteq> Mac16Address 0 0" and "m_shortAddress (mac (nmac w')) \<noteq> Mac16Address 0 0"
    and "m_shortAddress (mac (nmac w)) \<noteq> m_shortAddress (mac (nmac w'))" and "\<not> dev_acks (m_shortAddress (mac (nmac w'))) w"
  shows "\<exists>v u params. LrWpanNetDevice_Send env t p (LrWpanNetDevice_GetAddress t w') w = Some (True, v) \<and>
    m_txQueue (mac (nmac v)) = m_txQueue (mac (nmac w)) @ [\<lparr>txQMsduHandle = 0, txQPkt = Some p\<rparr>] \<and>
    LrWpanMac_PdDataIndication env (pkts (nmac v) p) lqi (nmac w') = Some u \<and>
    mouts u = mouts (nmac w') @ [McpsDataIndication params (pkts (nmac w) p)] \<and>
    nouts (LrWpanNetDevice_McpsDataIndication t params ext (pkts (nmac w) p) (w'\<lparr>nmac := u\<rparr>)) =
      nouts w' @ [ReceiveCallback (pkts (nmac w) p) 0x86DD (LrWpanNetDevice_GetAddress t w)]"
proof -
  let ?m = "mac (nmac w)" and ?m' = "mac (nmac w')" and ?p = "pkts (nmac w) p"
  let ?r = "dev_request (m_shortAddress ?m') (dev_options (ndev w)) w"
  let ?i = "\<lparr>ind_srcAddrMode = SHORTADDR, ind_srcPanId = m_macPanId ?m, ind_srcAddr = m_shortAddress ?m, ind_dstAddrMode = SHORTADDR,
    ind_dstPanId = req_dstPanId ?r, ind_dstAddr = req_dstAddr ?r, ind_mpduLinkQuality = lqi, ind_dsn = m_macDsn ?m\<rparr>"
  have dest: "dest_short t (LrWpanNetDevice_GetAddress t w') = Some (m_shortAddress ?m')"
    using dest_short_of(2) [OF assms(1)] GetAddress_short [of w' t] assms(6) by (simp add: LrWpanMac_GetShortAddress_def)
  obtain v where v: "LrWpanNetDevice_Send env t p (LrWpanNetDevice_GetAddress t w') w = Some (True, w\<lparr>nmac := v\<rparr>)"
    "m_txQueue (mac v) = m_txQueue ?m @ [\<lparr>txQMsduHandle = 0, txQPkt = Some p\<rparr>]"
    "LrWpanMac_AddFrame (env_checksum env) (env_room env) (mcps_header env ?r ?m) ?p = Some (pkts v p)"
    using Send_direct [OF assms(2) dest] by blast
  have a: "\<not> asks_ack ?r ?m" using assms(8) by (simp add: dev_request_acks)
  have "addressed ?r ?m ?m'" using assms(4,7) by (auto simp: addressed_def dev_request_def class_defs)
  moreover have "rooms (env_room env)" "length ?p \<le> 65000" using assms(2) by (simp_all add: sends_direct_def)
  from frame_indicated [OF this(1) dev_request_short this(2) a v(3) assms(3), of lqi]
  obtain u where "LrWpanMac_PdDataIndication env (pkts v p) lqi (nmac w') = Some u"
    "mouts u = mouts (nmac w') @ (if addressed ?r ?m ?m' then [McpsDataIndication ?i ?p] else [])" by blast
  moreover have "nouts (LrWpanNetDevice_McpsDataIndication t ?i ext ?p (w'\<lparr>nmac := u\<rparr>)) =
      nouts w' @ [ReceiveCallback ?p 0x86DD (LrWpanNetDevice_GetAddress t w)]"
    using GetAddress_short [of w t] assms(5) by (simp add: LrWpanNetDevice_McpsDataIndication_def dev_emit_def LrWpanMac_GetShortAddress_def)
  ultimately show ?thesis using v(1,2) by (intro exI [of _ "w\<lparr>nmac := v\<rparr>"] exI [of _ u] exI [of _ ?i]) simp
qed

lemma device_delivers_witness:
  "\<forall>hm cm. \<exists>v u params. let a = sample_device_of (Mac16Address 0 2) False; b = sample_device_of (Mac16Address 0 1) False in
     LrWpanNetDevice_Send (sample_env hm cm) sample_types 0 (LrWpanNetDevice_GetAddress sample_types b) a = Some (True, v) \<and>
     LrWpanMac_PdDataIndication (sample_env hm cm) (pkts (nmac v) 0) 200 (nmac b) = Some u \<and>
     nouts (LrWpanNetDevice_McpsDataIndication sample_types params (Mac64Address 0 0 0 0 0 0 0 0) [1, 2, 3] (b\<lparr>nmac := u\<rparr>)) =
       [ReceiveCallback [1, 2, 3] 0x86DD (LrWpanNetDevice_GetAddress sample_types a)]"
proof (intro allI)
  fix hm cm
  let ?a = "sample_device_of (Mac16Address 0 2) False" and ?b = "sample_device_of (Mac16Address 0 1) False"
  have n: "\<not> dev_acks (m_shortAddress (mac (nmac ?b))) ?a" by (simp add: dev_acks_def sample_mac_of)
  from device_delivers [OF sample_types_ok sample_sends _ _ _ _ _ n, of hm cm 200 "Mac64Address 0 0 0 0 0 0 0 0"]
  show "\<exists>v u params. let a = ?a; b = ?b in
     LrWpanNetDevice_Send (sample_env hm cm) sample_types 0 (LrWpanNetDevice_GetAddress sample_types b) a = Some (True, v) \<and>
     LrWpanMac_PdDataIndication (sample_env hm cm) (pkts (nmac v) 0) 200 (nmac b) = Some u \<and>
     nouts (LrWpanNetDevice_McpsDataIndication sample_types params (Mac64Address 0 0 0 0 0 0 0 0) [1, 2, 3] (b\<lparr>nmac := u\<rparr>)) =
       [ReceiveCallback [1, 2, 3] 0x86DD (LrWpanNetDevice_GetAddress sample_types a)]"
    unfolding Let_def by (auto simp: sample_mac_of sample_station_of sample_receiving)
qed

text \<open>
  C37: A device in its default configuration asks for acknowledgements, and the MAC by default has no group
  acknowledgement policy. When the frame of a packet that such a device sends to another one has been
  transmitted, its confirmation changes nothing: no state change and no timeout is scheduled, the queue
  is not served, and the next received packet fails the assertion of PdDataIndication.
\<close>

theorem default_device_blocks:
  assumes "sends_direct env p w" and "dest_short t dest = Some dst" and "dev_acks dst w"
    and "sim_ok (msim x)" and "m_lrWpanMacState (mac x) = MAC_SENDING" and "m_groupAckPolicy (mac x) = GROUP_ACK_DISABLED"
    and "m_txPkt (mac x) = Some p"
  shows "\<exists>v. LrWpanNetDevice_Send env t p dest w = Some (True, v) \<and>
    (pkts x p = pkts (nmac v) p \<longrightarrow>
      (\<exists>y. LrWpanMac_PdDataConfirm env IEEE_802_15_4_PHY_SUCCESS x = Some y \<and> mac y = mac x \<and> mouts y = mouts x \<and>
        timed (msim y) \<subseteq> timed (msim x) \<and> LrWpanMac_CheckQueue y = Some y \<and> LrWpanMac_PdDataIndication env psdu lqi y = None))"
proof -
  let ?r = "dev_request dst (dev_options (ndev w)) w"
  let ?h = "mac_rebuilt (LrWpanMacHeader_new (env_mem env)) (mcps_header env ?r (mac (nmac w)))"
  obtain v where v: "LrWpanNetDevice_Send env t p dest w = Some (True, w\<lparr>nmac := v\<rparr>)"
    "LrWpanMac_AddFrame (env_checksum env) (env_room env) (mcps_header env ?r (mac (nmac w))) (pkts (nmac w) p) = Some (pkts v p)"
    using Send_direct [OF assms(1,2)] by blast
  have h: "mac_peek env (pkts v p) = Some ?h"
    using dev_frame(2) [OF _ _ v(2)] assms(1) by (simp add: sends_direct_def)
  have ack: "LrWpanMacHeader_IsAckReq ?h" using received_header(2) [OF dev_request_short] assms(3) by (simp add: dev_request_acks)
  have "\<exists>y. LrWpanMac_PdDataConfirm env IEEE_802_15_4_PHY_SUCCESS x = Some y \<and> mac y = mac x \<and> mouts y = mouts x \<and>
        timed (msim y) \<subseteq> timed (msim x) \<and> LrWpanMac_CheckQueue y = Some y \<and> LrWpanMac_PdDataIndication env psdu lqi y = None"
    if "pkts x p = pkts v p"
    using ack_request_stalls [OF assms(4) _ assms(6) _ h received_header(3) [OF dev_request_short] ack] assms(5,7) that
    by (simp add: deref_def)
  then show ?thesis using v(1) by simp
qed

lemma default_device_blocks_witness:
  "\<forall>hm cm. \<exists>v y. let e = sample_env hm cm; w = sample_device_of (Mac16Address 0 2) True in
     LrWpanNetDevice_Send e sample_types 0 (Mac16Address_ConvertTo sample_types (Mac16Address 0 1)) w = Some (True, v) \<and>
     (let x = (sample_station (Mac16Address 0 2))\<lparr>mac := (mac (sample_station (Mac16Address 0 2)))\<lparr>m_lrWpanMacState := MAC_SENDING, m_txPkt := Some 0\<rparr>,
        pkts := pkts (nmac v)\<rparr> in
      LrWpanMac_PdDataConfirm e IEEE_802_15_4_PHY_SUCCESS x = Some y \<and> m_lrWpanMacState (mac y) = MAC_SENDING \<and> timed (msim y) = {} \<and>
      LrWpanMac_PdDataIndication e [] 0 y = None)"
proof (intro allI)
  fix hm cm
  let ?e = "sample_env hm cm" and ?w = "sample_device_of (Mac16Address 0 2) True" and ?d = "Mac16Address 0 1"
  let ?t = "Mac16Address_ConvertTo sample_types ?d" and ?s = "sample_station (Mac16Address 0 2)"
  let ?x = "\<lambda>ps. ?s\<lparr>mac := (mac ?s)\<lparr>m_lrWpanMacState := MAC_SENDING, m_txPkt := Some 0\<rparr>, pkts := ps\<rparr>"
  have a: "dev_acks ?d ?w" by (simp add: dev_acks_def sample_mac_of sample_station_of group_address_def)
  have g: "m_groupAckPolicy (mac ?s) = GROUP_ACK_DISABLED" "timed (msim ?s) = {}" by (simp_all add: sample_station_def blank_policy timed_new)
  have f: "sim_ok (msim (?x ps))" "m_lrWpanMacState (mac (?x ps)) = MAC_SENDING" "m_groupAckPolicy (mac (?x ps)) = GROUP_ACK_DISABLED"
    "m_txPkt (mac (?x ps)) = Some 0" "timed (msim (?x ps)) = {}" for ps
    by (simp_all add: g sample_station_of)
  obtain v0 where v0: "LrWpanNetDevice_Send ?e sample_types 0 ?t ?w = Some (True, v0)"
    using Send_direct [OF sample_sends sample_dest] by blast
  from default_device_blocks [OF sample_sends [of hm cm] sample_dest a f(1-4) [of "pkts (nmac v0)"], of "[]" 0] v0 f(2,5)
  obtain y where "LrWpanMac_PdDataConfirm ?e IEEE_802_15_4_PHY_SUCCESS (?x (pkts (nmac v0))) = Some y" "mac y = mac (?x (pkts (nmac v0)))"
    "timed (msim y) = {}" "LrWpanMac_PdDataIndication ?e [] 0 y = None" by auto
  then show "\<exists>v y. let e = ?e; w = ?w in
     LrWpanNetDevice_Send e sample_types 0 ?t w = Some (True, v) \<and>
     (let x = ?x (pkts (nmac v)) in
      LrWpanMac_PdDataConfirm e IEEE_802_15_4_PHY_SUCCESS x = Some y \<and> m_lrWpanMacState (mac y) = MAC_SENDING \<and> timed (msim y) = {} \<and>
      LrWpanMac_PdDataIndication e [] 0 y = None)"
    using v0 by (intro exI [of _ v0] exI [of _ y]) (simp add: Let_def)
qed

text \<open>
  C38: A packet of at most the MTU is accepted, and the frame the MAC makes of it, eleven octets longer, is not too
  long for the PHY; a longer packet is refused and changes nothing.
\<close>

theorem mtu_fits_the_phy:
  assumes "rooms (env_room env)" and "m_useDirectTx (ndev w)" and "\<not> m_useGTS (ndev w)" and "sim_ok (msim (nmac w))"
    and "length (m_txQueue (mac (nmac w))) < unat (m_maxTxQueueSize (mac (nmac w)))" and "dest_short t dest = Some dst"
  shows "if length (pkts (nmac w) p) \<le> 114
    then \<exists>v. LrWpanNetDevice_Send env t p dest w = Some (True, v) \<and> length (pkts (nmac v) p) = length (pkts (nmac w) p) + 11 \<and>
      \<not> of_nat (length (pkts (nmac v) p)) > aMaxPhyPacketSize
    else LrWpanNetDevice_Send env t p dest w = Some (False, w)"
proof (cases "length (pkts (nmac w) p) \<le> 114")
  case True
  then have s: "sends_direct env p w" using assms(1-5) by (simp add: sends_direct_def)
  obtain v where v: "LrWpanNetDevice_Send env t p dest w = Some (True, w\<lparr>nmac := v\<rparr>)"
    "LrWpanMac_AddFrame (env_checksum env) (env_room env) (mcps_header env (dev_request dst (dev_options (ndev w)) w) (mac (nmac w))) (pkts (nmac w) p) =
      Some (pkts v p)"
    using Send_direct [OF s assms(6)] by blast
  have "length (pkts v p) = length (pkts (nmac w) p) + 11" using dev_frame(1) [OF assms(1) _ v(2)] True by simp
  then show ?thesis
    using v(1) True by (simp add: aMaxPhyPacketSize_def word_less_nat_alt unat_of_nat)
next
  case False
  then show ?thesis by (simp add: LrWpanNetDevice_Send_def LrWpanNetDevice_GetMtu_def)
qed

lemma mtu_fits_the_phy_witness:
  "\<forall>hm cm. \<exists>v. LrWpanNetDevice_Send (sample_env hm cm) sample_types 0 (Mac16Address_ConvertTo sample_types (Mac16Address 0 1))
      (sample_device_of (Mac16Address 0 2) True) = Some (True, v) \<and> length (pkts (nmac v) 0) = 14"
proof (intro allI)
  fix hm cm
  let ?w = "sample_device_of (Mac16Address 0 2) True"
  have f: "m_useDirectTx (ndev ?w)" "\<not> m_useGTS (ndev ?w)" "sim_ok (msim (nmac ?w))"
    "length (m_txQueue (mac (nmac ?w))) < unat (m_maxTxQueueSize (mac (nmac ?w)))"
    by (simp_all only: sample_mac_of sample_station_of not_False_eq_True)
  from mtu_fits_the_phy [OF sample_rooms [of hm cm] f sample_dest [of "Mac16Address 0 1"], where p = 0]
  show "\<exists>v. LrWpanNetDevice_Send (sample_env hm cm) sample_types 0 (Mac16Address_ConvertTo sample_types (Mac16Address 0 1)) ?w = Some (True, v) \<and>
    length (pkts (nmac v) 0) = 14" by (simp add: sample_mac_of sample_station_of) blast
qed

text \<open>
  C39: After any history of signals that were added, removed, cleared and asked for, the interference helper,
  which updates its sum or marks it as out of date, returns exactly the sum of the signals that are in
  the set by then; signals of another spectrum model never are.
\<close>

theorem interference_is_the_sum:
  assumes "\<forall>s. sv_ok (store s)"
  shows "\<exists>h h'. ih_run store cs (LrWpanInterferenceHelper_new m) = Some h \<and>
    LrWpanInterferenceHelper_GetSignalPsd store h = Some (\<lparr>sv_model = m,
      sv_values = map (\<lambda>i. \<Sum>s\<in>held (\<lambda>s. sv_model (store s) = m) cs {}. sv_values (store s) ! i) [0..<length (sm_bands m)]\<rparr>, h')"
proof -
  obtain h where h: "ih_run store cs (LrWpanInterferenceHelper_new m) = Some h" "ih_ok store h" "ih_model h = m"
    "set (ih_signals h) = held (\<lambda>s. sv_model (store s) = m) cs {}"
    using ih_run_ok [OF new_ok assms, of cs m] by (auto simp: LrWpanInterferenceHelper_new_def)
  from GetSignalPsd_ok [OF h(2) assms] show ?thesis using h by (auto simp: psd_of_def)
qed

lemma interference_is_the_sum_witness:
  "\<exists>h h'. let m = \<lparr>sm_uid = 0, sm_bands = [lrwpan_band 0, lrwpan_band 1]\<rparr>;
       store = (\<lambda>s. if s = 1 then \<lparr>sv_model = m, sv_values = [1, 2]\<rparr> else \<lparr>sv_model = m, sv_values = [4, 8]\<rparr>) in
     ih_run store [Add_Signal 1, Add_Signal 2, Get_Psd, Remove_Signal 2, Add_Signal 3] (LrWpanInterferenceHelper_new m) = Some h \<and>
     LrWpanInterferenceHelper_GetSignalPsd store h = Some (\<lparr>sv_model = m, sv_values = [5, 10]\<rparr>, h')"
proof -
  let ?m = "\<lparr>sm_uid = 0, sm_bands = [lrwpan_band 0, lrwpan_band 1]\<rparr>"
  let ?store = "\<lambda>s :: nat. if s = 1 then \<lparr>sv_model = ?m, sv_values = [1, 2]\<rparr> else \<lparr>sv_model = ?m, sv_values = [4, 8]\<rparr>"
  have "\<forall>s. sv_ok (?store s)" by (simp add: sv_ok_def)
  from interference_is_the_sum [OF this, of "[Add_Signal 1, Add_Signal 2, Get_Psd, Remove_Signal 2, Add_Signal 3]" ?m]
  show ?thesis unfolding Let_def by (simp add: insert_Diff_if)
qed

text \<open>
  C40: With the spectral densities that transmitters create, the power that a PHY measures is the sum of the
  transmission powers on its own channel, and the ratio that decides whether a signal is received is
  its power over that of the other signals of the same channel and the noise: the sixteen channels
  do not touch each other.
\<close>

theorem channels_do_not_interfere:
  assumes "\<forall>t \<in> set (m_signal f). LrWpanSpectrumValueHelper_CreateTxPowerSpectralDensity uid pow10 (dBm t) (chan t) = Some (store t)"
    and "ch = phyCurrentChannel (m_phyPIBAttributes f)" and "11 \<le> ch" and "ch \<le> 26" and "m_noise f = ch"
    and "s \<in> set (m_signal f)" and "chan s = ucast ch" and "watt = (\<lambda>t. pow10 ((dBm t - 30) / 10))"
  shows "phy_sinr (radio_env uid nf store env) s f =
      watt s / ((\<Sum>t\<in>{t \<in> set (m_signal f). t \<noteq> s \<and> chan t = ucast ch}. watt t) + 5000000 * (nf * (13803 / 10 ^ 27 * 290))) \<and>
    env_power (radio_env uid nf store env) (m_signal f) ch = (\<Sum>t\<in>{t \<in> set (m_signal f). chan t = ucast ch}. watt t)"
proof -
  let ?c = "ucast ch :: u32" and ?S = "set (m_signal f)"
  have c: "11 \<le> ?c" "?c \<le> 26" using assms(3,4) by (simp_all add: wide_channel)
  have tx: "sv_ok (store t) \<and> sv_model (store t) = g_LrWpanSpectrumModel uid \<and> watts_in (store t) ?c = (if chan t = ?c then watt t else 0)"
    if t: "t \<in> ?S" for t
  proof -
    have v: "LrWpanSpectrumValueHelper_CreateTxPowerSpectralDensity uid pow10 (dBm t) (chan t) = Some (store t)" using assms(1) t by blast
    then have "11 \<le> chan t" "chan t \<le> 26"
      by (auto simp: LrWpanSpectrumValueHelper_CreateTxPowerSpectralDensity_def Let_def split: if_splits)
    from Tx_watts [OF this, of uid pow10 "dBm t"] v c show ?thesis by (auto simp: assms(8))
  qed
  have ok: "\<forall>t \<in> ?S. sv_ok (store t) \<and> sv_model (store t) = g_LrWpanSpectrumModel uid" using tx by blast
  have sum: "(\<Sum>t\<in>A. watts_in (store t) ?c) = (\<Sum>t\<in>{t \<in> A. chan t = ?c}. watt t)" if "A \<subseteq> ?S" for A
    using that tx by (simp add: sum.inter_filter [OF finite_subset [OF that]] subset_iff)
  have "{t \<in> ?S - {s}. chan t = ?c} = {t \<in> ?S. t \<noteq> s \<and> chan t = ?c}" by blast
  moreover have "env_signalPower (radio_env uid nf store env) s ch = watt s"
    using TotalAvgPower_watts [of "store s" uid, OF _ _ c] tx [OF assms(6)] assms(7) by (simp add: radio_env_def watts_def)
  moreover have "env_otherPower (radio_env uid nf store env) (m_signal f) s ch ch =
    (\<Sum>t\<in>?S - {s}. watts_in (store t) ?c) + 5000000 * (nf * (13803 / 10 ^ 27 * 290))"
    using interference_power_sum [OF ok assms(3,4,6), of nf] by (simp add: radio_env_def watts_def)
  ultimately have "phy_sinr (radio_env uid nf store env) s f =
      watt s / ((\<Sum>t\<in>{t \<in> ?S. t \<noteq> s \<and> chan t = ?c}. watt t) + 5000000 * (nf * (13803 / 10 ^ 27 * 290)))"
    using sum [of "?S - {s}"] assms(2,5) by (simp add: phy_sinr_def Let_def)
  moreover have "env_power (radio_env uid nf store env) (m_signal f) ch = (\<Sum>t\<in>{t \<in> ?S. chan t = ?c}. watt t)"
    using signal_power_sum [OF ok assms(3,4)] sum [of ?S] by (simp add: radio_env_def watts_def)
  ultimately show ?thesis ..
qed

lemma channels_do_not_interfere_witness:
  "let chan = (\<lambda>t :: nat. if t = 2 then 20 else 11 :: u32);
       store = (\<lambda>t. the (LrWpanSpectrumValueHelper_CreateTxPowerSpectralDensity 0 (\<lambda>x. 1) 0 (chan t)));
       env = radio_env 0 1 store (sample_surroundings :: unit phy_env) in
   phy_sinr env 0 (blank_phy\<lparr>m_signal := [0, 1, 2]\<rparr>) = 1 / (1 + 5000000 * (1 * (13803 / 10 ^ 27 * 290))) \<and> env_power env [0, 1, 2] 11 = 2"
proof -
  let ?chan = "\<lambda>t :: nat. if t = 2 then 20 else 11 :: u32" and ?f = "blank_phy\<lparr>m_signal := [0, 1, 2]\<rparr>"
  let ?tx = "\<lambda>t. LrWpanSpectrumValueHelper_CreateTxPowerSpectralDensity 0 (\<lambda>x. 1) 0 (?chan t)"
  have c: "11 \<le> ?chan t" "?chan t \<le> 26" for t by simp_all
  have tx: "\<forall>t \<in> set (m_signal ?f). ?tx t = Some (the (?tx t))"
    using Tx_watts [OF c, of 0 "\<lambda>x. 1" 0] by (metis option.sel)
  have f: "11 = phyCurrentChannel (m_phyPIBAttributes ?f)" "(11 :: u8) \<le> 11" "(11 :: u8) \<le> 26" "m_noise ?f = 11" "0 \<in> set (m_signal ?f)" "?chan 0 = ucast (11 :: u8)"
    by (simp_all add: blank_phy_def)
  note r = channels_do_not_interfere [OF tx f refl, of 1 "sample_surroundings :: unit phy_env"]
  have "{t \<in> set (m_signal ?f). t \<noteq> 0 \<and> ?chan t = ucast (11 :: u8)} = {1}" "{t \<in> set (m_signal ?f). ?chan t = ucast (11 :: u8)} = {0, 1}"
    by auto
  with r show ?thesis unfolding Let_def by simp
qed

section \<open>Further facts\<close>

text \<open>Packing and unpacking the frame control are inverse to each other: every 16-bit value is
  packed back from the fields it was unpacked into, and fields that fit their bits are unpacked
  from the value they were packed into, in whatever object.\<close>

lemma frame_control_bijective:
  "LrWpanMacHeader_GetFrameControl (LrWpanMacHeader_SetFrameControl w f0) = w \<and>
   (\<not> fctrl_ok f \<or> LrWpanMacHeader_SetFrameControl (LrWpanMacHeader_GetFrameControl f) f0 = fctrl_copy f0 f)"
  using GetFrameControl_Set SetFrameControl_Get by blast

lemma frame_control_bijective_witness:
  "\<forall>mem g. LrWpanMacHeader_GetFrameControl (LrWpanMacHeader_SetFrameControl 0x9841 g) = 0x9841 \<and>
     LrWpanMacHeader_SetFrameControl (LrWpanMacHeader_GetFrameControl (sample_data mem)) g = fctrl_copy g (sample_data mem)"
proof (intro allI)
  fix mem g
  have "fctrl_ok (sample_data mem)" using sample_data_ok(1) [of False mem] by (simp add: mac_ok_def)
  then show "LrWpanMacHeader_GetFrameControl (LrWpanMacHeader_SetFrameControl 0x9841 g) = 0x9841 \<and>
     LrWpanMacHeader_SetFrameControl (LrWpanMacHeader_GetFrameControl (sample_data mem)) g = fctrl_copy g (sample_data mem)"
    using frame_control_bijective [of "0x9841" g "sample_data mem"] frame_control_bijective [of 0 g "sample_data mem"] by auto
qed

text \<open>The merge of two beacon bitmaps of the same length, with which a coordinator learns the slots
  its neighbours use, succeeds and marks a slot exactly when one of the two does; bitmaps of
  different lengths are an assertion failure.\<close>

lemma beacon_bitmap_union:
  assumes "bitmap_ok a" and "bitmap_ok b"
  shows "if m_sspecSDBitmapLen a = m_sspecSDBitmapLen b
     then (\<exists>c. BeaconBitmap_or a b = Some c \<and> bitmap_ok c \<and> m_sspecSDBitmapLen c = m_sspecSDBitmapLen a \<and>
             (\<forall>p. sd_taken c p \<longleftrightarrow> sd_taken a p \<or> sd_taken b p))
     else BeaconBitmap_or a b = None"
  using BeaconBitmap_or_spec [OF assms] by (auto simp: BeaconBitmap_or_def BeaconBitmap_GetSDBitmapLength_def)

lemma beacon_bitmap_union_witness:
  "\<exists>c. BeaconBitmap_or sample_bitmap (sample_bitmap\<lparr>m_sspecSDBitmap := [1]\<rparr>) = Some c \<and> sd_taken c 0 \<and> \<not> sd_taken c 7"
proof -
  let ?b = "sample_bitmap\<lparr>m_sspecSDBitmap := [1]\<rparr>"
  have b: "bitmap_ok ?b" "m_sspecSDBitmapLen sample_bitmap = m_sspecSDBitmapLen ?b" "\<not> sd_taken sample_bitmap 7" "sd_taken ?b 0" "\<not> sd_taken ?b 7"
    by (simp_all add: sample_bitmap_def bitmap_ok_def BeaconBitmap_newLen_def BeaconBitmap_ResetSDBitmap_def class_defs
        words16_def sd_taken_def testBit16_def bit_1_iff)
  from beacon_bitmap_union [OF sample_bitmap_ok b(1)] b(2) obtain c where
    "BeaconBitmap_or sample_bitmap ?b = Some c" "\<forall>p. sd_taken c p \<longleftrightarrow> sd_taken sample_bitmap p \<or> sd_taken ?b p"
    unfolding if_P [OF b(2)] by blast
  then show ?thesis using b(3-5) by blast
qed

text \<open>With slots, a backoff that ends at or after the end of the contention access period is
  deferred: exactly the whole backoff periods that fit the rest of the period are taken from it,
  never more than it had, and the only event added is that of the end of the period.\<close>

lemma deferred_backoff_accounted:
  assumes "sim_ok (sim w)" and "0 < symbolRate cm" and "symbolRate cm dvd 10 ^ 9" and "m_isSlotted (csma w)"
    and "csma_bounds (csma w)" and "draw < 7"
    and "p = backoff_periods draw (csma w)" and "unit = uint (m_aUnitBackoffPeriod (csma w)) * int (10 ^ 9 div symbolRate cm)"
    and "t = LrWpanCsmaCa_GetTimeLeftInCap cm w" and "0 \<le> t" and "t \<le> uint p * unit"
  shows "\<exists>w' used. LrWpanCsmaCa_RandomBackoffDelay cm draw w = Some w' \<and>
    m_randomBackoffPeriodsLeft (csma w') = p - used \<and> used \<le> p \<and> uint used * unit \<le> t \<and> t < (uint used + 1) * unit \<and>
    (\<exists>i. fst i = nat t + m_currentTs (sim w) \<and> pending (sim w') = insert (i, DeferCsmaTimeout) (pending (sim w)))"
  by (rule RandomBackoffDelay_defers [OF assms])

lemma deferred_backoff_accounted_witness:
  "\<exists>w' used. LrWpanCsmaCa_RandomBackoffDelay sample_mac 6 sample_late = Some w' \<and>
    m_randomBackoffPeriodsLeft (csma w') = 6 - used \<and> uint used * 320000 \<le> 640000 \<and> 640000 < (uint used + 1) * (320000 :: int)"
proof -
  have b: "sim_ok (sim sample_late)" "m_isSlotted (csma sample_late)" "csma_bounds (csma sample_late)"
    by (simp_all add: sample_late_def sim_ok_def csma_bounds_def LrWpanCsmaCa_new_def class_defs less_prod_def Simulator_new_def)
  have v: "(6 :: u64) = backoff_periods 6 (csma sample_late)"
    "(320000 :: int) = uint (m_aUnitBackoffPeriod (csma sample_late)) * int (10 ^ 9 div symbolRate sample_mac)"
    by (simp_all add: sample_late_def backoff_periods_def LrWpanCsmaCa_new_def class_defs sample_mac_def)
  have t: "640000 = LrWpanCsmaCa_GetTimeLeftInCap sample_mac sample_late"
    by (simp add: sample_late_def LrWpanCsmaCa_GetTimeLeftInCap_def sample_mac_def Simulator_new_def Simulator_Now_def Seconds_def)
  show ?thesis
    using deferred_backoff_accounted [OF b(1) sample_mac_rate b(2,3) _ v t] by auto
qed

text \<open>A DSME information reply that carries a PAN descriptor is read with the descriptor, but only
  thirteen octets are reported as consumed, so that the whole descriptor stays in front of the
  rest of the packet.\<close>

lemma info_reply_descriptor_left:
  assumes "m_cmdFrameId f = MacCommand_val DSME_INFO_REPLY" and "m_infoType f = 2" and "pan_ok (m_dsmePANDercriptorIE f)"
    and "length fresh = CommandPayloadHeader_GetSerializedSize f"
  shows "\<exists>g. Option.bind (AddHeader fresh CommandPayloadHeader_Serialize f p) (RemoveHeader CommandPayloadHeader_Deserialize f0) =
      Some (g, 13, pan_wire (m_dsmePANDercriptorIE f) @ p) \<and>
    pan_beaconBitmapField (m_dsmePANDercriptorIE g) = pan_beaconBitmapField (m_dsmePANDercriptorIE f)"
  using info_reply_leftover [OF assms, of p f0] by (simp add: pan_rebuilt_def)

lemma info_reply_descriptor_left_witness:
  "\<forall>mem f0. \<exists>g. Option.bind (AddHeader (zeros (CommandPayloadHeader_GetSerializedSize (sample_info_reply mem)))
      CommandPayloadHeader_Serialize (sample_info_reply mem) []) (RemoveHeader CommandPayloadHeader_Deserialize f0) =
      Some (g, 13, pan_wire sample_pan) \<and> pan_beaconBitmapField (m_dsmePANDercriptorIE g) = sample_bitmap"
proof (intro allI)
  fix mem f0
  have s: "m_cmdFrameId (sample_info_reply mem) = MacCommand_val DSME_INFO_REPLY" "m_infoType (sample_info_reply mem) = 2"
    "m_dsmePANDercriptorIE (sample_info_reply mem) = sample_pan" "pan_beaconBitmapField sample_pan = sample_bitmap"
    by (simp_all add: sample_info_reply_def CommandPayloadHeader_SetCommandFrameType_def sample_pan_def)
  have ok: "pan_ok (m_dsmePANDercriptorIE (sample_info_reply mem))" by (simp add: s(3) sample_pan_ok)
  show "\<exists>g. Option.bind (AddHeader (zeros (CommandPayloadHeader_GetSerializedSize (sample_info_reply mem)))
      CommandPayloadHeader_Serialize (sample_info_reply mem) []) (RemoveHeader CommandPayloadHeader_Deserialize f0) =
      Some (g, 13, pan_wire sample_pan) \<and> pan_beaconBitmapField (m_dsmePANDercriptorIE g) = sample_bitmap"
    using info_reply_descriptor_left [OF s(1,2) ok, of "zeros (CommandPayloadHeader_GetSerializedSize (sample_info_reply mem))" "[]" f0]
    by (simp add: s(3,4) zeros_def)
qed

text \<open>The loop of \<open>EBFilterIE::Deserialize\<close> that reads the PIB identifiers appends to the list whose
  length bounds it: entered with a nonempty list, it never finishes normally, but runs into the
  assertion on the fifth identifier or off the end of the packet.\<close>

lemma pib_ids_never_read:
  assumes "m_PIBIdList f \<noteq> []"
  shows "readPIBIds 0 f i = None"
  using assms by (intro readPIBIds_never_ends) simp

lemma pib_ids_never_read_witness:
  "\<forall>mem. readPIBIds 0 (mem\<lparr>m_PIBIdList := [3]\<rparr>) ([], [1, 2, 3, 4, 5, 6]) = None"
  by (intro allI pib_ids_never_read) simp

text \<open>Adding a pending short address appends it, keeps the order of those already there and leaves
  the extended ones alone; with seven addresses the field is full and nothing changes. A search
  afterwards finds exactly the addresses that were added.\<close>

lemma pending_addresses_kept:
  assumes "pending_ok f"
  shows "\<exists>g. PendingAddrFields_AddShort a f = Some g \<and> pending_ok g \<and> pending_exts g = pending_exts f \<and>
    pending_shorts g = (if length (pending_shorts f) + length (pending_exts f) = 7 then pending_shorts f else pending_shorts f @ [a]) \<and>
    PendingAddrFields_SearchShort b g = Some (b \<in> set (pending_shorts g))"
  using PendingAddrFields_AddShort_spec [OF assms, of a] PendingAddrFields_Search(1) by fast

lemma pending_addresses_kept_witness:
  "\<exists>g. PendingAddrFields_AddShort (Mac16Address 0 9) (pan_pndAddrFields sample_pan) = Some g \<and>
    pending_shorts g = [Mac16Address 0 5, Mac16Address 0 9] \<and> PendingAddrFields_SearchShort (Mac16Address 0 9) g = Some True"
proof -
  have ok: "pending_ok (pan_pndAddrFields sample_pan)" using sample_pan_ok by (simp add: pan_ok_def)
  have s: "pending_shorts (pan_pndAddrFields sample_pan) = [Mac16Address 0 5]" "pending_exts (pan_pndAddrFields sample_pan) = []"
    by (simp_all add: sample_pan_def pending_shorts_def pending_exts_def)
  show ?thesis using pending_addresses_kept [OF ok, of "Mac16Address 0 9" "Mac16Address 0 9"] by (auto simp: s)
qed

text \<open>A slot allocation bitmap read into an object that has already received one of the same length
  is ignored: the new sub-blocks are appended behind the old ones, and what the receiver looks
  at is still the old bitmap.\<close>

lemma stale_sub_blocks_returned:
  assumes "sab_ok f0" and "sab_ok f" and "m_capReduction f0 = m_capReduction f" and "m_dsmeSABSubBlkLen f0 = m_dsmeSABSubBlkLen f"
  shows "\<exists>g i'. DSMESABSpecificationField_Deserialize f0 (d, sab_wire f @ r) = Some (g, i') \<and> sab_view g = sab_view f0"
  using sab_deserialize [OF assms(2), of f0 d r] sab_view_stale [OF assms(1,3,4)] by blast

lemma stale_sub_blocks_returned_witness:
  "\<exists>g i'. DSMESABSpecificationField_Deserialize (sample_sab 7) ([], sab_wire (sample_sab 1)) = Some (g, i') \<and> sab_view g = [7]"
proof -
  have s: "sab_ok (sample_sab x)" "m_capReduction (sample_sab x) = m_capReduction (sample_sab y)"
    "m_dsmeSABSubBlkLen (sample_sab x) = m_dsmeSABSubBlkLen (sample_sab y)" "sab_view (sample_sab 7) = [7]" for x y
    by (simp_all add: sample_sab_def sab_ok_def sab_view_def)
  show ?thesis
    using stale_sub_blocks_returned [of "sample_sab 7" "sample_sab 1" "[]" "[]"] s(1) s(2,3) [of 7 1] unfolding s(4) by simp
qed

text \<open>The key of a frame in the group acknowledgement table is the first free position of its probe
  sequence \<open>h\<close>, \<open>h + 1\<close>, \<open>h + 5\<close>, \<open>h + 14\<close>, \<open>h + 30\<close>, \<open>h + 55\<close> cut at the end of the table, where
  \<open>h\<close> is the hash modulo 61; when all of these are taken the probing runs out of the table and
  shifts by more than its width. So a frame has at most six places in the table, whatever the hash
  function: its table can be mostly empty when it has none left.\<close>

lemma group_ack_key:
  "LrWpanMac_GenerateHashTableKey H b a s =
    map_option of_nat (find (\<lambda>p. \<not> bit b p) (probes (home H a s)))"
  by (rule GenerateHashTableKey_probes)

text \<open>A device that is alone and lost nothing has every frame acknowledged, collisions included,
  for every hash function: the device repeats the probing of the coordinator step by step.\<close>

lemma group_ack_all_received:
  assumes "collect H (map (Pair a) ss) c = Some c'" and "m_enhancedGACKBitmap c = 0" and "m_enhancedGACKBitmap m = 0"
    and "m_groupAckPktBuffer m = ss"
  shows "\<exists>m'. LrWpanMac_ReceiveGroupAck H a (m_enhancedGACKBitmap c') m = Some (replicate (length ss) True, m')"
proof (cases ss)
  case (Cons s ss')
  have "\<exists>r' m'. LrWpanMac_VerifyGroupAck H a ss (m_enhancedGACKBitmap c') m = Some (replicate (length ss) True, r', m')"
    by (rule VerifyGroupAck_all [OF assms(1)]) (simp_all add: assms)
  moreover have "m_enhancedGACKBitmap c' \<noteq> 0" using collect_marks [OF assms(1) [unfolded Cons list.map]] .
  ultimately show ?thesis using assms(4) by (auto simp: LrWpanMac_ReceiveGroupAck_def)
qed (use assms in \<open>simp add: LrWpanMac_ReceiveGroupAck_def\<close>)

lemma group_ack_all_received_witness:
  "\<exists>m'. LrWpanMac_ReceiveGroupAck (\<lambda>bs. 60) (Mac16Address 0 2) 0x3000000000000000 (sample_gack [7, 8]) = Some ([True, True], m')"
proof -
  have c: "collect (\<lambda>bs. 60) (map (Pair (Mac16Address 0 2)) [7, 8]) (sample_gack []) =
      Some ((sample_gack [])\<lparr>m_enhancedGACKBitmap := 0x3000000000000000\<rparr>)"
    by (simp add: MarkGroupAck_probes home_def probes_def sample_gack_def bit_simps)
  show ?thesis using group_ack_all_received [OF c, of "sample_gack [7, 8]"] by (simp add: sample_gack_def eval_nat_numeral)
qed

text \<open>With the legacy policy the coordinator marks the index of the receiving slot in its allocation
  table, while the device looks up the number of the slot within the superframe: the device takes
  its frame for acknowledged exactly when these two numbers are the same.\<close>

lemma legacy_verdict_by_index:
  assumes "i < 16" and "j < 16" and "a1 < 32" and "m_legacyGackBitmap c = 0" and "m_legacyGackIndexCounter c < 8"
  shows "\<exists>c'. LrWpanMac_MarkLegacyGroupAck (Mac16Address 0 a1) (of_nat i) c = Some c' \<and>
    legacy_verdicts (m_legacyGackBitmap c') [of_nat j] = Some [i = j]"
  by (rule legacy_verdict [OF assms])

lemma legacy_verdict_by_index_witness:
  "\<exists>c'. LrWpanMac_MarkLegacyGroupAck (Mac16Address 0 2) 0 (sample_gack []) = Some c' \<and>
    legacy_verdicts (m_legacyGackBitmap c') [4] = Some [False]"
  using legacy_verdict_by_index [of 0 4 2 "sample_gack []"] by (simp add: sample_gack_def)

text \<open>The channel of every slot is one of the sixteen of the band, 11 to 26, whatever the entry, the
  superframe and the beacon number.\<close>

lemma slot_channel_in_band:
  assumes "0 < m_numOfChannels m" and "m_numOfChannels m \<le> 16"
  shows "\<exists>ch. gts_channel m e = Some ch \<and> 11 \<le> ch \<and> ch \<le> 26"
  by (rule gts_channel_band [OF assms])

lemma slot_channel_in_band_witness:
  "\<exists>ch. gts_channel (mac sample_device) (sample_entry 1 4 0) = Some ch \<and> 11 \<le> ch \<and> ch \<le> 26"
  by (rule slot_channel_in_band) (simp_all add: sample_mac_defs)

text \<open>With CAP reduction a slot of superframe 0 below the final CAP slot starts before the end of
  that superframe's CAP, which the reduction keeps: contention and guaranteed slot collide.\<close>

lemma slot_inside_the_cap:
  assumes "rate_ok env" and "gts_fits (mac w) e" and "m_coord (mac w)" and "m_macCAPReductionFlag (mac w)"
    and "act_superframeID e = 0" and "act_slotID e < m_fnlCapSlot (mac w)" and "16 \<le> m_superframeDuration (mac w)"
  shows "gts_start env w e < int (unat (m_superframeDuration (mac w)) div 16 * (unat (m_fnlCapSlot (mac w)) + 1)) * tick env"
  by (rule gts_in_cap [OF assms])

lemma slot_inside_the_cap_witness:
  "\<forall>hm cm. gts_start (sample_env hm cm) (sample_coord True) (sample_entry 0 2 1) < 540 * 16000"
proof (intro allI)
  fix hm cm
  have h: "m_coord (mac (sample_coord True))" "m_macCAPReductionFlag (mac (sample_coord True))" "act_superframeID (sample_entry 0 2 1) = 0"
    "act_slotID (sample_entry 0 2 1) < m_fnlCapSlot (mac (sample_coord True))" "m_superframeDuration (mac (sample_coord True)) = 960"
    "m_fnlCapSlot (mac (sample_coord True)) = 8"
    by (simp_all add: sample_mac_defs)
  show "gts_start (sample_env hm cm) (sample_coord True) (sample_entry 0 2 1) < 540 * 16000"
    using slot_inside_the_cap [OF sample_env_rate(1) sample_fits(1) h(1-4), of hm cm] by (simp add: h(5,6) sample_env_rate(2))
qed

text \<open>The sub-block of an allocation has exactly the bits of its slots that fit into it, and never
  none: an allocation of zero slots is marked like one of a single slot.\<close>

lemma sub_block_bits:
  assumes "unat s + unat n \<le> 32" and "unat s < 32"
  shows "\<exists>r8 r16. LrWpanMac_GenerateSABSubBlock s n = Some r8 \<and> LrWpanMac_GenerateSABSubBlockCapOn s n = Some r16 \<and>
    (\<forall>k. bit r8 k \<longleftrightarrow> k < 8 \<and> unat s \<le> k \<and> k < unat s + max 1 (unat n)) \<and>
    (\<forall>k. bit r16 k \<longleftrightarrow> k < 16 \<and> unat s \<le> k \<and> k < unat s + max 1 (unat n))"
  using sab_block_spec [OF assms, where ?'a = 8] sab_block_spec [OF assms, where ?'a = 16]
  unfolding LrWpanMac_GenerateSABSubBlock_def LrWpanMac_GenerateSABSubBlockCapOn_def by auto

lemma sub_block_bits_witness:
  "\<exists>r8 r16. LrWpanMac_GenerateSABSubBlock 5 6 = Some r8 \<and> LrWpanMac_GenerateSABSubBlockCapOn 5 6 = Some r16 \<and>
    bit r8 7 \<and> \<not> bit r8 8 \<and> bit r16 10 \<and> \<not> bit r16 11"
  using sub_block_bits [of 5 6] by fastforce

text \<open>Without a group acknowledgement policy, the confirmation that a data frame with an
  acknowledgement request was sent changes nothing: no state change and no timeout is scheduled, the
  queue is not served, and the next received packet fails the assertion of PdDataIndication.\<close>

lemma ack_request_blocks:
  assumes "sim_ok (msim w)" and "m_lrWpanMacState (mac w) = MAC_SENDING \<or> m_lrWpanMacState (mac w) = MAC_GTS_SENDING"
    and "m_groupAckPolicy (mac w) = GROUP_ACK_DISABLED" and "deref (m_txPkt (mac w)) w = Some p" and "mac_peek env p = Some h"
    and "LrWpanMacHeader_IsData h" and "LrWpanMacHeader_IsAckReq h"
  shows "\<exists>v. LrWpanMac_PdDataConfirm env IEEE_802_15_4_PHY_SUCCESS w = Some v \<and> mac v = mac w \<and> mouts v = mouts w \<and>
    timed (msim v) \<subseteq> timed (msim w) \<and> LrWpanMac_CheckQueue v = Some v \<and>
    LrWpanMac_PdDataIndication env psdu lqi v = None"
  by (rule ack_request_stalls [OF assms])

lemma ack_request_blocks_witness:
  "\<forall>hm cm. \<exists>v. LrWpanMac_PdDataConfirm (sample_env hm cm) IEEE_802_15_4_PHY_SUCCESS
      (sample_sending (sample_env hm cm) (sample_request (Mac16Address 0 1) 9)) = Some v \<and>
    m_lrWpanMacState (mac v) = MAC_SENDING \<and> timed (msim v) = {} \<and>
    LrWpanMac_PdDataIndication (sample_env hm cm) [] 0 v = None"
proof (intro allI)
  fix hm cm
  let ?e = "sample_env hm cm" and ?r = "sample_request (Mac16Address 0 1) 9"
  let ?w = "sample_sending ?e ?r" and ?h = "mac_rebuilt (LrWpanMacHeader_new hm) (mcps_header ?e ?r (mac (sample_station (Mac16Address 0 2))))"
  have r: "short_request ?r" by (simp add: short_request_def sample_request_def)
  have w: "sim_ok (msim ?w)" "m_lrWpanMacState (mac ?w) = MAC_SENDING" "m_groupAckPolicy (mac ?w) = GROUP_ACK_DISABLED" "timed (msim ?w) = {}"
    by (simp_all add: sample_sending_def sample_station_def Let_def sim_ok_new timed_new blank_policy)
  have p: "deref (m_txPkt (mac ?w)) ?w = Some (mac_wire (mcps_header ?e ?r (mac (sample_station (Mac16Address 0 2)))) @ [1, 2, 3])"
    by (simp add: deref_def sample_sending_def Let_def)
  have h: "mac_peek ?e (mac_wire (mcps_header ?e ?r (mac (sample_station (Mac16Address 0 2)))) @ [1, 2, 3]) = Some ?h"
    using sample_peek [OF r, of ?e] by (simp add: sample_env_def Let_def)
  have "LrWpanMacHeader_IsAckReq ?h"
    unfolding received_header(2) [OF r]
    by (simp add: asks_ack_def sample_request_def group_address_def sample_station_def) (simp add: blank_mac_def LrWpanMac_new_def)
  from ack_request_blocks [OF w(1) _ w(3) p h received_header(3) [OF r] this, of "[]" 0] w(2,4)
  show "\<exists>v. LrWpanMac_PdDataConfirm ?e IEEE_802_15_4_PHY_SUCCESS ?w = Some v \<and> m_lrWpanMacState (mac v) = MAC_SENDING \<and> timed (msim v) = {} \<and>
    LrWpanMac_PdDataIndication ?e [] 0 v = None" by auto
qed

text \<open>The contention access period that starts after the beacon ends with its final slot, counted from the
  start of the beacon, and the contention free period that starts then ends with the sixteenth slot:
  the remaining period begins one superframe duration (sixteen whole slots) after the beacon.\<close>

lemma periods_fill_sixteen_slots:
  assumes "rate_ok env" and "sim_ok (msim w)" and "sim_ok (msim w')" and "m_fnlCapSlot (mac w) \<le> 15"
    and "Simulator_Now (msim w) = m_macBeaconTxTime (mac w)"
    and "m_macBeaconTxTime (mac w) - m_BeaconStartTxTime (mac w) \<le> cap_length env (mac w)"
    and "Simulator_Now (msim w') = m_BeaconStartTxTime (mac w) + cap_length env (mac w)"
    and "m_macDSMEenabled (mac w')" and "\<not> m_firstCFP (mac w')"
    and "m_fnlCapSlot (mac w') = m_fnlCapSlot (mac w)" and "m_superframeDuration (mac w') = m_superframeDuration (mac w)"
  shows "\<exists>v v'. LrWpanMac_StartCAP env OUTGOING w = Some v \<and> m_outSuperframeStatus (mac v) = CAP \<and>
    (m_BeaconStartTxTime (mac w) + cap_length env (mac w), StartCFP OUTGOING) \<in> timed (msim v) \<and>
    LrWpanMac_StartCFP env OUTGOING w' = Some v' \<and>
    (m_BeaconStartTxTime (mac w) + uint (m_superframeDuration (mac w)) div 16 * 16 * tick env, StartRemainingPeriod OUTGOING) \<in> timed (msim v')"
proof -
  obtain v where v: "LrWpanMac_StartCAP env OUTGOING w = Some v" "m_outSuperframeStatus (mac v) = CAP"
    "(Simulator_Now (msim w) + (cap_length env (mac w) - (m_macBeaconTxTime (mac w) - m_BeaconStartTxTime (mac w))), StartCFP OUTGOING) \<in> timed (msim v)"
    using StartCAP_spec [OF assms(2,1,4) refl assms(6)] by blast
  have c: "cfp_length env (mac w') = cfp_length env (mac w)" using assms(10,11) by (simp add: cfp_length_def)
  obtain v' where v': "LrWpanMac_StartCFP env OUTGOING w' = Some v'"
    "(Simulator_Now (msim w') + cfp_length env (mac w), StartRemainingPeriod OUTGOING) \<in> timed (msim v')"
    using StartCFP_spec [OF assms(3,1) _ assms(8,9)] assms(4,10) unfolding c by auto
  have "Simulator_Now (msim w') + cfp_length env (mac w) =
      m_BeaconStartTxTime (mac w) + uint (m_superframeDuration (mac w)) div 16 * 16 * tick env"
    using portions_add_up [of env "mac w"] assms(7) by simp
  moreover have "Simulator_Now (msim w) + (cap_length env (mac w) - (m_macBeaconTxTime (mac w) - m_BeaconStartTxTime (mac w))) =
      m_BeaconStartTxTime (mac w) + cap_length env (mac w)" using assms(5) by simp
  ultimately show ?thesis using v v' by (intro exI [of _ v] exI [of _ v'] conjI) (simp_all only:)
qed

lemma periods_fill_sixteen_slots_witness:
  "\<forall>hm cm. \<exists>v v'. LrWpanMac_StartCAP (sample_env hm cm) OUTGOING sample_cap = Some v \<and>
    LrWpanMac_StartCFP (sample_env hm cm) OUTGOING sample_cfp = Some v' \<and>
    (960 * 16000, StartRemainingPeriod OUTGOING) \<in> timed (msim v')"
proof (intro allI)
  fix hm cm
  have f: "m_fnlCapSlot (mac sample_cap) \<le> 15" "Simulator_Now (msim sample_cap) = m_macBeaconTxTime (mac sample_cap)"
    "m_macDSMEenabled (mac sample_cfp)" "\<not> m_firstCFP (mac sample_cfp)" "sim_ok (msim sample_cap)" "sim_ok (msim sample_cfp)"
    "m_fnlCapSlot (mac sample_cfp) = m_fnlCapSlot (mac sample_cap)" "m_superframeDuration (mac sample_cfp) = m_superframeDuration (mac sample_cap)"
    "m_macBeaconTxTime (mac sample_cap) - m_BeaconStartTxTime (mac sample_cap) \<le> cap_length (sample_env hm cm) (mac sample_cap)"
    "Simulator_Now (msim sample_cfp) = m_BeaconStartTxTime (mac sample_cap) + cap_length (sample_env hm cm) (mac sample_cap)"
    by (simp_all add: sample_periods sample_env_rate(2) cap_length_def)
  from periods_fill_sixteen_slots [OF sample_env_rate(1) f(5,6,1,2,9,10,3,4,7,8)]
  show "\<exists>v v'. LrWpanMac_StartCAP (sample_env hm cm) OUTGOING sample_cap = Some v \<and>
    LrWpanMac_StartCFP (sample_env hm cm) OUTGOING sample_cfp = Some v' \<and> (960 * 16000, StartRemainingPeriod OUTGOING) \<in> timed (msim v')"
    by (auto simp: sample_periods sample_env_rate(2))
qed

text \<open>After the beacon of a neighbour the bitmap that a coordinator announces marks exactly the slots that it
  or its neighbour had marked, but the slot it names as its own is the neighbour's, while its own
  index stays what it was.\<close>

lemma slots_merged_index_lost:
  assumes "announces env w" and "pan_ok ie" and "m_sspecSDBitmapLen (pan_beaconBitmapField ie) = m_sspecSDBitmapLen (m_macSDBitmap (m_pan (mac w)))"
  shows "\<exists>m ie'. beacon_pan h ie (mac w) = Some m \<and> announce_pan env (w\<lparr>mac := m\<rparr>) = Some ie' \<and>
    (\<forall>p. sd_taken (DsmePANDescriptorIE_GetBeaconBitmap ie') p \<longleftrightarrow>
       sd_taken (m_macSDBitmap (m_pan (mac w))) p \<or> sd_taken (DsmePANDescriptorIE_GetBeaconBitmap ie) p) \<and>
    BeaconBitmap_GetSDIndex (DsmePANDescriptorIE_GetBeaconBitmap ie') = BeaconBitmap_GetSDIndex (DsmePANDescriptorIE_GetBeaconBitmap ie) \<and>
    m_macSDindex m = m_macSDindex (mac w)"
proof -
  let ?own = "m_macSDBitmap (m_pan (mac w))" and ?in = "pan_beaconBitmapField ie"
  have ok: "bitmap_ok ?own" "bitmap_ok ?in" "m_sspecMultiSuperframeOrder (pan_dsmeSuperframeField ie) \<le> 15"
    using assms(1,2) by (simp_all add: announces_def pan_ok_def dsme_superframe_ok_def)
  have len: "length (m_sspecSDBitmap ?own) = length (m_sspecSDBitmap ?in)" using ok(1,2) assms(3) by (simp add: bitmap_ok_def)
  obtain m where m: "beacon_pan h ie (mac w) = Some m" "m_macSDBitmap (m_pan m) = merge_bitmap ?in ?own" "m_macSDindex m = m_macSDindex (mac w)"
    "announces env (w\<lparr>mac := m\<rparr>)"
    using assms(1) ok len order_shift [OF ok(3)]
    by (simp add: beacon_pan_def class_defs mac_pan_upd_def Let_def announces_def merge_bitmap_def bitmap_ok_def)
  obtain ie' where ie': "announce_pan env (w\<lparr>mac := m\<rparr>) = Some ie'" "pan_beaconBitmapField ie' = merge_bitmap ?in ?own"
    using announced_pan [OF m(4) refl] m(2) by auto
  have "sd_taken (merge_bitmap ?in ?own) p \<longleftrightarrow> sd_taken ?own p \<or> sd_taken ?in p" for p
    using merged_slots [OF len] .
  then show ?thesis
    using m(1,3) ie' by (intro exI [of _ m] exI [of _ ie']) (simp add: class_defs merge_bitmap_def Let_def)
qed

lemma slots_merged_index_lost_witness:
  "\<forall>hm cm. \<exists>m ie'. announce_pan (sample_env hm cm) (sample_parent\<lparr>mac := m\<rparr>) = Some ie' \<and>
    sd_taken (DsmePANDescriptorIE_GetBeaconBitmap ie') 4 \<and> BeaconBitmap_GetSDIndex (DsmePANDescriptorIE_GetBeaconBitmap ie') = 9 \<and>
    BeaconBitmap_GetSDIndex (m_macSDBitmap (m_pan (mac sample_parent))) = 2"
proof (intro allI)
  fix hm cm
  let ?ie = "sample_pan\<lparr>pan_beaconBitmapField := sample_bitmap\<lparr>m_sspecSDIndex := 9, m_sspecSDBitmap := [16]\<rparr>\<rparr>"
  have b: "m_sspecSDBitmapLen sample_bitmap = 16" "m_sspecSDIndex sample_bitmap = 2"
    by (simp_all add: sample_bitmap_def BeaconBitmap_newLen_def BeaconBitmap_ResetSDBitmap_def class_defs)
  have ok: "pan_ok ?ie" using sample_pan_ok by (simp add: pan_ok_def bitmap_ok_def b words16_def)
  have l: "m_sspecSDBitmapLen (pan_beaconBitmapField ?ie) = m_sspecSDBitmapLen (m_macSDBitmap (m_pan (mac sample_parent)))"
    by (simp add: sample_beacon_defs b)
  have t: "sd_taken (DsmePANDescriptorIE_GetBeaconBitmap ?ie) 4" by (simp add: sd_taken_def testBit16_def class_defs bit_numeral_rec)
  have i: "BeaconBitmap_GetSDIndex (DsmePANDescriptorIE_GetBeaconBitmap ?ie) = 9" by (simp add: class_defs)
  have o: "BeaconBitmap_GetSDIndex (m_macSDBitmap (m_pan (mac sample_parent))) = 2"
    by (simp add: class_defs sample_beacon_defs b)
  from slots_merged_index_lost [OF sample_announces [of hm cm] ok l, where h = hm] t i o
  show "\<exists>m ie'. announce_pan (sample_env hm cm) (sample_parent\<lparr>mac := m\<rparr>) = Some ie' \<and>
    sd_taken (DsmePANDescriptorIE_GetBeaconBitmap ie') 4 \<and> BeaconBitmap_GetSDIndex (DsmePANDescriptorIE_GetBeaconBitmap ie') = 9 \<and>
    BeaconBitmap_GetSDIndex (m_macSDBitmap (m_pan (mac sample_parent))) = 2" by metis
qed

text \<open>A change of the channel during a transmission switches the transceiver off but does not corrupt the packet,
  although the comment says so: the end of the transmission stays scheduled and confirms SUCCESS. The
  channel is changed even when it is not supported, which is reported as INVALID_PARAMETER.\<close>

lemma channel_change_spares_packet:
  assumes "m_trxState (phy w) = IEEE_802_15_4_PHY_BUSY_TX" and "m_trxStatePending (phy w) = IEEE_802_15_4_PHY_IDLE"
    and "m_currentTxPacket (phy w) = (Some p, False)" and "LrWpanPhy_ChannelSupported ch (phy w) = Some ok" and "LrWpanPhy_GetCurrentChannelNum (phy w) \<noteq> ch"
  shows "\<exists>v u. LrWpanPhy_PlmeSetAttributeRequest (recording base) phyCurrentChannel_id (m_phyPIBAttributes (phy w)\<lparr>phyCurrentChannel := ch\<rparr>) w = Some v \<and>
    pouts v = pouts w @ [PlmeSetAttributeConfirm (if ok then IEEE_802_15_4_PHY_SUCCESS else IEEE_802_15_4_PHY_INVALID_PARAMETER) phyCurrentChannel_id] \<and>
    LrWpanPhy_GetCurrentChannelNum (phy v) = ch \<and> m_trxState (phy v) = IEEE_802_15_4_PHY_TRX_OFF \<and> psim v = psim w \<and>
    LrWpanPhy_EndTx (recording base) v = Some u \<and> pouts u = pouts v @ [PdDataConfirm IEEE_802_15_4_PHY_SUCCESS] \<and> m_trxState (phy u) = IEEE_802_15_4_PHY_TRX_OFF"
proof -
  let ?v = "phy_upd (\<lambda>f. phy_new_spectrum (f\<lparr>m_phyPIBAttributes := (m_phyPIBAttributes f)\<lparr>phyCurrentChannel := ch\<rparr>\<rparr>))
    (phy_upd (\<lambda>f. if fst (m_currentRxPacket (phy w)) \<noteq> None then f\<lparr>m_currentRxPacket := (fst (m_currentRxPacket f), True)\<rparr> else f)
    (phy_upd (\<lambda>f. f\<lparr>m_trxState := IEEE_802_15_4_PHY_TRX_OFF\<rparr>) w))"
  have "phy_switch_off (recording base) w = Some (phy_upd (\<lambda>f. if fst (m_currentRxPacket (phy w)) \<noteq> None then f\<lparr>m_currentRxPacket := (fst (m_currentRxPacket f), True)\<rparr> else f)
    (phy_upd (\<lambda>f. f\<lparr>m_trxState := IEEE_802_15_4_PHY_TRX_OFF\<rparr>) w))"
    using assms(1,2) by (simp add: phy_switch_off_def phy_clear_pending_def phy_destroy_packets_def phy_upd_def LrWpanPhy_PhyIsBusy_def Let_def)
  then have "phy_set_channel (recording base) ch w = Some (if ok then IEEE_802_15_4_PHY_SUCCESS else IEEE_802_15_4_PHY_INVALID_PARAMETER, ?v)"
    using assms(4,5) by (simp add: phy_set_channel_def LrWpanPhy_GetCurrentChannelNum_def Let_def)
  then show ?thesis
    using assms(2,3) by (simp add: LrWpanPhy_PlmeSetAttributeRequest_def recorded LrWpanPhy_EndTx_def phy_apply_pending_def phy_new_spectrum_def phy_upd_def
      LrWpanPhy_GetCurrentChannelNum_def Let_def)
qed

lemma channel_change_spares_packet_witness:
  "\<exists>w v u. w = (sample_radio IEEE_802_15_4_PHY_BUSY_TX ())\<lparr>phy := blank_phy\<lparr>m_trxState := IEEE_802_15_4_PHY_BUSY_TX, m_currentTxPacket := (Some [7], False)\<rparr>\<rparr> \<and>
     LrWpanPhy_PlmeSetAttributeRequest (recording sample_surroundings) phyCurrentChannel_id (m_phyPIBAttributes (phy w)\<lparr>phyCurrentChannel := 3\<rparr>) w = Some v \<and>
     pouts v = [PlmeSetAttributeConfirm IEEE_802_15_4_PHY_INVALID_PARAMETER phyCurrentChannel_id] \<and> LrWpanPhy_GetCurrentChannelNum (phy v) = 3 \<and>
     LrWpanPhy_EndTx (recording sample_surroundings) v = Some u \<and> pouts u = pouts v @ [PdDataConfirm IEEE_802_15_4_PHY_SUCCESS]"
proof -
  let ?w = "(sample_radio IEEE_802_15_4_PHY_BUSY_TX ())\<lparr>phy := blank_phy\<lparr>m_trxState := IEEE_802_15_4_PHY_BUSY_TX, m_currentTxPacket := (Some [7], False)\<rparr>\<rparr>"
  have w: "m_trxState (phy ?w) = IEEE_802_15_4_PHY_BUSY_TX" "m_trxStatePending (phy ?w) = IEEE_802_15_4_PHY_IDLE" "m_currentTxPacket (phy ?w) = (Some [7], False)"
    "LrWpanPhy_ChannelSupported 3 (phy ?w) = Some False" "LrWpanPhy_GetCurrentChannelNum (phy ?w) \<noteq> 3" "pouts ?w = []"
    by (simp_all add: blank_phy_def LrWpanPhy_ChannelSupported_def LrWpanPhy_GetCurrentChannelNum_def shl32_def sample_radio_def Let_def)
  from channel_change_spares_packet [OF w(1-5), of sample_surroundings] w(6) show ?thesis by auto
qed

text \<open>A device that is given the address it reports keeps its short address but is in the PAN whose identifier
  is the lower octet of its own; the address of a device without a short address is refused by an
  abort.\<close>

lemma own_address_loses_pan:
  assumes "types_ok t" and "m_shortAddress (mac (nmac w)) \<noteq> Mac16Address 0 0" and "m_shortAddress (mac (nmac w')) = Mac16Address 0 0"
  shows "(\<exists>v. LrWpanNetDevice_SetAddress t (LrWpanNetDevice_GetAddress t w) w = Some v \<and>
      m_shortAddress (mac (nmac v)) = m_shortAddress (mac (nmac w)) \<and> uint (m_macPanId (mac (nmac v))) = uint (m_macPanId (mac (nmac w))) mod 256) \<and>
    LrWpanNetDevice_SetAddress t (LrWpanNetDevice_GetAddress t w') w = None"
proof
  have "uint (x AND 0xff) = uint x mod 256" for x :: u16
  proof -
    have "x AND 0xff = take_bit 8 x" by (simp add: take_bit_eq_mask mask_eq_exp_minus_1)
    then show ?thesis by (simp add: take_bit_eq_mod uint_mod_distrib)
  qed
  then show "\<exists>v. LrWpanNetDevice_SetAddress t (LrWpanNetDevice_GetAddress t w) w = Some v \<and>
      m_shortAddress (mac (nmac v)) = m_shortAddress (mac (nmac w)) \<and> uint (m_macPanId (mac (nmac v))) = uint (m_macPanId (mac (nmac w))) mod 256"
    using SetAddress_GetAddress [OF assms(1,2)] by (simp add: mac_upd_def)
  have g: "LrWpanNetDevice_GetAddress t w' = Mac64Address_ConvertTo t (m_selfExt (nextra w'))"
    using assms(3) by (simp add: LrWpanNetDevice_GetAddress_def class_defs)
  show "LrWpanNetDevice_SetAddress t (LrWpanNetDevice_GetAddress t w') w = None"
    unfolding g LrWpanNetDevice_SetAddress_def using matching_types(4,5) [OF assms(1)] by simp
qed

lemma own_address_loses_pan_witness:
  "let w = sample_device_of (Mac16Address 0 2) True; x = w\<lparr>nmac := mac_upd (LrWpanMac_SetPanId 0x1234) (nmac w)\<rparr> in
   (\<exists>v. LrWpanNetDevice_SetAddress sample_types (LrWpanNetDevice_GetAddress sample_types x) x = Some v \<and> uint (m_macPanId (mac (nmac v))) = 0x34) \<and>
   LrWpanNetDevice_SetAddress sample_types (LrWpanNetDevice_GetAddress sample_types (sample_device_of (Mac16Address 0 0) True)) x = None"
proof -
  let ?w = "sample_device_of (Mac16Address 0 2) True"
  let ?x = "?w\<lparr>nmac := mac_upd (LrWpanMac_SetPanId 0x1234) (nmac ?w)\<rparr>"
  have x: "m_shortAddress (mac (nmac ?x)) \<noteq> Mac16Address 0 0" "uint (m_macPanId (mac (nmac ?x))) = 0x1234"
    by (simp_all add: mac_upd_def LrWpanMac_SetPanId_def sample_mac_of sample_station_of)
  have z: "m_shortAddress (mac (nmac (sample_device_of (Mac16Address 0 0) True))) = Mac16Address 0 0" by (simp add: sample_mac_of sample_station_of)
  from own_address_loses_pan [OF sample_types_ok x(1) z] x(2)
  show ?thesis unfolding Let_def by auto
qed

end
